(* ===== verification/Prelude.thy ===== *)
theory Prelude
  imports Main "HOL-Library.Word" "HOL-Library.Monad_Syntax"
begin

text \<open>
  What every other theory of the development shares: the machine integer types, the C constants
  of the paging code, the bit lemmas that turn masks and shifts into statements about single
  bits, and small facts about lists, options and maps.
\<close>

unbundle bit_operations_syntax

subsection \<open>Machine integers\<close>

type_synonym u8 = "8 word"
type_synonym u16 = "16 word"
type_synonym u32 = "32 word"
type_synonym u64 = "64 word"

text \<open>An index into a paging structure of 512 entries: the value of an expression masked with
  \<open>0x1FF\<close>. An index into a structure of 1024 entries is masked with \<open>0x3FF\<close>.\<close>

type_synonym idx9 = "9 word"
type_synonym idx10 = "10 word"

text \<open>Facts that unfold the state-passing operations of the model.\<close>

named_theorems step_defs \<open>definitions of single steps, unfolded by the invariant proofs\<close>

subsection \<open>Bits\<close>

text \<open>The simplifier reads the bits of a word numeral off the integer, so the constants of
  the code are described there.\<close>

lemma bit_mask_val: "mask k = m \<Longrightarrow> bit (m :: int) n \<longleftrightarrow> n < k"
  by (auto simp: bit_mask_iff)

lemma bit_mask_int [simp]:
  "bit (3 :: int) n \<longleftrightarrow> n < 2"
  "bit (7 :: int) n \<longleftrightarrow> n < 3"
  "bit (511 :: int) n \<longleftrightarrow> n < 9"
  "bit (1023 :: int) n \<longleftrightarrow> n < 10"
  "bit (4095 :: int) n \<longleftrightarrow> n < 12"
  by (rule bit_mask_val, simp add: mask_eq_exp_minus_1)+

lemma bit_6_int [simp]: "bit (6 :: int) n \<longleftrightarrow> n = 1 \<or> n = 2"
proof -
  have e: "(6 :: int) = push_bit 1 (mask 2)" by (simp add: mask_eq_exp_minus_1)
  show ?thesis unfolding e bit_push_bit_iff bit_mask_iff by auto
qed

lemma and_mask_ucast_9: "(ucast (x AND 0x1FF) :: idx9) = ucast (x :: u64)"
proof -
  have m: "(0x1FF :: u64) = mask 9" by (simp add: mask_eq_exp_minus_1)
  show ?thesis unfolding m
    by (rule bit_word_eqI) (auto simp: bit_simps)
qed

lemma and_mask_ucast_10: "(ucast (x AND 0x3FF) :: idx10) = ucast (x :: u32)"
proof -
  have m: "(0x3FF :: u32) = mask 10" by (simp add: mask_eq_exp_minus_1)
  show ?thesis unfolding m
    by (rule bit_word_eqI) (auto simp: bit_simps)
qed

end
