(* ===== verification/Memslots.thy ===== *)
theory Memslots
  imports Prelude "HOL-Library.Multiset"
begin

text \<open>
  The guest physical memory of a VM (\<^verbatim>\<open>kvm/kvm_main.c\<close> and the x86 part in \<^verbatim>\<open>kvm/x86.c\<close>): the
  table of memory slots, its installation, and \<^verbatim>\<open>__kvm_set_memory_region\<close> with all its error paths.
  Blocks of kernel memory (dirty bitmaps, reverse maps, large page counts) live in an explicit heap,
  because the old and the new table share them.
\<close>

subsection \<open>Data\<close>

definition KVM_USER_MEM_SLOTS :: u32 where "KVM_USER_MEM_SLOTS = 125"
definition KVM_MEM_SLOTS_NUM :: u32 where "KVM_MEM_SLOTS_NUM = 128"
definition KVM_MEM_LOG_DIRTY_PAGES :: u32 where "KVM_MEM_LOG_DIRTY_PAGES = 1"
definition KVM_MEM_READONLY :: u32 where "KVM_MEM_READONLY = 2"

abbreviation EINVAL :: int where "EINVAL \<equiv> 22"
abbreviation ENOMEM :: int where "ENOMEM \<equiv> 12"
abbreviation EEXIST :: int where "EEXIST \<equiv> 17"
abbreviation ENOENT :: int where "ENOENT \<equiv> 2"
abbreviation EFAULT :: int where "EFAULT \<equiv> 14"

text \<open>A pointer to a block is its number, 0 is NULL. \<open>rmap\<close> has three pointers, \<open>lpage_info\<close> two.\<close>

record kvm_memory_slot =
  base_gfn :: u64
  npages :: u64
  dirty_bitmap :: nat
  rmap :: "nat list"
  lpage_info :: "nat list"
  userspace_addr :: u64
  mflags :: u32
  slot_id :: u32

record kvm_memslots =
  generation :: u64
  slot_array :: "kvm_memory_slot list"
  id_to_index :: "u32 \<Rightarrow> nat"

record kvm_userspace_memory_region =
  mem_slot :: u32
  mem_flags :: u32
  guest_phys_addr :: u64
  memory_size :: u64
  mem_userspace_addr :: u64

datatype kvm_mr_change = KVM_MR_CREATE | KVM_MR_DELETE | KVM_MR_MOVE | KVM_MR_FLAGS_ONLY

text \<open>The calls to the MMU and the IOMMU code, which the repository does not contain.\<close>

datatype mmu_call =
    Invalidate_mmio_sptes
  | Iommu_unmap_pages kvm_memory_slot
  | Iommu_map_pages kvm_memory_slot
  | Zap_all_pages
  | Munmap u64 u64
  | Remove_write_access u32
  | Write_protect_masked u32 u64 u64
  | Flush_remote_tlbs
  | Change_mmu_pages nat

text \<open>\<open>heap\<close> maps the number of a live block to its 64-bit entries (a \<^verbatim>\<open>write_count\<close> is kept in one);
  \<open>bad_free\<close> records a release of something that is no live block; \<open>user_mem\<close> is the memory of the
  process that runs the VM.\<close>

record kvm_mem =
  memslots :: kvm_memslots
  heap :: "nat \<Rightarrow> u64 list option"
  bad_free :: bool
  n_requested_mmu_pages :: nat
  mmu_calls :: "mmu_call list"
  user_mem :: "u64 \<Rightarrow> u8"

text \<open>What the code takes from the kernel: \<open>at_id\<close>, \<open>walk\<close>, \<open>search\<close> are \<^verbatim>\<open>id_to_memslot\<close>,
  \<^verbatim>\<open>kvm_for_each_memslot\<close> and \<^verbatim>\<open>search_memslots\<close> of \<^verbatim>\<open>linux/kvm_host.h\<close>, pointers into the table being
  indices; \<open>bitmap_bytes\<close> is \<^verbatim>\<open>kvm_dirty_bitmap_bytes\<close>, \<open>slot_hva\<close> is \<^verbatim>\<open>__gfn_to_hva_memslot\<close>; the
  allocator may fail at any time. The copies to and from user space return the number of bytes they
  did not copy; \<open>readable\<close> and \<open>writable\<close> only occur in the hypotheses about them.\<close>

record mem_lib =
  at_id :: "kvm_memslots \<Rightarrow> u32 \<Rightarrow> nat"
  walk :: "kvm_memslots \<Rightarrow> kvm_memory_slot list"
  search :: "kvm_memslots \<Rightarrow> u64 \<Rightarrow> nat option"
  sort_array :: "(kvm_memory_slot \<Rightarrow> kvm_memory_slot \<Rightarrow> int) \<Rightarrow> kvm_memory_slot list \<Rightarrow> kvm_memory_slot list"
  bitmap_bytes :: "u64 \<Rightarrow> nat"
  max_nr_pages :: u64
  memslot_invalid :: u32
  have_readonly :: bool
  access_ok :: "u64 \<Rightarrow> u64 \<Rightarrow> bool"
  alloc_block :: "(nat \<Rightarrow> u64 list option) \<Rightarrow> nat \<Rightarrow> nat option"
  kmemdup_ok :: "kvm_memslots \<Rightarrow> bool"
  vm_mmap :: "kvm_memory_slot \<Rightarrow> int + u64"
  iommu_map_pages :: "kvm_memory_slot \<Rightarrow> int"
  largepages_enabled :: bool
  calculate_mmu_pages :: "kvm_memslots \<Rightarrow> nat"
  hva_err_bad :: u64
  hva_err_ro_bad :: u64
  is_error_hva :: "u64 \<Rightarrow> bool"
  slot_hva :: "kvm_memory_slot \<Rightarrow> u64 \<Rightarrow> u64"
  copy_from_user :: "(u64 \<Rightarrow> u8) \<Rightarrow> u64 \<Rightarrow> nat \<Rightarrow> nat \<times> u8 list"
  copy_to_user :: "(u64 \<Rightarrow> u8) \<Rightarrow> u64 \<Rightarrow> u8 list \<Rightarrow> nat \<times> (u64 \<Rightarrow> u8)"
  readable :: "u64 \<Rightarrow> bool"
  writable :: "u64 \<Rightarrow> bool"

subsection \<open>Blocks\<close>

definition kvm_kvzalloc :: "mem_lib \<Rightarrow> nat \<Rightarrow> kvm_mem \<Rightarrow> nat \<times> kvm_mem" where
  "kvm_kvzalloc lib n m =
     (case alloc_block lib (heap m) n of
        None \<Rightarrow> (0, m)
      | Some p \<Rightarrow> (p, m\<lparr>heap := (heap m)(p \<mapsto> replicate n 0)\<rparr>))"

definition kvm_kvfree :: "nat \<Rightarrow> kvm_mem \<Rightarrow> kvm_mem" where
  "kvm_kvfree p m =
     (if p = 0 then m
      else if heap m p = None then m\<lparr>bad_free := True\<rparr>
      else m\<lparr>heap := (heap m)(p := None)\<rparr>)"

definition kvm_destroy_dirty_bitmap :: "kvm_memory_slot \<Rightarrow> kvm_mem \<Rightarrow> kvm_mem" where
  "kvm_destroy_dirty_bitmap slot m = (if dirty_bitmap slot = 0 then m else kvm_kvfree (dirty_bitmap slot) m)"

definition kvm_create_dirty_bitmap :: "mem_lib \<Rightarrow> kvm_memory_slot \<Rightarrow> kvm_mem \<Rightarrow> int \<times> kvm_memory_slot \<times> kvm_mem" where
  "kvm_create_dirty_bitmap lib slot m =
     (let dirty_bytes = 2 * bitmap_bytes lib (npages slot);
          (p, m) = kvm_kvzalloc lib (dirty_bytes div 8) m
      in (if p = 0 then - ENOMEM else 0, slot\<lparr>dirty_bitmap := p\<rparr>, m))"

subsection \<open>The x86 part of a slot\<close>

definition KVM_HPAGE_GFN_SHIFT :: "nat \<Rightarrow> nat" where
  "KVM_HPAGE_GFN_SHIFT level = (level - 1) * 9"

definition KVM_PAGES_PER_HPAGE :: "nat \<Rightarrow> u64" where
  "KVM_PAGES_PER_HPAGE level = push_bit (KVM_HPAGE_GFN_SHIFT level) 1"

definition gfn_to_index :: "u64 \<Rightarrow> u64 \<Rightarrow> nat \<Rightarrow> u64" where
  "gfn_to_index gfn b level =
     drop_bit (KVM_HPAGE_GFN_SHIFT level) gfn - drop_bit (KVM_HPAGE_GFN_SHIFT level) b"

definition set_block :: "nat \<Rightarrow> (u64 list \<Rightarrow> u64 list) \<Rightarrow> kvm_mem \<Rightarrow> kvm_mem" where
  "set_block p f m = m\<lparr>heap := (heap m)(p := map_option f (heap m p))\<rparr>"

definition lpages_of :: "kvm_memory_slot \<Rightarrow> u64 \<Rightarrow> nat \<Rightarrow> nat" where
  "lpages_of slot n level =
     unat (ucast (gfn_to_index (base_gfn slot + n - 1) (base_gfn slot) level + 1) :: u32)"

text \<open>Where large pages may not be used: at unaligned ends, and everywhere if the user's memory is
  not aligned with the guest's.\<close>

definition count_lpages ::
    "mem_lib \<Rightarrow> u64 \<Rightarrow> nat \<Rightarrow> kvm_memory_slot \<Rightarrow> nat \<Rightarrow> nat \<Rightarrow> kvm_mem \<Rightarrow> kvm_mem" where
  "count_lpages lib n level slot q lpages m =
     (let m = (if base_gfn slot AND (KVM_PAGES_PER_HPAGE level - 1) \<noteq> 0
               then set_block q (\<lambda>c. c[0 := 1]) m else m);
          m = (if (base_gfn slot + n) AND (KVM_PAGES_PER_HPAGE level - 1) \<noteq> 0
               then set_block q (\<lambda>c. c[lpages - 1 := 1]) m else m);
          ugfn = drop_bit 12 (userspace_addr slot)
      in if (base_gfn slot XOR ugfn) AND (KVM_PAGES_PER_HPAGE level - 1) \<noteq> 0 \<or> \<not> largepages_enabled lib
         then set_block q (\<lambda>c. map (\<lambda>_. 1) c) m else m)"

text \<open>One round of the loop over the page sizes; the flag tells whether both allocations succeeded.\<close>

definition create_level ::
    "mem_lib \<Rightarrow> u64 \<Rightarrow> nat \<Rightarrow> kvm_memory_slot \<Rightarrow> kvm_mem \<Rightarrow> bool \<times> kvm_memory_slot \<times> kvm_mem" where
  "create_level lib n i slot m =
     (let level = i + 1;
          lpages = lpages_of slot n level;
          (p, m) = kvm_kvzalloc lib lpages m;
          slot = slot\<lparr>rmap := (rmap slot)[i := p]\<rparr>
      in if p = 0 then (False, slot, m)
         else if i = 0 then (True, slot, m)
         else
           let (q, m) = kvm_kvzalloc lib lpages m;
               slot = slot\<lparr>lpage_info := (lpage_info slot)[i - 1 := q]\<rparr>
           in if q = 0 then (False, slot, m)
              else (True, slot, count_lpages lib n level slot q lpages m))"

fun create_levels ::
    "mem_lib \<Rightarrow> u64 \<Rightarrow> nat list \<Rightarrow> kvm_memory_slot \<Rightarrow> kvm_mem \<Rightarrow> bool \<times> kvm_memory_slot \<times> kvm_mem" where
  "create_levels lib n [] slot m = (True, slot, m)"
| "create_levels lib n (i # is) slot m =
     (case create_level lib n i slot m of
        (False, slot, m) \<Rightarrow> (False, slot, m)
      | (True, slot, m) \<Rightarrow> create_levels lib n is slot m)"

text \<open>The error path releases whatever the slot points to.\<close>

definition release_level :: "nat \<Rightarrow> kvm_memory_slot \<times> kvm_mem \<Rightarrow> kvm_memory_slot \<times> kvm_mem" where
  "release_level i sm =
     (case sm of (slot, m) \<Rightarrow>
        let m = kvm_kvfree (rmap slot ! i) m;
            slot = slot\<lparr>rmap := (rmap slot)[i := 0]\<rparr>
        in if i = 0 then (slot, m)
           else (slot\<lparr>lpage_info := (lpage_info slot)[i - 1 := 0]\<rparr>, kvm_kvfree (lpage_info slot ! (i - 1)) m))"

definition kvm_arch_create_memslot ::
    "mem_lib \<Rightarrow> kvm_memory_slot \<Rightarrow> u64 \<Rightarrow> kvm_mem \<Rightarrow> int \<times> kvm_memory_slot \<times> kvm_mem" where
  "kvm_arch_create_memslot lib slot n m =
     (case create_levels lib n [0, 1, 2] slot m of
        (True, slot, m) \<Rightarrow> (0, slot, m)
      | (False, slot, m) \<Rightarrow> (- ENOMEM, fold release_level [0, 1, 2] (slot, m)))"

text \<open>Releasing the blocks of \<open>free\<close> that \<open>dont\<close> does not have; both slots are copies that are dropped
  afterwards, so the fields the code clears in \<open>free\<close> are not returned.\<close>

definition free_level :: "kvm_memory_slot \<Rightarrow> kvm_memory_slot option \<Rightarrow> nat \<Rightarrow> kvm_mem \<Rightarrow> kvm_mem" where
  "free_level free dont i m =
     (let differs = (\<lambda>f. case dont of None \<Rightarrow> True | Some d \<Rightarrow> f free \<noteq> (f d :: nat));
          m = (if differs (\<lambda>s. rmap s ! i) then kvm_kvfree (rmap free ! i) m else m)
      in if i = 0 then m
         else if differs (\<lambda>s. lpage_info s ! (i - 1)) then kvm_kvfree (lpage_info free ! (i - 1)) m else m)"

definition kvm_arch_free_memslot :: "kvm_memory_slot \<Rightarrow> kvm_memory_slot option \<Rightarrow> kvm_mem \<Rightarrow> kvm_mem" where
  "kvm_arch_free_memslot free dont m = fold (free_level free dont) [0, 1, 2] m"

definition kvm_free_physmem_slot :: "kvm_memory_slot \<Rightarrow> kvm_memory_slot option \<Rightarrow> kvm_mem \<Rightarrow> kvm_mem" where
  "kvm_free_physmem_slot free dont m =
     (let m = (if (case dont of None \<Rightarrow> True | Some d \<Rightarrow> dirty_bitmap free \<noteq> dirty_bitmap d)
               then kvm_destroy_dirty_bitmap free m else m)
      in kvm_arch_free_memslot free dont m)"

definition kvm_free_physmem :: "mem_lib \<Rightarrow> kvm_mem \<Rightarrow> kvm_mem" where
  "kvm_free_physmem lib m = fold (\<lambda>s. kvm_free_physmem_slot s None) (walk lib (memslots m)) m"

subsection \<open>The table\<close>

definition cmp_memslot :: "kvm_memory_slot \<Rightarrow> kvm_memory_slot \<Rightarrow> int" where
  "cmp_memslot s1 s2 =
     (if npages s1 < npages s2 then 1 else if npages s1 > npages s2 then -1 else 0)"

definition sort_memslots :: "mem_lib \<Rightarrow> kvm_memslots \<Rightarrow> kvm_memslots" where
  "sort_memslots lib slots =
     (let a = sort_array lib cmp_memslot (slot_array slots)
      in slots\<lparr>slot_array := a,
               id_to_index := fold (\<lambda>i f. f(slot_id (a ! i) := i)) [0..<unat KVM_MEM_SLOTS_NUM] (id_to_index slots)\<rparr>)"

definition update_memslots :: "mem_lib \<Rightarrow> kvm_memslots \<Rightarrow> kvm_memory_slot option \<Rightarrow> kvm_memslots" where
  "update_memslots lib slots new =
     (case new of
        None \<Rightarrow> slots
      | Some new \<Rightarrow>
          let i = at_id lib slots (slot_id new);
              n = npages (slot_array slots ! i);
              slots = slots\<lparr>slot_array := (slot_array slots)[i := new]\<rparr>
          in if npages new \<noteq> n then sort_memslots lib slots else slots)"

definition check_memory_region_flags :: "mem_lib \<Rightarrow> kvm_userspace_memory_region \<Rightarrow> int" where
  "check_memory_region_flags lib mem =
     (let valid_flags = (if have_readonly lib then KVM_MEM_LOG_DIRTY_PAGES OR KVM_MEM_READONLY
                         else KVM_MEM_LOG_DIRTY_PAGES)
      in if mem_flags mem AND NOT valid_flags \<noteq> 0 then - EINVAL else 0)"

definition kvm_arch_memslots_updated :: "kvm_mem \<Rightarrow> kvm_mem" where
  "kvm_arch_memslots_updated m = m\<lparr>mmu_calls := mmu_calls m @ [Invalidate_mmio_sptes]\<rparr>"

definition install_new_memslots ::
    "mem_lib \<Rightarrow> kvm_memslots \<Rightarrow> kvm_memory_slot option \<Rightarrow> kvm_mem \<Rightarrow> kvm_memslots \<times> kvm_mem" where
  "install_new_memslots lib slots new m =
     (let old_memslots = memslots m;
          slots = slots\<lparr>generation := generation old_memslots + 1\<rparr>;
          slots = update_memslots lib slots new;
          slots = slots\<lparr>generation := generation slots + 1\<rparr>
      in (old_memslots, kvm_arch_memslots_updated (m\<lparr>memslots := slots\<rparr>)))"

definition kvm_init_memslots_id :: kvm_memslots where
  "kvm_init_memslots_id =
     \<lparr>generation = - 150,
      slot_array = map (\<lambda>i. \<lparr>base_gfn = 0, npages = 0, dirty_bitmap = 0, rmap = [0, 0, 0], lpage_info = [0, 0],
        userspace_addr = 0, mflags = 0, slot_id = of_nat i\<rparr>) [0..<128],
      id_to_index = unat\<rparr>"

subsection \<open>Setting a memory region\<close>

text \<open>The sanity checks, and which change the request asks for. \<open>Inl r\<close> leaves with \<open>r\<close>; otherwise
  the change, the old and the new slot, and the request with the flags the code corrects in it.\<close>

definition change_of ::
    "kvm_userspace_memory_region \<Rightarrow> kvm_memory_slot \<Rightarrow> kvm_memory_slot \<Rightarrow> int + kvm_mr_change" where
  "change_of mem old new =
     (if npages new \<noteq> 0 then
        if npages old = 0 then Inr KVM_MR_CREATE
        else if mem_userspace_addr mem \<noteq> userspace_addr old \<or> npages new \<noteq> npages old
                \<or> (mflags new XOR mflags old) AND KVM_MEM_READONLY \<noteq> 0
             then Inl (- EINVAL)
        else if base_gfn new \<noteq> base_gfn old then Inr KVM_MR_MOVE
        else if mflags new \<noteq> mflags old then Inr KVM_MR_FLAGS_ONLY
        else Inl 0
      else if npages old \<noteq> 0 then Inr KVM_MR_DELETE
      else Inl (- EINVAL))"

definition region_checks ::
    "mem_lib \<Rightarrow> kvm_userspace_memory_region \<Rightarrow> kvm_mem \<Rightarrow>
     int + (kvm_mr_change \<times> kvm_memory_slot \<times> kvm_memory_slot \<times> kvm_userspace_memory_region)" where
  "region_checks lib mem m =
     (let r = check_memory_region_flags lib mem in
      if r \<noteq> 0 then Inl r
      else if memory_size mem AND 0xFFF \<noteq> 0 then Inl (- EINVAL)
      else if guest_phys_addr mem AND 0xFFF \<noteq> 0 then Inl (- EINVAL)
      else if mem_slot mem < KVM_USER_MEM_SLOTS
              \<and> (mem_userspace_addr mem AND 0xFFF \<noteq> 0
                 \<or> \<not> access_ok lib (mem_userspace_addr mem) (memory_size mem)) then Inl (- EINVAL)
      else if KVM_MEM_SLOTS_NUM \<le> mem_slot mem then Inl (- EINVAL)
      else if guest_phys_addr mem + memory_size mem < guest_phys_addr mem then Inl (- EINVAL)
      else
        let b = drop_bit 12 (guest_phys_addr mem);
            n = drop_bit 12 (memory_size mem)
        in if n > max_nr_pages lib then Inl (- EINVAL)
           else
             let mem = (if n = 0 then mem\<lparr>mem_flags := mem_flags mem AND NOT KVM_MEM_LOG_DIRTY_PAGES\<rparr> else mem);
                 old = slot_array (memslots m) ! at_id lib (memslots m) (mem_slot mem);
                 new = old\<lparr>slot_id := mem_slot mem, base_gfn := b, npages := n, mflags := mem_flags mem\<rparr>
             in case change_of mem old new of
                  Inl r \<Rightarrow> Inl r
                | Inr change \<Rightarrow> Inr (change, old, new, mem))"

definition overlaps :: "mem_lib \<Rightarrow> kvm_memory_slot \<Rightarrow> kvm_memslots \<Rightarrow> bool" where
  "overlaps lib new slots = list_ex (\<lambda>s.
     \<not> (slot_id s \<ge> KVM_USER_MEM_SLOTS \<or> slot_id s = slot_id new)
     \<and> \<not> (base_gfn new + npages new \<le> base_gfn s \<or> base_gfn new \<ge> base_gfn s + npages s)) (walk lib slots)"

text \<open>The memory of the new slot; the flag tells whether all of it could be allocated.\<close>

definition alloc_slot ::
    "mem_lib \<Rightarrow> kvm_mr_change \<Rightarrow> kvm_userspace_memory_region \<Rightarrow> kvm_memory_slot \<Rightarrow> kvm_mem \<Rightarrow>
     bool \<times> kvm_memory_slot \<times> kvm_mem" where
  "alloc_slot lib change mem new m =
     (let new = (if mflags new AND KVM_MEM_LOG_DIRTY_PAGES = 0 then new\<lparr>dirty_bitmap := 0\<rparr> else new);
          (r, new, m) = (if change = KVM_MR_CREATE
                         then kvm_arch_create_memslot lib (new\<lparr>userspace_addr := mem_userspace_addr mem\<rparr>)
                                (npages new) m
                         else (0, new, m))
      in if r \<noteq> 0 then (False, new, m)
         else if mflags new AND KVM_MEM_LOG_DIRTY_PAGES \<noteq> 0 \<and> dirty_bitmap new = 0 then
           case kvm_create_dirty_bitmap lib new m of (r, new, m) \<Rightarrow> (0 \<le> r, new, m)
         else (True, new, m))"

definition kvm_arch_prepare_memory_region ::
    "mem_lib \<Rightarrow> kvm_memory_slot \<Rightarrow> kvm_mr_change \<Rightarrow> int \<times> kvm_memory_slot" where
  "kvm_arch_prepare_memory_region lib slot change =
     (if KVM_USER_MEM_SLOTS \<le> slot_id slot \<and> change = KVM_MR_CREATE then
        case vm_mmap lib slot of
          Inl e \<Rightarrow> (e, slot)
        | Inr a \<Rightarrow> (0, slot\<lparr>userspace_addr := a\<rparr>)
      else (0, slot))"

definition kvm_arch_commit_memory_region ::
    "mem_lib \<Rightarrow> kvm_userspace_memory_region \<Rightarrow> kvm_memory_slot \<Rightarrow> kvm_mr_change \<Rightarrow> kvm_mem \<Rightarrow> kvm_mem" where
  "kvm_arch_commit_memory_region lib mem old change m =
     (let m = (if KVM_USER_MEM_SLOTS \<le> mem_slot mem \<and> change = KVM_MR_DELETE
               then m\<lparr>mmu_calls := mmu_calls m @ [Munmap (userspace_addr old) (npages old * 0x1000)]\<rparr> else m);
          nr_mmu_pages = (if n_requested_mmu_pages m = 0 then calculate_mmu_pages lib (memslots m) else 0);
          m = (if nr_mmu_pages \<noteq> 0 then m\<lparr>mmu_calls := mmu_calls m @ [Change_mmu_pages nr_mmu_pages]\<rparr> else m)
      in if change \<noteq> KVM_MR_DELETE \<and> mem_flags mem AND KVM_MEM_LOG_DIRTY_PAGES \<noteq> 0
         then m\<lparr>mmu_calls := mmu_calls m @ [Remove_write_access (mem_slot mem)]\<rparr> else m)"

text \<open>A deleted or moved slot is first installed as invalid, in a copy of the table.\<close>

definition invalidate_slot ::
    "mem_lib \<Rightarrow> kvm_userspace_memory_region \<Rightarrow> kvm_memory_slot \<Rightarrow> kvm_mem \<Rightarrow> kvm_memslots \<times> kvm_mem" where
  "invalidate_slot lib mem old m =
     (let slots = memslots m;
          i = at_id lib slots (mem_slot mem);
          slot = (slot_array slots ! i)\<lparr>mflags := mflags (slot_array slots ! i) OR memslot_invalid lib\<rparr>;
          slots = slots\<lparr>slot_array := (slot_array slots)[i := slot]\<rparr>;
          (old_memslots, m) = install_new_memslots lib slots None m
      in (old_memslots, m\<lparr>mmu_calls := mmu_calls m @ [Iommu_unmap_pages old, Zap_all_pages]\<rparr>))"

text \<open>From the table to change on: the last part of the operation.\<close>

definition commit_region ::
    "mem_lib \<Rightarrow> kvm_mr_change \<Rightarrow> kvm_userspace_memory_region \<Rightarrow> kvm_memory_slot \<Rightarrow> kvm_memory_slot \<Rightarrow>
     kvm_memslots \<Rightarrow> kvm_mem \<Rightarrow> int \<times> kvm_mem" where
  "commit_region lib change mem old new slots m =
     (let new = (if change = KVM_MR_DELETE
                 then new\<lparr>dirty_bitmap := 0, rmap := [0, 0, 0], lpage_info := [0, 0]\<rparr> else new);
          (_, m) = install_new_memslots lib slots (Some new) m;
          m = kvm_arch_commit_memory_region lib mem old change m;
          m = kvm_free_physmem_slot old (Some new) m
      in if change = KVM_MR_CREATE \<or> change = KVM_MR_MOVE
         then (iommu_map_pages lib new, m\<lparr>mmu_calls := mmu_calls m @ [Iommu_map_pages new]\<rparr>)
         else (0, m))"

definition do_set_memory_region ::
    "mem_lib \<Rightarrow> kvm_userspace_memory_region \<Rightarrow> kvm_mem \<Rightarrow> int \<times> kvm_mem" where
  "do_set_memory_region lib mem m =
     (case region_checks lib mem m of
        Inl r \<Rightarrow> (r, m)
      | Inr (change, old, new, mem) \<Rightarrow>
          if (change = KVM_MR_CREATE \<or> change = KVM_MR_MOVE) \<and> overlaps lib new (memslots m)
          then (- EEXIST, m)
          else
            case alloc_slot lib change mem new m of (done, new, m) \<Rightarrow>
            if \<not> done then (- ENOMEM, kvm_free_physmem_slot new (Some old) m)
            else if \<not> kmemdup_ok lib (memslots m) then
              (if change = KVM_MR_DELETE \<or> change = KVM_MR_MOVE
               then (- ENOMEM, kvm_free_physmem_slot new (Some old) m)
               else case kvm_arch_prepare_memory_region lib new change of (r, new) \<Rightarrow>
                 (if r \<noteq> 0 then r else - ENOMEM, kvm_free_physmem_slot new (Some old) m))
            else
              case (if change = KVM_MR_DELETE \<or> change = KVM_MR_MOVE then invalidate_slot lib mem old m
                    else (memslots m, m)) of (slots, m) \<Rightarrow>
              case kvm_arch_prepare_memory_region lib new change of (r, new) \<Rightarrow>
              if r \<noteq> 0 then (r, kvm_free_physmem_slot new (Some old) m)
              else commit_region lib change mem old new slots m)"

definition kvm_set_memory_region ::
    "mem_lib \<Rightarrow> kvm_userspace_memory_region \<Rightarrow> kvm_mem \<Rightarrow> int \<times> kvm_mem" where
  "kvm_set_memory_region lib mem m = do_set_memory_region lib mem m"

definition kvm_vm_ioctl_set_memory_region ::
    "mem_lib \<Rightarrow> kvm_userspace_memory_region \<Rightarrow> kvm_mem \<Rightarrow> int \<times> kvm_mem" where
  "kvm_vm_ioctl_set_memory_region lib mem m =
     (if KVM_USER_MEM_SLOTS \<le> mem_slot mem then (- EINVAL, m) else kvm_set_memory_region lib mem m)"

end
