(* ===== verification/Guest_Memory.thy ===== *)
theory Guest_Memory
  imports Memslots
begin

text \<open>
  Access to guest memory through the slots (\<^verbatim>\<open>kvm/kvm_main.c\<close>): translation of guest frames to user
  addresses, reading, writing and clearing ranges page by page, the cached translation, the dirty
  bitmap and its retrieval (\<^verbatim>\<open>kvm/x86.c\<close>).
\<close>

subsection \<open>Translation\<close>

definition gfn_to_memslot :: "mem_lib \<Rightarrow> kvm_mem \<Rightarrow> u64 \<Rightarrow> kvm_memory_slot option" where
  "gfn_to_memslot lib m gfn = map_option (\<lambda>i. slot_array (memslots m) ! i) (search lib (memslots m) gfn)"

definition kvm_is_visible_gfn :: "mem_lib \<Rightarrow> kvm_mem \<Rightarrow> u64 \<Rightarrow> bool" where
  "kvm_is_visible_gfn lib m gfn =
     (case gfn_to_memslot lib m gfn of
        None \<Rightarrow> False
      | Some s \<Rightarrow> \<not> (KVM_USER_MEM_SLOTS \<le> slot_id s \<or> mflags s AND memslot_invalid lib \<noteq> 0))"

definition memslot_is_readonly :: "kvm_memory_slot \<Rightarrow> bool" where
  "memslot_is_readonly s = (mflags s AND KVM_MEM_READONLY \<noteq> 0)"

text \<open>The address, and the number of pages available from \<open>gfn\<close> on where the code reports it.\<close>

definition gfn_to_hva_many_prot :: "mem_lib \<Rightarrow> kvm_memory_slot option \<Rightarrow> u64 \<Rightarrow> bool \<Rightarrow> u64 \<times> u64 option" where
  "gfn_to_hva_many_prot lib slot gfn write =
     (case slot of
        None \<Rightarrow> (hva_err_bad lib, None)
      | Some s \<Rightarrow>
          if mflags s AND memslot_invalid lib \<noteq> 0 then (hva_err_bad lib, None)
          else if memslot_is_readonly s \<and> write then (hva_err_ro_bad lib, None)
          else (slot_hva lib s gfn, Some (npages s - (gfn - base_gfn s))))"

definition gfn_to_hva_many :: "mem_lib \<Rightarrow> kvm_memory_slot option \<Rightarrow> u64 \<Rightarrow> u64 \<times> u64 option" where
  "gfn_to_hva_many lib slot gfn = gfn_to_hva_many_prot lib slot gfn True"

definition gfn_to_hva_memslot :: "mem_lib \<Rightarrow> kvm_memory_slot option \<Rightarrow> u64 \<Rightarrow> u64" where
  "gfn_to_hva_memslot lib slot gfn = fst (gfn_to_hva_many lib slot gfn)"

definition gfn_to_hva :: "mem_lib \<Rightarrow> kvm_mem \<Rightarrow> u64 \<Rightarrow> u64" where
  "gfn_to_hva lib m gfn = fst (gfn_to_hva_many lib (gfn_to_memslot lib m gfn) gfn)"

text \<open>The second component is \<^verbatim>\<open>*writable\<close>, where it is set.\<close>

definition gfn_to_hva_prot :: "mem_lib \<Rightarrow> kvm_mem \<Rightarrow> u64 \<Rightarrow> u64 \<times> bool option" where
  "gfn_to_hva_prot lib m gfn =
     (let slot = gfn_to_memslot lib m gfn;
          hva = fst (gfn_to_hva_many_prot lib slot gfn False)
      in (hva, if is_error_hva lib hva then None else map_option (\<lambda>s. \<not> memslot_is_readonly s) slot))"

subsection \<open>Dirty pages\<close>

definition mark_page_dirty_in_slot :: "kvm_memory_slot option \<Rightarrow> u64 \<Rightarrow> kvm_mem \<Rightarrow> kvm_mem" where
  "mark_page_dirty_in_slot slot gfn m =
     (case slot of
        None \<Rightarrow> m
      | Some s \<Rightarrow>
          if dirty_bitmap s = 0 then m
          else let rel_gfn = unat (gfn - base_gfn s)
               in set_block (dirty_bitmap s)
                    (\<lambda>l. l[rel_gfn div 64 := set_bit (rel_gfn mod 64) (l ! (rel_gfn div 64))]) m)"

definition mark_page_dirty :: "mem_lib \<Rightarrow> u64 \<Rightarrow> kvm_mem \<Rightarrow> kvm_mem" where
  "mark_page_dirty lib gfn m = mark_page_dirty_in_slot (gfn_to_memslot lib m gfn) gfn m"

subsection \<open>Reading and writing\<close>

definition next_segment :: "nat \<Rightarrow> nat \<Rightarrow> nat" where
  "next_segment len offset = (if len > 0x1000 - offset then 0x1000 - offset else len)"

lemma next_segment_le: "next_segment len offset \<le> len"
  by (simp add: next_segment_def)

text \<open>A read returns the bytes or the error; what the buffer holds after an error is not modelled.\<close>

definition kvm_read_guest_page :: "mem_lib \<Rightarrow> kvm_mem \<Rightarrow> u64 \<Rightarrow> nat \<Rightarrow> nat \<Rightarrow> int + u8 list" where
  "kvm_read_guest_page lib m gfn offset len =
     (let addr = fst (gfn_to_hva_prot lib m gfn)
      in if is_error_hva lib addr then Inl (- EFAULT)
         else case copy_from_user lib (user_mem m) (addr + of_nat offset) len of
                (r, data) \<Rightarrow> if r \<noteq> 0 then Inl (- EFAULT) else Inr data)"

function read_guest_loop :: "mem_lib \<Rightarrow> kvm_mem \<Rightarrow> u64 \<Rightarrow> nat \<Rightarrow> nat \<Rightarrow> int + u8 list" where
  "read_guest_loop lib m gfn offset len =
     (let seg = next_segment len offset
      in if seg = 0 then Inr []
         else case kvm_read_guest_page lib m gfn offset seg of
                Inl e \<Rightarrow> Inl e
              | Inr d \<Rightarrow> (case read_guest_loop lib m (gfn + 1) 0 (len - seg) of
                            Inl e \<Rightarrow> Inl e
                          | Inr d' \<Rightarrow> Inr (d @ d')))"
  by pat_completeness auto
termination
  by (relation "measure (\<lambda>(lib, m, gfn, offset, len). len)") (auto simp: next_segment_def split: if_splits)

definition kvm_read_guest :: "mem_lib \<Rightarrow> kvm_mem \<Rightarrow> u64 \<Rightarrow> nat \<Rightarrow> int + u8 list" where
  "kvm_read_guest lib m gpa len = read_guest_loop lib m (drop_bit 12 gpa) (unat (gpa AND 0xFFF)) len"

text \<open>The variant for contexts that must not fault takes no further page into account.\<close>

definition kvm_read_guest_atomic :: "mem_lib \<Rightarrow> kvm_mem \<Rightarrow> u64 \<Rightarrow> nat \<Rightarrow> int + u8 list" where
  "kvm_read_guest_atomic lib m gpa len =
     (let addr = fst (gfn_to_hva_prot lib m (drop_bit 12 gpa))
      in if is_error_hva lib addr then Inl (- EFAULT)
         else case copy_from_user lib (user_mem m) (addr + (gpa AND 0xFFF)) len of
                (r, data) \<Rightarrow> if r \<noteq> 0 then Inl (- EFAULT) else Inr data)"

definition kvm_write_guest_page :: "mem_lib \<Rightarrow> u64 \<Rightarrow> u8 list \<Rightarrow> nat \<Rightarrow> kvm_mem \<Rightarrow> int \<times> kvm_mem" where
  "kvm_write_guest_page lib gfn data offset m =
     (let addr = gfn_to_hva lib m gfn
      in if is_error_hva lib addr then (- EFAULT, m)
         else case copy_to_user lib (user_mem m) (addr + of_nat offset) data of
                (r, u) \<Rightarrow> if r \<noteq> 0 then (- EFAULT, m\<lparr>user_mem := u\<rparr>)
                         else (0, mark_page_dirty lib gfn (m\<lparr>user_mem := u\<rparr>)))"

function write_guest_loop :: "mem_lib \<Rightarrow> u64 \<Rightarrow> u8 list \<Rightarrow> nat \<Rightarrow> kvm_mem \<Rightarrow> int \<times> kvm_mem" where
  "write_guest_loop lib gfn data offset m =
     (let seg = next_segment (length data) offset
      in if seg = 0 then (0, m)
         else case kvm_write_guest_page lib gfn (take seg data) offset m of
                (ret, m) \<Rightarrow> if ret < 0 then (ret, m)
                           else write_guest_loop lib (gfn + 1) (drop seg data) 0 m)"
  by pat_completeness auto
termination
  by (relation "measure (\<lambda>(lib, gfn, data, offset, m). length data)") (auto simp: next_segment_def split: if_splits)

definition kvm_write_guest :: "mem_lib \<Rightarrow> u64 \<Rightarrow> u8 list \<Rightarrow> kvm_mem \<Rightarrow> int \<times> kvm_mem" where
  "kvm_write_guest lib gpa data m = write_guest_loop lib (drop_bit 12 gpa) data (unat (gpa AND 0xFFF)) m"

definition kvm_clear_guest_page :: "mem_lib \<Rightarrow> u64 \<Rightarrow> nat \<Rightarrow> nat \<Rightarrow> kvm_mem \<Rightarrow> int \<times> kvm_mem" where
  "kvm_clear_guest_page lib gfn offset len m = kvm_write_guest_page lib gfn (replicate len 0) offset m"

function clear_guest_loop :: "mem_lib \<Rightarrow> u64 \<Rightarrow> nat \<Rightarrow> nat \<Rightarrow> kvm_mem \<Rightarrow> int \<times> kvm_mem" where
  "clear_guest_loop lib gfn offset len m =
     (let seg = next_segment len offset
      in if seg = 0 then (0, m)
         else case kvm_clear_guest_page lib gfn offset seg m of
                (ret, m) \<Rightarrow> if ret < 0 then (ret, m) else clear_guest_loop lib (gfn + 1) 0 (len - seg) m)"
  by pat_completeness auto
termination
  by (relation "measure (\<lambda>(lib, gfn, offset, len, m). len)") (auto simp: next_segment_def split: if_splits)

definition kvm_clear_guest :: "mem_lib \<Rightarrow> u64 \<Rightarrow> nat \<Rightarrow> kvm_mem \<Rightarrow> int \<times> kvm_mem" where
  "kvm_clear_guest lib gpa len m = clear_guest_loop lib (drop_bit 12 gpa) (unat (gpa AND 0xFFF)) len m"

text \<open>The loops are unfolded only on demand.\<close>

declare read_guest_loop.simps [simp del] write_guest_loop.simps [simp del] clear_guest_loop.simps [simp del]

subsection \<open>The cached translation\<close>

record gfn_to_hva_cache =
  ghc_generation :: u64
  ghc_gpa :: u64
  ghc_hva :: u64
  ghc_len :: u64
  ghc_memslot :: "kvm_memory_slot option"

text \<open>The loop over the slots that a range crosses has no bound of its own; None means it does not end.\<close>

partial_function (option) hva_cache_loop ::
    "mem_lib \<Rightarrow> kvm_mem \<Rightarrow> u64 \<Rightarrow> u64 \<Rightarrow> gfn_to_hva_cache \<Rightarrow> (int \<times> gfn_to_hva_cache) option" where
  "hva_cache_loop lib m start_gfn end_gfn ghc =
     (if start_gfn \<le> end_gfn then
        (let slot = gfn_to_memslot lib m start_gfn;
             (hva, avail) = gfn_to_hva_many lib slot start_gfn;
             ghc = ghc\<lparr>ghc_memslot := slot, ghc_hva := hva\<rparr>
         in if is_error_hva lib hva then Some (- EFAULT, ghc)
            else hva_cache_loop lib m (start_gfn + (case avail of None \<Rightarrow> 0 | Some n \<Rightarrow> n)) end_gfn ghc)
      else Some (0, ghc\<lparr>ghc_memslot := None\<rparr>))"

definition kvm_gfn_to_hva_cache_init ::
    "mem_lib \<Rightarrow> kvm_mem \<Rightarrow> u64 \<Rightarrow> u64 \<Rightarrow> (int \<times> gfn_to_hva_cache) option" where
  "kvm_gfn_to_hva_cache_init lib m gpa len =
     (let start_gfn = drop_bit 12 gpa;
          end_gfn = drop_bit 12 (gpa + len - 1);
          nr_pages_needed = end_gfn - start_gfn + 1;
          slot = gfn_to_memslot lib m start_gfn;
          hva = fst (gfn_to_hva_many lib slot start_gfn);
          ghc = \<lparr>ghc_generation = generation (memslots m), ghc_gpa = gpa, ghc_hva = hva, ghc_len = len,
                 ghc_memslot = slot\<rparr>
      in if \<not> is_error_hva lib hva \<and> nr_pages_needed \<le> 1
         then Some (0, ghc\<lparr>ghc_hva := hva + (gpa AND 0xFFF)\<rparr>)
         else hva_cache_loop lib m start_gfn end_gfn ghc)"

text \<open>The first test of both users: a cache of another generation is set up again, whatever that returns.\<close>

definition refresh_cache :: "mem_lib \<Rightarrow> kvm_mem \<Rightarrow> gfn_to_hva_cache \<Rightarrow> gfn_to_hva_cache option" where
  "refresh_cache lib m ghc =
     (if generation (memslots m) \<noteq> ghc_generation ghc
      then map_option snd (kvm_gfn_to_hva_cache_init lib m (ghc_gpa ghc) (ghc_len ghc))
      else Some ghc)"

text \<open>\<open>BUG_ON\<close>, and a set-up that does not end, are None.\<close>

definition kvm_write_guest_cached ::
    "mem_lib \<Rightarrow> gfn_to_hva_cache \<Rightarrow> u8 list \<Rightarrow> kvm_mem \<Rightarrow> (int \<times> gfn_to_hva_cache \<times> kvm_mem) option" where
  "kvm_write_guest_cached lib ghc data m =
     (if of_nat (length data) > ghc_len ghc then None
      else case refresh_cache lib m ghc of
             None \<Rightarrow> None
           | Some ghc \<Rightarrow>
               if ghc_memslot ghc = None then
                 (case kvm_write_guest lib (ghc_gpa ghc) data m of (r, m) \<Rightarrow> Some (r, ghc, m))
               else if is_error_hva lib (ghc_hva ghc) then Some (- EFAULT, ghc, m)
               else case copy_to_user lib (user_mem m) (ghc_hva ghc) data of
                      (r, u) \<Rightarrow>
                        if r \<noteq> 0 then Some (- EFAULT, ghc, m\<lparr>user_mem := u\<rparr>)
                        else Some (0, ghc, mark_page_dirty_in_slot (ghc_memslot ghc) (drop_bit 12 (ghc_gpa ghc))
                                             (m\<lparr>user_mem := u\<rparr>)))"

definition kvm_read_guest_cached ::
    "mem_lib \<Rightarrow> gfn_to_hva_cache \<Rightarrow> nat \<Rightarrow> kvm_mem \<Rightarrow> ((int + u8 list) \<times> gfn_to_hva_cache) option" where
  "kvm_read_guest_cached lib ghc len m =
     (if of_nat len > ghc_len ghc then None
      else case refresh_cache lib m ghc of
             None \<Rightarrow> None
           | Some ghc \<Rightarrow>
               if ghc_memslot ghc = None then Some (kvm_read_guest lib m (ghc_gpa ghc) len, ghc)
               else if is_error_hva lib (ghc_hva ghc) then Some (Inl (- EFAULT), ghc)
               else case copy_from_user lib (user_mem m) (ghc_hva ghc) len of
                      (r, data) \<Rightarrow> Some (if r \<noteq> 0 then Inl (- EFAULT) else Inr data, ghc))"

subsection \<open>Retrieving the dirty bitmap\<close>

definition le_bytes :: "u64 list \<Rightarrow> u8 list" where
  "le_bytes ws = concat (map (\<lambda>w. map (\<lambda>i. ucast (drop_bit (8 * i) w)) [0..<8]) ws)"

text \<open>\<^verbatim>\<open>kvm_get_dirty_log\<close>: the result, whether it set \<^verbatim>\<open>*is_dirty\<close>, and the memory.\<close>

definition kvm_get_dirty_log :: "mem_lib \<Rightarrow> u32 \<Rightarrow> u64 \<Rightarrow> kvm_mem \<Rightarrow> int \<times> bool \<times> kvm_mem" where
  "kvm_get_dirty_log lib slot buf m =
     (if KVM_USER_MEM_SLOTS \<le> slot then (- EINVAL, False, m)
      else
        let s = slot_array (memslots m) ! at_id lib (memslots m) slot
        in if dirty_bitmap s = 0 then (- ENOENT, False, m)
           else
             let n = bitmap_bytes lib (npages s);
                 l = take (n div 8) (the (heap m (dirty_bitmap s)));
                 any = (\<exists>w\<in>set l. w \<noteq> 0)
             in case copy_to_user lib (user_mem m) buf (le_bytes l) of
                  (r, u) \<Rightarrow> if r \<noteq> 0 then (- EFAULT, False, m\<lparr>user_mem := u\<rparr>)
                           else (0, any, m\<lparr>user_mem := u\<rparr>))"

text \<open>The x86 version takes a snapshot into the second half of the bitmap, word by word.\<close>

definition snapshot_word :: "kvm_memory_slot \<Rightarrow> nat \<Rightarrow> nat \<Rightarrow> bool \<times> kvm_mem \<Rightarrow> bool \<times> kvm_mem" where
  "snapshot_word s half i dm =
     (case dm of (is_dirty, m) \<Rightarrow>
        let mask = the (heap m (dirty_bitmap s)) ! i
        in if mask = 0 then (is_dirty, m)
           else (True, (set_block (dirty_bitmap s) (\<lambda>l. l[i := 0, half + i := mask]) m)
                   \<lparr>mmu_calls := mmu_calls m @ [Write_protect_masked (slot_id s) (of_nat i * 64) mask]\<rparr>))"

definition kvm_vm_ioctl_get_dirty_log :: "mem_lib \<Rightarrow> u32 \<Rightarrow> u64 \<Rightarrow> kvm_mem \<Rightarrow> int \<times> kvm_mem" where
  "kvm_vm_ioctl_get_dirty_log lib slot buf m =
     (if KVM_USER_MEM_SLOTS \<le> slot then (- EINVAL, m)
      else
        let s = slot_array (memslots m) ! at_id lib (memslots m) slot
        in if dirty_bitmap s = 0 then (- ENOENT, m)
           else
             let half = bitmap_bytes lib (npages s) div 8;
                 m = set_block (dirty_bitmap s) (\<lambda>l. take half l @ replicate half 0 @ drop (2 * half) l) m;
                 (is_dirty, m) = fold (snapshot_word s half) [0..<half] (False, m);
                 m = (if is_dirty then m\<lparr>mmu_calls := mmu_calls m @ [Flush_remote_tlbs]\<rparr> else m)
             in case copy_to_user lib (user_mem m) buf
                       (le_bytes (take half (drop half (the (heap m (dirty_bitmap s)))))) of
                  (r, u) \<Rightarrow> (if r \<noteq> 0 then - EFAULT else 0, m\<lparr>user_mem := u\<rparr>))"

end
