(* ===== verification/Memslots_Props.thy ===== *)
theory Memslots_Props
  imports Memslots
begin

text \<open>
  The invariant of the slot table and that setting a memory region keeps it: the ids and their index,
  the order by size, the separation of the user's slots, and the ownership of the kernel blocks.
\<close>

subsection \<open>What is assumed of the kernel\<close>

abbreviation by_size :: "kvm_memory_slot list \<Rightarrow> bool" where
  "by_size a \<equiv> sorted_wrt (\<lambda>s t. cmp_memslot s t \<le> 0) a"

definition mem_lib_ok :: "mem_lib \<Rightarrow> bool" where
  "mem_lib_ok lib = (
     (\<forall>t k. at_id lib t k = id_to_index t k)
     \<and> (\<forall>t. by_size (slot_array t) \<longrightarrow> set (walk lib t) = {s \<in> set (slot_array t). npages s \<noteq> 0})
     \<and> (\<forall>t gfn i. search lib t gfn = Some i \<longrightarrow> i < length (slot_array t)
          \<and> base_gfn (slot_array t ! i) \<le> gfn \<and> gfn < base_gfn (slot_array t ! i) + npages (slot_array t ! i))
     \<and> (\<forall>t gfn s. search lib t gfn = None \<longrightarrow> s \<in> set (slot_array t)
          \<longrightarrow> \<not> (base_gfn s \<le> gfn \<and> gfn < base_gfn s + npages s))
     \<and> (\<forall>a. mset (sort_array lib cmp_memslot a) = mset a \<and> by_size (sort_array lib cmp_memslot a))
     \<and> (\<forall>n. 8 dvd bitmap_bytes lib n \<and> unat n \<le> 8 * bitmap_bytes lib n)
     \<and> max_nr_pages lib = 0x7FFFFFFF
     \<and> memslot_invalid lib AND 0xFFFF = 0
     \<and> (\<forall>h n p. alloc_block lib h n = Some p \<longrightarrow> p \<noteq> 0 \<and> h p = None))"

subsection \<open>The table\<close>

lemma cmp_memslot_le: "cmp_memslot s t \<le> 0 \<longleftrightarrow> npages t \<le> npages s"
  by (auto simp: cmp_memslot_def)

definition table_ok :: "kvm_memslots \<Rightarrow> bool" where
  "table_ok t = (length (slot_array t) = 128 \<and> slot_id ` set (slot_array t) = {i. i < 128}
     \<and> (\<forall>i<128. id_to_index t (slot_id (slot_array t ! i)) = i) \<and> by_size (slot_array t))"

definition entry :: "kvm_memslots \<Rightarrow> u32 \<Rightarrow> kvm_memory_slot" where
  "entry t k = slot_array t ! id_to_index t k"

lemma table_entry:
  assumes "table_ok t" "k < 128"
  shows "id_to_index t k < 128" "slot_id (entry t k) = k" "entry t k \<in> set (slot_array t)"
proof -
  have "k \<in> slot_id ` set (slot_array t)" using assms unfolding table_ok_def by simp
  then obtain s where s: "s \<in> set (slot_array t)" "slot_id s = k" by (rule imageE) simp
  then obtain i where i: "i < 128" "slot_id (slot_array t ! i) = k"
    using assms(1) unfolding table_ok_def in_set_conv_nth by auto
  then have "id_to_index t k = i" using assms(1) unfolding table_ok_def by auto
  then show "id_to_index t k < 128" "slot_id (entry t k) = k" "entry t k \<in> set (slot_array t)"
    using i assms(1) unfolding table_ok_def entry_def by auto
qed

lemma table_member:
  assumes "table_ok t" "s \<in> set (slot_array t)"
  shows "slot_id s < 128" "entry t (slot_id s) = s"
proof -
  have "slot_id s \<in> slot_id ` set (slot_array t)" using assms(2) by (rule imageI)
  then show "slot_id s < 128" using assms(1) unfolding table_ok_def by simp
  show "entry t (slot_id s) = s"
    using assms unfolding table_ok_def entry_def in_set_conv_nth by auto
qed

lemma index_fold:
  assumes "inj_on k {..<n}" "j < n"
  shows "fold (\<lambda>i f. f(k i := i)) [0..<n] f (k j) = j"
proof -
  have "(\<forall>j<m. fold (\<lambda>i f. f(k i := i)) [0..<m] f (k j) = j)" if "m \<le> n" for m
    using that
  proof (induction m)
    case (Suc m)
    have "k j \<noteq> k m" if "j < m" for j using assms(1) that Suc.prems unfolding inj_on_def by force
    then show ?case using Suc by (auto simp: less_Suc_eq)
  qed simp
  then show ?thesis using assms(2) by simp
qed

lemma table_distinct:
  assumes "length a = 128" "slot_id ` set a = {i. i < 128}"
  shows "distinct (map slot_id a)"
proof -
  have "{i :: u32. i < 128} = of_nat ` {..<128}"
  proof (rule set_eqI, rule iffI)
    fix i :: u32 assume "i \<in> {i. i < 128}"
    then have "unat i < 128" by (simp add: word_less_nat_alt)
    then show "i \<in> of_nat ` {..<128}" by (intro image_eqI [of _ _ "unat i"]) auto
  qed (auto simp: word_less_nat_alt unat_of_nat)
  moreover have "inj_on (of_nat :: nat \<Rightarrow> u32) {..<128}"
    by (rule inj_on_inverseI [of _ unat]) (simp add: unat_of_nat take_bit_nat_eq_self)
  ultimately have "card {i :: u32. i < 128} = 128" by (simp add: card_image)
  then show ?thesis using assms by (metis card_distinct length_map list.set_map)
qed

lemma sort_memslots_ok:
  assumes lib: "mem_lib_ok lib" and a: "length (slot_array t) = 128" "slot_id ` set (slot_array t) = {i. i < 128}"
  shows "table_ok (sort_memslots lib t)" "set (slot_array (sort_memslots lib t)) = set (slot_array t)"
    "generation (sort_memslots lib t) = generation t"
proof -
  let ?a = "sort_array lib cmp_memslot (slot_array t)"
  have m: "mset ?a = mset (slot_array t)" and s: "by_size ?a" using lib unfolding mem_lib_ok_def by auto
  have l: "length ?a = 128" using m a(1) by (metis size_mset)
  have i: "set ?a = set (slot_array t)" using m by (metis set_mset_mset)
  have d: "distinct (map slot_id ?a)" by (rule table_distinct) (use l i a in auto)
  have inj: "inj_on (\<lambda>i. slot_id (?a ! i)) {..<128}"
    by (rule inj_onI) (use d l in \<open>auto simp: distinct_conv_nth\<close>)
  show "table_ok (sort_memslots lib t)"
    unfolding table_ok_def sort_memslots_def Let_def
    using l i a s index_fold [OF inj] by (simp add: KVM_MEM_SLOTS_NUM_def)
  show "set (slot_array (sort_memslots lib t)) = set (slot_array t)"
    "generation (sort_memslots lib t) = generation t"
    using i by (simp_all add: sort_memslots_def Let_def)
qed

text \<open>Overwriting a slot by one of the same id and size.\<close>

lemma table_set:
  assumes t: "table_ok t" and s: "slot_id s < 128" "npages s = npages (entry t (slot_id s))"
    and a: "slot_array t' = (slot_array t)[id_to_index t (slot_id s) := s]" and ix: "id_to_index t' = id_to_index t"
  shows "table_ok t'" "k < 128 \<Longrightarrow> entry t' k = ((entry t)(slot_id s := s)) k"
proof -
  let ?i = "id_to_index t (slot_id s)"
  have i: "?i < 128" "slot_id (slot_array t ! ?i) = slot_id s"
    using table_entry [OF t s(1)] by (simp_all add: entry_def)
  have l: "length (slot_array t) = 128" using t unfolding table_ok_def by simp
  have ids: "map slot_id (slot_array t') = map slot_id (slot_array t)"
    using i l by (intro nth_equalityI) (auto simp: a nth_list_update)
  have sizes: "npages (slot_array t' ! j) = npages (slot_array t ! j)" if "j < 128" for j
    using that s(2) l i(1) by (auto simp: a nth_list_update entry_def)
  show "table_ok t'"
    unfolding table_ok_def
  proof (intro conjI)
    show "length (slot_array t') = 128" using l by (simp add: a)
    show "slot_id ` set (slot_array t') = {i. i < 128}"
      using t ids unfolding table_ok_def by (metis list.set_map)
    show "\<forall>i<128. id_to_index t' (slot_id (slot_array t' ! i)) = i"
      using t i l unfolding table_ok_def by (auto simp: a ix nth_list_update)
    show "by_size (slot_array t')"
      using t l sizes unfolding table_ok_def
      by (simp add: sorted_wrt_iff_nth_less a cmp_memslot_le)
  qed
  show "entry t' k = ((entry t)(slot_id s := s)) k" if "k < 128"
    using table_entry [OF t that] i l by (auto simp: entry_def a ix nth_list_update)
qed

lemma update_memslots_ok:
  assumes lib: "mem_lib_ok lib" and t: "table_ok t" and s: "slot_id s < 128"
  shows "table_ok (update_memslots lib t (Some s))"
    "k < 128 \<Longrightarrow> entry (update_memslots lib t (Some s)) k = ((entry t)(slot_id s := s)) k"
    "generation (update_memslots lib t (Some s)) = generation t"
proof -
  let ?i = "id_to_index t (slot_id s)"
  let ?t = "t\<lparr>slot_array := (slot_array t)[?i := s]\<rparr>"
  have i: "?i < 128" "slot_id (slot_array t ! ?i) = slot_id s"
    using table_entry [OF t s] by (simp_all add: entry_def)
  have at: "at_id lib t (slot_id s) = ?i" using lib unfolding mem_lib_ok_def by simp
  have l: "length (slot_array t) = 128" using t unfolding table_ok_def by simp
  have u: "update_memslots lib t (Some s) =
      (if npages s \<noteq> npages (slot_array t ! ?i) then sort_memslots lib ?t else ?t)"
    by (simp add: update_memslots_def at Let_def)
  have ids: "map slot_id (slot_array ?t) = map slot_id (slot_array t)"
    using i l by (intro nth_equalityI) (auto simp: nth_list_update)
  have img: "slot_id ` set (slot_array ?t) = {i. i < 128}"
    using t ids unfolding table_ok_def by (metis list.set_map)
  note srt = sort_memslots_ok [OF lib, of ?t, simplified l length_list_update, OF _ img]
  show ok: "table_ok (update_memslots lib t (Some s))"
  proof (cases "npages s = npages (slot_array t ! ?i)")
    case True
    then show ?thesis using table_set(1) [OF t s] u by (simp add: entry_def)
  next
    case False
    then show ?thesis using srt(1) l u by simp
  qed
  show "generation (update_memslots lib t (Some s)) = generation t"
    using srt(3) l u by simp
  show "entry (update_memslots lib t (Some s)) k = ((entry t)(slot_id s := s)) k" if k: "k < 128"
  proof (cases "npages s = npages (slot_array t ! ?i)")
    case True
    then have n: "npages s = npages (entry t (slot_id s))" by (simp add: entry_def)
    show ?thesis using table_set(2) [OF t s n, of ?t, OF _ _ k] u True by simp
  next
    case False
    let ?e = "if k = slot_id s then s else entry t k"
    have "?e \<in> set (slot_array ?t)"
    proof (cases "k = slot_id s")
      case True
      then show ?thesis using i l by (simp add: set_update_memI)
    next
      case False
      have "id_to_index t k \<noteq> ?i" using table_entry(2) [OF t k] i False by (auto simp: entry_def)
      then have "slot_array ?t ! id_to_index t k = entry t k" by (simp add: entry_def)
      then show ?thesis using False table_entry(1) [OF t k] l by (metis length_list_update nth_mem
            kvm_memslots.select_convs(2) kvm_memslots.surjective kvm_memslots.update_convs(2))
    qed
    then have m: "?e \<in> set (slot_array (update_memslots lib t (Some s)))"
      using srt(2) l u False by simp
    have "slot_id ?e = k" using table_entry(2) [OF t k] by simp
    then show ?thesis using table_member(2) [OF ok m] by simp
  qed
qed

end
