(* ===== verification/Memslots_Heap.thy ===== *)
theory Memslots_Heap
  imports Memslots_Props
begin

text \<open>
  The kernel blocks of a slot: what allocating and releasing them does to the heap, on every path.
  The heap invariant says that the live blocks are exactly a given multiset of pointers.
\<close>

subsection \<open>Ownership\<close>

definition heap_holds :: "(nat \<Rightarrow> u64 list option) \<Rightarrow> nat multiset \<Rightarrow> bool" where
  "heap_holds h M = (finite (dom h) \<and> 0 \<notin> dom h \<and> mset_set (dom h) = M)"

text \<open>The pointers a slot owns.\<close>

definition blocks :: "kvm_memory_slot \<Rightarrow> nat list" where
  "blocks s = filter (\<lambda>p. p \<noteq> 0) (dirty_bitmap s # rmap s @ lpage_info s)"

text \<open>\<open>m\<close> is \<open>m0\<close> with the new blocks \<open>ps\<close>.\<close>

definition heap_grown :: "kvm_mem \<Rightarrow> nat list \<Rightarrow> kvm_mem \<Rightarrow> bool" where
  "heap_grown m0 ps m = (distinct ps \<and> 0 \<notin> set ps \<and> set ps \<inter> dom (heap m0) = {}
     \<and> dom (heap m) = dom (heap m0) \<union> set ps \<and> (\<forall>p\<in>dom (heap m0). heap m p = heap m0 p)
     \<and> m = m0\<lparr>heap := heap m\<rparr>)"

definition sized :: "kvm_mem \<Rightarrow> nat \<Rightarrow> nat \<Rightarrow> bool" where
  "sized m p k = (\<exists>l. heap m p = Some l \<and> length l = k)"

lemma heap_grown_heap: "heap_grown m0 ps m \<Longrightarrow> m\<lparr>heap := h\<rparr> = m0\<lparr>heap := h\<rparr>"
  unfolding heap_grown_def by (metis kvm_mem.surjective kvm_mem.update_convs(2))

lemma heap_grown_refl: "heap_grown m [] m" by (simp add: heap_grown_def)

lemma heap_grown_same: "heap_grown m0 [] m \<Longrightarrow> m = m0"
proof -
  assume g: "heap_grown m0 [] m"
  have "heap m = heap m0"
  proof
    fix p
    show "heap m p = heap m0 p" using g unfolding heap_grown_def by (cases "p \<in> dom (heap m0)") auto
  qed
  then show ?thesis using g unfolding heap_grown_def by (metis kvm_mem.surjective kvm_mem.update_convs(2))
qed

lemma heap_grown_holds:
  assumes "heap_grown m0 ps m" "heap_holds (heap m0) M"
  shows "heap_holds (heap m) (M + mset ps)"
proof -
  have "mset_set (dom (heap m0) \<union> set ps) = mset_set (dom (heap m0)) + mset_set (set ps)"
    using assms unfolding heap_grown_def heap_holds_def by (intro mset_set_Union) auto
  then show ?thesis using assms unfolding heap_grown_def heap_holds_def by (simp add: mset_set_set)
qed

lemma kvzalloc_grown:
  assumes lib: "mem_lib_ok lib" and g: "heap_grown m0 ps m" and r: "kvm_kvzalloc lib n m = (p, m')"
  shows "p = 0 \<and> m' = m \<or> p \<noteq> 0 \<and> heap_grown m0 (p # ps) m' \<and> sized m' p n \<and> (\<forall>q k. sized m q k \<longrightarrow> sized m' q k)"
proof (cases "alloc_block lib (heap m) n")
  case None
  then show ?thesis using r by (simp add: kvm_kvzalloc_def)
next
  case (Some q)
  then have q: "q \<noteq> 0" "heap m q = None" using lib unfolding mem_lib_ok_def by auto
  have m': "p = q" "m' = m\<lparr>heap := (heap m)(q \<mapsto> replicate n 0)\<rparr>"
    using r Some by (auto simp: kvm_kvzalloc_def)
  have "q \<notin> dom (heap m0) \<union> set ps" using q g unfolding heap_grown_def by auto
  then have "heap_grown m0 (p # ps) m'"
    using g q unfolding m' heap_grown_heap [OF g] unfolding heap_grown_def by auto
  moreover have "sized m' q2 k" if "sized m q2 k" for q2 k
    using that q(2) unfolding sized_def m' by auto
  ultimately show ?thesis using q m' by (auto simp: sized_def)
qed

lemma set_block_grown:
  assumes g: "heap_grown m0 ps m" and q: "q \<in> set ps"
  shows "heap_grown m0 ps (set_block q f m)"
proof -
  have "dom ((heap m)(q := map_option f (heap m q))) = dom (heap m)" by auto
  then show ?thesis using g q unfolding set_block_def heap_grown_heap [OF g] unfolding heap_grown_def by auto
qed

lemma set_block_sized:
  assumes "sized m p k" "\<And>c. length (f c) = length c"
  shows "sized (set_block q f m) p k"
  using assms unfolding sized_def set_block_def by auto

subsection \<open>Releasing\<close>

definition frees :: "nat list \<Rightarrow> kvm_mem \<Rightarrow> kvm_mem" where
  "frees ps m = fold kvm_kvfree ps m"

lemma kvfree_0 [simp]: "kvm_kvfree 0 m = m" by (simp add: kvm_kvfree_def)

lemma frees_heap:
  "distinct (filter (\<lambda>p. p \<noteq> 0) ps) \<Longrightarrow> set (filter (\<lambda>p. p \<noteq> 0) ps) \<subseteq> dom (heap m)
   \<Longrightarrow> frees ps m = m\<lparr>heap := heap m |` (- set (filter (\<lambda>p. p \<noteq> 0) ps))\<rparr>"
proof (induction ps arbitrary: m)
  case Nil
  then show ?case by (simp add: frees_def)
next
  case (Cons p ps)
  show ?case
  proof (cases "p = 0")
    case True
    then show ?thesis using Cons by (simp add: frees_def)
  next
    case False
    let ?m = "m\<lparr>heap := (heap m)(p := None)\<rparr>"
    have "kvm_kvfree p m = ?m" using False Cons.prems by (auto simp: kvm_kvfree_def)
    then have "frees (p # ps) m = frees ps ?m" by (simp add: frees_def)
    also have "\<dots> = ?m\<lparr>heap := heap ?m |` (- set (filter (\<lambda>p. p \<noteq> 0) ps))\<rparr>"
      using Cons.prems False by (intro Cons.IH) auto
    also have "heap ?m |` (- set (filter (\<lambda>p. p \<noteq> 0) ps)) = heap m |` (- set (filter (\<lambda>p. p \<noteq> 0) (p # ps)))"
      using False by (intro ext) (simp add: restrict_map_def)
    also have "?m\<lparr>heap := heap m |` (- set (filter (\<lambda>p. p \<noteq> 0) (p # ps)))\<rparr> =
        m\<lparr>heap := heap m |` (- set (filter (\<lambda>p. p \<noteq> 0) (p # ps)))\<rparr>"
      by simp
    finally show ?thesis .
  qed
qed

lemma frees_grown:
  assumes g: "heap_grown m0 ps m" and s: "set (filter (\<lambda>p. p \<noteq> 0) qs) = set ps" "distinct (filter (\<lambda>p. p \<noteq> 0) qs)"
  shows "frees qs m = m0"
proof -
  have "frees qs m = m\<lparr>heap := heap m |` (- set ps)\<rparr>"
    unfolding s(1) [symmetric] using s g unfolding heap_grown_def by (intro frees_heap) auto
  also have "heap m |` (- set ps) = heap m0"
  proof
    fix p
    show "(heap m |` (- set ps)) p = heap m0 p"
      using g unfolding heap_grown_def by (cases "p \<in> dom (heap m0)") (auto simp: restrict_map_def)
  qed
  also have "m\<lparr>heap := heap m0\<rparr> = m0"
    using g unfolding heap_grown_def by (metis kvm_mem.surjective kvm_mem.update_convs(2))
  finally show ?thesis .
qed

lemma frees_holds:
  assumes h: "heap_holds (heap m) (M + mset (filter (\<lambda>p. p \<noteq> 0) qs))"
  shows "heap_holds (heap (frees qs m)) M" "bad_free (frees qs m) = bad_free m"
    "memslots (frees qs m) = memslots m"
    "heap (frees qs m) p \<noteq> None \<Longrightarrow> heap (frees qs m) p = heap m p"
proof -
  let ?ps = "filter (\<lambda>p. p \<noteq> 0) qs"
  have d: "M + mset ?ps = mset_set (dom (heap m))" and f: "finite (dom (heap m))" and z: "0 \<notin> dom (heap m)"
    using h by (auto simp: heap_holds_def)
  have cnt: "count (M + mset ?ps) p \<le> 1" for p unfolding d by (simp add: count_mset_set')
  have dist: "distinct ?ps"
  proof -
    have "count (mset ?ps) p = (if p \<in> set ?ps then 1 else 0)" for p
    proof (cases "p \<in> set ?ps")
      case True
      then have "0 < count (mset ?ps) p" by (simp only: count_greater_zero_iff set_mset_mset)
      moreover have "count (mset ?ps) p \<le> 1" using cnt [of p] unfolding count_union by linarith
      ultimately have "count (mset ?ps) p = 1" by linarith
      then show ?thesis using True by (simp only: if_True)
    next
      case False
      then have "p \<notin># mset ?ps" by (simp only: set_mset_mset not_False_eq_True)
      then show ?thesis using False by (simp only: not_in_iff if_False)
    qed
    then show ?thesis unfolding distinct_count_atmost_1 by (rule allI)
  qed
  have "set ?ps \<subseteq> set_mset (M + mset ?ps)" by auto
  then have sub: "set ?ps \<subseteq> dom (heap m)" unfolding d using f by simp
  have e: "frees qs m = m\<lparr>heap := heap m |` (- set ?ps)\<rparr>" using dist sub by (rule frees_heap)
  have "mset_set (dom (heap m)) = mset_set (dom (heap m) - set ?ps) + mset_set (set ?ps)"
    using f sub by (subst mset_set_Union [symmetric]) (auto intro: arg_cong [of _ _ mset_set])
  moreover have "mset_set (set ?ps) = mset ?ps" by (rule mset_set_set [OF dist])
  ultimately have "M = mset_set (dom (heap m) - set ?ps)" using d by (metis add_right_cancel)
  then show "heap_holds (heap (frees qs m)) M"
    using f z unfolding e heap_holds_def by (simp add: Diff_eq)
  show "bad_free (frees qs m) = bad_free m" "memslots (frees qs m) = memslots m" unfolding e by simp_all
  show "heap (frees qs m) p = heap m p" if "heap (frees qs m) p \<noteq> None"
    using that unfolding e by (auto simp: restrict_map_def)
qed

subsection \<open>Creating the x86 part\<close>

lemma count_lpages_post:
  assumes g: "heap_grown m0 ps m" and q: "q \<in> set ps"
  shows "heap_grown m0 ps (count_lpages lib n level slot q l m)"
    "sized m p k \<Longrightarrow> sized (count_lpages lib n level slot q l m) p k"
  using g q by (simp_all add: count_lpages_def Let_def set_block_grown set_block_sized)

lemma create_level_post:
  assumes lib: "mem_lib_ok lib" and g: "heap_grown m0 ps m" and r: "create_level lib n i slot m = (done, slot', m')"
    and z: "i \<noteq> 0 \<Longrightarrow> lpage_info slot ! (i - 1) = 0"
  shows "\<exists>p q. slot' = slot\<lparr>rmap := (rmap slot)[i := p],
        lpage_info := (if i = 0 then lpage_info slot else (lpage_info slot)[i - 1 := q])\<rparr>
    \<and> heap_grown m0 (filter (\<lambda>p. p \<noteq> 0) [q, p] @ ps) m' \<and> (i = 0 \<or> p = 0 \<longrightarrow> q = 0)
    \<and> (done \<longleftrightarrow> p \<noteq> 0 \<and> (i = 0 \<or> q \<noteq> 0))
    \<and> (done \<longrightarrow> sized m' p (lpages_of slot n (i + 1)) \<and> (i \<noteq> 0 \<longrightarrow> sized m' q (lpages_of slot n (i + 1))))
    \<and> (\<forall>p k. sized m p k \<longrightarrow> sized m' p k)"
proof -
  let ?l = "lpages_of slot n (i + 1)"
  obtain p m1 where p: "kvm_kvzalloc lib ?l m = (p, m1)" by fastforce
  note P = kvzalloc_grown [OF lib g p]
  note E = create_level_def [of lib n i slot m, unfolded p Let_def prod.case]
  consider "p = 0" | "p \<noteq> 0" "i = 0" | "p \<noteq> 0" "i \<noteq> 0" by blast
  then show ?thesis
  proof cases
    case 1
    have "(lpage_info slot)[i - 1 := 0] = lpage_info slot" if "i \<noteq> 0"
      using z [OF that] by (metis list_update_id)
    moreover have "slot' = slot\<lparr>rmap := (rmap slot)[i := 0]\<rparr>" "m' = m" "\<not> done"
      using 1 P r [unfolded E] by auto
    ultimately show ?thesis using g by (intro exI [of _ 0]) simp
  next
    case 2
    then have "slot' = slot\<lparr>rmap := (rmap slot)[i := p]\<rparr>" "m' = m1" "done"
      using r [unfolded E] by auto
    then show ?thesis using P 2 by (intro exI [of _ p] exI [of _ 0]) simp
  next
    case 3
    then have P1: "heap_grown m0 (p # ps) m1" "sized m1 p ?l" "\<forall>q k. sized m q k \<longrightarrow> sized m1 q k" using P by auto
    obtain q m2 where q: "kvm_kvzalloc lib ?l m1 = (q, m2)" by fastforce
    note Q = kvzalloc_grown [OF lib P1(1) q]
    note E2 = E [unfolded q prod.case]
    show ?thesis
    proof (cases "q = 0")
      case True
      then show ?thesis using Q P1 3 r by (intro exI [of _ p] exI [of _ q]) (simp add: E2)
    next
      case False
      then have Q1: "heap_grown m0 (q # p # ps) m2" "sized m2 q ?l" "\<forall>q k. sized m1 q k \<longrightarrow> sized m2 q k" using Q by auto
      have q_in: "q \<in> set (q # p # ps)" by simp
      show ?thesis using r 3 False Q1 P1 count_lpages_post [OF Q1(1) q_in]
        by - (rule exI [of _ p], rule exI [of _ q], auto simp: E2)
    qed
  qed
qed

lemma list3: "length xs = 3 \<Longrightarrow> \<exists>a b c. xs = [a, b, c]"
  by (auto simp: length_Suc_conv numeral_3_eq_3)

lemma list2: "length xs = 2 \<Longrightarrow> \<exists>a b. xs = [a, b]"
  by (auto simp: length_Suc_conv numeral_2_eq_2)

lemma release_levels:
  assumes "rmap s = [a, b, c]" "lpage_info s = [d, e]"
  shows "fold release_level [0, 1, 2] (s, m) =
    (s\<lparr>rmap := [0, 0, 0], lpage_info := [0, 0]\<rparr>, frees [a, b, d, c, e] m)"
  using assms by (simp add: release_level_def Let_def frees_def)

lemma lpages_of_upd [simp]:
  "lpages_of (s\<lparr>rmap := r\<rparr>) n l = lpages_of s n l" "lpages_of (s\<lparr>lpage_info := i\<rparr>) n l = lpages_of s n l"
  "lpages_of (s\<lparr>dirty_bitmap := b\<rparr>) n l = lpages_of s n l" "lpages_of (s\<lparr>userspace_addr := a\<rparr>) n l = lpages_of s n l"
  by (simp_all add: lpages_of_def)

text \<open>Either everything is allocated, with enough entries, or the heap is as before.\<close>

lemma create_memslot_post:
  assumes lib: "mem_lib_ok lib" and s: "rmap s = [0, 0, 0]" "lpage_info s = [0, 0]"
    and r: "kvm_arch_create_memslot lib s n m = (x, s', m')"
  shows "x < 0 \<and> s' = s \<and> m' = m
    \<or> x = 0 \<and> (\<exists>a b c d e. s' = s\<lparr>rmap := [a, b, c], lpage_info := [d, e]\<rparr> \<and> 0 \<notin> {a, b, c, d, e}
        \<and> heap_grown m [e, c, d, b, a] m'
        \<and> sized m' a (lpages_of s n 1) \<and> sized m' b (lpages_of s n 2) \<and> sized m' c (lpages_of s n 3)
        \<and> sized m' d (lpages_of s n 2) \<and> sized m' e (lpages_of s n 3))"
proof -
  obtain ok1 s1 m1 where r1: "create_level lib n 0 s m = (ok1, s1, m1)" by (cases "create_level lib n 0 s m") auto
  from create_level_post [OF lib heap_grown_refl r1]
  obtain a where L1: "s1 = s\<lparr>rmap := [a, 0, 0], lpage_info := [0, 0]\<rparr>"
    "heap_grown m (filter (\<lambda>p. p \<noteq> 0) [a]) m1" "ok1 \<longleftrightarrow> a \<noteq> 0" "ok1 \<longrightarrow> sized m1 a (lpages_of s n 1)"
    using s by fastforce
  obtain ok2 s2 m2 where r2: "create_level lib n 1 s1 m1 = (ok2, s2, m2)" by (cases "create_level lib n 1 s1 m1") auto
  obtain b d where L2: "s2 = s\<lparr>rmap := [a, b, 0], lpage_info := [d, 0]\<rparr>" "b = 0 \<longrightarrow> d = 0"
    "heap_grown m (filter (\<lambda>p. p \<noteq> 0) [d, b] @ filter (\<lambda>p. p \<noteq> 0) [a]) m2" "ok2 \<longleftrightarrow> b \<noteq> 0 \<and> d \<noteq> 0"
    "ok2 \<longrightarrow> sized m2 b (lpages_of s n 2) \<and> sized m2 d (lpages_of s n 2)"
    "\<forall>p k. sized m1 p k \<longrightarrow> sized m2 p k"
    using create_level_post [OF lib L1(2) r2] unfolding L1(1) by (simp add: numeral_2_eq_2 del: filter.simps) blast
  obtain ok3 s3 m3 where r3: "create_level lib n 2 s2 m2 = (ok3, s3, m3)" by (cases "create_level lib n 2 s2 m2") auto
  obtain c e where L3: "s3 = s\<lparr>rmap := [a, b, c], lpage_info := [d, e]\<rparr>" "c = 0 \<longrightarrow> e = 0"
    "heap_grown m (filter (\<lambda>p. p \<noteq> 0) [e, c] @ filter (\<lambda>p. p \<noteq> 0) [d, b] @ filter (\<lambda>p. p \<noteq> 0) [a]) m3"
    "ok3 \<longleftrightarrow> c \<noteq> 0 \<and> e \<noteq> 0"
    "ok3 \<longrightarrow> sized m3 c (lpages_of s n 3) \<and> sized m3 e (lpages_of s n 3)"
    "\<forall>p k. sized m2 p k \<longrightarrow> sized m3 p k"
    using create_level_post [OF lib L2(3) r3] unfolding L2(1)
    by (simp add: numeral_3_eq_3 numeral_2_eq_2 del: filter.simps) blast
  have undo: "frees qs mm = m" if "heap_grown m ps mm" "set (filter (\<lambda>p. p \<noteq> 0) qs) = set ps"
    "length (filter (\<lambda>p. p \<noteq> 0) qs) = length ps" for qs ps mm
    using that frees_grown [OF that(1,2)] card_distinct distinct_card unfolding heap_grown_def by metis
  have same: "s\<lparr>rmap := [0, 0, 0], lpage_info := [0, 0]\<rparr> = s" using s by simp
  note E = r [unfolded kvm_arch_create_memslot_def create_levels.simps r1 prod.case]
  have fail: "x < 0 \<and> s' = s \<and> m' = m"
    if "(x, s', m') = (- ENOMEM, fold release_level [0, 1, 2] (t, mm))"
      "t = s\<lparr>rmap := [a', b', c'], lpage_info := [d', e']\<rparr>" "frees [a', b', d', c', e'] mm = m"
    for t mm a' b' c' d' e'
  proof -
    have "fold release_level [0, 1, 2] (t, mm) = (s\<lparr>rmap := [0, 0, 0], lpage_info := [0, 0]\<rparr>, m)"
      using release_levels [of t a' b' c' d' e' mm] that(2,3) by (simp del: fold_simps)
    then show ?thesis using that(1) unfolding same by (simp del: fold_simps)
  qed
  show ?thesis
  proof (cases ok1)
    case False
    then have "frees [a, 0, 0, 0, 0] m1 = m" using L1 undo [of "[]" m1] by simp
    moreover have "(x, s', m') = (- ENOMEM, fold release_level [0, 1, 2] (s1, m1))"
      using E False by (simp del: fold_simps)
    ultimately show ?thesis using fail L1(1) by blast
  next
    case ok1: True
    note E2 = E [unfolded eqTrueI [OF ok1] bool.case r2 prod.case]
    show ?thesis
    proof (cases ok2)
      case False
      have "frees [a, b, d, 0, 0] m2 = m" by (rule undo [OF L2(3)]) auto
      moreover have "(x, s', m') = (- ENOMEM, fold release_level [0, 1, 2] (s2, m2))"
        using E2 False by (simp del: fold_simps)
      ultimately show ?thesis using fail L2(1) by blast
    next
      case ok2: True
      note E3 = E2 [unfolded eqTrueI [OF ok2] bool.case r3 prod.case]
      show ?thesis
      proof (cases ok3)
        case False
        have "frees [a, b, d, c, e] m3 = m" by (rule undo [OF L3(3)]) auto
        moreover have "(x, s', m') = (- ENOMEM, fold release_level [0, 1, 2] (s3, m3))"
          using E3 False by (simp del: fold_simps)
        ultimately show ?thesis using fail L3(1) by blast
      next
        case True
        then have "x = 0" "s' = s3" "m' = m3" using E3 by simp_all
        moreover have "heap_grown m [e, c, d, b, a] m3" using L1 L2 L3 ok1 ok2 True by simp
        ultimately show ?thesis using L1 L2 L3 ok1 ok2 True
          by - (rule disjI2, rule conjI, assumption, rule exI [of _ a], rule exI [of _ b], rule exI [of _ c],
              rule exI [of _ d], rule exI [of _ e], simp)
      qed
    qed
  qed
qed

subsection \<open>Releasing what the other slot does not have\<close>

definition unshared :: "kvm_memory_slot \<Rightarrow> kvm_memory_slot \<Rightarrow> nat list" where
  "unshared f d = map (\<lambda>(x, y). if x \<noteq> y then x else 0)
     [(dirty_bitmap f, dirty_bitmap d), (rmap f ! 0, rmap d ! 0), (rmap f ! 1, rmap d ! 1),
      (lpage_info f ! 0, lpage_info d ! 0), (rmap f ! 2, rmap d ! 2), (lpage_info f ! 1, lpage_info d ! 1)]"

lemma free_physmem_slot_frees: "kvm_free_physmem_slot f (Some d) m = frees (unshared f d) m"
  by (simp add: kvm_free_physmem_slot_def kvm_arch_free_memslot_def free_level_def Let_def frees_def
      unshared_def kvm_destroy_dirty_bitmap_def)

end
