(* ===== verification/Memslots_Region.thy ===== *)
theory Memslots_Region
  imports Memslots_Heap
begin

text \<open>
  \<^verbatim>\<open>__kvm_set_memory_region\<close> as a whole: a call either changes nothing or installs the new slot, and
  the invariant of the memory of a VM holds afterwards.
\<close>

subsection \<open>The invariant\<close>

definition slot_ok :: "mem_lib \<Rightarrow> kvm_memory_slot \<Rightarrow> bool" where
  "slot_ok lib s = (unat (base_gfn s) + unat (npages s) \<le> 2 ^ 52 \<and> npages s \<le> max_nr_pages lib
     \<and> (npages s = 0 \<longrightarrow> dirty_bitmap s = 0 \<and> rmap s = [0, 0, 0] \<and> lpage_info s = [0, 0])
     \<and> length (rmap s) = 3 \<and> length (lpage_info s) = 2
     \<and> mflags s AND NOT 3 = 0 \<and> (mflags s AND KVM_MEM_LOG_DIRTY_PAGES \<noteq> 0 \<longleftrightarrow> dirty_bitmap s \<noteq> 0))"

definition apart :: "kvm_memory_slot \<Rightarrow> kvm_memory_slot \<Rightarrow> bool" where
  "apart s t = (npages s = 0 \<or> npages t = 0
     \<or> unat (base_gfn s) + unat (npages s) \<le> unat (base_gfn t)
     \<or> unat (base_gfn t) + unat (npages t) \<le> unat (base_gfn s))"

text \<open>A dirty bitmap has room for the live bits and for a copy of them.\<close>

definition bitmap_ok :: "mem_lib \<Rightarrow> kvm_mem \<Rightarrow> kvm_memory_slot \<Rightarrow> bool" where
  "bitmap_ok lib m s = (dirty_bitmap s \<noteq> 0 \<longrightarrow> sized m (dirty_bitmap s) (2 * bitmap_bytes lib (npages s) div 8))"

definition all_blocks :: "(u32 \<Rightarrow> kvm_memory_slot) \<Rightarrow> nat multiset" where
  "all_blocks v = (\<Sum>k\<in>{k. k < 128}. mset (blocks (v k)))"

definition view_ok :: "mem_lib \<Rightarrow> (u32 \<Rightarrow> kvm_memory_slot) \<Rightarrow> bool" where
  "view_ok lib v = ((\<forall>k<128. slot_ok lib (v k))
     \<and> (\<forall>j<KVM_USER_MEM_SLOTS. \<forall>k<KVM_USER_MEM_SLOTS. j \<noteq> k \<longrightarrow> apart (v j) (v k)))"

definition mem_ok :: "mem_lib \<Rightarrow> kvm_mem \<Rightarrow> bool" where
  "mem_ok lib m = (table_ok (memslots m) \<and> view_ok lib (entry (memslots m))
     \<and> heap_holds (heap m) (all_blocks (entry (memslots m))) \<and> \<not> bad_free m
     \<and> even (generation (memslots m)) \<and> (\<forall>k<128. bitmap_ok lib m (entry (memslots m) k)))"

lemma all_blocks_upd:
  assumes "k < 128"
  shows "all_blocks (v(k := s)) + mset (blocks (v k)) = all_blocks v + mset (blocks s)"
proof -
  have e: "(\<Sum>j\<in>{j. j < 128}. f j) = f k + (\<Sum>j\<in>{j. j < 128} - {k}. f j)" for f :: "u32 \<Rightarrow> nat multiset"
    using assms by (intro sum.remove) auto
  have "(\<Sum>j\<in>{j. j < 128} - {k}. mset (blocks ((v(k := s)) j))) = (\<Sum>j\<in>{j. j < 128} - {k}. mset (blocks (v j)))"
    by (rule sum.cong) auto
  then show ?thesis unfolding all_blocks_def e [of "\<lambda>j. mset (blocks ((v(k := s)) j))"]
      e [of "\<lambda>j. mset (blocks (v j))"] by simp
qed

lemma all_blocks_cong: "(\<And>k. k < 128 \<Longrightarrow> v k = w k) \<Longrightarrow> all_blocks v = all_blocks w"
  unfolding all_blocks_def by (rule sum.cong) auto

lemma all_blocks_member: "k < 128 \<Longrightarrow> p \<in> set (blocks (v k)) \<Longrightarrow> p \<in># all_blocks v"
  unfolding all_blocks_def by (auto simp: set_mset_sum)

subsection \<open>Allocation of the new slot\<close>

text \<open>What the code has established about the old and the new slot when it allocates.\<close>

definition slot_request :: "mem_lib \<Rightarrow> kvm_mr_change \<Rightarrow> kvm_memory_slot \<Rightarrow> kvm_memory_slot \<Rightarrow> bool" where
  "slot_request lib change old new = (slot_ok lib old
     \<and> dirty_bitmap new = dirty_bitmap old \<and> rmap new = rmap old \<and> lpage_info new = lpage_info old
     \<and> unat (base_gfn new) + unat (npages new) \<le> 2 ^ 52 \<and> npages new \<le> max_nr_pages lib
     \<and> mflags new AND NOT 3 = 0
     \<and> (npages new = 0 \<longrightarrow> mflags new AND KVM_MEM_LOG_DIRTY_PAGES = 0)
     \<and> (change = KVM_MR_CREATE \<longleftrightarrow> npages old = 0) \<and> (change = KVM_MR_DELETE \<longleftrightarrow> npages new = 0)
     \<and> (change = KVM_MR_FLAGS_ONLY \<longrightarrow> base_gfn new = base_gfn old)
     \<and> (change \<in> {KVM_MR_FLAGS_ONLY, KVM_MR_MOVE} \<longrightarrow> npages new = npages old \<and> npages old \<noteq> 0))"

definition zero_arch :: "kvm_mr_change \<Rightarrow> kvm_memory_slot \<Rightarrow> kvm_memory_slot" where
  "zero_arch change s = (if change = KVM_MR_DELETE
     then s\<lparr>dirty_bitmap := 0, rmap := [0, 0, 0], lpage_info := [0, 0]\<rparr> else s)"

lemma create_bitmap_post:
  assumes lib: "mem_lib_ok lib" and g: "heap_grown m0 ps m" and r: "kvm_create_dirty_bitmap lib s m = (x, s', m')"
  shows "x < 0 \<and> s' = s\<lparr>dirty_bitmap := 0\<rparr> \<and> m' = m
    \<or> x = 0 \<and> (\<exists>p. p \<noteq> 0 \<and> s' = s\<lparr>dirty_bitmap := p\<rparr> \<and> heap_grown m0 (p # ps) m' \<and> bitmap_ok lib m' s'
        \<and> (\<forall>q k. sized m q k \<longrightarrow> sized m' q k))"
proof -
  obtain p m1 where p: "kvm_kvzalloc lib (2 * bitmap_bytes lib (npages s) div 8) m = (p, m1)" by fastforce
  show ?thesis using r kvzalloc_grown [OF lib g p]
    unfolding kvm_create_dirty_bitmap_def Let_def p prod.case
    by (cases "p = 0") (auto simp: bitmap_ok_def)
qed

text \<open>The new slot differs from the request only in its pointers and its user address.\<close>

definition same_region :: "kvm_memory_slot \<Rightarrow> kvm_memory_slot \<Rightarrow> bool" where
  "same_region s t = (base_gfn s = base_gfn t \<and> npages s = npages t \<and> mflags s = mflags t \<and> slot_id s = slot_id t)"

text \<open>The per-page information of a slot has an entry for every large page that the slot touches.\<close>

definition covered :: "kvm_mem \<Rightarrow> kvm_memory_slot \<Rightarrow> bool" where
  "covered m s = ((\<forall>i<3. sized m (rmap s ! i) (lpages_of s (npages s) (i + 1)))
     \<and> (\<forall>i<2. sized m (lpage_info s ! i) (lpages_of s (npages s) (i + 2))))"

lemma covered_lists:
  assumes "rmap s = [a, b, c]" "lpage_info s = [d, e]"
  shows "covered m s \<longleftrightarrow> sized m a (lpages_of s (npages s) 1) \<and> sized m b (lpages_of s (npages s) 2)
    \<and> sized m c (lpages_of s (npages s) 3) \<and> sized m d (lpages_of s (npages s) 2) \<and> sized m e (lpages_of s (npages s) 3)"
  using assms unfolding covered_def by (auto simp: numeral_3_eq_3 numeral_2_eq_2 less_Suc_eq)

text \<open>The balance of the blocks: what the new slot needs and what is released later.\<close>

definition alloc_done ::
    "mem_lib \<Rightarrow> kvm_mr_change \<Rightarrow> kvm_memory_slot \<Rightarrow> kvm_memory_slot \<Rightarrow> kvm_memory_slot \<Rightarrow> kvm_mem \<Rightarrow> kvm_mem \<Rightarrow> bool" where
  "alloc_done lib change old new new' m m' = (same_region new' new \<and> slot_ok lib (zero_arch change new')
     \<and> bitmap_ok lib m' (zero_arch change new')
     \<and> (if change = KVM_MR_CREATE then covered m' new'
         else rmap new' = rmap old \<and> lpage_info new' = lpage_info old)
     \<and> (\<exists>ps. heap_grown m ps m' \<and> mset ps + mset (blocks old)
          = mset (blocks (zero_arch change new')) + mset (filter (\<lambda>p. p \<noteq> 0) (unshared old (zero_arch change new')))))"

lemma alloc_slot_post:
  assumes lib: "mem_lib_ok lib" and q: "slot_request lib change old new" and b: "bitmap_ok lib m old"
    and r: "alloc_slot lib change mem new m = (done, new', m')"
  shows "frees (unshared new' old) m' = m \<and> (done \<longrightarrow> alloc_done lib change old new new' m m')"
proof (cases "change = KVM_MR_CREATE")
  case create: True
  then have z: "npages old = 0" "dirty_bitmap new = 0" "rmap new = [0, 0, 0]" "lpage_info new = [0, 0]"
    "dirty_bitmap old = 0" "rmap old = [0, 0, 0]" "lpage_info old = [0, 0]" "npages new \<noteq> 0"
    using q unfolding slot_request_def slot_ok_def by auto
  let ?n = "new\<lparr>userspace_addr := mem_userspace_addr mem\<rparr>"
  have n: "(if mflags new AND KVM_MEM_LOG_DIRTY_PAGES = 0 then new\<lparr>dirty_bitmap := 0\<rparr> else new) = new"
    using z(2) by simp
  obtain x s1 m1 where c: "kvm_arch_create_memslot lib ?n (npages new) m = (x, s1, m1)"
    by (cases "kvm_arch_create_memslot lib ?n (npages new) m") auto
  note E = r [unfolded alloc_slot_def Let_def n create eqTrueI [OF refl] if_True c prod.case]
  have zero: "frees (unshared s old) mm = mm" if "dirty_bitmap s = 0" "rmap s = [0, 0, 0]" "lpage_info s = [0, 0]" for s mm
    using that z by (simp add: frees_def unshared_def)
  have "rmap ?n = [0, 0, 0]" "lpage_info ?n = [0, 0]" using z by simp_all
  from create_memslot_post [OF lib this c] show ?thesis
  proof (elim disjE conjE exE)
    assume f: "x < 0" "s1 = ?n" "m1 = m"
    then have "new' = ?n" "m' = m" "\<not> done" using E by auto
    then show ?thesis using zero z by simp
  next
    fix a b c d e
    assume f: "x = 0" "s1 = ?n\<lparr>rmap := [a, b, c], lpage_info := [d, e]\<rparr>" "0 \<notin> {a, b, c, d, e}"
      "heap_grown m [e, c, d, b, a] m1"
      and sz: "sized m1 a (lpages_of ?n (npages new) 1)" "sized m1 b (lpages_of ?n (npages new) 2)"
        "sized m1 c (lpages_of ?n (npages new) 3)" "sized m1 d (lpages_of ?n (npages new) 2)"
        "sized m1 e (lpages_of ?n (npages new) 3)"
    have cov: "covered mm (s1\<lparr>dirty_bitmap := p\<rparr>)" if "\<forall>q k. sized m1 q k \<longrightarrow> sized mm q k" for p mm
      using that sz f(2) by (simp add: covered_lists)
    have ne: "a \<noteq> 0" "b \<noteq> 0" "c \<noteq> 0" "d \<noteq> 0" "e \<noteq> 0" using f(3) by auto
    have undo: "frees [p, a, b, d, c, e] mm = m" if "heap_grown m (filter (\<lambda>p. p \<noteq> 0) [p] @ [e, c, d, b, a]) mm" for p mm
      by (rule frees_grown [OF that]) (use that ne in \<open>auto simp: heap_grown_def\<close>)
    have un: "unshared (s1\<lparr>dirty_bitmap := p\<rparr>) old = [p, a, b, d, c, e]" for p
      using f(2) z ne by (auto simp: unshared_def)
    have bal: "mset (filter (\<lambda>p. p \<noteq> 0) [p] @ [e, c, d, b, a]) + mset (blocks old)
        = mset (blocks (s1\<lparr>dirty_bitmap := p\<rparr>)) + mset (filter (\<lambda>p. p \<noteq> 0) (unshared old (s1\<lparr>dirty_bitmap := p\<rparr>)))" for p
      using f(2) z ne by (simp add: blocks_def unshared_def)
    have ok: "slot_ok lib (s1\<lparr>dirty_bitmap := p\<rparr>)" if "mflags new AND KVM_MEM_LOG_DIRTY_PAGES \<noteq> 0 \<longleftrightarrow> p \<noteq> 0" for p
      using q f(2) z that unfolding slot_request_def slot_ok_def by auto
    have reg: "same_region (s1\<lparr>dirty_bitmap := p\<rparr>) new" for p using f(2) by (simp add: same_region_def)
    have za: "zero_arch change s = s" for s using create by (simp add: zero_arch_def)
    have s1: "s1\<lparr>dirty_bitmap := 0\<rparr> = s1" "dirty_bitmap s1 = 0" "mflags s1 = mflags new" using f(2) z by simp_all
    show ?thesis
    proof (cases "mflags new AND KVM_MEM_LOG_DIRTY_PAGES \<noteq> 0")
      case False
      then have e: "new' = s1\<lparr>dirty_bitmap := 0\<rparr>" "m' = m1" using E f(1) s1 by auto
      have g: "heap_grown m (filter (\<lambda>p. p \<noteq> 0) [0] @ [e, c, d, b, a]) m1" using f(4) by simp
      show ?thesis unfolding e un alloc_done_def za
        using undo [OF g] g bal [of 0] ok [of 0] reg [of 0] cov [of m1 0] False create by (auto simp: bitmap_ok_def)
    next
      case True
      obtain y s2 m2 where d: "kvm_create_dirty_bitmap lib s1 m1 = (y, s2, m2)"
        by (cases "kvm_create_dirty_bitmap lib s1 m1") auto
      have e: "done = (0 \<le> y)" "new' = s2" "m' = m2" using E f(1) s1 True d by auto
      from create_bitmap_post [OF lib f(4) d] show ?thesis
      proof (elim disjE conjE exE)
        assume h: "y < 0" "s2 = s1\<lparr>dirty_bitmap := 0\<rparr>" "m2 = m1"
        have g: "heap_grown m (filter (\<lambda>p. p \<noteq> 0) [0] @ [e, c, d, b, a]) m1" using f(4) by simp
        show ?thesis unfolding e h un using undo [OF g] h(1) by simp
      next
        fix p
        assume h: "y = 0" "p \<noteq> 0" "s2 = s1\<lparr>dirty_bitmap := p\<rparr>" "heap_grown m (p # [e, c, d, b, a]) m2" "bitmap_ok lib m2 s2"
          and more: "\<forall>q k. sized m1 q k \<longrightarrow> sized m2 q k"
        have g: "heap_grown m (filter (\<lambda>p. p \<noteq> 0) [p] @ [e, c, d, b, a]) m2" using h by simp
        show ?thesis unfolding e un h(3) alloc_done_def za
          using undo [OF g] g bal [of p] ok [of p] reg [of p] cov [OF more, of p] True create h by auto
      qed
    qed
  qed
next
  case nocreate: False
  note False = nocreate
  have o: "npages old \<noteq> 0" "slot_ok lib old" using q False by (auto simp: slot_request_def)
  obtain a b c d e where l: "rmap old = [a, b, c]" "lpage_info old = [d, e]"
    using o(2) list3 list2 unfolding slot_ok_def by metis
  have n: "rmap new = [a, b, c]" "lpage_info new = [d, e]" "dirty_bitmap new = dirty_bitmap old"
    using q l by (simp_all add: slot_request_def)
  let ?log = "mflags new AND KVM_MEM_LOG_DIRTY_PAGES \<noteq> 0"
  let ?b = "if ?log then dirty_bitmap old else 0"
  let ?n = "new\<lparr>dirty_bitmap := ?b\<rparr>"
  have nb: "(if mflags new AND KVM_MEM_LOG_DIRTY_PAGES = 0 then new\<lparr>dirty_bitmap := 0\<rparr> else new) = ?n"
    using n(3) by simp
  note E = r [unfolded alloc_slot_def Let_def nb, simplified False if_False prod.case]
  have un: "unshared (new\<lparr>dirty_bitmap := p\<rparr>) old = [if p \<noteq> dirty_bitmap old then p else 0, 0, 0, 0, 0, 0]" for p
    using n l by (simp add: unshared_def)
  have bal: "mset (if p \<noteq> dirty_bitmap old \<and> p \<noteq> 0 then [p] else []) + mset (blocks old)
      = mset (blocks (zero_arch change (new\<lparr>dirty_bitmap := p\<rparr>)))
        + mset (filter (\<lambda>p. p \<noteq> 0) (unshared old (zero_arch change (new\<lparr>dirty_bitmap := p\<rparr>))))"
    if "change = KVM_MR_DELETE \<longrightarrow> p = 0" for p
    using n l that by (simp add: blocks_def unshared_def zero_arch_def)
  have ok: "slot_ok lib (zero_arch change (new\<lparr>dirty_bitmap := p\<rparr>))"
    if "?log \<longleftrightarrow> p \<noteq> 0" for p
    using q n l that unfolding slot_request_def slot_ok_def zero_arch_def by auto
  have reg: "same_region (new\<lparr>dirty_bitmap := p\<rparr>) new" for p by (simp add: same_region_def)
  show ?thesis
  proof (cases "?log \<and> dirty_bitmap old = 0")
    case False
    then have e: "done" "new' = new\<lparr>dirty_bitmap := ?b\<rparr>" "m' = m" using E by (auto split: if_splits)
    have bo: "bitmap_ok lib m (zero_arch change (new\<lparr>dirty_bitmap := ?b\<rparr>))"
      using b q nocreate unfolding bitmap_ok_def zero_arch_def slot_request_def
      by (cases change) auto
    have de: "change = KVM_MR_DELETE \<longrightarrow> ?b = 0" using q by (auto simp: slot_request_def)
    have fr: "frees [if ?b \<noteq> dirty_bitmap old then ?b else 0, 0, 0, 0, 0, 0] m = m" by (simp add: frees_def)
    have "mset [] + mset (blocks old) = mset (blocks (zero_arch change (new\<lparr>dirty_bitmap := ?b\<rparr>)))
        + mset (filter (\<lambda>p. p \<noteq> 0) (unshared old (zero_arch change (new\<lparr>dirty_bitmap := ?b\<rparr>))))"
      using bal [OF de] by (simp split: if_splits)
    then have "\<exists>ps. heap_grown m ps m \<and> mset ps + mset (blocks old) = mset (blocks (zero_arch change (new\<lparr>dirty_bitmap := ?b\<rparr>)))
        + mset (filter (\<lambda>p. p \<noteq> 0) (unshared old (zero_arch change (new\<lparr>dirty_bitmap := ?b\<rparr>))))"
      using heap_grown_refl by blast
    moreover have "?log \<longleftrightarrow> ?b \<noteq> 0" using False by auto
    moreover have "rmap ?n = rmap old" "lpage_info ?n = lpage_info old" using n l by simp_all
    ultimately show ?thesis unfolding e un alloc_done_def if_not_P [OF nocreate]
      using bo ok reg fr by blast
  next
    case True
    then have nn: "new\<lparr>dirty_bitmap := ?b\<rparr> = new" using n(3) by simp
    have n0: "new\<lparr>dirty_bitmap := 0\<rparr> = new" using True n(3) by simp
    obtain y s2 m2 where d: "kvm_create_dirty_bitmap lib new m = (y, s2, m2)"
      by (cases "kvm_create_dirty_bitmap lib new m") auto
    have e: "done = (0 \<le> y)" "new' = s2" "m' = m2" using E True d n(3) by (auto simp: n0)
    from create_bitmap_post [OF lib heap_grown_refl d] show ?thesis
    proof (elim disjE conjE exE)
      assume h: "y < 0" "s2 = new\<lparr>dirty_bitmap := 0\<rparr>" "m2 = m"
      show ?thesis unfolding e h un using h(1) by (simp add: frees_def)
    next
      fix p
      assume h: "y = 0" "p \<noteq> 0" "s2 = new\<lparr>dirty_bitmap := p\<rparr>" "heap_grown m [p] m2" "bitmap_ok lib m2 s2"
      have nd: "change \<noteq> KVM_MR_DELETE" using q True by (auto simp: slot_request_def)
      have fr: "frees [if p \<noteq> dirty_bitmap old then p else 0, 0, 0, 0, 0, 0] m2 = m"
        by (rule frees_grown [OF h(4)]) (use h(2) True in auto)
      have "mset [p] + mset (blocks old) = mset (blocks (zero_arch change (new\<lparr>dirty_bitmap := p\<rparr>)))
          + mset (filter (\<lambda>p. p \<noteq> 0) (unshared old (zero_arch change (new\<lparr>dirty_bitmap := p\<rparr>))))"
        using bal [of p] nd True h(2) by simp
      moreover have "bitmap_ok lib m2 (zero_arch change (new\<lparr>dirty_bitmap := p\<rparr>))"
        using h(3,5) nd by (simp add: zero_arch_def)
      moreover have "rmap (new\<lparr>dirty_bitmap := p\<rparr>) = rmap old" "lpage_info (new\<lparr>dirty_bitmap := p\<rparr>) = lpage_info old"
        using n l by simp_all
      ultimately show ?thesis unfolding e un h(3) alloc_done_def if_not_P [OF nocreate]
        using ok [of p] reg [of p] fr h True by auto
    qed
  qed
qed

subsection \<open>The checks\<close>

lemma page_sum:
  assumes "(x :: nat) + y < 2 ^ 64"
  shows "x div 4096 + y div 4096 \<le> 2 ^ 52"
proof -
  have "x div 4096 + y div 4096 \<le> (x + y) div 4096" by (simp add: div_add1_eq [of x y])
  also have "\<dots> \<le> 2 ^ 64 div 4096" using assms by (intro div_le_mono) simp
  finally show ?thesis by simp
qed

lemma unat_sum: "unat a + unat b \<le> 2 ^ 52 \<Longrightarrow> unat (a + b :: u64) = unat a + unat b"
proof -
  assume "unat a + unat b \<le> 2 ^ 52"
  then have "unat a + unat b < 2 ^ LENGTH(64)" by (rule le_less_trans) simp
  then show ?thesis by (rule iffD1 [OF unat_add_lem])
qed

lemma unat_page: "unat (drop_bit 12 a :: u64) = unat a div 4096"
  by (simp add: drop_bit_eq_div unat_div)

lemma shifted_sum:
  assumes "\<not> a + n < (a :: u64)"
  shows "unat (drop_bit 12 a) + unat (drop_bit 12 n) \<le> 2 ^ 52"
proof -
  have "unat (a + n) = unat a + unat n" using assms by (simp add: not_less unat_plus_simple)
  moreover have "unat (a + n) < 2 ^ 64" using unsigned_less [of "a + n"] by simp
  ultimately show ?thesis unfolding unat_page by (intro page_sum) linarith
qed

lemma region_checks_post:
  assumes lib: "mem_lib_ok lib" and ok: "mem_ok lib m"
    and r: "region_checks lib mem m = Inr (change, old, new, mem')"
  shows "slot_request lib change old new" "old = entry (memslots m) (mem_slot mem)"
    "slot_id new = mem_slot mem" "mem_slot mem < 128" "mem_slot mem' = mem_slot mem"
    "mem_userspace_addr mem' = mem_userspace_addr mem"
    "base_gfn new = drop_bit 12 (guest_phys_addr mem)" "npages new = drop_bit 12 (memory_size mem)"
    "mflags new = (if npages new = 0 then mem_flags mem AND NOT KVM_MEM_LOG_DIRTY_PAGES else mem_flags mem)"
    "userspace_addr new = userspace_addr old"
proof -
  have at: "at_id lib t k = id_to_index t k" for t k
    using lib unfolding mem_lib_ok_def by simp
  define mm where "mm = (if drop_bit 12 (memory_size mem) = 0
      then mem\<lparr>mem_flags := mem_flags mem AND NOT KVM_MEM_LOG_DIRTY_PAGES\<rparr> else mem)"
  define o2 where "o2 = entry (memslots m) (mem_slot mem)"
  define n2 where "n2 = o2\<lparr>slot_id := mem_slot mem, base_gfn := drop_bit 12 (guest_phys_addr mem),
      npages := drop_bit 12 (memory_size mem), mflags := mem_flags mm\<rparr>"
  from r have c: "check_memory_region_flags lib mem = 0" "\<not> KVM_MEM_SLOTS_NUM \<le> mem_slot mem"
    "\<not> guest_phys_addr mem + memory_size mem < guest_phys_addr mem"
    "\<not> drop_bit 12 (memory_size mem) > max_nr_pages lib"
    and ch: "change_of mm o2 n2 = Inr change" and eqs: "old = o2" "new = n2" "mem' = mm"
    unfolding region_checks_def Let_def at entry_def [symmetric] mm_def n2_def o2_def
    by (auto split: if_splits sum.splits)
  have slot: "mem_slot mem < 128" using c(2) by (simp add: KVM_MEM_SLOTS_NUM_def not_le)
  then have so: "slot_ok lib o2" using ok unfolding o2_def mem_ok_def view_ok_def by blast
  have f: "mem_flags mem AND NOT 3 = 0"
  proof -
    have three: "KVM_MEM_LOG_DIRTY_PAGES OR KVM_MEM_READONLY = 3"
      by (simp add: KVM_MEM_LOG_DIRTY_PAGES_def KVM_MEM_READONLY_def)
    have "mem_flags mem AND NOT 3 = (mem_flags mem AND NOT KVM_MEM_LOG_DIRTY_PAGES) AND NOT KVM_MEM_READONLY"
      unfolding three [symmetric] by (simp add: and.assoc)
    then show ?thesis using c(1) three by (auto simp: check_memory_region_flags_def Let_def split: if_splits)
  qed
  have fm: "mem_flags mm AND NOT 3 = 0"
    using f unfolding mm_def by (simp add: and.assoc and.left_commute [of "mem_flags mem"] ac_simps)
  have lm: "npages n2 = 0 \<longrightarrow> mem_flags mm AND KVM_MEM_LOG_DIRTY_PAGES = 0"
    unfolding mm_def n2_def by (simp add: and.assoc)
  have sum: "unat (base_gfn n2) + unat (npages n2) \<le> 2 ^ 52" unfolding n2_def using shifted_sum [OF c(3)] by simp
  have n: "npages n2 = drop_bit 12 (memory_size mem)" "mflags n2 = mem_flags mm" "slot_id n2 = mem_slot mem"
    "dirty_bitmap n2 = dirty_bitmap o2" "rmap n2 = rmap o2" "lpage_info n2 = lpage_info o2"
    by (simp_all add: n2_def)
  show "slot_request lib change old new"
    unfolding slot_request_def eqs using so n sum lm fm c(4) ch
    by (auto simp: change_of_def not_less split: if_splits)
  show "old = entry (memslots m) (mem_slot mem)" "slot_id new = mem_slot mem" "mem_slot mem < 128"
    "mem_slot mem' = mem_slot mem" "mem_userspace_addr mem' = mem_userspace_addr mem"
    "base_gfn new = drop_bit 12 (guest_phys_addr mem)" "npages new = drop_bit 12 (memory_size mem)"
    "mflags new = (if npages new = 0 then mem_flags mem AND NOT KVM_MEM_LOG_DIRTY_PAGES else mem_flags mem)"
    "userspace_addr new = userspace_addr old"
    using eqs slot by (simp_all add: o2_def n2_def mm_def)
qed

lemma no_overlap_apart:
  assumes lib: "mem_lib_ok lib" and ok: "mem_ok lib m" and ov: "\<not> overlaps lib new (memslots m)"
    and n: "unat (base_gfn new) + unat (npages new) \<le> 2 ^ 52"
    and k: "k < KVM_USER_MEM_SLOTS" "k \<noteq> slot_id new"
  shows "apart new (entry (memslots m) k)"
proof -
  let ?s = "entry (memslots m) k"
  have t: "table_ok (memslots m)" using ok unfolding mem_ok_def by simp
  have k128: "k < 128" using k(1) by (simp add: KVM_USER_MEM_SLOTS_def word_less_nat_alt)
  have id: "slot_id ?s = k" "?s \<in> set (slot_array (memslots m))" using table_entry [OF t k128] by simp_all
  have w: "set (walk lib (memslots m)) = {s \<in> set (slot_array (memslots m)). npages s \<noteq> 0}"
  proof -
    have "\<forall>t. by_size (slot_array t) \<longrightarrow> set (walk lib t) = {s \<in> set (slot_array t). npages s \<noteq> 0}"
      using lib unfolding mem_lib_ok_def by (elim conjE)
    then show ?thesis using t unfolding table_ok_def by simp
  qed
  have so: "unat (base_gfn ?s) + unat (npages ?s) \<le> 2 ^ 52"
    using ok k128 unfolding mem_ok_def view_ok_def slot_ok_def by blast
  show ?thesis
  proof (cases "npages ?s = 0")
    case True
    then show ?thesis by (simp add: apart_def)
  next
    case False
    then have "?s \<in> set (walk lib (memslots m))" using w id by simp
    then have "base_gfn new + npages new \<le> base_gfn ?s \<or> base_gfn new \<ge> base_gfn ?s + npages ?s"
      using ov k id unfolding overlaps_def list_ex_iff by (auto simp: not_le)
    then have "unat (base_gfn new) + unat (npages new) \<le> unat (base_gfn ?s)
        \<or> unat (base_gfn ?s) + unat (npages ?s) \<le> unat (base_gfn new)"
      unfolding word_le_nat_alt unat_sum [OF n] unat_sum [OF so] .
    then show ?thesis unfolding apart_def by blast
  qed
qed

subsection \<open>Installing the table\<close>

lemma table_ok_gen [simp]: "table_ok (t\<lparr>generation := g\<rparr>) = table_ok t"
  by (simp add: table_ok_def)

lemma entry_gen [simp]: "entry (t\<lparr>generation := g\<rparr>) = entry t"
  by (rule ext) (simp add: entry_def)

lemma install_post:
  assumes lib: "mem_lib_ok lib" and t: "table_ok slots" and s: "slot_id s < 128"
    and r: "install_new_memslots lib slots (Some s) m = (old, m')"
  shows "table_ok (memslots m')" "k < 128 \<Longrightarrow> entry (memslots m') k = ((entry slots)(slot_id s := s)) k"
    "generation (memslots m') = generation (memslots m) + 2" "heap m' = heap m" "bad_free m' = bad_free m"
    "old = memslots m"
proof -
  let ?t = "slots\<lparr>generation := generation (memslots m) + 1\<rparr>"
  have t2: "table_ok ?t" using t by simp
  note u = update_memslots_ok [OF lib t2 s]
  have m': "m' = kvm_arch_memslots_updated (m\<lparr>memslots := (update_memslots lib ?t (Some s))
      \<lparr>generation := generation (update_memslots lib ?t (Some s)) + 1\<rparr>\<rparr>)" and "old = memslots m"
    using r by (auto simp: install_new_memslots_def Let_def)
  then show "table_ok (memslots m')" "generation (memslots m') = generation (memslots m) + 2"
    "heap m' = heap m" "bad_free m' = bad_free m" "old = memslots m"
    using u by (simp_all add: kvm_arch_memslots_updated_def)
  show "entry (memslots m') k = ((entry slots)(slot_id s := s)) k" if "k < 128"
    using u(2) [OF that] m' by (simp add: kvm_arch_memslots_updated_def)
qed

lemma invalidate_post:
  assumes "invalidate_slot lib mem old m = (slots, m')"
  shows "slots = memslots m" "generation (memslots m') = generation (memslots m) + 2"
    "heap m' = heap m" "bad_free m' = bad_free m"
  using assms by (auto simp: invalidate_slot_def install_new_memslots_def update_memslots_def Let_def
      kvm_arch_memslots_updated_def)

lemma arch_commit_same [simp]:
  "memslots (kvm_arch_commit_memory_region lib mem old change m) = memslots m"
  "heap (kvm_arch_commit_memory_region lib mem old change m) = heap m"
  "bad_free (kvm_arch_commit_memory_region lib mem old change m) = bad_free m"
  by (simp_all add: kvm_arch_commit_memory_region_def Let_def)

text \<open>The two outcomes of the operation.\<close>

definition region_installed ::
    "mem_lib \<Rightarrow> kvm_userspace_memory_region \<Rightarrow> kvm_mem \<Rightarrow> kvm_mr_change \<Rightarrow> kvm_memory_slot \<Rightarrow> kvm_memory_slot \<Rightarrow>
     int \<Rightarrow> kvm_mem \<Rightarrow> bool" where
  "region_installed lib mem m change old new r m' =
     (\<exists>new0 mem' new' m1 slots m2. region_checks lib mem m = Inr (change, old, new0, mem')
        \<and> (change \<in> {KVM_MR_CREATE, KVM_MR_MOVE} \<longrightarrow> \<not> overlaps lib new0 (memslots m))
        \<and> alloc_done lib change old new0 new' m m1 \<and> new = zero_arch change new'
        \<and> table_ok slots \<and> entry slots = entry (memslots m)
        \<and> (generation (memslots m2) = generation (memslots m) \<or> generation (memslots m2) = generation (memslots m) + 2)
        \<and> heap m2 = heap m1 \<and> bad_free m2 = bad_free m
        \<and> (slot_id new0 < KVM_USER_MEM_SLOTS \<longrightarrow>
             userspace_addr new = (if change = KVM_MR_CREATE then mem_userspace_addr mem else userspace_addr old))
        \<and> (r, m') = commit_region lib change mem' old new' slots m2)"

lemma alloc_done_user [simp]:
  "alloc_done lib change old new (s\<lparr>userspace_addr := a\<rparr>) m m' = alloc_done lib change old new s m m'"
  by (simp add: alloc_done_def same_region_def zero_arch_def blocks_def unshared_def slot_ok_def bitmap_ok_def
      covered_def)

lemma unshared_user [simp]: "unshared (s\<lparr>userspace_addr := a\<rparr>) t = unshared s t"
  by (simp add: unshared_def)

lemma prepare_post:
  assumes "kvm_arch_prepare_memory_region lib s change = (r, s')"
  obtains a where "s' = s\<lparr>userspace_addr := a\<rparr>" "r \<noteq> 0 \<longrightarrow> change = KVM_MR_CREATE"
    "slot_id s < KVM_USER_MEM_SLOTS \<longrightarrow> r = 0 \<and> a = userspace_addr s"
proof -
  have "s' = s\<lparr>userspace_addr := userspace_addr s'\<rparr>" "r \<noteq> 0 \<longrightarrow> change = KVM_MR_CREATE"
    "slot_id s < KVM_USER_MEM_SLOTS \<longrightarrow> r = 0 \<and> userspace_addr s' = userspace_addr s"
    using assms unfolding kvm_arch_prepare_memory_region_def by (auto split: if_splits sum.splits)
  then show ?thesis by (rule that)
qed

lemma alloc_slot_user:
  assumes lib: "mem_lib_ok lib" and q: "slot_request lib change old new"
    and r: "alloc_slot lib change mem new m = (ok, new', m')"
  shows "userspace_addr new' = (if change = KVM_MR_CREATE then mem_userspace_addr mem else userspace_addr new)"
    "slot_id new' = slot_id new"
proof -
  have bm: "userspace_addr s' = userspace_addr s \<and> slot_id s' = slot_id s"
    if "kvm_create_dirty_bitmap lib s mm = (x, s', mm')" for s mm x s' mm'
    using that by (auto simp: kvm_create_dirty_bitmap_def Let_def split: prod.splits)
  have cr: "userspace_addr s' = userspace_addr s \<and> slot_id s' = slot_id s"
    if "kvm_arch_create_memslot lib s n mm = (x, s', mm')" "rmap s = [0, 0, 0]" "lpage_info s = [0, 0]" for s n mm x s' mm'
    using create_memslot_post [OF lib that(2,3,1)] by auto
  have z: "change = KVM_MR_CREATE \<Longrightarrow> rmap new = [0, 0, 0] \<and> lpage_info new = [0, 0]"
    using q unfolding slot_request_def slot_ok_def by auto
  show "userspace_addr new' = (if change = KVM_MR_CREATE then mem_userspace_addr mem else userspace_addr new)"
    "slot_id new' = slot_id new"
    using r z unfolding alloc_slot_def Let_def
    by (auto split: if_splits prod.splits dest!: bm cr)
qed

lemma frees_same: "memslots (frees ps m) = memslots m"
  by (induction ps arbitrary: m) (simp_all add: frees_def kvm_kvfree_def)

lemma free_physmem_same: "memslots (kvm_free_physmem_slot s (Some t) m) = memslots m"
  unfolding free_physmem_slot_frees by (rule frees_same)

text \<open>Why a call left early.\<close>

definition region_refused :: "mem_lib \<Rightarrow> kvm_userspace_memory_region \<Rightarrow> kvm_mem \<Rightarrow> int \<Rightarrow> bool" where
  "region_refused lib mem m r = (region_checks lib mem m = Inl r
     \<or> (\<exists>change old new mem'. region_checks lib mem m = Inr (change, old, new, mem') \<and> r \<noteq> 0
          \<and> (change \<in> {KVM_MR_CREATE, KVM_MR_MOVE} \<and> overlaps lib new (memslots m)
             \<or> \<not> fst (alloc_slot lib change mem' new m) \<or> \<not> kmemdup_ok lib (memslots m)
             \<or> KVM_USER_MEM_SLOTS \<le> slot_id new)))"

lemma set_region_outcome:
  assumes lib: "mem_lib_ok lib" and ok: "mem_ok lib m" and r: "do_set_memory_region lib mem m = (r, m')"
  shows "m' = m \<and> region_refused lib mem m r \<or> (\<exists>change old new. region_installed lib mem m change old new r m')"
proof (cases "region_checks lib mem m")
  case (Inl x)
  then show ?thesis using r by (simp add: do_set_memory_region_def region_refused_def)
next
  case (Inr y)
  then obtain change old new mem' where c: "region_checks lib mem m = Inr (change, old, new, mem')"
    by (cases y) auto
  note C = region_checks_post [OF lib ok c]
  show ?thesis
  proof (cases "(change = KVM_MR_CREATE \<or> change = KVM_MR_MOVE) \<and> overlaps lib new (memslots m)")
    case True
    then show ?thesis using r c by (auto simp: do_set_memory_region_def region_refused_def)
  next
    case no: False
    obtain fin new' m1 where a: "alloc_slot lib change mem' new m = (fin, new', m1)"
      by (cases "alloc_slot lib change mem' new m") auto
    have b: "bitmap_ok lib m old" using ok C(2,4) unfolding mem_ok_def by simp
    note A = alloc_slot_post [OF lib C(1) b a]
    have fr: "kvm_free_physmem_slot (new'\<lparr>userspace_addr := u\<rparr>) (Some old) m1 = m" for u
      using A by (simp add: free_physmem_slot_frees)
    have fr': "kvm_free_physmem_slot new' (Some old) m1 = m" using A by (simp add: free_physmem_slot_frees)
    obtain x new'' where p: "kvm_arch_prepare_memory_region lib new' change = (x, new'')"
      by (cases "kvm_arch_prepare_memory_region lib new' change") auto
    obtain u where u: "new'' = new'\<lparr>userspace_addr := u\<rparr>" "x \<noteq> 0 \<longrightarrow> change = KVM_MR_CREATE"
      "slot_id new' < KVM_USER_MEM_SLOTS \<longrightarrow> x = 0 \<and> u = userspace_addr new'"
      by (rule prepare_post [OF p])
    note U = alloc_slot_user [OF lib C(1) a]
    have ref: "region_refused lib mem m y" if "y \<noteq> 0" "\<not> fin \<or> \<not> kmemdup_ok lib (memslots m) \<or> KVM_USER_MEM_SLOTS \<le> slot_id new" for y
      using c a that unfolding region_refused_def by auto
    have mm: "memslots m1 = memslots m"
      using fr' free_physmem_same [of new' old m1] by simp
    note E = r [unfolded do_set_memory_region_def c sum.case prod.case if_not_P [OF no] a p]
    show ?thesis
    proof (cases "fin \<and> kmemdup_ok lib (memslots m1)")
      case False
      have "m' = m \<and> r \<noteq> 0" using E False fr fr' u by (auto split: if_splits)
      moreover have "\<not> fin \<or> \<not> kmemdup_ok lib (memslots m) \<or> KVM_USER_MEM_SLOTS \<le> slot_id new" using False mm by auto
      ultimately show ?thesis using ref [of r] by blast
    next
      case True
      define both where "both = (if change = KVM_MR_DELETE \<or> change = KVM_MR_MOVE
          then invalidate_slot lib mem' old m1 else (memslots m1, m1))"
      obtain slots m2 where bo: "both = (slots, m2)" by (cases both) auto
      note E2 = E [folded both_def, unfolded bo prod.case, simplified True simp_thms if_True if_False]
      have g: "\<exists>ps. heap_grown m ps m1" using A True unfolding alloc_done_def by blast
      then have m1: "memslots m1 = memslots m" "bad_free m1 = bad_free m"
        unfolding heap_grown_def by (metis kvm_mem.select_convs(1) kvm_mem.surjective kvm_mem.update_convs(2),
            metis kvm_mem.select_convs(3) kvm_mem.surjective kvm_mem.update_convs(2))
      show ?thesis
      proof (cases "x = 0")
        case False
        then have "change = KVM_MR_CREATE" using u by simp
        then have "m2 = m1" using bo by (simp add: both_def)
        then have "m' = m \<and> r = x" using E2 False fr u True by simp
        then show ?thesis using ref [of x] False u(3) U(2) by (auto simp: not_less)
      next
        case x: True
        have B: "slots = memslots m" "heap m2 = heap m1" "bad_free m2 = bad_free m"
          "generation (memslots m2) = generation (memslots m) \<or> generation (memslots m2) = generation (memslots m) + 2"
          using bo invalidate_post [of lib mem' old m1 slots m2] m1 unfolding both_def by (auto split: if_splits)
        have "(r, m') = commit_region lib change mem' old new'' slots m2" using E2 x True by simp
        moreover have "alloc_done lib change old new new'' m m1" using A True u by simp
        moreover have "slot_id new < KVM_USER_MEM_SLOTS \<longrightarrow> userspace_addr (zero_arch change new'')
            = (if change = KVM_MR_CREATE then mem_userspace_addr mem else userspace_addr old)"
          using U u(1,3) C(6,10) by (auto simp: zero_arch_def)
        moreover have "table_ok slots" using ok B(1) unfolding mem_ok_def by simp
        moreover have "entry slots = entry (memslots m)" using B(1) by simp
        ultimately show ?thesis
          using c no B(2-4) unfolding region_installed_def by blast
      qed
    qed
  qed
qed

subsection \<open>Preservation\<close>

lemma installed_state:
  assumes lib: "mem_lib_ok lib" and ok: "mem_ok lib m" and i: "region_installed lib mem m change old new r m'"
  shows "table_ok (memslots m')" "mem_slot mem < 128"
    "\<And>k. k < 128 \<Longrightarrow> entry (memslots m') k = ((entry (memslots m))(mem_slot mem := new)) k"
    "old = entry (memslots m) (mem_slot mem)" "slot_id new = mem_slot mem"
    "generation (memslots m') \<in> {generation (memslots m) + 2, generation (memslots m) + 4}"
    "heap_holds (heap m') (all_blocks ((entry (memslots m))(mem_slot mem := new)))"
    "bad_free m' = bad_free m" "slot_ok lib new" "bitmap_ok lib m' new"
    "\<And>k p. p \<in># all_blocks ((entry (memslots m))(mem_slot mem := new)) \<Longrightarrow> heap m p \<noteq> None \<Longrightarrow> heap m' p = heap m p"
    "r = (if change \<in> {KVM_MR_CREATE, KVM_MR_MOVE} then iommu_map_pages lib new else 0)"
    "change = KVM_MR_CREATE \<Longrightarrow> covered m' new"
proof -
  obtain new0 mem' new' m1 slots m2 where c: "region_checks lib mem m = Inr (change, old, new0, mem')"
    and A: "alloc_done lib change old new0 new' m m1" and n: "new = zero_arch change new'"
    and t: "table_ok slots" "entry slots = entry (memslots m)"
    and g: "generation (memslots m2) = generation (memslots m) \<or> generation (memslots m2) = generation (memslots m) + 2"
    and h: "heap m2 = heap m1" "bad_free m2 = bad_free m"
    and r: "(r, m') = commit_region lib change mem' old new' slots m2"
    using i unfolding region_installed_def by blast
  note C = region_checks_post [OF lib ok c]
  let ?v = "entry (memslots m)" let ?k = "mem_slot mem"
  show "mem_slot mem < 128" "old = ?v ?k" using C by simp_all
  have id: "slot_id new = ?k" using A C(3) unfolding alloc_done_def same_region_def n zero_arch_def by auto
  then show "slot_id new = ?k" .
  obtain o3 m3 where ins: "install_new_memslots lib slots (Some new) m2 = (o3, m3)"
    by (cases "install_new_memslots lib slots (Some new) m2") auto
  note I = install_post [OF lib t(1) _ ins, unfolded id, OF C(4)]
  define m4 where "m4 = kvm_arch_commit_memory_region lib mem' old change m3"
  define m5 where "m5 = frees (unshared old new) m4"
  have r2: "r = (if change \<in> {KVM_MR_CREATE, KVM_MR_MOVE} then iommu_map_pages lib new else 0)"
    and m': "memslots m' = memslots m5" "heap m' = heap m5" "bad_free m' = bad_free m5"
    using r unfolding commit_region_def zero_arch_def [symmetric] n [symmetric] Let_def ins prod.case
      free_physmem_slot_frees m4_def [symmetric] m5_def [symmetric]
    by (auto split: if_splits)
  show "r = (if change \<in> {KVM_MR_CREATE, KVM_MR_MOVE} then iommu_map_pages lib new else 0)" by (rule r2)
  obtain ps where ps: "heap_grown m ps m1" "mset ps + mset (blocks old)
      = mset (blocks new) + mset (filter (\<lambda>p. p \<noteq> 0) (unshared old new))"
    using A unfolding alloc_done_def n by blast
  have "heap_holds (heap m) (all_blocks ?v)" using ok unfolding mem_ok_def by blast
  then have hh: "heap_holds (heap m1) (all_blocks ?v + mset ps)" by (rule heap_grown_holds [OF ps(1)])
  have upd: "all_blocks (?v(?k := new)) + mset (blocks old) = all_blocks ?v + mset (blocks new)"
    using all_blocks_upd [OF C(4), of ?v new] C(2) by simp
  have "all_blocks ?v + mset ps + mset (blocks old) = (all_blocks ?v + mset (blocks new))
      + mset (filter (\<lambda>p. p \<noteq> 0) (unshared old new))"
    by (simp only: add.assoc ps(2))
  also have "\<dots> = all_blocks (?v(?k := new)) + mset (filter (\<lambda>p. p \<noteq> 0) (unshared old new)) + mset (blocks old)"
    unfolding upd [symmetric] by (simp only: ac_simps)
  finally have "all_blocks ?v + mset ps + mset (blocks old)
      = all_blocks (?v(?k := new)) + mset (filter (\<lambda>p. p \<noteq> 0) (unshared old new)) + mset (blocks old)" .
  then have bal: "all_blocks ?v + mset ps = all_blocks (?v(?k := new)) + mset (filter (\<lambda>p. p \<noteq> 0) (unshared old new))"
    by (rule add_right_imp_eq)
  have h4: "heap m4 = heap m1" using I(4) h(1) by (simp add: m4_def)
  have "heap_holds (heap m4) (all_blocks (?v(?k := new)) + mset (filter (\<lambda>p. p \<noteq> 0) (unshared old new)))"
    using hh bal h4 by simp
  note F = frees_holds [OF this, folded m5_def]
  show holds: "heap_holds (heap m') (all_blocks (?v(?k := new)))" using F(1) m' by simp
  show "bad_free m' = bad_free m" using F(2) m' I(5) h(2) by (simp add: m4_def)
  have mt: "memslots m' = memslots m3" using F(3) m' by (simp add: m4_def)
  show "table_ok (memslots m')" using I(1) mt by simp
  show "entry (memslots m') k = (?v(?k := new)) k" if "k < 128" for k
    using I(2) [OF that] mt t(2) by simp
  show "generation (memslots m') \<in> {generation (memslots m) + 2, generation (memslots m) + 4}"
    using I(3) mt g by auto
  show "slot_ok lib new" using A unfolding alloc_done_def n by blast
  have live: "heap m' p \<noteq> None" if "p \<in># all_blocks (?v(?k := new))" for p
  proof -
    have "p \<in># mset_set (dom (heap m'))" and f: "finite (dom (heap m'))"
      using that holds unfolding heap_holds_def by simp_all
    then have "p \<in> dom (heap m')" by (simp only: elem_mset_set [OF f])
    then show ?thesis by auto
  qed
  have keep: "heap m' p = heap m1 p" if "p \<in># all_blocks (?v(?k := new))" for p
    using F(4) [of p] live [OF that] m' h4 by simp
  show "heap m' p = heap m p" if "p \<in># all_blocks (?v(?k := new))" "heap m p \<noteq> None" for p
    using keep [OF that(1)] ps(1) that(2) unfolding heap_grown_def by auto
  have "dirty_bitmap new \<in># all_blocks (?v(?k := new))" if "dirty_bitmap new \<noteq> 0"
    by (rule all_blocks_member [OF C(4)]) (use that in \<open>simp add: blocks_def\<close>)
  then show "bitmap_ok lib m' new"
    using A keep unfolding alloc_done_def n [symmetric] bitmap_ok_def sized_def by auto
  show "covered m' new" if cr: "change = KVM_MR_CREATE"
  proof -
    have nn: "new = new'" using cr n by (simp add: zero_arch_def)
    have cov: "covered m1 new" using A cr nn unfolding alloc_done_def by simp
    have len: "length (rmap new) = 3" "length (lpage_info new) = 2"
      using A unfolding alloc_done_def n [symmetric] slot_ok_def by simp_all
    have sz: "sized m' p k" if p: "sized m1 p k" "p \<in> set (rmap new @ lpage_info new)" for p k
    proof -
      have "heap m1 0 = None" using hh unfolding heap_holds_def by auto
      then have "p \<noteq> 0" using p(1) unfolding sized_def by (metis option.distinct(1))
      then have "p \<in># all_blocks (?v(?k := new))"
        by (intro all_blocks_member [OF C(4)]) (use p(2) in \<open>auto simp: blocks_def\<close>)
      then show ?thesis using keep p(1) unfolding sized_def by simp
    qed
    show ?thesis
      using cov sz len unfolding covered_def by auto
  qed
qed

lemma region_keeps_ok:
  assumes lib: "mem_lib_ok lib" and ok: "mem_ok lib m" and r: "do_set_memory_region lib mem m = (r, m')"
  shows "mem_ok lib m'"
  using set_region_outcome [OF lib ok r]
proof (elim disjE exE)
  assume "m' = m \<and> region_refused lib mem m r"
  then show ?thesis using ok by simp
next
  fix change old new
  assume i: "region_installed lib mem m change old new r m'"
  note S = installed_state [OF lib ok i]
  let ?v = "entry (memslots m)" let ?k = "mem_slot mem"
  obtain new0 mem' new' m1 where c: "region_checks lib mem m = Inr (change, old, new0, mem')"
    and ov: "change \<in> {KVM_MR_CREATE, KVM_MR_MOVE} \<longrightarrow> \<not> overlaps lib new0 (memslots m)"
    and A: "alloc_done lib change old new0 new' m m1" and n: "new = zero_arch change new'"
    using i unfolding region_installed_def by blast
  note C = region_checks_post [OF lib ok c]
  have same: "base_gfn new = base_gfn new0" "npages new = npages new0"
    using A unfolding alloc_done_def same_region_def n zero_arch_def by (auto split: if_splits)
  have okm: "view_ok lib ?v" using ok unfolding mem_ok_def by blast
  have sep: "apart new (?v k)" if k: "k < KVM_USER_MEM_SLOTS" "k \<noteq> ?k" and u: "?k < KVM_USER_MEM_SLOTS" for k
  proof (cases "change \<in> {KVM_MR_CREATE, KVM_MR_MOVE}")
    case True
    have "apart new0 (?v k)"
      using True ov C(1) C(3) k by (intro no_overlap_apart [OF lib ok]) (auto simp: slot_request_def)
    then show ?thesis using same unfolding apart_def by simp
  next
    case False
    have "npages new = 0 \<or> base_gfn new = base_gfn old \<and> npages new = npages old"
      using C(1) False same unfolding slot_request_def by (cases change) auto
    moreover have "apart old (?v k)" using okm u k C(2) unfolding view_ok_def by auto
    ultimately show ?thesis unfolding apart_def by auto
  qed
  have vw: "view_ok lib (entry (memslots m'))"
    unfolding view_ok_def
  proof (intro conjI allI impI)
    fix k :: u32 assume "k < 128"
    then show "slot_ok lib (entry (memslots m') k)"
      using S(3,9) okm unfolding view_ok_def by simp
  next
    fix j k :: u32
    assume jk: "j < KVM_USER_MEM_SLOTS" "k < KVM_USER_MEM_SLOTS" "j \<noteq> k"
    then have l: "j < 128" "k < 128" by (simp_all add: KVM_USER_MEM_SLOTS_def word_less_nat_alt)
    have sym: "apart s t \<Longrightarrow> apart t s" for s t unfolding apart_def by blast
    show "apart (entry (memslots m') j) (entry (memslots m') k)"
      using S(3) [OF l(1)] S(3) [OF l(2)] jk sep sym okm unfolding view_ok_def by auto
  qed
  have blk: "all_blocks (entry (memslots m')) = all_blocks (?v(?k := new))"
    by (rule all_blocks_cong) (rule S(3))
  have bm: "bitmap_ok lib m' (entry (memslots m') k)" if k: "k < 128" for k
  proof (cases "k = ?k")
    case True
    then show ?thesis using S(3) [OF k] S(10) by simp
  next
    case False
    have e: "entry (memslots m') k = ?v k" using S(3) [OF k] False by simp
    have b: "bitmap_ok lib m (?v k)" using ok k unfolding mem_ok_def by blast
    show ?thesis
    proof (cases "dirty_bitmap (?v k) = 0")
      case True
      then show ?thesis using e by (simp add: bitmap_ok_def)
    next
      case z: False
      then have "dirty_bitmap (?v k) \<in># all_blocks (?v(?k := new))"
        by (intro all_blocks_member [OF k]) (use False in \<open>simp add: blocks_def\<close>)
      moreover have "heap m (dirty_bitmap (?v k)) \<noteq> None" using b z unfolding bitmap_ok_def sized_def by auto
      ultimately have "heap m' (dirty_bitmap (?v k)) = heap m (dirty_bitmap (?v k))" by (rule S(11))
      then show ?thesis using b unfolding e bitmap_ok_def sized_def by simp
    qed
  qed
  have "even (generation (memslots m))" using ok unfolding mem_ok_def by blast
  then have "even (generation (memslots m'))" using S(6) by auto
  then show ?thesis
    using S(1,7,8) vw bm ok unfolding mem_ok_def blk by blast
qed

subsection \<open>What is installed\<close>

lemma installed_fields:
  assumes lib: "mem_lib_ok lib" and ok: "mem_ok lib m" and i: "region_installed lib mem m change old new r m'"
  shows "base_gfn new = drop_bit 12 (guest_phys_addr mem)" "npages new = drop_bit 12 (memory_size mem)"
    "mflags new = (if npages new = 0 then mem_flags mem AND NOT KVM_MEM_LOG_DIRTY_PAGES else mem_flags mem)"
    "mem_slot mem < KVM_USER_MEM_SLOTS \<Longrightarrow>
      userspace_addr new = (if change = KVM_MR_CREATE then mem_userspace_addr mem else userspace_addr old)"
    "change = KVM_MR_CREATE \<longleftrightarrow> npages old = 0" "change = KVM_MR_DELETE \<longleftrightarrow> npages new = 0"
    "npages old \<noteq> 0 \<Longrightarrow> npages new \<noteq> 0 \<Longrightarrow> rmap new = rmap old \<and> lpage_info new = lpage_info old \<and> npages new = npages old"
proof -
  obtain new0 mem' new' m1 slots m2 where c: "region_checks lib mem m = Inr (change, old, new0, mem')"
    and A: "alloc_done lib change old new0 new' m m1" and n: "new = zero_arch change new'"
    and u: "slot_id new0 < KVM_USER_MEM_SLOTS \<longrightarrow>
      userspace_addr new = (if change = KVM_MR_CREATE then mem_userspace_addr mem else userspace_addr old)"
    using i unfolding region_installed_def by blast
  note C = region_checks_post [OF lib ok c] and S = installed_state [OF lib ok i]
  have same: "base_gfn new = base_gfn new0" "npages new = npages new0" "mflags new = mflags new0"
    using A unfolding alloc_done_def same_region_def n zero_arch_def by (auto split: if_splits)
  show "base_gfn new = drop_bit 12 (guest_phys_addr mem)" "npages new = drop_bit 12 (memory_size mem)"
    "mflags new = (if npages new = 0 then mem_flags mem AND NOT KVM_MEM_LOG_DIRTY_PAGES else mem_flags mem)"
    using C(7,8,9) same by simp_all
  show "userspace_addr new = (if change = KVM_MR_CREATE then mem_userspace_addr mem else userspace_addr old)"
    if "mem_slot mem < KVM_USER_MEM_SLOTS"
    using u that C(3) by simp
  show ch: "change = KVM_MR_CREATE \<longleftrightarrow> npages old = 0" "change = KVM_MR_DELETE \<longleftrightarrow> npages new = 0"
    using C(1) same unfolding slot_request_def by auto
  show "rmap new = rmap old \<and> lpage_info new = lpage_info old \<and> npages new = npages old"
    if "npages old \<noteq> 0" "npages new \<noteq> 0"
  proof -
    have "change \<noteq> KVM_MR_CREATE" "change \<noteq> KVM_MR_DELETE" using ch that by simp_all
    moreover from this have "npages new0 = npages old"
      using C(1) unfolding slot_request_def by (cases change) auto
    ultimately show ?thesis using A same unfolding alloc_done_def n zero_arch_def by simp
  qed
qed

end
