(* ===== verification/Guest_Memory_Props.thy ===== *)
theory Guest_Memory_Props
  imports Guest_Memory Memslots_Region
begin

text \<open>
  The access to guest memory agrees with a byte-wise reference: a range is read and written as if
  each byte were translated on its own, and a written page is marked dirty.
\<close>

subsection \<open>What is assumed of the user copies\<close>

fun put :: "u64 \<Rightarrow> u8 list \<Rightarrow> (u64 \<Rightarrow> u8) \<Rightarrow> u64 \<Rightarrow> u8" where
  "put a [] u = u"
| "put a (b # bs) u = put (a + 1) bs (u(a := b))"

definition user_lib_ok :: "mem_lib \<Rightarrow> bool" where
  "user_lib_ok lib = (
     (\<forall>s gfn. slot_hva lib s gfn = userspace_addr s + (gfn - base_gfn s) * 0x1000)
     \<and> is_error_hva lib (hva_err_bad lib) \<and> is_error_hva lib (hva_err_ro_bad lib)
     \<and> (\<forall>u a n. \<exists>r d. copy_from_user lib u a n = (r, d)
          \<and> (r = 0 \<longleftrightarrow> (\<forall>i<n. readable lib (a + of_nat i)))
          \<and> (r = 0 \<longrightarrow> d = map (\<lambda>i. u (a + of_nat i)) [0..<n]))
     \<and> (\<forall>u a bs. \<exists>r k. copy_to_user lib u a bs = (r, put a (take k bs) u)
          \<and> (r = 0 \<longleftrightarrow> (\<forall>i<length bs. writable lib (a + of_nat i))) \<and> (r = 0 \<longrightarrow> k = length bs)))"

lemma copy_from_user_law:
  assumes "user_lib_ok lib"
  obtains r d where "copy_from_user lib u a n = (r, d)"
    "r = 0 \<longleftrightarrow> (\<forall>i<n. readable lib (a + of_nat i))"
    "r = 0 \<longrightarrow> d = map (\<lambda>i. u (a + of_nat i)) [0..<n]"
proof -
  have "\<forall>u a n. \<exists>r d. copy_from_user lib u a n = (r, d)
      \<and> (r = 0 \<longleftrightarrow> (\<forall>i<n. readable lib (a + of_nat i)))
      \<and> (r = 0 \<longrightarrow> d = map (\<lambda>i. u (a + of_nat i)) [0..<n])"
    using assms unfolding user_lib_ok_def by (elim conjE)
  from this [rule_format, of u a n] show ?thesis by (elim exE conjE) (rule that)
qed

lemma copy_to_user_law:
  assumes "user_lib_ok lib"
  obtains r k where "copy_to_user lib u a bs = (r, put a (take k bs) u)"
    "r = 0 \<longleftrightarrow> (\<forall>i<length bs. writable lib (a + of_nat i))" "r = 0 \<longrightarrow> k = length bs"
proof -
  have "\<forall>u a bs. \<exists>r k. copy_to_user lib u a bs = (r, put a (take k bs) u)
      \<and> (r = 0 \<longleftrightarrow> (\<forall>i<length bs. writable lib (a + of_nat i))) \<and> (r = 0 \<longrightarrow> k = length bs)"
    using assms unfolding user_lib_ok_def by (elim conjE)
  from this [rule_format, of u a bs] show ?thesis by (elim exE conjE) (rule that)
qed

subsection \<open>Pages and offsets\<close>

lemma unat_offset: "unat (gpa AND 0xFFF :: u64) = unat gpa mod 4096"
proof -
  have "(gpa AND 0xFFF) = take_bit 12 gpa" by (simp add: take_bit_eq_mask mask_eq_exp_minus_1)
  then show ?thesis by (simp only: unsigned_take_bit_eq) (simp add: take_bit_eq_mod)
qed

lemma offset_less: "unat (gpa AND 0xFFF :: u64) < 0x1000"
  by (simp add: unat_offset)

lemma unat_add_nat:
  assumes "unat (a :: u64) + i < 2 ^ 64"
  shows "unat (a + of_nat i) = unat a + i"
proof -
  have "unat (of_nat i :: u64) = i" using assms by (simp add: unat_of_nat take_bit_nat_eq_self)
  then show ?thesis using assms iffD1 [OF unat_add_lem, of a "of_nat i"] by simp
qed

lemma nat_page:
  assumes "x mod 4096 + i < (4096 :: nat)"
  shows "(x + i) div 4096 = x div 4096" "(x + i) mod 4096 = x mod 4096 + i"
proof -
  have e: "x + i = (x mod 4096 + i) + x div 4096 * 4096" by simp
  show "(x + i) div 4096 = x div 4096" using assms by (subst e, subst div_mult_self1) simp_all
  show "(x + i) mod 4096 = x mod 4096 + i" using assms by (subst e, subst mod_mult_self1) simp
qed

lemma page_parts:
  obtains q r where "unat (gpa :: u64) = q * 4096 + r" "r < 4096" "unat gpa div 4096 = q"
    "unat gpa mod 4096 = r" "q < 2 ^ 52"
proof -
  have "unat gpa < 2 ^ 64" using unsigned_less [of gpa] by simp
  then have "unat gpa div 4096 < 2 ^ 52" by (simp add: div_less_iff_less_mult)
  then show ?thesis using that [of "unat gpa div 4096" "unat gpa mod 4096"] by simp
qed

lemma same_page:
  assumes "i < 0x1000 - unat (gpa AND 0xFFF :: u64)"
  shows "drop_bit 12 (gpa + of_nat i) = drop_bit 12 gpa"
    "(gpa + of_nat i) AND 0xFFF = (gpa AND 0xFFF) + of_nat i"
proof -
  obtain q r where q: "unat gpa = q * 4096 + r" "r < 4096" "unat gpa div 4096 = q" "unat gpa mod 4096 = r"
    "q < 2 ^ 52"
    by (rule page_parts)
  have l: "r + i < 4096" using assms unfolding unat_offset q(4) by simp
  have u: "unat (gpa + of_nat i) = unat gpa + i" using l q(1,5) by (intro unat_add_nat) simp
  note d = nat_page [of "unat gpa" i, unfolded q(3,4), OF l]
  show "drop_bit 12 (gpa + of_nat i) = drop_bit 12 gpa"
    unfolding word_unat_eq_iff unat_page u d(1) q(3) ..
  have "unat ((gpa AND 0xFFF) + of_nat i) = r + i"
    using l by (subst unat_add_nat) (simp_all add: unat_offset q(4))
  then show "(gpa + of_nat i) AND 0xFFF = (gpa AND 0xFFF) + of_nat i"
    unfolding word_unat_eq_iff unat_offset u d(2) by simp
qed

lemma next_page:
  assumes s: "seg = 0x1000 - unat (gpa AND 0xFFF :: u64)" and l: "unat gpa + seg < 2 ^ 64"
  shows "drop_bit 12 (gpa + of_nat seg) = drop_bit 12 gpa + 1" "(gpa + of_nat seg) AND 0xFFF = 0"
proof -
  obtain q r where q: "unat gpa = q * 4096 + r" "r < 4096" "unat gpa div 4096 = q" "unat gpa mod 4096 = r"
    "q < 2 ^ 52"
    by (rule page_parts)
  have "unat (gpa + of_nat seg) = unat gpa + seg" using l by (rule unat_add_nat)
  then have u: "unat (gpa + of_nat seg) = (q + 1) * 4096" using s q(1,2) unfolding unat_offset q(4) by simp
  have "unat (drop_bit 12 gpa + of_nat 1) = q + 1"
    using q(3,5) by (subst unat_add_nat) (simp_all add: unat_page)
  then show "drop_bit 12 (gpa + of_nat seg) = drop_bit 12 gpa + 1"
    unfolding word_unat_eq_iff [of "drop_bit 12 (gpa + of_nat seg)"] unat_page u by simp
  show "(gpa + of_nat seg) AND 0xFFF = 0"
    unfolding word_unat_eq_iff [of "(gpa + of_nat seg) AND 0xFFF"] unat_offset u by simp
qed

subsection \<open>Reading\<close>

text \<open>The user address of one guest byte, for reading or for writing.\<close>

definition byte_addr :: "mem_lib \<Rightarrow> kvm_mem \<Rightarrow> bool \<Rightarrow> u64 \<Rightarrow> u64 option" where
  "byte_addr lib m write gpa =
     (let gfn = drop_bit 12 gpa;
          h = fst (gfn_to_hva_many_prot lib (gfn_to_memslot lib m gfn) gfn write)
      in if is_error_hva lib h then None else Some (h + (gpa AND 0xFFF)))"

definition can_read :: "mem_lib \<Rightarrow> kvm_mem \<Rightarrow> u64 \<Rightarrow> bool" where
  "can_read lib m gpa = (case byte_addr lib m False gpa of None \<Rightarrow> False | Some a \<Rightarrow> readable lib a)"

definition byte_at :: "mem_lib \<Rightarrow> kvm_mem \<Rightarrow> u64 \<Rightarrow> u8" where
  "byte_at lib m gpa = user_mem m (the (byte_addr lib m False gpa))"

text \<open>The reference: every byte on its own.\<close>

definition read_bytes :: "mem_lib \<Rightarrow> kvm_mem \<Rightarrow> u64 \<Rightarrow> nat \<Rightarrow> int + u8 list" where
  "read_bytes lib m gpa len =
     (if \<forall>i<len. can_read lib m (gpa + of_nat i)
      then Inr (map (\<lambda>i. byte_at lib m (gpa + of_nat i)) [0..<len]) else Inl (- EFAULT))"

lemma byte_addr_page:
  assumes "i < 0x1000 - unat (gpa AND 0xFFF)"
  shows "byte_addr lib m w (gpa + of_nat i) =
    (let h = fst (gfn_to_hva_many_prot lib (gfn_to_memslot lib m (drop_bit 12 gpa)) (drop_bit 12 gpa) w)
     in if is_error_hva lib h then None else Some (h + (gpa AND 0xFFF) + of_nat i))"
  unfolding byte_addr_def same_page [OF assms] by (simp add: Let_def add.assoc)

lemma read_page:
  assumes lib: "user_lib_ok lib" and n: "n \<le> 0x1000 - unat (gpa AND 0xFFF)" "0 < n"
  shows "kvm_read_guest_page lib m (drop_bit 12 gpa) (unat (gpa AND 0xFFF)) n = read_bytes lib m gpa n"
proof -
  let ?h = "fst (gfn_to_hva_many_prot lib (gfn_to_memslot lib m (drop_bit 12 gpa)) (drop_bit 12 gpa) False)"
  have h: "fst (gfn_to_hva_prot lib m (drop_bit 12 gpa)) = ?h" by (simp add: gfn_to_hva_prot_def Let_def)
  have ba: "byte_addr lib m False (gpa + of_nat i) = (if is_error_hva lib ?h then None
      else Some (?h + (gpa AND 0xFFF) + of_nat i))" if "i < n" for i
    using byte_addr_page [of i gpa lib m False] that n by (simp add: Let_def)
  show ?thesis
  proof (cases "is_error_hva lib ?h")
    case True
    then have "\<not> (\<forall>i<n. can_read lib m (gpa + of_nat i))"
      using ba [of 0] n(2) by (auto simp: can_read_def intro!: exI [of _ 0])
    then show ?thesis using True unfolding kvm_read_guest_page_def h read_bytes_def by (simp add: Let_def)
  next
    case False
    obtain r d where c: "copy_from_user lib (user_mem m) (?h + (gpa AND 0xFFF)) n = (r, d)"
      "r = 0 \<longleftrightarrow> (\<forall>i<n. readable lib (?h + (gpa AND 0xFFF) + of_nat i))"
      "r = 0 \<longrightarrow> d = map (\<lambda>i. user_mem m (?h + (gpa AND 0xFFF) + of_nat i)) [0..<n]"
      by (rule copy_from_user_law [OF lib])
    have "r = 0 \<longleftrightarrow> (\<forall>i<n. can_read lib m (gpa + of_nat i))"
      using c(2) ba False by (simp add: can_read_def)
    moreover have "map (\<lambda>i. user_mem m (?h + (gpa AND 0xFFF) + of_nat i)) [0..<n]
        = map (\<lambda>i. byte_at lib m (gpa + of_nat i)) [0..<n]"
      using ba False by (simp add: byte_at_def)
    ultimately have d: "r = 0 \<Longrightarrow> d = map (\<lambda>i. byte_at lib m (gpa + of_nat i)) [0..<n]"
      and all: "r = 0 \<longleftrightarrow> (\<forall>i<n. can_read lib m (gpa + of_nat i))"
      using c(3) by simp_all
    have "kvm_read_guest_page lib m (drop_bit 12 gpa) (unat (gpa AND 0xFFF)) n = (if r \<noteq> 0 then Inl (- EFAULT) else Inr d)"
      using False c(1) unfolding kvm_read_guest_page_def h by (simp add: Let_def)
    also have "\<dots> = read_bytes lib m gpa n"
      using d unfolding read_bytes_def all [symmetric] by simp
    finally show ?thesis .
  qed
qed

lemma read_bytes_split:
  "read_bytes lib m gpa (k + n) =
     (case read_bytes lib m gpa k of
        Inl e \<Rightarrow> Inl e
      | Inr d \<Rightarrow> (case read_bytes lib m (gpa + of_nat k) n of Inl e \<Rightarrow> Inl e | Inr d' \<Rightarrow> Inr (d @ d')))"
proof -
  have all: "(\<forall>i<k + n. P i) \<longleftrightarrow> (\<forall>i<k. P i) \<and> (\<forall>i<n. P (k + i))" for P :: "nat \<Rightarrow> bool"
  proof (intro iffI allI impI)
    fix i assume p: "(\<forall>i<k. P i) \<and> (\<forall>i<n. P (k + i))" and i: "i < k + n"
    show "P i"
    proof (cases "i < k")
      case False
      then have "i - k < n" "k + (i - k) = i" using i by simp_all
      then show ?thesis using p by metis
    qed (use p in simp)
  qed simp
  have m: "map f [0..<k + n] = map f [0..<k] @ map (\<lambda>i. f (k + i)) [0..<n]" for f :: "nat \<Rightarrow> u8"
  proof -
    have "[k..<k + n] = map (\<lambda>i. k + i) [0..<n]" using map_add_upt [of k n] by (simp add: add.commute)
    then show ?thesis unfolding upt_add_eq_append [OF le0] by simp
  qed
  show ?thesis unfolding read_bytes_def all m by (simp add: add.assoc)
qed

lemma read_loop:
  assumes lib: "user_lib_ok lib"
  shows "unat gpa + len \<le> 2 ^ 64 \<Longrightarrow>
    read_guest_loop lib m (drop_bit 12 gpa) (unat (gpa AND 0xFFF)) len = read_bytes lib m gpa len"
proof (induction len arbitrary: gpa rule: less_induct)
  case (less len)
  let ?seg = "next_segment len (unat (gpa AND 0xFFF))"
  have o: "unat (gpa AND 0xFFF) < 0x1000" by (rule offset_less)
  note E = read_guest_loop.simps [of lib m "drop_bit 12 gpa" "unat (gpa AND 0xFFF)" len]
  show ?case
  proof (cases "?seg = 0")
    case True
    then have "len = 0" using o by (auto simp: next_segment_def split: if_splits)
    then show ?thesis using True by (subst E) (simp add: read_bytes_def Let_def)
  next
    case False
    have s: "?seg \<le> 0x1000 - unat (gpa AND 0xFFF)" "?seg \<le> len" by (auto simp: next_segment_def)
    have p: "kvm_read_guest_page lib m (drop_bit 12 gpa) (unat (gpa AND 0xFFF)) ?seg = read_bytes lib m gpa ?seg"
      using read_page [OF lib s(1)] False by simp
    have rest: "read_guest_loop lib m (drop_bit 12 gpa + 1) 0 (len - ?seg) = read_bytes lib m (gpa + of_nat ?seg) (len - ?seg)"
    proof (cases "len - ?seg = 0")
      case True
      then show ?thesis by (subst read_guest_loop.simps) (simp add: read_bytes_def next_segment_def)
    next
      case F2: False
      then have sg: "?seg = 0x1000 - unat (gpa AND 0xFFF)" by (auto simp: next_segment_def split: if_splits)
      have lt: "unat gpa + ?seg < 2 ^ 64" using less.prems F2 by linarith
      note N = next_page [OF sg lt]
      have "unat (gpa + of_nat ?seg) + (len - ?seg) \<le> 2 ^ 64"
        using less.prems s(2) by (subst unat_add_nat [OF lt]) simp
      moreover have "len - ?seg < len" using False s(2) by simp
      ultimately show ?thesis using less.IH [of "len - ?seg" "gpa + of_nat ?seg"] N by simp
    qed
    have "read_bytes lib m gpa len = read_bytes lib m gpa (?seg + (len - ?seg))" using s(2) by simp
    then show ?thesis using False by (subst E) (simp only: Let_def if_False p rest read_bytes_split)
  qed
qed

lemma read_guest_bytes:
  assumes "user_lib_ok lib" "unat gpa + len \<le> 2 ^ 64"
  shows "kvm_read_guest lib m gpa len = read_bytes lib m gpa len"
  unfolding kvm_read_guest_def by (rule read_loop [OF assms])

subsection \<open>Writing\<close>

definition can_write :: "mem_lib \<Rightarrow> kvm_mem \<Rightarrow> u64 \<Rightarrow> bool" where
  "can_write lib m gpa = (case byte_addr lib m True gpa of None \<Rightarrow> False | Some a \<Rightarrow> writable lib a)"

text \<open>The reference: store one byte and mark its page, then the next.\<close>

fun write_bytes :: "mem_lib \<Rightarrow> u64 \<Rightarrow> u8 list \<Rightarrow> kvm_mem \<Rightarrow> kvm_mem" where
  "write_bytes lib gpa [] m = m"
| "write_bytes lib gpa (b # bs) m =
     write_bytes lib (gpa + 1) bs
       (mark_page_dirty lib (drop_bit 12 gpa)
          (m\<lparr>user_mem := (user_mem m)(the (byte_addr lib m True gpa) := b)\<rparr>))"

lemma mark_slot_same [simp]:
  "memslots (mark_page_dirty_in_slot s g m) = memslots m"
  "user_mem (mark_page_dirty_in_slot s g m) = user_mem m"
  "bad_free (mark_page_dirty_in_slot s g m) = bad_free m"
  by (simp_all add: mark_page_dirty_in_slot_def set_block_def Let_def split: option.split)

lemma mark_same [simp]:
  "memslots (mark_page_dirty lib g m) = memslots m" "user_mem (mark_page_dirty lib g m) = user_mem m"
  "bad_free (mark_page_dirty lib g m) = bad_free m"
  by (simp_all add: mark_page_dirty_def)

lemma gfn_to_memslot_cong: "memslots m = memslots m' \<Longrightarrow> gfn_to_memslot lib m g = gfn_to_memslot lib m' g"
  by (simp add: gfn_to_memslot_def)

lemma byte_addr_cong: "memslots m = memslots m' \<Longrightarrow> byte_addr lib m w g = byte_addr lib m' w g"
  using gfn_to_memslot_cong [of m m'] by (simp add: byte_addr_def)

lemma can_write_cong: "memslots m = memslots m' \<Longrightarrow> can_write lib m g = can_write lib m' g"
  using byte_addr_cong [of m m'] by (simp add: can_write_def)

lemma mark_user_mem: "mark_page_dirty lib g (m\<lparr>user_mem := u\<rparr>) = (mark_page_dirty lib g m)\<lparr>user_mem := u\<rparr>"
  using gfn_to_memslot_cong [of "m\<lparr>user_mem := u\<rparr>" m]
  by (simp add: mark_page_dirty_def mark_page_dirty_in_slot_def set_block_def Let_def split: option.split)

lemma mark_twice: "mark_page_dirty lib g (mark_page_dirty lib g m) = mark_page_dirty lib g m"
proof (cases "gfn_to_memslot lib m g")
  case None
  then show ?thesis by (simp add: mark_page_dirty_def mark_page_dirty_in_slot_def)
next
  case (Some s)
  let ?i = "unat (g - base_gfn s) div 64" let ?b = "unat (g - base_gfn s) mod 64"
  have set2: "set_bit n (set_bit n w) = set_bit n (w :: u64)" for n w
    by (rule bit_word_eqI) (auto simp: bit_set_bit_iff)
  have f: "(l[?i := set_bit ?b (l ! ?i)])[?i := set_bit ?b (l[?i := set_bit ?b (l ! ?i)] ! ?i)]
      = l[?i := set_bit ?b (l ! ?i)]" for l :: "u64 list"
  proof (cases "?i < length l")
    case False
    then have "length l \<le> ?i" by simp
    then show ?thesis by (simp only: list_update_beyond length_list_update)
  qed (simp add: set2)
  have "gfn_to_memslot lib (mark_page_dirty lib g m) g = Some s" using Some gfn_to_memslot_cong mark_same(1) by metis
  then show ?thesis
    using Some f by (simp add: mark_page_dirty_def mark_page_dirty_in_slot_def set_block_def Let_def
        option.map_comp comp_def)
qed

lemma page_bytes:
  assumes "length bs \<le> 0x1000 - (unat (gpa AND 0xFFF) + k)" and h: "\<not> is_error_hva lib h"
    and hd: "h = gfn_to_hva lib m (drop_bit 12 gpa)"
    and d: "mark_page_dirty lib (drop_bit 12 gpa) m = m"
  shows "write_bytes lib (gpa + of_nat k) bs m = m\<lparr>user_mem := put (h + (gpa AND 0xFFF) + of_nat k) bs (user_mem m)\<rparr>"
  using assms
proof (induction bs arbitrary: k m)
  case Nil
  then show ?case by simp
next
  case (Cons b bs)
  have k: "k < 0x1000 - unat (gpa AND 0xFFF)" using Cons.prems(1) by simp
  let ?m = "m\<lparr>user_mem := (user_mem m)(h + (gpa AND 0xFFF) + of_nat k := b)\<rparr>"
  have a: "the (byte_addr lib m True (gpa + of_nat k)) = h + (gpa AND 0xFFF) + of_nat k"
    using Cons.prems(2,3) unfolding byte_addr_page [OF k]
    by (simp add: gfn_to_hva_def gfn_to_hva_many_def Let_def)
  have mk: "mark_page_dirty lib (drop_bit 12 gpa) ?m = ?m" unfolding mark_user_mem Cons.prems(4) ..
  have h2: "h = gfn_to_hva lib ?m (drop_bit 12 gpa)"
    using Cons.prems(3) gfn_to_memslot_cong [of ?m m] by (simp add: gfn_to_hva_def)
  have "write_bytes lib (gpa + of_nat k) (b # bs) m = write_bytes lib (gpa + of_nat (Suc k)) bs ?m"
    unfolding write_bytes.simps a same_page(1) [OF k] mk by (simp add: algebra_simps)
  also have "\<dots> = ?m\<lparr>user_mem := put (h + (gpa AND 0xFFF) + of_nat (Suc k)) bs (user_mem ?m)\<rparr>"
    by (rule Cons.IH) (use Cons.prems h2 mk in simp_all)
  finally show ?case by (simp add: algebra_simps)
qed

lemma page_write_bytes:
  assumes n: "length bs \<le> 0x1000 - unat (gpa AND 0xFFF)" "bs \<noteq> []"
    and h: "h = gfn_to_hva lib m (drop_bit 12 gpa)" "\<not> is_error_hva lib h"
  shows "write_bytes lib gpa bs m =
    mark_page_dirty lib (drop_bit 12 gpa) (m\<lparr>user_mem := put (h + (gpa AND 0xFFF)) bs (user_mem m)\<rparr>)"
proof -
  obtain b bt where bs: "bs = b # bt" using n(2) by (cases bs) auto
  have k: "0 < 0x1000 - unat (gpa AND 0xFFF)" using n bs by simp
  let ?u = "(user_mem m)(h + (gpa AND 0xFFF) := b)"
  let ?m = "mark_page_dirty lib (drop_bit 12 gpa) (m\<lparr>user_mem := ?u\<rparr>)"
  have a: "the (byte_addr lib m True gpa) = h + (gpa AND 0xFFF)"
    using h by (simp add: byte_addr_def gfn_to_hva_def gfn_to_hva_many_def Let_def)
  have h2: "h = gfn_to_hva lib ?m (drop_bit 12 gpa)"
    using h gfn_to_memslot_cong [of ?m m] by (simp add: gfn_to_hva_def)
  have "write_bytes lib gpa bs m = write_bytes lib (gpa + of_nat 1) bt ?m"
    unfolding bs write_bytes.simps a by simp
  also have "\<dots> = ?m\<lparr>user_mem := put (h + (gpa AND 0xFFF) + of_nat 1) bt (user_mem ?m)\<rparr>"
    by (rule page_bytes) (use n bs h h2 mark_twice in simp_all)
  also have "\<dots> = mark_page_dirty lib (drop_bit 12 gpa) (m\<lparr>user_mem := put (h + (gpa AND 0xFFF)) bs (user_mem m)\<rparr>)"
    by (simp add: bs mark_user_mem)
  finally show ?thesis .
qed

lemma write_bytes_memslots [simp]: "memslots (write_bytes lib gpa bs m) = memslots m"
  by (induction bs arbitrary: gpa m) simp_all

lemma write_bytes_append:
  "write_bytes lib gpa (as @ bs) m = write_bytes lib (gpa + of_nat (length as)) bs (write_bytes lib gpa as m)"
  by (induction as arbitrary: gpa m) (simp_all add: algebra_simps)

text \<open>A page is written as a whole or not at all, up to a partial copy.\<close>

lemma write_page:
  assumes lib: "user_lib_ok lib" and n: "length bs \<le> 0x1000 - unat (gpa AND 0xFFF)" "bs \<noteq> []"
  shows "\<exists>m'. kvm_write_guest_page lib (drop_bit 12 gpa) bs (unat (gpa AND 0xFFF)) m = 
      (if \<forall>i<length bs. can_write lib m (gpa + of_nat i) then (0, write_bytes lib gpa bs m) else (- EFAULT, m'))
    \<and> memslots m' = memslots m \<and> heap m' = heap m"
proof -
  let ?h = "gfn_to_hva lib m (drop_bit 12 gpa)"
  have ba: "byte_addr lib m True (gpa + of_nat i) = (if is_error_hva lib ?h then None
      else Some (?h + (gpa AND 0xFFF) + of_nat i))" if "i < length bs" for i
    using byte_addr_page [of i gpa lib m True] that n
    by (simp add: Let_def gfn_to_hva_def gfn_to_hva_many_def)
  show ?thesis
  proof (cases "is_error_hva lib ?h")
    case True
    then have "\<not> (\<forall>i<length bs. can_write lib m (gpa + of_nat i))"
      using ba [of 0] n(2) by (auto simp: can_write_def intro!: exI [of _ 0])
    then show ?thesis using True by (intro exI [of _ m]) (simp add: kvm_write_guest_page_def Let_def)
  next
    case False
    obtain r k where c: "copy_to_user lib (user_mem m) (?h + (gpa AND 0xFFF)) bs
        = (r, put (?h + (gpa AND 0xFFF)) (take k bs) (user_mem m))"
      "r = 0 \<longleftrightarrow> (\<forall>i<length bs. writable lib (?h + (gpa AND 0xFFF) + of_nat i))" "r = 0 \<longrightarrow> k = length bs"
      by (rule copy_to_user_law [OF lib])
    have all: "r = 0 \<longleftrightarrow> (\<forall>i<length bs. can_write lib m (gpa + of_nat i))"
      using c(2) ba False by (simp add: can_write_def)
    show ?thesis
    proof (cases "r = 0")
      case True
      then show ?thesis
        using False c all page_write_bytes [OF n refl False]
        by (intro exI [of _ m]) (simp add: kvm_write_guest_page_def Let_def)
    next
      case r: False
      then show ?thesis
        using False c(1) unfolding all [symmetric]
        by (intro exI [of _ "m\<lparr>user_mem := put (?h + (gpa AND 0xFFF)) (take k bs) (user_mem m)\<rparr>"])
           (simp add: kvm_write_guest_page_def Let_def)
    qed
  qed
qed

lemma write_loop:
  assumes lib: "user_lib_ok lib"
  shows "unat gpa + length bs \<le> 2 ^ 64 \<Longrightarrow>
    \<exists>m'. write_guest_loop lib (drop_bit 12 gpa) bs (unat (gpa AND 0xFFF)) m =
      (if \<forall>i<length bs. can_write lib m (gpa + of_nat i) then (0, write_bytes lib gpa bs m) else (- EFAULT, m'))
    \<and> memslots m' = memslots m"
proof (induction "length bs" arbitrary: gpa bs m rule: less_induct)
  case less
  let ?o = "unat (gpa AND 0xFFF)"
  let ?seg = "next_segment (length bs) ?o"
  have o: "?o < 0x1000" by (rule offset_less)
  note E = write_guest_loop.simps [of lib "drop_bit 12 gpa" bs ?o m]
  show ?case
  proof (cases "?seg = 0")
    case True
    then have "bs = []" using o by (auto simp: next_segment_def split: if_splits)
    then show ?thesis using True by (subst E) (auto simp: Let_def)
  next
    case False
    have s: "?seg \<le> 0x1000 - ?o" "?seg \<le> length bs" by (auto simp: next_segment_def)
    let ?p = "take ?seg bs" let ?q = "drop ?seg bs"
    have lp: "length ?p = ?seg" "?p \<noteq> []" using s False by auto
    obtain m1 where P: "kvm_write_guest_page lib (drop_bit 12 gpa) ?p ?o m =
        (if \<forall>i<?seg. can_write lib m (gpa + of_nat i) then (0, write_bytes lib gpa ?p m) else (- EFAULT, m1))"
      "memslots m1 = memslots m"
      using write_page [OF lib, of ?p gpa m] lp s by auto
    show ?thesis
    proof (cases "\<forall>i<?seg. can_write lib m (gpa + of_nat i)")
      case False
      then have "\<not> (\<forall>i<length bs. can_write lib m (gpa + of_nat i))" using s(2) by (meson order_less_le_trans)
      then show ?thesis using \<open>?seg \<noteq> 0\<close> False P by (subst E) (auto simp: Let_def)
    next
      case True
      let ?m = "write_bytes lib gpa ?p m"
      have step: "write_guest_loop lib (drop_bit 12 gpa) bs ?o m = write_guest_loop lib (drop_bit 12 gpa + 1) ?q 0 ?m"
        using \<open>?seg \<noteq> 0\<close> True P by (subst E) (simp add: Let_def)
      show ?thesis
      proof (cases "?q = []")
        case q: True
        then have "?p = bs" "?seg = length bs" using s(2) by auto
        then show ?thesis using step q True by (subst (asm) (2) write_guest_loop.simps) (auto simp: next_segment_def Let_def)
      next
        case F2: False
        then have sg: "?seg = 0x1000 - ?o" by (auto simp: next_segment_def split: if_splits)
        have lt: "unat gpa + ?seg < 2 ^ 64" using less.prems F2 s(2) by simp
        note N = next_page [OF sg lt]
        have "unat (gpa + of_nat ?seg) + length ?q \<le> 2 ^ 64"
          using less.prems s(2) by (subst unat_add_nat [OF lt]) simp
        moreover have "length ?q < length bs" using False s(2) by simp
        ultimately obtain m2 where IH: "write_guest_loop lib (drop_bit 12 gpa + 1) ?q 0 ?m =
            (if \<forall>i<length ?q. can_write lib ?m (gpa + of_nat ?seg + of_nat i)
             then (0, write_bytes lib (gpa + of_nat ?seg) ?q ?m) else (- EFAULT, m2))" "memslots m2 = memslots ?m"
          using less.hyps [of ?q "gpa + of_nat ?seg" ?m] N by (auto simp del: length_drop)
        have cw: "can_write lib ?m g = can_write lib m g" for g by (rule can_write_cong) simp
        have "write_bytes lib gpa bs m = write_bytes lib (gpa + of_nat ?seg) ?q ?m"
          using write_bytes_append [of lib gpa ?p ?q m] lp by simp
        moreover have "(\<forall>i<length bs. can_write lib m (gpa + of_nat i))
            \<longleftrightarrow> (\<forall>i<length ?q. can_write lib m (gpa + of_nat ?seg + of_nat i))"
        proof
          assume a: "\<forall>i<length bs. can_write lib m (gpa + of_nat i)"
          show "\<forall>i<length ?q. can_write lib m (gpa + of_nat ?seg + of_nat i)"
          proof (intro allI impI)
            fix i assume "i < length ?q"
            then have "?seg + i < length bs" by simp
            then have "can_write lib m (gpa + of_nat (?seg + i))" using a by blast
            then show "can_write lib m (gpa + of_nat ?seg + of_nat i)" by (simp add: add.assoc)
          qed
        next
          assume a: "\<forall>i<length ?q. can_write lib m (gpa + of_nat ?seg + of_nat i)"
          show "\<forall>i<length bs. can_write lib m (gpa + of_nat i)"
          proof (intro allI impI)
            fix i assume i: "i < length bs"
            show "can_write lib m (gpa + of_nat i)"
            proof (cases "i < ?seg")
              case False
              then obtain j where j: "i = ?seg + j" by (metis le_Suc_ex not_less)
              then have "j < length ?q" using i by simp
              then have "can_write lib m (gpa + of_nat ?seg + of_nat j)" using a by blast
              then show ?thesis unfolding j by (simp add: add.assoc)
            qed (use True in simp)
          qed
        qed
        ultimately show ?thesis unfolding step IH(1) cw using IH(2) by auto
      qed
    qed
  qed
qed

end
