(* ===== verification/Dirty_Log.thy ===== *)
theory Dirty_Log
  imports Guest_Memory_Props
begin

text \<open>
  The dirty bitmap: marking a page sets exactly its bit, the words of the bitmap of a slot are its
  own, and retrieving the log reports and clears exactly the marked pages.
\<close>

subsection \<open>The bit of a page\<close>

definition logged :: "mem_lib \<Rightarrow> kvm_mem \<Rightarrow> u64 \<Rightarrow> bool" where
  "logged lib m g = (case gfn_to_memslot lib m g of None \<Rightarrow> False | Some s \<Rightarrow> dirty_bitmap s \<noteq> 0)"

definition slot_bit :: "kvm_mem \<Rightarrow> kvm_memory_slot \<Rightarrow> u64 \<Rightarrow> bool" where
  "slot_bit m s g = (let n = unat (g - base_gfn s)
     in bit (the (heap m (dirty_bitmap s)) ! (n div 64)) (n mod 64))"

definition page_dirty :: "mem_lib \<Rightarrow> kvm_mem \<Rightarrow> u64 \<Rightarrow> bool" where
  "page_dirty lib m g = (case gfn_to_memslot lib m g of None \<Rightarrow> False
     | Some s \<Rightarrow> dirty_bitmap s \<noteq> 0 \<and> slot_bit m s g)"

text \<open>The slot found for a frame contains it, and its bit is inside its bitmap.\<close>

lemma found_slot:
  assumes lib: "mem_lib_ok lib" and ok: "mem_ok lib m" and s: "gfn_to_memslot lib m g = Some s"
  shows "slot_id s < 128" "entry (memslots m) (slot_id s) = s" "unat (g - base_gfn s) < unat (npages s)"
    "unat g = unat (base_gfn s) + unat (g - base_gfn s)"
proof -
  obtain i where i: "search lib (memslots m) g = Some i" "s = slot_array (memslots m) ! i"
    using s unfolding gfn_to_memslot_def by auto
  have S: "\<forall>t gfn i. search lib t gfn = Some i \<longrightarrow> i < length (slot_array t)
          \<and> base_gfn (slot_array t ! i) \<le> gfn \<and> gfn < base_gfn (slot_array t ! i) + npages (slot_array t ! i)"
    using lib unfolding mem_lib_ok_def by (elim conjE)
  have t: "table_ok (memslots m)" using ok unfolding mem_ok_def by blast
  have m: "s \<in> set (slot_array (memslots m))" using S i by simp
  show id: "slot_id s < 128" "entry (memslots m) (slot_id s) = s" using table_member [OF t m] by simp_all
  have "slot_ok lib s" using ok id unfolding mem_ok_def view_ok_def by metis
  then have sum: "unat (base_gfn s + npages s) = unat (base_gfn s) + unat (npages s)"
    unfolding slot_ok_def by (intro unat_sum) simp
  have b: "base_gfn s \<le> g" "g < base_gfn s + npages s" using S i by auto
  then have "unat (g - base_gfn s) = unat g - unat (base_gfn s)" by (intro unat_sub)
  then show "unat (g - base_gfn s) < unat (npages s)" "unat g = unat (base_gfn s) + unat (g - base_gfn s)"
    using b sum unfolding word_less_nat_alt word_le_nat_alt by linarith+
qed

lemma bitmap_room:
  assumes lib: "mem_lib_ok lib" and ok: "mem_ok lib m" and s: "gfn_to_memslot lib m g = Some s" "dirty_bitmap s \<noteq> 0"
  obtains l where "heap m (dirty_bitmap s) = Some l" "length l = 2 * (bitmap_bytes lib (npages s) div 8)"
    "unat (g - base_gfn s) div 64 < bitmap_bytes lib (npages s) div 8"
proof -
  note F = found_slot [OF lib ok s(1)]
  have "bitmap_ok lib m s" using ok F(1,2) unfolding mem_ok_def by metis
  then obtain l where l: "heap m (dirty_bitmap s) = Some l" "length l = 2 * bitmap_bytes lib (npages s) div 8"
    using s(2) unfolding bitmap_ok_def sized_def by auto
  have "8 dvd bitmap_bytes lib (npages s) \<and> unat (npages s) \<le> 8 * bitmap_bytes lib (npages s)"
    using lib unfolding mem_lib_ok_def by blast
  then obtain k where k: "bitmap_bytes lib (npages s) = 8 * k" "unat (npages s) \<le> 64 * k" by (auto elim: dvdE)
  have "unat (g - base_gfn s) div 64 < k" using F(3) k(2) by (simp add: div_less_iff_less_mult mult.commute)
  then show ?thesis using that [of l] l k by simp
qed

text \<open>No two slots share a bitmap.\<close>

lemma bitmap_unique:
  assumes ok: "mem_ok lib m" and jk: "j < 128" "k < 128" "j \<noteq> k"
    and p: "dirty_bitmap (entry (memslots m) j) \<noteq> 0"
  shows "dirty_bitmap (entry (memslots m) j) \<noteq> dirty_bitmap (entry (memslots m) k)"
proof
  let ?v = "entry (memslots m)"
  let ?p = "dirty_bitmap (?v j)"
  assume e: "?p = dirty_bitmap (?v k)"
  have hh: "heap_holds (heap m) (all_blocks ?v)" using ok unfolding mem_ok_def by blast
  then have "all_blocks ?v = mset_set (dom (heap m))" unfolding heap_holds_def by simp
  then have one: "count (all_blocks ?v) ?p \<le> 1" by (simp add: count_mset_set')
  have "all_blocks ?v = mset (blocks (?v j)) + (\<Sum>i\<in>{i. i < 128} - {j}. mset (blocks (?v i)))"
    unfolding all_blocks_def using jk(1) by (intro sum.remove) auto
  also have "(\<Sum>i\<in>{i. i < 128} - {j}. mset (blocks (?v i)))
      = mset (blocks (?v k)) + (\<Sum>i\<in>{i. i < 128} - {j} - {k}. mset (blocks (?v i)))"
    using jk by (intro sum.remove) auto
  finally have "count (all_blocks ?v) ?p \<ge> count (mset (blocks (?v j))) ?p + count (mset (blocks (?v k))) ?p"
    by simp
  moreover have "0 < count (mset (blocks (?v j))) ?p" "0 < count (mset (blocks (?v k))) ?p"
    unfolding count_greater_zero_iff set_mset_mset using p e by (simp_all add: blocks_def)
  ultimately show False using one by linarith
qed

lemma mark_page:
  assumes lib: "mem_lib_ok lib" and ok: "mem_ok lib m"
  shows "page_dirty lib (mark_page_dirty lib g m) g' \<longleftrightarrow> page_dirty lib m g' \<or> g' = g \<and> logged lib m g"
    "logged lib (mark_page_dirty lib g m) g' = logged lib m g'" "mem_ok lib (mark_page_dirty lib g m)"
proof -
  let ?m = "mark_page_dirty lib g m"
  have same: "gfn_to_memslot lib ?m x = gfn_to_memslot lib m x" for x by (rule gfn_to_memslot_cong) simp
  show "logged lib ?m g' = logged lib m g'" by (simp add: logged_def same)
  have noop: "?m = m" if "\<not> logged lib m g"
    using that by (auto simp: logged_def mark_page_dirty_def mark_page_dirty_in_slot_def split: option.splits)
  show "mem_ok lib ?m"
  proof (cases "logged lib m g")
    case True
    then obtain s where s: "gfn_to_memslot lib m g = Some s" "dirty_bitmap s \<noteq> 0"
      unfolding logged_def by (auto split: option.splits)
    obtain l where l: "heap m (dirty_bitmap s) = Some l" by (rule bitmap_room [OF lib ok s])
    define f where "f = (\<lambda>l :: u64 list. l[unat (g - base_gfn s) div 64 :=
        set_bit (unat (g - base_gfn s) mod 64) (l ! (unat (g - base_gfn s) div 64))])"
    have m: "?m = set_block (dirty_bitmap s) f m"
      using s by (simp add: mark_page_dirty_def mark_page_dirty_in_slot_def f_def Let_def)
    have "dom (heap ?m) = dom (heap m)" unfolding m set_block_def using l by auto
    moreover have "bitmap_ok lib ?m t" if "bitmap_ok lib m t" for t
      using that set_block_sized [of m _ _ f] unfolding bitmap_ok_def m by (auto simp: f_def)
    ultimately show ?thesis using ok unfolding mem_ok_def heap_holds_def by auto
  qed (use noop ok in simp)
  show "page_dirty lib ?m g' \<longleftrightarrow> page_dirty lib m g' \<or> g' = g \<and> logged lib m g"
  proof (cases "logged lib m g")
    case False
    then show ?thesis using noop by simp
  next
    case True
    then obtain s where s: "gfn_to_memslot lib m g = Some s" "dirty_bitmap s \<noteq> 0"
      unfolding logged_def by (auto split: option.splits)
    obtain l where l: "heap m (dirty_bitmap s) = Some l" "length l = 2 * (bitmap_bytes lib (npages s) div 8)"
      "unat (g - base_gfn s) div 64 < bitmap_bytes lib (npages s) div 8"
      by (rule bitmap_room [OF lib ok s])
    let ?n = "unat (g - base_gfn s)"
    have hm: "heap ?m = (heap m)(dirty_bitmap s \<mapsto> l[?n div 64 := set_bit (?n mod 64) (l ! (?n div 64))])"
      using s l(1) by (simp add: mark_page_dirty_def mark_page_dirty_in_slot_def set_block_def Let_def)
    show ?thesis
    proof (cases "gfn_to_memslot lib m g'")
      case None
      then have "g' \<noteq> g" using s by auto
      then show ?thesis using None by (simp add: page_dirty_def same)
    next
      case (Some s')
      show ?thesis
      proof (cases "dirty_bitmap s' = dirty_bitmap s")
        case False
        then have "g' \<noteq> g" using Some s by auto
        moreover have "slot_bit ?m s' g' = slot_bit m s' g'" using False by (simp add: slot_bit_def hm)
        ultimately show ?thesis using Some by (simp add: page_dirty_def same)
      next
        case True
        note F = found_slot [OF lib ok s(1)] and F' = found_slot [OF lib ok Some]
        have "slot_id s' = slot_id s"
          using bitmap_unique [OF ok F'(1) F(1)] F(2) F'(2) True s(2) by metis
        then have ss: "s' = s" using F(2) F'(2) by simp
        let ?k = "unat (g' - base_gfn s)"
        have eq: "?k = ?n \<longleftrightarrow> g' = g" using F(4) F'(4) unfolding ss by (metis word_unat_eq_iff)
        have lt: "?n div 64 < length l" using l(2,3) by simp
        have "bit (l[?n div 64 := set_bit (?n mod 64) (l ! (?n div 64))] ! (?k div 64)) (?k mod 64)
            \<longleftrightarrow> bit (l ! (?k div 64)) (?k mod 64) \<or> ?k = ?n"
        proof (cases "?k div 64 = ?n div 64")
          case True
          then have "?k mod 64 = ?n mod 64 \<longleftrightarrow> ?k = ?n" by (metis div_mult_mod_eq)
          then show ?thesis using lt True by (auto simp: bit_set_bit_iff possible_bit_word)
        next
          case False
          then show ?thesis by auto
        qed
        then show ?thesis
          using Some s True l(1) \<open>logged lib m g\<close> eq
          by (simp add: page_dirty_def same slot_bit_def hm Let_def ss)
      qed
    qed
  qed
qed

subsection \<open>Writes are logged\<close>

lemma mem_ok_user_mem [simp]: "mem_ok lib (m\<lparr>user_mem := u\<rparr>) = mem_ok lib m"
  by (simp add: mem_ok_def bitmap_ok_def sized_def)

lemma page_dirty_user_mem [simp]:
  "page_dirty lib (m\<lparr>user_mem := u\<rparr>) g = page_dirty lib m g" "logged lib (m\<lparr>user_mem := u\<rparr>) g = logged lib m g"
  using gfn_to_memslot_cong [of "m\<lparr>user_mem := u\<rparr>" m lib g]
  by (simp_all add: page_dirty_def logged_def slot_bit_def cong: option.case_cong)

lemma write_bytes_logged:
  assumes lib: "mem_lib_ok lib"
  shows "mem_ok lib m \<Longrightarrow> mem_ok lib (write_bytes lib gpa bs m)
    \<and> (page_dirty lib (write_bytes lib gpa bs m) g \<longleftrightarrow>
        page_dirty lib m g \<or> logged lib m g \<and> (\<exists>i<length bs. g = drop_bit 12 (gpa + of_nat i)))"
proof (induction bs arbitrary: gpa m)
  case Nil
  then show ?case by simp
next
  case (Cons b bs)
  let ?u = "m\<lparr>user_mem := (user_mem m)(the (byte_addr lib m True gpa) := b)\<rparr>"
  let ?m = "mark_page_dirty lib (drop_bit 12 gpa) ?u"
  have u: "mem_ok lib ?u" using Cons.prems by simp
  note M = mark_page [OF lib u, of "drop_bit 12 gpa"]
  have ex: "(\<exists>i<length (b # bs). g = drop_bit 12 (gpa + of_nat i))
      \<longleftrightarrow> g = drop_bit 12 gpa \<or> (\<exists>i<length bs. g = drop_bit 12 (gpa + 1 + of_nat i))"
  proof -
    have "(\<exists>i<Suc n. P i) \<longleftrightarrow> P 0 \<or> (\<exists>i<n. P (Suc i))" for P n by (metis Suc_less_eq gr0_conv_Suc zero_less_Suc not0_implies_Suc)
    then show ?thesis by (simp add: add.assoc)
  qed
  have mk: "page_dirty lib ?m g \<longleftrightarrow> page_dirty lib m g \<or> g = drop_bit 12 gpa \<and> logged lib m g"
    "logged lib ?m g = logged lib m g"
    using M(1,2) [of g] by auto
  show ?case unfolding write_bytes.simps ex using Cons.IH [OF M(3), of "gpa + 1"] mk by blast
qed

subsection \<open>Retrieving the log\<close>

definition protect_calls :: "kvm_memory_slot \<Rightarrow> u64 list \<Rightarrow> mmu_call list" where
  "protect_calls s ws = map (\<lambda>i. Write_protect_masked (slot_id s) (of_nat i * 64) (ws ! i))
     (filter (\<lambda>i. ws ! i \<noteq> 0) [0..<length ws])"

lemma snapshot_step:
  assumes w: "l ! n = w" "l[n := 0, half + n := w] = l'"
  shows "snapshot_word s half n (d, m\<lparr>heap := h(dirty_bitmap s \<mapsto> l), mmu_calls := c\<rparr>) = (d \<or> w \<noteq> 0,
    m\<lparr>heap := h(dirty_bitmap s \<mapsto> (if w = 0 then l else l')),
      mmu_calls := c @ (if w = 0 then [] else [Write_protect_masked (slot_id s) (of_nat n * 64) w])\<rparr>)"
  using w by (cases "w = 0") (simp_all add: snapshot_word_def set_block_def)

lemma snapshot_loop:
  assumes h: "heap m (dirty_bitmap s) = Some (ws @ replicate (length ws) 0)"
  shows "n \<le> length ws \<Longrightarrow> fold (snapshot_word s (length ws)) [0..<n] (False, m) =
    ((\<exists>w\<in>set (take n ws). w \<noteq> 0),
     m\<lparr>heap := (heap m)(dirty_bitmap s \<mapsto> replicate n 0 @ drop n ws @ take n ws @ replicate (length ws - n) 0),
       mmu_calls := mmu_calls m @ map (\<lambda>i. Write_protect_masked (slot_id s) (of_nat i * 64) (ws ! i))
         (filter (\<lambda>i. ws ! i \<noteq> 0) [0..<n])\<rparr>)"
proof (induction n)
  case 0
  have "(heap m)(dirty_bitmap s \<mapsto> ws @ replicate (length ws) 0) = heap m" using h by auto
  then show ?case by simp
next
  case (Suc n)
  let ?l = "replicate n 0 @ drop n ws @ take n ws @ replicate (length ws - n) 0"
  let ?l' = "replicate (Suc n) 0 @ drop (Suc n) ws @ take (Suc n) ws @ replicate (length ws - Suc n) 0"
  have n: "n < length ws" using Suc.prems by simp
  have d: "drop n ws = ws ! n # drop (Suc n) ws" using n by (simp add: Cons_nth_drop_Suc)
  have t: "take (Suc n) ws = take n ws @ [ws ! n]" using n by (simp add: take_Suc_conv_app_nth)
  have r: "replicate (length ws - n) (0 :: u64) = 0 # replicate (length ws - Suc n) 0"
    using n by (metis Suc_diff_Suc replicate_Suc)
  have at: "?l ! n = ws ! n" using n by (simp add: nth_append)
  have upd: "?l[n := 0, length ws + n := ws ! n] = ?l'"
  proof -
    have "?l[n := 0] = replicate n 0 @ (0 # drop (Suc n) ws) @ take n ws @ 0 # replicate (length ws - Suc n) 0"
      unfolding d r by (simp add: list_update_append)
    also have "\<dots> = (replicate n 0 @ 0 # drop (Suc n) ws @ take n ws) @ 0 # replicate (length ws - Suc n) 0" by simp
    finally have e: "?l[n := 0] = (replicate n 0 @ 0 # drop (Suc n) ws @ take n ws) @ 0 # replicate (length ws - Suc n) 0" .
    have "length (replicate n (0 :: u64) @ 0 # drop (Suc n) ws @ take n ws) = length ws + n" using n by simp
    then have "(?l[n := 0])[length ws + n := ws ! n] = (replicate n 0 @ 0 # drop (Suc n) ws @ take n ws) @ ws ! n # replicate (length ws - Suc n) 0"
      unfolding e by (metis list_update_length)
    also have "\<dots> = ?l'" unfolding t replicate_append_same [symmetric] by (simp add: replicate_app_Cons_same)
    finally show ?thesis .
  qed
  have same: "?l = ?l'" if "ws ! n = 0"
  proof -
    have "replicate n (0 :: u64) @ [0] = replicate (Suc n) 0" by (simp add: replicate_append_same)
    then show ?thesis unfolding d t r using that by (simp add: replicate_app_Cons_same)
  qed
  have "fold (snapshot_word s (length ws)) [0..<Suc n] (False, m) =
      snapshot_word s (length ws) n (fold (snapshot_word s (length ws)) [0..<n] (False, m))" by simp
  also have "fold (snapshot_word s (length ws)) [0..<n] (False, m) = 
    ((\<exists>w\<in>set (take n ws). w \<noteq> 0),
     m\<lparr>heap := (heap m)(dirty_bitmap s \<mapsto> ?l),
       mmu_calls := mmu_calls m @ map (\<lambda>i. Write_protect_masked (slot_id s) (of_nat i * 64) (ws ! i))
         (filter (\<lambda>i. ws ! i \<noteq> 0) [0..<n])\<rparr>)"
    by (rule Suc.IH) (use n in simp)
  also have "snapshot_word s (length ws) n \<dots> = ((\<exists>w\<in>set (take n ws). w \<noteq> 0) \<or> ws ! n \<noteq> 0,
     m\<lparr>heap := (heap m)(dirty_bitmap s \<mapsto> (if ws ! n = 0 then ?l else ?l')),
       mmu_calls := (mmu_calls m @ map (\<lambda>i. Write_protect_masked (slot_id s) (of_nat i * 64) (ws ! i))
         (filter (\<lambda>i. ws ! i \<noteq> 0) [0..<n])) @ (if ws ! n = 0 then []
           else [Write_protect_masked (slot_id s) (of_nat n * 64) (ws ! n)])\<rparr>)"
    by (rule snapshot_step [OF at upd])
  also have "(if ws ! n = 0 then ?l else ?l') = ?l'" using same by simp
  also have "(mmu_calls m @ map (\<lambda>i. Write_protect_masked (slot_id s) (of_nat i * 64) (ws ! i))
         (filter (\<lambda>i. ws ! i \<noteq> 0) [0..<n])) @ (if ws ! n = 0 then []
           else [Write_protect_masked (slot_id s) (of_nat n * 64) (ws ! n)])
      = mmu_calls m @ map (\<lambda>i. Write_protect_masked (slot_id s) (of_nat i * 64) (ws ! i))
         (filter (\<lambda>i. ws ! i \<noteq> 0) [0..<Suc n])"
    by simp
  also have "((\<exists>w\<in>set (take n ws). w \<noteq> 0) \<or> ws ! n \<noteq> 0) = (\<exists>w\<in>set (take (Suc n) ws). w \<noteq> 0)"
    unfolding t by auto
  finally show ?case .
qed

text \<open>The state after a retrieval: the bitmap of the slot is clear, its snapshot is in the second half.\<close>

definition log_taken :: "kvm_memory_slot \<Rightarrow> u64 list \<Rightarrow> kvm_mem \<Rightarrow> kvm_mem" where
  "log_taken s ws m = m\<lparr>heap := (heap m)(dirty_bitmap s \<mapsto> replicate (length ws) 0 @ ws),
     mmu_calls := mmu_calls m @ protect_calls s ws @ (if \<exists>w\<in>set ws. w \<noteq> 0 then [Flush_remote_tlbs] else [])\<rparr>"

lemma get_log_post:
  assumes lib: "mem_lib_ok lib" and ul: "user_lib_ok lib" and ok: "mem_ok lib m" and k: "k < KVM_USER_MEM_SLOTS"
    and s: "s = entry (memslots m) k" "dirty_bitmap s \<noteq> 0"
  obtains ws r n where "length ws = bitmap_bytes lib (npages s) div 8"
    "take (length ws) (the (heap m (dirty_bitmap s))) = ws"
    "kvm_vm_ioctl_get_dirty_log lib k buf m =
      (r, (log_taken s ws m)\<lparr>user_mem := put buf (take n (le_bytes ws)) (user_mem m)\<rparr>)"
    "r = (if \<forall>i<length (le_bytes ws). writable lib (buf + of_nat i) then 0 else - EFAULT)"
    "r = 0 \<longrightarrow> n = length (le_bytes ws)"
proof -
  have k128: "k < 128" using k by (simp add: KVM_USER_MEM_SLOTS_def word_less_nat_alt)
  have at: "slot_array (memslots m) ! at_id lib (memslots m) k = s"
    using lib s(1) unfolding mem_lib_ok_def entry_def by simp
  have "bitmap_ok lib m s" using ok k128 s(1) unfolding mem_ok_def by blast
  then obtain l where l: "heap m (dirty_bitmap s) = Some l" "length l = 2 * bitmap_bytes lib (npages s) div 8"
    using s(2) unfolding bitmap_ok_def sized_def by auto
  have "8 dvd bitmap_bytes lib (npages s)" using lib unfolding mem_lib_ok_def by blast
  then obtain h where h: "bitmap_bytes lib (npages s) = 8 * h" by (auto elim: dvdE)
  define ws where "ws = take h l"
  have lw: "length ws = h" "length l = 2 * h" using l h by (simp_all add: ws_def)
  let ?m1 = "set_block (dirty_bitmap s) (\<lambda>l. take h l @ replicate h 0 @ drop (2 * h) l) m"
  have m1: "?m1 = m\<lparr>heap := (heap m)(dirty_bitmap s \<mapsto> ws @ replicate (length ws) 0)\<rparr>"
    using l(1) lw by (simp add: set_block_def ws_def)
  have hm1: "heap ?m1 (dirty_bitmap s) = Some (ws @ replicate (length ws) 0)" unfolding m1 by simp
  have loop: "fold (snapshot_word s h) [0..<h] (False, ?m1) = ((\<exists>w\<in>set ws. w \<noteq> 0),
      m\<lparr>heap := (heap m)(dirty_bitmap s \<mapsto> replicate (length ws) 0 @ ws), mmu_calls := mmu_calls m @ protect_calls s ws\<rparr>)"
    using snapshot_loop [OF hm1 order_refl] lw unfolding m1 by (simp add: protect_calls_def)
  obtain r n where c: "copy_to_user lib (user_mem m) buf (le_bytes ws) = (r, put buf (take n (le_bytes ws)) (user_mem m))"
    "r = 0 \<longleftrightarrow> (\<forall>i<length (le_bytes ws). writable lib (buf + of_nat i))" "r = 0 \<longrightarrow> n = length (le_bytes ws)"
    by (rule copy_to_user_law [OF ul])
  have "kvm_vm_ioctl_get_dirty_log lib k buf m = (if r \<noteq> 0 then - EFAULT else 0,
      (log_taken s ws m)\<lparr>user_mem := put buf (take n (le_bytes ws)) (user_mem m)\<rparr>)"
    using k s(2) lw(1) c(1) unfolding kvm_vm_ioctl_get_dirty_log_def at Let_def h
    by (simp add: loop log_taken_def not_le)
  then show ?thesis
    using that [of ws "if r \<noteq> 0 then - EFAULT else 0" n] lw l(1) c(2,3) h by (auto simp: ws_def)
qed

lemma log_taken_clear:
  assumes lib: "mem_lib_ok lib" and ok: "mem_ok lib m" and k: "k < KVM_USER_MEM_SLOTS"
    and s: "s = entry (memslots m) k" "dirty_bitmap s \<noteq> 0"
    and ws: "length ws = bitmap_bytes lib (npages s) div 8" "take (length ws) (the (heap m (dirty_bitmap s))) = ws"
  shows "page_dirty lib ((log_taken s ws m)\<lparr>user_mem := u\<rparr>) g \<longleftrightarrow>
      page_dirty lib m g \<and> gfn_to_memslot lib m g \<noteq> Some s"
    "gfn_to_memslot lib m g = Some s \<Longrightarrow> page_dirty lib m g \<longleftrightarrow>
      bit (ws ! (unat (g - base_gfn s) div 64)) (unat (g - base_gfn s) mod 64)"
proof -
  let ?m = "log_taken s ws m"
  have same: "gfn_to_memslot lib (?m\<lparr>user_mem := u\<rparr>) x = gfn_to_memslot lib m x" for x
    by (rule gfn_to_memslot_cong) (simp add: log_taken_def)
  have hm: "heap (?m\<lparr>user_mem := u\<rparr>) = (heap m)(dirty_bitmap s \<mapsto> replicate (length ws) 0 @ ws)"
    by (simp add: log_taken_def)
  have k128: "k < 128" using k by (simp add: KVM_USER_MEM_SLOTS_def word_less_nat_alt)
  have in_ws: "the (heap m (dirty_bitmap s)) ! i = ws ! i" if "i < length ws" for i
    using that ws(2) by (metis nth_take)
  show 2: "page_dirty lib m g \<longleftrightarrow> bit (ws ! (unat (g - base_gfn s) div 64)) (unat (g - base_gfn s) mod 64)"
    if g: "gfn_to_memslot lib m g = Some s"
  proof -
    have "unat (g - base_gfn s) div 64 < length ws" using ws(1) by (metis bitmap_room [OF lib ok g s(2)])
    then show ?thesis using g s(2) in_ws by (simp add: page_dirty_def slot_bit_def Let_def)
  qed
  show "page_dirty lib (?m\<lparr>user_mem := u\<rparr>) g \<longleftrightarrow> page_dirty lib m g \<and> gfn_to_memslot lib m g \<noteq> Some s"
  proof (cases "gfn_to_memslot lib m g")
    case None
    then show ?thesis by (simp add: page_dirty_def same)
  next
    case (Some t)
    show ?thesis
    proof (cases "t = s")
      case True
      have "unat (g - base_gfn s) div 64 < length ws"
        using ws(1) Some True by (metis bitmap_room [OF lib ok _ s(2)])
      then show ?thesis using Some True by (simp add: page_dirty_def same slot_bit_def hm Let_def nth_append)
    next
      case False
      note F = found_slot [OF lib ok Some]
      have "dirty_bitmap t \<noteq> dirty_bitmap s" if "dirty_bitmap t \<noteq> 0"
        using bitmap_unique [OF ok F(1) k128] F(2) s(1) False that by metis
      then show ?thesis using Some False by (auto simp: page_dirty_def same slot_bit_def hm Let_def)
    qed
  qed
qed

end
