(* ===== verification/Memory_Theorems.thy ===== *)
theory Memory_Theorems
  imports Dirty_Log
begin

text \<open>
  The properties of the memory of a VM: the slot table, the access to guest memory, the dirty log
  and the cached translation. The kernel functions are instantiated by \<open>example_lib\<close> in the witnesses.
\<close>

subsection \<open>Example of the kernel functions\<close>

text \<open>The allocator of the example hands out the number after the largest one in use.\<close>

definition first_free :: "(nat \<Rightarrow> u64 list option) \<Rightarrow> nat option" where
  "first_free h = (if finite (dom h) then Some (Suc (Max (insert 0 (dom h)))) else None)"

definition example_lib :: mem_lib where
  "example_lib =
     \<lparr>at_id = id_to_index, walk = (\<lambda>t. filter (\<lambda>s. npages s \<noteq> 0) (slot_array t)),
      search = (\<lambda>t gfn. find (\<lambda>i. base_gfn (slot_array t ! i) \<le> gfn
         \<and> gfn < base_gfn (slot_array t ! i) + npages (slot_array t ! i)) [0..<length (slot_array t)]),
      sort_array = (\<lambda>cmp a. rev (sort_key npages a)),
      bitmap_bytes = (\<lambda>n. 8 * ((unat n + 63) div 64)), max_nr_pages = 0x7FFFFFFF, memslot_invalid = 0x10000,
      have_readonly = True, access_ok = (\<lambda>a n. True),
      alloc_block = (\<lambda>h n. first_free h),
      kmemdup_ok = (\<lambda>t. True), vm_mmap = (\<lambda>s. Inr 0x700000), iommu_map_pages = (\<lambda>s. 0), largepages_enabled = True,
      calculate_mmu_pages = (\<lambda>t. 0), hva_err_bad = - 1, hva_err_ro_bad = - 2,
      is_error_hva = (\<lambda>a. a \<in> {- 1, - 2}), slot_hva = (\<lambda>s gfn. userspace_addr s + (gfn - base_gfn s) * 0x1000),
      copy_from_user = (\<lambda>u a n. (0, map (\<lambda>i. u (a + of_nat i)) [0..<n])),
      copy_to_user = (\<lambda>u a bs. (0, put a bs u)), readable = (\<lambda>a. True), writable = (\<lambda>a. True)\<rparr>"

lemma example_fields:
  "at_id example_lib = id_to_index" "walk example_lib t = filter (\<lambda>s. npages s \<noteq> 0) (slot_array t)"
  "search example_lib t gfn = find (\<lambda>i. base_gfn (slot_array t ! i) \<le> gfn
     \<and> gfn < base_gfn (slot_array t ! i) + npages (slot_array t ! i)) [0..<length (slot_array t)]"
  "sort_array example_lib cmp a = rev (sort_key npages a)"
  "bitmap_bytes example_lib n = 8 * ((unat n + 63) div 64)"
  "max_nr_pages example_lib = 0x7FFFFFFF" "memslot_invalid example_lib = 0x10000"
  "have_readonly example_lib" "access_ok example_lib ua n" "alloc_block example_lib h k = first_free h"
  "kmemdup_ok example_lib t" "iommu_map_pages example_lib s = 0"
  by (simp_all only: example_lib_def mem_lib.simps)

lemma first_free_law: "first_free h = Some p \<Longrightarrow> p \<noteq> 0 \<and> h p = None"
proof -
  assume f: "first_free h = Some p"
  have "q < Suc (Max (insert 0 (dom h)))" if "finite (dom h)" "q \<in> dom h" for q
    using that by (simp add: less_Suc_eq_le)
  then show ?thesis using f unfolding first_free_def by (auto split: if_splits)
qed

lemma example_lib_ok: "mem_lib_ok example_lib"
proof -
  have sort: "mset (rev (sort_key npages a)) = mset a \<and> by_size (rev (sort_key npages a))" for a
  proof
    have "sorted (map npages (sort_key npages a))" by simp
    then show "by_size (rev (sort_key npages a))"
      unfolding sorted_wrt_rev cmp_memslot_le by (simp add: sorted_map)
  qed simp
  have srch: "i < length (slot_array t) \<and> base_gfn (slot_array t ! i) \<le> gfn
      \<and> gfn < base_gfn (slot_array t ! i) + npages (slot_array t ! i)"
    if "search example_lib t gfn = Some i" for t gfn i
    using that unfolding example_fields find_Some_iff by auto
  have none: "\<not> (base_gfn s \<le> gfn \<and> gfn < base_gfn s + npages s)"
    if "search example_lib t gfn = None" "s \<in> set (slot_array t)" for t gfn s
    using that unfolding example_fields find_None_iff in_set_conv_nth by auto
  have bb: "8 dvd bitmap_bytes example_lib n \<and> unat n \<le> 8 * bitmap_bytes example_lib n" for n
  proof -
    have "x \<le> 64 * ((x + 63) div 64)" for x :: nat
    proof -
      define q where "q = (x + 63) div 64"
      have "x + 63 < 64 + 64 * q" unfolding q_def by (rule dividend_less_times_div) simp
      then show ?thesis unfolding q_def [symmetric] by simp
    qed
    from this [of "unat n"] show ?thesis unfolding example_fields by simp
  qed
  show ?thesis
    unfolding mem_lib_ok_def
    using srch none first_free_law bb sort by (simp add: example_fields(1,2,4,6,7,10))
qed

lemma example_user_ok: "user_lib_ok example_lib"
  unfolding user_lib_ok_def example_lib_def by auto

subsection \<open>The initial memory\<close>

definition initial_mem :: kvm_mem where
  "initial_mem = \<lparr>memslots = kvm_init_memslots_id, heap = Map.empty, bad_free = False, n_requested_mmu_pages = 0,
     mmu_calls = [], user_mem = (\<lambda>a. 0)\<rparr>"

lemma initial_slot:
  assumes "k < 128"
  shows "entry (memslots initial_mem) k = \<lparr>base_gfn = 0, npages = 0, dirty_bitmap = 0, rmap = [0, 0, 0],
    lpage_info = [0, 0], userspace_addr = 0, mflags = 0, slot_id = k\<rparr>"
proof -
  have "unat k < 128" using assms by (simp add: word_less_nat_alt)
  then show ?thesis by (simp add: initial_mem_def kvm_init_memslots_id_def entry_def)
qed

lemma initial_table: "table_ok (memslots initial_mem)"
proof -
  let ?a = "slot_array (memslots initial_mem)"
  have l: "length ?a = 128" by (simp add: initial_mem_def kvm_init_memslots_id_def)
  have a: "?a ! i = \<lparr>base_gfn = 0, npages = 0, dirty_bitmap = 0, rmap = [0, 0, 0],
    lpage_info = [0, 0], userspace_addr = 0, mflags = 0, slot_id = of_nat i\<rparr>" if "i < 128" for i
    using that by (simp add: initial_mem_def kvm_init_memslots_id_def)
  have u: "unat (of_nat i :: u32) = i" if "i < 128" for i
    using that by (simp add: unat_of_nat take_bit_nat_eq_self)
  have "slot_id ` set ?a = {i. i < 128}"
  proof (rule set_eqI, rule iffI)
    fix k assume "k \<in> slot_id ` set ?a"
    then obtain i where "i < 128" "k = slot_id (?a ! i)" using l by (auto simp: in_set_conv_nth)
    then show "k \<in> {i. i < 128}" using a u by (simp add: word_less_nat_alt)
  next
    fix k :: u32 assume "k \<in> {i. i < 128}"
    then have "unat k < 128" by (simp add: word_less_nat_alt)
    then have "?a ! unat k \<in> set ?a" "slot_id (?a ! unat k) = k" using l a nth_mem [of "unat k" ?a] by simp_all
    then show "k \<in> slot_id ` set ?a" by force
  qed
  then show ?thesis
    unfolding table_ok_def using l a u
    by (auto simp: sorted_wrt_iff_nth_less cmp_memslot_le initial_mem_def kvm_init_memslots_id_def)
qed

lemma initial_ok: "max_nr_pages lib \<ge> 0 \<Longrightarrow> mem_ok lib initial_mem"
proof -
  have blk: "all_blocks (entry (memslots initial_mem)) = {#}"
    unfolding all_blocks_def by (rule sum.neutral) (simp add: initial_slot blocks_def)
  have small: "k < KVM_USER_MEM_SLOTS \<Longrightarrow> k < 128" for k by (simp add: KVM_USER_MEM_SLOTS_def word_less_nat_alt)
  have "heap initial_mem = Map.empty" "bad_free initial_mem = False" "even (generation (memslots initial_mem))"
    by (simp_all add: initial_mem_def kvm_init_memslots_id_def)
  then show ?thesis
    unfolding mem_ok_def view_ok_def
    by (auto simp: initial_table blk heap_holds_def initial_slot small slot_ok_def apart_def bitmap_ok_def)
qed

subsection \<open>The slot table\<close>

lemma requests_keep_ok:
  "mem_lib_ok lib \<Longrightarrow> mem_ok lib m \<Longrightarrow> mem_ok lib (fold (\<lambda>r m. snd (kvm_set_memory_region lib r m)) rs m)"
proof (induction rs arbitrary: m)
  case (Cons r rs)
  have "mem_ok lib (snd (do_set_memory_region lib r m))"
    using region_keeps_ok [OF Cons.prems] by (metis prod.collapse)
  then show ?case using Cons by (simp add: kvm_set_memory_region_def)
qed simp

text \<open>C13: Whatever memory regions user space and the kernel set, in any order and with any allocation
  failing, the table of slots stays well formed: every id has one slot and the index finds it, the
  slots are sorted by size, the slots of the user do not overlap, exactly the blocks that the slots
  point to are allocated (nothing leaks, nothing is released twice), and the generation stays even.\<close>

theorem memory_invariant:
  assumes "mem_lib_ok lib"
  shows "mem_ok lib (fold (\<lambda>r m. snd (kvm_set_memory_region lib r m)) rs initial_mem)"
  by (rule requests_keep_ok [OF assms initial_ok]) simp

theorem memory_invariant_witness:
  "mem_ok example_lib (snd (kvm_set_memory_region example_lib
     \<lparr>mem_slot = 3, mem_flags = 1, guest_phys_addr = 0x1000, memory_size = 0x8000, mem_userspace_addr = 0x400000\<rparr> initial_mem))"
  using memory_invariant [OF example_lib_ok, of "[\<lparr>mem_slot = 3, mem_flags = 1, guest_phys_addr = 0x1000,
    memory_size = 0x8000, mem_userspace_addr = 0x400000\<rparr>]"] by simp



text \<open>A valid request is accepted.\<close>

text \<open>No allocation fails, as long as finitely many blocks are live.\<close>

definition allocates :: "mem_lib \<Rightarrow> bool" where
  "allocates lib = (\<forall>h n. finite (dom h) \<longrightarrow> alloc_block lib h n \<noteq> None)"

lemma alloc_levels_succeed:
  assumes lib: "mem_lib_ok lib" and al: "allocates lib" and fin: "finite (dom (heap m))"
  shows "fst (alloc_slot lib change mem new m)"
proof -
  have kz: "p \<noteq> 0 \<and> finite (dom (heap m'))" if k: "kvm_kvzalloc lib n m = (p, m')" "finite (dom (heap m))" for n m p m'
  proof -
    obtain q where q: "alloc_block lib (heap m) n = Some q" using al k(2) unfolding allocates_def by blast
    moreover have "q \<noteq> 0" using lib q unfolding mem_lib_ok_def by blast
    ultimately show ?thesis using k by (auto simp: kvm_kvzalloc_def)
  qed
  have sb: "finite (dom (heap (set_block q f m)))" if "finite (dom (heap m))" for q f m
    using that by (rule rev_finite_subset) (auto simp: set_block_def split: if_splits)
  have cl: "finite (dom (heap (count_lpages lib n l s q k m)))" if "finite (dom (heap m))" for n l s q k m
    using that sb by (simp add: count_lpages_def Let_def)
  have lv: "ok \<and> finite (dom (heap m'))" if c: "create_level lib n i s m = (ok, s', m')" and f: "finite (dom (heap m))"
    for n i s m ok s' m'
  proof -
    obtain p m1 where p: "kvm_kvzalloc lib (lpages_of s n (i + 1)) m = (p, m1)" by fastforce
    obtain q m2 where q: "kvm_kvzalloc lib (lpages_of s n (i + 1)) m1 = (q, m2)" by fastforce
    have P: "p \<noteq> 0" "finite (dom (heap m1))" using kz [OF p f] by simp_all
    then have Q: "q \<noteq> 0" "finite (dom (heap m2))" using kz [OF q] by simp_all
    show ?thesis using c P Q cl unfolding create_level_def Let_def p prod.case q by (auto split: if_splits)
  qed
  have ls: "create_levels lib n is s m = (ok, s', m') \<Longrightarrow> finite (dom (heap m)) \<Longrightarrow> ok \<and> finite (dom (heap m'))"
    for n "is" s m ok s' m'
  proof (induction "is" arbitrary: s m)
    case (Cons i "is")
    obtain o1 s1 m1 where c: "create_level lib n i s m = (o1, s1, m1)" by (cases "create_level lib n i s m") auto
    have o1: "o1" "finite (dom (heap m1))" using lv [OF c Cons.prems(2)] by simp_all
    have "create_levels lib n is s1 m1 = (ok, s', m')" using Cons.prems(1) c o1(1) by simp
    then show ?case using o1(2) by (rule Cons.IH)
  qed simp
  have cm: "x = 0 \<and> finite (dom (heap m'))"
    if c: "kvm_arch_create_memslot lib s n m = (x, s', m')" and f: "finite (dom (heap m))" for s n m x s' m'
  proof -
    obtain o1 s1 m1 where l: "create_levels lib n [0, 1, 2] s m = (o1, s1, m1)"
      by (cases "create_levels lib n [0, 1, 2] s m") auto
    then show ?thesis using c ls [OF l f] unfolding kvm_arch_create_memslot_def l by auto
  qed
  have cb: "x = 0" if c: "kvm_create_dirty_bitmap lib s m = (x, s', m')" and f: "finite (dom (heap m))" for s m x s' m'
  proof -
    obtain p m1 where p: "kvm_kvzalloc lib (2 * bitmap_bytes lib (npages s) div 8) m = (p, m1)" by fastforce
    show ?thesis using c kz [OF p f] unfolding kvm_create_dirty_bitmap_def Let_def p prod.case by simp
  qed
  obtain x s1 m1 where c: "(if change = KVM_MR_CREATE
      then kvm_arch_create_memslot lib ((if mflags new AND KVM_MEM_LOG_DIRTY_PAGES = 0 then new\<lparr>dirty_bitmap := 0\<rparr> else new)
             \<lparr>userspace_addr := mem_userspace_addr mem\<rparr>)
             (npages (if mflags new AND KVM_MEM_LOG_DIRTY_PAGES = 0 then new\<lparr>dirty_bitmap := 0\<rparr> else new)) m
      else (0, if mflags new AND KVM_MEM_LOG_DIRTY_PAGES = 0 then new\<lparr>dirty_bitmap := 0\<rparr> else new, m)) = (x, s1, m1)"
    by (rule prod_cases3)
  have x: "x = 0" "finite (dom (heap m1))" using c cm [OF _ fin] fin by (cases "change = KVM_MR_CREATE"; auto)+
  obtain y s2 m2 where d: "kvm_create_dirty_bitmap lib s1 m1 = (y, s2, m2)" by (rule prod_cases3)
  show ?thesis unfolding alloc_slot_def Let_def c prod.case d using x cb [OF d] by simp
qed

lemma mem_ok_finite: "mem_ok lib m \<Longrightarrow> finite (dom (heap m))"
  unfolding mem_ok_def heap_holds_def by blast

lemma region_accepted:
  assumes lib: "mem_lib_ok lib" and ok: "mem_ok lib m"
    and al: "allocates lib" and dup: "\<And>t. kmemdup_ok lib t"
    and fl: "check_memory_region_flags lib r = 0"
    and al2: "guest_phys_addr r AND 0xFFF = 0" "memory_size r AND 0xFFF = 0" "mem_userspace_addr r AND 0xFFF = 0"
      "access_ok lib (mem_userspace_addr r) (memory_size r)"
    and sz: "guest_phys_addr r \<le> guest_phys_addr r + memory_size r" "drop_bit 12 (memory_size r) \<le> max_nr_pages lib"
    and k: "mem_slot r < KVM_USER_MEM_SLOTS"
    and ch: "\<And>new mem. base_gfn new = drop_bit 12 (guest_phys_addr r) \<Longrightarrow> npages new = drop_bit 12 (memory_size r)
        \<Longrightarrow> mem_userspace_addr mem = mem_userspace_addr r
        \<Longrightarrow> mflags new = (if npages new = 0 then mem_flags r AND NOT KVM_MEM_LOG_DIRTY_PAGES else mem_flags r)
        \<Longrightarrow> \<exists>c. change_of mem (entry (memslots m) (mem_slot r)) new = Inr c"
    and no: "\<And>new. base_gfn new = drop_bit 12 (guest_phys_addr r) \<Longrightarrow> npages new = drop_bit 12 (memory_size r)
        \<Longrightarrow> slot_id new = mem_slot r \<Longrightarrow> \<not> overlaps lib new (memslots m)"
    and r: "kvm_set_memory_region lib r m = (e, m')"
  obtains change new where "region_installed lib r m change (entry (memslots m) (mem_slot r)) new e m'"
proof -
  have d: "do_set_memory_region lib r m = (e, m')" using r by (simp add: kvm_set_memory_region_def)
  have k2: "\<not> KVM_MEM_SLOTS_NUM \<le> mem_slot r" using k by (simp add: KVM_USER_MEM_SLOTS_def KVM_MEM_SLOTS_NUM_def word_less_nat_alt word_le_nat_alt)
  have at: "at_id lib t i = id_to_index t i" for t i using lib unfolding mem_lib_ok_def by simp
  define mm where "mm = (if drop_bit 12 (memory_size r) = 0
      then r\<lparr>mem_flags := mem_flags r AND NOT KVM_MEM_LOG_DIRTY_PAGES\<rparr> else r)"
  define o2 where "o2 = entry (memslots m) (mem_slot r)"
  define n2 where "n2 = o2\<lparr>slot_id := mem_slot r, base_gfn := drop_bit 12 (guest_phys_addr r),
      npages := drop_bit 12 (memory_size r), mflags := mem_flags mm\<rparr>"
  have ms: "mem_slot mm = mem_slot r" by (simp add: mm_def)
  have nf: "base_gfn n2 = drop_bit 12 (guest_phys_addr r)" "npages n2 = drop_bit 12 (memory_size r)"
    "mem_userspace_addr mm = mem_userspace_addr r" "slot_id n2 = mem_slot r"
    "mflags n2 = (if npages n2 = 0 then mem_flags r AND NOT KVM_MEM_LOG_DIRTY_PAGES else mem_flags r)"
    by (simp_all add: n2_def mm_def)
  obtain c where c: "change_of mm o2 n2 = Inr c"
    using ch [OF nf(1-3) nf(5)] unfolding o2_def [symmetric] by blast
  have chk: "region_checks lib r m = Inr (c, o2, n2, mm)"
    unfolding region_checks_def Let_def mm_def [symmetric] at ms entry_def [symmetric] o2_def [symmetric] n2_def [symmetric] c
    using fl al2 sz k k2 by (simp add: not_less)
  have "\<not> region_refused lib r m e"
    using chk no [OF nf(1,2,4)] alloc_levels_succeed [OF lib al mem_ok_finite [OF ok]] dup k nf(4)
    by (auto simp: region_refused_def not_le)
  then obtain change old new where i: "region_installed lib r m change old new e m'"
    using set_region_outcome [OF lib ok d] by blast
  have "old = entry (memslots m) (mem_slot r)" using installed_state(4) [OF lib ok i] .
  then show ?thesis using that i by blast
qed

text \<open>The IOMMU, the allocator and user space permitting, an aligned region that fits in the address
  space and meets no other slot is installed in an empty slot.\<close>

definition fits :: "mem_lib \<Rightarrow> kvm_userspace_memory_region \<Rightarrow> bool" where
  "fits lib r = (check_memory_region_flags lib r = 0 \<and> guest_phys_addr r AND 0xFFF = 0 \<and> memory_size r AND 0xFFF = 0
     \<and> mem_userspace_addr r AND 0xFFF = 0 \<and> access_ok lib (mem_userspace_addr r) (memory_size r)
     \<and> guest_phys_addr r \<le> guest_phys_addr r + memory_size r \<and> drop_bit 12 (memory_size r) \<le> max_nr_pages lib
     \<and> drop_bit 12 (memory_size r) \<noteq> 0 \<and> mem_slot r < KVM_USER_MEM_SLOTS)"

definition region_slot :: "kvm_userspace_memory_region \<Rightarrow> kvm_memory_slot" where
  "region_slot r = \<lparr>base_gfn = drop_bit 12 (guest_phys_addr r), npages = drop_bit 12 (memory_size r), dirty_bitmap = 0,
     rmap = [], lpage_info = [], userspace_addr = mem_userspace_addr r, mflags = mem_flags r, slot_id = mem_slot r\<rparr>"

lemma apart_no_overlap:
  assumes lib: "mem_lib_ok lib" and ok: "mem_ok lib m" and f: "fits lib r"
    and a: "\<And>j. j < 128 \<Longrightarrow> j \<noteq> mem_slot r \<Longrightarrow> apart (region_slot r) (entry (memslots m) j)"
    and n: "base_gfn new = drop_bit 12 (guest_phys_addr r)" "npages new = drop_bit 12 (memory_size r)" "slot_id new = mem_slot r"
  shows "\<not> overlaps lib new (memslots m)"
proof
  assume "overlaps lib new (memslots m)"
  then obtain s where s: "s \<in> set (walk lib (memslots m))" "slot_id s \<noteq> mem_slot r"
    "\<not> (base_gfn new + npages new \<le> base_gfn s \<or> base_gfn new \<ge> base_gfn s + npages s)"
    unfolding overlaps_def list_ex_iff n(3) by blast
  have t: "table_ok (memslots m)" using ok unfolding mem_ok_def by blast
  have w: "set (walk lib (memslots m)) = {s \<in> set (slot_array (memslots m)). npages s \<noteq> 0}"
  proof -
    have "\<forall>t. by_size (slot_array t) \<longrightarrow> set (walk lib t) = {s \<in> set (slot_array t). npages s \<noteq> 0}"
      using lib unfolding mem_lib_ok_def by (elim conjE)
    then show ?thesis using t unfolding table_ok_def by simp
  qed
  have m: "s \<in> set (slot_array (memslots m))" "npages s \<noteq> 0" using s(1) w by auto
  note M = table_member [OF t m(1)]
  have so: "unat (base_gfn s) + unat (npages s) \<le> 2 ^ 52"
    using ok M unfolding mem_ok_def view_ok_def slot_ok_def by metis
  have sn: "unat (base_gfn new) + unat (npages new) \<le> 2 ^ 52"
    unfolding n using f by (intro shifted_sum) (simp add: fits_def not_less)
  have nz: "npages new \<noteq> 0" using f n by (simp add: fits_def)
  have "apart (region_slot r) s" using a [OF M(1) s(2)] M(2) by simp
  then have "unat (base_gfn new) + unat (npages new) \<le> unat (base_gfn s)
      \<or> unat (base_gfn s) + unat (npages s) \<le> unat (base_gfn new)"
    using m(2) nz unfolding apart_def region_slot_def by (simp add: n)
  then show False using s(3) unfolding word_le_nat_alt unat_sum [OF so] unat_sum [OF sn] by blast
qed

lemma create_accepted:
  assumes lib: "mem_lib_ok lib" and ok: "mem_ok lib m"
    and al: "allocates lib" and dup: "\<And>t. kmemdup_ok lib t"
    and f: "fits lib r" and e: "npages (entry (memslots m) (mem_slot r)) = 0"
    and a: "\<And>j. j < 128 \<Longrightarrow> j \<noteq> mem_slot r \<Longrightarrow> apart (region_slot r) (entry (memslots m) j)"
    and r: "kvm_set_memory_region lib r m = (x, m')"
  obtains new where "region_installed lib r m KVM_MR_CREATE (entry (memslots m) (mem_slot r)) new x m'"
proof -
  have nz: "drop_bit 12 (memory_size r) \<noteq> 0" using f by (simp add: fits_def)
  obtain change new where i: "region_installed lib r m change (entry (memslots m) (mem_slot r)) new x m'"
  proof (rule region_accepted [OF lib ok al dup _ _ _ _ _ _ _ _ _ _ r])
    fix new :: kvm_memory_slot and mem :: kvm_userspace_memory_region
    assume "npages new = drop_bit 12 (memory_size r)"
    then show "\<exists>c. change_of mem (entry (memslots m) (mem_slot r)) new = Inr c"
      using e nz by (simp add: change_of_def)
  qed (use f apart_no_overlap [OF lib ok f a] in \<open>simp_all add: fits_def\<close>)
  have "change = KVM_MR_CREATE" using installed_fields(5) [OF lib ok i] e by simp
  then show ?thesis using i that by blast
qed

text \<open>The new slot and the rest of the table after such a request.\<close>

lemma created_post:
  assumes lib: "mem_lib_ok lib" and ok: "mem_ok lib m" and al: "allocates lib" and dup: "\<And>t. kmemdup_ok lib t"
    and f: "fits lib r" and e: "npages (entry (memslots m) (mem_slot r)) = 0"
    and a: "\<And>j. j < 128 \<Longrightarrow> j \<noteq> mem_slot r \<Longrightarrow> apart (region_slot r) (entry (memslots m) j)"
    and r: "kvm_set_memory_region lib r m = (x, m')"
    and s: "s = entry (memslots m') (mem_slot r)"
  shows "x = iommu_map_pages lib s" "base_gfn s = drop_bit 12 (guest_phys_addr r)"
    "npages s = drop_bit 12 (memory_size r)" "userspace_addr s = mem_userspace_addr r" "mflags s = mem_flags r"
    "covered m' s"
    "unat (base_gfn s) \<le> unat g \<Longrightarrow> unat g < unat (base_gfn s) + unat (npages s) \<Longrightarrow> gfn_to_memslot lib m' g = Some s"
    "j < 128 \<Longrightarrow> j \<noteq> mem_slot r \<Longrightarrow> entry (memslots m') j = entry (memslots m) j"
proof -
  obtain new where i: "region_installed lib r m KVM_MR_CREATE (entry (memslots m) (mem_slot r)) new x m'"
    by (rule create_accepted [OF lib ok al dup f e a r])
  note S = installed_state [OF lib ok i] and F = installed_fields [OF lib ok i]
  have k: "mem_slot r < KVM_USER_MEM_SLOTS" "drop_bit 12 (memory_size r) \<noteq> 0" using f by (simp_all add: fits_def)
  have sn: "s = new" using S(3) [OF S(2)] s by simp
  show "x = iommu_map_pages lib s" using S(12) sn by simp
  show b: "base_gfn s = drop_bit 12 (guest_phys_addr r)" "npages s = drop_bit 12 (memory_size r)"
    "userspace_addr s = mem_userspace_addr r" "mflags s = mem_flags r" "covered m' s"
    using F(1-4) S(13) k sn by simp_all
  show oth: "entry (memslots m') j = entry (memslots m) j" if "j < 128" "j \<noteq> mem_slot r" for j
    using S(3) [OF that(1)] that(2) by simp
  show "gfn_to_memslot lib m' g = Some s" if g: "unat (base_gfn s) \<le> unat g" "unat g < unat (base_gfn s) + unat (npages s)" for g
  proof -
    have ok': "mem_ok lib m'" using region_keeps_ok [OF lib ok] r by (simp add: kvm_set_memory_region_def)
    have sm: "s \<in> set (slot_array (memslots m'))" using table_entry(3) [OF S(1,2)] s by simp
    have "unat (base_gfn s) + unat (npages s) \<le> 2 ^ 52" using S(9) sn unfolding slot_ok_def by simp
    then have inn: "base_gfn s \<le> g \<and> g < base_gfn s + npages s"
      using g unfolding word_le_nat_alt word_less_nat_alt by (simp add: unat_sum)
    have "search lib (memslots m') g \<noteq> None"
    proof
      assume n: "search lib (memslots m') g = None"
      have "\<forall>t gfn s. search lib t gfn = None \<longrightarrow> s \<in> set (slot_array t) \<longrightarrow> \<not> (base_gfn s \<le> gfn \<and> gfn < base_gfn s + npages s)"
        using lib unfolding mem_lib_ok_def by (elim conjE)
      then show False using n sm inn by blast
    qed
    then obtain t where t: "gfn_to_memslot lib m' g = Some t" unfolding gfn_to_memslot_def by auto
    note T = found_slot [OF lib ok' t]
    have "slot_id t = mem_slot r"
    proof (rule ccontr)
      assume n: "slot_id t \<noteq> mem_slot r"
      then have "apart (region_slot r) t" using a [OF T(1) n] oth [OF T(1) n] T(2) by simp
      then show False using T(3,4) g k(2) unfolding apart_def region_slot_def b by (auto simp: unat_eq_0)
    qed
    then show ?thesis using T(2) t s by simp
  qed
qed

text \<open>An aligned region that fits in the address space and meets no other slot is installed in an
  empty slot: the result is that of the IOMMU, the slot has the requested frames and user address,
  every frame of the region is found in it, its page information covers all its large pages, and the
  other slots are as they were.\<close>

theorem region_created:
  assumes "mem_lib_ok lib" "mem_ok lib m" "allocates lib" "\<And>t. kmemdup_ok lib t" "fits lib r"
    and "npages (entry (memslots m) (mem_slot r)) = 0"
    and "\<And>j. j < 128 \<Longrightarrow> j \<noteq> mem_slot r \<Longrightarrow> apart (region_slot r) (entry (memslots m) j)"
  shows "case kvm_set_memory_region lib r m of (x, m') \<Rightarrow>
    (let s = entry (memslots m') (mem_slot r)
     in x = iommu_map_pages lib s \<and> base_gfn s = drop_bit 12 (guest_phys_addr r)
        \<and> npages s = drop_bit 12 (memory_size r) \<and> userspace_addr s = mem_userspace_addr r \<and> mflags s = mem_flags r
        \<and> covered m' s
        \<and> (\<forall>g. unat (base_gfn s) \<le> unat g \<and> unat g < unat (base_gfn s) + unat (npages s)
               \<longrightarrow> gfn_to_memslot lib m' g = Some s)
        \<and> (\<forall>j<128. j \<noteq> mem_slot r \<longrightarrow> entry (memslots m') j = entry (memslots m) j))"
proof (cases "kvm_set_memory_region lib r m")
  case (Pair x m')
  note P = created_post [OF assms Pair refl]
  show ?thesis unfolding Pair prod.case Let_def using P by blast
qed

lemma example_allocates: "allocates example_lib"
  by (simp add: allocates_def example_fields first_free_def)

text \<open>The first 512 frames of an empty VM, and the same region moved by 256 frames.\<close>

definition example_region :: "u64 \<Rightarrow> kvm_userspace_memory_region" where
  "example_region gpa = \<lparr>mem_slot = 0, mem_flags = 0, guest_phys_addr = gpa, memory_size = 0x200000,
     mem_userspace_addr = 0x400000\<rparr>"

lemma example_fits: "fits example_lib (example_region 0)" "fits example_lib (example_region 0x100000)"
  by (simp_all add: fits_def example_region_def example_fields check_memory_region_flags_def Let_def
      KVM_USER_MEM_SLOTS_def)

lemma example_apart: "j < 128 \<Longrightarrow> apart (region_slot r) (entry (memslots initial_mem) j)"
  by (simp add: apart_def initial_slot)

theorem region_created_witness:
  "fst (kvm_set_memory_region example_lib (example_region 0) initial_mem) = 0"
proof -
  have e: "npages (entry (memslots initial_mem) (mem_slot (example_region 0))) = 0"
    by (simp add: example_region_def initial_slot)
  show ?thesis
    using region_created [OF example_lib_ok initial_ok example_allocates _ example_fits(1) e example_apart]
    by (simp add: example_fields Let_def split: prod.splits)
qed

text \<open>A slot keeps the page information of its creation until it is deleted, also when it is
  moved. If it covered the slot before, and the slot now touches another number of large pages,
  it does not cover the slot any more: the code indexes it out of bounds or leaves entries unused.\<close>

theorem moved_region_uncovered:
  assumes lib: "mem_lib_ok lib" and ok: "mem_ok lib m" and r: "kvm_set_memory_region lib r m = (x, m')"
    and s: "s = entry (memslots m) k" "t = entry (memslots m') k" and k: "k < 128"
    and n: "npages s \<noteq> 0" "npages t \<noteq> 0" and c: "covered m s"
  shows "rmap t = rmap s \<and> lpage_info t = lpage_info s \<and> npages t = npages s
    \<and> (\<forall>l\<in>{1, 2, 3}. lpages_of t (npages t) l \<noteq> lpages_of s (npages s) l \<longrightarrow> \<not> covered m' t)"
proof -
  have d: "do_set_memory_region lib r m = (x, m')" using r by (simp add: kvm_set_memory_region_def)
  have so: "slot_ok lib s" using ok k s(1) unfolding mem_ok_def view_ok_def by blast
  have main: "rmap t = rmap s \<and> lpage_info t = lpage_info s \<and> npages t = npages s
      \<and> (\<forall>p\<in>set (rmap s). p \<noteq> 0 \<longrightarrow> heap m' p = heap m p)"
    using set_region_outcome [OF lib ok d]
  proof (elim disjE exE conjE)
    assume "m' = m"
    then show ?thesis using s by simp
  next
    fix change old new
    assume i: "region_installed lib r m change old new x m'"
    note S = installed_state [OF lib ok i] and F = installed_fields [OF lib ok i]
    have t: "t = (if k = mem_slot r then new else s)" using S(3) [OF k] s by simp
    have eq: "rmap t = rmap s \<and> lpage_info t = lpage_info s \<and> npages t = npages s"
      using t n F(7) S(4) s(1) by (auto split: if_splits)
    have "heap m' p = heap m p" if p: "p \<in> set (rmap s)" "p \<noteq> 0" for p
    proof (rule S(11))
      have "((entry (memslots m))(mem_slot r := new)) k = t" using t s by simp
      then show "p \<in># all_blocks ((entry (memslots m))(mem_slot r := new))"
        using all_blocks_member [OF k, of p "(entry (memslots m))(mem_slot r := new)"] p eq by (simp add: blocks_def)
      have hh: "heap_holds (heap m) (all_blocks (entry (memslots m)))" using ok unfolding mem_ok_def by blast
      have "p \<in># all_blocks (entry (memslots m))"
        by (rule all_blocks_member [OF k]) (use p s(1) in \<open>simp add: blocks_def\<close>)
      then have "p \<in> dom (heap m)" using hh unfolding heap_holds_def by (metis elem_mset_set)
      then show "heap m p \<noteq> None" by auto
    qed
    then show ?thesis using eq by blast
  qed
  have "\<not> covered m' t" if l: "l \<in> {1, 2, 3}" "lpages_of t (npages t) l \<noteq> lpages_of s (npages s) l" for l
  proof
    assume cv: "covered m' t"
    have i: "l - 1 < 3" "l - 1 + 1 = l" using l(1) by auto
    have len: "length (rmap s) = 3" using so unfolding slot_ok_def by simp
    have A: "sized m (rmap s ! (l - 1)) (lpages_of s (npages s) l)"
      and B: "sized m' (rmap s ! (l - 1)) (lpages_of t (npages t) l)"
      using c cv i main unfolding covered_def by (metis, metis)
    have hh: "heap_holds (heap m) (all_blocks (entry (memslots m)))" using ok unfolding mem_ok_def by blast
    have "heap m 0 = None" using hh unfolding heap_holds_def by auto
    then have "rmap s ! (l - 1) \<noteq> 0" using A unfolding sized_def by (metis option.distinct(1))
    then have "heap m' (rmap s ! (l - 1)) = heap m (rmap s ! (l - 1))" using main i len by simp
    then show False using A B l(2) unfolding sized_def by auto
  qed
  then show ?thesis using main by blast
qed

text \<open>A created region can be moved.\<close>

lemma example_moved:
  obtains m1 m2 where "mem_ok example_lib m1" "kvm_set_memory_region example_lib (example_region 0x100000) m1 = (0, m2)"
    "covered m1 (entry (memslots m1) 0)" "base_gfn (entry (memslots m1) 0) = 0" "npages (entry (memslots m1) 0) = 512"
    "base_gfn (entry (memslots m2) 0) = 256" "npages (entry (memslots m2) 0) = 512"
proof -
  obtain x1 m1 where r1: "kvm_set_memory_region example_lib (example_region 0) initial_mem = (x1, m1)"
    by (cases "kvm_set_memory_region example_lib (example_region 0) initial_mem") auto
  have e: "npages (entry (memslots initial_mem) (mem_slot (example_region 0))) = 0"
    by (simp add: example_region_def initial_slot)
  have dup: "kmemdup_ok example_lib t" for t by (simp add: example_fields)
  note P = created_post [OF example_lib_ok initial_ok example_allocates dup example_fits(1) e example_apart r1 refl,
      unfolded example_fields example_region_def, simplified]
  have ok1: "mem_ok example_lib m1"
    using region_keeps_ok [OF example_lib_ok initial_ok] r1 by (simp add: kvm_set_memory_region_def)
  obtain x2 m2 where r2: "kvm_set_memory_region example_lib (example_region 0x100000) m1 = (x2, m2)"
    by (cases "kvm_set_memory_region example_lib (example_region 0x100000) m1") auto
  have other: "apart (region_slot (example_region 0x100000)) (entry (memslots m1) j)" if "j < 128" "j \<noteq> 0" for j
    using P(8) [OF that] that by (simp add: apart_def initial_slot)
  obtain change new where i: "region_installed example_lib (example_region 0x100000) m1 change
      (entry (memslots m1) (mem_slot (example_region 0x100000))) new x2 m2"
  proof (rule region_accepted [OF example_lib_ok ok1 example_allocates _ _ _ _ _ _ _ _ _ _ _ r2])
    fix new :: kvm_memory_slot and mem :: kvm_userspace_memory_region
    assume "base_gfn new = drop_bit 12 (guest_phys_addr (example_region 0x100000))"
      "npages new = drop_bit 12 (memory_size (example_region 0x100000))"
      "mem_userspace_addr mem = mem_userspace_addr (example_region 0x100000)"
      "mflags new = (if npages new = 0 then mem_flags (example_region 0x100000) AND NOT KVM_MEM_LOG_DIRTY_PAGES
                     else mem_flags (example_region 0x100000))"
    then show "\<exists>c. change_of mem (entry (memslots m1) (mem_slot (example_region 0x100000))) new = Inr c"
      using P by (simp add: change_of_def example_region_def)
  next
    fix new :: kvm_memory_slot
    assume n: "base_gfn new = drop_bit 12 (guest_phys_addr (example_region 0x100000))"
      "npages new = drop_bit 12 (memory_size (example_region 0x100000))" "slot_id new = mem_slot (example_region 0x100000)"
    show "\<not> overlaps example_lib new (memslots m1)"
      by (rule apart_no_overlap [OF example_lib_ok ok1 example_fits(2) _ n]) (use other in \<open>simp add: example_region_def\<close>)
  qed (use example_fits(2) in \<open>simp_all add: fits_def example_fields\<close>)
  note S = installed_state [OF example_lib_ok ok1 i] and F = installed_fields [OF example_lib_ok ok1 i]
  have "entry (memslots m2) 0 = new" using S(3) [of 0] by (simp add: example_region_def)
  moreover have "x2 = 0" using S(12) by (simp add: example_fields)
  ultimately show ?thesis
    using that [OF ok1, of m2] r2 P F(1,2) by (simp add: example_region_def)
qed

theorem moved_region_uncovered_witness:
  "\<exists>m m'. kvm_set_memory_region example_lib (example_region 0x100000) m = (0, m')
    \<and> covered m (entry (memslots m) 0) \<and> \<not> covered m' (entry (memslots m') 0)"
proof -
  obtain m1 m2 where M: "mem_ok example_lib m1" "kvm_set_memory_region example_lib (example_region 0x100000) m1 = (0, m2)"
    "covered m1 (entry (memslots m1) 0)" "base_gfn (entry (memslots m1) 0) = 0" "npages (entry (memslots m1) 0) = 512"
    "base_gfn (entry (memslots m2) 0) = 256" "npages (entry (memslots m2) 0) = 512"
    by (rule example_moved)
  have "lpages_of (entry (memslots m2) 0) 512 2 \<noteq> lpages_of (entry (memslots m1) 0) 512 2"
    using M by (simp add: lpages_of_def gfn_to_index_def KVM_HPAGE_GFN_SHIFT_def)
  then have "\<not> covered m2 (entry (memslots m2) 0)"
    using moved_region_uncovered [OF example_lib_ok M(1,2) refl refl, of 0] M by simp
  then show ?thesis using M(2,3) by blast
qed

end
