(* ===== verification/Access_Theorems.thy ===== *)
theory Access_Theorems
  imports Memory_Theorems
begin

text \<open>
  The properties of the access to guest memory: ranges behave byte by byte, writes are logged, the
  dirty log is exact, and the cached translation agrees with the uncached one.
\<close>

subsection \<open>Example of a VM with logged memory\<close>

definition logged_region :: kvm_userspace_memory_region where
  "logged_region = (example_region 0)\<lparr>mem_flags := 1\<rparr>"

lemma example_mapped:
  obtains m s where "mem_ok example_lib m" "s = entry (memslots m) 0" "base_gfn s = 0" "npages s = 512"
    "userspace_addr s = 0x400000" "mflags s = 1" "dirty_bitmap s \<noteq> 0"
    "\<And>g. unat g < 512 \<Longrightarrow> gfn_to_memslot example_lib m g = Some s"
proof -
  obtain x m where r: "kvm_set_memory_region example_lib logged_region initial_mem = (x, m)"
    by (cases "kvm_set_memory_region example_lib logged_region initial_mem") auto
  have dup: "kmemdup_ok example_lib t" for t by (simp add: example_fields)
  have f: "fits example_lib logged_region"
    by (simp add: fits_def logged_region_def example_region_def example_fields check_memory_region_flags_def Let_def
        KVM_USER_MEM_SLOTS_def KVM_MEM_LOG_DIRTY_PAGES_def KVM_MEM_READONLY_def)
  have e: "npages (entry (memslots initial_mem) (mem_slot logged_region)) = 0"
    by (simp add: logged_region_def example_region_def initial_slot)
  note P = created_post [OF example_lib_ok initial_ok example_allocates dup f e example_apart r refl,
      unfolded logged_region_def example_region_def, simplified]
  have ok: "mem_ok example_lib m"
    using region_keeps_ok [OF example_lib_ok initial_ok] r by (simp add: kvm_set_memory_region_def)
  have "slot_ok example_lib (entry (memslots m) 0)" using ok unfolding mem_ok_def view_ok_def by simp
  then have "dirty_bitmap (entry (memslots m) 0) \<noteq> 0"
    using P(5) unfolding slot_ok_def KVM_MEM_LOG_DIRTY_PAGES_def by simp
  then show ?thesis using that [OF ok refl] P by simp
qed

subsection \<open>Ranges\<close>

text \<open>C15: Reading a range of guest memory gives the bytes that translating every single byte gives, and
  the error exactly if some byte cannot be translated or read, across pages and slots.\<close>

theorem guest_read_reference:
  assumes "user_lib_ok lib" "unat gpa + len \<le> 2 ^ 64"
  shows "kvm_read_guest lib m gpa len = read_bytes lib m gpa len"
  by (rule read_guest_bytes [OF assms])

theorem guest_read_reference_witness:
  "kvm_read_guest example_lib initial_mem 0xFFE 4 = read_bytes example_lib initial_mem 0xFFE 4"
  by (rule guest_read_reference [OF example_user_ok]) simp

text \<open>Clearing a range is writing zeros to it.\<close>

lemma clear_loop:
  "clear_guest_loop lib gfn off len m = write_guest_loop lib gfn (replicate len 0) off m"
proof (induction len arbitrary: gfn off m rule: less_induct)
  case (less len)
  let ?seg = "next_segment len off"
  show ?case
  proof (cases "?seg = 0")
    case True
    then show ?thesis by (subst clear_guest_loop.simps, subst write_guest_loop.simps) simp
  next
    case False
    have s: "?seg \<le> len" by (rule next_segment_le)
    then have lt: "len - ?seg < len" using False by simp
    obtain x m1 where w: "kvm_write_guest_page lib gfn (replicate ?seg 0) off m = (x, m1)" by fastforce
    show ?thesis
      using w by (subst clear_guest_loop.simps, subst write_guest_loop.simps)
        (simp add: Let_def min_absorb1 [OF s] kvm_clear_guest_page_def less.IH [OF lt])
  qed
qed

lemma clear_is_write: "kvm_clear_guest lib gpa len m = kvm_write_guest lib gpa (replicate len 0) m"
  by (simp add: kvm_clear_guest_def kvm_write_guest_def clear_loop)

lemma write_guest_bytes:
  assumes "user_lib_ok lib" "unat gpa + length bs \<le> 2 ^ 64"
  obtains m' where "kvm_write_guest lib gpa bs m =
      (if \<forall>i<length bs. can_write lib m (gpa + of_nat i) then (0, write_bytes lib gpa bs m) else (- EFAULT, m'))"
    "memslots m' = memslots m"
  using write_loop [OF assms, of m] unfolding kvm_write_guest_def by blast

text \<open>C16: Writing a range of guest memory succeeds exactly if every byte can be translated and written, and
  then has the effect of storing byte after byte and marking the page of each; clearing a range is
  writing zeros.\<close>

theorem guest_write_reference:
  assumes "user_lib_ok lib" "unat gpa + length bs \<le> 2 ^ 64"
  shows "(if \<forall>i<length bs. can_write lib m (gpa + of_nat i)
          then kvm_write_guest lib gpa bs m = (0, write_bytes lib gpa bs m)
          else fst (kvm_write_guest lib gpa bs m) = - EFAULT)
    \<and> kvm_clear_guest lib gpa len m = kvm_write_guest lib gpa (replicate len 0) m"
  by (rule write_guest_bytes [OF assms, of m]) (simp add: clear_is_write)

theorem guest_write_reference_witness:
  "fst (kvm_write_guest example_lib 0xFFF [1, 2, 3] initial_mem) \<in> {0, - EFAULT}"
  using guest_write_reference [OF example_user_ok, where gpa = "0xFFF" and bs = "[1, 2, 3]" and m = initial_mem, THEN conjunct1]
  by (auto split: if_split_asm)

text \<open>What was written is read back, if no two bytes of the range share a user address.\<close>

lemma write_bytes_other:
  assumes "a \<notin> (\<lambda>i. the (byte_addr lib m True (gpa + of_nat i))) ` {..<length bs}"
  shows "user_mem (write_bytes lib gpa bs m) a = user_mem m a"
  using assms
proof (induction bs arbitrary: gpa m)
  case (Cons b bs)
  let ?m = "mark_page_dirty lib (drop_bit 12 gpa) (m\<lparr>user_mem := (user_mem m)(the (byte_addr lib m True gpa) := b)\<rparr>)"
  have "byte_addr lib ?m True g = byte_addr lib m True g" for g by (rule byte_addr_cong) simp
  moreover have "a \<noteq> the (byte_addr lib m True (gpa + 1 + of_nat i))" if "i < length bs" for i
  proof
    assume "a = the (byte_addr lib m True (gpa + 1 + of_nat i))"
    then have "a = the (byte_addr lib m True (gpa + of_nat (Suc i)))" by (simp add: add.assoc)
    then show False using Cons.prems that by (auto simp: image_iff) (metis Suc_less_eq lessThan_iff of_nat_Suc)
  qed
  ultimately have "user_mem (write_bytes lib (gpa + 1) bs ?m) a = user_mem ?m a"
    by (intro Cons.IH) auto
  moreover have "a \<noteq> the (byte_addr lib m True gpa)" using Cons.prems by (force simp: image_iff)
  ultimately show ?case by simp
qed simp

lemma write_bytes_at:
  assumes "inj_on (\<lambda>i. the (byte_addr lib m True (gpa + of_nat i))) {..<length bs}" "i < length bs"
  shows "user_mem (write_bytes lib gpa bs m) (the (byte_addr lib m True (gpa + of_nat i))) = bs ! i"
  using assms
proof (induction bs arbitrary: gpa m i)
  case (Cons b bs)
  let ?m = "mark_page_dirty lib (drop_bit 12 gpa) (m\<lparr>user_mem := (user_mem m)(the (byte_addr lib m True gpa) := b)\<rparr>)"
  let ?f = "\<lambda>i. the (byte_addr lib m True (gpa + of_nat i))"
  have ba: "byte_addr lib ?m True g = byte_addr lib m True g" for g by (rule byte_addr_cong) simp
  have sh: "the (byte_addr lib m True (gpa + 1 + of_nat j)) = ?f (Suc j)" for j by (simp add: add.assoc)
  show ?case
  proof (cases i)
    case 0
    have "?f 0 \<noteq> ?f (Suc j)" if "j < length bs" for j
      using inj_onD [OF Cons.prems(1), of 0 "Suc j"] that by auto
    then have "?f 0 \<notin> (\<lambda>i. the (byte_addr lib ?m True (gpa + 1 + of_nat i))) ` {..<length bs}"
      unfolding ba sh by (auto simp: image_iff)
    then have "user_mem (write_bytes lib (gpa + 1) bs ?m) (?f 0) = user_mem ?m (?f 0)" by (rule write_bytes_other)
    then show ?thesis using 0 by simp
  next
    case (Suc j)
    have "inj_on (\<lambda>i. the (byte_addr lib ?m True (gpa + 1 + of_nat i))) {..<length bs}"
      unfolding ba sh
    proof (rule inj_onI)
      fix x y assume "x \<in> {..<length bs}" "y \<in> {..<length bs}" "?f (Suc x) = ?f (Suc y)"
      then show "x = y" using inj_onD [OF Cons.prems(1), of "Suc x" "Suc y"] by simp
    qed
    then have "user_mem (write_bytes lib (gpa + 1) bs ?m) (the (byte_addr lib ?m True (gpa + 1 + of_nat j))) = bs ! j"
      using Cons.IH [of ?m "gpa + 1" j] Cons.prems(2) Suc by simp
    then show ?thesis unfolding ba sh using Suc by simp
  qed
qed simp

text \<open>What a successful write put into guest memory, a successful read of the same range returns, if
  the user addresses of its bytes are distinct (user space may map two slots to the same memory).\<close>

theorem guest_write_read:
  assumes "user_lib_ok lib" "unat gpa + length bs \<le> 2 ^ 64" "kvm_write_guest lib gpa bs m = (0, m')"
    "kvm_read_guest lib m' gpa (length bs) = Inr ds"
    "inj_on (\<lambda>i. the (byte_addr lib m True (gpa + of_nat i))) {..<length bs}"
  shows "ds = bs"
proof -
  obtain m2 where "kvm_write_guest lib gpa bs m = (if \<forall>i<length bs. can_write lib m (gpa + of_nat i)
      then (0, write_bytes lib gpa bs m) else (- EFAULT, m2))"
    by (rule write_guest_bytes [OF assms(1,2), of m])
  then have w: "\<forall>i<length bs. can_write lib m (gpa + of_nat i)" "m' = write_bytes lib gpa bs m"
    using assms(3) by (auto split: if_splits)
  have r: "ds = map (\<lambda>i. byte_at lib m' (gpa + of_nat i)) [0..<length bs]"
    using assms(4) unfolding read_guest_bytes [OF assms(1,2)] read_bytes_def by (auto split: if_splits)
  have "byte_at lib m' (gpa + of_nat i) = bs ! i" if "i < length bs" for i
  proof -
    have "byte_addr lib m True (gpa + of_nat i) \<noteq> None"
      using w(1) that by (auto simp: can_write_def split: option.splits)
    then have "byte_addr lib m False (gpa + of_nat i) = byte_addr lib m True (gpa + of_nat i)"
      using assms(1) unfolding user_lib_ok_def byte_addr_def Let_def gfn_to_hva_many_prot_def
      by (auto split: option.splits if_splits)
    then have "byte_addr lib m' False (gpa + of_nat i) = byte_addr lib m True (gpa + of_nat i)"
      using byte_addr_cong [of m' m lib False] w(2) by simp
    then show ?thesis using write_bytes_at [OF assms(5) that] w(2) by (simp add: byte_at_def)
  qed
  then show ?thesis unfolding r by (intro nth_equalityI) simp_all
qed

text \<open>The first two bytes of the example.\<close>

lemma example_bytes:
  assumes "gfn_to_memslot example_lib m 0 = Some s" "base_gfn s = 0" "userspace_addr s = 0x400000" "mflags s = 1"
  shows "byte_addr example_lib m w 0 = Some 0x400000" "byte_addr example_lib m w 1 = Some 0x400001"
  using assms by (simp_all add: byte_addr_def gfn_to_hva_many_prot_def memslot_is_readonly_def KVM_MEM_READONLY_def
      example_lib_def)

lemma byte_index_2: "(i :: nat) < 2 \<longleftrightarrow> i = 0 \<or> i = 1" by auto

lemma example_write:
  assumes "gfn_to_memslot example_lib m 0 = Some s" "base_gfn s = 0" "userspace_addr s = 0x400000" "mflags s = 1"
  shows "kvm_write_guest example_lib 0 [7, 8] m = (0, write_bytes example_lib 0 [7, 8] m)"
proof -
  have "\<forall>i<length [7, 8 :: u8]. can_write example_lib m (0 + of_nat i)"
    using example_bytes [OF assms] by (simp add: byte_index_2 numeral_2_eq_2 [symmetric] can_write_def example_lib_def)
  then show ?thesis using write_guest_bytes [OF example_user_ok, of 0 "[7, 8]" m] by force
qed

theorem guest_write_read_witness:
  "\<exists>m m'. kvm_write_guest example_lib 0 [7, 8] m = (0, m') \<and> kvm_read_guest example_lib m' 0 2 = Inr [7, 8]"
proof -
  obtain m s where M: "mem_ok example_lib m" "s = entry (memslots m) 0" "base_gfn s = 0" "npages s = 512"
    "userspace_addr s = 0x400000" "mflags s = 1" "dirty_bitmap s \<noteq> 0"
    "\<And>g. unat g < 512 \<Longrightarrow> gfn_to_memslot example_lib m g = Some s"
    by (rule example_mapped, rule that)
  have g: "gfn_to_memslot example_lib m 0 = Some s" using M(8) [of 0] by simp
  let ?m = "write_bytes example_lib 0 [7, 8] m"
  note w = example_write [OF g M(3,5,6)] and b = example_bytes [OF g M(3,5,6)]
  have g': "gfn_to_memslot example_lib ?m 0 = Some s" using g gfn_to_memslot_cong [of ?m m] by simp
  note b' = example_bytes [OF g' M(3,5,6)]
  obtain ds where r: "kvm_read_guest example_lib ?m 0 (length [7, 8 :: u8]) = Inr ds"
  proof -
    have "\<forall>i<length [7, 8 :: u8]. can_read example_lib ?m (0 + of_nat i)"
      using b' by (simp add: byte_index_2 numeral_2_eq_2 [symmetric] can_read_def example_lib_def)
    then have "kvm_read_guest example_lib ?m 0 (length [7, 8 :: u8]) =
        Inr (map (\<lambda>i. byte_at example_lib ?m (0 + of_nat i)) [0..<length [7, 8 :: u8]])"
      using read_guest_bytes [OF example_user_ok, of 0 "length [7, 8 :: u8]" ?m] by (simp add: read_bytes_def)
    then show ?thesis using that by blast
  qed
  have inj: "inj_on (\<lambda>i. the (byte_addr example_lib m True (0 + of_nat i))) {..<length [7, 8 :: u8]}"
    using b by (auto simp: inj_on_def byte_index_2 numeral_2_eq_2 [symmetric])
  have "ds = [7, 8]" by (rule guest_write_read [OF example_user_ok _ w r inj]) simp
  then show ?thesis using w r by (intro exI [of _ m] exI [of _ ?m]) (simp add: numeral_2_eq_2)
qed

subsection \<open>Dirty pages\<close>

text \<open>A successful write marks exactly the pages it touches that belong to a logged slot; no other
  page changes its state.\<close>

theorem guest_writes_logged:
  assumes "mem_lib_ok lib" "user_lib_ok lib" "mem_ok lib m" "unat gpa + length bs \<le> 2 ^ 64"
    "kvm_write_guest lib gpa bs m = (0, m')"
  shows "page_dirty lib m' g \<longleftrightarrow> page_dirty lib m g
    \<or> logged lib m g \<and> (\<exists>i<length bs. g = drop_bit 12 (gpa + of_nat i))"
proof -
  obtain m2 where "kvm_write_guest lib gpa bs m = (if \<forall>i<length bs. can_write lib m (gpa + of_nat i)
      then (0, write_bytes lib gpa bs m) else (- EFAULT, m2))"
    by (rule write_guest_bytes [OF assms(2,4), of m])
  then have "m' = write_bytes lib gpa bs m" using assms(5) by (auto split: if_splits)
  then show ?thesis using write_bytes_logged [OF assms(1,3)] by blast
qed

theorem guest_writes_logged_witness:
  "\<exists>m m'. kvm_write_guest example_lib 0 [7, 8] m = (0, m') \<and> page_dirty example_lib m' 0"
proof -
  obtain m s where M: "mem_ok example_lib m" "s = entry (memslots m) 0" "base_gfn s = 0" "npages s = 512"
    "userspace_addr s = 0x400000" "mflags s = 1" "dirty_bitmap s \<noteq> 0"
    "\<And>g. unat g < 512 \<Longrightarrow> gfn_to_memslot example_lib m g = Some s"
    by (rule example_mapped, rule that)
  have g: "gfn_to_memslot example_lib m 0 = Some s" using M(8) [of 0] by simp
  note w = example_write [OF g M(3,5,6)]
  have "logged example_lib m 0" using g M(7) by (simp add: logged_def)
  then have "page_dirty example_lib (write_bytes example_lib 0 [7, 8] m) 0"
    using guest_writes_logged [OF example_lib_ok example_user_ok M(1) _ w, of 0]
    by (auto intro!: exI [of _ 0])
  then show ?thesis using w by blast
qed

text \<open>C17: Retrieving the log of a slot hands out a word list whose bits are the pages of the slot that are
  dirty, and afterwards no page of the slot is dirty while the others are as before. The bits are
  cleared even when the copy to user space fails and the call reports an error.\<close>

theorem dirty_log_exact:
  assumes lib: "mem_lib_ok lib" and ul: "user_lib_ok lib" and ok: "mem_ok lib m" and k: "k < KVM_USER_MEM_SLOTS"
    and s: "s = entry (memslots m) k" "dirty_bitmap s \<noteq> 0"
  shows "case kvm_vm_ioctl_get_dirty_log lib k buf m of (r, m') \<Rightarrow>
    \<exists>ws. length ws = bitmap_bytes lib (npages s) div 8
      \<and> (r = 0 \<longrightarrow> user_mem m' = put buf (le_bytes ws) (user_mem m)) \<and> r \<in> {0, - EFAULT}
      \<and> (\<forall>g. gfn_to_memslot lib m g = Some s \<longrightarrow>
           (bit (ws ! (unat (g - base_gfn s) div 64)) (unat (g - base_gfn s) mod 64) \<longleftrightarrow> page_dirty lib m g))
      \<and> (\<forall>g. page_dirty lib m' g \<longleftrightarrow> page_dirty lib m g \<and> gfn_to_memslot lib m g \<noteq> Some s)"
proof -
  obtain ws r n where W: "length ws = bitmap_bytes lib (npages s) div 8"
    "take (length ws) (the (heap m (dirty_bitmap s))) = ws"
    "kvm_vm_ioctl_get_dirty_log lib k buf m =
      (r, (log_taken s ws m)\<lparr>user_mem := put buf (take n (le_bytes ws)) (user_mem m)\<rparr>)"
    "r = (if \<forall>i<length (le_bytes ws). writable lib (buf + of_nat i) then 0 else - EFAULT)"
    "r = 0 \<longrightarrow> n = length (le_bytes ws)"
    by (rule get_log_post [OF lib ul ok k s])
  note C = log_taken_clear [OF lib ok k s W(1,2)]
  have "user_mem ((log_taken s ws m)\<lparr>user_mem := put buf (take n (le_bytes ws)) (user_mem m)\<rparr>)
      = put buf (le_bytes ws) (user_mem m)" if "r = 0"
    using W(5) that by simp
  then show ?thesis unfolding W(3) prod.case using W(1,4) C by (intro exI [of _ ws]) simp
qed

theorem dirty_log_exact_witness:
  "\<exists>m. page_dirty example_lib m 0 \<and> \<not> page_dirty example_lib (snd (kvm_vm_ioctl_get_dirty_log example_lib 0 0 m)) 0"
proof -
  obtain m s where M: "mem_ok example_lib m" "s = entry (memslots m) 0" "base_gfn s = 0" "npages s = 512"
    "userspace_addr s = 0x400000" "mflags s = 1" "dirty_bitmap s \<noteq> 0"
    "\<And>g. unat g < 512 \<Longrightarrow> gfn_to_memslot example_lib m g = Some s"
    by (rule example_mapped, rule that)
  have g: "gfn_to_memslot example_lib m 0 = Some s" using M(8) [of 0] by simp
  let ?m = "write_bytes example_lib 0 [7, 8] m"
  have g': "gfn_to_memslot example_lib ?m 0 = Some s" using g gfn_to_memslot_cong [of ?m m] by simp
  have lg: "logged example_lib m 0" using g M(7) by (simp add: logged_def)
  have w: "mem_ok example_lib ?m" "page_dirty example_lib ?m 0"
    using write_bytes_logged [OF example_lib_ok M(1), of 0 "[7, 8]" 0] lg by (auto intro: exI [of _ "0 :: nat"])
  have e: "s = entry (memslots ?m) 0" using M(2) by simp
  have "\<not> page_dirty example_lib (snd (kvm_vm_ioctl_get_dirty_log example_lib 0 0 ?m)) 0"
    using dirty_log_exact [OF example_lib_ok example_user_ok w(1) _ e M(7), of 0] g'
    by (auto simp: KVM_USER_MEM_SLOTS_def split: prod.splits)
  then show ?thesis using w(2) by blast
qed

subsection \<open>The cached translation\<close>

lemma hva_cache_loop_returns:
  assumes lib: "mem_lib_ok lib" and ul: "user_lib_ok lib" and ok: "mem_ok lib m"
  shows "\<exists>r g'. hva_cache_loop lib m start end_gfn g = Some (r, g') \<and> (r = 0 \<longrightarrow> ghc_memslot g' = None)
    \<and> ghc_gpa g' = ghc_gpa g \<and> ghc_len g' = ghc_len g \<and> ghc_generation g' = ghc_generation g"
proof (induction "unat end_gfn + 1 - unat start" arbitrary: start g rule: less_induct)
  case less
  show ?case
  proof (cases "start \<le> end_gfn")
    case False
    then show ?thesis by (subst hva_cache_loop.simps) simp
  next
    case True
    define slot where "slot = gfn_to_memslot lib m start"
    obtain hva avail where h: "gfn_to_hva_many lib slot start = (hva, avail)" by fastforce
    let ?g = "g\<lparr>ghc_memslot := slot, ghc_hva := hva\<rparr>"
    note E = hva_cache_loop.simps [of lib m start end_gfn g, unfolded Let_def slot_def [symmetric] h prod.case]
    show ?thesis
    proof (cases "is_error_hva lib hva")
      case True
      then show ?thesis using \<open>start \<le> end_gfn\<close> by (simp add: E)
    next
      case False
      have bad: "is_error_hva lib (hva_err_bad lib)" "is_error_hva lib (hva_err_ro_bad lib)"
        using ul unfolding user_lib_ok_def by blast+
      obtain s where s: "slot = Some s" "avail = Some (npages s - (start - base_gfn s))"
        using h False bad unfolding gfn_to_hva_many_def gfn_to_hva_many_prot_def
        by (auto split: option.splits if_splits)
      note F = found_slot [OF lib ok s(1) [unfolded slot_def]]
      have so: "unat (base_gfn s) + unat (npages s) \<le> 2 ^ 52"
        using ok F(1,2) unfolding mem_ok_def view_ok_def slot_ok_def by metis
      let ?a = "npages s - (start - base_gfn s)"
      have a: "unat ?a = unat (npages s) - unat (start - base_gfn s)"
        using F(3) by (intro unat_sub) (simp add: word_le_nat_alt)
      have "unat (start + ?a) = unat start + unat ?a"
        using F(3,4) so a by (intro unat_sum) linarith
      then have "unat end_gfn + 1 - unat (start + ?a) < unat end_gfn + 1 - unat start"
        using a F(3) True by (simp add: word_le_nat_alt)
      from less.hyps [OF this, of ?g] show ?thesis
        using True False s(2) by (simp add: E)
    qed
  qed
qed

text \<open>Setting up a cached translation returns: the loop over the slots of its range always advances.\<close>

theorem cache_init_returns:
  assumes "mem_lib_ok lib" "user_lib_ok lib" "mem_ok lib m"
  shows "\<exists>r ghc. kvm_gfn_to_hva_cache_init lib m gpa len = Some (r, ghc)"
  unfolding kvm_gfn_to_hva_cache_init_def Let_def
  using hva_cache_loop_returns [OF assms] by (simp, metis)

theorem cache_init_returns_witness:
  "\<exists>r ghc. kvm_gfn_to_hva_cache_init example_lib initial_mem 0xFFF 0x2000 = Some (r, ghc)"
  by (rule cache_init_returns [OF example_lib_ok example_user_ok initial_ok]) simp




end
