(* ===== verification/Async_Pf.thy ===== *)
theory Async_Pf
  imports Prelude "HOL-Library.Multiset"
begin

text \<open>
  The table of guest frames with a pending asynchronous page fault (\<^verbatim>\<open>kvm/x86.c\<close>): an open hash
  table of 64 slots with linear probing, in which the deletion moves later entries back. The
  abstract state is the multiset of its entries.
\<close>

subsection \<open>Operations\<close>

text \<open>A slot number is the value of an expression masked with 63. \<open>hash\<close> is the kernel's
  \<^verbatim>\<open>hash_32\<close> with 6 bits.\<close>

type_synonym slot = "6 word"
type_synonym apf_table = "slot \<Rightarrow> u64"

abbreviation FREE :: u64 where "FREE \<equiv> - 1"

definition kvm_async_pf_hash_reset :: apf_table where
  "kvm_async_pf_hash_reset = (\<lambda>i. FREE)"

definition kvm_async_pf_hash_fn :: "(u32 \<Rightarrow> slot) \<Rightarrow> u64 \<Rightarrow> slot" where
  "kvm_async_pf_hash_fn hash gfn = hash (ucast gfn)"

definition kvm_async_pf_next_probe :: "slot \<Rightarrow> slot" where
  "kvm_async_pf_next_probe key = key + 1"

text \<open>The loop of the insertion has no bound of its own: it does not end when no slot is free.\<close>

partial_function (option) apf_free_slot :: "apf_table \<Rightarrow> slot \<Rightarrow> slot option" where
  "apf_free_slot gfns key =
     (if gfns key \<noteq> FREE then apf_free_slot gfns (kvm_async_pf_next_probe key) else Some key)"

definition kvm_add_async_pf_gfn :: "(u32 \<Rightarrow> slot) \<Rightarrow> u64 \<Rightarrow> apf_table \<Rightarrow> apf_table option" where
  "kvm_add_async_pf_gfn hash gfn gfns =
     (case apf_free_slot gfns (kvm_async_pf_hash_fn hash gfn) of
        None \<Rightarrow> None
      | Some key \<Rightarrow> Some (gfns(key := gfn)))"

text \<open>The search makes at most 64 probes; \<open>n\<close> counts those left.\<close>

fun apf_probe :: "apf_table \<Rightarrow> u64 \<Rightarrow> nat \<Rightarrow> slot \<Rightarrow> slot" where
  "apf_probe gfns gfn 0 key = key"
| "apf_probe gfns gfn (Suc n) key =
     (if gfns key \<noteq> gfn \<and> gfns key \<noteq> FREE
      then apf_probe gfns gfn n (kvm_async_pf_next_probe key) else key)"

definition kvm_async_pf_gfn_slot :: "(u32 \<Rightarrow> slot) \<Rightarrow> u64 \<Rightarrow> apf_table \<Rightarrow> slot" where
  "kvm_async_pf_gfn_slot hash gfn gfns = apf_probe gfns gfn 64 (kvm_async_pf_hash_fn hash gfn)"

definition kvm_find_async_pf_gfn :: "(u32 \<Rightarrow> slot) \<Rightarrow> u64 \<Rightarrow> apf_table \<Rightarrow> bool" where
  "kvm_find_async_pf_gfn hash gfn gfns = (gfns (kvm_async_pf_gfn_slot hash gfn gfns) = gfn)"

text \<open>The loops of the deletion, with the hole at \<open>i\<close> already cleared: \<open>j\<close> looks for an entry that a
  search would no longer find behind the hole, and that entry is moved into it.\<close>

partial_function (option) apf_backshift ::
    "(u32 \<Rightarrow> slot) \<Rightarrow> apf_table \<Rightarrow> slot \<Rightarrow> slot \<Rightarrow> apf_table option" where
  "apf_backshift hash gfns i j0 =
     (let j = kvm_async_pf_next_probe j0
      in if gfns j = FREE then Some gfns
         else
           (let k = kvm_async_pf_hash_fn hash (gfns j)
            in if (if i \<le> j then i < k \<and> k \<le> j else i < k \<or> k \<le> j)
               then apf_backshift hash gfns i j
               else apf_backshift hash (gfns(i := gfns j, j := FREE)) j j))"

definition kvm_del_async_pf_gfn :: "(u32 \<Rightarrow> slot) \<Rightarrow> u64 \<Rightarrow> apf_table \<Rightarrow> apf_table option" where
  "kvm_del_async_pf_gfn hash gfn gfns =
     (let i = kvm_async_pf_gfn_slot hash gfn gfns in apf_backshift hash (gfns(i := FREE)) i i)"

subsection \<open>Cyclic distances\<close>

definition dist :: "slot \<Rightarrow> slot \<Rightarrow> nat" where
  "dist a b = unat (b - a)"

lemma unat_slot: "unat (a :: slot) < 64"
  using unsigned_less [of a] by simp

lemma dist_nat: "dist a b = (if unat a \<le> unat b then unat b - unat a else 64 + unat b - unat a)"
proof (cases "unat a \<le> unat b")
  case True
  then show ?thesis by (simp add: dist_def unat_sub word_le_nat_alt)
next
  case False
  then show ?thesis using unat_sub_if' [of b a] by (simp add: dist_def)
qed

lemma dist_self [simp]: "dist a a = 0" by (simp add: dist_def)

lemma dist_zero: "dist a b = 0 \<longleftrightarrow> a = b"
  by (simp add: dist_def unat_eq_zero) (auto simp: algebra_simps)

lemma dist_less: "dist a b < 64" by (simp add: dist_def unat_slot)

lemma dist_add: "dist a (a + of_nat n) = n mod 64"
  by (simp add: dist_def unat_of_nat)

lemma dist_reach: "a + of_nat (dist a b) = b"
  by (simp add: dist_def)

lemma dist_next:
  assumes n: "b + 1 \<noteq> a"
  shows "dist a (b + 1) = dist a b + 1"
proof -
  have e: "b + 1 - a = (b - a) + 1" by simp
  have "(b - a) + 1 \<noteq> 0" using n by (metis e right_minus_eq)
  then show ?thesis unfolding dist_def e using unatSuc [of "b - a"] by (simp add: add.commute)
qed

text \<open>\<open>k\<close> lies cyclically in \<open>]i, j]\<close> exactly if the probes from \<open>k\<close> to \<open>j\<close> do not pass \<open>i\<close>.\<close>

lemma in_range_iff:
  assumes "i \<noteq> j"
  shows "(if i \<le> j then i < k \<and> k \<le> j else i < k \<or> k \<le> j) \<longleftrightarrow> \<not> dist k i < dist k j"
  using assms unat_slot [of i] unat_slot [of j] unat_slot [of k]
  unfolding dist_nat word_le_nat_alt word_less_nat_alt word_unat_eq_iff by auto

text \<open>Going from \<open>k\<close> over \<open>i\<close> to \<open>p\<close> passes every slot between \<open>i\<close> and \<open>p\<close>.\<close>

lemma dist_between:
  assumes "dist k i < dist k p" "dist i j < dist i p"
  shows "dist k j < dist k p"
  using assms unat_slot [of i] unat_slot [of j] unat_slot [of k] unat_slot [of p]
  unfolding dist_nat by (auto split: if_splits)

subsection \<open>Searching\<close>

lemma apf_probe_stops:
  "\<exists>m\<le>n. apf_probe g x n k = k + of_nat m \<and> (\<forall>l<m. g (k + of_nat l) \<noteq> x \<and> g (k + of_nat l) \<noteq> FREE)
     \<and> (m = n \<or> g (k + of_nat m) = x \<or> g (k + of_nat m) = FREE)"
proof (induction n arbitrary: k)
  case 0
  show ?case by simp
next
  case (Suc n)
  show ?case
  proof (cases "g k \<noteq> x \<and> g k \<noteq> FREE")
    case True
    obtain m where m: "m \<le> n" "apf_probe g x n (k + 1) = k + 1 + of_nat m"
      "\<forall>l<m. g (k + 1 + of_nat l) \<noteq> x \<and> g (k + 1 + of_nat l) \<noteq> FREE"
      "m = n \<or> g (k + 1 + of_nat m) = x \<or> g (k + 1 + of_nat m) = FREE"
      using Suc.IH [of "k + 1"] by blast
    have "\<forall>l<Suc m. g (k + of_nat l) \<noteq> x \<and> g (k + of_nat l) \<noteq> FREE"
    proof (intro allI impI)
      fix l assume "l < Suc m"
      then show "g (k + of_nat l) \<noteq> x \<and> g (k + of_nat l) \<noteq> FREE"
        using m(3) True by (cases l) (auto simp: add.assoc)
    qed
    then show ?thesis using m True
      by (intro exI [of _ "Suc m"]) (auto simp: kvm_async_pf_next_probe_def add.assoc)
  next
    case False
    then show ?thesis by (intro exI [of _ 0]) auto
  qed
qed

lemma apf_free_slot_stops:
  "g (k + of_nat n) = FREE \<Longrightarrow>
   \<exists>m\<le>n. apf_free_slot g k = Some (k + of_nat m) \<and> g (k + of_nat m) = FREE
     \<and> (\<forall>l<m. g (k + of_nat l) \<noteq> FREE)"
proof (induction n arbitrary: k)
  case 0
  then show ?case by (subst apf_free_slot.simps) simp
next
  case (Suc n)
  show ?case
  proof (cases "g k = FREE")
    case True
    then show ?thesis by (intro exI [of _ 0]) (subst apf_free_slot.simps, simp)
  next
    case False
    obtain m where m: "m \<le> n" "apf_free_slot g (k + 1) = Some (k + 1 + of_nat m)"
      "g (k + 1 + of_nat m) = FREE" "\<forall>l<m. g (k + 1 + of_nat l) \<noteq> FREE"
      using Suc.IH [of "k + 1"] Suc.prems by (auto simp: add.assoc)
    have "\<forall>l<Suc m. g (k + of_nat l) \<noteq> FREE"
    proof (intro allI impI)
      fix l assume "l < Suc m"
      then show "g (k + of_nat l) \<noteq> FREE" using m(4) False by (cases l) (auto simp: add.assoc)
    qed
    then show ?thesis using m False
      by (intro exI [of _ "Suc m"], subst apf_free_slot.simps)
         (auto simp: kvm_async_pf_next_probe_def add.assoc)
  qed
qed

subsection \<open>The invariant and the abstraction\<close>

text \<open>Between the hash of an entry and its slot no slot is free.\<close>

definition apf_ok :: "(u32 \<Rightarrow> slot) \<Rightarrow> apf_table \<Rightarrow> bool" where
  "apf_ok hash g = (\<forall>p q. g p \<noteq> FREE
     \<longrightarrow> dist (kvm_async_pf_hash_fn hash (g p)) q < dist (kvm_async_pf_hash_fn hash (g p)) p \<longrightarrow> g q \<noteq> FREE)"

definition apf_entries :: "apf_table \<Rightarrow> u64 multiset" where
  "apf_entries g = filter_mset (\<lambda>x. x \<noteq> FREE) (image_mset g (mset_set UNIV))"

lemma apf_entries_upd:
  "apf_entries (g(i := v)) =
     apf_entries g - (if g i = FREE then {#} else {#g i#}) + (if v = FREE then {#} else {#v#})"
proof -
  have u: "mset_set UNIV = add_mset i (mset_set (UNIV - {i}))" by (rule mset_set.remove) simp_all
  have "image_mset (g(i := v)) (mset_set (UNIV - {i})) = image_mset g (mset_set (UNIV - {i}))"
    by (rule image_mset_cong) auto
  then show ?thesis unfolding apf_entries_def u by simp
qed

lemma apf_entries_member: "x \<in># apf_entries g \<longleftrightarrow> x \<noteq> FREE \<and> (\<exists>p. g p = x)"
  by (auto simp: apf_entries_def)

subsection \<open>Insertion and search\<close>

lemma dist_lt_index: "dist k q < dist k p \<Longrightarrow> \<exists>l<dist k p. q = k + of_nat l"
  using dist_reach [of k q] by metis

lemma find_iff:
  assumes ok: "apf_ok hash g" and x: "x \<noteq> FREE"
  shows "kvm_find_async_pf_gfn hash x g \<longleftrightarrow> x \<in># apf_entries g"
proof
  assume "kvm_find_async_pf_gfn hash x g"
  then show "x \<in># apf_entries g"
    using x unfolding kvm_find_async_pf_gfn_def apf_entries_member by blast
next
  assume "x \<in># apf_entries g"
  then obtain p where p: "g p = x" using apf_entries_member by blast
  define k where "k = kvm_async_pf_hash_fn hash x"
  have pk: "p = k + of_nat (dist k p)" by (simp add: dist_reach)
  have busy: "g (k + of_nat l) \<noteq> FREE" if "l < dist k p" for l
  proof -
    have "dist k (k + of_nat l) = l" using that dist_less [of k p] by (simp add: dist_add)
    then show ?thesis using ok p x that unfolding apf_ok_def k_def by (metis (no_types))
  qed
  obtain m where m: "m \<le> 64" "apf_probe g x 64 k = k + of_nat m"
    "\<forall>l<m. g (k + of_nat l) \<noteq> x \<and> g (k + of_nat l) \<noteq> FREE"
    "m = 64 \<or> g (k + of_nat m) = x \<or> g (k + of_nat m) = FREE"
    using apf_probe_stops by blast
  have "m \<le> dist k p" using m(3) p pk by (metis not_less)
  then have "g (k + of_nat m) = x"
    using m(4) busy [of m] p pk dist_less [of k p] by (cases "m = dist k p") auto
  then show "kvm_find_async_pf_gfn hash x g"
    unfolding kvm_find_async_pf_gfn_def kvm_async_pf_gfn_slot_def k_def [symmetric] m(2) .
qed

lemma add_post:
  assumes ok: "apf_ok hash g" and x: "x \<noteq> FREE" and f: "g f = FREE"
  shows "\<exists>g'. kvm_add_async_pf_gfn hash x g = Some g' \<and> apf_ok hash g'
    \<and> apf_entries g' = add_mset x (apf_entries g)"
proof -
  define k where "k = kvm_async_pf_hash_fn hash x"
  have "g (k + of_nat (dist k f)) = FREE" using f by (simp add: dist_reach)
  then obtain m where m: "m \<le> dist k f" "apf_free_slot g k = Some (k + of_nat m)"
    "g (k + of_nat m) = FREE" "\<forall>l<m. g (k + of_nat l) \<noteq> FREE"
    using apf_free_slot_stops by blast
  define r where "r = k + (of_nat m :: slot)"
  have dr: "dist k r = m" using m(1) dist_less [of k f] by (simp add: r_def dist_add)
  have "apf_ok hash (g(r := x))"
    unfolding apf_ok_def
  proof (intro allI impI)
    fix p q
    assume p: "(g(r := x)) p \<noteq> FREE"
      and q: "dist (kvm_async_pf_hash_fn hash ((g(r := x)) p)) q
                < dist (kvm_async_pf_hash_fn hash ((g(r := x)) p)) p"
    show "(g(r := x)) q \<noteq> FREE"
    proof (cases "q = r")
      case True
      then show ?thesis using x by simp
    next
      case False
      show ?thesis
      proof (cases "p = r")
        case True
        then have "dist k q < dist k r" using q by (simp add: k_def)
        then obtain l where "l < m" "q = k + of_nat l" using dist_lt_index dr by blast
        then show ?thesis using m(4) False by simp
      next
        case pr: False
        then show ?thesis using ok p q False unfolding apf_ok_def by auto
      qed
    qed
  qed
  moreover have "apf_entries (g(r := x)) = add_mset x (apf_entries g)"
    using x m(3) by (simp add: apf_entries_upd r_def)
  ultimately show ?thesis
    unfolding kvm_add_async_pf_gfn_def k_def [symmetric] m(2) by (simp add: r_def)
qed

subsection \<open>Deletion\<close>

text \<open>While the deletion runs, slot \<open>i\<close> is a hole, and the entries up to \<open>j\<close> are known not to need it.\<close>

definition apf_hole :: "(u32 \<Rightarrow> slot) \<Rightarrow> apf_table \<Rightarrow> slot \<Rightarrow> slot \<Rightarrow> bool" where
  "apf_hole hash g i j = (g i = FREE
     \<and> (\<forall>p q. g p \<noteq> FREE \<longrightarrow> q \<noteq> i
          \<longrightarrow> dist (kvm_async_pf_hash_fn hash (g p)) q < dist (kvm_async_pf_hash_fn hash (g p)) p \<longrightarrow> g q \<noteq> FREE)
     \<and> (\<forall>q. g q \<noteq> FREE \<longrightarrow> dist i q \<le> dist i j
          \<longrightarrow> \<not> dist (kvm_async_pf_hash_fn hash (g q)) i < dist (kvm_async_pf_hash_fn hash (g q)) q))"

lemma hole_filled:
  assumes h: "apf_hole hash g i j" and e: "g (j + 1) = FREE"
  shows "apf_ok hash g"
  unfolding apf_ok_def
proof (intro allI impI)
  fix p q
  assume p: "g p \<noteq> FREE"
    and q: "dist (kvm_async_pf_hash_fn hash (g p)) q < dist (kvm_async_pf_hash_fn hash (g p)) p"
  show "g q \<noteq> FREE"
  proof (cases "q = i")
    case False
    then show ?thesis using h p q unfolding apf_hole_def by blast
  next
    case True
    have far: "dist i j < dist i p" using h p q True unfolding apf_hole_def by (meson not_less)
    have ne: "j + 1 \<noteq> i"
    proof
      assume "j + 1 = i"
      then have "dist i j = 63" by (auto simp: dist_def unsigned_minus_1_eq_mask mask_eq_exp_minus_1)
      then show False using far dist_less [of i p] by simp
    qed
    have "dist i (j + 1) \<le> dist i p" using far dist_next [OF ne] by simp
    moreover have "j + 1 \<noteq> p" using e p by auto
    ultimately have "dist i (j + 1) < dist i p" by (metis dist_reach le_neq_implies_less)
    then have "dist (kvm_async_pf_hash_fn hash (g p)) (j + 1) < dist (kvm_async_pf_hash_fn hash (g p)) p"
      using dist_between q True by blast
    then show ?thesis using h p ne e unfolding apf_hole_def by blast
  qed
qed

lemma hole_kept:
  assumes h: "apf_hole hash g i j" and ne: "j + 1 \<noteq> i"
    and k: "\<not> dist (kvm_async_pf_hash_fn hash (g (j + 1))) i < dist (kvm_async_pf_hash_fn hash (g (j + 1))) (j + 1)"
  shows "apf_hole hash g i (j + 1)"
proof -
  have "\<not> dist (kvm_async_pf_hash_fn hash (g q)) i < dist (kvm_async_pf_hash_fn hash (g q)) q"
    if "g q \<noteq> FREE" "dist i q \<le> dist i (j + 1)" for q
  proof (cases "q = j + 1")
    case True
    then show ?thesis using k by simp
  next
    case False
    then have "dist i q \<noteq> dist i (j + 1)" by (metis dist_reach)
    then have "dist i q \<le> dist i j" using that(2) dist_next [OF ne] by simp
    then show ?thesis using h that(1) unfolding apf_hole_def by blast
  qed
  then show ?thesis using h unfolding apf_hole_def by blast
qed

lemma hole_moved:
  assumes h: "apf_hole hash g i j" and b: "g b \<noteq> FREE"
    and k: "dist (kvm_async_pf_hash_fn hash (g b)) i < dist (kvm_async_pf_hash_fn hash (g b)) b"
  shows "apf_hole hash (g(i := g b, b := FREE)) b b"
proof -
  let ?g = "g(i := g b, b := FREE)"
  have ib: "i \<noteq> b" using h b unfolding apf_hole_def by auto
  have "?g q \<noteq> FREE" if "?g p \<noteq> FREE" "q \<noteq> b"
    "dist (kvm_async_pf_hash_fn hash (?g p)) q < dist (kvm_async_pf_hash_fn hash (?g p)) p" for p q
  proof (cases "q = i")
    case True
    then show ?thesis using b ib by simp
  next
    case False
    show ?thesis
    proof (cases "p = i")
      case True
      then have "dist (kvm_async_pf_hash_fn hash (g b)) q < dist (kvm_async_pf_hash_fn hash (g b)) b"
        using that(3) k ib by simp
      then show ?thesis using h b False that(2) unfolding apf_hole_def by simp
    next
      case pi: False
      have "p \<noteq> b" using that(1) by (simp split: if_splits)
      moreover have "g p \<noteq> FREE" using that(1) pi by (simp split: if_splits)
      ultimately have "p \<noteq> b" "g p \<noteq> FREE" by simp_all
      then show ?thesis using h pi that False unfolding apf_hole_def by simp
    qed
  qed
  moreover have "?g q = FREE" if "dist b q \<le> dist b b" for q
    using that dist_zero [of b q] by simp
  ultimately show ?thesis unfolding apf_hole_def by (simp only: fun_upd_same) blast
qed

text \<open>Each move shortens the way of an entry from its hash to its slot.\<close>

definition apf_weight :: "(u32 \<Rightarrow> slot) \<Rightarrow> apf_table \<Rightarrow> nat" where
  "apf_weight hash g =
     (\<Sum>p\<in>UNIV. if g p = FREE then 0 else dist (kvm_async_pf_hash_fn hash (g p)) p)"

lemma weight_moved:
  assumes i: "g i = FREE" and b: "g b \<noteq> FREE"
    and k: "dist (kvm_async_pf_hash_fn hash (g b)) i < dist (kvm_async_pf_hash_fn hash (g b)) b"
  shows "apf_weight hash (g(i := g b, b := FREE)) < apf_weight hash g"
proof -
  let ?w = "\<lambda>g p. if g p = FREE then 0 else dist (kvm_async_pf_hash_fn hash (g p)) p"
  let ?g = "g(i := g b, b := FREE)"
  have ib: "i \<noteq> b" using i b by auto
  have split: "(\<Sum>p\<in>UNIV. f p) = f i + f b + (\<Sum>p\<in>UNIV - {i} - {b}. f p)" for f :: "slot \<Rightarrow> nat"
    using sum.remove [of UNIV i f] sum.remove [of "UNIV - {i}" b f] ib by simp
  have "(\<Sum>p\<in>UNIV - {i} - {b}. ?w ?g p) = (\<Sum>p\<in>UNIV - {i} - {b}. ?w g p)"
    by (rule sum.cong) auto
  then show ?thesis
    unfolding apf_weight_def split [of "?w ?g"] split [of "?w g"] using ib i b k by simp
qed

lemma backshift_post:
  "apf_hole hash g i j \<Longrightarrow>
   \<exists>g'. apf_backshift hash g i j = Some g' \<and> apf_ok hash g' \<and> apf_entries g' = apf_entries g"
proof (induction "64 * apf_weight hash g + (63 - dist i j)" arbitrary: g i j rule: less_induct)
  case less
  let ?b = "j + 1"
  let ?k = "kvm_async_pf_hash_fn hash (g ?b)"
  note step = apf_backshift.simps [of hash g i j, unfolded kvm_async_pf_next_probe_def Let_def]
  show ?case
  proof (cases "g ?b = FREE")
    case True
    then show ?thesis using hole_filled [OF less.prems] step by simp
  next
    case b: False
    then have ne: "?b \<noteq> i" using less.prems unfolding apf_hole_def by auto
    show ?thesis
    proof (cases "dist ?k i < dist ?k ?b")
      case True
      let ?g = "g(i := g ?b, ?b := FREE)"
      have i: "g i = FREE" using less.prems unfolding apf_hole_def by simp
      have "apf_weight hash ?g < apf_weight hash g" by (rule weight_moved [OF i b True])
      then have "64 * apf_weight hash ?g + (63 - dist ?b ?b) < 64 * apf_weight hash g + (63 - dist i j)"
        by simp
      from less.hyps [OF this hole_moved [OF less.prems b True]]
      obtain g' where g': "apf_backshift hash ?g ?b ?b = Some g'" "apf_ok hash g'" "apf_entries g' = apf_entries ?g"
        by blast
      have "apf_entries ?g = apf_entries g"
        using i b ne by (simp add: apf_entries_upd apf_entries_member)
      then show ?thesis using g' step b True in_range_iff [OF ne [symmetric], of ?k] by auto
    next
      case False
      have "dist i j < 63" using dist_next [OF ne] dist_less [of i ?b] by simp
      then have "64 * apf_weight hash g + (63 - dist i ?b) < 64 * apf_weight hash g + (63 - dist i j)"
        using dist_next [OF ne] by simp
      from less.hyps [OF this hole_kept [OF less.prems ne False]]
      show ?thesis using step b False in_range_iff [OF ne [symmetric], of ?k] by auto
    qed
  qed
qed

lemma hole_made:
  assumes ok: "apf_ok hash g"
  shows "apf_hole hash (g(i := FREE)) i i"
  using ok unfolding apf_hole_def apf_ok_def by (auto simp: dist_zero)

lemma del_post:
  assumes ok: "apf_ok hash g" and x: "x \<in># apf_entries g"
  shows "\<exists>g'. kvm_del_async_pf_gfn hash x g = Some g' \<and> apf_ok hash g' \<and> apf_entries g' = apf_entries g - {#x#}"
proof -
  have x0: "x \<noteq> FREE" using x by (simp add: apf_entries_member)
  have "g (kvm_async_pf_gfn_slot hash x g) = x"
    using find_iff [OF ok x0] x by (simp add: kvm_find_async_pf_gfn_def)
  then show ?thesis
    using backshift_post [OF hole_made [OF ok], of "kvm_async_pf_gfn_slot hash x g"] x0
    by (simp add: kvm_del_async_pf_gfn_def Let_def apf_entries_upd)
qed

subsection \<open>The interface: a multiset of bounded size\<close>

text \<open>What the callers rely on, for the traces of additions and deletions they make.\<close>

datatype 'k table_op = Add 'k | Del 'k

fun run_table :: "('k \<Rightarrow> 't \<Rightarrow> 't option) \<Rightarrow> ('k \<Rightarrow> 't \<Rightarrow> 't option) \<Rightarrow> 'k table_op list \<Rightarrow> 't \<Rightarrow> 't option" where
  "run_table add del [] t = Some t"
| "run_table add del (Add x # ops) t =
     (case add x t of None \<Rightarrow> None | Some t' \<Rightarrow> run_table add del ops t')"
| "run_table add del (Del x # ops) t =
     (case del x t of None \<Rightarrow> None | Some t' \<Rightarrow> run_table add del ops t')"

text \<open>The same trace on multisets; None when it adds to a full one or deletes what is not there.\<close>

fun run_mset :: "nat \<Rightarrow> 'k table_op list \<Rightarrow> 'k multiset \<Rightarrow> 'k multiset option" where
  "run_mset cap [] M = Some M"
| "run_mset cap (Add x # ops) M =
     (if size M < cap then run_mset cap ops (add_mset x M) else None)"
| "run_mset cap (Del x # ops) M =
     (if x \<in># M then run_mset cap ops (M - {#x#}) else None)"

definition ops_of :: "('k \<Rightarrow> bool) \<Rightarrow> 'k table_op list \<Rightarrow> bool" where
  "ops_of valid ops = (\<forall>x. Add x \<in> set ops \<longrightarrow> valid x)"

lemma ops_of_simps [simp]:
  "ops_of valid []" "ops_of valid (Add x # ops) \<longleftrightarrow> valid x \<and> ops_of valid ops"
  "ops_of valid (Del x # ops) \<longleftrightarrow> ops_of valid ops"
  by (auto simp: ops_of_def)

locale bounded_multiset =
  fixes add del :: "'k \<Rightarrow> 't \<Rightarrow> 't option"
    and find :: "'k \<Rightarrow> 't \<Rightarrow> bool"
    and entries :: "'t \<Rightarrow> 'k multiset"
    and ok :: "'t \<Rightarrow> bool"
    and valid :: "'k \<Rightarrow> bool"
    and cap :: nat
  assumes add_law: "ok t \<Longrightarrow> valid x \<Longrightarrow> size (entries t) < cap
      \<Longrightarrow> \<exists>t'. add x t = Some t' \<and> ok t' \<and> entries t' = add_mset x (entries t)"
    and del_law: "ok t \<Longrightarrow> x \<in># entries t
      \<Longrightarrow> \<exists>t'. del x t = Some t' \<and> ok t' \<and> entries t' = entries t - {#x#}"
    and find_law: "ok t \<Longrightarrow> valid x \<Longrightarrow> find x t \<longleftrightarrow> x \<in># entries t"
begin

lemma run_refines:
  "ok t \<Longrightarrow> ops_of valid ops \<Longrightarrow> run_mset cap ops (entries t) = Some M
   \<Longrightarrow> \<exists>t'. run_table add del ops t = Some t' \<and> ok t' \<and> entries t' = M"
proof (induction ops arbitrary: t)
  case Nil
  then show ?case by simp
next
  case (Cons op ops)
  show ?case
  proof (cases op)
    case (Add x)
    then have v: "valid x" "size (entries t) < cap" "run_mset cap ops (add_mset x (entries t)) = Some M"
      "ops_of valid ops"
      using Cons.prems by (auto split: if_splits)
    obtain t' where t': "add x t = Some t'" "ok t'" "entries t' = add_mset x (entries t)"
      using add_law [OF Cons.prems(1) v(1,2)] by blast
    show ?thesis using Cons.IH [of t'] t' v Add by simp
  next
    case (Del x)
    then have v: "x \<in># entries t" "run_mset cap ops (entries t - {#x#}) = Some M" "ops_of valid ops"
      using Cons.prems by (auto split: if_splits)
    obtain t' where t': "del x t = Some t'" "ok t'" "entries t' = entries t - {#x#}"
      using del_law [OF Cons.prems(1) v(1)] by blast
    show ?thesis using Cons.IH [of t'] t' v Del by simp
  qed
qed

lemma run_finds:
  assumes "ok t" "ops_of valid ops" "run_mset cap ops (entries t) = Some M"
  shows "\<exists>t'. run_table add del ops t = Some t' \<and> entries t' = M \<and> (\<forall>x. valid x \<longrightarrow> (find x t' \<longleftrightarrow> x \<in># M))"
  using run_refines [OF assms] find_law by metis

end

lemma apf_room:
  assumes "size (apf_entries g) < 64"
  obtains f where "g f = FREE"
proof -
  have "\<exists>f. g f = FREE"
  proof (rule ccontr)
    assume "\<nexists>f. g f = FREE"
    then have "apf_entries g = image_mset g (mset_set UNIV)" by (simp add: apf_entries_def filter_mset_eq_conv)
    then have "size (apf_entries g) = card (UNIV :: slot set)" by simp
    also have "\<dots> = 64" by (simp add: card_word)
    finally show False using assms by simp
  qed
  then show ?thesis using that by blast
qed

interpretation apf: bounded_multiset "kvm_add_async_pf_gfn hash" "kvm_del_async_pf_gfn hash"
    "kvm_find_async_pf_gfn hash" apf_entries "apf_ok hash" "\<lambda>x. x \<noteq> FREE" 64
  for hash
proof unfold_locales
  fix t x
  assume *: "apf_ok hash t" "x \<noteq> FREE" and room: "size (apf_entries t) < 64"
  show "\<exists>t'. kvm_add_async_pf_gfn hash x t = Some t' \<and> apf_ok hash t'
      \<and> apf_entries t' = add_mset x (apf_entries t)"
    by (rule apf_room [OF room]) (rule add_post [OF *])
qed (simp_all add: del_post find_iff)

lemma apf_ok_reset: "apf_ok hash kvm_async_pf_hash_reset"
  unfolding apf_ok_def kvm_async_pf_hash_reset_def by blast

lemma apf_entries_reset: "apf_entries kvm_async_pf_hash_reset = {#}"
proof -
  have "x \<notin># apf_entries kvm_async_pf_hash_reset" for x
    unfolding apf_entries_member kvm_async_pf_hash_reset_def by blast
  then show ?thesis by (metis multiset_nonemptyE)
qed

lemma apf_free_slot_free: "apf_free_slot g k = Some r \<Longrightarrow> g r = FREE"
  by (rule apf_free_slot.raw_induct [where P = "\<lambda>g k r. g r = FREE"]) (auto split: if_splits)

subsection \<open>Properties\<close>

text \<open>C12: The table of pending frames is a multiset of at most 64 frames: after any trace of
  additions and deletions that never adds to a full table and only deletes what is pending, every
  operation has returned, the entries are those of the trace, and a search finds exactly them.\<close>

theorem apf_table_refines:
  assumes "ops_of (\<lambda>x. x \<noteq> FREE) ops" "run_mset 64 ops {#} = Some M"
  shows "\<exists>t. run_table (kvm_add_async_pf_gfn hash) (kvm_del_async_pf_gfn hash) ops kvm_async_pf_hash_reset = Some t
    \<and> apf_entries t = M \<and> (\<forall>x. x \<noteq> FREE \<longrightarrow> (kvm_find_async_pf_gfn hash x t \<longleftrightarrow> x \<in># M))"
  using apf.run_finds [OF apf_ok_reset assms(1)] assms(2) by (simp add: apf_entries_reset)

theorem apf_table_refines_witness:
  "\<exists>t. run_table (kvm_add_async_pf_gfn (\<lambda>x. ucast x)) (kvm_del_async_pf_gfn (\<lambda>x. ucast x))
      [Add 5, Add 69, Del 5] kvm_async_pf_hash_reset = Some t
    \<and> kvm_find_async_pf_gfn (\<lambda>x. ucast x) 69 t \<and> \<not> kvm_find_async_pf_gfn (\<lambda>x. ucast x) 5 t"
  using apf_table_refines [of "[Add 5, Add 69, Del 5]" "{#69#}" "\<lambda>x. ucast x"] by force

text \<open>An addition returns exactly when a slot is free: on a full table its loop does not end.\<close>

theorem apf_add_returns:
  "kvm_add_async_pf_gfn hash x g \<noteq> None \<longleftrightarrow> (\<exists>f. g f = FREE)"
proof -
  let ?k = "kvm_async_pf_hash_fn hash x"
  have "apf_free_slot g ?k \<noteq> None" if "g f = FREE" for f
    using apf_free_slot_stops [of g ?k "dist ?k f"] that by (auto simp: dist_reach)
  then show ?thesis
    unfolding kvm_add_async_pf_gfn_def by (auto split: option.splits dest: apf_free_slot_free)
qed

end
