(* ===== verification/Io_Bus.thy ===== *)
theory Io_Bus
  imports Prelude
begin

text \<open>
  The buses of devices inside the kernel (\<^verbatim>\<open>kvm/kvm_main.c\<close>): a sorted table of address
  ranges per bus, replaced as a whole when a device is registered or unregistered, and the dispatch of an
  access to the devices whose range contains it. A device is a number (its pointer); \<open>'s\<close> is the
  state of all devices.
\<close>

subsection \<open>Data\<close>

text \<open>The length is a signed C integer, kept in its 32 bits. A bus holds \<open>dev_count\<close> ranges at the
  front of its array.\<close>

record kvm_io_range =
  range_addr :: u64
  range_len :: u32
  range_dev :: nat

record kvm_io_bus =
  dev_count :: nat
  ioeventfd_count :: nat
  bus_range :: "kvm_io_range list"

text \<open>The buses of a VM by number, and the blocks of memory that hold a bus by address; 0 is NULL.\<close>

record kvm_buses =
  buses :: "nat \<Rightarrow> nat"
  bus_heap :: "nat \<Rightarrow> kvm_io_bus option"

type_synonym range_cmp = "kvm_io_range \<Rightarrow> kvm_io_range \<Rightarrow> int"

text \<open>What the code takes from the kernel: \<^verbatim>\<open>sort\<close> and \<^verbatim>\<open>bsearch\<close> (the position of a
  match), the callbacks of a device, which return 0 when they handled the access, the allocator, and
  the limit \<^verbatim>\<open>NR_IOBUS_DEVS\<close>.\<close>

record 's bus_lib =
  sort_ranges :: "range_cmp \<Rightarrow> kvm_io_range list \<Rightarrow> kvm_io_range list"
  bsearch :: "range_cmp \<Rightarrow> kvm_io_range \<Rightarrow> kvm_io_range list \<Rightarrow> nat option"
  iodev_write :: "nat \<Rightarrow> u64 \<Rightarrow> u32 \<Rightarrow> u8 list \<Rightarrow> 's \<Rightarrow> int \<times> 's"
  iodev_read :: "nat \<Rightarrow> u64 \<Rightarrow> u32 \<Rightarrow> u8 list \<Rightarrow> 's \<Rightarrow> int \<times> u8 list \<times> 's"
  iodev_destructor :: "nat \<Rightarrow> 's \<Rightarrow> 's"
  alloc_bus :: "(nat \<Rightarrow> kvm_io_bus option) \<Rightarrow> nat option"
  nr_iobus_devs :: int

definition KVM_MMIO_BUS :: nat where "KVM_MMIO_BUS = 0"
definition KVM_PIO_BUS :: nat where "KVM_PIO_BUS = 1"

subsection \<open>Order and search\<close>

definition kvm_io_bus_cmp :: range_cmp where
  "kvm_io_bus_cmp r1 r2 =
     (let addr1 = range_addr r1; addr2 = range_addr r2
      in if addr1 < addr2 then -1
         else let addr1' = (if range_len r2 \<noteq> 0 then addr1 + scast (range_len r1) else addr1);
                  addr2' = (if range_len r2 \<noteq> 0 then addr2 + scast (range_len r2) else addr2)
              in if addr1' > addr2' then 1 else 0)"

definition kvm_io_bus_sort_cmp :: range_cmp where
  "kvm_io_bus_sort_cmp p1 p2 = kvm_io_bus_cmp p1 p2"

definition kvm_io_bus_insert_dev :: "'s bus_lib \<Rightarrow> kvm_io_bus \<Rightarrow> nat \<Rightarrow> u64 \<Rightarrow> u32 \<Rightarrow> int \<times> kvm_io_bus" where
  "kvm_io_bus_insert_dev L bus dev addr len =
     (let xs = (bus_range bus)[dev_count bus := \<lparr>range_addr = addr, range_len = len, range_dev = dev\<rparr>];
          n = dev_count bus + 1
      in (0, bus\<lparr>dev_count := n,
             bus_range := sort_ranges L kvm_io_bus_sort_cmp (take n xs) @ drop n xs\<rparr>))"

text \<open>The search may hit any of the matching ranges; the loop goes back to the first one. The result is
  \<^verbatim>\<open>-ENOENT\<close> or the position.\<close>

primrec step_back :: "kvm_io_range \<Rightarrow> kvm_io_range list \<Rightarrow> nat \<Rightarrow> nat" where
  "step_back key xs 0 = 0"
| "step_back key xs (Suc off) = (if kvm_io_bus_cmp key (xs ! off) = 0 then step_back key xs off else Suc off)"

definition kvm_io_bus_get_first_dev :: "'s bus_lib \<Rightarrow> kvm_io_bus \<Rightarrow> u64 \<Rightarrow> u32 \<Rightarrow> int" where
  "kvm_io_bus_get_first_dev L bus addr len =
     (let key = \<lparr>range_addr = addr, range_len = len, range_dev = 0\<rparr>
      in case bsearch L kvm_io_bus_sort_cmp key (take (dev_count bus) (bus_range bus)) of
           None \<Rightarrow> -2
         | Some off \<Rightarrow> int (step_back key (bus_range bus) off))"

subsection \<open>Dispatch\<close>

function write_devs ::
    "'s bus_lib \<Rightarrow> kvm_io_bus \<Rightarrow> kvm_io_range \<Rightarrow> u8 list \<Rightarrow> nat \<Rightarrow> 's \<Rightarrow> int \<times> 's" where
  "write_devs L bus rng val idx s =
     (if idx < dev_count bus \<and> kvm_io_bus_cmp rng (bus_range bus ! idx) = 0 then
        (let (r, s1) = iodev_write L (range_dev (bus_range bus ! idx)) (range_addr rng) (range_len rng) val s
         in if r = 0 then (int idx, s1) else write_devs L bus rng val (idx + 1) s1)
      else (-95, s))"
  by pat_completeness auto
termination by (relation "measure (\<lambda>(L, bus, rng, val, idx, s). dev_count bus - idx)") auto

definition kvm_io_bus_write_range ::
    "'s bus_lib \<Rightarrow> kvm_io_bus \<Rightarrow> kvm_io_range \<Rightarrow> u8 list \<Rightarrow> 's \<Rightarrow> int \<times> 's" where
  "kvm_io_bus_write_range L bus rng val s =
     (let idx = kvm_io_bus_get_first_dev L bus (range_addr rng) (range_len rng)
      in if idx < 0 then (-95, s) else write_devs L bus rng val (nat idx) s)"

definition deref_bus :: "kvm_buses \<Rightarrow> nat \<Rightarrow> kvm_io_bus option" where
  "deref_bus k bus_idx = (if buses k bus_idx = 0 then None else bus_heap k (buses k bus_idx))"

definition kvm_io_bus_write ::
    "'s bus_lib \<Rightarrow> kvm_buses \<Rightarrow> nat \<Rightarrow> u64 \<Rightarrow> u32 \<Rightarrow> u8 list \<Rightarrow> 's \<Rightarrow> (int \<times> 's) option" where
  "kvm_io_bus_write L k bus_idx addr len val s = do {
     bus \<leftarrow> deref_bus k bus_idx;
     let (r, s1) = kvm_io_bus_write_range L bus \<lparr>range_addr = addr, range_len = len, range_dev = 0\<rparr> val s;
     Some (if r < 0 then r else 0, s1) }"

definition kvm_io_bus_write_cookie ::
    "'s bus_lib \<Rightarrow> kvm_buses \<Rightarrow> nat \<Rightarrow> u64 \<Rightarrow> u32 \<Rightarrow> u8 list \<Rightarrow> int \<Rightarrow> 's \<Rightarrow> (int \<times> 's) option" where
  "kvm_io_bus_write_cookie L k bus_idx addr len val cookie s = do {
     bus \<leftarrow> deref_bus k bus_idx;
     let rng = \<lparr>range_addr = addr, range_len = len, range_dev = 0\<rparr>;
     if 0 \<le> cookie \<and> cookie < int (dev_count bus) \<and> kvm_io_bus_cmp rng (bus_range bus ! nat cookie) = 0 then
       (let (r, s1) = iodev_write L (range_dev (bus_range bus ! nat cookie)) addr len val s
        in if r = 0 then Some (cookie, s1) else Some (kvm_io_bus_write_range L bus rng val s1))
     else Some (kvm_io_bus_write_range L bus rng val s) }"

text \<open>A device that does not handle a read may have written into the buffer.\<close>

function read_devs ::
    "'s bus_lib \<Rightarrow> kvm_io_bus \<Rightarrow> kvm_io_range \<Rightarrow> u8 list \<Rightarrow> nat \<Rightarrow> 's \<Rightarrow> int \<times> u8 list \<times> 's" where
  "read_devs L bus rng val idx s =
     (if idx < dev_count bus \<and> kvm_io_bus_cmp rng (bus_range bus ! idx) = 0 then
        (let (r, val1, s1) = iodev_read L (range_dev (bus_range bus ! idx)) (range_addr rng) (range_len rng) val s
         in if r = 0 then (int idx, val1, s1) else read_devs L bus rng val1 (idx + 1) s1)
      else (-95, val, s))"
  by pat_completeness auto
termination by (relation "measure (\<lambda>(L, bus, rng, val, idx, s). dev_count bus - idx)") auto

definition kvm_io_bus_read_range ::
    "'s bus_lib \<Rightarrow> kvm_io_bus \<Rightarrow> kvm_io_range \<Rightarrow> u8 list \<Rightarrow> 's \<Rightarrow> int \<times> u8 list \<times> 's" where
  "kvm_io_bus_read_range L bus rng val s =
     (let idx = kvm_io_bus_get_first_dev L bus (range_addr rng) (range_len rng)
      in if idx < 0 then (-95, val, s) else read_devs L bus rng val (nat idx) s)"

definition kvm_io_bus_read ::
    "'s bus_lib \<Rightarrow> kvm_buses \<Rightarrow> nat \<Rightarrow> u64 \<Rightarrow> u32 \<Rightarrow> u8 list \<Rightarrow> 's \<Rightarrow> (int \<times> u8 list \<times> 's) option" where
  "kvm_io_bus_read L k bus_idx addr len val s = do {
     bus \<leftarrow> deref_bus k bus_idx;
     let (r, val1, s1) = kvm_io_bus_read_range L bus \<lparr>range_addr = addr, range_len = len, range_dev = 0\<rparr> val s;
     Some (if r < 0 then r else 0, val1, s1) }"

definition kvm_io_bus_read_cookie ::
    "'s bus_lib \<Rightarrow> kvm_buses \<Rightarrow> nat \<Rightarrow> u64 \<Rightarrow> u32 \<Rightarrow> u8 list \<Rightarrow> int \<Rightarrow> 's \<Rightarrow> (int \<times> u8 list \<times> 's) option" where
  "kvm_io_bus_read_cookie L k bus_idx addr len val cookie s = do {
     bus \<leftarrow> deref_bus k bus_idx;
     let rng = \<lparr>range_addr = addr, range_len = len, range_dev = 0\<rparr>;
     if 0 \<le> cookie \<and> cookie < int (dev_count bus) \<and> kvm_io_bus_cmp rng (bus_range bus ! nat cookie) = 0 then
       (let (r, val1, s1) = iodev_read L (range_dev (bus_range bus ! nat cookie)) addr len val s
        in if r = 0 then Some (cookie, val1, s1) else Some (kvm_io_bus_read_range L bus rng val1 s1))
     else Some (kvm_io_bus_read_range L bus rng val s) }"

text \<open>The loops are unfolded only on demand.\<close>

declare write_devs.simps [simp del] read_devs.simps [simp del]

subsection \<open>Registering and unregistering\<close>

definition zero_range :: kvm_io_range where
  "zero_range = \<lparr>range_addr = 0, range_len = 0, range_dev = 0\<rparr>"

text \<open>The new bus takes the place of the old one, whose block is freed.\<close>

definition replace_bus :: "kvm_buses \<Rightarrow> nat \<Rightarrow> nat \<Rightarrow> kvm_io_bus \<Rightarrow> kvm_buses" where
  "replace_bus k bus_idx p new_bus =
     k\<lparr>buses := (buses k)(bus_idx := p),
       bus_heap := (bus_heap k)(p \<mapsto> new_bus, buses k bus_idx := None)\<rparr>"

definition kvm_io_bus_register_dev ::
    "'s bus_lib \<Rightarrow> kvm_buses \<Rightarrow> nat \<Rightarrow> u64 \<Rightarrow> u32 \<Rightarrow> nat \<Rightarrow> (int \<times> kvm_buses) option" where
  "kvm_io_bus_register_dev L k bus_idx addr len dev = do {
     bus \<leftarrow> deref_bus k bus_idx;
     if int (dev_count bus) - int (ioeventfd_count bus) > nr_iobus_devs L - 1 then Some (-28, k)
     else case alloc_bus L (bus_heap k) of
            None \<Rightarrow> Some (-12, k)
          | Some p \<Rightarrow>
              (let new_bus = bus\<lparr>bus_range := take (dev_count bus) (bus_range bus) @ [zero_range]\<rparr>;
                   (r, new_bus1) = kvm_io_bus_insert_dev L new_bus dev addr len
               in Some (0, replace_bus k bus_idx p new_bus1)) }"

primrec find_dev :: "kvm_io_range list \<Rightarrow> nat \<Rightarrow> nat option" where
  "find_dev [] dev = None"
| "find_dev (r # rs) dev = (if range_dev r = dev then Some 0 else map_option Suc (find_dev rs dev))"

definition kvm_io_bus_unregister_dev ::
    "'s bus_lib \<Rightarrow> kvm_buses \<Rightarrow> nat \<Rightarrow> nat \<Rightarrow> (int \<times> kvm_buses) option" where
  "kvm_io_bus_unregister_dev L k bus_idx dev = do {
     bus \<leftarrow> deref_bus k bus_idx;
     case find_dev (take (dev_count bus) (bus_range bus)) dev of
       None \<Rightarrow> Some (-2, k)
     | Some i \<Rightarrow>
         (case alloc_bus L (bus_heap k) of
            None \<Rightarrow> Some (-12, k)
          | Some p \<Rightarrow>
              (let n = dev_count bus - 1;
                   new_bus = bus\<lparr>dev_count := n,
                     bus_range := take i (bus_range bus) @ take (n - i) (drop (i + 1) (bus_range bus))\<rparr>
               in Some (0, replace_bus k bus_idx p new_bus))) }"

text \<open>Destroying a bus calls the destructor of every range's device, in order, and frees the block.\<close>

definition kvm_io_bus_destroy :: "'s bus_lib \<Rightarrow> kvm_buses \<Rightarrow> nat \<Rightarrow> 's \<Rightarrow> (kvm_buses \<times> 's) option" where
  "kvm_io_bus_destroy L k p s = do {
     bus \<leftarrow> (if p = 0 then None else bus_heap k p);
     Some (k\<lparr>bus_heap := (bus_heap k)(p := None)\<rparr>,
           fold (\<lambda>r. iodev_destructor L (range_dev r)) (take (dev_count bus) (bus_range bus)) s) }"

end
