(* ===== verification/Io_Bus_Props.thy ===== *)
theory Io_Bus_Props
  imports Io_Bus "HOL-Library.Multiset"
begin

text \<open>
  The buses keep their ranges in order, and on ranges that do not overlap the search finds all of those
  that match an access: the dispatch behaves like offering the access to every range of the table.
\<close>

subsection \<open>What the search promises to the dispatch\<close>

text \<open>Offering an access to every matching element of a list, and to the consecutive matches from a
  position on. \<open>f\<close> is the device: whether it handled the access, and its effect.\<close>

primrec offer_all :: "('e \<Rightarrow> bool) \<Rightarrow> ('e \<Rightarrow> 's \<Rightarrow> bool \<times> 's) \<Rightarrow> nat \<Rightarrow> 'e list \<Rightarrow> 's \<Rightarrow> nat option \<times> 's" where
  "offer_all hit f n [] s = (None, s)"
| "offer_all hit f n (e # es) s =
     (if hit e then (let (d, s1) = f e s in if d then (Some n, s1) else offer_all hit f (Suc n) es s1)
      else offer_all hit f (Suc n) es s)"

primrec offer_run :: "('e \<Rightarrow> bool) \<Rightarrow> ('e \<Rightarrow> 's \<Rightarrow> bool \<times> 's) \<Rightarrow> nat \<Rightarrow> 'e list \<Rightarrow> 's \<Rightarrow> nat option \<times> 's" where
  "offer_run hit f n [] s = (None, s)"
| "offer_run hit f n (e # es) s =
     (if hit e then (let (d, s1) = f e s in if d then (Some n, s1) else offer_run hit f (Suc n) es s1)
      else (None, s))"

lemma offer_all_none: "\<forall>e \<in> set es. \<not> hit e \<Longrightarrow> offer_all hit f n es s = (None, s)"
  by (induction es arbitrary: n) auto

lemma offer_all_skip:
  "\<forall>e \<in> set xs. \<not> hit e \<Longrightarrow> offer_all hit f n (xs @ ys) s = offer_all hit f (n + length xs) ys s"
  by (induction xs arbitrary: n) auto

lemma offer_run_block:
  assumes "\<And>i l. i < l \<Longrightarrow> l < length es \<Longrightarrow> hit (es ! l) \<Longrightarrow> hit (es ! i)"
  shows "offer_run hit f n es s = offer_all hit f n es s"
  using assms
proof (induction es arbitrary: n s)
  case (Cons e es)
  have ih: "offer_run hit f m es t = offer_all hit f m es t" for m t
    by (rule Cons.IH) (use Cons.prems [of "Suc _" "Suc _"] in auto)
  show ?case
  proof (cases "hit e")
    case False
    have "\<forall>x \<in> set es. \<not> hit x"
      using Cons.prems [of 0 "Suc _"] False by (auto simp: in_set_conv_nth)
    with False show ?thesis by (simp add: offer_all_none)
  qed (simp add: ih split: prod.split)
qed simp

text \<open>A search in a table: it finds the first match, and the matches follow each other.\<close>

locale block_search =
  fixes hit :: "'k \<Rightarrow> 'e \<Rightarrow> bool" and first :: "'k \<Rightarrow> 'e list \<Rightarrow> nat option"
    and valid :: "'k \<Rightarrow> 'e list \<Rightarrow> bool"
  assumes first_None: "valid k xs \<Longrightarrow> first k xs = None \<Longrightarrow> e \<in> set xs \<Longrightarrow> \<not> hit k e"
    and first_Some: "valid k xs \<Longrightarrow> first k xs = Some i \<Longrightarrow>
      i < length xs \<and> (\<forall>j < i. \<not> hit k (xs ! j))"
    and block: "valid k xs \<Longrightarrow> first k xs = Some i \<Longrightarrow> i \<le> j \<Longrightarrow> j < l \<Longrightarrow> l < length xs \<Longrightarrow>
      hit k (xs ! l) \<Longrightarrow> hit k (xs ! j)"
begin

text \<open>Starting at the first match and stopping at the first mismatch misses nothing.\<close>

lemma search_complete:
  assumes ok: "valid k xs"
  shows "(case first k xs of None \<Rightarrow> (None, s) | Some i \<Rightarrow> offer_run (hit k) f i (drop i xs) s) =
    offer_all (hit k) f 0 xs s"
proof (cases "first k xs")
  case None
  have "\<forall>e \<in> set xs. \<not> hit k e" using first_None [OF ok None] by blast
  with None show ?thesis by (simp add: offer_all_none)
next
  case (Some i)
  note i = first_Some [OF ok Some]
  have "offer_all (hit k) f 0 (take i xs @ drop i xs) s = offer_all (hit k) f (0 + length (take i xs)) (drop i xs) s"
    by (rule offer_all_skip) (use i in \<open>auto simp: in_set_conv_nth\<close>)
  then have "offer_all (hit k) f 0 xs s = offer_all (hit k) f i (drop i xs) s" using i by simp
  moreover have "offer_run (hit k) f i (drop i xs) s = offer_all (hit k) f i (drop i xs) s"
  proof (rule offer_run_block)
    fix j l assume jl: "j < l" "l < length (drop i xs)" "hit k (drop i xs ! l)"
    have "hit k (xs ! (i + j))"
      by (rule block [OF ok Some, of "i + j" "i + l"]) (use jl i in auto)
    with jl i show "hit k (drop i xs ! j)" by simp
  qed
  ultimately show ?thesis using Some by simp
qed

text \<open>At most one match: the access goes to it and to nothing else.\<close>

lemma search_single:
  assumes i: "i < length xs" "hit k (xs ! i)"
    and one: "\<And>j. j < length xs \<Longrightarrow> hit k (xs ! j) \<Longrightarrow> j = i"
  shows "offer_all (hit k) f 0 xs s = (let (d, s1) = f (xs ! i) s in (if d then Some i else None, s1))"
proof -
  have before: "\<forall>e \<in> set (take i xs). \<not> hit k e"
  proof
    fix e assume "e \<in> set (take i xs)"
    then obtain j where "j < i" "e = xs ! j" by (auto simp: in_set_conv_nth)
    with one [of j] i show "\<not> hit k e" by auto
  qed
  have after: "\<forall>e \<in> set (drop (Suc i) xs). \<not> hit k e"
  proof
    fix e assume "e \<in> set (drop (Suc i) xs)"
    then obtain j where j: "j < length xs - Suc i" "e = xs ! (Suc i + j)" by (auto simp: in_set_conv_nth)
    then have "Suc i + j < length xs" by simp
    with one [of "Suc i + j"] j show "\<not> hit k e" by auto
  qed
  have "offer_all (hit k) f 0 (take i xs @ xs ! i # drop (Suc i) xs) s =
      offer_all (hit k) f i (xs ! i # drop (Suc i) xs) s"
    using offer_all_skip [OF before, of f 0 "xs ! i # drop (Suc i) xs" s] i by simp
  then have e: "offer_all (hit k) f 0 xs s = offer_all (hit k) f i (xs ! i # drop (Suc i) xs) s"
    using i by (simp add: id_take_nth_drop [symmetric])
  show ?thesis unfolding e using i after by (simp add: offer_all_none split: prod.split)
qed

end

subsection \<open>Ranges\<close>

definition range_fin :: "kvm_io_range \<Rightarrow> int" where
  "range_fin r = uint (range_addr r) + sint (range_len r)"

text \<open>A range has a length of at least 0 and does not go round the end of the address space.\<close>

definition range_ok :: "kvm_io_range \<Rightarrow> bool" where
  "range_ok r \<longleftrightarrow> 0 \<le> sint (range_len r) \<and> range_fin r < 2 ^ 64"

text \<open>One range starts and ends before another; two ranges at the same place.\<close>

definition before :: "kvm_io_range \<Rightarrow> kvm_io_range \<Rightarrow> bool" where
  "before r s \<longleftrightarrow> range_addr r < range_addr s \<and> range_fin r < range_fin s"

definition same_place :: "kvm_io_range \<Rightarrow> kvm_io_range \<Rightarrow> bool" where
  "same_place r s \<longleftrightarrow> range_addr r = range_addr s \<and> range_len r = range_len s"

definition in_order :: "kvm_io_range \<Rightarrow> kvm_io_range \<Rightarrow> bool" where
  "in_order r s \<longleftrightarrow> before r s \<or> same_place r s"

text \<open>No range is inside another one, except that several may be at the same place.\<close>

definition unnested :: "kvm_io_range set \<Rightarrow> bool" where
  "unnested R \<longleftrightarrow> (\<forall>r \<in> R. range_ok r) \<and> (\<forall>r \<in> R. \<forall>s \<in> R. in_order r s \<or> before s r)"

lemma end_addr: "range_ok r \<Longrightarrow> uint (range_addr r + scast (range_len r)) = range_fin r"
proof -
  assume ok: "range_ok r"
  have l: "0 \<le> sint (range_len r)" "sint (range_len r) < 2 ^ 31"
    using ok sint_lt [of "range_len r"] by (auto simp: range_ok_def)
  have "uint (scast (range_len r) :: u64) = sint (range_len r) mod 2 ^ 64"
    unfolding scast_eq uint_word_of_int by simp
  also have "\<dots> = sint (range_len r)" using l by (simp add: mod_pos_pos_trivial)
  finally show ?thesis using ok l
    by (simp add: uint_word_ariths range_ok_def range_fin_def mod_pos_pos_trivial)
qed

lemma cmp_cases:
  assumes "range_ok r" "range_ok s"
  shows "kvm_io_bus_cmp r s =
    (if range_addr r < range_addr s then -1
     else if (if range_len s = 0 then range_addr r > range_addr s else range_fin r > range_fin s) then 1 else 0)"
proof -
  have "range_addr r + scast (range_len r) > range_addr s + scast (range_len s) \<longleftrightarrow> range_fin r > range_fin s"
    unfolding word_less_def end_addr [OF assms(1)] end_addr [OF assms(2)] ..
  then show ?thesis unfolding kvm_io_bus_cmp_def Let_def by simp
qed

lemma fin_ge: "range_ok r \<Longrightarrow> uint (range_addr r) \<le> range_fin r"
  by (simp add: range_ok_def range_fin_def)

lemma fin_zero: "range_len r = 0 \<Longrightarrow> range_fin r = uint (range_addr r)"
  by (simp add: range_fin_def)

lemma cmp_before: "range_ok r \<Longrightarrow> range_ok s \<Longrightarrow> before r s \<Longrightarrow> kvm_io_bus_cmp r s = -1"
  by (simp add: cmp_cases before_def)

lemma cmp_after: "range_ok r \<Longrightarrow> range_ok s \<Longrightarrow> before s r \<Longrightarrow> kvm_io_bus_cmp r s = 1"
  by (auto simp: cmp_cases before_def)

lemma cmp_same: "range_ok r \<Longrightarrow> range_ok s \<Longrightarrow> same_place r s \<Longrightarrow> kvm_io_bus_cmp r s = 0"
  by (auto simp: cmp_cases same_place_def range_fin_def)

lemmas cmp_order = cmp_before cmp_after cmp_same

lemma before_trans: "before r s \<Longrightarrow> before s t \<Longrightarrow> before r t"
  by (auto simp: before_def)

lemma in_order_trans: "in_order r s \<Longrightarrow> in_order s t \<Longrightarrow> in_order r t"
  by (auto simp: in_order_def before_def same_place_def range_fin_def)

lemma cmp_le_iff:
  assumes "unnested R" "r \<in> R" "s \<in> R"
  shows "kvm_io_bus_cmp r s \<le> 0 \<longleftrightarrow> in_order r s"
proof -
  have ok: "range_ok r" "range_ok s" and o: "in_order r s \<or> before s r"
    using assms by (auto simp: unnested_def)
  have "\<not> (in_order r s \<and> before s r)" by (auto simp: in_order_def before_def same_place_def)
  with o show ?thesis using cmp_order [OF ok] by (auto simp: in_order_def)
qed

text \<open>Over ranges in order, an access compares as greater, then equal, then less.\<close>

lemma cmp_key_mono:
  assumes k: "range_ok k" and ok: "range_ok r" "range_ok s" and o: "in_order r s"
  shows "kvm_io_bus_cmp k s \<le> kvm_io_bus_cmp k r"
  using o ok fin_ge [OF k] fin_ge [OF ok(1)] fin_ge [OF ok(2)] fin_zero [of r] fin_zero [of s]
  by (auto simp: in_order_def before_def same_place_def cmp_cases k word_less_def range_fin_def)

subsection \<open>The kernel's functions\<close>

text \<open>\<^verbatim>\<open>sort\<close> permutes its array, into order if the comparison is a total preorder on it;
  \<^verbatim>\<open>bsearch\<close> returns an element that compares equal, and finds one in a table on which the
  comparison with the key only falls; the allocator returns a free block.\<close>

definition preorder_on_list :: "range_cmp \<Rightarrow> kvm_io_range list \<Rightarrow> bool" where
  "preorder_on_list cmp xs \<longleftrightarrow>
     (\<forall>r \<in> set xs. \<forall>s \<in> set xs. cmp r s \<le> 0 \<or> cmp s r \<le> 0) \<and>
     (\<forall>r \<in> set xs. \<forall>s \<in> set xs. \<forall>t \<in> set xs. cmp r s \<le> 0 \<longrightarrow> cmp s t \<le> 0 \<longrightarrow> cmp r t \<le> 0)"

definition bus_lib_ok :: "'s bus_lib \<Rightarrow> bool" where
  "bus_lib_ok L \<longleftrightarrow>
     (\<forall>cmp xs. mset (sort_ranges L cmp xs) = mset xs) \<and>
     (\<forall>cmp xs. preorder_on_list cmp xs \<longrightarrow> sorted_wrt (\<lambda>r s. cmp r s \<le> 0) (sort_ranges L cmp xs)) \<and>
     (\<forall>cmp k xs i. bsearch L cmp k xs = Some i \<longrightarrow> i < length xs \<and> cmp k (xs ! i) = 0) \<and>
     (\<forall>cmp k xs. sorted_wrt (\<lambda>r s. cmp k s \<le> cmp k r) xs \<longrightarrow> bsearch L cmp k xs = None \<longrightarrow>
        (\<forall>e \<in> set xs. cmp k e \<noteq> 0)) \<and>
     (\<forall>h p. alloc_bus L h = Some p \<longrightarrow> p \<noteq> 0 \<and> h p = None)"

lemma alloc_bus_fresh: "bus_lib_ok L \<Longrightarrow> alloc_bus L h = Some p \<Longrightarrow> p \<noteq> 0 \<and> h p = None"
  by (simp add: bus_lib_ok_def)

lemma sort_cmp [simp]: "kvm_io_bus_sort_cmp = kvm_io_bus_cmp"
  by (rule ext)+ (simp add: kvm_io_bus_sort_cmp_def)

subsection \<open>The table\<close>

definition table_sorted :: "kvm_io_range list \<Rightarrow> bool" where
  "table_sorted xs \<longleftrightarrow> (\<forall>r \<in> set xs. range_ok r) \<and> sorted_wrt in_order xs"

definition bus_ok :: "kvm_io_bus \<Rightarrow> bool" where
  "bus_ok bus \<longleftrightarrow> dev_count bus = length (bus_range bus) \<and> table_sorted (bus_range bus)"

lemma table_nth: "table_sorted xs \<Longrightarrow> i < length xs \<Longrightarrow> range_ok (xs ! i)"
  by (simp add: table_sorted_def)

lemma table_order: "table_sorted xs \<Longrightarrow> i < j \<Longrightarrow> j < length xs \<Longrightarrow> in_order (xs ! i) (xs ! j)"
  by (simp add: table_sorted_def sorted_wrt_iff_nth_less)

lemma table_cmp_mono:
  assumes "table_sorted xs" "range_ok k" "i \<le> j" "j < length xs"
  shows "kvm_io_bus_cmp k (xs ! j) \<le> kvm_io_bus_cmp k (xs ! i)"
proof (cases "i = j")
  case False
  with assms show ?thesis
    by (intro cmp_key_mono table_nth table_order) auto
qed simp

lemma in_order_refl: "in_order r r"
  by (simp add: in_order_def same_place_def)

lemma unnested_table:
  assumes "table_sorted xs"
  shows "unnested (set xs)"
  unfolding unnested_def
proof (intro conjI ballI)
  fix r s assume "r \<in> set xs" "s \<in> set xs"
  then obtain i j where ij: "i < length xs" "j < length xs" "r = xs ! i" "s = xs ! j"
    by (auto simp: in_set_conv_nth)
  consider "i < j" | "i = j" | "j < i" by linarith
  then show "in_order r s \<or> before s r"
    using table_order [OF assms, of i j] table_order [OF assms, of j i] ij
    by cases (auto simp: in_order_refl in_order_def same_place_def)
qed (use assms in \<open>simp add: table_sorted_def\<close>)

lemma sort_unnested:
  assumes L: "bus_lib_ok L" and u: "unnested (set xs)"
  shows "table_sorted (sort_ranges L kvm_io_bus_cmp xs)" "mset (sort_ranges L kvm_io_bus_cmp xs) = mset xs"
proof -
  show m: "mset (sort_ranges L kvm_io_bus_cmp xs) = mset xs" using L by (simp add: bus_lib_ok_def)
  then have e: "set (sort_ranges L kvm_io_bus_cmp xs) = set xs" by (rule mset_eq_setD)
  have "preorder_on_list kvm_io_bus_cmp xs"
    unfolding preorder_on_list_def
  proof (intro conjI ballI impI)
    fix r s assume rs: "r \<in> set xs" "s \<in> set xs"
    with u have "in_order r s \<or> before s r" by (simp add: unnested_def)
    then show "kvm_io_bus_cmp r s \<le> 0 \<or> kvm_io_bus_cmp s r \<le> 0"
      using cmp_le_iff [OF u] rs by (auto simp: in_order_def)
  next
    fix r s t assume m: "r \<in> set xs" "s \<in> set xs" "t \<in> set xs"
      and c: "kvm_io_bus_cmp r s \<le> 0" "kvm_io_bus_cmp s t \<le> 0"
    from c have "in_order r s" "in_order s t" using cmp_le_iff [OF u] m by simp_all
    then have "in_order r t" by (rule in_order_trans)
    then show "kvm_io_bus_cmp r t \<le> 0" using cmp_le_iff [OF u] m by simp
  qed
  with L have "sorted_wrt (\<lambda>r s. kvm_io_bus_cmp r s \<le> 0) (sort_ranges L kvm_io_bus_cmp xs)"
    by (simp add: bus_lib_ok_def)
  then have "sorted_wrt in_order (sort_ranges L kvm_io_bus_cmp xs)"
    by (rule sorted_wrt_mono_rel [rotated]) (use cmp_le_iff [OF u] e in simp)
  with u e show "table_sorted (sort_ranges L kvm_io_bus_cmp xs)"
    by (simp add: table_sorted_def unnested_def)
qed

subsection \<open>The search\<close>

definition first_match :: "'s bus_lib \<Rightarrow> kvm_io_range \<Rightarrow> kvm_io_range list \<Rightarrow> nat option" where
  "first_match L k xs = map_option (step_back k xs) (bsearch L kvm_io_bus_cmp k xs)"

lemma step_back_le: "step_back k xs i \<le> i"
  by (induction i) auto

lemma step_back_hits: "step_back k xs i \<le> j \<Longrightarrow> j < i \<Longrightarrow> kvm_io_bus_cmp k (xs ! j) = 0"
proof (induction i)
  case (Suc i)
  then show ?case by (cases "j = i") (auto split: if_splits)
qed simp

lemma step_back_stop: "0 < step_back k xs i \<Longrightarrow> kvm_io_bus_cmp k (xs ! (step_back k xs i - 1)) \<noteq> 0"
  by (induction i) auto

interpretation io: block_search "\<lambda>k e. kvm_io_bus_cmp k e = 0" "first_match L"
  "\<lambda>k xs. bus_lib_ok L \<and> range_ok k \<and> table_sorted xs" for L :: "'s bus_lib"
proof unfold_locales
  fix k xs e
  assume ok: "bus_lib_ok L \<and> range_ok k \<and> table_sorted xs"
  have "sorted_wrt (\<lambda>r s. kvm_io_bus_cmp k s \<le> kvm_io_bus_cmp k r) xs"
    using ok table_cmp_mono by (simp add: sorted_wrt_iff_nth_less)
  moreover assume "first_match L k xs = None" "e \<in> set xs"
  ultimately show "kvm_io_bus_cmp k e \<noteq> 0" using ok by (simp add: bus_lib_ok_def first_match_def)
next
  fix k xs i
  assume ok: "bus_lib_ok L \<and> range_ok k \<and> table_sorted xs" and f: "first_match L k xs = Some i"
  then obtain m where m: "bsearch L kvm_io_bus_cmp k xs = Some m" "i = step_back k xs m"
    by (auto simp: first_match_def)
  then have hit: "m < length xs" "kvm_io_bus_cmp k (xs ! m) = 0" using ok by (auto simp: bus_lib_ok_def)
  have im: "i \<le> m" using m by (simp add: step_back_le)
  have eq: "kvm_io_bus_cmp k (xs ! i) = 0"
    using step_back_hits [of k xs m i] m hit im by (cases "i = m") auto
  have no: "kvm_io_bus_cmp k (xs ! j) \<noteq> 0" if "j < i" for j
  proof -
    have "kvm_io_bus_cmp k (xs ! (i - 1)) \<noteq> 0" using step_back_stop [of k xs m] m that by simp
    moreover have "kvm_io_bus_cmp k (xs ! i) \<le> kvm_io_bus_cmp k (xs ! (i - 1))"
      "kvm_io_bus_cmp k (xs ! (i - 1)) \<le> kvm_io_bus_cmp k (xs ! j)"
      using ok im hit that by (auto intro!: table_cmp_mono)
    ultimately show ?thesis using eq by simp
  qed
  show "i < length xs \<and> (\<forall>j < i. kvm_io_bus_cmp k (xs ! j) \<noteq> 0)" using im hit no by auto
  fix j l
  assume jl: "i \<le> j" "j < l" "l < length xs" "kvm_io_bus_cmp k (xs ! l) = 0"
  with ok have "kvm_io_bus_cmp k (xs ! l) \<le> kvm_io_bus_cmp k (xs ! j)"
    "kvm_io_bus_cmp k (xs ! j) \<le> kvm_io_bus_cmp k (xs ! i)"
    using table_cmp_mono [of xs k j l] table_cmp_mono [of xs k i j] by simp_all
  with eq jl show "kvm_io_bus_cmp k (xs ! j) = 0" by simp
qed

subsection \<open>Dispatch\<close>

abbreviation hits :: "kvm_io_range \<Rightarrow> kvm_io_range \<Rightarrow> bool" where
  "hits rng e \<equiv> kvm_io_bus_cmp rng e = 0"

text \<open>An access matches exactly the ranges it lies in; a range of length 0 is matched at its address.\<close>

lemma hits_iff:
  assumes "range_ok rng" "range_ok e"
  shows "hits rng e \<longleftrightarrow>
    (if range_len e = 0 then range_addr rng = range_addr e
     else range_addr e \<le> range_addr rng \<and> range_fin rng \<le> range_fin e)"
  using assms by (auto simp: cmp_cases)

definition wdev :: "'s bus_lib \<Rightarrow> kvm_io_range \<Rightarrow> u8 list \<Rightarrow> kvm_io_range \<Rightarrow> 's \<Rightarrow> bool \<times> 's" where
  "wdev L rng val e s =
     (let (r, s1) = iodev_write L (range_dev e) (range_addr rng) (range_len rng) val s in (r = 0, s1))"

definition rdev :: "'s bus_lib \<Rightarrow> kvm_io_range \<Rightarrow> kvm_io_range \<Rightarrow> u8 list \<times> 's \<Rightarrow> bool \<times> u8 list \<times> 's" where
  "rdev L rng e = (\<lambda>(val, s).
     let (r, val1, s1) = iodev_read L (range_dev e) (range_addr rng) (range_len rng) val s in (r = 0, val1, s1))"

definition found :: "nat option \<Rightarrow> int" where
  "found p = (case p of None \<Rightarrow> -95 | Some i \<Rightarrow> int i)"

lemma write_devs_run:
  assumes "dev_count bus = length (bus_range bus)"
  shows "write_devs L bus rng val idx s =
    apfst found (offer_run (hits rng) (wdev L rng val) idx (drop idx (bus_range bus)) s)"
  using assms
proof (induction L bus rng val idx s rule: write_devs.induct [case_names step])
  case (step L bus rng val idx s)
  show ?case
  proof (cases "idx < dev_count bus \<and> hits rng (bus_range bus ! idx)")
    case True
    obtain r s1 where d: "iodev_write L (range_dev (bus_range bus ! idx)) (range_addr rng) (range_len rng) val s = (r, s1)"
      by (metis surj_pair)
    have w: "wdev L rng val (bus_range bus ! idx) s = (r = 0, s1)" using d by (simp add: wdev_def)
    have e: "drop idx (bus_range bus) = bus_range bus ! idx # drop (Suc idx) (bus_range bus)"
      using True step.prems by (simp add: Cons_nth_drop_Suc)
    show ?thesis
    proof (cases "r = 0")
      case False
      from step.IH [OF True d [symmetric] refl False step.prems] True d False show ?thesis
        unfolding e by (subst write_devs.simps) (simp add: w)
    qed (unfold e, subst write_devs.simps, use True d in \<open>simp add: w found_def\<close>)
  next
    case False
    then consider "drop idx (bus_range bus) = []" |
      "drop idx (bus_range bus) = bus_range bus ! idx # drop (Suc idx) (bus_range bus)" "\<not> hits rng (bus_range bus ! idx)"
      using step.prems by (cases "idx < length (bus_range bus)") (auto simp: Cons_nth_drop_Suc)
    then show ?thesis by cases (use False in \<open>auto simp: write_devs.simps found_def\<close>)
  qed
qed

lemma read_devs_run:
  assumes "dev_count bus = length (bus_range bus)"
  shows "read_devs L bus rng val idx s =
    apfst found (offer_run (hits rng) (rdev L rng) idx (drop idx (bus_range bus)) (val, s))"
  using assms
proof (induction L bus rng val idx s rule: read_devs.induct [case_names step])
  case (step L bus rng val idx s)
  show ?case
  proof (cases "idx < dev_count bus \<and> hits rng (bus_range bus ! idx)")
    case True
    obtain r val1 s1 where d: "iodev_read L (range_dev (bus_range bus ! idx)) (range_addr rng) (range_len rng) val s = (r, val1, s1)"
      by (metis surj_pair)
    have w: "rdev L rng (bus_range bus ! idx) (val, s) = (r = 0, val1, s1)" using d by (simp add: rdev_def)
    have e: "drop idx (bus_range bus) = bus_range bus ! idx # drop (Suc idx) (bus_range bus)"
      using True step.prems by (simp add: Cons_nth_drop_Suc)
    show ?thesis
    proof (cases "r = 0")
      case False
      from step.IH [OF True d [symmetric] refl refl False step.prems] True d False show ?thesis
        unfolding e by (subst read_devs.simps) (simp add: w)
    qed (unfold e, subst read_devs.simps, use True d in \<open>simp add: w found_def\<close>)
  next
    case False
    then consider "drop idx (bus_range bus) = []" |
      "drop idx (bus_range bus) = bus_range bus ! idx # drop (Suc idx) (bus_range bus)" "\<not> hits rng (bus_range bus ! idx)"
      using step.prems by (cases "idx < length (bus_range bus)") (auto simp: Cons_nth_drop_Suc)
    then show ?thesis by cases (use False in \<open>auto simp: read_devs.simps found_def\<close>)
  qed
qed

lemma first_dev_match:
  assumes "dev_count bus = length (bus_range bus)"
  shows "kvm_io_bus_get_first_dev L bus (range_addr rng) (range_len rng) =
    (case first_match L (rng\<lparr>range_dev := 0\<rparr>) (bus_range bus) of None \<Rightarrow> -2 | Some i \<Rightarrow> int i)"
  using assms by (cases rng) (auto simp: kvm_io_bus_get_first_dev_def first_match_def Let_def split: option.split)

lemma hits_key: "hits (rng\<lparr>range_dev := 0\<rparr>) e = hits rng e"
  by (simp add: kvm_io_bus_cmp_def Let_def)

lemma range_ok_key [simp]: "range_ok (rng\<lparr>range_dev := d\<rparr>) = range_ok rng"
  by (simp add: range_ok_def range_fin_def)

lemma write_range_offers:
  assumes L: "bus_lib_ok L" and b: "bus_ok bus" and r: "range_ok rng"
  shows "kvm_io_bus_write_range L bus rng val s =
    apfst found (offer_all (hits rng) (wdev L rng val) 0 (bus_range bus) s)"
proof -
  have n: "dev_count bus = length (bus_range bus)" using b by (simp add: bus_ok_def)
  have "bus_lib_ok L \<and> range_ok (rng\<lparr>range_dev := 0\<rparr>) \<and> table_sorted (bus_range bus)"
    using L b r by (simp add: bus_ok_def)
  from io.search_complete [OF this, of s "wdev L rng val", symmetric] show ?thesis
    unfolding hits_key kvm_io_bus_write_range_def Let_def first_dev_match [OF n] write_devs_run [OF n]
    by (auto simp: found_def split: option.splits)
qed

lemma read_range_offers:
  assumes L: "bus_lib_ok L" and b: "bus_ok bus" and r: "range_ok rng"
  shows "kvm_io_bus_read_range L bus rng val s =
    apfst found (offer_all (hits rng) (rdev L rng) 0 (bus_range bus) (val, s))"
proof -
  have n: "dev_count bus = length (bus_range bus)" using b by (simp add: bus_ok_def)
  have "bus_lib_ok L \<and> range_ok (rng\<lparr>range_dev := 0\<rparr>) \<and> table_sorted (bus_range bus)"
    using L b r by (simp add: bus_ok_def)
  from io.search_complete [OF this, of "(val, s)" "rdev L rng", symmetric] show ?thesis
    unfolding hits_key kvm_io_bus_read_range_def Let_def first_dev_match [OF n] read_devs_run [OF n]
    by (auto simp: found_def split: option.splits)
qed

subsection \<open>Registering and unregistering\<close>

text \<open>Every bus of the VM (numbers below \<open>n\<close>) has a block of its own with a well-formed table, and no
  other block is live.\<close>

definition buses_ok :: "nat \<Rightarrow> kvm_buses \<Rightarrow> bool" where
  "buses_ok n k \<longleftrightarrow>
     (\<forall>i < n. buses k i \<noteq> 0 \<and> (\<exists>bus. bus_heap k (buses k i) = Some bus \<and> bus_ok bus)) \<and>
     inj_on (buses k) {..<n} \<and> dom (bus_heap k) = buses k ` {..<n}"

lemma buses_okD:
  assumes "buses_ok n k" "i < n"
  obtains bus where "deref_bus k i = Some bus" "bus_heap k (buses k i) = Some bus" "bus_ok bus"
  using assms by (auto simp: buses_ok_def deref_bus_def)

lemma replace_bus_ok:
  assumes k: "buses_ok n k" and i: "i < n" and p: "p \<noteq> 0" "bus_heap k p = None" and b: "bus_ok bus"
  shows "buses_ok n (replace_bus k i p bus)"
    and "j < n \<Longrightarrow> deref_bus (replace_bus k i p bus) j = (if j = i then Some bus else deref_bus k j)"
proof -
  have ne: "buses k j \<noteq> p" if "j < n" for j using k p that by (auto simp: buses_ok_def)
  have inj: "buses k j = buses k i \<longleftrightarrow> j = i" if "j < n" for j
    using k i that by (auto simp: buses_ok_def inj_on_def)
  have d: "dom (bus_heap k) = buses k ` {..<n}" using k by (simp add: buses_ok_def)
  have "dom ((bus_heap k)(p \<mapsto> bus, buses k i := None)) = insert p (buses k ` {..<n}) - {buses k i}"
    using ne [OF i] d by auto
  also have "\<dots> = (buses k)(i := p) ` {..<n}"
    using i ne inj by (auto simp: image_iff)
  finally have dom: "dom ((bus_heap k)(p \<mapsto> bus, buses k i := None)) = (buses k)(i := p) ` {..<n}" .
  have injn: "inj_on ((buses k)(i := p)) {..<n}"
    using k ne by (auto simp: buses_ok_def inj_on_def)
  show "buses_ok n (replace_bus k i p bus)"
    using k dom injn ne inj ne [OF i, symmetric] p b i by (simp add: buses_ok_def replace_bus_def)
  show "deref_bus (replace_bus k i p bus) j = (if j = i then Some bus else deref_bus k j)" if "j < n"
    using that p ne [OF i] ne [of j] inj [of j] by (simp add: deref_bus_def replace_bus_def)
qed

text \<open>The table a bus gives to its readers.\<close>

definition bus_table :: "kvm_buses \<Rightarrow> nat \<Rightarrow> kvm_io_range list" where
  "bus_table k i = (case deref_bus k i of None \<Rightarrow> [] | Some bus \<Rightarrow> bus_range bus)"

definition new_range :: "u64 \<Rightarrow> u32 \<Rightarrow> nat \<Rightarrow> kvm_io_range" where
  "new_range addr len dev = \<lparr>range_addr = addr, range_len = len, range_dev = dev\<rparr>"

lemma insert_dev:
  assumes L: "bus_lib_ok L" and b: "bus_ok bus"
    and u: "unnested (insert (new_range addr len dev) (set (bus_range bus)))"
  shows "\<exists>bus'. kvm_io_bus_insert_dev L
      (bus\<lparr>bus_range := take (dev_count bus) (bus_range bus) @ [zero_range]\<rparr>) dev addr len = (0, bus') \<and>
    bus_ok bus' \<and> mset (bus_range bus') = add_mset (new_range addr len dev) (mset (bus_range bus)) \<and>
    ioeventfd_count bus' = ioeventfd_count bus"
proof -
  have n: "dev_count bus = length (bus_range bus)" using b by (simp add: bus_ok_def)
  let ?xs = "bus_range bus @ [new_range addr len dev]"
  have "unnested (set ?xs)" using u by simp
  note s = sort_unnested [OF L this]
  have "length (sort_ranges L kvm_io_bus_cmp ?xs) = length ?xs" by (metis s(2) size_mset)
  with s show ?thesis
    by (simp add: kvm_io_bus_insert_dev_def Let_def n bus_ok_def new_range_def)
qed

lemma register_ok:
  assumes L: "bus_lib_ok L" and k: "buses_ok n k" and i: "i < n"
    and u: "unnested (insert (new_range addr len dev) (set (bus_table k i)))"
    and r: "kvm_io_bus_register_dev L k i addr len dev = Some (r, k')"
  shows "buses_ok n k'"
    and "r = 0 \<and> mset (bus_table k' i) = add_mset (new_range addr len dev) (mset (bus_table k i)) \<or>
      (r = -28 \<or> r = -12) \<and> k' = k"
    and "j < n \<Longrightarrow> j \<noteq> i \<Longrightarrow> bus_table k' j = bus_table k j"
proof -
  obtain bus where bus: "deref_bus k i = Some bus" "bus_ok bus" using buses_okD [OF k i] by metis
  have t: "bus_table k i = bus_range bus" using bus by (simp add: bus_table_def)
  obtain bus' where b': "kvm_io_bus_insert_dev L
      (bus\<lparr>bus_range := take (dev_count bus) (bus_range bus) @ [zero_range]\<rparr>) dev addr len = (0, bus')"
      "bus_ok bus'" "mset (bus_range bus') = add_mset (new_range addr len dev) (mset (bus_range bus))"
    using insert_dev [OF L bus(2) u [unfolded t]] by auto
  have e: "kvm_io_bus_register_dev L k i addr len dev =
      (if int (dev_count bus) - int (ioeventfd_count bus) > nr_iobus_devs L - 1 then Some (-28, k)
       else case alloc_bus L (bus_heap k) of None \<Rightarrow> Some (-12, k) | Some p \<Rightarrow> Some (0, replace_bus k i p bus'))"
    using b'(1) by (simp add: kvm_io_bus_register_dev_def bus(1) Let_def split: option.split)
  consider "k' = k" "r = -28 \<or> r = -12" |
    p where "p \<noteq> 0" "bus_heap k p = None" "k' = replace_bus k i p bus'" "r = 0"
  proof (cases "alloc_bus L (bus_heap k)")
    case None
    with r that(1) show ?thesis unfolding e by (auto split: if_splits)
  next
    case (Some p)
    with r that(1) that(2) [of p] alloc_bus_fresh [OF L Some] show ?thesis
      unfolding e by (simp split: if_splits)
  qed
  note c = this
  show "buses_ok n k'" using c by cases (use k replace_bus_ok(1) [OF k i _ _ b'(2)] in auto)
  show "r = 0 \<and> mset (bus_table k' i) = add_mset (new_range addr len dev) (mset (bus_table k i)) \<or>
      (r = -28 \<or> r = -12) \<and> k' = k"
    using c by cases (use replace_bus_ok(2) [OF k i _ _ b'(2), of _ i] i b' t in \<open>auto simp: bus_table_def\<close>)
  assume j: "j < n" "j \<noteq> i"
  show "bus_table k' j = bus_table k j"
    using c by cases (use j replace_bus_ok(2) [OF k i _ _ b'(2), of _ j] in \<open>simp_all add: bus_table_def\<close>)
qed

lemma find_dev_Some:
  "find_dev xs dev = Some i \<Longrightarrow> i < length xs \<and> range_dev (xs ! i) = dev \<and> (\<forall>j < i. range_dev (xs ! j) \<noteq> dev)"
proof (induction xs arbitrary: i)
  case (Cons x xs)
  then show ?case by (cases i) (auto split: if_splits simp: less_Suc_eq_0_disj)
qed simp

lemma find_dev_None: "find_dev xs dev = None \<longleftrightarrow> (\<forall>r \<in> set xs. range_dev r \<noteq> dev)"
  by (induction xs) auto

lemma find_dev_remove1:
  "find_dev xs dev = Some i \<Longrightarrow> take i xs @ drop (Suc i) xs = remove1 (xs ! i) xs"
proof (induction xs arbitrary: i)
  case (Cons x xs)
  then show ?case
    by (cases i) (auto split: if_splits dest: find_dev_Some)
qed simp

lemma sorted_wrt_remove1: "sorted_wrt P xs \<Longrightarrow> sorted_wrt P (remove1 x xs)"
  by (induction xs) (auto dest: notin_set_remove1)

lemma sorted_wrt_unnested_remove1: "table_sorted xs \<Longrightarrow> table_sorted (remove1 x xs)"
  by (auto simp: table_sorted_def sorted_wrt_remove1 dest: notin_set_remove1)

lemma unregister_ok:
  assumes L: "bus_lib_ok L" and k: "buses_ok n k" and i: "i < n"
    and r: "kvm_io_bus_unregister_dev L k i dev = Some (r, k')"
  shows "buses_ok n k'"
    and "r = 0 \<and> (\<exists>x \<in> set (bus_table k i). range_dev x = dev \<and> bus_table k' i = remove1 x (bus_table k i)) \<or>
      r = -2 \<and> k' = k \<and> (\<forall>x \<in> set (bus_table k i). range_dev x \<noteq> dev) \<or> r = -12 \<and> k' = k"
    and "j < n \<Longrightarrow> j \<noteq> i \<Longrightarrow> bus_table k' j = bus_table k j"
proof -
  obtain bus where bus: "deref_bus k i = Some bus" "bus_ok bus" using buses_okD [OF k i] by metis
  have t: "bus_table k i = bus_range bus" using bus by (simp add: bus_table_def)
  have n: "dev_count bus = length (bus_range bus)" using bus by (simp add: bus_ok_def)
  consider "k' = k" "r = -2" "find_dev (bus_range bus) dev = None" | "k' = k" "r = -12" |
    m p bus' where "find_dev (bus_range bus) dev = Some m" "p \<noteq> 0" "bus_heap k p = None" "r = 0"
      "k' = replace_bus k i p bus'" "bus_ok bus'" "bus_range bus' = remove1 (bus_range bus ! m) (bus_range bus)"
  proof (cases "find_dev (bus_range bus) dev")
    case None
    with r that(1) show ?thesis by (simp add: kvm_io_bus_unregister_dev_def bus(1) n)
  next
    case (Some m)
    note m = find_dev_Some [OF Some]
    show ?thesis
    proof (cases "alloc_bus L (bus_heap k)")
      case None
      with Some r that(2) show ?thesis by (simp add: kvm_io_bus_unregister_dev_def bus(1) n)
    next
      case p: (Some p)
      define bus' where "bus' = bus\<lparr>dev_count := length (bus_range bus) - 1,
        bus_range := remove1 (bus_range bus ! m) (bus_range bus)\<rparr>"
      have ok: "bus_ok bus'"
        using bus m by (simp add: bus'_def bus_ok_def sorted_wrt_unnested_remove1 length_remove1)
      have "take m (bus_range bus) @ take (length (bus_range bus) - 1 - m) (drop (m + 1) (bus_range bus)) =
          remove1 (bus_range bus ! m) (bus_range bus)"
        using find_dev_remove1 [OF Some] by simp
      then have "k' = replace_bus k i p bus'" "r = 0"
        using Some r p by (simp_all add: kvm_io_bus_unregister_dev_def bus(1) n bus'_def Let_def)
      with Some ok alloc_bus_fresh [OF L p] show ?thesis by (intro that(3)) (auto simp: bus'_def)
    qed
  qed
  note c = this
  show "buses_ok n k'" using c by cases (use k replace_bus_ok(1) [OF k i] in auto)
  show "r = 0 \<and> (\<exists>x \<in> set (bus_table k i). range_dev x = dev \<and> bus_table k' i = remove1 x (bus_table k i)) \<or>
      r = -2 \<and> k' = k \<and> (\<forall>x \<in> set (bus_table k i). range_dev x \<noteq> dev) \<or> r = -12 \<and> k' = k"
    using c
  proof cases
    case (3 m p bus')
    have "bus_table k' i = remove1 (bus_range bus ! m) (bus_range bus)"
      using replace_bus_ok(2) [OF k i 3(2,3,6) i] 3 by (simp add: bus_table_def)
    with 3 find_dev_Some [OF 3(1)] t show ?thesis by auto
  qed (use t in \<open>simp_all add: find_dev_None\<close>)
  assume j: "j < n" "j \<noteq> i"
  show "bus_table k' j = bus_table k j"
    using c by cases (use j replace_bus_ok(2) [OF k i _ _ _ j(1)] in \<open>simp_all add: bus_table_def\<close>)
qed

end
