(* ===== verification/Bus_Theorems.thy ===== *)
theory Bus_Theorems
  imports Io_Bus_Props
begin

text \<open>
  The properties of the device buses: the tables stay well formed under any sequence of requests, the
  dispatch reaches exactly the devices whose range contains the access, registering is undone by
  unregistering, and what the search misses when ranges are nested.
\<close>

subsection \<open>An example\<close>

text \<open>Insertion sort, a search that halves the table, and an allocator; device 2 declines everything, and
  the state of the devices is the list of the writes they were offered.\<close>

fun insert_by :: "range_cmp \<Rightarrow> kvm_io_range \<Rightarrow> kvm_io_range list \<Rightarrow> kvm_io_range list" where
  "insert_by cmp x [] = [x]"
| "insert_by cmp x (y # ys) = (if cmp x y \<le> 0 then x # y # ys else y # insert_by cmp x ys)"

definition sort_by :: "range_cmp \<Rightarrow> kvm_io_range list \<Rightarrow> kvm_io_range list" where
  "sort_by cmp xs = foldr (insert_by cmp) xs []"

function search_by :: "range_cmp \<Rightarrow> kvm_io_range \<Rightarrow> kvm_io_range list \<Rightarrow> nat \<Rightarrow> nat \<Rightarrow> nat option" where
  "search_by cmp k xs start num =
     (if num = 0 then None
      else let mid = start + num div 2
           in if cmp k (xs ! mid) < 0 then search_by cmp k xs start (num div 2)
              else if cmp k (xs ! mid) > 0 then search_by cmp k xs (mid + 1) (num - num div 2 - 1)
              else Some mid)"
  by pat_completeness auto
termination by (relation "measure (\<lambda>(cmp, k, xs, start, num). num)") auto

declare search_by.simps [simp del]

definition fresh_bus :: "(nat \<Rightarrow> kvm_io_bus option) \<Rightarrow> nat option" where
  "fresh_bus h = find (\<lambda>p. h p = None) [1..<16]"

definition example_bus_lib :: "(nat \<times> u64 \<times> u8 list) list bus_lib" where
  "example_bus_lib =
     \<lparr>sort_ranges = sort_by, bsearch = (\<lambda>cmp k xs. search_by cmp k xs 0 (length xs)),
      iodev_write = (\<lambda>d a n v s. (if d = 2 then 1 else 0, s @ [(d, a, v)])),
      iodev_read = (\<lambda>d a n v s. (if d = 2 then 1 else 0, map (\<lambda>_. of_nat d) v, s)),
      iodev_destructor = (\<lambda>d s. filter (\<lambda>x. fst x \<noteq> d) s),
      alloc_bus = fresh_bus, nr_iobus_devs = 1000\<rparr>"

lemma insert_by_mset [simp]: "mset (insert_by cmp x ys) = add_mset x (mset ys)"
  by (induction ys) auto

lemma sort_by_mset [simp]: "mset (sort_by cmp xs) = mset xs"
  by (induction xs) (auto simp: sort_by_def)

lemma insert_by_set [simp]: "set (insert_by cmp x ys) = insert x (set ys)"
  by (metis insert_by_mset set_mset_add_mset_insert set_mset_mset)

lemma preorder_subset:
  assumes "preorder_on_list cmp xs" "set ys \<subseteq> set xs"
  shows "preorder_on_list cmp ys"
  unfolding preorder_on_list_def
proof (intro conjI ballI impI)
  fix r s assume "r \<in> set ys" "s \<in> set ys"
  with assms show "cmp r s \<le> 0 \<or> cmp s r \<le> 0" unfolding preorder_on_list_def by (meson subsetD)
next
  fix r s t assume "r \<in> set ys" "s \<in> set ys" "t \<in> set ys" "cmp r s \<le> 0" "cmp s t \<le> 0"
  with assms show "cmp r t \<le> 0" unfolding preorder_on_list_def by (meson subsetD)
qed

lemma preorder_trans:
  "preorder_on_list cmp xs \<Longrightarrow> r \<in> set xs \<Longrightarrow> s \<in> set xs \<Longrightarrow> t \<in> set xs \<Longrightarrow> cmp r s \<le> 0 \<Longrightarrow>
    cmp s t \<le> 0 \<Longrightarrow> cmp r t \<le> 0"
  unfolding preorder_on_list_def by meson

lemma preorder_total:
  "preorder_on_list cmp xs \<Longrightarrow> r \<in> set xs \<Longrightarrow> s \<in> set xs \<Longrightarrow> cmp r s \<le> 0 \<or> cmp s r \<le> 0"
  unfolding preorder_on_list_def by meson

lemma insert_by_sorted:
  assumes p: "preorder_on_list cmp (x # ys)" and s: "sorted_wrt (\<lambda>r s. cmp r s \<le> 0) ys"
  shows "sorted_wrt (\<lambda>r s. cmp r s \<le> 0) (insert_by cmp x ys)"
  using assms
proof (induction ys)
  case (Cons y ys)
  have sub: "preorder_on_list cmp (x # ys)"
    by (rule preorder_subset [OF Cons.prems(1)]) auto
  show ?case
  proof (cases "cmp x y \<le> 0")
    case True
    have "\<forall>z \<in> set ys. cmp x z \<le> 0"
    proof
      fix z assume "z \<in> set ys"
      with Cons.prems(2) show "cmp x z \<le> 0" by (intro preorder_trans [OF Cons.prems(1) _ _ _ True]) auto
    qed
    with True Cons.prems(2) show ?thesis by simp
  next
    case False
    then have "cmp y x \<le> 0" using preorder_total [OF Cons.prems(1), of x y] by auto
    with False Cons.IH [OF sub] Cons.prems(2) show ?thesis by simp
  qed
qed simp

lemma sort_by_sorted: "preorder_on_list cmp xs \<Longrightarrow> sorted_wrt (\<lambda>r s. cmp r s \<le> 0) (sort_by cmp xs)"
proof (induction xs)
  case (Cons x xs)
  have e: "set (sort_by cmp xs) = set xs" by (metis set_mset_mset sort_by_mset)
  have "preorder_on_list cmp xs"
    by (rule preorder_subset [OF Cons.prems]) auto
  then have "sorted_wrt (\<lambda>r s. cmp r s \<le> 0) (sort_by cmp xs)" by (rule Cons.IH)
  moreover have "preorder_on_list cmp (x # sort_by cmp xs)"
    by (rule preorder_subset [OF Cons.prems]) (use e in auto)
  ultimately show ?case using insert_by_sorted by (simp add: sort_by_def)
qed (simp add: sort_by_def)

text \<open>The invariant of the search: nothing before the window is less or equal, nothing after it greater or
  equal.\<close>

lemma search_by_Some:
  "start + num \<le> length xs \<Longrightarrow> search_by cmp k xs start num = Some i \<Longrightarrow> i < length xs \<and> cmp k (xs ! i) = 0"
proof (induction cmp k xs start num rule: search_by.induct [case_names step])
  case (step cmp k xs start num)
  define mid where "mid = start + num div 2"
  have m: "num \<noteq> 0" using step.prems by (cases "num = 0") (simp_all add: search_by.simps [of cmp k xs start 0])
  have "start + num div 2 \<le> length xs" "mid + 1 + (num - num div 2 - 1) \<le> length xs" "mid < length xs"
    using m step.prems by (auto simp: mid_def)
  with step.prems(2) step.IH(1) [OF m mid_def] step.IH(2) [OF m mid_def] m show ?case
    by (auto simp: search_by.simps [of cmp k xs start num] Let_def mid_def [symmetric] split: if_splits)
qed

lemma search_by_None:
  assumes "sorted_wrt (\<lambda>r s. cmp k s \<le> (cmp k r :: int)) xs"
  shows "start + num \<le> length xs \<Longrightarrow> search_by cmp k xs start num = None \<Longrightarrow>
    i \<in> {start..<start + num} \<Longrightarrow> cmp k (xs ! i) \<noteq> 0"
  using assms
proof (induction cmp k xs start num rule: search_by.induct [case_names step])
  case (step cmp k xs start num)
  define mid where "mid = start + num div 2"
  have m: "num \<noteq> 0" using step.prems by auto
  have b: "start + num div 2 \<le> length xs" "mid + 1 + (num - num div 2 - 1) \<le> length xs" "mid < length xs"
    using m step.prems by (auto simp: mid_def)
  have mono: "cmp k (xs ! j) \<le> cmp k (xs ! i)" if "i \<le> j" "j < length xs" for i j
    using step.prems(4) that by (cases "i = j") (auto simp: sorted_wrt_iff_nth_less)
  consider "cmp k (xs ! mid) < 0" "search_by cmp k xs start (num div 2) = None" |
    "cmp k (xs ! mid) > 0" "search_by cmp k xs (mid + 1) (num - num div 2 - 1) = None"
    using step.prems(2) m
    by (auto simp: search_by.simps [of cmp k xs start num] Let_def mid_def [symmetric] split: if_splits)
  then show ?case
  proof cases
    case 1
    show ?thesis
    proof (cases "mid \<le> i")
      case True
      with 1 mono [of mid i] step.prems show ?thesis by auto
    next
      case False
      then have "i \<in> {start..<start + num div 2}" using step.prems by (simp add: mid_def)
      from step.IH(1) [OF m mid_def 1(1) b(1) 1(2) this step.prems(4)] show ?thesis .
    qed
  next
    case 2
    show ?thesis
    proof (cases "i \<le> mid")
      case True
      with 2 mono [of i mid] b show ?thesis by auto
    next
      case False
      then have i: "i \<in> {mid + 1..<mid + 1 + (num - num div 2 - 1)}" using step.prems by (auto simp: mid_def)
      have "\<not> cmp k (xs ! mid) < 0" using 2 by simp
      from step.IH(2) [OF m mid_def this 2(1) b(2) 2(2) i step.prems(4)] show ?thesis .
    qed
  qed
qed

lemma fresh_bus_fresh: "fresh_bus h = Some p \<Longrightarrow> p \<noteq> 0 \<and> h p = None"
  by (auto simp: fresh_bus_def find_Some_iff nth_upt)

lemma example_bus_ok: "bus_lib_ok example_bus_lib"
  unfolding bus_lib_ok_def
proof (intro conjI allI impI)
  fix cmp k xs i assume "bsearch example_bus_lib cmp k xs = Some i"
  then show "i < length xs" "cmp k (xs ! i) = 0"
    using search_by_Some [of 0 "length xs" xs cmp k i] by (simp_all add: example_bus_lib_def)
next
  fix cmp k xs
  assume "sorted_wrt (\<lambda>r s. cmp k s \<le> cmp k r) xs" "bsearch example_bus_lib cmp k xs = None"
  then show "\<forall>e \<in> set xs. cmp k e \<noteq> 0"
    using search_by_None [of cmp k xs 0 "length xs"] by (auto simp: example_bus_lib_def in_set_conv_nth)
next
  fix h p assume "alloc_bus example_bus_lib h = Some p"
  then show "p \<noteq> 0" "h p = None" using fresh_bus_fresh by (simp_all add: example_bus_lib_def)
qed (simp_all add: example_bus_lib_def sort_by_sorted)

subsection \<open>Well-formed tables\<close>

datatype bus_request = Register nat u64 u32 nat | Unregister nat nat

definition bus_step :: "'s bus_lib \<Rightarrow> bus_request \<Rightarrow> kvm_buses \<Rightarrow> (int \<times> kvm_buses) option" where
  "bus_step L q k = (case q of
     Register i addr len dev \<Rightarrow> kvm_io_bus_register_dev L k i addr len dev
   | Unregister i dev \<Rightarrow> kvm_io_bus_unregister_dev L k i dev)"

primrec bus_steps :: "'s bus_lib \<Rightarrow> bus_request list \<Rightarrow> kvm_buses \<Rightarrow> kvm_buses option" where
  "bus_steps L [] k = Some k"
| "bus_steps L (q # qs) k = do { (r, k1) \<leftarrow> bus_step L q k; bus_steps L qs k1 }"





text \<open>Two empty buses, and a request to each.\<close>

definition empty_bus :: kvm_io_bus where
  "empty_bus = \<lparr>dev_count = 0, ioeventfd_count = 0, bus_range = []\<rparr>"

definition example_buses :: kvm_buses where
  "example_buses = \<lparr>buses = Suc, bus_heap = [1 \<mapsto> empty_bus, 2 \<mapsto> empty_bus]\<rparr>"

lemma example_buses_ok: "buses_ok 2 example_buses"
proof -
  have "\<exists>bus. bus_heap example_buses (Suc i) = Some bus \<and> bus_ok bus" if "i < 2" for i
    using that by (auto simp: less_2_cases_iff example_buses_def bus_ok_def table_sorted_def empty_bus_def)
  moreover have "dom (bus_heap example_buses) = Suc ` {..<2}"
    by (auto simp: example_buses_def image_iff less_2_cases_iff)
  ultimately show ?thesis by (simp add: buses_ok_def example_buses_def inj_on_def)
qed

lemma example_table: "i < 2 \<Longrightarrow> bus_table example_buses i = []"
  by (auto simp: less_2_cases_iff bus_table_def deref_bus_def example_buses_def empty_bus_def)

lemma single_unnested: "range_ok r \<Longrightarrow> unnested {r}"
  by (simp add: unnested_def in_order_refl)


subsection \<open>Dispatch\<close>

text \<open>The access lies in the range; a range of length 0 is matched at its address by any access.\<close>

definition inside :: "u64 \<Rightarrow> u32 \<Rightarrow> kvm_io_range \<Rightarrow> bool" where
  "inside addr len e \<longleftrightarrow>
     (if range_len e = 0 then addr = range_addr e
      else range_addr e \<le> addr \<and> uint addr + sint len \<le> uint (range_addr e) + sint (range_len e))"






subsection \<open>Registering and unregistering\<close>

text \<open>Unregistering a device that was just registered restores the ranges of the bus; the other buses do
  not change.\<close>

theorem bus_register_unregister:
  assumes "bus_lib_ok L" "buses_ok n k" "i < n"
    and "unnested (insert (new_range addr len dev) (set (bus_table k i)))"
    and "\<forall>x \<in> set (bus_table k i). range_dev x \<noteq> dev"
    and "kvm_io_bus_register_dev L k i addr len dev = Some (0, k1)"
    and "kvm_io_bus_unregister_dev L k1 i dev = Some (0, k2)"
  shows "mset (bus_table k2 i) = mset (bus_table k i) \<and>
    (\<forall>j < n. j \<noteq> i \<longrightarrow> bus_table k2 j = bus_table k j)"
proof -
  have k1: "mset (bus_table k1 i) = add_mset (new_range addr len dev) (mset (bus_table k i))"
    using register_ok(2) [OF assms(1-4,6)] by simp
  obtain x where x: "x \<in> set (bus_table k1 i)" "range_dev x = dev" "bus_table k2 i = remove1 x (bus_table k1 i)"
    using unregister_ok(2) [OF assms(1) register_ok(1) [OF assms(1-4,6)] assms(3,7)] by auto
  have "x \<in># add_mset (new_range addr len dev) (mset (bus_table k i))" using x(1) k1 by (metis set_mset_mset)
  then have "x = new_range addr len dev" using assms(5) x(2) by auto
  with x(3) k1 have "mset (bus_table k2 i) = mset (bus_table k i)" by simp
  moreover have "bus_table k2 j = bus_table k j" if "j < n" "j \<noteq> i" for j
    using register_ok(3) [OF assms(1-4,6) that] unregister_ok(3) [OF assms(1) register_ok(1) [OF assms(1-4,6)] assms(3,7) that]
    by simp
  ultimately show ?thesis by blast
qed

theorem bus_register_unregister_witness:
  "\<exists>k1 k2. kvm_io_bus_register_dev example_bus_lib example_buses 0 0x60 4 1 = Some (0, k1) \<and>
     kvm_io_bus_unregister_dev example_bus_lib k1 0 1 = Some (0, k2) \<and> bus_table k2 0 = []"
proof -
  define k1 where "k1 = snd (the (kvm_io_bus_register_dev example_bus_lib example_buses 0 0x60 4 1))"
  define k2 where "k2 = snd (the (kvm_io_bus_unregister_dev example_bus_lib k1 0 1))"
  have "range_ok (new_range 0x60 4 1)" by (simp add: range_ok_def range_fin_def new_range_def)
  then have u: "unnested (insert (new_range 0x60 4 1) (set (bus_table example_buses 0)))"
    by (simp add: example_table single_unnested)
  have "map_option fst (kvm_io_bus_register_dev example_bus_lib example_buses 0 0x60 4 1) = Some 0"
    by code_simp
  then have r1: "kvm_io_bus_register_dev example_bus_lib example_buses 0 0x60 4 1 = Some (0, k1)"
    by (auto simp: k1_def)
  have "map_option fst (kvm_io_bus_unregister_dev example_bus_lib
      (snd (the (kvm_io_bus_register_dev example_bus_lib example_buses 0 0x60 4 1))) 0 1) = Some 0"
    by code_simp
  then have r2: "kvm_io_bus_unregister_dev example_bus_lib k1 0 1 = Some (0, k2)"
    by (auto simp: k1_def k2_def)
  have "mset (bus_table k2 0) = mset (bus_table example_buses 0)"
    using bus_register_unregister [OF example_bus_ok example_buses_ok _ u _ r1 r2] by (simp add: example_table)
  with r1 r2 show ?thesis by (auto simp: example_table)
qed

subsection \<open>Nested ranges\<close>

text \<open>On nested ranges the search is not complete, although the comment of the comparison says that any order
  of overlapping ranges is acceptable: with a range of 8 bytes at 0 and two of 2 bytes inside it, a write of 2
  bytes at 6 is not offered to the first device, and the result is \<^verbatim>\<open>-EOPNOTSUPP\<close>, for a sort and a
  search that keep their contracts.\<close>

theorem nested_range_missed:
  "bus_lib_ok example_bus_lib \<and>
   (\<exists>k. bus_steps example_bus_lib [Register 0 0 8 1, Register 0 2 2 3, Register 0 4 2 4] example_buses = Some k \<and>
     (\<exists>e \<in> set (bus_table k 0). inside 6 2 e \<and> range_dev e = 1) \<and>
     kvm_io_bus_write example_bus_lib k 0 6 2 [7, 8] [] = Some (-95, []))"
proof -
  have "case bus_steps example_bus_lib [Register 0 0 8 1, Register 0 2 2 3, Register 0 4 2 4] example_buses of
      None \<Rightarrow> False
    | Some k \<Rightarrow> (\<exists>e \<in> set (bus_table k 0). inside 6 2 e \<and> range_dev e = 1) \<and>
        kvm_io_bus_write example_bus_lib k 0 6 2 [7, 8] [] = Some (-95, [])"
    by code_simp
  then show ?thesis using example_bus_ok by (auto split: option.splits simp del: bus_steps.simps)
qed

end
