(* ===== verification/Frames.thy ===== *)
theory Frames
  imports Prelude
begin

text \<open>
  The pool of page frames that the introspection EPTs are built from (\<^verbatim>\<open>kvm/imee.c\<close>,
  \<^verbatim>\<open>do_alloc_ept_frames\<close> to \<^verbatim>\<open>get_ept_page\<close>). The kernel's page allocator
  \<^verbatim>\<open>__get_free_pages\<close> is the parameter \<open>gfpages\<close>: \<open>gfpages n\<close> is what its
  \<open>n\<close>-th call returns, 0 for NULL. A pointer into the kernel's direct map is represented by the
  physical address of what it points to, so \<^verbatim>\<open>__pa\<close> and \<^verbatim>\<open>__va\<close> do not
  change its representation. The memory maps the address of a page of 512 entries to its entries.
\<close>

subsection \<open>State\<close>

record host =
  p_bases :: "u64 list"      \<comment> \<open>\<^verbatim>\<open>void* p_bases[NBASE]\<close>\<close>
  p_base :: u64
  p_base_idx :: nat
  p_idx :: nat
  gfpages_calls :: nat           \<comment> \<open>number of calls of \<^verbatim>\<open>__get_free_pages\<close> so far\<close>
  freed :: "u64 list"        \<comment> \<open>arguments of the calls of \<^verbatim>\<open>free_pages\<close>, in order\<close>
  ept_mem :: "u64 \<Rightarrow> idx9 \<Rightarrow> u64"

definition NBASE :: nat where "NBASE = 4"
definition PAGE_ORDER :: nat where "PAGE_ORDER = 10"
definition PAGE_SIZE :: u64 where "PAGE_SIZE = 0x1000"

lemmas frame_consts = NBASE_def PAGE_ORDER_def PAGE_SIZE_def

subsection \<open>Operations\<close>

text \<open>The parameter \<^verbatim>\<open>base\<close> is passed by value and overwritten, so the slot of
  \<^verbatim>\<open>p_bases\<close> that the caller names is read and never written.\<close>

definition do_alloc_ept_frames :: "(nat \<Rightarrow> u64) \<Rightarrow> u64 \<Rightarrow> host \<Rightarrow> u64 \<times> host" where
  "do_alloc_ept_frames gfpages base s = (gfpages (gfpages_calls s), s\<lparr>gfpages_calls := Suc (gfpages_calls s)\<rparr>)"

definition init_ept_frames :: "(nat \<Rightarrow> u64) \<Rightarrow> host \<Rightarrow> host" where
  "init_ept_frames gfpages s =
     (if p_base s = 0 then
        (let s1 = s\<lparr>p_idx := 0, p_base_idx := 0\<rparr>;
             (b, s2) = do_alloc_ept_frames gfpages (p_bases s1 ! p_base_idx s1) s1
         in s2\<lparr>p_base := b\<rparr>)
      else s)"

text \<open>\<^verbatim>\<open>for (i = 0; i <= p_base_idx; i++)\<close>: an access of \<^verbatim>\<open>p_bases\<close>
  out of its bounds is \<open>None\<close>.\<close>

fun release_bases :: "nat list \<Rightarrow> host \<Rightarrow> host option" where
  "release_bases [] s = Some s"
| "release_bases (i # is) s =
     (if i < NBASE
      then release_bases is
             (s\<lparr>freed := freed s @ [p_bases s ! i], p_bases := (p_bases s)[i := 0]\<rparr>)
      else None)"

definition release_ept_frames :: "host \<Rightarrow> host option" where
  "release_ept_frames s =
     map_option (\<lambda>s'. s'\<lparr>p_base_idx := 0, p_base := 0, p_idx := 0\<rparr>)
       (release_bases [0..<Suc (p_base_idx s)] s)"

definition get_ept_page :: "(nat \<Rightarrow> u64) \<Rightarrow> host \<Rightarrow> u64 \<times> host" where
  "get_ept_page gfpages s =
     (if p_base s \<noteq> 0 then
        (let s1 = s\<lparr>p_idx := p_idx s + 1\<rparr>
         in if p_idx s1 < 2 ^ PAGE_ORDER then
              (let p = p_base s1 + of_nat (p_idx s1) * PAGE_SIZE
               in (p, s1\<lparr>ept_mem := (ept_mem s1)(p := (\<lambda>i. 0))\<rparr>))
            else
              (let s2 = s1\<lparr>p_base_idx := p_base_idx s1 + 1\<rparr>
               in if p_base_idx s2 < NBASE then
                    (let (b, s3) = do_alloc_ept_frames gfpages (p_bases s2 ! p_base_idx s2) s2;
                         s4 = s3\<lparr>p_base := b, p_idx := 0\<rparr>
                     in (p_base s4, s4))
                  else (0, s2)))
      else (0, s))"

subsection \<open>Page addresses\<close>

text \<open>\<^verbatim>\<open>EPT_MASK\<close> of the 64-bit build: the twelve low bits and bit 63.\<close>

definition EPT_MASK :: u64 where "EPT_MASK = 0xFFF OR push_bit 63 1"

definition page_addr :: "u64 \<Rightarrow> bool" where
  "page_addr p \<longleftrightarrow> p AND EPT_MASK = 0"

lemma EPT_MASK_val: "EPT_MASK = 0x8000000000000FFF"
  by (simp add: EPT_MASK_def)

lemma EPT_MASK_bit [bit_simps]: "bit EPT_MASK n \<longleftrightarrow> n < 12 \<or> n = 63"
  unfolding EPT_MASK_def bit_or_iff
  by (auto simp: bit_push_bit_iff bit_1_iff bit_mask_int simp del: push_bit_of_1 push_bit_numeral)

lemma page_addr_bits: "page_addr p \<longleftrightarrow> (\<forall>n. n < 12 \<or> n = 63 \<longrightarrow> \<not> bit p n)"
proof -
  have "page_addr p \<longleftrightarrow> (\<forall>n. \<not> bit (p AND EPT_MASK) n)"
    unfolding page_addr_def by (metis bit_0_eq bit_word_eqI bot_apply bot_bool_def)
  then show ?thesis by (auto simp: bit_simps)
qed

lemma page_addr_mask: "page_addr (x AND NOT EPT_MASK)"
  by (auto simp: page_addr_bits bit_simps)

lemma page_addr_clear: "page_addr p \<Longrightarrow> p AND NOT EPT_MASK = p"
  by (rule bit_word_eqI) (auto simp: page_addr_bits bit_simps)

text \<open>The entry the code writes for a table, \<^verbatim>\<open>__pa (tbl) | 0x7\<close>, gives the table back
  under \<^verbatim>\<open>& ~EPT_MASK\<close> and is never 0.\<close>

lemma table_entry_addr:
  assumes "page_addr p"
  shows "(p OR 7) AND NOT EPT_MASK = p"
  by (rule bit_word_eqI) (use assms in \<open>auto simp: page_addr_bits bit_simps bit_mask_int\<close>)

lemma table_entry_nonzero: "p OR (7 :: u64) \<noteq> 0"
proof
  assume "p OR (7 :: u64) = 0"
  then have "bit (p OR (7 :: u64)) 0 = bit (0 :: u64) 0" by simp
  then show False by (simp add: bit_simps bit_mask_int)
qed

subsection \<open>The sequence of frames the pool hands out\<close>

text \<open>\<open>frame gfpages c n\<close> is page number \<open>n\<close> of the pool whose first chunk came from call
  \<open>c\<close> of \<^verbatim>\<open>__get_free_pages\<close>: chunks hold 1024 pages of 4096 bytes.\<close>

definition frame :: "(nat \<Rightarrow> u64) \<Rightarrow> nat \<Rightarrow> nat \<Rightarrow> u64" where
  "frame gfpages c n = gfpages (c + n div 1024) + of_nat (n mod 1024) * 0x1000"

definition pool_at :: "(nat \<Rightarrow> u64) \<Rightarrow> nat \<Rightarrow> nat \<Rightarrow> host \<Rightarrow> bool" where
  "pool_at gfpages c n s \<longleftrightarrow>
     p_base s = gfpages (c + n div 1024) \<and> p_base_idx s = n div 1024 \<and> p_idx s = n mod 1024 \<and>
     gfpages_calls s = c + n div 1024 + 1"

lemma init_pool_at:
  "p_base s = 0 \<Longrightarrow> pool_at gfpages (gfpages_calls s) 0 (init_ept_frames gfpages s)"
  by (simp add: pool_at_def init_ept_frames_def do_alloc_ept_frames_def)

lemma chunk_less: "n < 4096 \<Longrightarrow> n div 1024 < (4 :: nat)"
  by (simp add: div_less_iff_less_mult)

lemma div_mod_Suc_1024:
  "Suc n mod 1024 \<noteq> 0 \<Longrightarrow>
     Suc n div 1024 = n div 1024 \<and> Suc n mod 1024 = Suc (n mod 1024) \<and> Suc (n mod 1024) < 1024"
  "Suc n mod 1024 = 0 \<Longrightarrow> Suc n div 1024 = Suc (n div 1024) \<and> Suc (n mod 1024) = 1024"
  using mod_less_divisor [of 1024 n] by (auto simp: mod_Suc div_Suc split: if_splits)

lemma get_ept_page_in_chunk:
  assumes "pool_at gfpages c n s" "p_base s \<noteq> 0" "Suc n mod 1024 \<noteq> 0"
  shows "get_ept_page gfpages s =
    (frame gfpages c (Suc n),
     s\<lparr>p_idx := Suc n mod 1024, ept_mem := (ept_mem s)(frame gfpages c (Suc n) := (\<lambda>i. 0))\<rparr>)"
proof -
  note d = div_mod_Suc_1024(1) [OF assms(3)]
  have lt: "p_idx s + 1 < 2 ^ PAGE_ORDER" and pi: "p_idx s + 1 = Suc n mod 1024"
    using assms(1) d by (simp_all add: pool_at_def PAGE_ORDER_def)
  have pb: "p_base s = gfpages (c + Suc n div 1024)"
    using assms(1) d by (simp add: pool_at_def)
  show ?thesis
    unfolding get_ept_page_def Let_def frame_def PAGE_SIZE_def
    using assms(2) lt by (simp add: pi pb del: One_nat_def Suc_eq_plus1)
qed

lemma get_ept_page_new_chunk:
  assumes "pool_at gfpages c n s" "p_base s \<noteq> 0" "Suc n mod 1024 = 0" "Suc n < 4096"
  shows "get_ept_page gfpages s =
    (frame gfpages c (Suc n),
     s\<lparr>p_idx := 0, p_base_idx := Suc n div 1024, p_base := gfpages (c + Suc n div 1024),
       gfpages_calls := Suc (gfpages_calls s)\<rparr>)"
proof -
  note d = div_mod_Suc_1024(2) [OF assms(3)]
  have full: "\<not> p_idx s + 1 < 2 ^ PAGE_ORDER"
    using assms(1) d by (simp add: pool_at_def PAGE_ORDER_def)
  have bi: "p_base_idx s + 1 = Suc n div 1024" and calls: "gfpages_calls s = c + Suc n div 1024"
    using assms(1) d by (simp_all add: pool_at_def)
  have more: "Suc n div 1024 < NBASE"
    using chunk_less [OF assms(4)] by (simp add: NBASE_def)
  show ?thesis
    unfolding get_ept_page_def Let_def frame_def do_alloc_ept_frames_def
    using assms(2,3) full more by (simp add: bi calls del: One_nat_def Suc_eq_plus1)
qed

lemma get_ept_page_exhausted:
  assumes "pool_at gfpages c 4095 s" "p_base s \<noteq> 0"
  shows "get_ept_page gfpages s = (0, s\<lparr>p_idx := 1024, p_base_idx := 4\<rparr>)"
  using assms by (simp add: get_ept_page_def pool_at_def frame_consts)

lemma get_ept_page_pool_at:
  assumes "pool_at gfpages c n s" "p_base s \<noteq> 0" "Suc n < 4096"
  shows "fst (get_ept_page gfpages s) = frame gfpages c (Suc n)"
    and "pool_at gfpages c (Suc n) (snd (get_ept_page gfpages s))"
proof -
  show "fst (get_ept_page gfpages s) = frame gfpages c (Suc n)"
    using get_ept_page_in_chunk [OF assms(1,2)] get_ept_page_new_chunk [OF assms(1,2) _ assms(3)]
    by (cases "Suc n mod 1024 = 0") auto
  show "pool_at gfpages c (Suc n) (snd (get_ept_page gfpages s))"
  proof (cases "Suc n mod 1024 = 0")
    case True
    with assms show ?thesis
      using get_ept_page_new_chunk [OF assms(1,2) True assms(3)] div_mod_Suc_1024(2) [OF True]
      unfolding pool_at_def by simp
  next
    case False
    with assms show ?thesis
      using get_ept_page_in_chunk [OF assms(1,2) False] div_mod_Suc_1024(1) [OF False]
      unfolding pool_at_def by simp
  qed
qed

text \<open>\<open>n\<close> calls in a row and what they return.\<close>

fun alloc_pages :: "(nat \<Rightarrow> u64) \<Rightarrow> nat \<Rightarrow> host \<Rightarrow> u64 list \<times> host" where
  "alloc_pages gfpages 0 s = ([], s)"
| "alloc_pages gfpages (Suc n) s =
     (let (p, s1) = get_ept_page gfpages s; (ps, s2) = alloc_pages gfpages n s1 in (p # ps, s2))"

lemma alloc_pages_from:
  assumes "pool_at gfpages c m s" "m + n < 4096" "\<forall>k<4. gfpages (c + k) \<noteq> 0"
  shows "fst (alloc_pages gfpages n s) = map (frame gfpages c) [Suc m..<Suc (m + n)] \<and>
    pool_at gfpages c (m + n) (snd (alloc_pages gfpages n s))"
  using assms
proof (induction n arbitrary: m s)
  case 0
  then show ?case by simp
next
  case (Suc n)
  have "m div 1024 < 4" using Suc.prems(2) by (simp add: chunk_less)
  then have nz: "p_base s \<noteq> 0" using Suc.prems(1,3) by (simp add: pool_at_def)
  obtain p s1 where g: "get_ept_page gfpages s = (p, s1)" by fastforce
  have p: "p = frame gfpages c (Suc m)" and at: "pool_at gfpages c (Suc m) s1"
    using get_ept_page_pool_at [OF Suc.prems(1) nz] Suc.prems(2) g by simp_all
  have ih: "fst (alloc_pages gfpages n s1) = map (frame gfpages c) [Suc (Suc m)..<Suc (Suc m + n)] \<and>
      pool_at gfpages c (Suc m + n) (snd (alloc_pages gfpages n s1))"
    using Suc.IH [OF at _ Suc.prems(3)] Suc.prems(2) by simp
  have ups: "[Suc m..<Suc (m + Suc n)] = Suc m # [Suc (Suc m)..<Suc (Suc m + n)]"
    by (simp add: upt_rec del: upt_Suc)
  show ?case
    using ih unfolding ups
    by (cases "alloc_pages gfpages n s1") (simp add: g p del: upt_Suc)
qed

text \<open>Distinct chunks do not overlap and do not wrap: what \<^verbatim>\<open>__get_free_pages\<close> promises of
  blocks that are live at the same time.\<close>

definition chunks_disjoint :: "(nat \<Rightarrow> u64) \<Rightarrow> nat \<Rightarrow> bool" where
  "chunks_disjoint gfpages c \<longleftrightarrow>
     (\<forall>i<4. gfpages (c + i) \<noteq> 0 \<and> unat (gfpages (c + i)) + 2 ^ 22 \<le> 2 ^ 64) \<and>
     (\<forall>i<4. \<forall>j<i. unat (gfpages (c + i)) + 2 ^ 22 \<le> unat (gfpages (c + j)) \<or>
                 unat (gfpages (c + j)) + 2 ^ 22 \<le> unat (gfpages (c + i)))"

lemma page_off: "n mod 1024 * 4096 < (2 ^ 22 :: nat)"
proof -
  have "n mod 1024 * 4096 < 1024 * (4096 :: nat)"
    using mod_less_divisor [of 1024 n] by (simp only: mult_less_mono1)
  then show ?thesis by simp
qed

lemma unat_frame:
  assumes "chunks_disjoint gfpages c" "n < 4096"
  shows "unat (frame gfpages c n) = unat (gfpages (c + n div 1024)) + (n mod 1024) * 4096"
proof -
  let ?b = "gfpages (c + n div 1024)"
  have "n div 1024 < 4" using assms(2) by (rule chunk_less)
  then have b: "unat ?b + 2 ^ 22 \<le> 2 ^ 64"
    using assms(1) by (simp add: chunks_disjoint_def)
  have m: "n mod 1024 * 4096 < 2 ^ 22" by (rule page_off)
  have "unat (of_nat (n mod 1024 * 4096) :: u64) = n mod 1024 * 4096"
    by (rule of_nat_inverse [OF refl]) (use m in simp)
  then have o: "unat (of_nat (n mod 1024) * 0x1000 :: u64) = n mod 1024 * 4096"
    by simp
  have "unat ?b + n mod 1024 * 4096 < 2 ^ 64" using b m by linarith
  then have "unat (?b + of_nat (n mod 1024) * 0x1000) = unat ?b + n mod 1024 * 4096"
    by (subst unat_add_lem [THEN iffD1]) (simp_all only: o, simp_all)
  then show ?thesis by (simp only: frame_def)
qed

lemma frame_inj:
  assumes d: "chunks_disjoint gfpages c" and "m < 4096" "n < 4096"
    and eq: "frame gfpages c m = frame gfpages c n"
  shows "m = n"
proof -
  let ?b = "\<lambda>k. unat (gfpages (c + k))"
  have e: "?b (m div 1024) + (m mod 1024) * 4096 = ?b (n div 1024) + (n mod 1024) * 4096"
    using arg_cong [OF eq, of unat] unat_frame [OF d] assms(2,3) by simp
  have lt: "m div 1024 < 4" "n div 1024 < 4" using assms(2,3) by (simp_all add: chunk_less)
  have mm: "m mod 1024 * 4096 < 2 ^ 22" "n mod 1024 * 4096 < 2 ^ 22" by (rule page_off)+
  have same: "m div 1024 = n div 1024"
  proof (rule ccontr)
    assume ne: "m div 1024 \<noteq> n div 1024"
    then have "?b (m div 1024) + 2 ^ 22 \<le> ?b (n div 1024) \<or> ?b (n div 1024) + 2 ^ 22 \<le> ?b (m div 1024)"
      using d lt unfolding chunks_disjoint_def by (metis linorder_neqE_nat)
    with e mm show False by linarith
  qed
  with e have "m mod 1024 = n mod 1024" by simp
  with same show ?thesis by (metis div_mult_mod_eq)
qed

subsection \<open>Giving the pool back\<close>

text \<open>The pool's own operations as steps, from its state at module load
  (\<^verbatim>\<open>p_bases\<close>, \<^verbatim>\<open>p_base\<close> and the indices are zero-initialised globals).\<close>

definition boot_pool :: "host \<Rightarrow> bool" where
  "boot_pool s \<longleftrightarrow> p_bases s = replicate NBASE 0 \<and> p_base s = 0 \<and> freed s = []"

inductive pool_step :: "(nat \<Rightarrow> u64) \<Rightarrow> host \<Rightarrow> host \<Rightarrow> bool" for gfpages where
  init: "pool_step gfpages s (init_ept_frames gfpages s)"
| alloc: "get_ept_page gfpages s = (p, s') \<Longrightarrow> pool_step gfpages s s'"
| release: "release_ept_frames s = Some s' \<Longrightarrow> pool_step gfpages s s'"
| store: "pool_step gfpages s (s\<lparr>ept_mem := m\<rparr>)"

inductive pool_reach :: "(nat \<Rightarrow> u64) \<Rightarrow> host \<Rightarrow> bool" for gfpages where
  boot: "boot_pool s \<Longrightarrow> pool_reach gfpages s"
| step: "pool_reach gfpages s \<Longrightarrow> pool_step gfpages s s' \<Longrightarrow> pool_reach gfpages s'"

lemma get_ept_page_frame:
  "get_ept_page gfpages s = (p, s') \<Longrightarrow> p_bases s' = p_bases s \<and> freed s' = freed s"
  by (auto simp: get_ept_page_def do_alloc_ept_frames_def Let_def split: if_splits)

lemma init_ept_frames_frame:
  "p_bases (init_ept_frames gfpages s) = p_bases s \<and> freed (init_ept_frames gfpages s) = freed s"
  by (simp add: init_ept_frames_def do_alloc_ept_frames_def Let_def)

lemma release_bases_zero:
  assumes "release_bases is s = Some s'" "p_bases s = replicate NBASE 0" "set (freed s) \<subseteq> {0}"
  shows "p_bases s' = replicate NBASE 0 \<and> set (freed s') \<subseteq> {0}"
  using assms
proof (induction "is" arbitrary: s)
  case Nil
  then show ?case by simp
next
  case (Cons i "is")
  have i: "i < NBASE" using Cons.prems(1) by (simp split: if_splits)
  let ?s = "s\<lparr>freed := freed s @ [p_bases s ! i], p_bases := (p_bases s)[i := 0]\<rparr>"
  have b: "(p_bases s)[i := 0] = replicate NBASE 0"
    using i Cons.prems(2) by (metis list_update_id nth_replicate)
  show ?case
    by (rule Cons.IH [of ?s]) (use Cons.prems i b in auto)
qed

lemma pool_reach_nothing_freed:
  "pool_reach gfpages s \<Longrightarrow> p_bases s = replicate NBASE 0 \<and> set (freed s) \<subseteq> {0}"
proof (induction rule: pool_reach.induct)
  case (boot s)
  then show ?case by (simp add: boot_pool_def)
next
  case (step s s')
  from step.hyps(2) show ?case
  proof cases
    case init
    with step.IH show ?thesis by (simp add: init_ept_frames_frame)
  next
    case (alloc p)
    with step.IH show ?thesis using get_ept_page_frame by fastforce
  next
    case release
    then obtain s1 where "release_bases [0..<Suc (p_base_idx s)] s = Some s1"
      and "s' = s1\<lparr>p_base_idx := 0, p_base := 0, p_idx := 0\<rparr>"
      by (auto simp: release_ept_frames_def simp del: upt_Suc)
    with step.IH show ?thesis using release_bases_zero by fastforce
  next
    case (store m)
    with step.IH show ?thesis by simp
  qed
qed

lemma release_bases_bound:
  "(release_bases is s \<noteq> None) = (\<forall>i \<in> set is. i < NBASE)"
  by (induction "is" arbitrary: s) auto

lemma release_ept_frames_defined:
  "(release_ept_frames s \<noteq> None) = (p_base_idx s < NBASE)"
proof -
  have "(release_ept_frames s \<noteq> None) = (\<forall>i \<in> set [0..<Suc (p_base_idx s)]. i < NBASE)"
    using release_bases_bound [of "[0..<Suc (p_base_idx s)]" s]
    by (auto simp: release_ept_frames_def simp del: upt_Suc)
  also have "\<dots> = (p_base_idx s < NBASE)" by auto
  finally show ?thesis .
qed

subsection \<open>The pool as an interface\<close>

text \<open>
  What the paging code relies on: while frames are available, an allocation returns a page
  address from the set of future frames, removes it from that set, and zeroes it, touching no
  other page. \<open>cells\<close> reads the memory, \<open>future\<close> is the set of frames not handed out yet.
\<close>

locale frame_pool =
  fixes alloc :: "'s \<Rightarrow> u64 \<times> 's"
    and avail :: "'s \<Rightarrow> nat"
    and future :: "'s \<Rightarrow> u64 set"
    and cells :: "'s \<Rightarrow> u64 \<Rightarrow> idx9 \<Rightarrow> u64"
  assumes alloc_page: "0 < avail s \<Longrightarrow> page_addr (fst (alloc s)) \<and> fst (alloc s) \<noteq> 0"
    and alloc_future: "0 < avail s \<Longrightarrow> fst (alloc s) \<in> future s"
    and future_alloc: "0 < avail s \<Longrightarrow> future (snd (alloc s)) = future s - {fst (alloc s)}"
    and avail_alloc: "0 < avail s \<Longrightarrow> avail (snd (alloc s)) = avail s - 1"
    and cells_alloc: "0 < avail s \<Longrightarrow> cells (snd (alloc s)) = (cells s)(fst (alloc s) := (\<lambda>i. 0))"

text \<open>The frames left in the current chunk: these are the ones \<^verbatim>\<open>get_ept_page\<close> zeroes.
  A chunk is usable when it is not NULL, aligned to its size (as \<^verbatim>\<open>__get_free_pages\<close>
  aligns a block) and below bit 63.\<close>

definition chunk_ok :: "u64 \<Rightarrow> bool" where
  "chunk_ok b \<longleftrightarrow> b \<noteq> 0 \<and> (\<forall>n. n < 22 \<or> n = 63 \<longrightarrow> \<not> bit b n)"

definition avail_frames :: "host \<Rightarrow> nat" where
  "avail_frames s = (if chunk_ok (p_base s) then 1023 - p_idx s else 0)"

definition future_frames :: "host \<Rightarrow> u64 set" where
  "future_frames s = {p_base s + of_nat j * 0x1000 | j. p_idx s < j \<and> j < 1024}"

lemma chunk_page_bits:
  assumes "chunk_ok b" "j < 1024"
  shows "b + of_nat j * 0x1000 = b OR push_bit 12 (of_nat j)"
    and "page_addr (b + of_nat j * 0x1000)" and "b + of_nat j * 0x1000 \<noteq> 0"
proof -
  have j: "bit j n \<Longrightarrow> n < 10" for n
  proof -
    assume "bit j n"
    moreover have "take_bit 10 j = j" using assms(2) by (simp add: take_bit_nat_eq_self)
    ultimately show "n < 10" by (metis bit_take_bit_iff)
  qed
  have "b AND push_bit 12 (of_nat j) = 0"
  proof (rule bit_word_eqI)
    fix n :: nat
    show "bit (b AND push_bit 12 (of_nat j)) n \<longleftrightarrow> bit (0 :: u64) n"
      using assms(1) j [of "n - 12"] by (auto simp: chunk_ok_def bit_simps)
  qed
  then have "b + push_bit 12 (of_nat j) = b OR push_bit 12 (of_nat j)"
    by (simp add: disjunctive_add_eq_or)
  moreover have "push_bit 12 (of_nat j) = of_nat j * (0x1000 :: u64)"
    by (simp add: push_bit_eq_mult)
  ultimately show e: "b + of_nat j * 0x1000 = b OR push_bit 12 (of_nat j)" by simp
  show "page_addr (b + of_nat j * 0x1000)"
    unfolding e page_addr_bits
  proof (intro allI impI)
    fix n :: nat
    assume "n < 12 \<or> n = 63"
    then show "\<not> bit (b OR push_bit 12 (of_nat j)) n"
      using assms(1) j [of "n - 12"] by (auto simp: chunk_ok_def bit_simps)
  qed
  obtain n where n: "bit b n" using assms(1) by (metis bit_word_eqI bit_0_eq bot_apply bot_bool_def chunk_ok_def)
  then have "bit (b OR push_bit 12 (of_nat j)) n" by (simp add: bit_simps)
  then show "b + of_nat j * 0x1000 \<noteq> 0" unfolding e by (metis bit_0_eq bot_apply bot_bool_def)
qed

lemma chunk_page_inj:
  assumes "j < 1024" "k < 1024" "b + of_nat j * 0x1000 = b + of_nat k * (0x1000 :: u64)"
  shows "j = k"
proof -
  have "(of_nat (j * 4096) :: u64) = of_nat (k * 4096)" using assms(3) by simp
  then have "unat (of_nat (j * 4096) :: u64) = unat (of_nat (k * 4096) :: u64)" by simp
  moreover have "unat (of_nat (j * 4096) :: u64) = j * 4096"
    by (rule of_nat_inverse [OF refl]) (use assms(1) in simp)
  moreover have "unat (of_nat (k * 4096) :: u64) = k * 4096"
    by (rule of_nat_inverse [OF refl]) (use assms(2) in simp)
  ultimately show ?thesis by simp
qed

lemma get_ept_page_avail:
  assumes "0 < avail_frames s"
  shows "get_ept_page gfpages s =
    (p_base s + of_nat (Suc (p_idx s)) * 0x1000,
     s\<lparr>p_idx := Suc (p_idx s),
       ept_mem := (ept_mem s)(p_base s + of_nat (Suc (p_idx s)) * 0x1000 := (\<lambda>i. 0))\<rparr>)"
  using assms
  by (auto simp: avail_frames_def chunk_ok_def get_ept_page_def frame_consts Let_def split: if_splits)

lemma future_frames_Suc:
  assumes "0 < avail_frames s"
  shows "future_frames (snd (get_ept_page gfpages s)) =
    future_frames s - {fst (get_ept_page gfpages s)}"
proof -
  have i: "Suc (p_idx s) < 1024" using assms by (auto simp: avail_frames_def split: if_splits)
  have l: "future_frames (snd (get_ept_page gfpages s)) =
      {p_base s + of_nat j * 0x1000 | j. Suc (p_idx s) < j \<and> j < 1024}"
    by (simp add: get_ept_page_avail [OF assms] future_frames_def del: of_nat_Suc)
  have f: "fst (get_ept_page gfpages s) = p_base s + of_nat (Suc (p_idx s)) * 0x1000"
    by (simp add: get_ept_page_avail [OF assms] del: of_nat_Suc)
  show ?thesis
    unfolding l f unfolding future_frames_def
  proof (intro set_eqI iffI)
    fix x
    assume "x \<in> {p_base s + of_nat j * 0x1000 | j. Suc (p_idx s) < j \<and> j < 1024}"
    then obtain j where "x = p_base s + of_nat j * 0x1000" "Suc (p_idx s) < j" "j < 1024" by blast
    then show "x \<in> {p_base s + of_nat j * 0x1000 | j. p_idx s < j \<and> j < 1024} -
        {p_base s + of_nat (Suc (p_idx s)) * 0x1000}"
      using chunk_page_inj [of j "Suc (p_idx s)" "p_base s"] i by auto
  next
    fix x
    assume "x \<in> {p_base s + of_nat j * 0x1000 | j. p_idx s < j \<and> j < 1024} -
        {p_base s + of_nat (Suc (p_idx s)) * 0x1000}"
    then obtain j where j: "x = p_base s + of_nat j * 0x1000" "p_idx s < j" "j < 1024"
      and "j \<noteq> Suc (p_idx s)" by blast
    then have "Suc (p_idx s) < j" by simp
    with j show "x \<in> {p_base s + of_nat j * 0x1000 | j. Suc (p_idx s) < j \<and> j < 1024}" by blast
  qed
qed

interpretation ept_pool: frame_pool "get_ept_page gfpages" avail_frames future_frames ept_mem
  for gfpages
proof
  fix s :: host
  assume a: "0 < avail_frames s"
  have c: "chunk_ok (p_base s)" and i: "Suc (p_idx s) < 1024"
    using a by (auto simp: avail_frames_def split: if_splits)
  show "page_addr (fst (get_ept_page gfpages s)) \<and> fst (get_ept_page gfpages s) \<noteq> 0"
    unfolding get_ept_page_avail [OF a] fst_conv using chunk_page_bits(2,3) [OF c i] by blast
  show "fst (get_ept_page gfpages s) \<in> future_frames s"
    unfolding get_ept_page_avail [OF a] fst_conv future_frames_def using i by blast
  show "future_frames (snd (get_ept_page gfpages s)) =
      future_frames s - {fst (get_ept_page gfpages s)}"
    by (rule future_frames_Suc [OF a])
  show "avail_frames (snd (get_ept_page gfpages s)) = avail_frames s - 1"
    unfolding get_ept_page_avail [OF a] by (simp add: avail_frames_def)
  show "ept_mem (snd (get_ept_page gfpages s)) =
      (ept_mem s)(fst (get_ept_page gfpages s) := (\<lambda>i. 0))"
    unfolding get_ept_page_avail [OF a] by simp
qed

end
