(* ===== verification/Page_Tree.thy ===== *)
theory Page_Tree
  imports Frames
begin

text \<open>
  The abstract view of a four-level paging structure: the processor's walk from a root through
  the entries of a memory, the shape invariant the EPT code keeps (\<open>tree\<close>: every table is
  reached along one path only), and the effect of the two kinds of write the code makes, linking a
  table into an empty entry and setting an entry of a last-level table. This is the
  specification side; no definition here translates code.
\<close>

subsection \<open>Walks\<close>

type_synonym ptmem = "u64 \<Rightarrow> idx9 \<Rightarrow> u64"

fun follow :: "ptmem \<Rightarrow> u64 \<Rightarrow> idx9 list \<Rightarrow> u64 option" where
  "follow m t [] = Some t"
| "follow m t (i # is) = (if m t i = 0 then None else follow m (m t i AND NOT EPT_MASK) is)"

text \<open>The indices of a guest physical address at the three upper levels and at the last one.\<close>

definition path3 :: "u64 \<Rightarrow> idx9 list" where
  "path3 g = [ucast (drop_bit 39 g), ucast (drop_bit 30 g), ucast (drop_bit 21 g)]"

definition pt_idx :: "u64 \<Rightarrow> idx9" where
  "pt_idx g = ucast (drop_bit 12 g)"

text \<open>The last-level entry that translates an address, 0 when some level is not present.\<close>

definition xlate :: "ptmem \<Rightarrow> u64 \<Rightarrow> u64 \<Rightarrow> u64" where
  "xlate m r g = (case follow m r (path3 g) of None \<Rightarrow> 0 | Some t \<Rightarrow> m t (pt_idx g))"

definition tables :: "ptmem \<Rightarrow> u64 \<Rightarrow> u64 set" where
  "tables m r = {t. \<exists>q. length q \<le> 3 \<and> follow m r q = Some t}"

definition tree :: "ptmem \<Rightarrow> u64 \<Rightarrow> bool" where
  "tree m r \<longleftrightarrow>
     (\<forall>p q t. length p \<le> 3 \<longrightarrow> length q \<le> 3 \<longrightarrow> follow m r p = Some t \<longrightarrow> follow m r q = Some t \<longrightarrow> p = q)"

text \<open>The page of an address in a 48-bit space.\<close>

definition gpage :: "u64 \<Rightarrow> u64" where
  "gpage g = drop_bit 12 (take_bit 48 g)"

lemma length_path3 [simp]: "length (path3 g) = 3"
  by (simp add: path3_def)

lemma treeD:
  "tree m r \<Longrightarrow> follow m r p = Some t \<Longrightarrow> follow m r q = Some t \<Longrightarrow> length p \<le> 3 \<Longrightarrow> length q \<le> 3 \<Longrightarrow> p = q"
  unfolding tree_def by blast

lemma follow_append:
  "follow m r (p @ q) = (case follow m r p of None \<Rightarrow> None | Some t \<Rightarrow> follow m t q)"
  by (induction p arbitrary: r) auto

lemma follow_snoc:
  "follow m r (p @ [i]) =
    (case follow m r p of None \<Rightarrow> None
     | Some t \<Rightarrow> if m t i = 0 then None else Some (m t i AND NOT EPT_MASK))"
  by (auto simp: follow_append split: option.splits)

lemma follow_cong:
  assumes "\<And>k t. k < length q \<Longrightarrow> follow m r (take k q) = Some t \<Longrightarrow> m' t (q ! k) = m t (q ! k)"
  shows "follow m' r q = follow m r q"
  using assms
proof (induction q arbitrary: r)
  case Nil
  show ?case by simp
next
  case (Cons i q)
  have z: "m' r i = m r i" using Cons.prems [of 0 r] by simp
  show ?case
  proof (cases "m r i = 0")
    case True
    with z show ?thesis by simp
  next
    case False
    have "follow m' (m r i AND NOT EPT_MASK) q = follow m (m r i AND NOT EPT_MASK) q"
    proof (rule Cons.IH)
      fix k t
      assume "k < length q" "follow m (m r i AND NOT EPT_MASK) (take k q) = Some t"
      then show "m' t (q ! k) = m t (q ! k)"
        using Cons.prems [of "Suc k" t] False by simp
    qed
    with False z show ?thesis by simp
  qed
qed

lemma follow_page_addr:
  "page_addr r \<Longrightarrow> follow m r q = Some t \<Longrightarrow> page_addr t"
proof (induction q arbitrary: r)
  case (Cons i q)
  then show ?case using Cons.IH [OF page_addr_mask] by (auto split: if_splits)
qed simp

lemma tables_mem: "follow m r q = Some t \<Longrightarrow> length q \<le> 3 \<Longrightarrow> t \<in> tables m r"
  unfolding tables_def by blast

subsection \<open>Linking a table into an empty entry\<close>

text \<open>\<open>m'\<close> is \<open>m\<close> with the entry \<open>i\<close> of table \<open>t\<close> pointing to \<open>n\<close>, which was not
  reachable; \<open>n\<close> is all zero unless it is a last-level table.\<close>

definition links :: "ptmem \<Rightarrow> ptmem \<Rightarrow> u64 \<Rightarrow> idx9 list \<Rightarrow> u64 \<Rightarrow> idx9 \<Rightarrow> u64 \<Rightarrow> bool" where
  "links m m' r p t i n \<longleftrightarrow>
     tree m r \<and> follow m r p = Some t \<and> length p \<le> 2 \<and> m t i = 0 \<and> page_addr n \<and> n \<notin> tables m r \<and>
     m' t i = n OR 7 \<and> (length p = 2 \<or> (\<forall>j. m' n j = 0)) \<and>
     (\<forall>u \<in> tables m r. \<forall>j. (u, j) \<noteq> (t, i) \<longrightarrow> m' u j = m u j)"

lemma links_follow_other:
  assumes l: "links m m' r p t i n" and q: "length q \<le> 3" and np: "take (Suc (length p)) q \<noteq> p @ [i]"
  shows "follow m' r q = follow m r q"
proof (rule follow_cong)
  fix k u
  assume k: "k < length q" and f: "follow m r (take k q) = Some u"
  have u: "u \<in> tables m r" by (rule tables_mem [OF f]) (use q in auto)
  show "m' u (q ! k) = m u (q ! k)"
  proof (cases "u = t \<and> q ! k = i")
    case True
    with f l q have "take k q = p"
      by (intro treeD [where t = t and m = m and r = r]) (auto simp: links_def)
    with True k have "take (Suc (length p)) q = p @ [i]"
      by (metis length_take less_imp_le_nat min.absorb2 take_Suc_conv_app_nth)
    with np show ?thesis by simp
  next
    case False
    with u l show ?thesis by (auto simp: links_def)
  qed
qed

lemma links_follow_prefix: "links m m' r p t i n \<Longrightarrow> follow m' r p = Some t"
  using links_follow_other [of m m' r p t i n p] by (simp add: links_def)

lemma links_follow_new: "links m m' r p t i n \<Longrightarrow> follow m' r (p @ [i]) = Some n"
  by (simp add: follow_snoc links_follow_prefix)
     (simp add: links_def table_entry_addr table_entry_nonzero)

lemma links_follow_below:
  assumes l: "links m m' r p t i n" and "w \<noteq> []" "length (p @ [i] @ w) \<le> 3"
  shows "follow m' r (p @ [i] @ w) = None" and "follow m r (p @ [i] @ w) = None"
proof -
  have "m' n (hd w) = 0" using assms by (cases w) (auto simp: links_def)
  then have "follow m' n w = None" using assms(2) by (cases w) auto
  then show "follow m' r (p @ [i] @ w) = None"
    using links_follow_new [OF l] by (metis append.assoc follow_append option.simps(5))
  show "follow m r (p @ [i] @ w) = None"
    using l by (auto simp: follow_append links_def)
qed

lemma links_follow_old_new: "links m m' r p t i n \<Longrightarrow> follow m r (p @ [i]) = None"
  by (auto simp: follow_snoc links_def)

lemma links_follow:
  assumes l: "links m m' r p t i n" and q: "length q \<le> 3"
  shows "follow m' r q = (if q = p @ [i] then Some n else follow m r q)"
proof (cases "take (Suc (length p)) q = p @ [i]")
  case False
  then show ?thesis using links_follow_other [OF l q] by auto
next
  case True
  define w where "w = drop (Suc (length p)) q"
  have qw: "q = p @ [i] @ w" unfolding w_def by (metis True append.assoc append_take_drop_id)
  show ?thesis
  proof (cases "w = []")
    case True
    with qw show ?thesis using links_follow_new [OF l] by simp
  next
    case False
    with qw q show ?thesis using links_follow_below [OF l False] by simp
  qed
qed

lemma links_tables: "links m m' r p t i n \<Longrightarrow> tables m' r = insert n (tables m r)"
proof -
  assume l: "links m m' r p t i n"
  then have len: "length (p @ [i]) \<le> 3" by (simp add: links_def)
  show ?thesis
  proof (intro set_eqI iffI)
    fix u
    assume "u \<in> tables m' r"
    then obtain q where "length q \<le> 3" "follow m' r q = Some u" by (auto simp: tables_def)
    then show "u \<in> insert n (tables m r)"
      by (auto simp: links_follow [OF l] intro: tables_mem split: if_splits)
  next
    fix u
    assume "u \<in> insert n (tables m r)"
    then consider "u = n" | q where "length q \<le> 3" "follow m r q = Some u"
      by (auto simp: tables_def)
    then show "u \<in> tables m' r"
    proof cases
      case 1
      with links_follow_new [OF l] len show ?thesis by (auto intro: tables_mem)
    next
      case 2
      then have "follow m' r q = Some u"
        using links_follow [OF l] links_follow_old_new [OF l] by auto
      with 2 show ?thesis by (auto intro: tables_mem)
    qed
  qed
qed

lemma links_tree: "links m m' r p t i n \<Longrightarrow> tree m' r"
  unfolding tree_def
proof (intro allI impI)
  fix q1 q2 u
  assume l: "links m m' r p t i n" and len: "length q1 \<le> 3" "length q2 \<le> 3"
    and f: "follow m' r q1 = Some u" "follow m' r q2 = Some u"
  have n: "follow m r q \<noteq> Some n" if "length q \<le> 3" for q
    using l that unfolding links_def tables_def by blast
  show "q1 = q2"
    using f len n treeD [of m r q1 u q2] l
    by (auto simp: links_follow [OF l] links_def split: if_splits)
qed

text \<open>Last-level tables are not the ones written.\<close>

lemma links_leaf_mem:
  assumes l: "links m m' r p t i n" and f: "follow m r (path3 g) = Some u"
  shows "m' u = m u"
proof -
  have u: "u \<in> tables m r" using f by (rule tables_mem) simp
  have "u \<noteq> t"
  proof
    assume "u = t"
    with f l have "path3 g = p"
      by (intro treeD [where m = m and r = r and t = t]) (auto simp: links_def)
    with l have "length (path3 g) \<le> 2" by (simp add: links_def)
    then show False by simp
  qed
  with u l show ?thesis by (auto simp: links_def)
qed

lemma links_xlate_table:
  assumes l: "links m m' r p t i n" and "length p < 2"
  shows "xlate m' r g = xlate m r g" and "follow m' r (path3 g) = follow m r (path3 g)"
proof -
  have "path3 g \<noteq> p @ [i]"
  proof
    assume "path3 g = p @ [i]"
    then have "length (path3 g) = Suc (length p)" by simp
    with assms(2) show False by simp
  qed
  then show f: "follow m' r (path3 g) = follow m r (path3 g)"
    using links_follow [OF l] by simp
  show "xlate m' r g = xlate m r g"
    using f links_leaf_mem [OF l, of g] by (auto simp: xlate_def split: option.splits)
qed

lemma links_xlate_leaf:
  assumes l: "links m m' r p t i n" and "length p = 2"
  shows "xlate m' r g = (if path3 g = p @ [i] then m' n (pt_idx g) else xlate m r g)"
  using links_follow [OF l, of "path3 g"] links_leaf_mem [OF l, of g]
  by (auto simp: xlate_def split: option.splits)

subsection \<open>Writing a last-level entry\<close>

lemma leaf_write_follow:
  assumes "tree m r" "follow m r q = Some t" "length q = 3" "length q' \<le> 3"
  shows "follow (m(t := (m t)(j := e))) r q' = follow m r q'"
proof (rule follow_cong)
  fix k u
  assume k: "k < length q'" and f: "follow m r (take k q') = Some u"
  have "u \<noteq> t"
  proof
    assume "u = t"
    with f assms(1,2,3,4) have "take k q' = q"
      by (intro treeD [where m = m and r = r and t = t]) auto
    with k assms(3,4) show False by auto
  qed
  then show "(m(t := (m t)(j := e))) u (q' ! k) = m u (q' ! k)" by simp
qed

lemma leaf_write_tables:
  assumes "tree m r" "follow m r q = Some t" "length q = 3"
  shows "tables (m(t := (m t)(j := e))) r = tables m r" and "tree (m(t := (m t)(j := e))) r"
proof -
  show "tables (m(t := (m t)(j := e))) r = tables m r"
    unfolding tables_def using leaf_write_follow [OF assms] by auto
  show "tree (m(t := (m t)(j := e))) r"
    using assms(1) leaf_write_follow [OF assms] unfolding tree_def by auto
qed

lemma leaf_write_xlate:
  assumes "tree m r" "follow m r (path3 g) = Some t"
  shows "xlate (m(t := (m t)(pt_idx g := e))) r g' =
    (if path3 g' = path3 g \<and> pt_idx g' = pt_idx g then e else xlate m r g')"
proof -
  have f: "follow (m(t := (m t)(pt_idx g := e))) r (path3 g') = follow m r (path3 g')"
    by (rule leaf_write_follow [OF assms]) simp_all
  show ?thesis
  proof (cases "follow m r (path3 g')")
    case None
    with assms(2) f show ?thesis by (auto simp: xlate_def)
  next
    case (Some u)
    then have "u = t \<longleftrightarrow> path3 g' = path3 g"
      using assms treeD [of m r "path3 g'" u "path3 g"] by auto
    with Some f show ?thesis by (auto simp: xlate_def)
  qed
qed

subsection \<open>Addresses and paths\<close>

lemma bit_ucast9: "bit (ucast (x :: u64) :: idx9) n \<longleftrightarrow> n < 9 \<and> bit x n"
  by (simp add: bit_simps)

lemma ucast9_eq_iff:
  "(ucast (x :: u64) :: idx9) = ucast (y :: u64) \<longleftrightarrow> (\<forall>n < 9. bit x n = bit y n)"
  by (auto simp: bit_eq_iff bit_ucast9)

lemma path3_eq_iff: "path3 g = path3 g' \<longleftrightarrow> (\<forall>n. 21 \<le> n \<and> n < 48 \<longrightarrow> bit g n = bit g' n)"
proof
  assume "path3 g = path3 g'"
  then have b: "n < 9 \<Longrightarrow> bit g (39 + n) = bit g' (39 + n) \<and> bit g (30 + n) = bit g' (30 + n) \<and>
      bit g (21 + n) = bit g' (21 + n)" for n
    by (auto simp: path3_def ucast9_eq_iff bit_simps)
  show "\<forall>n. 21 \<le> n \<and> n < 48 \<longrightarrow> bit g n = bit g' n"
  proof (intro allI impI)
    fix n :: nat
    assume n: "21 \<le> n \<and> n < 48"
    consider "n < 30" | "30 \<le> n" "n < 39" | "39 \<le> n" by linarith
    then show "bit g n = bit g' n"
      using b [of "n - 21"] b [of "n - 30"] b [of "n - 39"] n by cases auto
  qed
next
  assume "\<forall>n. 21 \<le> n \<and> n < 48 \<longrightarrow> bit g n = bit g' n"
  then show "path3 g = path3 g'" by (auto simp: path3_def ucast9_eq_iff bit_simps)
qed

lemma pt_idx_eq_iff: "pt_idx g = pt_idx g' \<longleftrightarrow> (\<forall>n. 12 \<le> n \<and> n < 21 \<longrightarrow> bit g n = bit g' n)"
proof
  assume "pt_idx g = pt_idx g'"
  then have b: "n < 9 \<Longrightarrow> bit g (12 + n) = bit g' (12 + n)" for n
    by (auto simp: pt_idx_def ucast9_eq_iff bit_simps)
  show "\<forall>n. 12 \<le> n \<and> n < 21 \<longrightarrow> bit g n = bit g' n"
  proof (intro allI impI)
    fix n :: nat
    assume "12 \<le> n \<and> n < 21"
    then show "bit g n = bit g' n" using b [of "n - 12"] by auto
  qed
next
  assume "\<forall>n. 12 \<le> n \<and> n < 21 \<longrightarrow> bit g n = bit g' n"
  then show "pt_idx g = pt_idx g'" by (auto simp: pt_idx_def ucast9_eq_iff bit_simps)
qed

lemma gpage_eq_iff: "gpage g = gpage g' \<longleftrightarrow> (\<forall>n. 12 \<le> n \<and> n < 48 \<longrightarrow> bit g n = bit g' n)"
proof
  assume e: "gpage g = gpage g'"
  show "\<forall>n. 12 \<le> n \<and> n < 48 \<longrightarrow> bit g n = bit g' n"
  proof (intro allI impI)
    fix n :: nat
    assume n: "12 \<le> n \<and> n < 48"
    have "bit (gpage g) (n - 12) = bit (gpage g') (n - 12)" using e by simp
    with n show "bit g n = bit g' n" by (simp add: gpage_def bit_simps)
  qed
next
  assume "\<forall>n. 12 \<le> n \<and> n < 48 \<longrightarrow> bit g n = bit g' n"
  then show "gpage g = gpage g'" by (auto simp: gpage_def bit_eq_iff bit_simps)
qed

lemma same_page_iff:
  "path3 g = path3 g' \<and> pt_idx g = pt_idx g' \<longleftrightarrow> gpage g = gpage g'"
proof -
  have "(12 \<le> n \<and> n < 48) \<longleftrightarrow> (21 \<le> n \<and> n < 48) \<or> (12 \<le> n \<and> n < 21)" for n :: nat
    by linarith
  then show ?thesis unfolding path3_eq_iff pt_idx_eq_iff gpage_eq_iff by blast
qed

end
