(* ===== verification/Ept.thy ===== *)
theory Ept
  imports Page_Tree
begin

text \<open>
  The introspection EPTs (\<^verbatim>\<open>kvm/imee.c\<close>): finding an entry (\<^verbatim>\<open>get_epte\<close>),
  mapping a guest physical page (\<^verbatim>\<open>map_epte\<close>), copying the target's last-level tables
  without their write and execute bits (\<^verbatim>\<open>copy_leaf_ept\<close>) and building the upper levels
  over them (\<^verbatim>\<open>make_imee_ept\<close>). \<open>None\<close> stands for the dereference of a NULL pointer
  (or of a field that was never set), which stops the kernel. The small list nodes that
  \<^verbatim>\<open>kmalloc\<close> returns are list elements: their allocation is taken to succeed, as the code
  does not check it.
\<close>

subsection \<open>Data\<close>

text \<open>The fields of \<^verbatim>\<open>struct kvm_mmu_page\<close> the code uses. \<open>gfn\<close> is \<open>None\<close> where the
  code leaves it as \<^verbatim>\<open>kmalloc\<close> returned it.\<close>

record kvm_mmu_page =
  spt :: u64
  gfn :: "u64 option"
  role_level :: nat

text \<open>A pointer to an entry: the table and the index in it.\<close>

type_synonym entp = "u64 \<times> idx9"

text \<open>\<^verbatim>\<open>intro_ctx_t\<close>. The pointers to the VM, its vCPU and its task are numbers.\<close>

record intro_ctx =
  ctx_kvm :: nat
  target_vcpu :: nat
  ctx_task :: int
  eptptr :: u64
  ctx_cr3 :: u32
  visited :: u64
  leaf_page :: "kvm_mmu_page list"
  non_leaf_page :: "kvm_mmu_page list"
  code_ept_pte_p :: "entp option"
  code_ept_pte :: u64
  data_ept_pte_p :: "entp option"
  data_ept_pte :: u64

subsection \<open>Operations\<close>

fun find_leaf :: "kvm_mmu_page list \<Rightarrow> u64 \<Rightarrow> idx9 \<Rightarrow> entp option" where
  "find_leaf [] needle i = None"
| "find_leaf (cur # rest) needle i =
     (if gfn cur = Some (needle AND NOT 0x1FF) then Some (spt cur, i) else find_leaf rest needle i)"

definition get_epte :: "intro_ctx \<Rightarrow> u64 \<Rightarrow> entp option" where
  "get_epte ctx gpa =
     (let needle = drop_bit 12 gpa; i = ucast (drop_bit 12 gpa AND 0x1FF)
      in find_leaf (leaf_page ctx) needle i)"

definition alloc_non_leaf_page ::
    "(nat \<Rightarrow> u64) \<Rightarrow> nat \<Rightarrow> kvm_mmu_page list \<Rightarrow> host \<Rightarrow> u64 \<times> kvm_mmu_page list \<times> host" where
  "alloc_non_leaf_page gfpages lv non_leaf h =
     (let (page, h1) = get_ept_page gfpages h
      in (page, \<lparr>spt = page, gfn = None, role_level = lv\<rparr> # non_leaf, h1))"

definition alloc_leaf_page ::
    "(nat \<Rightarrow> u64) \<Rightarrow> u64 \<Rightarrow> kvm_mmu_page list \<Rightarrow> host \<Rightarrow> u64 \<times> kvm_mmu_page list \<times> host" where
  "alloc_leaf_page gfpages gpa leaf h =
     (let (page, h1) = get_ept_page gfpages h
      in (page, \<lparr>spt = page, gfn = Some (drop_bit 12 gpa AND NOT 0x1FF), role_level = 1\<rparr> # leaf, h1))"

definition set_entry :: "host \<Rightarrow> u64 \<Rightarrow> idx9 \<Rightarrow> u64 \<Rightarrow> host" where
  "set_entry h t i e = h\<lparr>ept_mem := (ept_mem h)(t := (ept_mem h t)(i := e))\<rparr>"

definition page_level :: nat where "page_level = 4"

definition ept_idx :: "u64 \<Rightarrow> nat \<Rightarrow> idx9" where
  "ept_idx gpa i =
     [ucast (drop_bit 39 gpa AND 0x1FF), ucast (drop_bit 30 gpa AND 0x1FF),
      ucast (drop_bit 21 gpa AND 0x1FF), ucast (drop_bit 12 gpa AND 0x1FF)] ! i"

text \<open>The loop of \<^verbatim>\<open>map_epte\<close> from level \<open>i\<close> on, at \<open>table\<close>.\<close>

function map_epte_loop ::
    "(nat \<Rightarrow> u64) \<Rightarrow> u64 \<Rightarrow> u64 \<Rightarrow> u64 \<Rightarrow> nat \<Rightarrow> u64 \<Rightarrow> intro_ctx \<Rightarrow> host \<Rightarrow>
     (entp option \<times> intro_ctx \<times> host) option" where
  "map_epte_loop gfpages gpa new_hpa perm i table ctx h =
     (if i < page_level then
        (let ix = ept_idx gpa i; entry = ept_mem h table ix
         in if entry = 0 then
              (if i < page_level - 2 then
                 (let (tbl, nl, h1) =
                        alloc_non_leaf_page gfpages (page_level - i) (non_leaf_page ctx) h
                  in if tbl = 0 then None
                     else map_epte_loop gfpages gpa new_hpa perm (Suc i) tbl
                            (ctx\<lparr>non_leaf_page := nl\<rparr>) (set_entry h1 table ix (tbl OR 0x7)))
               else if i < page_level - 1 then
                 (let (tbl, lf, h1) = alloc_leaf_page gfpages gpa (leaf_page ctx) h
                  in if tbl = 0 then None
                     else map_epte_loop gfpages gpa new_hpa perm (Suc i) tbl
                            (ctx\<lparr>leaf_page := lf\<rparr>) (set_entry h1 table ix (tbl OR 0x7)))
               else
                 (let e = (new_hpa AND NOT EPT_MASK) OR (perm AND 0xFFF) OR 0x270
                  in Some (Some (table, ix), ctx, set_entry h table ix e)))
            else
              (if i < page_level - 1 then
                 map_epte_loop gfpages gpa new_hpa perm (Suc i) (entry AND NOT EPT_MASK) ctx h
               else
                 Some (Some (table, ix), ctx,
                   set_entry h table ix ((new_hpa AND NOT EPT_MASK) OR (perm AND 0xFFF)))))
      else Some (None, ctx, h))"
  by pat_completeness auto
termination
  by (relation "measure (\<lambda>(_, _, _, _, i, _). page_level - i)") auto

declare map_epte_loop.simps [simp del]

definition map_epte ::
    "(nat \<Rightarrow> u64) \<Rightarrow> u64 \<Rightarrow> u64 \<Rightarrow> u64 \<Rightarrow> intro_ctx \<Rightarrow> host \<Rightarrow>
     (entp option \<times> intro_ctx \<times> host) option" where
  "map_epte gfpages gpa new_hpa perm ctx h =
     (if eptptr ctx = 0 then None
      else map_epte_loop gfpages gpa new_hpa perm 0 (eptptr ctx) ctx h)"

text \<open>The active shadow pages of the target VM are the parameter \<open>active\<close>, in list order.\<close>

fun copy_leaf_ept ::
    "(nat \<Rightarrow> u64) \<Rightarrow> kvm_mmu_page list \<Rightarrow> kvm_mmu_page list \<Rightarrow> host \<Rightarrow>
     (kvm_mmu_page list \<times> host) option" where
  "copy_leaf_ept gfpages [] leaf h = Some (leaf, h)"
| "copy_leaf_ept gfpages (page # active) leaf h =
     (if role_level page = 1 then
        (let (newpage, h1) = get_ept_page gfpages h;
             leaf1 = \<lparr>spt = newpage, gfn = gfn page, role_level = 1\<rparr> # leaf
         in if newpage = 0 then None
            else copy_leaf_ept gfpages active leaf1
                   (h1\<lparr>ept_mem := (ept_mem h1)(newpage := (\<lambda>i. ept_mem h1 (spt page) i AND NOT 0x6))\<rparr>))
      else copy_leaf_ept gfpages active leaf h)"

text \<open>The table an upper-level entry leads to, allocated and linked when the entry is empty: the
  shape \<^verbatim>\<open>make_imee_ept\<close> uses once for the PDPT and once for the PD.\<close>

definition next_table ::
    "(nat \<Rightarrow> u64) \<Rightarrow> nat \<Rightarrow> u64 \<Rightarrow> idx9 \<Rightarrow> kvm_mmu_page list \<Rightarrow> host \<Rightarrow>
     (u64 \<times> kvm_mmu_page list \<times> host) option" where
  "next_table gfpages lv t i non_leaf h =
     (if ept_mem h t i = 0 then
        (let (p, nl, h1) = alloc_non_leaf_page gfpages lv non_leaf h
         in if p = 0 then None else Some (p, nl, set_entry h1 t i (p OR 0x7)))
      else Some (ept_mem h t i AND NOT EPT_MASK, non_leaf, h))"

text \<open>One turn of the loop of \<^verbatim>\<open>make_imee_ept\<close>, for the leaf page \<open>cur\<close>.\<close>

definition make_ept_entry ::
    "(nat \<Rightarrow> u64) \<Rightarrow> u64 \<Rightarrow> kvm_mmu_page \<Rightarrow> kvm_mmu_page list \<Rightarrow> host \<Rightarrow>
     (kvm_mmu_page list \<times> host) option" where
  "make_ept_entry gfpages root cur non_leaf h =
     do {
       g \<leftarrow> gfn cur;
       let pml4_ind = ucast (drop_bit 27 g AND 0x1FF);
       let pdpt_ind = ucast (drop_bit 18 g AND 0x1FF);
       let pd_ind = ucast (drop_bit 9 g AND 0x1FF);
       (pdpt, nl1, h1) \<leftarrow> (if root = 0 then None else next_table gfpages 3 root pml4_ind non_leaf h);
       (pd, nl2, h2) \<leftarrow> next_table gfpages 2 pdpt pdpt_ind nl1 h1;
       if ept_mem h2 pd pd_ind = 0
       then Some (nl2, set_entry h2 pd pd_ind (spt cur OR 0x7))
       else Some (nl2, h2)
     }"

fun make_ept_loop ::
    "(nat \<Rightarrow> u64) \<Rightarrow> u64 \<Rightarrow> kvm_mmu_page list \<Rightarrow> kvm_mmu_page list \<Rightarrow> host \<Rightarrow>
     (kvm_mmu_page list \<times> host) option" where
  "make_ept_loop gfpages root [] non_leaf h = Some (non_leaf, h)"
| "make_ept_loop gfpages root (cur # leaf) non_leaf h =
     (case make_ept_entry gfpages root cur non_leaf h of None \<Rightarrow> None
      | Some (nl, h1) \<Rightarrow> make_ept_loop gfpages root leaf nl h1)"

definition make_imee_ept ::
    "(nat \<Rightarrow> u64) \<Rightarrow> kvm_mmu_page list \<Rightarrow> kvm_mmu_page list \<Rightarrow> host \<Rightarrow>
     (u64 \<times> kvm_mmu_page list \<times> host) option" where
  "make_imee_ept gfpages leaf non_leaf h =
     (let (root, h1) = get_ept_page gfpages h;
          nl = \<lparr>spt = root, gfn = None, role_level = 4\<rparr> # non_leaf
      in map_option (\<lambda>(nl', h'). (root, nl', h')) (make_ept_loop gfpages root leaf nl h1))"

text \<open>\<^verbatim>\<open>free_ept\<close> empties both lists; the page frames themselves go back with the pool.\<close>

definition free_ept :: "intro_ctx \<Rightarrow> intro_ctx" where
  "free_ept ctx = ctx\<lparr>leaf_page := [], non_leaf_page := []\<rparr>"

subsection \<open>Linking freshly allocated frames\<close>

text \<open>The paging structure below \<open>r\<close> is a tree and uses none of the frames still to come.\<close>

definition ept_ok :: "ptmem \<Rightarrow> u64 \<Rightarrow> u64 set \<Rightarrow> bool" where
  "ept_ok m r F \<longleftrightarrow> tree m r \<and> tables m r \<inter> F = {}"

context frame_pool
begin

lemma link_fresh:
  assumes ok: "ept_ok (cells s) r (future s)" and f: "follow (cells s) r p = Some t"
    and len: "length p \<le> 2" and z: "cells s t i = 0" and av: "0 < avail s" and al: "alloc s = (n, s1)"
    and m': "m' = (cells s1)(t := (cells s1 t)(i := n OR 7))"
  shows "links (cells s) m' r p t i n" and "ept_ok m' r (future s1)" and "n \<noteq> 0"
    and "future s1 \<subseteq> future s" and "avail s1 = avail s - 1"
    and "\<And>u. u \<notin> tables (cells s) r \<Longrightarrow> u \<notin> future s \<Longrightarrow> m' u = cells s u"
    and "\<And>j. m' n j = 0"
proof -
  have c: "cells s1 = (cells s)(n := (\<lambda>i. 0))" and fu: "future s1 = future s - {n}"
    and nf: "n \<in> future s" and pn: "page_addr n" and "n \<noteq> 0"
    using cells_alloc [OF av] future_alloc [OF av] alloc_future [OF av] alloc_page [OF av] al
    by simp_all
  show "n \<noteq> 0" by fact
  show "future s1 \<subseteq> future s" using fu by blast
  show "avail s1 = avail s - 1" using avail_alloc [OF av] al by simp
  have t: "t \<in> tables (cells s) r" using f len by (intro tables_mem) auto
  have disj: "tables (cells s) r \<inter> future s = {}" and tr: "tree (cells s) r"
    using ok by (auto simp: ept_ok_def)
  have nt: "n \<notin> tables (cells s) r" and tn: "t \<noteq> n" using disj nf t by auto
  show z0: "m' n j = 0" for j using tn by (simp add: m' c)
  have other: "m' u j = cells s u j" if "u \<noteq> n" "(u, j) \<noteq> (t, i)" for u j
    using that tn by (auto simp: m' c)
  show l: "links (cells s) m' r p t i n"
    unfolding links_def
  proof (intro conjI ballI allI impI)
    show "m' t i = n OR 7" by (simp add: m')
    fix u j
    assume "u \<in> tables (cells s) r" "(u, j) \<noteq> (t, i)"
    with nt show "m' u j = cells s u j" by (metis other)
  qed (use tr f len z pn nt z0 in auto)
  show "ept_ok m' r (future s1)"
    unfolding ept_ok_def using links_tree [OF l] links_tables [OF l] disj fu by auto
  show "m' u = cells s u" if "u \<notin> tables (cells s) r" "u \<notin> future s" for u
    using that t nf by (auto simp: m' c)
qed

end

lemma ept_idx_path3:
  "ept_idx gpa 0 = path3 gpa ! 0" "ept_idx gpa (Suc 0) = path3 gpa ! 1"
  "ept_idx gpa 2 = path3 gpa ! 2" "ept_idx gpa 3 = pt_idx gpa"
  by (simp_all add: ept_idx_def path3_def pt_idx_def and_mask_ucast_9)

lemma take_path3:
  "take (Suc 0) (path3 g) = [path3 g ! 0]" "take 2 (path3 g) = take (Suc 0) (path3 g) @ [path3 g ! 1]"
  "path3 g = take 2 (path3 g) @ [path3 g ! 2]"
  by (simp_all add: path3_def)

subsection \<open>What \<^verbatim>\<open>map_epte\<close> does to the translations\<close>

text \<open>The entry it writes: an empty entry gets the memory type bits \<^verbatim>\<open>0x270\<close>, a present one
  does not.\<close>

definition new_entry :: "u64 \<Rightarrow> u64 \<Rightarrow> u64 \<Rightarrow> u64" where
  "new_entry old new_hpa perm =
     (if old = 0 then (new_hpa AND NOT EPT_MASK) OR (perm AND 0xFFF) OR 0x270
      else (new_hpa AND NOT EPT_MASK) OR (perm AND 0xFFF))"

text \<open>The result of mapping \<open>gpa\<close> from the context \<open>ctx\<close> and the host state \<open>h\<close>, with at most
  \<open>k\<close> new frames.\<close>

definition map_post ::
    "u64 \<Rightarrow> u64 \<Rightarrow> u64 \<Rightarrow> u64 \<Rightarrow> nat \<Rightarrow> intro_ctx \<Rightarrow> host \<Rightarrow> (entp option \<times> intro_ctx \<times> host) option \<Rightarrow> bool"
    where
  "map_post r gpa new_hpa perm k ctx h res \<longleftrightarrow>
    (\<exists>t nl h'.
      res = Some (Some (t, pt_idx gpa),
        ctx\<lparr>non_leaf_page := nl,
            leaf_page :=
              (if follow (ept_mem h) r (path3 gpa) = None
               then \<lparr>spt = t, gfn = Some (drop_bit 12 gpa AND NOT 0x1FF), role_level = 1\<rparr> # leaf_page ctx
               else leaf_page ctx)\<rparr>, h') \<and>
      ept_ok (ept_mem h') r (future_frames h') \<and> future_frames h' \<subseteq> future_frames h \<and>
      avail_frames h \<le> avail_frames h' + k \<and>
      tables (ept_mem h') r \<subseteq> tables (ept_mem h) r \<union> future_frames h \<and>
      follow (ept_mem h) r (path3 gpa) \<in> {None, Some t} \<and>
      (\<forall>u. u \<notin> tables (ept_mem h) r \<longrightarrow> u \<notin> future_frames h \<longrightarrow> ept_mem h' u = ept_mem h u) \<and>
      (\<forall>g. follow (ept_mem h') r (path3 g) =
        (if path3 g = path3 gpa then Some t else follow (ept_mem h) r (path3 g))) \<and>
      (\<forall>g. xlate (ept_mem h') r g =
        (if gpage g = gpage gpa then new_entry (xlate (ept_mem h) r gpa) new_hpa perm
         else xlate (ept_mem h) r g)))"

lemma map_postI:
  assumes "res = Some (Some (t, pt_idx gpa), ctx\<lparr>non_leaf_page := nl,
            leaf_page := (if follow (ept_mem h) r (path3 gpa) = None
               then \<lparr>spt = t, gfn = Some (drop_bit 12 gpa AND NOT 0x1FF), role_level = 1\<rparr> # leaf_page ctx
               else leaf_page ctx)\<rparr>, h')"
    and "ept_ok (ept_mem h') r (future_frames h')" and "future_frames h' \<subseteq> future_frames h"
    and "avail_frames h \<le> avail_frames h' + k"
    and "tables (ept_mem h') r \<subseteq> tables (ept_mem h) r \<union> future_frames h"
    and "follow (ept_mem h) r (path3 gpa) \<in> {None, Some t}"
    and "\<And>u. u \<notin> tables (ept_mem h) r \<Longrightarrow> u \<notin> future_frames h \<Longrightarrow> ept_mem h' u = ept_mem h u"
    and "\<And>g. follow (ept_mem h') r (path3 g) =
        (if path3 g = path3 gpa then Some t else follow (ept_mem h) r (path3 g))"
    and "\<And>g. xlate (ept_mem h') r g =
        (if gpage g = gpage gpa then new_entry (xlate (ept_mem h) r gpa) new_hpa perm
         else xlate (ept_mem h) r g)"
  shows "map_post r gpa new_hpa perm k ctx h res"
  unfolding map_post_def
  by (rule exI [of _ t], rule exI [of _ nl], rule exI [of _ h']) (intro conjI allI impI assms)

lemma map_postE:
  assumes "map_post r gpa new_hpa perm k ctx h res"
  obtains t nl h' where "res = Some (Some (t, pt_idx gpa), ctx\<lparr>non_leaf_page := nl,
            leaf_page := (if follow (ept_mem h) r (path3 gpa) = None
               then \<lparr>spt = t, gfn = Some (drop_bit 12 gpa AND NOT 0x1FF), role_level = 1\<rparr> # leaf_page ctx
               else leaf_page ctx)\<rparr>, h')"
    and "ept_ok (ept_mem h') r (future_frames h')" and "future_frames h' \<subseteq> future_frames h"
    and "avail_frames h \<le> avail_frames h' + k"
    and "tables (ept_mem h') r \<subseteq> tables (ept_mem h) r \<union> future_frames h"
    and "follow (ept_mem h) r (path3 gpa) \<in> {None, Some t}"
    and "\<And>u. u \<notin> tables (ept_mem h) r \<Longrightarrow> u \<notin> future_frames h \<Longrightarrow> ept_mem h' u = ept_mem h u"
    and "\<And>g. follow (ept_mem h') r (path3 g) =
        (if path3 g = path3 gpa then Some t else follow (ept_mem h) r (path3 g))"
    and "\<And>g. xlate (ept_mem h') r g =
        (if gpage g = gpage gpa then new_entry (xlate (ept_mem h) r gpa) new_hpa perm
         else xlate (ept_mem h) r g)"
  using assms unfolding map_post_def by (elim exE conjE) (rule that, blast+)

lemma ept_mem_update [simp]:
  "avail_frames (h\<lparr>ept_mem := m\<rparr>) = avail_frames h"
  "future_frames (h\<lparr>ept_mem := m\<rparr>) = future_frames h"
  by (simp_all add: avail_frames_def future_frames_def)

lemma set_entry_host [simp]:
  "avail_frames (set_entry h t i e) = avail_frames h"
  "future_frames (set_entry h t i e) = future_frames h"
  "ept_mem (set_entry h t i e) = (ept_mem h)(t := (ept_mem h t)(i := e))"
  by (simp_all add: set_entry_def avail_frames_def future_frames_def)

lemma map_epte_loop_leaf:
  assumes ok: "ept_ok (ept_mem h) r (future_frames h)"
    and f: "follow (ept_mem h) r (path3 gpa) = Some t"
  shows "map_post r gpa new_hpa perm 0 ctx h (map_epte_loop gfpages gpa new_hpa perm 3 t ctx h)"
proof -
  have tr: "tree (ept_mem h) r" using ok by (simp add: ept_ok_def)
  have x: "xlate (ept_mem h) r gpa = ept_mem h t (pt_idx gpa)" by (simp add: xlate_def f)
  let ?e = "new_entry (xlate (ept_mem h) r gpa) new_hpa perm"
  let ?h = "set_entry h t (pt_idx gpa) ?e"
  have res: "map_epte_loop gfpages gpa new_hpa perm 3 t ctx h = Some (Some (t, pt_idx gpa), ctx, ?h)"
    by (simp add: map_epte_loop.simps [of _ _ _ _ 3] page_level_def ept_idx_path3 Let_def new_entry_def x)
  have ok': "ept_ok (ept_mem ?h) r (future_frames ?h)"
    using ok leaf_write_tables [OF tr f] by (simp add: ept_ok_def)
  have fol: "follow (ept_mem ?h) r (path3 g) = follow (ept_mem h) r (path3 g)" for g
    using leaf_write_follow [OF tr f, of "path3 g"] by simp
  have xl: "xlate (ept_mem ?h) r g = (if gpage g = gpage gpa then ?e else xlate (ept_mem h) r g)" for g
    using leaf_write_xlate [OF tr f, of ?e g] by (simp add: same_page_iff)
  have "t \<in> tables (ept_mem h) r" using f by (rule tables_mem) simp
  then show ?thesis
    unfolding map_post_def res using ok' fol xl f leaf_write_tables(1) [OF tr f]
    by (intro exI [of _ t] exI [of _ "non_leaf_page ctx"] exI [of _ ?h]) auto
qed

lemma map_post_mono:
  "map_post r gpa new_hpa perm k ctx h res \<Longrightarrow> k \<le> k' \<Longrightarrow> map_post r gpa new_hpa perm k' ctx h res"
  by (erule map_postE, rule map_postI) (assumption | simp only: | linarith)+

text \<open>What a freshly linked frame leaves in place, for the state \<open>h\<close> before and \<open>h1\<close> after.\<close>

definition linked :: "u64 \<Rightarrow> idx9 list \<Rightarrow> u64 \<Rightarrow> idx9 \<Rightarrow> u64 \<Rightarrow> host \<Rightarrow> host \<Rightarrow> bool" where
  "linked r p t i n h h1 \<longleftrightarrow>
     links (ept_mem h) (ept_mem h1) r p t i n \<and> ept_ok (ept_mem h1) r (future_frames h1) \<and> n \<noteq> 0 \<and>
     n \<in> future_frames h \<and> future_frames h1 \<subseteq> future_frames h \<and>
     avail_frames h1 = avail_frames h - 1 \<and> (\<forall>j. ept_mem h1 n j = 0) \<and>
     (\<forall>u. u \<notin> tables (ept_mem h) r \<longrightarrow> u \<notin> future_frames h \<longrightarrow> ept_mem h1 u = ept_mem h u)"

lemma linked_page:
  assumes "ept_ok (ept_mem h) r (future_frames h)" "follow (ept_mem h) r p = Some t"
    "length p \<le> 2" "ept_mem h t i = 0" "0 < avail_frames h" "get_ept_page gfpages h = (n, h1)"
  shows "linked r p t i n h (set_entry h1 t i (n OR 7))"
proof -
  note l = ept_pool.link_fresh [OF assms refl]
  have "n \<in> future_frames h"
    using ept_pool.alloc_future [OF assms(5), of gfpages] assms(6) by simp
  with l show ?thesis unfolding linked_def set_entry_host by blast
qed

lemma linked_frame:
  assumes "linked r p t i n h h1" "u \<notin> tables (ept_mem h) r" "u \<notin> future_frames h"
  shows "u \<notin> tables (ept_mem h1) r" "u \<notin> future_frames h1" "ept_mem h1 u = ept_mem h u"
  using assms links_tables [of "ept_mem h" "ept_mem h1" r p t i n] by (auto simp: linked_def)

lemma map_post_upper:
  assumes l: "linked r p t i n h h1" and len: "length p < 2" and av: "0 < avail_frames h"
    and post: "map_post r gpa new_hpa perm k (ctx\<lparr>non_leaf_page := nl\<rparr>) h1 res"
  shows "map_post r gpa new_hpa perm (Suc k) ctx h res"
proof -
  have lk: "links (ept_mem h) (ept_mem h1) r p t i n" using l by (simp add: linked_def)
  note same = links_xlate_table [OF lk len]
  have a: "avail_frames h1 = avail_frames h - 1" and fu: "future_frames h1 \<subseteq> future_frames h"
    using l by (auto simp: linked_def)
  show ?thesis
  proof (rule map_postE [OF post])
    fix t' nl' h'
    assume p: "res = Some (Some (t', pt_idx gpa), ctx\<lparr>non_leaf_page := nl, non_leaf_page := nl',
            leaf_page := (if follow (ept_mem h1) r (path3 gpa) = None
               then \<lparr>spt = t', gfn = Some (drop_bit 12 gpa AND NOT 0x1FF), role_level = 1\<rparr> #
                 leaf_page (ctx\<lparr>non_leaf_page := nl\<rparr>)
               else leaf_page (ctx\<lparr>non_leaf_page := nl\<rparr>))\<rparr>, h')"
      and ok: "ept_ok (ept_mem h') r (future_frames h')" and fu': "future_frames h' \<subseteq> future_frames h1"
      and av': "avail_frames h1 \<le> avail_frames h' + k"
      and tb: "tables (ept_mem h') r \<subseteq> tables (ept_mem h1) r \<union> future_frames h1"
      and t': "follow (ept_mem h1) r (path3 gpa) \<in> {None, Some t'}"
      and fr: "\<And>u. u \<notin> tables (ept_mem h1) r \<Longrightarrow> u \<notin> future_frames h1 \<Longrightarrow> ept_mem h' u = ept_mem h1 u"
      and fx: "\<And>g. follow (ept_mem h') r (path3 g) =
        (if path3 g = path3 gpa then Some t' else follow (ept_mem h1) r (path3 g))"
      and xx: "\<And>g. xlate (ept_mem h') r g =
        (if gpage g = gpage gpa then new_entry (xlate (ept_mem h1) r gpa) new_hpa perm
         else xlate (ept_mem h1) r g)"
    show ?thesis
    proof (rule map_postI [where t = t' and nl = nl' and h' = h'])
      show "future_frames h' \<subseteq> future_frames h" using fu fu' by blast
      show "avail_frames h \<le> avail_frames h' + Suc k" using a av av' by linarith
      show "tables (ept_mem h') r \<subseteq> tables (ept_mem h) r \<union> future_frames h"
        using tb l links_tables [OF lk] by (auto simp: linked_def)
      show "ept_mem h' u = ept_mem h u" if "u \<notin> tables (ept_mem h) r" "u \<notin> future_frames h" for u
        using linked_frame [OF l that] fr by simp
    qed (use p ok t' in \<open>simp_all add: same fx xx\<close>)
  qed
qed

lemma map_post_leaf_table:
  assumes l: "linked r p t i n h h1" and pi: "path3 gpa = p @ [i]" and av: "0 < avail_frames h"
    and post: "map_post r gpa new_hpa perm k
      (ctx\<lparr>leaf_page := \<lparr>spt = n, gfn = Some (drop_bit 12 gpa AND NOT 0x1FF), role_level = 1\<rparr> # leaf_page ctx\<rparr>)
      h1 res"
  shows "map_post r gpa new_hpa perm (Suc k) ctx h res"
proof -
  have lk: "links (ept_mem h) (ept_mem h1) r p t i n" using l by (simp add: linked_def)
  have len: "length p = 2" using pi by (metis length_append_singleton length_path3 Suc_inject eval_nat_numeral(3))
  have old: "follow (ept_mem h) r (path3 gpa) = None"
    using links_follow_old_new [OF lk] by (simp add: pi)
  have new: "follow (ept_mem h1) r (path3 gpa) = Some n"
    using links_follow_new [OF lk] by (simp add: pi)
  have a: "avail_frames h1 = avail_frames h - 1" and fu: "future_frames h1 \<subseteq> future_frames h"
    and z: "\<And>j. ept_mem h1 n j = 0"
    using l by (auto simp: linked_def)
  have fol: "follow (ept_mem h1) r (path3 g) = (if path3 g = path3 gpa then Some n else follow (ept_mem h) r (path3 g))" for g
    using links_follow [OF lk, of "path3 g"] by (simp add: pi)
  have xl: "xlate (ept_mem h1) r g = (if path3 g = path3 gpa then 0 else xlate (ept_mem h) r g)" for g
    using links_xlate_leaf [OF lk len, of g] by (simp add: pi z)
  have xold: "path3 g = path3 gpa \<Longrightarrow> xlate (ept_mem h) r g = 0" for g
    using old by (simp add: xlate_def)
  have ne: "path3 g \<noteq> path3 gpa \<Longrightarrow> gpage g \<noteq> gpage gpa" for g using same_page_iff by blast
  show ?thesis
  proof (rule map_postE [OF post])
    let ?new = "\<lparr>spt = n, gfn = Some (drop_bit 12 gpa AND NOT 0x1FF), role_level = 1\<rparr>"
    fix t' nl' h'
    assume p: "res = Some (Some (t', pt_idx gpa),
            ctx\<lparr>leaf_page := ?new # leaf_page ctx, non_leaf_page := nl',
            leaf_page := (if follow (ept_mem h1) r (path3 gpa) = None
               then \<lparr>spt = t', gfn = Some (drop_bit 12 gpa AND NOT 0x1FF), role_level = 1\<rparr> #
                 leaf_page (ctx\<lparr>leaf_page := ?new # leaf_page ctx\<rparr>)
               else leaf_page (ctx\<lparr>leaf_page := ?new # leaf_page ctx\<rparr>))\<rparr>, h')"
      and ok: "ept_ok (ept_mem h') r (future_frames h')" and fu': "future_frames h' \<subseteq> future_frames h1"
      and av': "avail_frames h1 \<le> avail_frames h' + k"
      and tb: "tables (ept_mem h') r \<subseteq> tables (ept_mem h1) r \<union> future_frames h1"
      and t': "follow (ept_mem h1) r (path3 gpa) \<in> {None, Some t'}"
      and fr: "\<And>u. u \<notin> tables (ept_mem h1) r \<Longrightarrow> u \<notin> future_frames h1 \<Longrightarrow> ept_mem h' u = ept_mem h1 u"
      and fx: "\<And>g. follow (ept_mem h') r (path3 g) =
        (if path3 g = path3 gpa then Some t' else follow (ept_mem h1) r (path3 g))"
      and xx: "\<And>g. xlate (ept_mem h') r g =
        (if gpage g = gpage gpa then new_entry (xlate (ept_mem h1) r gpa) new_hpa perm
         else xlate (ept_mem h1) r g)"
    have tn: "t' = n" using t' new by simp
    show ?thesis
    proof (rule map_postI [where t = n and nl = nl' and h' = h'])
      show "future_frames h' \<subseteq> future_frames h" using fu fu' by blast
      show "avail_frames h \<le> avail_frames h' + Suc k" using a av av' by linarith
      show "tables (ept_mem h') r \<subseteq> tables (ept_mem h) r \<union> future_frames h"
        using tb l links_tables [OF lk] by (auto simp: linked_def)
      show "ept_mem h' u = ept_mem h u" if "u \<notin> tables (ept_mem h) r" "u \<notin> future_frames h" for u
        using linked_frame [OF l that] fr by simp
      show "xlate (ept_mem h') r g =
        (if gpage g = gpage gpa then new_entry (xlate (ept_mem h) r gpa) new_hpa perm
         else xlate (ept_mem h) r g)" for g
        using xx [of g] xold [of g] xold [of gpa] ne [of g] by (simp add: xl split: if_splits)
    qed (use p ok in \<open>simp_all add: old new fx fol tn\<close>)
  qed
qed

text \<open>One level of the loop above the last one.\<close>

lemma map_epte_loop_level:
  assumes ok: "ept_ok (ept_mem h) r (future_frames h)" and i: "i < 3"
    and f: "follow (ept_mem h) r (take i (path3 gpa)) = Some t"
    and av: "Suc k \<le> avail_frames h"
    and IH: "\<And>t1 ctx1 h1. ept_ok (ept_mem h1) r (future_frames h1) \<Longrightarrow>
        follow (ept_mem h1) r (take (Suc i) (path3 gpa)) = Some t1 \<Longrightarrow> k \<le> avail_frames h1 \<Longrightarrow>
        map_post r gpa new_hpa perm k ctx1 h1
          (map_epte_loop gfpages gpa new_hpa perm (Suc i) t1 ctx1 h1)"
  shows "map_post r gpa new_hpa perm (Suc k) ctx h (map_epte_loop gfpages gpa new_hpa perm i t ctx h)"
proof -
  let ?p = "take i (path3 gpa)" and ?ix = "path3 gpa ! i"
  have i3: "i = 0 \<or> i = Suc 0 \<or> i = 2" using i by auto
  have ix: "ept_idx gpa i = ?ix" using i3 ept_idx_path3 [of gpa] by auto
  have tk: "take (Suc i) (path3 gpa) = ?p @ [?ix]" using i by (simp add: take_Suc_conv_app_nth)
  have len: "length ?p = i" using i by simp
  note unf = map_epte_loop.simps [of gfpages gpa new_hpa perm i t ctx h]
  show ?thesis
  proof (cases "ept_mem h t ?ix = 0")
    case False
    have "follow (ept_mem h) r (take (Suc i) (path3 gpa)) = Some (ept_mem h t ?ix AND NOT EPT_MASK)"
      using f False by (simp add: tk follow_snoc)
    moreover have "k \<le> avail_frames h" using av by simp
    ultimately have "map_post r gpa new_hpa perm (Suc k) ctx h
        (map_epte_loop gfpages gpa new_hpa perm (Suc i) (ept_mem h t ?ix AND NOT EPT_MASK) ctx h)"
      by (intro map_post_mono [OF IH [OF ok]]) simp_all
    with False i show ?thesis by (simp add: unf page_level_def ix Let_def)
  next
    case True
    obtain n h1 where g: "get_ept_page gfpages h = (n, h1)" by fastforce
    let ?h = "set_entry h1 t ?ix (n OR 7)"
    have l: "linked r ?p t ?ix n h ?h"
      using linked_page [OF ok f _ True _ g] i av by simp
    have lk: "links (ept_mem h) (ept_mem ?h) r ?p t ?ix n" and okh: "ept_ok (ept_mem ?h) r (future_frames ?h)"
      and n0: "n \<noteq> 0" and avh: "avail_frames ?h = avail_frames h - 1"
      using l by (auto simp: linked_def)
    have fn: "follow (ept_mem ?h) r (take (Suc i) (path3 gpa)) = Some n"
      unfolding tk by (rule links_follow_new [OF lk])
    have ih: "map_post r gpa new_hpa perm k ctx1 ?h
        (map_epte_loop gfpages gpa new_hpa perm (Suc i) n ctx1 ?h)" for ctx1
      by (rule IH [OF okh fn]) (use av avh in simp)
    have av0: "0 < avail_frames h" using av by simp
    show ?thesis
    proof (cases "i = 2")
      case True
      have pi: "path3 gpa = ?p @ [?ix]" using tk True by simp
      have "map_epte_loop gfpages gpa new_hpa perm i t ctx h =
          map_epte_loop gfpages gpa new_hpa perm (Suc i) n
            (ctx\<lparr>leaf_page := \<lparr>spt = n, gfn = Some (drop_bit 12 gpa AND NOT 0x1FF), role_level = 1\<rparr> # leaf_page ctx\<rparr>) ?h"
        unfolding unf using True \<open>ept_mem h t ?ix = 0\<close> n0
        by (simp add: page_level_def ix [unfolded True] Let_def alloc_leaf_page_def g)
      then show ?thesis using map_post_leaf_table [OF l pi av0 ih] by simp
    next
      case False
      with i have i2: "i < 2" by simp
      have "map_epte_loop gfpages gpa new_hpa perm i t ctx h =
          map_epte_loop gfpages gpa new_hpa perm (Suc i) n
            (ctx\<lparr>non_leaf_page := \<lparr>spt = n, gfn = None, role_level = page_level - i\<rparr> # non_leaf_page ctx\<rparr>) ?h"
        unfolding unf using i2 True n0
        by (simp add: page_level_def ix Let_def alloc_non_leaf_page_def g)
      then show ?thesis using map_post_upper [OF l _ av0 ih] i2 by simp
    qed
  qed
qed

lemma map_epte_post:
  assumes ok: "ept_ok (ept_mem h) (eptptr ctx) (future_frames h)" and "eptptr ctx \<noteq> 0"
    and av: "3 \<le> avail_frames h"
  shows "map_post (eptptr ctx) gpa new_hpa perm 3 ctx h (map_epte gfpages gpa new_hpa perm ctx h)"
proof -
  let ?r = "eptptr ctx"
  have l3: "map_post ?r gpa new_hpa perm 0 c1 h1 (map_epte_loop gfpages gpa new_hpa perm 3 t1 c1 h1)"
    if "ept_ok (ept_mem h1) ?r (future_frames h1)" "follow (ept_mem h1) ?r (path3 gpa) = Some t1" for t1 c1 h1
    by (rule map_epte_loop_leaf [OF that])
  have l2: "map_post ?r gpa new_hpa perm (Suc 0) c1 h1 (map_epte_loop gfpages gpa new_hpa perm 2 t1 c1 h1)"
    if "ept_ok (ept_mem h1) ?r (future_frames h1)" "follow (ept_mem h1) ?r (take 2 (path3 gpa)) = Some t1"
      "Suc 0 \<le> avail_frames h1" for t1 c1 h1
    by (rule map_epte_loop_level [OF that(1) _ that(2,3)]) (use l3 in \<open>simp_all add: eval_nat_numeral\<close>)
  have l1: "map_post ?r gpa new_hpa perm 2 c1 h1 (map_epte_loop gfpages gpa new_hpa perm 1 t1 c1 h1)"
    if "ept_ok (ept_mem h1) ?r (future_frames h1)" "follow (ept_mem h1) ?r (take 1 (path3 gpa)) = Some t1"
      "2 \<le> avail_frames h1" for t1 c1 h1
    using map_epte_loop_level [OF that(1) _ that(2), of "Suc 0"] that(3) l2
    by (simp add: eval_nat_numeral)
  have "map_post ?r gpa new_hpa perm 3 ctx h (map_epte_loop gfpages gpa new_hpa perm 0 ?r ctx h)"
    using map_epte_loop_level [OF ok, of 0 gpa ?r 2] av l1
    by (simp add: eval_nat_numeral)
  with assms(2) show ?thesis by (simp add: map_epte_def)
qed

subsection \<open>Building the upper levels\<close>

text \<open>Tables were added above the last level, and nothing else changed.\<close>

definition grown :: "u64 \<Rightarrow> nat \<Rightarrow> u64 set \<Rightarrow> host \<Rightarrow> host \<Rightarrow> bool" where
  "grown r k N h h' \<longleftrightarrow>
     ept_ok (ept_mem h') r (future_frames h') \<and> future_frames h' \<subseteq> future_frames h \<and>
     avail_frames h \<le> avail_frames h' + k \<and>
     tables (ept_mem h') r \<subseteq> tables (ept_mem h) r \<union> future_frames h \<union> N \<and>
     (\<forall>u. u \<notin> tables (ept_mem h) r \<longrightarrow> u \<notin> future_frames h \<longrightarrow> ept_mem h' u = ept_mem h u) \<and>
     (\<forall>x t. follow (ept_mem h) r (path3 x) = Some t \<longrightarrow> ept_mem h' t = ept_mem h t)"

lemma grown_refl: "ept_ok (ept_mem h) r (future_frames h) \<Longrightarrow> grown r 0 {} h h"
  by (auto simp: grown_def)

lemma grown_trans:
  assumes "grown r k N h h1" "grown r k' N' h1 h2"
    and "\<And>x t. follow (ept_mem h) r (path3 x) = Some t \<Longrightarrow> follow (ept_mem h1) r (path3 x) = Some t"
    and "\<And>u. u \<in> N \<Longrightarrow> u \<notin> tables (ept_mem h) r \<Longrightarrow> u \<notin> future_frames h \<Longrightarrow> ept_mem h2 u = ept_mem h u"
  shows "grown r (k + k') (N \<union> N') h h2"
proof -
  note g1 = assms(1) [unfolded grown_def] and g2 = assms(2) [unfolded grown_def]
  have "ept_mem h2 u = ept_mem h u"
    if u: "u \<notin> tables (ept_mem h) r" "u \<notin> future_frames h" for u
  proof (cases "u \<in> N")
    case True
    with u assms(4) show ?thesis by blast
  next
    case False
    then have "u \<notin> tables (ept_mem h1) r" "u \<notin> future_frames h1" using u g1 by auto
    with u g1 g2 show ?thesis by metis
  qed
  moreover have "ept_mem h2 t = ept_mem h t" if "follow (ept_mem h) r (path3 x) = Some t" for x t
    using that assms(3) g1 g2 by metis
  moreover have "tables (ept_mem h2) r \<subseteq> tables (ept_mem h) r \<union> future_frames h \<union> (N \<union> N')"
    using g1 g2 by blast
  moreover have "avail_frames h \<le> avail_frames h2 + (k + k')" using g1 g2 by linarith
  ultimately show ?thesis using g1 g2 unfolding grown_def by blast
qed

lemma linked_grown:
  assumes l: "linked r p t i n h h1" and av: "0 < avail_frames h"
  shows "grown r 1 {} h h1"
proof -
  have lk: "links (ept_mem h) (ept_mem h1) r p t i n" using l by (simp add: linked_def)
  show ?thesis
    unfolding grown_def
    using l av links_tables [OF lk] links_leaf_mem [OF lk] by (auto simp: linked_def)
qed

lemma next_table_grown:
  assumes ok: "ept_ok (ept_mem h) r (future_frames h)" and f: "follow (ept_mem h) r p = Some t"
    and len: "length p < 2" and av: "0 < avail_frames h"
  shows "\<exists>t' nl' h'. next_table gfpages lv t i nl h = Some (t', nl', h') \<and>
    grown r 1 {} h h' \<and> follow (ept_mem h') r (p @ [i]) = Some t' \<and>
    (\<forall>x. follow (ept_mem h') r (path3 x) = follow (ept_mem h) r (path3 x))"
proof (cases "ept_mem h t i = 0")
  case False
  have "grown r 1 {} h h" using grown_refl [OF ok] by (auto simp: grown_def)
  moreover have "follow (ept_mem h) r (p @ [i]) = Some (ept_mem h t i AND NOT EPT_MASK)"
    using f False by (simp add: follow_snoc)
  ultimately show ?thesis using False by (simp add: next_table_def)
next
  case True
  obtain n h1 where g: "get_ept_page gfpages h = (n, h1)" by fastforce
  let ?h = "set_entry h1 t i (n OR 7)"
  have l: "linked r p t i n h ?h" using linked_page [OF ok f _ True av g] len by simp
  have lk: "links (ept_mem h) (ept_mem ?h) r p t i n" and n: "n \<noteq> 0"
    using l by (auto simp: linked_def)
  have e: "next_table gfpages lv t i nl h =
      Some (n, \<lparr>spt = n, gfn = None, role_level = lv\<rparr> # nl, ?h)"
    using True n by (simp add: next_table_def alloc_non_leaf_page_def g)
  show ?thesis
    using e linked_grown [OF l av] links_follow_new [OF lk] links_xlate_table(2) [OF lk len] by blast
qed

text \<open>The path of the 2 MB region a leaf page maps.\<close>

definition leaf_path :: "u64 \<Rightarrow> idx9 list" where
  "leaf_path g = path3 (push_bit 12 g)"

lemma leaf_path_idx:
  "leaf_path g = [ucast (drop_bit 27 g AND 0x1FF), ucast (drop_bit 18 g AND 0x1FF), ucast (drop_bit 9 g AND 0x1FF)]"
proof -
  have "(ucast (drop_bit k (push_bit 12 g)) :: idx9) = ucast (drop_bit (k - 12) g)"
    if "12 \<le> k" "k < 40" for k
    using that by (auto simp: ucast9_eq_iff bit_simps)
  then show ?thesis by (simp add: leaf_path_def path3_def and_mask_ucast_9)
qed

text \<open>A leaf table that can be linked.\<close>

definition linkable :: "u64 \<Rightarrow> host \<Rightarrow> u64 \<Rightarrow> bool" where
  "linkable r h t \<longleftrightarrow> page_addr t \<and> t \<notin> tables (ept_mem h) r \<and> t \<notin> future_frames h"

lemma link_leaf:
  assumes ok: "ept_ok (ept_mem h) r (future_frames h)" and f: "follow (ept_mem h) r p = Some t"
    and len: "length p = 2" and z: "ept_mem h t i = 0" and n: "linkable r h n"
  shows "links (ept_mem h) (ept_mem (set_entry h t i (n OR 7))) r p t i n"
    and "grown r 0 {n} h (set_entry h t i (n OR 7))"
    and "ept_mem (set_entry h t i (n OR 7)) n = ept_mem h n"
proof -
  let ?h = "set_entry h t i (n OR 7)"
  have t: "t \<in> tables (ept_mem h) r" using f len by (intro tables_mem) auto
  with n have tn: "t \<noteq> n" by (auto simp: linkable_def)
  then show nn: "ept_mem ?h n = ept_mem h n" by simp
  show l: "links (ept_mem h) (ept_mem ?h) r p t i n"
    unfolding links_def using ok f len z n by (auto simp: ept_ok_def linkable_def)
  have "ept_mem ?h u = ept_mem h u" if "u \<notin> tables (ept_mem h) r" for u
    using that t by auto
  then show "grown r 0 {n} h ?h"
    unfolding grown_def ept_ok_def
    using links_tables [OF l] links_tree [OF l] links_leaf_mem [OF l] ok n
    by (auto simp: ept_ok_def linkable_def)
qed

lemma grown_trans_tables:
  assumes "grown r k {} h h1" "grown r k' N h1 h2"
    and "\<And>x. follow (ept_mem h1) r (path3 x) = follow (ept_mem h) r (path3 x)"
  shows "grown r (k + k') N h h2"
  using grown_trans [OF assms(1,2)] assms(3) by simp

lemma grown_ok: "grown r k N h h' \<Longrightarrow> ept_ok (ept_mem h') r (future_frames h')"
  by (simp add: grown_def)

lemma grown_linkable: "grown r k {} h h' \<Longrightarrow> linkable r h t \<Longrightarrow> linkable r h' t \<and> ept_mem h' t = ept_mem h t"
  by (auto simp: grown_def linkable_def)

text \<open>One turn of the loop of \<^verbatim>\<open>make_imee_ept\<close>: the leaf page is linked at its path, unless
  that path is taken already.\<close>

lemma make_ept_entry_post:
  assumes ok: "ept_ok (ept_mem h) r (future_frames h)" and r: "r \<noteq> 0"
    and g: "gfn cur = Some g" and av: "2 \<le> avail_frames h" and n: "linkable r h (spt cur)"
  obtains nl' h' where "make_ept_entry gfpages r cur nl h = Some (nl', h')"
    and "grown r 2 {spt cur} h h'" and "ept_mem h' (spt cur) = ept_mem h (spt cur)"
    and "spt cur \<in> tables (ept_mem h') r \<Longrightarrow> follow (ept_mem h') r (leaf_path g) = Some (spt cur)"
    and "\<And>x. follow (ept_mem h') r (path3 x) =
      (if path3 x = leaf_path g \<and> follow (ept_mem h) r (path3 x) = None then Some (spt cur)
       else follow (ept_mem h) r (path3 x))"
proof -
  obtain i j k where lp: "leaf_path g = [i, j] @ [k]" by (simp add: leaf_path_def path3_def)
  have f0: "follow (ept_mem h) r [] = Some r" by simp
  have l0: "length ([] :: idx9 list) < 2" and l1: "length ([] @ [i]) < 2" by simp_all
  have "0 < avail_frames h" using av by simp
  from next_table_grown [OF ok f0 l0 this] obtain pdpt nl1 h1 where e1: "next_table gfpages 3 r i nl h = Some (pdpt, nl1, h1)"
    and g1: "grown r 1 {} h h1" and f1: "follow (ept_mem h1) r ([] @ [i]) = Some pdpt"
    and s1: "\<And>x. follow (ept_mem h1) r (path3 x) = follow (ept_mem h) r (path3 x)"
    by blast
  have "0 < avail_frames h1" using g1 av by (simp add: grown_def)
  from next_table_grown [OF grown_ok [OF g1] f1 l1 this] obtain pd nl2 h2 where e2: "next_table gfpages 2 pdpt j nl1 h1 = Some (pd, nl2, h2)"
    and g2: "grown r 1 {} h1 h2" and f2: "follow (ept_mem h2) r (([] @ [i]) @ [j]) = Some pd"
    and s2: "\<And>x. follow (ept_mem h2) r (path3 x) = follow (ept_mem h1) r (path3 x)"
    by blast
  have g12: "grown r 2 {} h h2" using grown_trans_tables [OF g1 g2 s1] by (simp add: numeral_2_eq_2)
  have n2: "linkable r h2 (spt cur)" and m2: "ept_mem h2 (spt cur) = ept_mem h (spt cur)"
    using grown_linkable [OF g12 n] by simp_all
  have s: "follow (ept_mem h2) r (path3 x) = follow (ept_mem h) r (path3 x)" for x by (simp add: s1 s2)
  have fk: "follow (ept_mem h2) r (leaf_path g) =
      (if ept_mem h2 pd k = 0 then None else Some (ept_mem h2 pd k AND NOT EPT_MASK))"
    using f2 unfolding lp by (subst follow_snoc) simp
  have idx: "i = ucast (drop_bit 27 g AND 0x1FF)" "j = ucast (drop_bit 18 g AND 0x1FF)"
      "k = ucast (drop_bit 9 g AND 0x1FF)"
    using lp leaf_path_idx [of g] by simp_all
  have e: "make_ept_entry gfpages r cur nl h =
      (if ept_mem h2 pd k = 0 then Some (nl2, set_entry h2 pd k (spt cur OR 7)) else Some (nl2, h2))"
    using e1 e2 r unfolding idx by (simp add: make_ept_entry_def g Let_def)
  show ?thesis
  proof (cases "ept_mem h2 pd k = 0")
    case False
    have "grown r 2 {spt cur} h h2" using g12 by (auto simp: grown_def)
    then show ?thesis
    proof (rule that [of nl2 h2, rotated])
      show "follow (ept_mem h2) r (path3 x) =
        (if path3 x = leaf_path g \<and> follow (ept_mem h) r (path3 x) = None then Some (spt cur)
         else follow (ept_mem h) r (path3 x))" for x
        using fk False s [of x] by (auto split: if_splits)
    qed (use e False m2 n2 in \<open>auto simp: linkable_def\<close>)
  next
    case True
    let ?h = "set_entry h2 pd k (spt cur OR 7)"
    have f2': "follow (ept_mem h2) r [i, j] = Some pd" using f2 by simp
    note l = link_leaf [OF grown_ok [OF g12] f2' _ True n2]
    have g3: "grown r (2 + 0) {spt cur} h ?h"
      by (rule grown_trans_tables [OF g12 l(2) s]) simp
    show ?thesis
    proof (rule that [of nl2 ?h])
      show "follow (ept_mem ?h) r (path3 x) =
        (if path3 x = leaf_path g \<and> follow (ept_mem h) r (path3 x) = None then Some (spt cur)
         else follow (ept_mem h) r (path3 x))" for x
      proof -
        have "follow (ept_mem ?h) r (path3 x) =
            (if path3 x = [i, j] @ [k] then Some (spt cur) else follow (ept_mem h2) r (path3 x))"
          by (rule links_follow [OF l(1)]) simp_all
        then show ?thesis using fk True s [of x] unfolding lp [symmetric] by auto
      qed
      show "ept_mem ?h (spt cur) = ept_mem h (spt cur)" using l(3) m2 by simp
      show "follow (ept_mem ?h) r (leaf_path g) = Some (spt cur)"
        unfolding lp by (rule links_follow_new [OF l(1)]) simp
    qed (use e True g3 in simp_all)
  qed
qed

text \<open>The whole loop: a path leads to the first leaf page of the list that has it.\<close>

definition leaf_nodes_ok :: "u64 \<Rightarrow> host \<Rightarrow> kvm_mmu_page list \<Rightarrow> bool" where
  "leaf_nodes_ok r h L \<longleftrightarrow>
     distinct (map spt L) \<and> (\<forall>cur \<in> set L. gfn cur \<noteq> None \<and> linkable r h (spt cur))"

definition first_leaf :: "kvm_mmu_page list \<Rightarrow> u64 \<Rightarrow> u64 option" where
  "first_leaf L x = map_option spt (find (\<lambda>cur. map_option leaf_path (gfn cur) = Some (path3 x)) L)"

lemma first_leaf_simps [simp]:
  "first_leaf [] x = None"
  "first_leaf (cur # L) x =
    (if map_option leaf_path (gfn cur) = Some (path3 x) then Some (spt cur) else first_leaf L x)"
  by (simp_all add: first_leaf_def del: map_option_eq_Some)

lemma make_ept_loop_post:
  assumes "ept_ok (ept_mem h) r (future_frames h)" "r \<noteq> 0" "2 * length L \<le> avail_frames h"
    "leaf_nodes_ok r h L"
  obtains nl' h' where "make_ept_loop gfpages r L nl h = Some (nl', h')"
    and "grown r (2 * length L) (spt ` set L) h h'"
    and "\<And>cur. cur \<in> set L \<Longrightarrow> ept_mem h' (spt cur) = ept_mem h (spt cur)"
    and "\<And>x. follow (ept_mem h') r (path3 x) =
      (case follow (ept_mem h) r (path3 x) of Some t \<Rightarrow> Some t | None \<Rightarrow> first_leaf L x)"
  using assms
proof (induction L arbitrary: nl h thesis)
  case Nil
  then show ?case using grown_refl by (auto split: option.splits)
next
  case (Cons cur L)
  from Cons.prems(5) obtain g where g: "gfn cur = Some g" and n: "linkable r h (spt cur)"
    by (auto simp: leaf_nodes_ok_def)
  have "2 \<le> avail_frames h" using Cons.prems(4) by simp
  then obtain nl1 h1 where e: "make_ept_entry gfpages r cur nl h = Some (nl1, h1)"
    and g1: "grown r 2 {spt cur} h h1" and m1: "ept_mem h1 (spt cur) = ept_mem h (spt cur)"
    and t1: "spt cur \<in> tables (ept_mem h1) r \<Longrightarrow> follow (ept_mem h1) r (leaf_path g) = Some (spt cur)"
    and f1: "\<And>x. follow (ept_mem h1) r (path3 x) =
      (if path3 x = leaf_path g \<and> follow (ept_mem h) r (path3 x) = None then Some (spt cur)
       else follow (ept_mem h) r (path3 x))"
    using make_ept_entry_post [OF Cons.prems(2,3) g _ n] by blast
  have lk: "linkable r h1 (spt c)" and mc: "ept_mem h1 (spt c) = ept_mem h (spt c)" if "c \<in> set L" for c
  proof -
    have c: "spt c \<noteq> spt cur" "linkable r h (spt c)"
      using that Cons.prems(5) by (auto simp: leaf_nodes_ok_def) (metis image_eqI)
    then have "spt c \<notin> tables (ept_mem h1) r" using g1 unfolding grown_def linkable_def by blast
    with c show "linkable r h1 (spt c)" using g1 unfolding grown_def linkable_def by blast
    show "ept_mem h1 (spt c) = ept_mem h (spt c)" using c g1 unfolding grown_def linkable_def by blast
  qed
  have nodes: "leaf_nodes_ok r h1 L"
    using Cons.prems(5) lk by (auto simp: leaf_nodes_ok_def)
  have av1: "2 * length L \<le> avail_frames h1" using g1 Cons.prems(4) by (simp add: grown_def)
  obtain nl2 h2 where e2: "make_ept_loop gfpages r L nl1 h1 = Some (nl2, h2)"
    and g2: "grown r (2 * length L) (spt ` set L) h1 h2"
    and m2: "\<And>c. c \<in> set L \<Longrightarrow> ept_mem h2 (spt c) = ept_mem h1 (spt c)"
    and f2: "\<And>x. follow (ept_mem h2) r (path3 x) =
      (case follow (ept_mem h1) r (path3 x) of Some t \<Rightarrow> Some t | None \<Rightarrow> first_leaf L x)"
    using Cons.IH [OF _ grown_ok [OF g1] Cons.prems(3) av1 nodes] by blast
  have cur2: "ept_mem h2 (spt cur) = ept_mem h1 (spt cur)"
  proof (cases "spt cur \<in> tables (ept_mem h1) r")
    case False
    moreover have "spt cur \<notin> future_frames h1" using n g1 by (auto simp: linkable_def grown_def)
    ultimately show ?thesis using g2 by (simp add: grown_def)
  next
    case True
    from t1 [OF True] g2 show ?thesis unfolding grown_def leaf_path_def by blast
  qed
  have keep: "follow (ept_mem h1) r (path3 x) = Some t" if "follow (ept_mem h) r (path3 x) = Some t" for x t
    using that f1 [of x] by simp
  have "grown r (2 + 2 * length L) ({spt cur} \<union> spt ` set L) h h2"
    by (rule grown_trans [OF g1 g2 keep]) (use cur2 m1 in auto)
  moreover have "ept_mem h2 (spt c) = ept_mem h (spt c)" if "c \<in> set (cur # L)" for c
    using that cur2 m1 m2 mc by auto
  moreover have "follow (ept_mem h2) r (path3 x) =
      (case follow (ept_mem h) r (path3 x) of Some t \<Rightarrow> Some t | None \<Rightarrow> first_leaf (cur # L) x)" for x
    using f1 [of x] f2 [of x] g by (auto split: option.splits)
  moreover have "make_ept_loop gfpages r (cur # L) nl h = Some (nl2, h2)" by (simp add: e e2)
  ultimately show ?case using Cons.prems(1) by simp
qed

text \<open>The root is a fresh frame, so at first nothing is mapped.\<close>

lemma zero_root:
  assumes "\<forall>i. m r i = 0"
  shows "tree m r" "tables m r = {r}" "follow m r (path3 x) = None"
proof -
  have f: "follow m r q = Some t \<longleftrightarrow> q = [] \<and> t = r" for q t
    using assms by (cases q) auto
  show "tree m r" by (auto simp: tree_def f)
  show "tables m r = {r}" by (auto simp: tables_def f)
  show "follow m r (path3 x) = None" by (simp add: path3_def assms)
qed

definition leaf_source_ok :: "host \<Rightarrow> kvm_mmu_page list \<Rightarrow> bool" where
  "leaf_source_ok h L \<longleftrightarrow>
     distinct (map spt L) \<and>
     (\<forall>cur \<in> set L. gfn cur \<noteq> None \<and> page_addr (spt cur) \<and> spt cur \<notin> future_frames h)"

lemma make_imee_ept_post:
  assumes src: "leaf_source_ok h L" and av: "2 * length L + 1 \<le> avail_frames h"
  obtains r nl' h' where "make_imee_ept gfpages L nl h = Some (r, nl', h')" and "r \<noteq> 0"
    and "ept_ok (ept_mem h') r (future_frames h')" and "future_frames h' \<subseteq> future_frames h"
    and "avail_frames h \<le> avail_frames h' + (2 * length L + 1)"
    and "\<And>u. u \<notin> future_frames h \<Longrightarrow> ept_mem h' u = ept_mem h u"
    and "tables (ept_mem h') r \<subseteq> future_frames h \<union> spt ` set L"
    and "\<And>x. follow (ept_mem h') r (path3 x) = first_leaf L x"
proof -
  have av0: "0 < avail_frames h" using av by simp
  obtain r h1 where g: "get_ept_page gfpages h = (r, h1)" by fastforce
  have r: "r \<noteq> 0" "r \<in> future_frames h" "future_frames h1 = future_frames h - {r}"
      "avail_frames h1 = avail_frames h - 1" "ept_mem h1 = (ept_mem h)(r := (\<lambda>i. 0))"
    using ept_pool.alloc_page [OF av0, of gfpages] ept_pool.alloc_future [OF av0, of gfpages]
      ept_pool.future_alloc [OF av0, of gfpages] ept_pool.avail_alloc [OF av0, of gfpages]
      ept_pool.cells_alloc [OF av0, of gfpages] g by simp_all
  have z: "\<forall>i. ept_mem h1 r i = 0" by (simp add: r)
  have ok: "ept_ok (ept_mem h1) r (future_frames h1)"
    using zero_root [of "ept_mem h1" r, OF z] r by (simp add: ept_ok_def)
  have nodes: "leaf_nodes_ok r h1 L"
    using src r zero_root(2) [of "ept_mem h1" r, OF z] by (auto simp: leaf_nodes_ok_def leaf_source_ok_def linkable_def)
  have av1: "2 * length L \<le> avail_frames h1" using av r by simp
  obtain nl' h' where e: "make_ept_loop gfpages r L (\<lparr>spt = r, gfn = None, role_level = 4\<rparr> # nl) h1 = Some (nl', h')"
    and gr: "grown r (2 * length L) (spt ` set L) h1 h'"
    and m: "\<And>cur. cur \<in> set L \<Longrightarrow> ept_mem h' (spt cur) = ept_mem h1 (spt cur)"
    and f: "\<And>x. follow (ept_mem h') r (path3 x) =
      (case follow (ept_mem h1) r (path3 x) of Some t \<Rightarrow> Some t | None \<Rightarrow> first_leaf L x)"
    using make_ept_loop_post [OF ok r(1) av1 nodes] by blast
  show ?thesis
  proof (rule that)
    show "make_imee_ept gfpages L nl h = Some (r, nl', h')" by (simp add: make_imee_ept_def g e)
    show "ept_mem h' u = ept_mem h u" if "u \<notin> future_frames h" for u
    proof -
      have "u \<noteq> r" using that r(2) by blast
      then have "u \<notin> tables (ept_mem h1) r" "u \<notin> future_frames h1"
        using that r(3) zero_root(2) [of "ept_mem h1" r, OF z] by auto
      then have "ept_mem h' u = ept_mem h1 u" using gr by (simp add: grown_def)
      with \<open>u \<noteq> r\<close> show ?thesis by (simp add: r)
    qed
    show "tables (ept_mem h') r \<subseteq> future_frames h \<union> spt ` set L"
      using gr r zero_root(2) [of "ept_mem h1" r, OF z] by (auto simp: grown_def)
    show "follow (ept_mem h') r (path3 x) = first_leaf L x" for x
      using f zero_root(3) [of "ept_mem h1" r, OF z] by simp
  qed (use gr r in \<open>auto simp: grown_def\<close>)
qed

subsection \<open>Copying the last-level tables\<close>

definition is_leaf :: "kvm_mmu_page \<Rightarrow> bool" where
  "is_leaf page \<longleftrightarrow> role_level page = 1"

text \<open>The nodes copied from the pages \<open>P\<close>: same frame number, and the entries without the
  write and execute bits.\<close>

definition copies :: "ptmem \<Rightarrow> ptmem \<Rightarrow> kvm_mmu_page list \<Rightarrow> kvm_mmu_page list \<Rightarrow> bool" where
  "copies m m' P N \<longleftrightarrow>
     list_all2 (\<lambda>page node. gfn node = gfn page \<and> role_level node = 1 \<and>
       (\<forall>i. m' (spt node) i = m (spt page) i AND NOT 0x6)) P N"

definition copy_post ::
    "kvm_mmu_page list \<Rightarrow> kvm_mmu_page list \<Rightarrow> host \<Rightarrow> (kvm_mmu_page list \<times> host) option \<Rightarrow> bool" where
  "copy_post active leaf h res \<longleftrightarrow>
    (\<exists>N h'. res = Some (rev N @ leaf, h') \<and>
      copies (ept_mem h) (ept_mem h') (filter is_leaf active) N \<and> distinct (map spt N) \<and>
      (\<forall>node \<in> set N. spt node \<in> future_frames h \<and> spt node \<notin> future_frames h' \<and>
         page_addr (spt node)) \<and>
      future_frames h' \<subseteq> future_frames h \<and>
      avail_frames h = avail_frames h' + length (filter is_leaf active) \<and>
      (\<forall>u. u \<notin> future_frames h \<longrightarrow> ept_mem h' u = ept_mem h u))"

lemma copy_post_Cons:
  assumes leaf: "is_leaf page" and src: "\<forall>p \<in> set active. spt p \<notin> future_frames h"
    and av0: "0 < avail_frames h" and n: "n \<in> future_frames h" "page_addr n"
    and h2: "future_frames h2 = future_frames h - {n}" "avail_frames h2 = avail_frames h - 1"
        "ept_mem h2 = (ept_mem h)(n := (\<lambda>i. ept_mem h (spt page) i AND NOT 0x6))"
    and post: "copy_post active (\<lparr>spt = n, gfn = gfn page, role_level = 1\<rparr> # leaf) h2 res"
  shows "copy_post (page # active) leaf h res"
proof -
  let ?new = "\<lparr>spt = n, gfn = gfn page, role_level = 1\<rparr>"
  from post obtain N h' where e: "res = Some (rev N @ (?new # leaf), h')"
    and c: "copies (ept_mem h2) (ept_mem h') (filter is_leaf active) N"
    and d: "distinct (map spt N)"
    and N: "\<forall>node \<in> set N. spt node \<in> future_frames h2 \<and> spt node \<notin> future_frames h' \<and> page_addr (spt node)"
    and fu: "future_frames h' \<subseteq> future_frames h2"
    and av: "avail_frames h2 = avail_frames h' + length (filter is_leaf active)"
    and fr: "\<forall>u. u \<notin> future_frames h2 \<longrightarrow> ept_mem h' u = ept_mem h2 u"
    unfolding copy_post_def by blast
  have other: "ept_mem h2 (spt p) = ept_mem h (spt p)" if "p \<in> set active" for p
    using that src n(1) by (auto simp: h2)
  have c': "copies (ept_mem h) (ept_mem h') (filter is_leaf active) N"
    using c unfolding copies_def
    by (rule list.rel_mono_strong) (use other in auto)
  have nn: "ept_mem h' n = ept_mem h2 n" using fr by (simp add: h2)
  have cc: "copies (ept_mem h) (ept_mem h') (filter is_leaf (page # active)) (?new # N)"
    using c' leaf nn by (simp add: copies_def h2)
  have dd: "distinct (map spt (?new # N))" using d N by (auto simp: h2)
  have ff: "ept_mem h' u = ept_mem h u" if "u \<notin> future_frames h" for u
    using that fr n(1) by (auto simp: h2)
  have nf: "n \<notin> future_frames h'" using fu h2 by blast
  have "res = Some (rev (?new # N) @ leaf, h')" using e by simp
  moreover have "avail_frames h = avail_frames h' + length (filter is_leaf (page # active))"
    using av h2(2) av0 leaf by simp
  moreover have "\<forall>node \<in> set (?new # N). spt node \<in> future_frames h \<and> spt node \<notin> future_frames h' \<and>
      page_addr (spt node)"
    using N n nf h2(1) by auto
  moreover have "future_frames h' \<subseteq> future_frames h" using fu h2(1) by blast
  ultimately show ?thesis unfolding copy_post_def using cc dd ff by blast
qed

lemma copy_leaf_ept_post:
  assumes "length (filter is_leaf active) \<le> avail_frames h"
    and "\<forall>page \<in> set active. spt page \<notin> future_frames h"
  shows "copy_post active leaf h (copy_leaf_ept gfpages active leaf h)"
  using assms
proof (induction active arbitrary: leaf h)
  case Nil
  show ?case by (simp add: copy_post_def copies_def)
next
  case (Cons page active)
  show ?case
  proof (cases "is_leaf page")
    case False
    then show ?thesis
      using Cons.IH [of h leaf] Cons.prems by (simp add: copy_post_def is_leaf_def)
  next
    case True
    have av0: "0 < avail_frames h" using Cons.prems(1) True by simp
    obtain n h1 where g: "get_ept_page gfpages h = (n, h1)" by fastforce
    have n: "n \<noteq> 0" "n \<in> future_frames h" "future_frames h1 = future_frames h - {n}" "page_addr n"
        "avail_frames h1 = avail_frames h - 1" "ept_mem h1 = (ept_mem h)(n := (\<lambda>i. 0))"
      using ept_pool.alloc_page [OF av0, of gfpages] ept_pool.alloc_future [OF av0, of gfpages]
        ept_pool.future_alloc [OF av0, of gfpages] ept_pool.avail_alloc [OF av0, of gfpages]
        ept_pool.cells_alloc [OF av0, of gfpages] g by simp_all
    have src: "spt page \<noteq> n" using Cons.prems(2) n(2) by auto
    define h2 where "h2 = h1\<lparr>ept_mem := (ept_mem h1)(n := (\<lambda>i. ept_mem h1 (spt page) i AND NOT 0x6))\<rparr>"
    have h2: "future_frames h2 = future_frames h - {n}" "avail_frames h2 = avail_frames h - 1"
        "ept_mem h2 = (ept_mem h)(n := (\<lambda>i. ept_mem h (spt page) i AND NOT 0x6))"
      using n src by (simp_all add: h2_def)
    have post: "copy_post active (\<lparr>spt = n, gfn = gfn page, role_level = 1\<rparr> # leaf) h2
        (copy_leaf_ept gfpages active (\<lparr>spt = n, gfn = gfn page, role_level = 1\<rparr> # leaf) h2)"
      by (rule Cons.IH) (use Cons.prems True h2 in auto)
    have e: "copy_leaf_ept gfpages (page # active) leaf h =
        copy_leaf_ept gfpages active (\<lparr>spt = n, gfn = gfn page, role_level = 1\<rparr> # leaf) h2"
      using True n(1) by (simp add: is_leaf_def g h2_def)
    show ?thesis
      unfolding e by (rule copy_post_Cons [OF True _ av0 n(2,4) h2 post]) (use Cons.prems(2) in simp)
  qed
qed

end
