(* ===== verification/Imee_State.thy ===== *)
theory Imee_State
  imports Ept
begin

text \<open>
  The state of the module \<^verbatim>\<open>kvm/imee.c\<close>: its global variables, the argument block of the
  setup call (\<^verbatim>\<open>kvm/imee.h\<close>), and the parts of a VM and of a vCPU it reads and writes.
\<close>

subsection \<open>Argument block and descriptors\<close>

record arg_blk =
  arg_cr3 :: u64
  num_x_page :: u64
  num_w_page :: u64
  arg_offset :: u64
  code_host :: u64
  data_host :: u64
  arg_stack :: u64
  arg_entry :: u64
  int_handler :: u64
  arg_thunk :: u64
  arg_got :: u64
  got_len :: u64
  arg_gotplt :: u64
  gotplt_len :: u64

text \<open>The fields of \<^verbatim>\<open>struct kvm_segment\<close> that the code accesses, with their ABI widths.\<close>

record kvm_segment =
  base :: u64
  limit :: u32
  selector :: u16
  seg_type :: u8
  present :: u8
  dpl :: u8
  db :: u8
  seg_s :: u8
  seg_l :: u8
  seg_g :: u8
  avl :: u8
  unusable :: u8

record desc_ptr =
  desc_size :: u16
  desc_address :: u64

datatype sreg = CS | DS | ES | FS | GS | SS | TR | LDTR

datatype reg = RAX | RCX | RDX | RBX | RSP | RBP | RSI | RDI | R8 | R9 | R10 | R11 | R12 | R13 | R14 | R15 | RIP

subsection \<open>Constants\<close>

definition PD_GPA :: u64 where "PD_GPA = 0xF0000000"
definition PT_GPA_EXEC :: u64 where "PT_GPA_EXEC = 0xF0001000"
definition PT_GPA_DATA :: u64 where "PT_GPA_DATA = 0xF0002000"
definition CODE_GPA :: u64 where "CODE_GPA = 0xF0003000"
definition DATA_GPA :: u64 where "DATA_GPA = 0xF0004000"

lemmas gpa_consts = PD_GPA_def PT_GPA_EXEC_def PT_GPA_DATA_def CODE_GPA_def DATA_GPA_def

definition SCAN_ALL :: int where "SCAN_ALL = 1"
definition SCAN_ONE :: int where "SCAN_ONE = 2"

subsection \<open>Virtual machines\<close>

text \<open>What the code reads of \<^verbatim>\<open>struct kvm\<close>: an identity for the pointer, the owner of its
  address space, the vCPU pointers (\<open>None\<close> for NULL) and the active shadow pages. A vCPU is a
  number.\<close>

record vm =
  vm_id :: nat
  vm_owner :: int
  vm_vcpus :: "nat \<Rightarrow> nat option"
  active_mmu_pages :: "kvm_mmu_page list"

definition pick_cpu :: "vm \<Rightarrow> nat option" where
  "pick_cpu target_kvm = vm_vcpus target_kvm 0"

subsection \<open>Globals of the module\<close>

text \<open>\<open>mem32\<close> is the memory seen as pages of 1024 entries of 32 bits: the guest's format of paging
  structures, used by the local page tables. \<open>contexts\<close> is the list
  \<^verbatim>\<open>introspection_contexts\<close>; a pointer to a context is the number of its VM.\<close>

record imee =
  hst :: host
  contexts :: "intro_ctx list"
  current_target :: "nat option"
  imee_arg :: arg_blk
  code_hpa :: u64
  data_hpa :: u64
  code_entry :: u64
  fake_cr3_pd_hpa :: u64
  fake_cr3_pt_hpa_exec :: u64
  fake_cr3_pt_hpa_data :: u64
  mem32 :: "u64 \<Rightarrow> idx10 \<Rightarrow> u32"
  zpages_calls :: nat      \<comment> \<open>number of calls of \<^verbatim>\<open>get_zeroed_page\<close> so far\<close>

end
