(* ===== verification/Vmcs.thy ===== *)
theory Vmcs
  imports Imee_State
begin

text \<open>
  The state of a vCPU on Intel hardware (\<^verbatim>\<open>struct vcpu_vmx\<close> of \<^verbatim>\<open>kvm/vmx.c\<close>, with the
  fields of \<^verbatim>\<open>struct kvm_vcpu\<close> it embeds), the fields of its VMCS, and reading and writing
  them. \<^verbatim>\<open>regs_avail\<close> and \<^verbatim>\<open>regs_dirty\<close> are bit masks over the registers, so
  they are sets of registers; the bit mask of the segment cache has one bit per segment and field.
\<close>

subsection \<open>VMCS fields\<close>

datatype vfield =
    GUEST_SELECTOR sreg | GUEST_BASE sreg | GUEST_LIMIT sreg | GUEST_AR_BYTES sreg | GUEST_RFLAGS
  | GUEST_RSP | GUEST_RIP | GUEST_CR0 | GUEST_CR3 | GUEST_CR4 | GUEST_DR7 | GUEST_IDTR_LIMIT
  | GUEST_IDTR_BASE | GUEST_GDTR_LIMIT | GUEST_GDTR_BASE | GUEST_PDPTR nat | GUEST_INTERRUPTIBILITY_INFO
  | GUEST_PHYSICAL_ADDRESS | GUEST_LINEAR_ADDRESS | CR0_READ_SHADOW | CR4_READ_SHADOW | EPT_POINTER
  | TSC_OFFSET | EXCEPTION_BITMAP | MSR_BITMAP | PAGE_FAULT_ERROR_CODE_MASK | PAGE_FAULT_ERROR_CODE_MATCH
  | VM_ENTRY_CONTROLS | VM_EXIT_CONTROLS | CPU_BASED_VM_EXEC_CONTROL | VM_ENTRY_MSR_LOAD_COUNT
  | VM_EXIT_MSR_LOAD_COUNT | VM_ENTRY_INTR_INFO_FIELD | VM_ENTRY_EXCEPTION_ERROR_CODE
  | VM_ENTRY_INSTRUCTION_LEN | VM_EXIT_REASON | VM_EXIT_INSTRUCTION_LEN | VM_EXIT_INTR_INFO
  | EXIT_QUALIFICATION | IDT_VECTORING_ERROR_CODE | GUEST_IA32_EFER | HOST_IA32_EFER
  | GUEST_IA32_PERF_GLOBAL_CTRL | HOST_IA32_PERF_GLOBAL_CTRL | HOST_FS_SELECTOR | HOST_GS_SELECTOR
  | HOST_FS_BASE | HOST_GS_BASE | GUEST_SYSENTER_CS | GUEST_SYSENTER_ESP | GUEST_SYSENTER_EIP
  | GUEST_IA32_PAT | TPR_THRESHOLD

subsection \<open>The vCPU\<close>

text \<open>The bits of \<^verbatim>\<open>regs_avail\<close> and \<^verbatim>\<open>regs_dirty\<close>: the general registers and the
  ones KVM adds.\<close>

datatype vreg = Gpr reg | R_ext nat | EXREG_PDPTR | EXREG_CR3 | EXREG_RFLAGS | EXREG_CPL | EXREG_SEGMENTS

datatype seg_field = SEG_FIELD_SEL | SEG_FIELD_BASE | SEG_FIELD_LIMIT | SEG_FIELD_AR

record kvm_save_segment =
  sv_selector :: u16
  sv_base :: u64
  sv_limit :: u32
  sv_ar :: u32

record shared_msr_entry =
  sm_index :: nat
  sm_data :: u64
  sm_mask :: u64

record vmx_msr_entry =
  me_index :: u32
  me_value :: u64

record host_state =
  hs_loaded :: bool
  hs_fs_sel :: u16
  hs_gs_sel :: u16
  hs_ldt_sel :: u16
  hs_ds_sel :: u16
  hs_es_sel :: u16
  gs_ldt_reload_needed :: bool
  fs_reload_needed :: bool

text \<open>The parts of the physical processor that the host state code saves, sets and restores: its
  selectors, the base registers, the shared MSRs and \<^verbatim>\<open>CR0.TS\<close>.\<close>

record cpu_regs =
  cpu_ldt :: u16
  cpu_fs :: u16
  cpu_gs :: u16
  cpu_ds :: u16
  cpu_es :: u16
  cpu_fs_base :: u64
  cpu_gs_base :: u64
  cpu_kernel_gs_base :: u64
  cpu_ts :: bool
  cpu_shared_msrs :: "(nat \<times> u64 \<times> u64) list"   \<comment> \<open>the calls of \<^verbatim>\<open>kvm_set_shared_msr\<close>\<close>
  cpu_tss_reloads :: nat
  cpu_gdt_loads :: nat
  cpu_pebs_enable :: u64
  cpu_xcr0 :: u64

text \<open>The instructions that drop cached translations, in the order the code issues them.\<close>

datatype flush = Invvpid_single u16 | Invvpid_all | Invept_context u64 | Invept_global

text \<open>The bits of \<^verbatim>\<open>vcpu->requests\<close> the code sets.\<close>

datatype request = REQ_EVENT | REQ_TRIPLE_FAULT | REQ_NMI | REQ_TLB_FLUSH | REQ_MMU_SYNC
  | REQ_CLOCK_UPDATE | REQ_GLOBAL_CLOCK_UPDATE | REQ_STEAL_UPDATE | REQ_IMMEDIATE_EXIT

text \<open>\<^verbatim>\<open>struct vcpu_vmx\<close>: the fields of the embedded \<^verbatim>\<open>struct kvm_vcpu\<close> first. The VMCS it
  points to is part of the record; \<open>dirs\<close> holds the page-directory pointers of \<^verbatim>\<open>walk_mmu\<close>.\<close>

record vcpu =
  regs :: "reg \<Rightarrow> u64"
  regs_avail :: "vreg set"
  regs_dirty :: "vreg set"
  arch_cr0 :: u64
  cr0_guest_owned_bits :: u64
  arch_cr3 :: u64
  arch_cr4 :: u64
  cr4_guest_owned_bits :: u64
  arch_efer :: u64
  arch_cr2 :: u64
  arch_cr8 :: u64
  arch_apic_base :: u64
  xcr0 :: u64
  arch_dr :: "nat \<Rightarrow> u64"
  arch_dr6 :: u64
  arch_dr7 :: u64
  eff_db :: "nat \<Rightarrow> u64"
  exc_pending :: bool
  exc_has_error_code :: bool
  exc_nr :: nat
  exc_error_code :: u32
  exc_reinject :: bool
  interrupt_pending :: bool
  interrupt_soft :: bool
  interrupt_nr :: nat
  nmi_injected :: bool
  nmi_pending :: nat
  nmi_queued :: nat
  requests :: "request set"
  event_exit_inst_len :: u32
  guest_debug_dr7 :: u64
  switch_db_regs :: bool
  guest_xcr0_loaded :: bool
  apf_gfns :: "u64 list"
  root_hpa :: u64
  dirs :: "nat \<Rightarrow> u64"
  guest_debug :: u32
  fpu_active :: bool
  guest_fpu_loaded :: bool
  in_guest_mode :: bool
  vmcs12_eb :: u32
  vmcs12_cr0 :: u64
  vmcs12_cr0_mask :: u64
  vmcs12_cr0_shadow :: u64
  nested_vmxon :: bool
  tss_addr :: u64
  ept_identity_map_addr :: u64
  x2apic_in_kernel :: bool
  host_state_reload :: nat
  vmcs :: "vfield \<Rightarrow> u64"
  cpl :: u8
  rflags_cache :: u64
  guest_msrs :: "shared_msr_entry list"
  nmsrs :: nat
  save_nmsrs :: nat
  rdtscp_enabled :: bool
  msr_host_kernel_gs_base :: u64
  msr_guest_kernel_gs_base :: u64
  autoload_nr :: nat
  autoload_guest :: "vmx_msr_entry list"
  autoload_host :: "vmx_msr_entry list"
  host_st :: host_state
  vm86_active :: bool
  save_rflags :: u64
  rmode_segs :: "sreg \<Rightarrow> kvm_segment"
  cache_mask :: "(sreg \<times> seg_field) set"
  seg_cache :: "sreg \<Rightarrow> kvm_save_segment"
  vpid :: u16
  emulation_req :: bool
  exit_intr_info :: u32
  idt_vectoring_info :: u32
  vmx_exit_reason :: u32
  nmi_known_unmasked :: bool
  soft_vnmi_blocked :: bool
  vnmi_blocked_time :: int
  nested_run_pending :: bool
  hcpu :: cpu_regs
  flushes :: "flush list"

text \<open>The module parameters and capabilities the code tests, and the functions it calls that are
  not in the repository: the tests of the processor mode from \<^verbatim>\<open>x86.h\<close>, the reads of the
  control registers from \<^verbatim>\<open>kvm_cache_regs.h\<close> (they may fill caches), whether a vCPU may use
  nested VMX, the reset of the MMU context, the queue operations of
  \<^verbatim>\<open>x86.h\<close>, real-mode injection through the emulator, and the exit
  of a nested guest.\<close>

record env =
  enable_ept :: bool
  enable_unrestricted_guest :: bool
  enable_ept_ad_bits :: bool
  emulate_invalid_guest_state :: bool
  has_invvpid_single :: bool
  has_invvpid_global :: bool
  has_invept_context :: bool
  has_invept_global :: bool
  cpu_has_load_ia32_efer :: bool
  cpu_has_load_perf_global_ctrl :: bool
  has_msr_bitmap :: bool
  has_virtual_nmis :: bool
  host_efer :: u64
  bitmap_of :: "bool \<Rightarrow> bool \<Rightarrow> u64"   \<comment> \<open>addresses of the MSR bitmaps: x2APIC, long mode\<close>
  user_has_fpu :: bool
  is_protmode :: "vcpu \<Rightarrow> bool"
  is_paging :: "vcpu \<Rightarrow> bool"
  is_pae :: "vcpu \<Rightarrow> bool"
  is_long_mode :: "vcpu \<Rightarrow> bool"
  nested_vmx_allowed :: "vcpu \<Rightarrow> bool"
  rmode_tss_size :: u32
  kvm_read_cr0_bits :: "u64 \<Rightarrow> vcpu \<Rightarrow> u64 \<times> vcpu"
  kvm_read_cr3 :: "vcpu \<Rightarrow> u64 \<times> vcpu"
  kvm_read_cr4 :: "vcpu \<Rightarrow> u64 \<times> vcpu"
  kvm_mmu_reset_context :: "vcpu \<Rightarrow> vcpu"
  kvm_exception_is_soft :: "nat \<Rightarrow> bool"
  kvm_clear_exception_queue :: "vcpu \<Rightarrow> vcpu"
  kvm_clear_interrupt_queue :: "vcpu \<Rightarrow> vcpu"
  kvm_queue_interrupt :: "nat \<Rightarrow> bool \<Rightarrow> vcpu \<Rightarrow> vcpu"
  kvm_inject_realmode_interrupt :: "nat \<Rightarrow> u32 \<Rightarrow> vcpu \<Rightarrow> bool \<times> vcpu"   \<comment> \<open>done?\<close>
  nested_exit_on_intr :: "vcpu \<Rightarrow> bool"
  nested_vmx_vmexit :: "u32 \<Rightarrow> u32 \<Rightarrow> u64 \<Rightarrow> vcpu \<Rightarrow> vcpu"

subsection \<open>Reading and writing the VMCS\<close>

definition vmcs_readl :: "vfield \<Rightarrow> vcpu \<Rightarrow> u64" where
  "vmcs_readl field v = vmcs v field"

definition vmcs_read16 :: "vfield \<Rightarrow> vcpu \<Rightarrow> u16" where
  "vmcs_read16 field v = ucast (vmcs_readl field v)"

definition vmcs_read32 :: "vfield \<Rightarrow> vcpu \<Rightarrow> u32" where
  "vmcs_read32 field v = ucast (vmcs_readl field v)"

definition vmcs_read64 :: "vfield \<Rightarrow> vcpu \<Rightarrow> u64" where
  "vmcs_read64 field v = vmcs_readl field v"

definition vmcs_writel :: "vfield \<Rightarrow> u64 \<Rightarrow> vcpu \<Rightarrow> vcpu" where
  "vmcs_writel field val v = v\<lparr>vmcs := (vmcs v)(field := val)\<rparr>"

definition vmcs_write16 :: "vfield \<Rightarrow> u16 \<Rightarrow> vcpu \<Rightarrow> vcpu" where
  "vmcs_write16 field val v = vmcs_writel field (ucast val) v"

definition vmcs_write32 :: "vfield \<Rightarrow> u32 \<Rightarrow> vcpu \<Rightarrow> vcpu" where
  "vmcs_write32 field val v = vmcs_writel field (ucast val) v"

definition vmcs_write64 :: "vfield \<Rightarrow> u64 \<Rightarrow> vcpu \<Rightarrow> vcpu" where
  "vmcs_write64 field val v = vmcs_writel field val v"

definition vmcs_clear_bits :: "vfield \<Rightarrow> u32 \<Rightarrow> vcpu \<Rightarrow> vcpu" where
  "vmcs_clear_bits field m v = vmcs_writel field (vmcs_readl field v AND ucast (NOT m)) v"

definition vmcs_set_bits :: "vfield \<Rightarrow> u32 \<Rightarrow> vcpu \<Rightarrow> vcpu" where
  "vmcs_set_bits field m v = vmcs_writel field (vmcs_readl field v OR ucast m) v"

lemmas vmcs_ops = vmcs_readl_def vmcs_read16_def vmcs_read32_def vmcs_read64_def vmcs_writel_def
  vmcs_write16_def vmcs_write32_def vmcs_write64_def vmcs_clear_bits_def vmcs_set_bits_def

subsection \<open>Flushing cached translations\<close>

definition vpid_sync_vcpu_single :: "env \<Rightarrow> vcpu \<Rightarrow> vcpu" where
  "vpid_sync_vcpu_single E v =
     (if vpid v = 0 then v
      else if has_invvpid_single E then v\<lparr>flushes := flushes v @ [Invvpid_single (vpid v)]\<rparr> else v)"

definition vpid_sync_vcpu_global :: "env \<Rightarrow> vcpu \<Rightarrow> vcpu" where
  "vpid_sync_vcpu_global E v =
     (if has_invvpid_global E then v\<lparr>flushes := flushes v @ [Invvpid_all]\<rparr> else v)"

definition vpid_sync_context :: "env \<Rightarrow> vcpu \<Rightarrow> vcpu" where
  "vpid_sync_context E v =
     (if has_invvpid_single E then vpid_sync_vcpu_single E v else vpid_sync_vcpu_global E v)"

definition ept_sync_global :: "env \<Rightarrow> vcpu \<Rightarrow> vcpu" where
  "ept_sync_global E v =
     (if has_invept_global E then v\<lparr>flushes := flushes v @ [Invept_global]\<rparr> else v)"

definition ept_sync_context :: "env \<Rightarrow> u64 \<Rightarrow> vcpu \<Rightarrow> vcpu" where
  "ept_sync_context E eptp v =
     (if enable_ept E then
        (if has_invept_context E then v\<lparr>flushes := flushes v @ [Invept_context eptp]\<rparr>
         else ept_sync_global E v)
      else v)"

text \<open>The format of the EPT pointer: memory type write-back, walk length 4 in bits 5 to 3, accessed
  and dirty flags in bit 6, the root in bits 12 and up.\<close>

definition construct_eptp :: "env \<Rightarrow> u64 \<Rightarrow> u64" where
  "construct_eptp E root =
     (let eptp = 0x6 OR push_bit 3 3;
          eptp1 = (if enable_ept_ad_bits E then eptp OR push_bit 6 1 else eptp)
      in eptp1 OR (root AND NOT 0xFFF))"

definition INVALID_PAGE :: u64 where "INVALID_PAGE = - 1"

definition vmx_flush_tlb :: "env \<Rightarrow> vcpu \<Rightarrow> vcpu" where
  "vmx_flush_tlb E v =
     (let v1 = vpid_sync_context E v
      in if enable_ept E then
           (if root_hpa v1 = INVALID_PAGE then v1
            else ept_sync_context E (construct_eptp E (root_hpa v1)) v1)
         else v1)"

definition vmx_write_eptp :: "env \<Rightarrow> vcpu \<Rightarrow> vcpu" where
  "vmx_write_eptp E v =
     (let eptp = construct_eptp E (root_hpa v) AND NOT (push_bit 6 1)
      in vmx_flush_tlb E (vmcs_write64 EPT_POINTER eptp v))"

end
