(* ===== verification/Segments.thy ===== *)
theory Segments
  imports Vmcs
begin

text \<open>
  Segment registers of a vCPU (\<^verbatim>\<open>kvm/vmx.c\<close>): the cache over the VMCS fields, reading and
  writing a segment and its access rights, real-mode segments, and the validity checks a VM entry
  depends on. Operations that read through the cache return the vCPU too, as they fill it.
\<close>

subsection \<open>The segment cache\<close>

record kvm_vmx_segment_field =
  sf_selector :: vfield
  sf_base :: vfield
  sf_limit :: vfield
  sf_ar_bytes :: vfield

definition kvm_vmx_segment_fields :: "sreg \<Rightarrow> kvm_vmx_segment_field" where
  "kvm_vmx_segment_fields seg =
     \<lparr>sf_selector = GUEST_SELECTOR seg, sf_base = GUEST_BASE seg, sf_limit = GUEST_LIMIT seg,
      sf_ar_bytes = GUEST_AR_BYTES seg\<rparr>"

definition vmx_segment_cache_clear :: "vcpu \<Rightarrow> vcpu" where
  "vmx_segment_cache_clear v = v\<lparr>cache_mask := {}\<rparr>"

definition vmx_segment_cache_test_set :: "sreg \<Rightarrow> seg_field \<Rightarrow> vcpu \<Rightarrow> bool \<times> vcpu" where
  "vmx_segment_cache_test_set seg field v =
     (let v1 = (if EXREG_SEGMENTS \<notin> regs_avail v
                then v\<lparr>regs_avail := insert EXREG_SEGMENTS (regs_avail v), cache_mask := {}\<rparr> else v)
      in ((seg, field) \<in> cache_mask v1, v1\<lparr>cache_mask := insert (seg, field) (cache_mask v1)\<rparr>))"

definition vmx_read_guest_seg_selector :: "sreg \<Rightarrow> vcpu \<Rightarrow> u16 \<times> vcpu" where
  "vmx_read_guest_seg_selector seg v =
     (let (hit, v1) = vmx_segment_cache_test_set seg SEG_FIELD_SEL v;
          v2 = (if hit then v1
                else v1\<lparr>seg_cache := (seg_cache v1)(seg := (seg_cache v1 seg)
                  \<lparr>sv_selector := vmcs_read16 (sf_selector (kvm_vmx_segment_fields seg)) v1\<rparr>)\<rparr>)
      in (sv_selector (seg_cache v2 seg), v2))"

definition vmx_read_guest_seg_base :: "sreg \<Rightarrow> vcpu \<Rightarrow> u64 \<times> vcpu" where
  "vmx_read_guest_seg_base seg v =
     (let (hit, v1) = vmx_segment_cache_test_set seg SEG_FIELD_BASE v;
          v2 = (if hit then v1
                else v1\<lparr>seg_cache := (seg_cache v1)(seg := (seg_cache v1 seg)
                  \<lparr>sv_base := vmcs_readl (sf_base (kvm_vmx_segment_fields seg)) v1\<rparr>)\<rparr>)
      in (sv_base (seg_cache v2 seg), v2))"

definition vmx_read_guest_seg_limit :: "sreg \<Rightarrow> vcpu \<Rightarrow> u32 \<times> vcpu" where
  "vmx_read_guest_seg_limit seg v =
     (let (hit, v1) = vmx_segment_cache_test_set seg SEG_FIELD_LIMIT v;
          v2 = (if hit then v1
                else v1\<lparr>seg_cache := (seg_cache v1)(seg := (seg_cache v1 seg)
                  \<lparr>sv_limit := vmcs_read32 (sf_limit (kvm_vmx_segment_fields seg)) v1\<rparr>)\<rparr>)
      in (sv_limit (seg_cache v2 seg), v2))"

definition vmx_read_guest_seg_ar :: "sreg \<Rightarrow> vcpu \<Rightarrow> u32 \<times> vcpu" where
  "vmx_read_guest_seg_ar seg v =
     (let (hit, v1) = vmx_segment_cache_test_set seg SEG_FIELD_AR v;
          v2 = (if hit then v1
                else v1\<lparr>seg_cache := (seg_cache v1)(seg := (seg_cache v1 seg)
                  \<lparr>sv_ar := vmcs_read32 (sf_ar_bytes (kvm_vmx_segment_fields seg)) v1\<rparr>)\<rparr>)
      in (sv_ar (seg_cache v2 seg), v2))"

subsection \<open>Access rights\<close>

definition vmx_segment_access_rights :: "kvm_segment \<Rightarrow> u32" where
  "vmx_segment_access_rights var =
     (if unusable var \<noteq> 0 \<or> present var = 0 then push_bit 16 1
      else (ucast (seg_type var) AND 15) OR push_bit 4 (ucast (seg_s var) AND 1) OR
           push_bit 5 (ucast (dpl var) AND 3) OR push_bit 7 (ucast (present var) AND 1) OR
           push_bit 12 (ucast (avl var) AND 1) OR push_bit 13 (ucast (seg_l var) AND 1) OR
           push_bit 14 (ucast (db var) AND 1) OR push_bit 15 (ucast (seg_g var) AND 1))"

text \<open>Bit field \<open>n\<close> wide at bit \<open>k\<close> of the access rights.\<close>

definition ar_bits :: "u32 \<Rightarrow> nat \<Rightarrow> u32 \<Rightarrow> u8" where
  "ar_bits ar k m = ucast (drop_bit k ar AND m)"

text \<open>The module's own reader takes the raw fields of the current VMCS and the present bit as it is.\<close>

definition vmx_get_seg_sec :: "sreg \<Rightarrow> vcpu \<Rightarrow> kvm_segment \<Rightarrow> kvm_segment" where
  "vmx_get_seg_sec seg v var =
     (let sf = kvm_vmx_segment_fields seg; ar = vmcs_read32 (sf_ar_bytes sf) v
      in var\<lparr>base := vmcs_readl (sf_base sf) v, limit := vmcs_read32 (sf_limit sf) v,
             selector := vmcs_read16 (sf_selector sf) v, seg_type := ar_bits ar 0 15,
             seg_s := ar_bits ar 4 1, dpl := ar_bits ar 5 3, present := ar_bits ar 7 1,
             avl := ar_bits ar 12 1, seg_l := ar_bits ar 13 1, db := ar_bits ar 14 1,
             seg_g := ar_bits ar 15 1, unusable := ar_bits ar 16 1\<rparr>)"

definition seg_of_ar :: "u64 \<Rightarrow> u32 \<Rightarrow> u16 \<Rightarrow> u32 \<Rightarrow> kvm_segment" where
  "seg_of_ar b l sel ar =
     \<lparr>base = b, limit = l, selector = sel, seg_type = ar_bits ar 0 15,
      present = (if ar_bits ar 16 1 = 0 then 1 else 0), dpl = ar_bits ar 5 3, db = ar_bits ar 14 1,
      seg_s = ar_bits ar 4 1, seg_l = ar_bits ar 13 1, seg_g = ar_bits ar 15 1,
      avl = ar_bits ar 12 1, unusable = ar_bits ar 16 1\<rparr>"

definition vmx_get_segment :: "sreg \<Rightarrow> vcpu \<Rightarrow> kvm_segment \<times> vcpu" where
  "vmx_get_segment seg v =
     (if vm86_active v \<and> seg \<noteq> LDTR then
        (let var = rmode_segs v seg
         in if seg = TR then (var, v)
            else
              (let (sel, v1) = vmx_read_guest_seg_selector seg v
               in if selector var = sel then (var, v1)
                  else
                    (let (b, v2) = vmx_read_guest_seg_base seg v1;
                         (sel', v3) = vmx_read_guest_seg_selector seg v2
                     in (var\<lparr>base := b, selector := sel'\<rparr>, v3))))
      else
        (let (b, v1) = vmx_read_guest_seg_base seg v;
             (l, v2) = vmx_read_guest_seg_limit seg v1;
             (sel, v3) = vmx_read_guest_seg_selector seg v2;
             (ar, v4) = vmx_read_guest_seg_ar seg v3
         in (seg_of_ar b l sel ar, v4)))"

definition vmx_get_segment_base :: "sreg \<Rightarrow> vcpu \<Rightarrow> u64 \<times> vcpu" where
  "vmx_get_segment_base seg v =
     (if vm86_active v then (case vmx_get_segment seg v of (s, v1) \<Rightarrow> (base s, v1))
      else vmx_read_guest_seg_base seg v)"

definition vmx_get_cs_db_l_bits :: "vcpu \<Rightarrow> (u32 \<times> u32) \<times> vcpu" where
  "vmx_get_cs_db_l_bits v =
     (case vmx_read_guest_seg_ar CS v of
        (ar, v1) \<Rightarrow> ((drop_bit 14 ar AND 1, drop_bit 13 ar AND 1), v1))"

subsection \<open>Flags\<close>

definition X86_EFLAGS_IOPL :: u64 where "X86_EFLAGS_IOPL = 0x3000"
definition X86_EFLAGS_VM :: u64 where "X86_EFLAGS_VM = 0x20000"

definition RMODE_GUEST_OWNED_EFLAGS_BITS :: u64 where
  "RMODE_GUEST_OWNED_EFLAGS_BITS = NOT (X86_EFLAGS_IOPL OR X86_EFLAGS_VM)"

definition vmx_get_rflags :: "vcpu \<Rightarrow> u64 \<times> vcpu" where
  "vmx_get_rflags v =
     (if EXREG_RFLAGS \<notin> regs_avail v then
        (let v1 = v\<lparr>regs_avail := insert EXREG_RFLAGS (regs_avail v)\<rparr>;
             r = vmcs_readl GUEST_RFLAGS v1;
             r1 = (if vm86_active v1
                   then (r AND RMODE_GUEST_OWNED_EFLAGS_BITS) OR
                        (save_rflags v1 AND NOT RMODE_GUEST_OWNED_EFLAGS_BITS)
                   else r)
         in (r1, v1\<lparr>rflags_cache := r1\<rparr>))
      else (rflags_cache v, v))"

definition vmx_set_rflags :: "u64 \<Rightarrow> vcpu \<Rightarrow> vcpu" where
  "vmx_set_rflags r v =
     (let v1 = v\<lparr>regs_avail := insert EXREG_RFLAGS (regs_avail v), rflags_cache := r\<rparr>
      in if vm86_active v1
         then vmcs_writel GUEST_RFLAGS (r OR X86_EFLAGS_IOPL OR X86_EFLAGS_VM) (v1\<lparr>save_rflags := r\<rparr>)
         else vmcs_writel GUEST_RFLAGS r v1)"

definition vmx_get_cpl :: "env \<Rightarrow> vcpu \<Rightarrow> u8 \<times> vcpu" where
  "vmx_get_cpl E v =
     (if \<not> is_protmode E v then (0, v)
      else
        (let (vm, v1) = (if is_long_mode E v then (False, v)
                         else (case vmx_get_rflags v of (r, v') \<Rightarrow> (r AND X86_EFLAGS_VM \<noteq> 0, v')))
         in if vm then (3, v1)
            else
              (let v2 = (if EXREG_CPL \<notin> regs_avail v1 then
                           (case vmx_read_guest_seg_selector CS
                                   (v1\<lparr>regs_avail := insert EXREG_CPL (regs_avail v1)\<rparr>) of
                              (sel, v') \<Rightarrow> v'\<lparr>cpl := ucast (sel AND 3)\<rparr>)
                         else v1)
               in (cpl v2, v2))))"

subsection \<open>Descriptor tables\<close>

definition vmx_get_idt :: "vcpu \<Rightarrow> desc_ptr" where
  "vmx_get_idt v =
     \<lparr>desc_size = ucast (vmcs_read32 GUEST_IDTR_LIMIT v), desc_address = vmcs_readl GUEST_IDTR_BASE v\<rparr>"

definition vmx_set_idt :: "desc_ptr \<Rightarrow> vcpu \<Rightarrow> vcpu" where
  "vmx_set_idt dt v =
     vmcs_writel GUEST_IDTR_BASE (desc_address dt) (vmcs_write32 GUEST_IDTR_LIMIT (ucast (desc_size dt)) v)"

definition vmx_get_gdt :: "vcpu \<Rightarrow> desc_ptr" where
  "vmx_get_gdt v =
     \<lparr>desc_size = ucast (vmcs_read32 GUEST_GDTR_LIMIT v), desc_address = vmcs_readl GUEST_GDTR_BASE v\<rparr>"

definition vmx_set_gdt :: "desc_ptr \<Rightarrow> vcpu \<Rightarrow> vcpu" where
  "vmx_set_gdt dt v =
     vmcs_writel GUEST_GDTR_BASE (desc_address dt) (vmcs_write32 GUEST_GDTR_LIMIT (ucast (desc_size dt)) v)"

subsection \<open>Validity of the guest state\<close>

definition SELECTOR_RPL_MASK :: u16 where "SELECTOR_RPL_MASK = 3"
definition SELECTOR_TI_MASK :: u16 where "SELECTOR_TI_MASK = 4"
definition AR_TYPE_ACCESSES_MASK :: u8 where "AR_TYPE_ACCESSES_MASK = 1"
definition AR_TYPE_WRITEABLE_MASK :: u8 where "AR_TYPE_WRITEABLE_MASK = 4"
definition AR_TYPE_CODE_MASK :: u8 where "AR_TYPE_CODE_MASK = 8"

lemmas seg_consts = SELECTOR_RPL_MASK_def SELECTOR_TI_MASK_def AR_TYPE_ACCESSES_MASK_def
  AR_TYPE_WRITEABLE_MASK_def AR_TYPE_CODE_MASK_def

text \<open>The tests on the segment read, then the operations that read it.\<close>

definition rmode_seg_check :: "sreg \<Rightarrow> kvm_segment \<Rightarrow> bool" where
  "rmode_seg_check seg var0 =
     (let var1 = var0\<lparr>dpl := 3\<rparr>;
          var = (if seg = CS then var1\<lparr>seg_type := 3\<rparr> else var1);
          ar = vmx_segment_access_rights var
      in if base var \<noteq> push_bit 4 (ucast (selector var)) then False
         else if limit var \<noteq> 0xFFFF then False
         else if ar \<noteq> 0xF3 then False else True)"

definition rmode_segment_valid :: "sreg \<Rightarrow> vcpu \<Rightarrow> bool \<times> vcpu" where
  "rmode_segment_valid seg v = (case vmx_get_segment seg v of (var, v1) \<Rightarrow> (rmode_seg_check seg var, v1))"

definition code_seg_check :: "kvm_segment \<Rightarrow> bool" where
  "code_seg_check cs =
     (let cs_rpl = selector cs AND SELECTOR_RPL_MASK
      in if unusable cs \<noteq> 0 then False
         else if NOT (seg_type cs) AND (AR_TYPE_CODE_MASK OR AR_TYPE_ACCESSES_MASK) \<noteq> 0 then False
         else if seg_s cs = 0 then False
         else if (if seg_type cs AND AR_TYPE_WRITEABLE_MASK \<noteq> 0 then ucast (dpl cs) > cs_rpl
                  else ucast (dpl cs) \<noteq> cs_rpl) then False
         else if present cs = 0 then False else True)"

definition code_segment_valid :: "vcpu \<Rightarrow> bool \<times> vcpu" where
  "code_segment_valid v = (case vmx_get_segment CS v of (cs, v1) \<Rightarrow> (code_seg_check cs, v1))"

definition stack_seg_check :: "kvm_segment \<Rightarrow> bool" where
  "stack_seg_check ss =
     (let ss_rpl = selector ss AND SELECTOR_RPL_MASK
      in if unusable ss \<noteq> 0 then True
         else if seg_type ss \<noteq> 3 \<and> seg_type ss \<noteq> 7 then False
         else if seg_s ss = 0 then False
         else if ucast (dpl ss) \<noteq> ss_rpl then False
         else if present ss = 0 then False else True)"

definition stack_segment_valid :: "vcpu \<Rightarrow> bool \<times> vcpu" where
  "stack_segment_valid v = (case vmx_get_segment SS v of (ss, v1) \<Rightarrow> (stack_seg_check ss, v1))"

definition data_seg_check :: "kvm_segment \<Rightarrow> bool" where
  "data_seg_check var =
     (let rpl = selector var AND SELECTOR_RPL_MASK
      in if unusable var \<noteq> 0 then True
         else if seg_s var = 0 then False
         else if present var = 0 then False
         else if NOT (seg_type var) AND (AR_TYPE_CODE_MASK OR AR_TYPE_WRITEABLE_MASK) \<noteq> 0 \<and>
                 ucast (dpl var) < rpl then False
         else True)"

definition data_segment_valid :: "sreg \<Rightarrow> vcpu \<Rightarrow> bool \<times> vcpu" where
  "data_segment_valid seg v = (case vmx_get_segment seg v of (var, v1) \<Rightarrow> (data_seg_check var, v1))"

definition tr_check :: "kvm_segment \<Rightarrow> bool" where
  "tr_check tr =
     (if unusable tr \<noteq> 0 then False
      else if selector tr AND SELECTOR_TI_MASK \<noteq> 0 then False
      else if seg_type tr \<noteq> 3 \<and> seg_type tr \<noteq> 11 then False
      else if present tr = 0 then False else True)"

definition tr_valid :: "vcpu \<Rightarrow> bool \<times> vcpu" where
  "tr_valid v = (case vmx_get_segment TR v of (tr, v1) \<Rightarrow> (tr_check tr, v1))"

definition ldtr_check :: "kvm_segment \<Rightarrow> bool" where
  "ldtr_check ldtr =
     (if unusable ldtr \<noteq> 0 then True
      else if selector ldtr AND SELECTOR_TI_MASK \<noteq> 0 then False
      else if seg_type ldtr \<noteq> 2 then False
      else if present ldtr = 0 then False else True)"

definition ldtr_valid :: "vcpu \<Rightarrow> bool \<times> vcpu" where
  "ldtr_valid v = (case vmx_get_segment LDTR v of (ldtr, v1) \<Rightarrow> (ldtr_check ldtr, v1))"

definition cs_ss_rpl_check :: "vcpu \<Rightarrow> bool \<times> vcpu" where
  "cs_ss_rpl_check v =
     (let (cs, v1) = vmx_get_segment CS v; (ss, v2) = vmx_get_segment SS v1
      in (selector cs AND SELECTOR_RPL_MASK = selector ss AND SELECTOR_RPL_MASK, v2))"

text \<open>A sequence of checks, each an early return.\<close>

fun all_valid :: "(vcpu \<Rightarrow> bool \<times> vcpu) list \<Rightarrow> vcpu \<Rightarrow> bool \<times> vcpu" where
  "all_valid [] v = (True, v)"
| "all_valid (c # cs) v = (case c v of (ok, v1) \<Rightarrow> if ok then all_valid cs v1 else (False, v1))"

definition guest_state_valid :: "env \<Rightarrow> vcpu \<Rightarrow> bool \<times> vcpu" where
  "guest_state_valid E v =
     (if enable_unrestricted_guest E then (True, v)
      else
        (let (rm, v1) = (if \<not> is_protmode E v then (True, v)
                         else (case vmx_get_rflags v of (r, v') \<Rightarrow> (r AND X86_EFLAGS_VM \<noteq> 0, v')))
         in if rm then
              all_valid [rmode_segment_valid CS, rmode_segment_valid SS, rmode_segment_valid DS,
                         rmode_segment_valid ES, rmode_segment_valid FS, rmode_segment_valid GS] v1
            else
              all_valid [cs_ss_rpl_check, code_segment_valid, stack_segment_valid,
                         data_segment_valid DS, data_segment_valid ES, data_segment_valid FS,
                         data_segment_valid GS, tr_valid, ldtr_valid] v1))"

definition emulation_required :: "env \<Rightarrow> vcpu \<Rightarrow> bool \<times> vcpu" where
  "emulation_required E v =
     (if emulate_invalid_guest_state E then (case guest_state_valid E v of (ok, v1) \<Rightarrow> (\<not> ok, v1))
      else (False, v))"

subsection \<open>Writing segments\<close>

definition fix_rmode_seg :: "env \<Rightarrow> sreg \<Rightarrow> kvm_segment \<Rightarrow> vcpu \<Rightarrow> vcpu" where
  "fix_rmode_seg E seg save v =
     (let sf = kvm_vmx_segment_fields seg;
          var0 = save\<lparr>dpl := 3\<rparr>;
          var1 = (if seg = CS then var0\<lparr>seg_type := 3\<rparr> else var0);
          var = (if \<not> emulate_invalid_guest_state E
                 then var1\<lparr>selector := ucast (drop_bit 4 (base var1)), base := base var1 AND 0xFFFF0,
                           limit := 0xFFFF, seg_g := 0, db := 0, present := 1, seg_s := 1, seg_l := 0,
                           unusable := 0, seg_type := 3, avl := 0\<rparr>
                 else var1)
      in vmcs_write32 (sf_ar_bytes sf) (vmx_segment_access_rights var)
           (vmcs_write32 (sf_limit sf) (limit var)
             (vmcs_write32 (sf_base sf) (ucast (base var))
               (vmcs_write16 (sf_selector sf) (selector var) v))))"

definition note_emulation :: "env \<Rightarrow> vcpu \<Rightarrow> vcpu" where
  "note_emulation E v =
     (case emulation_required E v of (b, v1) \<Rightarrow> v1\<lparr>emulation_req := emulation_req v1 \<or> b\<rparr>)"

definition vmx_set_segment :: "env \<Rightarrow> kvm_segment \<Rightarrow> sreg \<Rightarrow> vcpu \<Rightarrow> vcpu" where
  "vmx_set_segment E var seg v =
     (let sf = kvm_vmx_segment_fields seg;
          v1 = vmx_segment_cache_clear v;
          v2 = (if seg = CS then v1\<lparr>regs_avail := regs_avail v1 - {EXREG_CPL}\<rparr> else v1)
      in if vm86_active v2 \<and> seg \<noteq> LDTR then
           (let v3 = v2\<lparr>rmode_segs := (rmode_segs v2)(seg := var)\<rparr>
            in note_emulation E
                 (if seg = TR then vmcs_write16 (sf_selector sf) (selector var) v3
                  else if seg_s var \<noteq> 0 then fix_rmode_seg E seg (rmode_segs v3 seg) v3
                  else v3))
         else
           (let v3 = vmcs_write16 (sf_selector sf) (selector var)
                       (vmcs_write32 (sf_limit sf) (limit var) (vmcs_writel (sf_base sf) (base var) v2));
                var1 = (if enable_unrestricted_guest E \<and> seg \<noteq> LDTR
                        then var\<lparr>seg_type := seg_type var OR 1\<rparr> else var)
            in note_emulation E (vmcs_write32 (sf_ar_bytes sf) (vmx_segment_access_rights var1) v3)))"

end
