(* ===== verification/Control_Regs.thy ===== *)
theory Control_Regs
  imports Segments
begin

text \<open>
  Control registers, \<^verbatim>\<open>EFER\<close> and the MSRs switched at a VM entry (\<^verbatim>\<open>kvm/vmx.c\<close>): the
  exception bitmap, the switch between protected and real mode, the lists of shared and
  automatically loaded MSRs, and the writes of \<^verbatim>\<open>CR0\<close>, \<^verbatim>\<open>CR3\<close> and
  \<^verbatim>\<open>CR4\<close>.
\<close>

subsection \<open>Bits\<close>

definition X86_CR0_PE :: u64 where "X86_CR0_PE = 0x1"
definition X86_CR0_MP :: u64 where "X86_CR0_MP = 0x2"
definition X86_CR0_TS :: u64 where "X86_CR0_TS = 0x8"
definition X86_CR0_NE :: u64 where "X86_CR0_NE = 0x20"
definition X86_CR0_WP :: u64 where "X86_CR0_WP = 0x10000"
definition X86_CR0_NW :: u64 where "X86_CR0_NW = 0x20000000"
definition X86_CR0_CD :: u64 where "X86_CR0_CD = 0x40000000"
definition X86_CR0_PG :: u64 where "X86_CR0_PG = 0x80000000"
definition X86_CR4_VME :: u64 where "X86_CR4_VME = 0x1"
definition X86_CR4_PSE :: u64 where "X86_CR4_PSE = 0x10"
definition X86_CR4_PAE :: u64 where "X86_CR4_PAE = 0x20"
definition X86_CR4_VMXE :: u64 where "X86_CR4_VMXE = 0x2000"
definition X86_CR4_SMEP :: u64 where "X86_CR4_SMEP = 0x100000"
definition X86_CR4_SMAP :: u64 where "X86_CR4_SMAP = 0x200000"
definition EFER_SCE :: u64 where "EFER_SCE = 0x1"
definition EFER_LME :: u64 where "EFER_LME = 0x100"
definition EFER_LMA :: u64 where "EFER_LMA = 0x400"
definition EFER_NX :: u64 where "EFER_NX = 0x800"

lemmas cr_consts = X86_CR0_PE_def X86_CR0_MP_def X86_CR0_TS_def X86_CR0_NE_def X86_CR0_WP_def
  X86_CR0_NW_def X86_CR0_CD_def X86_CR0_PG_def X86_CR4_VME_def X86_CR4_PSE_def X86_CR4_PAE_def
  X86_CR4_VMXE_def X86_CR4_SMEP_def X86_CR4_SMAP_def

lemmas efer_consts = EFER_SCE_def EFER_LME_def EFER_LMA_def EFER_NX_def

definition KVM_GUEST_CR0_MASK :: u64 where "KVM_GUEST_CR0_MASK = X86_CR0_NW OR X86_CR0_CD"

definition KVM_VM_CR0_ALWAYS_ON_UNRESTRICTED_GUEST :: u64 where
  "KVM_VM_CR0_ALWAYS_ON_UNRESTRICTED_GUEST = X86_CR0_WP OR X86_CR0_NE"

definition KVM_VM_CR0_ALWAYS_ON :: u64 where
  "KVM_VM_CR0_ALWAYS_ON = KVM_VM_CR0_ALWAYS_ON_UNRESTRICTED_GUEST OR X86_CR0_PG OR X86_CR0_PE"

definition KVM_PMODE_VM_CR4_ALWAYS_ON :: u64 where
  "KVM_PMODE_VM_CR4_ALWAYS_ON = X86_CR4_PAE OR X86_CR4_VMXE"

definition KVM_RMODE_VM_CR4_ALWAYS_ON :: u64 where
  "KVM_RMODE_VM_CR4_ALWAYS_ON = X86_CR4_VME OR X86_CR4_PAE OR X86_CR4_VMXE"

definition VMXON_CR4_ALWAYSON :: u64 where "VMXON_CR4_ALWAYSON = X86_CR4_VMXE"

lemmas cr_masks = KVM_GUEST_CR0_MASK_def KVM_VM_CR0_ALWAYS_ON_UNRESTRICTED_GUEST_def
  KVM_VM_CR0_ALWAYS_ON_def KVM_PMODE_VM_CR4_ALWAYS_ON_def KVM_RMODE_VM_CR4_ALWAYS_ON_def
  VMXON_CR4_ALWAYSON_def

definition CPU_BASED_CR3_LOAD_EXITING :: u32 where "CPU_BASED_CR3_LOAD_EXITING = 0x8000"
definition CPU_BASED_CR3_STORE_EXITING :: u32 where "CPU_BASED_CR3_STORE_EXITING = 0x10000"
definition CPU_BASED_USE_TSC_OFFSETING :: u32 where "CPU_BASED_USE_TSC_OFFSETING = 0x8"
definition VM_ENTRY_IA32E_MODE :: u32 where "VM_ENTRY_IA32E_MODE = 0x200"

subsection \<open>The exception bitmap\<close>

definition KVM_GUESTDBG_ENABLE :: u32 where "KVM_GUESTDBG_ENABLE = 0x1"
definition KVM_GUESTDBG_USE_SW_BP :: u32 where "KVM_GUESTDBG_USE_SW_BP = 0x10000"

definition vec_bit :: "nat \<Rightarrow> u32" where
  "vec_bit n = push_bit n 1"

definition PF_VECTOR :: nat where "PF_VECTOR = 14"
definition UD_VECTOR :: nat where "UD_VECTOR = 6"
definition MC_VECTOR :: nat where "MC_VECTOR = 18"
definition NM_VECTOR :: nat where "NM_VECTOR = 7"
definition DB_VECTOR :: nat where "DB_VECTOR = 1"
definition AC_VECTOR :: nat where "AC_VECTOR = 17"
definition BP_VECTOR :: nat where "BP_VECTOR = 3"

definition exception_bits :: "env \<Rightarrow> vcpu \<Rightarrow> u32" where
  "exception_bits E v =
     (let eb = vec_bit PF_VECTOR OR vec_bit UD_VECTOR OR vec_bit MC_VECTOR OR vec_bit NM_VECTOR OR
               vec_bit DB_VECTOR OR vec_bit AC_VECTOR;
          eb1 = (if guest_debug v AND (KVM_GUESTDBG_ENABLE OR KVM_GUESTDBG_USE_SW_BP) =
                    KVM_GUESTDBG_ENABLE OR KVM_GUESTDBG_USE_SW_BP
                 then eb OR vec_bit BP_VECTOR else eb);
          eb2 = (if vm86_active v then NOT 0 else eb1);
          eb3 = (if enable_ept E then eb2 AND NOT (vec_bit PF_VECTOR) else eb2);
          eb4 = (if fpu_active v then eb3 AND NOT (vec_bit NM_VECTOR) else eb3)
      in if in_guest_mode v then eb4 OR vmcs12_eb v else eb4)"

definition update_exception_bitmap :: "env \<Rightarrow> vcpu \<Rightarrow> vcpu" where
  "update_exception_bitmap E v = vmcs_write32 EXCEPTION_BITMAP (exception_bits E v) v"

subsection \<open>Real and protected mode\<close>

text \<open>The segment saved for the real mode is passed by reference; the adjusted one is both stored and
  written.\<close>

definition fix_pmode_seg :: "env \<Rightarrow> sreg \<Rightarrow> vcpu \<Rightarrow> vcpu" where
  "fix_pmode_seg E seg v =
     (let save = rmode_segs v seg;
          save1 = (if \<not> emulate_invalid_guest_state E then
                     (let s1 = (if seg = CS \<or> seg = SS
                                then save\<lparr>selector := selector save AND NOT SELECTOR_RPL_MASK\<rparr> else save)
                      in s1\<lparr>dpl := ucast (selector s1 AND SELECTOR_RPL_MASK), seg_s := 1\<rparr>)
                   else save)
      in vmx_set_segment E save1 seg (v\<lparr>rmode_segs := (rmode_segs v)(seg := save1)\<rparr>))"

text \<open>\<^verbatim>\<open>vmx_get_segment (vcpu, &vmx->rmode.segs[seg], seg)\<close> for each segment.\<close>

fun save_segs :: "sreg list \<Rightarrow> vcpu \<Rightarrow> vcpu" where
  "save_segs [] v = v"
| "save_segs (seg # segs) v =
     (case vmx_get_segment seg v of
        (var, v1) \<Rightarrow> save_segs segs (v1\<lparr>rmode_segs := (rmode_segs v1)(seg := var)\<rparr>))"

definition enter_pmode :: "env \<Rightarrow> vcpu \<Rightarrow> vcpu" where
  "enter_pmode E v =
     (let v1 = save_segs [ES, DS, FS, GS, SS, CS] v;
          v2 = vmx_segment_cache_clear (v1\<lparr>vm86_active := False\<rparr>);
          v3 = vmx_set_segment E (rmode_segs v2 TR) TR v2;
          flags = (vmcs_readl GUEST_RFLAGS v3 AND RMODE_GUEST_OWNED_EFLAGS_BITS) OR
                  (save_rflags v3 AND NOT RMODE_GUEST_OWNED_EFLAGS_BITS);
          v4 = vmcs_writel GUEST_RFLAGS flags v3;
          v5 = vmcs_writel GUEST_CR4 ((vmcs_readl GUEST_CR4 v4 AND NOT X86_CR4_VME) OR
                  (vmcs_readl CR4_READ_SHADOW v4 AND X86_CR4_VME)) v4;
          v6 = update_exception_bitmap E v5;
          v7 = fix_pmode_seg E GS (fix_pmode_seg E FS (fix_pmode_seg E DS
                 (fix_pmode_seg E ES (fix_pmode_seg E SS (fix_pmode_seg E CS v6)))))
      in v7\<lparr>regs_avail := insert EXREG_CPL (regs_avail v7), cpl := 0\<rparr>)"

definition enter_rmode :: "env \<Rightarrow> vcpu \<Rightarrow> vcpu" where
  "enter_rmode E v =
     (let v1 = save_segs [TR, ES, DS, FS, GS, SS, CS] v;
          v2 = vmx_segment_cache_clear (v1\<lparr>vm86_active := True\<rparr>);
          v3 = vmcs_write32 (GUEST_AR_BYTES TR) 0x008B
                 (vmcs_write32 (GUEST_LIMIT TR) (rmode_tss_size E - 1)
                   (vmcs_writel (GUEST_BASE TR) (tss_addr v2) v2));
          flags = vmcs_readl GUEST_RFLAGS v3;
          v4 = v3\<lparr>save_rflags := flags\<rparr>;
          v5 = vmcs_writel GUEST_RFLAGS (flags OR X86_EFLAGS_IOPL OR X86_EFLAGS_VM) v4;
          v6 = vmcs_writel GUEST_CR4 (vmcs_readl GUEST_CR4 v5 OR X86_CR4_VME) v5;
          v7 = update_exception_bitmap E v6;
          fix_seg = (\<lambda>seg w. fix_rmode_seg E seg (rmode_segs w seg) w);
          v8 = fix_seg FS (fix_seg GS (fix_seg DS (fix_seg ES (fix_seg CS (fix_seg SS v7)))))
      in kvm_mmu_reset_context E v8)"

subsection \<open>Host state\<close>

definition load_host_ldt_gs :: "vcpu \<Rightarrow> cpu_regs \<Rightarrow> cpu_regs" where
  "load_host_ldt_gs v c =
     (if gs_ldt_reload_needed (host_st v)
      then c\<lparr>cpu_ldt := hs_ldt_sel (host_st v), cpu_gs := hs_gs_sel (host_st v)\<rparr> else c)"

definition vmx_load_host_state :: "env \<Rightarrow> vcpu \<Rightarrow> vcpu" where
  "vmx_load_host_state E v =
     (if \<not> hs_loaded (host_st v) then v
      else
        (let v1 = v\<lparr>host_state_reload := host_state_reload v + 1, host_st := (host_st v)\<lparr>hs_loaded := False\<rparr>\<rparr>;
             v2 = (if is_long_mode E v1
                   then v1\<lparr>msr_guest_kernel_gs_base := cpu_kernel_gs_base (hcpu v1)\<rparr> else v1);
             hs = host_st v2;
             c1 = load_host_ldt_gs v2 (hcpu v2);
             c2 = (if fs_reload_needed hs then c1\<lparr>cpu_fs := hs_fs_sel hs\<rparr> else c1);
             c3 = (if hs_ds_sel hs OR hs_es_sel hs \<noteq> 0
                   then c2\<lparr>cpu_ds := hs_ds_sel hs, cpu_es := hs_es_sel hs\<rparr> else c2);
             c4 = c3\<lparr>cpu_tss_reloads := cpu_tss_reloads c3 + 1,
                     cpu_kernel_gs_base := msr_host_kernel_gs_base v2\<rparr>;
             c5 = (if \<not> user_has_fpu E \<and> \<not> guest_fpu_loaded v2 then c4\<lparr>cpu_ts := True\<rparr> else c4);
             c6 = c5\<lparr>cpu_gdt_loads := cpu_gdt_loads c5 + 1\<rparr>
         in v2\<lparr>hcpu := c6\<rparr>))"

definition vmx_save_host_state :: "env \<Rightarrow> vcpu \<Rightarrow> vcpu" where
  "vmx_save_host_state E v =
     (if hs_loaded (host_st v) then v
      else
        (let c = hcpu v;
             hs1 = (host_st v)\<lparr>hs_loaded := True, hs_ldt_sel := cpu_ldt c,
                      gs_ldt_reload_needed := cpu_ldt c \<noteq> 0, hs_fs_sel := cpu_fs c\<rparr>;
             (v1, hs2) = (if hs_fs_sel hs1 AND 7 = 0
                          then (vmcs_write16 HOST_FS_SELECTOR (hs_fs_sel hs1) v, hs1\<lparr>fs_reload_needed := False\<rparr>)
                          else (vmcs_write16 HOST_FS_SELECTOR 0 v, hs1\<lparr>fs_reload_needed := True\<rparr>));
             hs3 = hs2\<lparr>hs_gs_sel := cpu_gs c\<rparr>;
             (v2, hs4) = (if hs_gs_sel hs3 AND 7 = 0
                          then (vmcs_write16 HOST_GS_SELECTOR (hs_gs_sel hs3) v1, hs3)
                          else (vmcs_write16 HOST_GS_SELECTOR 0 v1, hs3\<lparr>gs_ldt_reload_needed := True\<rparr>));
             hs5 = hs4\<lparr>hs_ds_sel := cpu_ds c, hs_es_sel := cpu_es c\<rparr>;
             v3 = vmcs_writel HOST_GS_BASE (cpu_gs_base c) (vmcs_writel HOST_FS_BASE (cpu_fs_base c) v2);
             v4 = v3\<lparr>host_st := hs5, msr_host_kernel_gs_base := cpu_kernel_gs_base c\<rparr>;
             c1 = (if is_long_mode E v4 then c\<lparr>cpu_kernel_gs_base := msr_guest_kernel_gs_base v4\<rparr> else c);
             c2 = c1\<lparr>cpu_shared_msrs := cpu_shared_msrs c1 @
                      map (\<lambda>e. (sm_index e, sm_data e, sm_mask e)) (take (save_nmsrs v4) (guest_msrs v4))\<rparr>
         in v4\<lparr>hcpu := c2\<rparr>))"

subsection \<open>Switched MSRs\<close>

definition MSR_EFER :: u32 where "MSR_EFER = 0xC0000080"
definition MSR_STAR :: u32 where "MSR_STAR = 0xC0000081"
definition MSR_LSTAR :: u32 where "MSR_LSTAR = 0xC0000082"
definition MSR_CSTAR :: u32 where "MSR_CSTAR = 0xC0000083"
definition MSR_SYSCALL_MASK :: u32 where "MSR_SYSCALL_MASK = 0xC0000084"
definition MSR_TSC_AUX :: u32 where "MSR_TSC_AUX = 0xC0000103"
definition MSR_CORE_PERF_GLOBAL_CTRL :: u32 where "MSR_CORE_PERF_GLOBAL_CTRL = 0x38F"
definition MSR_IA32_PEBS_ENABLE :: u32 where "MSR_IA32_PEBS_ENABLE = 0x3F1"

lemmas msr_consts = MSR_EFER_def MSR_STAR_def MSR_LSTAR_def MSR_CSTAR_def MSR_SYSCALL_MASK_def
  MSR_TSC_AUX_def MSR_CORE_PERF_GLOBAL_CTRL_def MSR_IA32_PEBS_ENABLE_def

definition vmx_msr_index :: "u32 list" where
  "vmx_msr_index = [MSR_SYSCALL_MASK, MSR_LSTAR, MSR_CSTAR, MSR_EFER, MSR_TSC_AUX, MSR_STAR]"

definition VM_ENTRY_LOAD_IA32_EFER :: u32 where "VM_ENTRY_LOAD_IA32_EFER = 0x8000"
definition VM_EXIT_LOAD_IA32_EFER :: u32 where "VM_EXIT_LOAD_IA32_EFER = 0x200000"
definition VM_ENTRY_LOAD_IA32_PERF_GLOBAL_CTRL :: u32 where "VM_ENTRY_LOAD_IA32_PERF_GLOBAL_CTRL = 0x2000"
definition VM_EXIT_LOAD_IA32_PERF_GLOBAL_CTRL :: u32 where "VM_EXIT_LOAD_IA32_PERF_GLOBAL_CTRL = 0x1000"
definition NR_AUTOLOAD_MSRS :: nat where "NR_AUTOLOAD_MSRS = 8"

text \<open>The position of an MSR among the shared ones, \<open>None\<close> for -1.\<close>

definition find_msr_index :: "vcpu \<Rightarrow> u32 \<Rightarrow> nat option" where
  "find_msr_index v msr =
     find (\<lambda>i. vmx_msr_index ! sm_index (guest_msrs v ! i) = msr) [0..<nmsrs v]"

definition find_msr_entry :: "vcpu \<Rightarrow> u32 \<Rightarrow> nat option" where
  "find_msr_entry v msr = find_msr_index v msr"

definition clear_atomic_switch_msr_special :: "u32 \<Rightarrow> u32 \<Rightarrow> vcpu \<Rightarrow> vcpu" where
  "clear_atomic_switch_msr_special ent exi v =
     vmcs_clear_bits VM_EXIT_CONTROLS exi (vmcs_clear_bits VM_ENTRY_CONTROLS ent v)"

text \<open>The position the loops stop at: the entry for the MSR, or the number of entries.\<close>

definition autoload_pos :: "vcpu \<Rightarrow> u32 \<Rightarrow> nat" where
  "autoload_pos v msr =
     length (takeWhile (\<lambda>e. me_index e \<noteq> msr) (take (autoload_nr v) (autoload_guest v)))"

definition clear_atomic_switch_msr :: "env \<Rightarrow> u32 \<Rightarrow> vcpu \<Rightarrow> vcpu" where
  "clear_atomic_switch_msr E msr v =
     (if msr = MSR_EFER \<and> cpu_has_load_ia32_efer E
      then clear_atomic_switch_msr_special VM_ENTRY_LOAD_IA32_EFER VM_EXIT_LOAD_IA32_EFER v
      else if msr = MSR_CORE_PERF_GLOBAL_CTRL \<and> cpu_has_load_perf_global_ctrl E
      then clear_atomic_switch_msr_special VM_ENTRY_LOAD_IA32_PERF_GLOBAL_CTRL
             VM_EXIT_LOAD_IA32_PERF_GLOBAL_CTRL v
      else
        (let i = autoload_pos v msr
         in if i = autoload_nr v then v
            else
              (let n = autoload_nr v - 1;
                   v1 = v\<lparr>autoload_nr := n,
                          autoload_guest := (autoload_guest v)[i := autoload_guest v ! n],
                          autoload_host := (autoload_host v)[i := autoload_host v ! n]\<rparr>
               in vmcs_write32 VM_EXIT_MSR_LOAD_COUNT (of_nat n)
                    (vmcs_write32 VM_ENTRY_MSR_LOAD_COUNT (of_nat n) v1))))"

definition add_atomic_switch_msr_special ::
    "u32 \<Rightarrow> u32 \<Rightarrow> vfield \<Rightarrow> vfield \<Rightarrow> u64 \<Rightarrow> u64 \<Rightarrow> vcpu \<Rightarrow> vcpu" where
  "add_atomic_switch_msr_special ent exi guest_val_vmcs host_val_vmcs guest_val host_val v =
     vmcs_set_bits VM_EXIT_CONTROLS exi
       (vmcs_set_bits VM_ENTRY_CONTROLS ent
         (vmcs_write64 host_val_vmcs host_val (vmcs_write64 guest_val_vmcs guest_val v)))"

definition add_atomic_switch_msr :: "env \<Rightarrow> u32 \<Rightarrow> u64 \<Rightarrow> u64 \<Rightarrow> vcpu \<Rightarrow> vcpu" where
  "add_atomic_switch_msr E msr guest_val host_val v =
     (if msr = MSR_EFER \<and> cpu_has_load_ia32_efer E
      then add_atomic_switch_msr_special VM_ENTRY_LOAD_IA32_EFER VM_EXIT_LOAD_IA32_EFER
             GUEST_IA32_EFER HOST_IA32_EFER guest_val host_val v
      else if msr = MSR_CORE_PERF_GLOBAL_CTRL \<and> cpu_has_load_perf_global_ctrl E
      then add_atomic_switch_msr_special VM_ENTRY_LOAD_IA32_PERF_GLOBAL_CTRL
             VM_EXIT_LOAD_IA32_PERF_GLOBAL_CTRL GUEST_IA32_PERF_GLOBAL_CTRL HOST_IA32_PERF_GLOBAL_CTRL
             guest_val host_val v
      else
        (let v1 = (if msr = MSR_IA32_PEBS_ENABLE then v\<lparr>hcpu := (hcpu v)\<lparr>cpu_pebs_enable := 0\<rparr>\<rparr> else v);
             i = autoload_pos v1 msr
         in if i = NR_AUTOLOAD_MSRS then v1
            else
              (let v2 = (if i = autoload_nr v1
                         then (let w = v1\<lparr>autoload_nr := autoload_nr v1 + 1\<rparr>
                               in vmcs_write32 VM_EXIT_MSR_LOAD_COUNT (of_nat (autoload_nr w))
                                    (vmcs_write32 VM_ENTRY_MSR_LOAD_COUNT (of_nat (autoload_nr w)) w))
                         else v1)
               in v2\<lparr>autoload_guest := (autoload_guest v2)[i := \<lparr>me_index = msr, me_value = guest_val\<rparr>],
                     autoload_host := (autoload_host v2)[i := \<lparr>me_index = msr, me_value = host_val\<rparr>]\<rparr>)))"

definition update_transition_efer :: "env \<Rightarrow> nat \<Rightarrow> vcpu \<Rightarrow> bool \<times> vcpu" where
  "update_transition_efer E efer_offset v =
     (let guest_efer = arch_efer v;
          ignore0 = EFER_NX OR EFER_SCE OR EFER_LMA OR EFER_LME;
          ignore = (if guest_efer AND EFER_LMA \<noteq> 0 then ignore0 AND NOT EFER_SCE else ignore0);
          ge = (guest_efer AND NOT ignore) OR (host_efer E AND ignore);
          v1 = v\<lparr>guest_msrs := (guest_msrs v)
                 [efer_offset := (guest_msrs v ! efer_offset)\<lparr>sm_data := ge, sm_mask := NOT ignore\<rparr>]\<rparr>;
          v2 = clear_atomic_switch_msr E MSR_EFER v1
      in if enable_ept E \<and> (arch_efer v2 XOR host_efer E) AND EFER_NX \<noteq> 0 then
           (let ge0 = arch_efer v2;
                ge1 = (if ge0 AND EFER_LMA = 0 then ge0 AND NOT EFER_LME else ge0)
            in (False, add_atomic_switch_msr E MSR_EFER ge1 (host_efer E) v2))
         else (True, v2))"

definition move_msr_up :: "nat \<Rightarrow> nat \<Rightarrow> vcpu \<Rightarrow> vcpu" where
  "move_msr_up fr to v =
     (let tmp = guest_msrs v ! to;
          m1 = (guest_msrs v)[to := guest_msrs v ! fr]
      in v\<lparr>guest_msrs := m1[fr := tmp]\<rparr>)"

definition vmx_set_msr_bitmap :: "env \<Rightarrow> vcpu \<Rightarrow> vcpu" where
  "vmx_set_msr_bitmap E v = vmcs_write64 MSR_BITMAP (bitmap_of E (x2apic_in_kernel v) (is_long_mode E v)) v"

text \<open>One \<^verbatim>\<open>__find_msr_index\<close> with the swap that follows it, under a further condition.\<close>

definition take_msr :: "u32 \<Rightarrow> (vcpu \<Rightarrow> bool) \<Rightarrow> nat \<times> vcpu \<Rightarrow> nat \<times> vcpu" where
  "take_msr msr cond s =
     (case s of (n, v) \<Rightarrow>
        (case find_msr_index v msr of
           None \<Rightarrow> (n, v)
         | Some i \<Rightarrow> if cond v then (n + 1, move_msr_up i n v) else (n, v)))"

definition setup_msrs :: "env \<Rightarrow> vcpu \<Rightarrow> vcpu" where
  "setup_msrs E v =
     (let s = (0, v);
          s1 = (if is_long_mode E v then
                  take_msr MSR_STAR (\<lambda>w. arch_efer w AND EFER_SCE \<noteq> 0)
                    (take_msr MSR_TSC_AUX rdtscp_enabled
                      (take_msr MSR_CSTAR (\<lambda>_. True)
                        (take_msr MSR_LSTAR (\<lambda>_. True)
                          (take_msr MSR_SYSCALL_MASK (\<lambda>_. True) s))))
                else s);
          (n, v2) = s1;
          (n', v3) = (case find_msr_index v2 MSR_EFER of
                        None \<Rightarrow> (n, v2)
                      | Some i \<Rightarrow>
                          (case update_transition_efer E i v2 of
                             (b, w) \<Rightarrow> if b then (n + 1, move_msr_up i n w) else (n, w)));
          v4 = v3\<lparr>save_nmsrs := n'\<rparr>
      in if has_msr_bitmap E then vmx_set_msr_bitmap E v4 else v4)"

subsection \<open>\<^verbatim>\<open>EFER\<close> and long mode\<close>

definition vmx_set_efer :: "env \<Rightarrow> u64 \<Rightarrow> vcpu \<Rightarrow> vcpu" where
  "vmx_set_efer E efer v =
     (case find_msr_entry v MSR_EFER of
        None \<Rightarrow> v
      | Some i \<Rightarrow>
          (let v1 = (vmx_load_host_state E v)\<lparr>arch_efer := efer\<rparr>;
               set_data = (\<lambda>d w. w\<lparr>guest_msrs := (guest_msrs w)[i := (guest_msrs w ! i)\<lparr>sm_data := d\<rparr>]\<rparr>);
               v2 = (if efer AND EFER_LMA \<noteq> 0
                     then set_data efer
                            (vmcs_write32 VM_ENTRY_CONTROLS
                              (vmcs_read32 VM_ENTRY_CONTROLS v1 OR VM_ENTRY_IA32E_MODE) v1)
                     else set_data (efer AND NOT EFER_LME)
                            (vmcs_write32 VM_ENTRY_CONTROLS
                              (vmcs_read32 VM_ENTRY_CONTROLS v1 AND NOT VM_ENTRY_IA32E_MODE) v1))
           in setup_msrs E v2))"

definition AR_TYPE_MASK :: u32 where "AR_TYPE_MASK = 0xF"
definition AR_TYPE_BUSY_64_TSS :: u32 where "AR_TYPE_BUSY_64_TSS = 11"

definition enter_lmode :: "env \<Rightarrow> vcpu \<Rightarrow> vcpu" where
  "enter_lmode E v =
     (let v1 = vmx_segment_cache_clear v;
          guest_tr_ar = vmcs_read32 (GUEST_AR_BYTES TR) v1;
          v2 = (if guest_tr_ar AND AR_TYPE_MASK \<noteq> AR_TYPE_BUSY_64_TSS
                then vmcs_write32 (GUEST_AR_BYTES TR)
                       ((guest_tr_ar AND NOT AR_TYPE_MASK) OR AR_TYPE_BUSY_64_TSS) v1
                else v1)
      in vmx_set_efer E (arch_efer v2 OR EFER_LMA) v2)"

definition exit_lmode :: "env \<Rightarrow> vcpu \<Rightarrow> vcpu" where
  "exit_lmode E v =
     (let v1 = vmcs_write32 VM_ENTRY_CONTROLS (vmcs_read32 VM_ENTRY_CONTROLS v AND NOT VM_ENTRY_IA32E_MODE) v
      in vmx_set_efer E (arch_efer v1 AND NOT EFER_LMA) v1)"

subsection \<open>Reading back guest-owned bits\<close>

definition vmx_decache_cr0_guest_bits :: "vcpu \<Rightarrow> vcpu" where
  "vmx_decache_cr0_guest_bits v =
     (let owned = cr0_guest_owned_bits v; v1 = v\<lparr>arch_cr0 := arch_cr0 v AND NOT owned\<rparr>
      in v1\<lparr>arch_cr0 := arch_cr0 v1 OR (vmcs_readl GUEST_CR0 v1 AND owned)\<rparr>)"

definition vmx_decache_cr3 :: "env \<Rightarrow> vcpu \<Rightarrow> vcpu" where
  "vmx_decache_cr3 E v =
     (let v1 = (if enable_ept E \<and> is_paging E v then v\<lparr>arch_cr3 := vmcs_readl GUEST_CR3 v\<rparr> else v)
      in v1\<lparr>regs_avail := insert EXREG_CR3 (regs_avail v1)\<rparr>)"

definition vmx_decache_cr4_guest_bits :: "vcpu \<Rightarrow> vcpu" where
  "vmx_decache_cr4_guest_bits v =
     (let owned = cr4_guest_owned_bits v; v1 = v\<lparr>arch_cr4 := arch_cr4 v AND NOT owned\<rparr>
      in v1\<lparr>arch_cr4 := arch_cr4 v1 OR (vmcs_readl GUEST_CR4 v1 AND owned)\<rparr>)"

definition ept_load_pdptrs :: "env \<Rightarrow> vcpu \<Rightarrow> vcpu" where
  "ept_load_pdptrs E v =
     (if EXREG_PDPTR \<notin> regs_dirty v then v
      else if is_paging E v \<and> is_pae E v \<and> \<not> is_long_mode E v
      then vmcs_write64 (GUEST_PDPTR 3) (dirs v 3)
             (vmcs_write64 (GUEST_PDPTR 2) (dirs v 2)
               (vmcs_write64 (GUEST_PDPTR 1) (dirs v 1) (vmcs_write64 (GUEST_PDPTR 0) (dirs v 0) v)))
      else v)"

definition ept_save_pdptrs :: "env \<Rightarrow> vcpu \<Rightarrow> vcpu" where
  "ept_save_pdptrs E v =
     (let v1 = (if is_paging E v \<and> is_pae E v \<and> \<not> is_long_mode E v
                then v\<lparr>dirs := (dirs v)(0 := vmcs_read64 (GUEST_PDPTR 0) v, 1 := vmcs_read64 (GUEST_PDPTR 1) v,
                       2 := vmcs_read64 (GUEST_PDPTR 2) v, 3 := vmcs_read64 (GUEST_PDPTR 3) v)\<rparr>
                else v)
      in v1\<lparr>regs_avail := insert EXREG_PDPTR (regs_avail v1), regs_dirty := insert EXREG_PDPTR (regs_dirty v1)\<rparr>)"

subsection \<open>Writing the control registers\<close>

text \<open>The result of \<^verbatim>\<open>vmx_set_cr4\<close> is its return value, 1 when the write is refused.\<close>

definition vmx_set_cr4 :: "env \<Rightarrow> u64 \<Rightarrow> vcpu \<Rightarrow> int \<times> vcpu" where
  "vmx_set_cr4 E cr4 v =
     (let hw = cr4 OR (if vm86_active v then KVM_RMODE_VM_CR4_ALWAYS_ON else KVM_PMODE_VM_CR4_ALWAYS_ON)
      in if cr4 AND X86_CR4_VMXE \<noteq> 0 \<and> \<not> nested_vmx_allowed E v then (1, v)
         else if nested_vmxon v \<and> cr4 AND VMXON_CR4_ALWAYSON \<noteq> VMXON_CR4_ALWAYSON then (1, v)
         else
           (let v1 = v\<lparr>arch_cr4 := cr4\<rparr>;
                hw1 = (if enable_ept E then
                         (if \<not> is_paging E v1 then (hw AND NOT X86_CR4_PAE) OR X86_CR4_PSE
                          else if cr4 AND X86_CR4_PAE = 0 then hw AND NOT X86_CR4_PAE else hw)
                       else hw);
                hw2 = (if \<not> enable_unrestricted_guest E \<and> \<not> is_paging E v1
                       then hw1 AND NOT (X86_CR4_SMEP OR X86_CR4_SMAP) else hw1)
            in (0, vmcs_writel GUEST_CR4 hw2 (vmcs_writel CR4_READ_SHADOW cr4 v1))))"

definition ept_update_paging_mode_cr0 :: "env \<Rightarrow> u64 \<Rightarrow> u64 \<Rightarrow> vcpu \<Rightarrow> u64 \<times> vcpu" where
  "ept_update_paging_mode_cr0 E hw_cr0 cr0 v =
     (let v1 = (if EXREG_CR3 \<notin> regs_avail v then vmx_decache_cr3 E v else v);
          set4 = (\<lambda>w. case kvm_read_cr4 E w of (c4, w1) \<Rightarrow> snd (vmx_set_cr4 E c4 w1));
          both = CPU_BASED_CR3_LOAD_EXITING OR CPU_BASED_CR3_STORE_EXITING;
          v2 = (if cr0 AND X86_CR0_PG = 0 then
                  set4 ((vmcs_write32 CPU_BASED_VM_EXEC_CONTROL
                          (vmcs_read32 CPU_BASED_VM_EXEC_CONTROL v1 OR both) v1)\<lparr>arch_cr0 := cr0\<rparr>)
                else if \<not> is_paging E v1 then
                  set4 ((vmcs_write32 CPU_BASED_VM_EXEC_CONTROL
                          (vmcs_read32 CPU_BASED_VM_EXEC_CONTROL v1 AND NOT both) v1)\<lparr>arch_cr0 := cr0\<rparr>)
                else v1)
      in (if cr0 AND X86_CR0_WP = 0 then hw_cr0 AND NOT X86_CR0_WP else hw_cr0, v2))"

definition vmx_set_cr0 :: "env \<Rightarrow> u64 \<Rightarrow> vcpu \<Rightarrow> vcpu" where
  "vmx_set_cr0 E cr0 v =
     (let hw0 = cr0 AND NOT KVM_GUEST_CR0_MASK;
          (hw1, v1) =
            (if enable_unrestricted_guest E then (hw0 OR KVM_VM_CR0_ALWAYS_ON_UNRESTRICTED_GUEST, v)
             else
               (let w = (if vm86_active v \<and> cr0 AND X86_CR0_PE \<noteq> 0 then enter_pmode E v else v);
                    w1 = (if \<not> vm86_active w \<and> cr0 AND X86_CR0_PE = 0 then enter_rmode E w else w)
                in (hw0 OR KVM_VM_CR0_ALWAYS_ON, w1)));
          v2 = (if arch_efer v1 AND EFER_LME \<noteq> 0 then
                  (let w = (if \<not> is_paging E v1 \<and> cr0 AND X86_CR0_PG \<noteq> 0 then enter_lmode E v1 else v1)
                   in if is_paging E w \<and> cr0 AND X86_CR0_PG = 0 then exit_lmode E w else w)
                else v1);
          (hw2, v3) = (if enable_ept E then ept_update_paging_mode_cr0 E hw1 cr0 v2 else (hw1, v2));
          hw3 = (if \<not> fpu_active v3 then hw2 OR X86_CR0_TS OR X86_CR0_MP else hw2);
          v4 = (vmcs_writel GUEST_CR0 hw3 (vmcs_writel CR0_READ_SHADOW cr0 v3))\<lparr>arch_cr0 := cr0\<rparr>
      in case emulation_required E v4 of (b, v5) \<Rightarrow> v5\<lparr>emulation_req := b\<rparr>)"

definition vmx_set_cr3 :: "env \<Rightarrow> u64 \<Rightarrow> vcpu \<Rightarrow> vcpu" where
  "vmx_set_cr3 E cr3 v =
     (let (g, v1) =
            (if enable_ept E then
               (let w = vmcs_write64 EPT_POINTER (construct_eptp E cr3) v;
                    (gc, w1) = (if is_paging E w \<or> in_guest_mode w then kvm_read_cr3 E w
                                else (ept_identity_map_addr w, w))
                in (gc, ept_load_pdptrs E w1))
             else (cr3, v))
      in vmcs_writel GUEST_CR3 g (vmx_flush_tlb E v1))"

end
