(* ===== verification/X86_Regs.thy ===== *)
theory X86_Regs
  imports Control_Regs
begin

text \<open>
  The architectural layer of a vCPU (\<^verbatim>\<open>kvm/x86.c\<close>): queueing exceptions, the checks on writes of
  control, debug and extended control registers, and the register and event structures exchanged with
  user space. \<^verbatim>\<open>kvm_x86_ops\<close> is the model of \<^verbatim>\<open>kvm/vmx.c\<close>.
\<close>

subsection \<open>What is not in the repository\<close>

text \<open>The local APIC, the CPUID tables, guest memory as \<^verbatim>\<open>load_pdptrs\<close> reads it, the MMU and the
  XSAVE state of the host.\<close>

record xenv =
  ops :: env
  irqchip_in_kernel :: bool
  lapic_get_cr8 :: "vcpu \<Rightarrow> u64"
  lapic_set_tpr :: "u64 \<Rightarrow> vcpu \<Rightarrow> vcpu"
  lapic_set_base :: "u64 \<Rightarrow> vcpu \<Rightarrow> vcpu"
  cpuid_has_xsave :: "vcpu \<Rightarrow> bool"
  cpuid_has_smep :: "vcpu \<Rightarrow> bool"
  cpuid_has_fsgsbase :: "vcpu \<Rightarrow> bool"
  cpuid_has_pcid :: "vcpu \<Rightarrow> bool"
  cpuid_fxsr_opt :: "vcpu \<Rightarrow> bool"
  cpuid_svm :: "vcpu \<Rightarrow> bool"
  kvm_update_cpuid :: "vcpu \<Rightarrow> vcpu"
  read_pdpt :: "vcpu \<Rightarrow> u64 \<Rightarrow> nat \<Rightarrow> (nat \<Rightarrow> u64) option"   \<comment> \<open>frame, byte offset\<close>
  pdpte_rsvd :: "vcpu \<Rightarrow> u64"
  is_present_gpte :: "u64 \<Rightarrow> bool"
  kvm_read_cr4_bits :: "u64 \<Rightarrow> vcpu \<Rightarrow> u64 \<times> vcpu"
  kvm_mmu_sync_roots :: "vcpu \<Rightarrow> vcpu"
  kvm_mmu_flush_tlb :: "vcpu \<Rightarrow> vcpu"
  kvm_mmu_new_cr3 :: "vcpu \<Rightarrow> vcpu"
  clear_async_pf :: "vcpu \<Rightarrow> vcpu"
  cr4_reserved :: u64
  cr0_reserved :: u64
  cr8_reserved :: u64
  cr3_pcid_reserved :: u64
  cr3_l_mode_reserved :: u64
  cr3_pae_reserved :: u64
  efer_reserved :: u64
  guest_supported_xcr0 :: u64

subsection \<open>Exceptions\<close>

datatype excpt_class = EXCPT_BENIGN | EXCPT_CONTRIBUTORY | EXCPT_PF

definition DE_VECTOR :: nat where "DE_VECTOR = 0"
definition DF_VECTOR :: nat where "DF_VECTOR = 8"
definition TS_VECTOR :: nat where "TS_VECTOR = 10"
definition NP_VECTOR :: nat where "NP_VECTOR = 11"
definition SS_VECTOR :: nat where "SS_VECTOR = 12"
definition GP_VECTOR :: nat where "GP_VECTOR = 13"

lemmas vectors = DE_VECTOR_def DF_VECTOR_def TS_VECTOR_def NP_VECTOR_def SS_VECTOR_def GP_VECTOR_def
  PF_VECTOR_def UD_VECTOR_def MC_VECTOR_def NM_VECTOR_def DB_VECTOR_def AC_VECTOR_def BP_VECTOR_def

definition exception_class :: "nat \<Rightarrow> excpt_class" where
  "exception_class vector =
     (if vector = PF_VECTOR then EXCPT_PF
      else if vector \<in> {DE_VECTOR, TS_VECTOR, NP_VECTOR, SS_VECTOR, GP_VECTOR} then EXCPT_CONTRIBUTORY
      else EXCPT_BENIGN)"

definition kvm_make_request :: "request \<Rightarrow> vcpu \<Rightarrow> vcpu" where
  "kvm_make_request r v = v\<lparr>requests := insert r (requests v)\<rparr>"

definition queue_exc :: "nat \<Rightarrow> bool \<Rightarrow> u32 \<Rightarrow> bool \<Rightarrow> vcpu \<Rightarrow> vcpu" where
  "queue_exc nr has_error error_code reinject v =
     v\<lparr>exc_pending := True, exc_has_error_code := has_error, exc_nr := nr,
       exc_error_code := error_code, exc_reinject := reinject\<rparr>"

definition kvm_multiple_exception :: "nat \<Rightarrow> bool \<Rightarrow> u32 \<Rightarrow> bool \<Rightarrow> vcpu \<Rightarrow> vcpu" where
  "kvm_multiple_exception nr has_error error_code reinject v =
     (let v1 = kvm_make_request REQ_EVENT v
      in if \<not> exc_pending v1 then queue_exc nr has_error error_code reinject v1
         else
           (let prev_nr = exc_nr v1
            in if prev_nr = DF_VECTOR then kvm_make_request REQ_TRIPLE_FAULT v1
               else
                 (let class1 = exception_class prev_nr; class2 = exception_class nr
                  in if class1 = EXCPT_CONTRIBUTORY \<and> class2 = EXCPT_CONTRIBUTORY \<or>
                        class1 = EXCPT_PF \<and> class2 \<noteq> EXCPT_BENIGN
                     then v1\<lparr>exc_pending := True, exc_has_error_code := True, exc_nr := DF_VECTOR,
                             exc_error_code := 0\<rparr>
                     else queue_exc nr has_error error_code reinject v1)))"

definition kvm_queue_exception :: "nat \<Rightarrow> vcpu \<Rightarrow> vcpu" where
  "kvm_queue_exception nr v = kvm_multiple_exception nr False 0 False v"

definition kvm_requeue_exception :: "nat \<Rightarrow> vcpu \<Rightarrow> vcpu" where
  "kvm_requeue_exception nr v = kvm_multiple_exception nr False 0 True v"

definition kvm_queue_exception_e :: "nat \<Rightarrow> u32 \<Rightarrow> vcpu \<Rightarrow> vcpu" where
  "kvm_queue_exception_e nr error_code v = kvm_multiple_exception nr True error_code False v"

definition kvm_requeue_exception_e :: "nat \<Rightarrow> u32 \<Rightarrow> vcpu \<Rightarrow> vcpu" where
  "kvm_requeue_exception_e nr error_code v = kvm_multiple_exception nr True error_code True v"

definition kvm_inject_page_fault :: "u64 \<Rightarrow> u32 \<Rightarrow> vcpu \<Rightarrow> vcpu" where
  "kvm_inject_page_fault address error_code v =
     kvm_queue_exception_e PF_VECTOR error_code (v\<lparr>arch_cr2 := address\<rparr>)"

definition kvm_inject_nmi :: "vcpu \<Rightarrow> vcpu" where
  "kvm_inject_nmi v = kvm_make_request REQ_NMI (v\<lparr>nmi_queued := nmi_queued v + 1\<rparr>)"

definition kvm_require_cpl :: "env \<Rightarrow> u8 \<Rightarrow> vcpu \<Rightarrow> bool \<times> vcpu" where
  "kvm_require_cpl E required_cpl v =
     (case vmx_get_cpl E v of
        (c, v1) \<Rightarrow> if c \<le> required_cpl then (True, v1) else (False, kvm_queue_exception_e GP_VECTOR 0 v1))"

subsection \<open>Control registers\<close>

definition X86_CR0_ET :: u64 where "X86_CR0_ET = 0x10"
definition X86_CR4_DE :: u64 where "X86_CR4_DE = 0x8"
definition X86_CR4_PGE :: u64 where "X86_CR4_PGE = 0x80"
definition X86_CR4_FSGSBASE :: u64 where "X86_CR4_FSGSBASE = 0x10000"
definition X86_CR4_PCIDE :: u64 where "X86_CR4_PCIDE = 0x20000"
definition X86_CR4_OSXSAVE :: u64 where "X86_CR4_OSXSAVE = 0x40000"
definition X86_CR3_PCID_MASK :: u64 where "X86_CR3_PCID_MASK = 0xFFF"
definition EFER_SVME :: u64 where "EFER_SVME = 0x1000"
definition EFER_FFXSR :: u64 where "EFER_FFXSR = 0x4000"
definition HIGH32 :: u64 where "HIGH32 = 0xFFFFFFFF00000000"

text \<open>\<^verbatim>\<open>offset * sizeof (u64)\<close> of the source is \<open>((cr3 AND 0xFFF) div 32 * 4) * 8\<close>.\<close>

definition load_pdptrs :: "xenv \<Rightarrow> u64 \<Rightarrow> vcpu \<Rightarrow> bool \<times> vcpu" where
  "load_pdptrs X cr3 v =
     (let pdpt_gfn = drop_bit 12 cr3;
          offset = unat (push_bit 2 (drop_bit 5 (cr3 AND 0xFFF)))
      in case read_pdpt X v pdpt_gfn (offset * 8) of
           None \<Rightarrow> (False, v)
         | Some pdpte \<Rightarrow>
             (if \<exists>i \<in> set [0..<4]. is_present_gpte X (pdpte i) \<and> pdpte i AND pdpte_rsvd X v \<noteq> 0
              then (False, v)
              else (True, v\<lparr>dirs := (dirs v)(0 := pdpte 0, 1 := pdpte 1, 2 := pdpte 2, 3 := pdpte 3),
                            regs_avail := insert EXREG_PDPTR (regs_avail v),
                            regs_dirty := insert EXREG_PDPTR (regs_dirty v)\<rparr>)))"

definition pdptrs_changed :: "xenv \<Rightarrow> vcpu \<Rightarrow> bool \<times> vcpu" where
  "pdptrs_changed X v =
     (if is_long_mode (ops X) v \<or> \<not> is_pae (ops X) v then (False, v)
      else if EXREG_PDPTR \<notin> regs_avail v then (True, v)
      else
        (let (c1, v1) = kvm_read_cr3 (ops X) v;
             gfn = drop_bit 12 (c1 AND 0xFFFFFFE0);
             (c2, v2) = kvm_read_cr3 (ops X) v1;
             offset = unat ((c2 AND 0xFFFFFFE0) AND 0xFFF)
         in case read_pdpt X v2 gfn offset of
              None \<Rightarrow> (True, v2)
            | Some pdpte \<Rightarrow> (\<exists>i \<in> set [0..<4]. pdpte i \<noteq> dirs v2 i, v2)))"

text \<open>The result is the return value, 1 for a refused write.\<close>

definition kvm_set_cr0 :: "xenv \<Rightarrow> u64 \<Rightarrow> vcpu \<Rightarrow> int \<times> vcpu" where
  "kvm_set_cr0 X cr0_arg v =
     (let E = ops X;
          (old_cr0, v0) = kvm_read_cr0_bits E (NOT 0) v;
          update_bits = X86_CR0_PG OR X86_CR0_WP OR X86_CR0_CD OR X86_CR0_NW;
          cr0_et = cr0_arg OR X86_CR0_ET;
          cr0 = cr0_et AND NOT (cr0_reserved X)
      in if cr0_et AND HIGH32 \<noteq> 0 then (1, v0)
         else if cr0 AND X86_CR0_NW \<noteq> 0 \<and> cr0 AND X86_CR0_CD = 0 then (1, v0)
         else if cr0 AND X86_CR0_PG \<noteq> 0 \<and> cr0 AND X86_CR0_PE = 0 then (1, v0)
         else
           (let (refused, v1) =
                  (if \<not> is_paging E v0 \<and> cr0 AND X86_CR0_PG \<noteq> 0 then
                     (if arch_efer v0 AND EFER_LME \<noteq> 0 then
                        (if \<not> is_pae E v0 then (True, v0)
                         else (case vmx_get_cs_db_l_bits v0 of ((_, l), w) \<Rightarrow> (l \<noteq> 0, w)))
                      else if is_pae E v0 then
                        (case kvm_read_cr3 E v0 of
                           (c3, w) \<Rightarrow> (case load_pdptrs X c3 w of (ok, w1) \<Rightarrow> (\<not> ok, w1)))
                      else (False, v0))
                   else (False, v0))
            in if refused then (1, v1)
               else
                 (let (pcide, v2) = (if cr0 AND X86_CR0_PG = 0
                                     then (case kvm_read_cr4_bits X X86_CR4_PCIDE v1 of (b, w) \<Rightarrow> (b \<noteq> 0, w))
                                     else (False, v1))
                  in if pcide then (1, v2)
                     else
                       (let v3 = vmx_set_cr0 E cr0 v2;
                            v4 = (if (cr0 XOR old_cr0) AND X86_CR0_PG \<noteq> 0 then clear_async_pf X v3 else v3);
                            v5 = (if (cr0 XOR old_cr0) AND update_bits \<noteq> 0
                                  then kvm_mmu_reset_context E v4 else v4)
                        in (0, v5)))))"

definition kvm_lmsw :: "xenv \<Rightarrow> u64 \<Rightarrow> vcpu \<Rightarrow> vcpu" where
  "kvm_lmsw X msw v =
     (case kvm_read_cr0_bits (ops X) (NOT 0x0E) v of
        (c, v1) \<Rightarrow> snd (kvm_set_cr0 X (c OR (msw AND 0x0F)) v1))"

definition kvm_set_cr4 :: "xenv \<Rightarrow> u64 \<Rightarrow> vcpu \<Rightarrow> int \<times> vcpu" where
  "kvm_set_cr4 X cr4 v =
     (let E = ops X;
          (old_cr4, v0) = kvm_read_cr4 E v;
          pdptr_bits = X86_CR4_PGE OR X86_CR4_PSE OR X86_CR4_PAE OR X86_CR4_SMEP OR X86_CR4_SMAP
      in if cr4 AND cr4_reserved X \<noteq> 0 then (1, v0)
         else if \<not> cpuid_has_xsave X v0 \<and> cr4 AND X86_CR4_OSXSAVE \<noteq> 0 then (1, v0)
         else if \<not> cpuid_has_smep X v0 \<and> cr4 AND X86_CR4_SMEP \<noteq> 0 then (1, v0)
         else if \<not> cpuid_has_fsgsbase X v0 \<and> cr4 AND X86_CR4_FSGSBASE \<noteq> 0 then (1, v0)
         else
           (let (refused, v1) =
                  (if is_long_mode E v0 then (cr4 AND X86_CR4_PAE = 0, v0)
                   else if is_paging E v0 \<and> cr4 AND X86_CR4_PAE \<noteq> 0 \<and> (cr4 XOR old_cr4) AND pdptr_bits \<noteq> 0
                   then (case kvm_read_cr3 E v0 of
                           (c3, w) \<Rightarrow> (case load_pdptrs X c3 w of (ok, w1) \<Rightarrow> (\<not> ok, w1)))
                   else (False, v0))
            in if refused then (1, v1)
               else
                 (let (refused2, v2) =
                        (if cr4 AND X86_CR4_PCIDE \<noteq> 0 \<and> old_cr4 AND X86_CR4_PCIDE = 0 then
                           (if \<not> cpuid_has_pcid X v1 then (True, v1)
                            else (case kvm_read_cr3 E v1 of
                                    (c3, w) \<Rightarrow> (c3 AND X86_CR3_PCID_MASK \<noteq> 0 \<or> \<not> is_long_mode E w, w)))
                         else (False, v1))
                  in if refused2 then (1, v2)
                     else
                       (case vmx_set_cr4 E cr4 v2 of
                          (r, v3) \<Rightarrow>
                            if r \<noteq> 0 then (1, v3)
                            else
                              (let v4 = (if (cr4 XOR old_cr4) AND pdptr_bits \<noteq> 0 \<or>
                                            cr4 AND X86_CR4_PCIDE = 0 \<and> old_cr4 AND X86_CR4_PCIDE \<noteq> 0
                                         then kvm_mmu_reset_context E v3 else v3);
                                   v5 = (if (cr4 XOR old_cr4) AND X86_CR4_OSXSAVE \<noteq> 0
                                         then kvm_update_cpuid X v4 else v4)
                               in (0, v5))))))"

definition kvm_set_cr3 :: "xenv \<Rightarrow> u64 \<Rightarrow> vcpu \<Rightarrow> int \<times> vcpu" where
  "kvm_set_cr3 X cr3 v =
     (let E = ops X;
          (old, v0) = kvm_read_cr3 E v;
          (same, v1) = (if cr3 = old
                        then (case pdptrs_changed X v0 of (ch, w) \<Rightarrow> (\<not> ch, w)) else (False, v0))
      in if same then (0, kvm_mmu_flush_tlb X (kvm_mmu_sync_roots X v1))
         else
           (let (refused, v2) =
                  (if is_long_mode E v1 then
                     (case kvm_read_cr4_bits X X86_CR4_PCIDE v1 of
                        (b, w) \<Rightarrow> (if b \<noteq> 0 then cr3 AND cr3_pcid_reserved X \<noteq> 0
                                   else cr3 AND cr3_l_mode_reserved X \<noteq> 0, w))
                   else if is_pae E v1 then
                     (if cr3 AND cr3_pae_reserved X \<noteq> 0 then (True, v1)
                      else if is_paging E v1
                      then (case load_pdptrs X cr3 v1 of (ok, w) \<Rightarrow> (\<not> ok, w))
                      else (False, v1))
                   else (False, v1))
            in if refused then (1, v2)
               else (0, kvm_mmu_new_cr3 X (v2\<lparr>arch_cr3 := cr3, regs_avail := insert EXREG_CR3 (regs_avail v2)\<rparr>))))"

definition kvm_set_cr8 :: "xenv \<Rightarrow> u64 \<Rightarrow> vcpu \<Rightarrow> int \<times> vcpu" where
  "kvm_set_cr8 X cr8 v =
     (if cr8 AND cr8_reserved X \<noteq> 0 then (1, v)
      else if irqchip_in_kernel X then (0, lapic_set_tpr X cr8 v)
      else (0, v\<lparr>arch_cr8 := cr8\<rparr>))"

definition kvm_get_cr8 :: "xenv \<Rightarrow> vcpu \<Rightarrow> u64" where
  "kvm_get_cr8 X v = (if irqchip_in_kernel X then lapic_get_cr8 X v else arch_cr8 v)"

end
