(* ===== verification/Events.thy ===== *)
theory Events
  imports X86_Regs
begin

text \<open>
  Exceptions, interrupts and NMIs on their way into a guest: choosing the next event
  (\<^verbatim>\<open>inject_pending_event\<close> in \<^verbatim>\<open>kvm/x86.c\<close>), writing it to the VM-entry field and
  recovering it when the entry did not deliver it (\<^verbatim>\<open>kvm/vmx.c\<close>), and the event structure
  exchanged with user space.
\<close>

subsection \<open>Bits of the interruption information\<close>

definition INTR_INFO_VECTOR_MASK :: u32 where "INTR_INFO_VECTOR_MASK = 0xFF"
definition INTR_INFO_INTR_TYPE_MASK :: u32 where "INTR_INFO_INTR_TYPE_MASK = 0x700"
definition INTR_INFO_DELIVER_CODE_MASK :: u32 where "INTR_INFO_DELIVER_CODE_MASK = 0x800"
definition INTR_INFO_UNBLOCK_NMI :: u32 where "INTR_INFO_UNBLOCK_NMI = 0x1000"
definition INTR_INFO_VALID_MASK :: u32 where "INTR_INFO_VALID_MASK = 0x80000000"
definition INTR_TYPE_EXT_INTR :: u32 where "INTR_TYPE_EXT_INTR = 0x000"
definition INTR_TYPE_NMI_INTR :: u32 where "INTR_TYPE_NMI_INTR = 0x200"
definition INTR_TYPE_HARD_EXCEPTION :: u32 where "INTR_TYPE_HARD_EXCEPTION = 0x300"
definition INTR_TYPE_SOFT_INTR :: u32 where "INTR_TYPE_SOFT_INTR = 0x400"
definition INTR_TYPE_SOFT_EXCEPTION :: u32 where "INTR_TYPE_SOFT_EXCEPTION = 0x600"

lemmas intr_consts = INTR_INFO_VECTOR_MASK_def INTR_INFO_INTR_TYPE_MASK_def
  INTR_INFO_DELIVER_CODE_MASK_def INTR_INFO_UNBLOCK_NMI_def INTR_INFO_VALID_MASK_def
  INTR_TYPE_EXT_INTR_def INTR_TYPE_NMI_INTR_def INTR_TYPE_HARD_EXCEPTION_def
  INTR_TYPE_SOFT_INTR_def INTR_TYPE_SOFT_EXCEPTION_def

definition GUEST_INTR_STATE_STI :: u32 where "GUEST_INTR_STATE_STI = 0x1"
definition GUEST_INTR_STATE_MOV_SS :: u32 where "GUEST_INTR_STATE_MOV_SS = 0x2"
definition GUEST_INTR_STATE_NMI :: u32 where "GUEST_INTR_STATE_NMI = 0x8"
definition KVM_X86_SHADOW_INT_MOV_SS :: u32 where "KVM_X86_SHADOW_INT_MOV_SS = 0x1"
definition KVM_X86_SHADOW_INT_STI :: u32 where "KVM_X86_SHADOW_INT_STI = 0x2"
definition CPU_BASED_VIRTUAL_INTR_PENDING :: u32 where "CPU_BASED_VIRTUAL_INTR_PENDING = 0x4"
definition CPU_BASED_VIRTUAL_NMI_PENDING :: u32 where "CPU_BASED_VIRTUAL_NMI_PENDING = 0x400000"
definition X86_EFLAGS_IF :: u64 where "X86_EFLAGS_IF = 0x200"
definition NMI_VECTOR :: nat where "NMI_VECTOR = 2"

lemmas intr_state_consts = GUEST_INTR_STATE_STI_def GUEST_INTR_STATE_MOV_SS_def
  GUEST_INTR_STATE_NMI_def KVM_X86_SHADOW_INT_MOV_SS_def KVM_X86_SHADOW_INT_STI_def

definition is_page_fault :: "u32 \<Rightarrow> bool" where
  "is_page_fault intr_info \<longleftrightarrow>
     intr_info AND (INTR_INFO_INTR_TYPE_MASK OR INTR_INFO_VECTOR_MASK OR INTR_INFO_VALID_MASK) =
     (INTR_TYPE_HARD_EXCEPTION OR of_nat PF_VECTOR OR INTR_INFO_VALID_MASK)"

definition is_no_device :: "u32 \<Rightarrow> bool" where
  "is_no_device intr_info \<longleftrightarrow>
     intr_info AND (INTR_INFO_INTR_TYPE_MASK OR INTR_INFO_VECTOR_MASK OR INTR_INFO_VALID_MASK) =
     (INTR_TYPE_HARD_EXCEPTION OR of_nat NM_VECTOR OR INTR_INFO_VALID_MASK)"

definition is_invalid_opcode :: "u32 \<Rightarrow> bool" where
  "is_invalid_opcode intr_info \<longleftrightarrow>
     intr_info AND (INTR_INFO_INTR_TYPE_MASK OR INTR_INFO_VECTOR_MASK OR INTR_INFO_VALID_MASK) =
     (INTR_TYPE_HARD_EXCEPTION OR of_nat UD_VECTOR OR INTR_INFO_VALID_MASK)"

definition is_external_interrupt :: "u32 \<Rightarrow> bool" where
  "is_external_interrupt intr_info \<longleftrightarrow>
     intr_info AND (INTR_INFO_INTR_TYPE_MASK OR INTR_INFO_VALID_MASK) =
     (INTR_TYPE_EXT_INTR OR INTR_INFO_VALID_MASK)"

definition is_machine_check :: "u32 \<Rightarrow> bool" where
  "is_machine_check intr_info \<longleftrightarrow>
     intr_info AND (INTR_INFO_INTR_TYPE_MASK OR INTR_INFO_VECTOR_MASK OR INTR_INFO_VALID_MASK) =
     (INTR_TYPE_HARD_EXCEPTION OR of_nat MC_VECTOR OR INTR_INFO_VALID_MASK)"

subsection \<open>Interruptibility\<close>

definition vmx_get_interrupt_shadow :: "u32 \<Rightarrow> vcpu \<Rightarrow> u32" where
  "vmx_get_interrupt_shadow m v =
     (let intr = vmcs_read32 GUEST_INTERRUPTIBILITY_INFO v;
          r1 = (if intr AND GUEST_INTR_STATE_STI \<noteq> 0 then KVM_X86_SHADOW_INT_STI else 0);
          r2 = (if intr AND GUEST_INTR_STATE_MOV_SS \<noteq> 0 then r1 OR KVM_X86_SHADOW_INT_MOV_SS else r1)
      in r2 AND m)"

definition vmx_set_interrupt_shadow :: "u32 \<Rightarrow> vcpu \<Rightarrow> vcpu" where
  "vmx_set_interrupt_shadow m v =
     (let old = vmcs_read32 GUEST_INTERRUPTIBILITY_INFO v;
          i0 = old AND NOT (GUEST_INTR_STATE_STI OR GUEST_INTR_STATE_MOV_SS);
          i1 = (if m AND KVM_X86_SHADOW_INT_MOV_SS \<noteq> 0 then i0 OR GUEST_INTR_STATE_MOV_SS
                else if m AND KVM_X86_SHADOW_INT_STI \<noteq> 0 then i0 OR GUEST_INTR_STATE_STI else i0)
      in if i1 \<noteq> old then vmcs_write32 GUEST_INTERRUPTIBILITY_INFO i1 v else v)"

definition vmx_get_nmi_mask :: "env \<Rightarrow> vcpu \<Rightarrow> bool" where
  "vmx_get_nmi_mask E v =
     (if \<not> has_virtual_nmis E then soft_vnmi_blocked v
      else if nmi_known_unmasked v then False
      else vmcs_read32 GUEST_INTERRUPTIBILITY_INFO v AND GUEST_INTR_STATE_NMI \<noteq> 0)"

definition vmx_set_nmi_mask :: "env \<Rightarrow> bool \<Rightarrow> vcpu \<Rightarrow> vcpu" where
  "vmx_set_nmi_mask E masked v =
     (if \<not> has_virtual_nmis E then
        (if soft_vnmi_blocked v \<noteq> masked then v\<lparr>soft_vnmi_blocked := masked, vnmi_blocked_time := 0\<rparr> else v)
      else
        (let v1 = v\<lparr>nmi_known_unmasked := \<not> masked\<rparr>
         in if masked then vmcs_set_bits GUEST_INTERRUPTIBILITY_INFO GUEST_INTR_STATE_NMI v1
            else vmcs_clear_bits GUEST_INTERRUPTIBILITY_INFO GUEST_INTR_STATE_NMI v1))"

definition vmx_nmi_allowed :: "env \<Rightarrow> vcpu \<Rightarrow> bool" where
  "vmx_nmi_allowed E v =
     (if nested_run_pending v then False
      else if \<not> has_virtual_nmis E \<and> soft_vnmi_blocked v then False
      else vmcs_read32 GUEST_INTERRUPTIBILITY_INFO v AND
             (GUEST_INTR_STATE_MOV_SS OR GUEST_INTR_STATE_STI OR GUEST_INTR_STATE_NMI) = 0)"

definition vmx_interrupt_allowed :: "vcpu \<Rightarrow> bool" where
  "vmx_interrupt_allowed v =
     ((\<not> nested_run_pending v \<and> vmcs_readl GUEST_RFLAGS v AND X86_EFLAGS_IF \<noteq> 0) \<and>
      vmcs_read32 GUEST_INTERRUPTIBILITY_INFO v AND (GUEST_INTR_STATE_STI OR GUEST_INTR_STATE_MOV_SS) = 0)"

text \<open>The result is the return value: \<^verbatim>\<open>-EBUSY\<close> is -16.\<close>

definition enable_irq_window :: "env \<Rightarrow> vcpu \<Rightarrow> int \<times> vcpu" where
  "enable_irq_window E v =
     (if in_guest_mode v \<and> nested_exit_on_intr E v then (-16, v)
      else (0, vmcs_write32 CPU_BASED_VM_EXEC_CONTROL
                 (vmcs_read32 CPU_BASED_VM_EXEC_CONTROL v OR CPU_BASED_VIRTUAL_INTR_PENDING) v))"

definition enable_nmi_window :: "env \<Rightarrow> vcpu \<Rightarrow> int \<times> vcpu" where
  "enable_nmi_window E v =
     (if \<not> has_virtual_nmis E then enable_irq_window E v
      else if vmcs_read32 GUEST_INTERRUPTIBILITY_INFO v AND GUEST_INTR_STATE_STI \<noteq> 0
      then enable_irq_window E v
      else (0, vmcs_write32 CPU_BASED_VM_EXEC_CONTROL
                 (vmcs_read32 CPU_BASED_VM_EXEC_CONTROL v OR CPU_BASED_VIRTUAL_NMI_PENDING) v))"

subsection \<open>Injecting\<close>

definition nested_vmx_check_exception :: "env \<Rightarrow> nat \<Rightarrow> vcpu \<Rightarrow> bool \<times> vcpu" where
  "nested_vmx_check_exception E nr v =
     (if vmcs12_eb v AND vec_bit nr = 0 then (False, v)
      else (True, nested_vmx_vmexit E (vmx_exit_reason v) (vmcs_read32 VM_EXIT_INTR_INFO v)
                    (vmcs_readl EXIT_QUALIFICATION v) v))"

definition inject_realmode :: "env \<Rightarrow> nat \<Rightarrow> u32 \<Rightarrow> vcpu \<Rightarrow> vcpu" where
  "inject_realmode E nr inc_eip v =
     (case kvm_inject_realmode_interrupt E nr inc_eip v of
        (done, v1) \<Rightarrow> if done then v1 else kvm_make_request REQ_TRIPLE_FAULT v1)"

definition vmx_queue_exception :: "env \<Rightarrow> nat \<Rightarrow> bool \<Rightarrow> u32 \<Rightarrow> bool \<Rightarrow> vcpu \<Rightarrow> vcpu" where
  "vmx_queue_exception E nr has_error_code error_code reinject v =
     (let intr_info = of_nat nr OR INTR_INFO_VALID_MASK;
          (exited, v0) = (if \<not> reinject \<and> in_guest_mode v then nested_vmx_check_exception E nr v
                          else (False, v))
      in if exited then v0
         else
           (let (info1, v1) = (if has_error_code
                               then (intr_info OR INTR_INFO_DELIVER_CODE_MASK,
                                     vmcs_write32 VM_ENTRY_EXCEPTION_ERROR_CODE error_code v0)
                               else (intr_info, v0))
            in if vm86_active v1
               then inject_realmode E nr (if kvm_exception_is_soft E nr then event_exit_inst_len v1 else 0) v1
               else
                 (let (info2, v2) =
                        (if kvm_exception_is_soft E nr
                         then (info1 OR INTR_TYPE_SOFT_EXCEPTION,
                               vmcs_write32 VM_ENTRY_INSTRUCTION_LEN (event_exit_inst_len v1) v1)
                         else (info1 OR INTR_TYPE_HARD_EXCEPTION, v1))
                  in vmcs_write32 VM_ENTRY_INTR_INFO_FIELD info2 v2)))"

definition vmx_inject_irq :: "env \<Rightarrow> vcpu \<Rightarrow> vcpu" where
  "vmx_inject_irq E v =
     (let irq = interrupt_nr v
      in if vm86_active v
         then inject_realmode E irq (if interrupt_soft v then event_exit_inst_len v else 0) v
         else
           (let intr = of_nat irq OR INTR_INFO_VALID_MASK;
                (intr1, v1) =
                  (if interrupt_soft v
                   then (intr OR INTR_TYPE_SOFT_INTR,
                         vmcs_write32 VM_ENTRY_INSTRUCTION_LEN (event_exit_inst_len v) v)
                   else (intr OR INTR_TYPE_EXT_INTR, v))
            in vmcs_write32 VM_ENTRY_INTR_INFO_FIELD intr1 v1))"

definition vmx_inject_nmi :: "env \<Rightarrow> vcpu \<Rightarrow> vcpu" where
  "vmx_inject_nmi E v =
     (if in_guest_mode v then v
      else
        (let v1 = (if \<not> has_virtual_nmis E then v\<lparr>soft_vnmi_blocked := True, vnmi_blocked_time := 0\<rparr> else v);
             v2 = v1\<lparr>nmi_known_unmasked := False\<rparr>
         in if vm86_active v2 then inject_realmode E NMI_VECTOR 0 v2
            else vmcs_write32 VM_ENTRY_INTR_INFO_FIELD
                   (INTR_TYPE_NMI_INTR OR INTR_INFO_VALID_MASK OR of_nat NMI_VECTOR) v2))"

subsection \<open>Recovering an event\<close>

definition complete_interrupts :: "env \<Rightarrow> u32 \<Rightarrow> vfield \<Rightarrow> vfield \<Rightarrow> vcpu \<Rightarrow> vcpu" where
  "complete_interrupts E info instr_len_field error_code_field v =
     (let idtv_info_valid = info AND INTR_INFO_VALID_MASK \<noteq> 0;
          v1 = kvm_clear_interrupt_queue E (kvm_clear_exception_queue E (v\<lparr>nmi_injected := False\<rparr>))
      in if \<not> idtv_info_valid then v1
         else
           (let v2 = kvm_make_request REQ_EVENT v1;
                vector = unat (info AND INTR_INFO_VECTOR_MASK);
                type = info AND INTR_INFO_INTR_TYPE_MASK;
                requeue = (\<lambda>w. if info AND INTR_INFO_DELIVER_CODE_MASK \<noteq> 0
                               then kvm_requeue_exception_e vector (vmcs_read32 error_code_field w) w
                               else kvm_requeue_exception vector w);
                set_len = (\<lambda>w. w\<lparr>event_exit_inst_len := vmcs_read32 instr_len_field w\<rparr>)
            in if type = INTR_TYPE_NMI_INTR then vmx_set_nmi_mask E False (v2\<lparr>nmi_injected := True\<rparr>)
               else if type = INTR_TYPE_SOFT_EXCEPTION then requeue (set_len v2)
               else if type = INTR_TYPE_HARD_EXCEPTION then requeue v2
               else if type = INTR_TYPE_SOFT_INTR then kvm_queue_interrupt E vector True (set_len v2)
               else if type = INTR_TYPE_EXT_INTR then kvm_queue_interrupt E vector False v2
               else v2))"

definition vmx_complete_interrupts :: "env \<Rightarrow> vcpu \<Rightarrow> vcpu" where
  "vmx_complete_interrupts E v =
     complete_interrupts E (idt_vectoring_info v) VM_EXIT_INSTRUCTION_LEN IDT_VECTORING_ERROR_CODE v"

definition vmx_cancel_injection :: "env \<Rightarrow> vcpu \<Rightarrow> vcpu" where
  "vmx_cancel_injection E v =
     vmcs_write32 VM_ENTRY_INTR_INFO_FIELD 0
       (complete_interrupts E (vmcs_read32 VM_ENTRY_INTR_INFO_FIELD v) VM_ENTRY_INSTRUCTION_LEN
          VM_ENTRY_EXCEPTION_ERROR_CODE v)"

text \<open>\<open>elapsed\<close> is the time since the entry.\<close>

definition vmx_recover_nmi_blocking :: "env \<Rightarrow> int \<Rightarrow> vcpu \<Rightarrow> vcpu" where
  "vmx_recover_nmi_blocking E elapsed v =
     (let idtv_info_valid = idt_vectoring_info v AND INTR_INFO_VALID_MASK \<noteq> 0
      in if has_virtual_nmis E then
           (if nmi_known_unmasked v then v
            else
              (let info = vmcs_read32 VM_EXIT_INTR_INFO v;
                   unblock_nmi = info AND INTR_INFO_UNBLOCK_NMI \<noteq> 0;
                   vector = unat (info AND INTR_INFO_VECTOR_MASK)
               in if info AND INTR_INFO_VALID_MASK \<noteq> 0 \<and> unblock_nmi \<and> vector \<noteq> DF_VECTOR \<and> \<not> idtv_info_valid
                  then vmcs_set_bits GUEST_INTERRUPTIBILITY_INFO GUEST_INTR_STATE_NMI v
                  else v\<lparr>nmi_known_unmasked :=
                           vmcs_read32 GUEST_INTERRUPTIBILITY_INFO v AND GUEST_INTR_STATE_NMI = 0\<rparr>))
         else if soft_vnmi_blocked v then v\<lparr>vnmi_blocked_time := vnmi_blocked_time v + elapsed\<rparr>
         else v)"

subsection \<open>The next event\<close>

text \<open>The local APIC and the nested checks are parameters: whether an interrupt is pending, the
  vector taken, and \<^verbatim>\<open>check_nested_events\<close>.\<close>

record event_src =
  has_injectable_intr :: "vcpu \<Rightarrow> bool"
  get_interrupt :: "vcpu \<Rightarrow> nat \<times> vcpu"
  check_nested_events :: "bool \<Rightarrow> vcpu \<Rightarrow> int \<times> vcpu"

definition inject_pending_event :: "env \<Rightarrow> event_src \<Rightarrow> bool \<Rightarrow> vcpu \<Rightarrow> int \<times> vcpu" where
  "inject_pending_event E S req_int_win v =
     (if exc_pending v
      then (0, vmx_queue_exception E (exc_nr v) (exc_has_error_code v) (exc_error_code v) (exc_reinject v) v)
      else if nmi_injected v then (0, vmx_inject_nmi E v)
      else if interrupt_pending v then (0, vmx_inject_irq E v)
      else
        (let nested = (\<lambda>w. if in_guest_mode w then check_nested_events S req_int_win w else (0, w));
             (r, v1) = nested v
         in if r \<noteq> 0 then (r, v1)
            else if nmi_pending v1 \<noteq> 0 then
              (0, if vmx_nmi_allowed E v1
                  then vmx_inject_nmi E (v1\<lparr>nmi_pending := nmi_pending v1 - 1, nmi_injected := True\<rparr>)
                  else v1)
            else if has_injectable_intr S v1 then
              (case nested v1 of
                 (r2, v2) \<Rightarrow>
                   if r2 \<noteq> 0 then (r2, v2)
                   else (0, if vmx_interrupt_allowed v2
                            then (case get_interrupt S v2 of
                                    (vec, w) \<Rightarrow> vmx_inject_irq E (kvm_queue_interrupt E vec False w))
                            else v2))
            else (0, v1)))"

definition process_nmi :: "env \<Rightarrow> vcpu \<Rightarrow> vcpu" where
  "process_nmi E v =
     (let lim = (if vmx_get_nmi_mask E v \<or> nmi_injected v then 1 else 2);
          v1 = v\<lparr>nmi_pending := nmi_pending v + nmi_queued v, nmi_queued := 0\<rparr>
      in kvm_make_request REQ_EVENT (v1\<lparr>nmi_pending := min (nmi_pending v1) lim\<rparr>))"

subsection \<open>Events for user space\<close>

record kvm_vcpu_events =
  ev_exc_injected :: bool
  ev_exc_nr :: nat
  ev_exc_has_error_code :: bool
  ev_exc_error_code :: u32
  ev_int_injected :: bool
  ev_int_nr :: nat
  ev_int_soft :: bool
  ev_int_shadow :: u32
  ev_nmi_injected :: bool
  ev_nmi_pending :: nat
  ev_nmi_masked :: bool
  ev_flags :: u32

definition VALID_NMI_PENDING :: u32 where "VALID_NMI_PENDING = 0x1"
definition VALID_SIPI_VECTOR :: u32 where "VALID_SIPI_VECTOR = 0x2"
definition VALID_SHADOW :: u32 where "VALID_SHADOW = 0x4"

lemmas event_flags = VALID_NMI_PENDING_def VALID_SIPI_VECTOR_def VALID_SHADOW_def

definition get_vcpu_events :: "env \<Rightarrow> vcpu \<Rightarrow> kvm_vcpu_events \<times> vcpu" where
  "get_vcpu_events E v =
     (let v1 = process_nmi E v
      in (\<lparr>ev_exc_injected = exc_pending v1 \<and> \<not> kvm_exception_is_soft E (exc_nr v1),
           ev_exc_nr = exc_nr v1, ev_exc_has_error_code = exc_has_error_code v1,
           ev_exc_error_code = exc_error_code v1,
           ev_int_injected = interrupt_pending v1 \<and> \<not> interrupt_soft v1, ev_int_nr = interrupt_nr v1,
           ev_int_soft = False,
           ev_int_shadow = vmx_get_interrupt_shadow (KVM_X86_SHADOW_INT_MOV_SS OR KVM_X86_SHADOW_INT_STI) v1,
           ev_nmi_injected = nmi_injected v1,
           ev_nmi_pending = (if nmi_pending v1 \<noteq> 0 then 1 else 0),
           ev_nmi_masked = vmx_get_nmi_mask E v1,
           ev_flags = VALID_NMI_PENDING OR VALID_SHADOW\<rparr>, v1))"

text \<open>The vector for a SIPI goes to the local APIC, \<open>set_sipi\<close>. \<^verbatim>\<open>-EINVAL\<close> is -22.\<close>

definition set_vcpu_events :: "env \<Rightarrow> (vcpu \<Rightarrow> vcpu) \<Rightarrow> kvm_vcpu_events \<Rightarrow> vcpu \<Rightarrow> int \<times> vcpu" where
  "set_vcpu_events E set_sipi ev v =
     (if ev_flags ev AND NOT (VALID_NMI_PENDING OR VALID_SIPI_VECTOR OR VALID_SHADOW) \<noteq> 0 then (-22, v)
      else
        (let v1 = process_nmi E v;
             v2 = v1\<lparr>exc_pending := ev_exc_injected ev, exc_nr := ev_exc_nr ev,
                     exc_has_error_code := ev_exc_has_error_code ev,
                     exc_error_code := ev_exc_error_code ev, interrupt_pending := ev_int_injected ev,
                     interrupt_nr := ev_int_nr ev, interrupt_soft := ev_int_soft ev\<rparr>;
             v3 = (if ev_flags ev AND VALID_SHADOW \<noteq> 0
                   then vmx_set_interrupt_shadow (ev_int_shadow ev) v2 else v2);
             v4 = v3\<lparr>nmi_injected := ev_nmi_injected ev\<rparr>;
             v5 = (if ev_flags ev AND VALID_NMI_PENDING \<noteq> 0 then v4\<lparr>nmi_pending := ev_nmi_pending ev\<rparr> else v4);
             v6 = vmx_set_nmi_mask E (ev_nmi_masked ev) v5;
             v7 = (if ev_flags ev AND VALID_SIPI_VECTOR \<noteq> 0 then set_sipi v6 else v6)
         in (0, kvm_make_request REQ_EVENT v7)))"

end
