(* ===== verification/Local_Paging.thy ===== *)
theory Local_Paging
  imports Imee_State
begin

text \<open>
  The paging structures of the 32-bit guest format: reading the target's own tables
  (\<^verbatim>\<open>get_ptr_guest_page\<close>, \<^verbatim>\<open>get_guest_pte\<close>), the host's view of a user page
  (\<^verbatim>\<open>get_pte\<close>), and the page tables the module builds for its own code
  (\<^verbatim>\<open>init_local_page_tables\<close>).
\<close>

subsection \<open>The host page of a user address\<close>

text \<open>The kernel's macros over the paging structures of the calling process are parameters: what
  \<^verbatim>\<open>pgd_none\<close>, \<^verbatim>\<open>pgd_bad\<close> and so on say for an address, and the entry that
  \<^verbatim>\<open>pte_offset_map\<close> finds.\<close>

record kernel_mm =
  pgd_none :: "u64 \<Rightarrow> bool"
  pgd_bad :: "u64 \<Rightarrow> bool"
  pud_none :: "u64 \<Rightarrow> bool"
  pud_bad :: "u64 \<Rightarrow> bool"
  pmd_none :: "u64 \<Rightarrow> bool"
  pmd_bad :: "u64 \<Rightarrow> bool"
  pte_at :: "u64 \<Rightarrow> u64"
  pte_none :: "u64 \<Rightarrow> bool"

definition get_pte :: "kernel_mm \<Rightarrow> u64 \<Rightarrow> u64 option" where
  "get_pte mm addr =
     (if pgd_none mm addr \<or> pgd_bad mm addr then None
      else if pud_none mm addr \<or> pud_bad mm addr then None
      else if pmd_none mm addr \<or> pmd_bad mm addr then None
      else (let pte = pte_at mm addr in if pte_none mm pte then None else Some pte))"

subsection \<open>The target's page tables\<close>

text \<open>The host physical address of a guest page, 0 when no active shadow page maps it.\<close>

fun get_ptr_guest_page :: "ptmem \<Rightarrow> kvm_mmu_page list \<Rightarrow> u64 \<Rightarrow> u64" where
  "get_ptr_guest_page m [] gpa = 0"
| "get_ptr_guest_page m (page # rest) gpa =
     (if gfn page = Some (drop_bit 12 gpa AND NOT 0x1FF) \<and> role_level page = 1
      then m (spt page) (ucast (drop_bit 12 gpa AND 0x1FF)) AND NOT EPT_MASK
      else get_ptr_guest_page m rest gpa)"

definition PTE_P_BIT :: u32 where "PTE_P_BIT = 1"
definition PDE_PG_BIT :: u32 where "PDE_PG_BIT = 0x80"
definition GPA_MASK :: u32 where "GPA_MASK = 0xFFF"

record pt_mapping =
  pm_lv :: nat
  pm_e :: u32

definition gpt_idx :: "u32 \<Rightarrow> nat \<Rightarrow> idx10" where
  "gpt_idx gva lv = [ucast (drop_bit 22 gva AND 0x3FF), ucast (drop_bit 12 gva AND 0x3FF)] ! lv"

text \<open>The loop of \<^verbatim>\<open>get_guest_pte\<close> from level \<open>lv\<close> on, reading guest pages through
  \<open>ptr_page\<close>; \<open>next_e\<close> is the entry of the level before.\<close>

function guest_pte_loop ::
    "(u64 \<Rightarrow> u64) \<Rightarrow> (u64 \<Rightarrow> idx10 \<Rightarrow> u32) \<Rightarrow> u32 \<Rightarrow> nat \<Rightarrow> u32 \<Rightarrow> u32 \<Rightarrow> pt_mapping option" where
  "guest_pte_loop ptr_page m32 gva lv next_e next_addr =
     (if lv < 2 then
        (let hpa = ptr_page (ucast next_addr)
         in if hpa \<noteq> 0 then
              (let e = m32 hpa (gpt_idx gva lv)
               in if e = 0 \<or> e AND PTE_P_BIT = 0 then None
                  else if e AND PDE_PG_BIT \<noteq> 0 \<and> e AND PTE_P_BIT \<noteq> 0
                  then Some \<lparr>pm_lv = 2 - lv, pm_e = e\<rparr>
                  else guest_pte_loop ptr_page m32 gva (Suc lv) e (e AND NOT GPA_MASK))
            else None)
      else Some \<lparr>pm_lv = 2 - lv + 1, pm_e = next_e\<rparr>)"
  by pat_completeness auto
termination
  by (relation "measure (\<lambda>(_, _, _, lv, _, _). 2 - lv)") auto

declare guest_pte_loop.simps [simp del]

definition get_guest_pte ::
    "ptmem \<Rightarrow> kvm_mmu_page list \<Rightarrow> (u64 \<Rightarrow> idx10 \<Rightarrow> u32) \<Rightarrow> u32 \<Rightarrow> u32 \<Rightarrow> pt_mapping option" where
  "get_guest_pte m active m32 cr3 gva =
     guest_pte_loop (get_ptr_guest_page m active) m32 gva 0 cr3 (cr3 AND NOT 0xFFF)"

subsection \<open>The module's own page tables\<close>

definition HPA_MASK :: u64 where "HPA_MASK = 0xFFF OR push_bit 63 1"

lemma HPA_MASK_EPT: "HPA_MASK = EPT_MASK"
  by (simp add: HPA_MASK_def EPT_MASK_def)

text \<open>Entry 0, then entries 1 to 1023 in a loop: what a page of the tables holds in the end.\<close>

definition fill_table :: "u32 \<Rightarrow> u32 \<Rightarrow> idx10 \<Rightarrow> u32" where
  "fill_table first rest i = (if i = 0 then first else rest)"

text \<open>The \<open>n\<close>-th call of \<^verbatim>\<open>get_zeroed_page\<close> returns \<open>zp n\<close>. The result is the return
  value; the caller ignores it. \<open>None\<close> is the write through a NULL page.\<close>

definition init_local_page_tables :: "(nat \<Rightarrow> u64) \<Rightarrow> kernel_mm \<Rightarrow> imee \<Rightarrow> (int \<times> imee) option" where
  "init_local_page_tables zp mm s =
     (case get_pte mm (data_host (imee_arg s)) of
        None \<Rightarrow> Some (-1, s)
      | Some dpte \<Rightarrow>
        (let s1 = s\<lparr>data_hpa := dpte AND NOT HPA_MASK\<rparr>
         in case get_pte mm (code_host (imee_arg s)) of
              None \<Rightarrow> Some (-1, s1)
            | Some cpte \<Rightarrow>
              (let pd = zp (zpages_calls s1); pe = zp (zpages_calls s1 + 1); pdt = zp (zpages_calls s1 + 2);
                   s2 = s1\<lparr>code_hpa := cpte AND NOT HPA_MASK, code_entry := arg_entry (imee_arg s),
                           fake_cr3_pd_hpa := pd, fake_cr3_pt_hpa_exec := pe,
                           fake_cr3_pt_hpa_data := pdt, zpages_calls := zpages_calls s1 + 3\<rparr>
               in if pd = 0 \<or> pe = 0 \<or> pdt = 0 then None
                  else Some (0, s2\<lparr>mem32 := (mem32 s2)
                    (pd := fill_table (ucast PT_GPA_DATA OR 0x7 OR 0x60) (ucast PT_GPA_EXEC OR 0x7 OR 0x60),
                     pdt := fill_table (ucast DATA_GPA OR 0x7 OR 0x100 OR 0x60)
                                       (ucast CODE_GPA OR 0x7 OR 0x100 OR 0x60),
                     pe := fill_table (ucast CODE_GPA OR 0x7 OR 0x100 OR 0x60)
                                      (ucast CODE_GPA OR 0x7 OR 0x100 OR 0x60))\<rparr>))))"

subsection \<open>The processor's walk of a 32-bit guest\<close>

text \<open>Two levels without large pages, from \<open>cr3\<close>, reading guest physical pages through
  \<open>gread\<close> (\<open>None\<close> where the page is not mapped): the guest physical page of an address.\<close>

definition walk32 :: "(u32 \<Rightarrow> idx10 \<Rightarrow> u32 option) \<Rightarrow> u32 \<Rightarrow> u32 \<Rightarrow> u32 option" where
  "walk32 gread cr3 va =
     do {
       pde \<leftarrow> gread (cr3 AND NOT 0xFFF) (ucast (drop_bit 22 va));
       (if pde AND 1 = 0 \<or> pde AND 0x80 \<noteq> 0 then None else
         do {
           pte \<leftarrow> gread (pde AND NOT 0xFFF) (ucast (drop_bit 12 va));
           (if pte AND 1 = 0 then None else Some (pte AND NOT 0xFFF))
         })
     }"

lemma first_page_iff:
  "(ucast (drop_bit 22 va) :: idx10) = 0 \<and> (ucast (drop_bit 12 va) :: idx10) = 0 \<longleftrightarrow>
   drop_bit 12 (va :: u32) = 0"
proof -
  have b: "(ucast (drop_bit k va) :: idx10) = 0 \<longleftrightarrow> (\<forall>n. k \<le> n \<and> n < k + 10 \<longrightarrow> \<not> bit va n)" if "k \<le> 22" for k
  proof
    assume z: "(ucast (drop_bit k va) :: idx10) = 0"
    show "\<forall>n. k \<le> n \<and> n < k + 10 \<longrightarrow> \<not> bit va n"
    proof (intro allI impI)
      fix n
      assume n: "k \<le> n \<and> n < k + 10"
      have "bit (ucast (drop_bit k va) :: idx10) (n - k) = bit (0 :: idx10) (n - k)" by (simp add: z)
      moreover have "n - k < 10" using n by linarith
      ultimately show "\<not> bit va n" using n by (simp add: bit_simps)
    qed
  next
    assume "\<forall>n. k \<le> n \<and> n < k + 10 \<longrightarrow> \<not> bit va n"
    then show "(ucast (drop_bit k va) :: idx10) = 0"
      by (intro bit_word_eqI) (auto simp: bit_simps)
  qed
  have d: "drop_bit 12 va = 0 \<longleftrightarrow> (\<forall>n. 12 \<le> n \<and> n < 32 \<longrightarrow> \<not> bit va n)"
  proof
    assume z: "drop_bit 12 va = 0"
    show "\<forall>n. 12 \<le> n \<and> n < 32 \<longrightarrow> \<not> bit va n"
    proof (intro allI impI)
      fix n :: nat
      assume n: "12 \<le> n \<and> n < 32"
      have "bit (drop_bit 12 va) (n - 12) = bit (0 :: u32) (n - 12)" by (simp add: z)
      with n show "\<not> bit va n" by (simp add: bit_simps)
    qed
  next
    assume a: "\<forall>n. 12 \<le> n \<and> n < 32 \<longrightarrow> \<not> bit va n"
    show "drop_bit 12 va = 0"
    proof (rule bit_word_eqI)
      fix n :: nat
      show "bit (drop_bit 12 va) n = bit (0 :: u32) n"
        using spec [OF a, of "12 + n"] bit_imp_le_length [of va "12 + n"] by (auto simp: bit_simps)
    qed
  qed
  have "(12 \<le> n \<and> n < 32) \<longleftrightarrow> (22 \<le> n \<and> n < 22 + 10) \<or> (12 \<le> n \<and> n < 12 + 10)" for n :: nat
    by linarith
  then show ?thesis using b [of 22] b [of 12] d by auto
qed

end
