(* ===== verification/Contexts.thy ===== *)
theory Contexts
  imports Local_Paging
begin

text \<open>
  The introspection contexts of \<^verbatim>\<open>kvm/imee.c\<close>: creating one per VM
  (\<^verbatim>\<open>create_introspection_context\<close>), finding and iterating them
  (\<^verbatim>\<open>kvm_to_ctx\<close>, \<^verbatim>\<open>get_next_ctx\<close>), freeing them, and moving the page of
  the module's code under the guest's instruction pointer (\<^verbatim>\<open>remap_gpa_code\<close>).
\<close>

subsection \<open>Operations\<close>

definition kvm_to_ctx :: "nat \<Rightarrow> intro_ctx list \<Rightarrow> intro_ctx option" where
  "kvm_to_ctx target cs = find (\<lambda>cur. ctx_kvm cur = target) cs"

text \<open>The first context not visited yet: it is marked, and its VM becomes the current target. The
  result is the return value, the context found and the list.\<close>

fun next_unvisited :: "intro_ctx list \<Rightarrow> (intro_ctx \<times> intro_ctx list) option" where
  "next_unvisited [] = None"
| "next_unvisited (cur # cs) =
     (if visited cur = 0 then
        (let cur' = cur\<lparr>visited := visited cur + 1\<rparr> in Some (cur', cur' # cs))
      else map_option (\<lambda>(c, cs'). (c, cur # cs')) (next_unvisited cs))"

definition get_next_ctx :: "imee \<Rightarrow> int \<times> intro_ctx option \<times> imee" where
  "get_next_ctx s =
     (case next_unvisited (contexts s) of
        Some (c, cs) \<Rightarrow> (0, Some c, s\<lparr>contexts := cs, current_target := Some (ctx_kvm c)\<rparr>)
      | None \<Rightarrow> (-1, None, s))"

definition map_local_page_tables ::
    "(nat \<Rightarrow> u64) \<Rightarrow> imee \<Rightarrow> intro_ctx \<Rightarrow> host \<Rightarrow> (intro_ctx \<times> host) option" where
  "map_local_page_tables gfpages s ctx h =
     do {
       (_, c1, h1) \<leftarrow> map_epte gfpages PD_GPA (fake_cr3_pd_hpa s) 0x3 ctx h;
       (_, c2, h2) \<leftarrow> map_epte gfpages PT_GPA_EXEC (fake_cr3_pt_hpa_exec s) 0x3 c1 h1;
       (_, c3, h3) \<leftarrow> map_epte gfpages PT_GPA_DATA (fake_cr3_pt_hpa_data s) 0x3 c2 h2;
       (_, c4, h4) \<leftarrow> map_epte gfpages DATA_GPA (data_hpa s) 0x3 c3 h3;
       (_, c5, h5) \<leftarrow> map_epte gfpages CODE_GPA (code_hpa s) 0x4 c4 h4;
       Some (c5, h5)
     }"

text \<open>\<open>current_pid\<close> is the calling task. The context joins the list before its EPT is built, and
  the list keeps the pointer, so the finished context is what the list holds.\<close>

definition create_introspection_context ::
    "(nat \<Rightarrow> u64) \<Rightarrow> int \<Rightarrow> vm \<Rightarrow> imee \<Rightarrow> imee option" where
  "create_introspection_context gfpages current_pid target s =
     (if vm_owner target = current_pid then Some s
      else if kvm_to_ctx (vm_id target) (contexts s) \<noteq> None then Some s
      else
        do {
          cpu \<leftarrow> pick_cpu target;
          (leaf, h1) \<leftarrow> copy_leaf_ept gfpages (active_mmu_pages target) [] (hst s);
          (eptp, non_leaf, h2) \<leftarrow> make_imee_ept gfpages leaf [] h1;
          let ctx = \<lparr>ctx_kvm = vm_id target, target_vcpu = cpu, ctx_task = vm_owner target,
                     eptptr = eptp, ctx_cr3 = 0, visited = 0, leaf_page = leaf,
                     non_leaf_page = non_leaf, code_ept_pte_p = None, code_ept_pte = 0,
                     data_ept_pte_p = None, data_ept_pte = 0\<rparr>;
          (ctx1, h3) \<leftarrow> map_local_page_tables gfpages s ctx h2;
          Some (s\<lparr>hst := h3, contexts := ctx1\<lparr>ctx_cr3 := ucast PD_GPA\<rparr> # contexts s\<rparr>)
        })"

fun create_contexts :: "(nat \<Rightarrow> u64) \<Rightarrow> int \<Rightarrow> vm list \<Rightarrow> imee \<Rightarrow> imee option" where
  "create_contexts gfpages current_pid [] s = Some s"
| "create_contexts gfpages current_pid (cur # vms) s =
     do { s1 \<leftarrow> create_introspection_context gfpages current_pid cur s;
          create_contexts gfpages current_pid vms s1 }"

definition free_contexts :: "imee \<Rightarrow> imee" where
  "free_contexts s = s\<lparr>contexts := []\<rparr>"

definition remap_gpa_code ::
    "(nat \<Rightarrow> u64) \<Rightarrow> u64 \<Rightarrow> u64 \<Rightarrow> intro_ctx \<Rightarrow> host \<Rightarrow> (int \<times> intro_ctx \<times> host) option" where
  "remap_gpa_code gfpages code_phys gpa ctx h =
     (let epte = get_epte ctx gpa;
          h1 = (case code_ept_pte_p ctx of
                  Some (t, i) \<Rightarrow> set_entry h t i (code_ept_pte ctx)
                | None \<Rightarrow> h)
      in case epte of
           Some (t, i) \<Rightarrow>
             (let old = ept_mem h1 t i
              in Some (0, ctx\<lparr>code_ept_pte_p := Some (t, i), code_ept_pte := old\<rparr>,
                   set_entry h1 t i ((old AND EPT_MASK) OR code_phys OR 0x4)))
         | None \<Rightarrow>
             do { (p, c1, h2) \<leftarrow> map_epte gfpages gpa code_phys 0x4 ctx h1;
                  Some (0, c1\<lparr>code_ept_pte_p := p, code_ept_pte := 0\<rparr>, h2) })"

subsection \<open>The EPT as a map from pages to entries\<close>

text \<open>
  The interface the mapping code offers: a state with an invariant, the entry it gives for an
  address, the room left for tables, and a mapping operation that changes one page.
\<close>

locale page_map =
  fixes inv :: "'s \<Rightarrow> bool"
    and view :: "'s \<Rightarrow> u64 \<Rightarrow> u64"
    and room :: "'s \<Rightarrow> nat"
    and kept :: "'s \<Rightarrow> 'k"
    and mapf :: "u64 \<Rightarrow> u64 \<Rightarrow> u64 \<Rightarrow> 's \<Rightarrow> 's option"
  assumes map_total: "inv s \<Longrightarrow> 3 \<le> room s \<Longrightarrow> gpa < 2 ^ 48 \<Longrightarrow> mapf gpa hpa perm s \<noteq> None"
    and map_inv: "inv s \<Longrightarrow> 3 \<le> room s \<Longrightarrow> gpa < 2 ^ 48 \<Longrightarrow> mapf gpa hpa perm s = Some s' \<Longrightarrow> inv s'"
    and map_room: "inv s \<Longrightarrow> 3 \<le> room s \<Longrightarrow> gpa < 2 ^ 48 \<Longrightarrow> mapf gpa hpa perm s = Some s' \<Longrightarrow>
      room s \<le> room s' + 3"
    and map_view: "inv s \<Longrightarrow> 3 \<le> room s \<Longrightarrow> gpa < 2 ^ 48 \<Longrightarrow> mapf gpa hpa perm s = Some s' \<Longrightarrow>
      view s' x = (if gpage x = gpage gpa then new_entry (view s gpa) hpa perm else view s x)"
    and map_kept: "inv s \<Longrightarrow> 3 \<le> room s \<Longrightarrow> gpa < 2 ^ 48 \<Longrightarrow> mapf gpa hpa perm s = Some s' \<Longrightarrow>
      kept s' = kept s"

text \<open>Mapping a list of pages one after the other.\<close>

fun map_all :: "(u64 \<Rightarrow> u64 \<Rightarrow> u64 \<Rightarrow> 's \<Rightarrow> 's option) \<Rightarrow> (u64 \<times> u64 \<times> u64) list \<Rightarrow> 's \<Rightarrow> 's option" where
  "map_all mapf [] s = Some s"
| "map_all mapf ((gpa, hpa, perm) # ms) s = do { s1 \<leftarrow> mapf gpa hpa perm s; map_all mapf ms s1 }"

context page_map
begin

lemma map_all_post:
  assumes "inv s" "3 * length ms \<le> room s" "\<forall>m \<in> set ms. fst m < 2 ^ 48"
    and "distinct (map (gpage \<circ> fst) ms)"
  shows "\<exists>s'. map_all mapf ms s = Some s' \<and> inv s' \<and> kept s' = kept s \<and> room s \<le> room s' + 3 * length ms \<and>
    (\<forall>(gpa, hpa, perm) \<in> set ms. \<forall>x. gpage x = gpage gpa \<longrightarrow> view s' x = new_entry (view s gpa) hpa perm) \<and>
    (\<forall>x. gpage x \<notin> (gpage \<circ> fst) ` set ms \<longrightarrow> view s' x = view s x)"
  using assms
proof (induction ms arbitrary: s)
  case Nil
  then show ?case by simp
next
  case (Cons m ms)
  obtain gpa hpa perm where m: "m = (gpa, hpa, perm)" by (cases m)
  have r: "3 \<le> room s" and g: "gpa < 2 ^ 48" using Cons.prems m by auto
  obtain s1 where e: "mapf gpa hpa perm s = Some s1" using map_total [OF Cons.prems(1) r g] by blast
  note i1 = map_inv [OF Cons.prems(1) r g e] and r1 = map_room [OF Cons.prems(1) r g e]
    and v1 = map_view [OF Cons.prems(1) r g e] and k1 = map_kept [OF Cons.prems(1) r g e]
  have "3 * length ms \<le> room s1" using Cons.prems(2) r1 by simp
  moreover have "\<forall>m \<in> set ms. fst m < 2 ^ 48"
    "distinct (map (gpage \<circ> fst) ms)" using Cons.prems(3,4) by (simp_all add: comp_def)
  ultimately obtain s' where s': "map_all mapf ms s1 = Some s'" "inv s'" "room s1 \<le> room s' + 3 * length ms"
      "kept s' = kept s1"
      "\<forall>(gpa, hpa, perm) \<in> set ms. \<forall>x. gpage x = gpage gpa \<longrightarrow> view s' x = new_entry (view s1 gpa) hpa perm"
      "\<forall>x. gpage x \<notin> (gpage \<circ> fst) ` set ms \<longrightarrow> view s' x = view s1 x"
    using Cons.IH [OF i1] by blast
  have new: "gpage gpa \<notin> (gpage \<circ> fst) ` set ms" using Cons.prems(4) m by simp
  have old: "gpage b \<noteq> gpage gpa" if "(b, q, p) \<in> set ms" for b q p
    using new that by force
  have "\<forall>(b, q, p) \<in> set (m # ms). \<forall>x. gpage x = gpage b \<longrightarrow> view s' x = new_entry (view s b) q p"
    using s'(5,6) new old v1 by (auto simp: m)
  moreover have "\<forall>x. gpage x \<notin> (gpage \<circ> fst) ` set (m # ms) \<longrightarrow> view s' x = view s x"
    using s'(6) v1 by (simp add: m)
  moreover have "room s \<le> room s' + 3 * length (m # ms)" using r1 s'(3) by simp
  ultimately show ?case using e s'(1,2,4) k1 by (auto simp: m)
qed

end

subsection \<open>\<^verbatim>\<open>get_epte\<close> and the walk agree\<close>

definition ctx_ok :: "intro_ctx \<Rightarrow> host \<Rightarrow> bool" where
  "ctx_ok ctx h \<longleftrightarrow>
     eptptr ctx \<noteq> 0 \<and> ept_ok (ept_mem h) (eptptr ctx) (future_frames h) \<and>
     (\<forall>x < 2 ^ 48. get_epte ctx x =
        map_option (\<lambda>t. (t, pt_idx x)) (follow (ept_mem h) (eptptr ctx) (path3 x)))"

definition ept_view :: "intro_ctx \<times> host \<Rightarrow> u64 \<Rightarrow> u64" where
  "ept_view s x = xlate (ept_mem (snd s)) (eptptr (fst s)) x"

text \<open>The tables of the context and the frames still to come lie in \<open>F\<close>: the frames of the pool.\<close>

definition ctx_in :: "u64 set \<Rightarrow> intro_ctx \<Rightarrow> host \<Rightarrow> bool" where
  "ctx_in F ctx h \<longleftrightarrow>
     ctx_ok ctx h \<and> tables (ept_mem h) (eptptr ctx) \<subseteq> F \<and> future_frames h \<subseteq> F"

text \<open>What mapping a page leaves alone: the memory outside \<open>F\<close> and every field of the context other
  than its two lists of tables, which \<^verbatim>\<open>free_ept\<close> empties.\<close>

definition outside :: "u64 set \<Rightarrow> intro_ctx \<times> host \<Rightarrow> intro_ctx \<times> (u64 \<times> idx9 \<Rightarrow> u64)" where
  "outside F s = (free_ept (fst s), (\<lambda>(u, i). if u \<in> F then 0 else ept_mem (snd s) u i))"

lemma outsideD:
  assumes "outside F s' = outside F s"
  shows "ctx_kvm (fst s') = ctx_kvm (fst s)" "eptptr (fst s') = eptptr (fst s)"
    "code_ept_pte_p (fst s') = code_ept_pte_p (fst s)" "code_ept_pte (fst s') = code_ept_pte (fst s)"
    "visited (fst s') = visited (fst s)" "target_vcpu (fst s') = target_vcpu (fst s)"
    "ctx_task (fst s') = ctx_task (fst s)" "ctx_cr3 (fst s') = ctx_cr3 (fst s)"
    "u \<notin> F \<Longrightarrow> ept_mem (snd s') u = ept_mem (snd s) u"
proof -
  have c: "free_ept (fst s') = free_ept (fst s)" using assms by (simp add: outside_def)
  note f = arg_cong [OF c, of ctx_kvm] arg_cong [OF c, of eptptr] arg_cong [OF c, of code_ept_pte_p]
    arg_cong [OF c, of code_ept_pte] arg_cong [OF c, of visited] arg_cong [OF c, of target_vcpu]
    arg_cong [OF c, of ctx_task] arg_cong [OF c, of ctx_cr3]
  from f show "ctx_kvm (fst s') = ctx_kvm (fst s)" "eptptr (fst s') = eptptr (fst s)"
    "code_ept_pte_p (fst s') = code_ept_pte_p (fst s)" "code_ept_pte (fst s') = code_ept_pte (fst s)"
    "visited (fst s') = visited (fst s)" "target_vcpu (fst s') = target_vcpu (fst s)"
    "ctx_task (fst s') = ctx_task (fst s)" "ctx_cr3 (fst s') = ctx_cr3 (fst s)"
    by (simp_all add: free_ept_def)
  show "ept_mem (snd s') u = ept_mem (snd s) u" if "u \<notin> F"
  proof
    fix i
    have "snd (outside F s') (u, i) = snd (outside F s) (u, i)" using assms by simp
    then show "ept_mem (snd s') u i = ept_mem (snd s) u i" using that by (simp add: outside_def)
  qed
qed

definition map_state ::
    "(nat \<Rightarrow> u64) \<Rightarrow> u64 \<Rightarrow> u64 \<Rightarrow> u64 \<Rightarrow> intro_ctx \<times> host \<Rightarrow> (intro_ctx \<times> host) option" where
  "map_state gfpages gpa hpa perm s =
     map_option (\<lambda>(_, c, h). (c, h)) (map_epte gfpages gpa hpa perm (fst s) (snd s))"

lemma less_48_bits: "(x :: u64) < 2 ^ 48 \<longleftrightarrow> (\<forall>n. 48 \<le> n \<longrightarrow> \<not> bit x n)"
proof -
  have "x < 2 ^ 48 \<longleftrightarrow> take_bit 48 x = x"
    by (simp add: word_less_nat_alt take_bit_eq_mod unat_mod word_unat_eq_iff
        flip: take_bit_eq_mod) (simp add: take_bit_nat_eq_self_iff unsigned_take_bit_eq)
  also have "\<dots> \<longleftrightarrow> (\<forall>n. 48 \<le> n \<longrightarrow> \<not> bit x n)"
  proof
    assume "take_bit 48 x = x"
    then show "\<forall>n. 48 \<le> n \<longrightarrow> \<not> bit x n" by (metis bit_take_bit_iff not_le)
  next
    assume "\<forall>n. 48 \<le> n \<longrightarrow> \<not> bit x n"
    then show "take_bit 48 x = x"
      by (intro bit_word_eqI) (metis bit_take_bit_iff not_le)
  qed
  finally show ?thesis .
qed

lemma region_eq_iff:
  assumes "x < 2 ^ 48" "y < 2 ^ 48"
  shows "drop_bit 12 x AND NOT 0x1FF = drop_bit 12 y AND NOT 0x1FF \<longleftrightarrow> path3 x = path3 y"
proof -
  have lt: "bit z (12 + n) \<Longrightarrow> n < 64" for z :: u64 and n
    using bit_imp_le_length [of z "12 + n"] by simp
  have b: "bit (drop_bit 12 z AND NOT 0x1FF) n \<longleftrightarrow> 9 \<le> n \<and> bit z (12 + n)" for z :: u64 and n
    using bit_imp_le_length [of z "12 + n"] by (auto simp: bit_simps)
  have "drop_bit 12 x AND NOT 0x1FF = drop_bit 12 y AND NOT 0x1FF \<longleftrightarrow>
      (\<forall>n. 9 \<le> n \<longrightarrow> bit x (12 + n) = bit y (12 + n))"
    unfolding bit_eq_iff b using lt by auto
  also have "\<dots> \<longleftrightarrow> (\<forall>n. 21 \<le> n \<longrightarrow> bit x n = bit y n)"
  proof
    assume a: "\<forall>n. 9 \<le> n \<longrightarrow> bit x (12 + n) = bit y (12 + n)"
    show "\<forall>n. 21 \<le> n \<longrightarrow> bit x n = bit y n"
    proof (rule allI, rule impI)
      fix n :: nat
      assume "21 \<le> n"
      then show "bit x n = bit y n" using spec [OF a, of "n - 12"] by simp
    qed
  qed simp
  also have "\<dots> \<longleftrightarrow> path3 x = path3 y"
    unfolding path3_eq_iff using assms unfolding less_48_bits by (metis not_le_imp_less)
  finally show ?thesis .
qed

lemma get_epte_idx: "get_epte ctx x = find_leaf (leaf_page ctx) (drop_bit 12 x) (pt_idx x)"
  by (simp add: get_epte_def pt_idx_def and_mask_ucast_9)

lemma map_epte_ctx_ok:
  assumes ok: "ctx_ok ctx h" and av: "3 \<le> avail_frames h" and gpa: "gpa < 2 ^ 48"
  obtains t c h' where "map_epte gfpages gpa hpa perm ctx h = Some (Some (t, pt_idx gpa), c, h')"
    and "ctx_ok c h'" and "free_ept c = free_ept ctx" and "eptptr c = eptptr ctx" and "avail_frames h \<le> avail_frames h' + 3"
    and "follow (ept_mem h') (eptptr ctx) (path3 gpa) = Some t"
    and "follow (ept_mem h) (eptptr ctx) (path3 gpa) \<in> {None, Some t}"
    and "\<And>x. xlate (ept_mem h') (eptptr ctx) x =
      (if gpage x = gpage gpa then new_entry (xlate (ept_mem h) (eptptr ctx) gpa) hpa perm
       else xlate (ept_mem h) (eptptr ctx) x)"
    and "\<And>x t'. follow (ept_mem h) (eptptr ctx) (path3 x) = Some t' \<Longrightarrow>
      follow (ept_mem h') (eptptr ctx) (path3 x) = Some t'"
    and "\<And>u. u \<notin> tables (ept_mem h) (eptptr ctx) \<Longrightarrow> u \<notin> future_frames h \<Longrightarrow> ept_mem h' u = ept_mem h u"
    and "future_frames h' \<subseteq> future_frames h"
    and "tables (ept_mem h') (eptptr ctx) \<subseteq> tables (ept_mem h) (eptptr ctx) \<union> future_frames h"
proof -
  let ?r = "eptptr ctx"
  have r: "?r \<noteq> 0" and e: "ept_ok (ept_mem h) ?r (future_frames h)"
    and agree: "\<And>x. x < 2 ^ 48 \<Longrightarrow> get_epte ctx x =
        map_option (\<lambda>t. (t, pt_idx x)) (follow (ept_mem h) ?r (path3 x))"
    using ok by (auto simp: ctx_ok_def)
  show ?thesis
  proof (rule map_postE [OF map_epte_post [OF e r av, of gpa hpa perm gfpages]])
    fix t nl h'
    let ?c = "ctx\<lparr>non_leaf_page := nl,
            leaf_page := (if follow (ept_mem h) ?r (path3 gpa) = None
               then \<lparr>spt = t, gfn = Some (drop_bit 12 gpa AND NOT 0x1FF), role_level = 1\<rparr> # leaf_page ctx
               else leaf_page ctx)\<rparr>"
    assume res: "map_epte gfpages gpa hpa perm ctx h = Some (Some (t, pt_idx gpa), ?c, h')"
      and e': "ept_ok (ept_mem h') ?r (future_frames h')"
      and t: "follow (ept_mem h) ?r (path3 gpa) \<in> {None, Some t}"
      and fx: "\<And>g. follow (ept_mem h') ?r (path3 g) =
        (if path3 g = path3 gpa then Some t else follow (ept_mem h) ?r (path3 g))"
      and tb: "tables (ept_mem h') ?r \<subseteq> tables (ept_mem h) ?r \<union> future_frames h"
      and rest: "avail_frames h \<le> avail_frames h' + 3" "future_frames h' \<subseteq> future_frames h"
        "\<And>u. u \<notin> tables (ept_mem h) ?r \<Longrightarrow> u \<notin> future_frames h \<Longrightarrow> ept_mem h' u = ept_mem h u"
        "\<And>g. xlate (ept_mem h') ?r g =
          (if gpage g = gpage gpa then new_entry (xlate (ept_mem h) ?r gpa) hpa perm
           else xlate (ept_mem h) ?r g)"
    have ag: "get_epte ?c x = map_option (\<lambda>t. (t, pt_idx x)) (follow (ept_mem h') ?r (path3 x))"
      if x: "x < 2 ^ 48" for x
    proof -
      have "get_epte ?c x =
          (if follow (ept_mem h) ?r (path3 gpa) = None \<and> path3 gpa = path3 x then Some (t, pt_idx x)
           else get_epte ctx x)"
        using region_eq_iff [OF gpa x]
        by (cases "follow (ept_mem h) ?r (path3 gpa)") (simp_all add: get_epte_idx)
      then show ?thesis
        using agree [OF x] t by (cases "path3 x = path3 gpa") (auto simp: fx)
    qed
    have "ctx_ok ?c h'" unfolding ctx_ok_def using r e' ag by simp
    moreover have "follow (ept_mem h') ?r (path3 x) = Some t'"
      if "follow (ept_mem h) ?r (path3 x) = Some t'" for x t'
      using that t fx [of x] by auto
    ultimately show ?thesis using that [OF res] rest tb t fx [of gpa] by (auto simp: free_ept_def)
  qed
qed

lemma map_state_post:
  assumes ok: "ctx_in F (fst s) (snd s)" and av: "3 \<le> avail_frames (snd s)" and g: "gpa < 2 ^ 48"
  shows "\<exists>s'. map_state gfpages gpa hpa perm s = Some s' \<and> ctx_in F (fst s') (snd s') \<and>
    outside F s' = outside F s \<and> avail_frames (snd s) \<le> avail_frames (snd s') + 3 \<and>
    (\<forall>x. ept_view s' x =
      (if gpage x = gpage gpa then new_entry (ept_view s gpa) hpa perm else ept_view s x))"
proof -
  have c: "ctx_ok (fst s) (snd s)" and F: "tables (ept_mem (snd s)) (eptptr (fst s)) \<subseteq> F"
    "future_frames (snd s) \<subseteq> F" using ok by (auto simp: ctx_in_def)
  show ?thesis
  proof (rule map_epte_ctx_ok [OF c av g, of gfpages hpa perm])
    fix t c h'
    assume e: "map_epte gfpages gpa hpa perm (fst s) (snd s) = Some (Some (t, pt_idx gpa), c, h')"
      and k: "ctx_ok c h'" "free_ept c = free_ept (fst s)" "eptptr c = eptptr (fst s)"
      and a: "avail_frames (snd s) \<le> avail_frames h' + 3"
      and v: "\<And>x. xlate (ept_mem h') (eptptr (fst s)) x =
        (if gpage x = gpage gpa then new_entry (xlate (ept_mem (snd s)) (eptptr (fst s)) gpa) hpa perm
         else xlate (ept_mem (snd s)) (eptptr (fst s)) x)"
      and fr: "\<And>u. u \<notin> tables (ept_mem (snd s)) (eptptr (fst s)) \<Longrightarrow> u \<notin> future_frames (snd s) \<Longrightarrow>
        ept_mem h' u = ept_mem (snd s) u"
      and fu: "future_frames h' \<subseteq> future_frames (snd s)"
      and tb: "tables (ept_mem h') (eptptr (fst s)) \<subseteq>
        tables (ept_mem (snd s)) (eptptr (fst s)) \<union> future_frames (snd s)"
    have "ept_mem h' u = ept_mem (snd s) u" if "u \<notin> F" for u using that F fr by blast
    then have "outside F (c, h') = outside F s"
      by (auto simp: outside_def k(2) fun_eq_iff)
    moreover have "ctx_in F c h'" unfolding ctx_in_def k(3) using k(1) F fu tb by auto
    ultimately show ?thesis
      using e a v k(3) by (intro exI [of _ "(c, h')"]) (simp add: map_state_def ept_view_def)
  qed
qed

interpretation epts: page_map "\<lambda>s. ctx_in F (fst s) (snd s)" ept_view "\<lambda>s. avail_frames (snd s)"
    "outside F" "map_state gfpages" for F gfpages
proof
  fix s s' :: "intro_ctx \<times> host" and gpa hpa perm x :: u64
  assume a: "ctx_in F (fst s) (snd s)" "3 \<le> avail_frames (snd s)" "gpa < 2 ^ 48"
  note post = map_state_post [OF a, of gfpages hpa perm]
  show "map_state gfpages gpa hpa perm s \<noteq> None" using post by auto
  assume m: "map_state gfpages gpa hpa perm s = Some s'"
  show "ctx_in F (fst s') (snd s')" using post m by simp
  show "avail_frames (snd s) \<le> avail_frames (snd s') + 3" using post m by simp
  show "ept_view s' x =
      (if gpage x = gpage gpa then new_entry (ept_view s gpa) hpa perm else ept_view s x)"
    using post m by simp
  show "outside F s' = outside F s" using post m by simp
qed

subsection \<open>The context of a VM\<close>

definition gfn_ok :: "u64 \<Rightarrow> bool" where
  "gfn_ok g \<longleftrightarrow> (\<forall>n. n < 9 \<or> 36 \<le> n \<longrightarrow> \<not> bit g n)"

text \<open>What KVM's shadow paging guarantees of a VM's active pages: last-level pages have a frame
  number, aligned to the 512 pages they map and within 48-bit addresses; their tables are not
  frames of the module's pool.\<close>

definition vm_ok :: "vm \<Rightarrow> host \<Rightarrow> bool" where
  "vm_ok target h \<longleftrightarrow>
     vm_vcpus target 0 \<noteq> None \<and>
     (\<forall>page \<in> set (active_mmu_pages target). spt page \<notin> future_frames h) \<and>
     (\<forall>page \<in> set (active_mmu_pages target). is_leaf page \<longrightarrow>
        (case gfn page of None \<Rightarrow> False | Some g \<Rightarrow> gfn_ok g))"

definition n_leaves :: "vm \<Rightarrow> nat" where
  "n_leaves target = length (filter is_leaf (active_mmu_pages target))"

text \<open>The target's own entry for a guest physical address: that of the last active page for the
  region, as the copy is built front to back into a list that grows at its head.\<close>

definition guest_entry :: "ptmem \<Rightarrow> kvm_mmu_page list \<Rightarrow> u64 \<Rightarrow> u64" where
  "guest_entry m active x =
     (case find (\<lambda>p. is_leaf p \<and> gfn p = Some (drop_bit 12 x AND NOT 0x1FF)) (rev active) of
        None \<Rightarrow> 0 | Some p \<Rightarrow> m (spt p) (pt_idx x))"

lemma gfn_region:
  assumes "gfn_ok g" "x < 2 ^ 48"
  shows "leaf_path g = path3 x \<longleftrightarrow> g = drop_bit 12 x AND NOT 0x1FF"
proof -
  have l: "push_bit 12 g < (2 ^ 48 :: u64)"
    unfolding less_48_bits using assms(1) by (auto simp: gfn_ok_def bit_push_bit_iff)
  have "drop_bit 12 (push_bit 12 g) AND NOT 0x1FF = g"
  proof (rule bit_word_eqI)
    fix n
    show "bit (drop_bit 12 (push_bit 12 g) AND NOT 0x1FF) n = bit g n"
      using assms(1) by (cases "n < 36") (auto simp: gfn_ok_def bit_simps)
  qed
  then show ?thesis
    using region_eq_iff [OF l assms(2)] by (simp add: leaf_path_def)
qed

lemma find_leaf_first:
  assumes "\<forall>cur \<in> set L. case gfn cur of None \<Rightarrow> False | Some g \<Rightarrow> gfn_ok g" "x < 2 ^ 48"
  shows "find_leaf L (drop_bit 12 x) i = map_option (\<lambda>t. (t, i)) (first_leaf L x)"
  using assms(1)
proof (induction L)
  case (Cons cur L)
  then obtain g where "gfn cur = Some g" "gfn_ok g" by (auto split: option.splits)
  with Cons gfn_region [OF _ assms(2), of g] show ?case by simp
qed simp

lemma copies_first_leaf:
  assumes "list_all2 (\<lambda>page node. gfn node = gfn page \<and> role_level node = 1 \<and>
       (\<forall>i. m' (spt node) i = m (spt page) i AND NOT 0x6)) P N"
    and "\<forall>page \<in> set P. case gfn page of None \<Rightarrow> False | Some g \<Rightarrow> gfn_ok g" and "x < 2 ^ 48"
  shows "(case first_leaf N x of None \<Rightarrow> 0 | Some t \<Rightarrow> m' t (pt_idx x)) =
    (case find (\<lambda>p. gfn p = Some (drop_bit 12 x AND NOT 0x1FF)) P of
       None \<Rightarrow> 0 | Some p \<Rightarrow> m (spt p) (pt_idx x)) AND NOT 0x6"
  using assms(1,2)
proof (induction P N rule: list_all2_induct)
  case (Cons page P node N)
  then obtain g where "gfn page = Some g" "gfn_ok g" by (auto split: option.splits)
  with Cons gfn_region [OF _ assms(3), of g] show ?case by simp
qed simp

lemma find_filter: "find (\<lambda>p. Q p \<and> R p) L = find R (filter Q L)"
  by (induction L) auto

text \<open>Copy and build: the state the local mappings start from.\<close>

lemma copy_build_post:
  assumes vm: "vm_ok target h" and av: "3 * n_leaves target + 1 \<le> avail_frames h"
  obtains leaf h1 r nl h2 where "copy_leaf_ept gfpages (active_mmu_pages target) [] h = Some (leaf, h1)"
    and "make_imee_ept gfpages leaf [] h1 = Some (r, nl, h2)"
    and "\<And>ctx. eptptr ctx = r \<Longrightarrow> leaf_page ctx = leaf \<Longrightarrow> ctx_ok ctx h2"
    and "avail_frames h \<le> avail_frames h2 + (3 * n_leaves target + 1)"
    and "\<And>x. x < 2 ^ 48 \<Longrightarrow>
      xlate (ept_mem h2) r x = guest_entry (ept_mem h) (active_mmu_pages target) x AND NOT 0x6"
    and "\<And>u. u \<notin> future_frames h \<Longrightarrow> ept_mem h2 u = ept_mem h u"
    and "future_frames h2 \<subseteq> future_frames h" and "tables (ept_mem h2) r \<subseteq> future_frames h"
proof -
  let ?A = "active_mmu_pages target"
  have src: "\<forall>page \<in> set ?A. spt page \<notin> future_frames h"
    and g: "\<forall>page \<in> set (filter is_leaf ?A). case gfn page of None \<Rightarrow> False | Some g \<Rightarrow> gfn_ok g"
    using vm by (auto simp: vm_ok_def)
  have "length (filter is_leaf ?A) \<le> avail_frames h" using av by (simp add: n_leaves_def)
  from copy_leaf_ept_post [OF this src, of "[]" gfpages] obtain N h1
    where c: "copy_leaf_ept gfpages ?A [] h = Some (rev N, h1)"
      and cp: "copies (ept_mem h) (ept_mem h1) (filter is_leaf ?A) N" and d: "distinct (map spt N)"
      and N: "\<forall>node \<in> set N. spt node \<in> future_frames h \<and> spt node \<notin> future_frames h1 \<and> page_addr (spt node)"
      and fu: "future_frames h1 \<subseteq> future_frames h"
      and av1: "avail_frames h = avail_frames h1 + length (filter is_leaf ?A)"
      and fr: "\<forall>u. u \<notin> future_frames h \<longrightarrow> ept_mem h1 u = ept_mem h u"
    unfolding copy_post_def by auto
  have len: "length N = n_leaves target"
    using cp by (auto simp: copies_def n_leaves_def dest: list_all2_lengthD)
  have gN: "\<forall>node \<in> set N. case gfn node of None \<Rightarrow> False | Some g \<Rightarrow> gfn_ok g"
    using cp g unfolding copies_def by (auto simp: list_all2_conv_all_nth set_conv_nth)
  have ls: "leaf_source_ok h1 (rev N)"
    using d N gN by (auto simp: leaf_source_ok_def rev_map [symmetric] split: option.splits)
  have "2 * length (rev N) + 1 \<le> avail_frames h1" using av av1 len by (simp add: n_leaves_def)
  then obtain r nl h2 where m: "make_imee_ept gfpages (rev N) [] h1 = Some (r, nl, h2)" and r: "r \<noteq> 0"
    and ok: "ept_ok (ept_mem h2) r (future_frames h2)" and fu2: "future_frames h2 \<subseteq> future_frames h1"
    and av2: "avail_frames h1 \<le> avail_frames h2 + (2 * length (rev N) + 1)"
    and fr2: "\<And>u. u \<notin> future_frames h1 \<Longrightarrow> ept_mem h2 u = ept_mem h1 u"
    and tb2: "tables (ept_mem h2) r \<subseteq> future_frames h1 \<union> spt ` set (rev N)"
    and fol: "\<And>x. follow (ept_mem h2) r (path3 x) = first_leaf (rev N) x"
    using make_imee_ept_post [OF ls, of gfpages "[]"] by blast
  have mN: "ept_mem h2 (spt node) = ept_mem h1 (spt node)" if "node \<in> set N" for node
    using that N fr2 by blast
  have cp2: "copies (ept_mem h) (ept_mem h2) (filter is_leaf ?A) N"
    using cp unfolding copies_def by (rule list.rel_mono_strong) (use mN in auto)
  show ?thesis
  proof (rule that [OF c m])
    show "ctx_ok ctx h2" if "eptptr ctx = r" "leaf_page ctx = rev N" for ctx
      unfolding ctx_ok_def using that r ok gN
      by (auto simp: get_epte_idx fol find_leaf_first)
    show "xlate (ept_mem h2) r x = guest_entry (ept_mem h) ?A x AND NOT 0x6" if "x < 2 ^ 48" for x
    proof -
      have a: "list_all2 (\<lambda>page node. gfn node = gfn page \<and> role_level node = 1 \<and>
          (\<forall>i. ept_mem h2 (spt node) i = ept_mem h (spt page) i AND NOT 0x6))
          (rev (filter is_leaf ?A)) (rev N)"
        using cp2 by (simp add: copies_def)
      show ?thesis
        using copies_first_leaf [OF a _ that] g
        by (simp add: xlate_def fol guest_entry_def find_filter rev_filter [symmetric])
    qed
    show "ept_mem h2 u = ept_mem h u" if "u \<notin> future_frames h" for u
      using that fr fr2 fu by (metis subsetD)
    show "avail_frames h \<le> avail_frames h2 + (3 * n_leaves target + 1)"
      using av1 av2 len by (simp add: n_leaves_def)
    show "future_frames h2 \<subseteq> future_frames h" using fu fu2 by blast
    show "tables (ept_mem h2) r \<subseteq> future_frames h" using tb2 N fu by auto
  qed
qed

subsection \<open>The pages the module maps for itself\<close>

definition local_maps :: "imee \<Rightarrow> (u64 \<times> u64 \<times> u64) list" where
  "local_maps s =
     [(PD_GPA, fake_cr3_pd_hpa s, 0x3), (PT_GPA_EXEC, fake_cr3_pt_hpa_exec s, 0x3),
      (PT_GPA_DATA, fake_cr3_pt_hpa_data s, 0x3), (DATA_GPA, data_hpa s, 0x3),
      (CODE_GPA, code_hpa s, 0x4)]"

definition local_pages :: "u64 set" where
  "local_pages = {0xF0000, 0xF0001, 0xF0002, 0xF0003, 0xF0004}"

lemma gpage_consts:
  "gpage PD_GPA = 0xF0000" "gpage PT_GPA_EXEC = 0xF0001" "gpage PT_GPA_DATA = 0xF0002"
  "gpage CODE_GPA = 0xF0003" "gpage DATA_GPA = 0xF0004"
  by (simp_all add: gpa_consts gpage_def)

lemma map_local_is_map_all:
  "map_local_page_tables gfpages s ctx h = map_all (map_state gfpages) (local_maps s) (ctx, h)"
proof -
  have e: "map_all (map_state gfpages) ((g, q, p) # ms) (c, k) =
      (case map_epte gfpages g q p c k of None \<Rightarrow> None
       | Some (_, c1, k1) \<Rightarrow> map_all (map_state gfpages) ms (c1, k1))" for g q p ms c k
    by (auto simp: map_state_def split: option.splits)
  show ?thesis
    unfolding map_local_page_tables_def local_maps_def e
    by (auto split: option.splits)
qed

lemma local_maps_facts:
  "length (local_maps s) = 5" "\<forall>m \<in> set (local_maps s). fst m < 2 ^ 48"
  "distinct (map (gpage \<circ> fst) (local_maps s))" "(gpage \<circ> fst) ` set (local_maps s) = local_pages"
  by (auto simp: local_maps_def gpage_consts local_pages_def) (simp_all add: gpa_consts)

lemma map_local_post:
  assumes ok: "ctx_in F ctx h" and av: "15 \<le> avail_frames h"
  obtains ctx' h' where "map_local_page_tables gfpages s ctx h = Some (ctx', h')" and "ctx_in F ctx' h'"
    and "avail_frames h \<le> avail_frames h' + 15" and "outside F (ctx', h') = outside F (ctx, h)"
    and "\<And>x gpa hpa perm. (gpa, hpa, perm) \<in> set (local_maps s) \<Longrightarrow> gpage x = gpage gpa \<Longrightarrow>
      ept_view (ctx', h') x = new_entry (ept_view (ctx, h) gpa) hpa perm"
    and "\<And>x. gpage x \<notin> local_pages \<Longrightarrow> ept_view (ctx', h') x = ept_view (ctx, h) x"
proof -
  note lf = local_maps_facts [of s]
  have len: "3 * length (local_maps s) \<le> avail_frames (snd (ctx, h))" using av by (simp add: lf(1))
  have ok': "ctx_in F (fst (ctx, h)) (snd (ctx, h))" using ok by simp
  note post = epts.map_all_post [OF ok' len lf(2,3), of gfpages, unfolded lf(1,4)]
  then obtain s' where e: "map_all (map_state gfpages) (local_maps s) (ctx, h) = Some s'"
      and r: "ctx_in F (fst s') (snd s')" "avail_frames h \<le> avail_frames (snd s') + 15"
        "outside F s' = outside F (ctx, h)"
      and v: "\<forall>(gpa, hpa, perm) \<in> set (local_maps s). \<forall>x. gpage x = gpage gpa \<longrightarrow>
           ept_view s' x = new_entry (ept_view (ctx, h) gpa) hpa perm"
        "\<forall>x. gpage x \<notin> local_pages \<longrightarrow> ept_view s' x = ept_view (ctx, h) x"
    by auto
  obtain ctx' h' where s': "s' = (ctx', h')" by (cases s')
  show ?thesis
  proof (rule that [of ctx' h'])
    show "map_local_page_tables gfpages s ctx h = Some (ctx', h')"
      using e s' by (simp add: map_local_is_map_all)
    show "ept_view (ctx', h') x = new_entry (ept_view (ctx, h) gpa) hpa perm"
      if "(gpa, hpa, perm) \<in> set (local_maps s)" "gpage x = gpage gpa" for x gpa hpa perm
      using that v(1) s' by fast
  qed (use r v(2) s' in simp_all)
qed

lemma ctx_in_cr3 [simp]: "ctx_in F (ctx\<lparr>ctx_cr3 := v\<rparr>) h = ctx_in F ctx h"
  by (simp add: ctx_in_def ctx_ok_def get_epte_def)

lemma ept_view_cr3 [simp]: "ept_view (ctx\<lparr>ctx_cr3 := v\<rparr>, h) = ept_view (ctx, h)"
  by (simp add: ept_view_def fun_eq_iff)

text \<open>Creating the context of a VM succeeds, and its EPT is: the local pages with their own
  permissions, and the guest's entries stripped of write and execute permission elsewhere. No memory
  outside the pool is written.\<close>

lemma create_context_view:
  assumes new: "vm_owner target \<noteq> current_pid" "kvm_to_ctx (vm_id target) (contexts s) = None"
    and vm: "vm_ok target (hst s)" and av: "3 * n_leaves target + 16 \<le> avail_frames (hst s)"
  obtains ctx h' where "create_introspection_context gfpages current_pid target s =
      Some (s\<lparr>hst := h', contexts := ctx # contexts s\<rparr>)"
    and "ctx_in (future_frames (hst s)) ctx h'" and "ctx_kvm ctx = vm_id target" and "visited ctx = 0"
    and "code_ept_pte_p ctx = None" and "ctx_cr3 ctx = ucast PD_GPA"
    and "ctx_task ctx = vm_owner target" and "Some (target_vcpu ctx) = pick_cpu target"
    and "avail_frames (hst s) \<le> avail_frames h' + (3 * n_leaves target + 16)"
    and "\<And>u. u \<notin> future_frames (hst s) \<Longrightarrow> ept_mem h' u = ept_mem (hst s) u"
    and "\<And>x gpa hpa perm. (gpa, hpa, perm) \<in> set (local_maps s) \<Longrightarrow> gpage x = gpage gpa \<Longrightarrow>
      ept_view (ctx, h') x =
        new_entry (guest_entry (ept_mem (hst s)) (active_mmu_pages target) gpa AND NOT 0x6) hpa perm"
    and "\<And>x. x < 2 ^ 48 \<Longrightarrow> gpage x \<notin> local_pages \<Longrightarrow> ept_view (ctx, h') x =
      guest_entry (ept_mem (hst s)) (active_mmu_pages target) x AND NOT 0x6"
proof -
  let ?F = "future_frames (hst s)"
  have "3 * n_leaves target + 1 \<le> avail_frames (hst s)" using av by simp
  from copy_build_post [OF vm this, of gfpages] obtain leaf h1 r nl h2
    where c: "copy_leaf_ept gfpages (active_mmu_pages target) [] (hst s) = Some (leaf, h1)"
      and m: "make_imee_ept gfpages leaf [] h1 = Some (r, nl, h2)"
      and ok: "\<And>ctx. eptptr ctx = r \<Longrightarrow> leaf_page ctx = leaf \<Longrightarrow> ctx_ok ctx h2"
      and av2: "avail_frames (hst s) \<le> avail_frames h2 + (3 * n_leaves target + 1)"
      and xl: "\<And>x. x < 2 ^ 48 \<Longrightarrow>
        xlate (ept_mem h2) r x = guest_entry (ept_mem (hst s)) (active_mmu_pages target) x AND NOT 0x6"
      and fr2: "\<And>u. u \<notin> ?F \<Longrightarrow> ept_mem h2 u = ept_mem (hst s) u"
      and F2: "future_frames h2 \<subseteq> ?F" "tables (ept_mem h2) r \<subseteq> ?F"
    by blast
  obtain cpu where cpu: "vm_vcpus target 0 = Some cpu" using vm by (auto simp: vm_ok_def)
  define ctx0 where "ctx0 = \<lparr>ctx_kvm = vm_id target, target_vcpu = cpu, ctx_task = vm_owner target,
       eptptr = r, ctx_cr3 = 0, visited = 0, leaf_page = leaf, non_leaf_page = nl,
       code_ept_pte_p = None, code_ept_pte = 0, data_ept_pte_p = None, data_ept_pte = 0\<rparr>"
  have in2: "ctx_in ?F ctx0 h2"
    unfolding ctx_in_def using ok [of ctx0] F2 by (simp add: ctx0_def)
  have "15 \<le> avail_frames h2" using av av2 by simp
  from map_local_post [OF in2 this, of gfpages s] obtain ctx' h'
    where l: "map_local_page_tables gfpages s ctx0 h2 = Some (ctx', h')" and in': "ctx_in ?F ctx' h'"
      and av': "avail_frames h2 \<le> avail_frames h' + 15"
      and out: "outside ?F (ctx', h') = outside ?F (ctx0, h2)"
      and loc: "\<And>x gpa hpa perm. (gpa, hpa, perm) \<in> set (local_maps s) \<Longrightarrow> gpage x = gpage gpa \<Longrightarrow>
        ept_view (ctx', h') x = new_entry (ept_view (ctx0, h2) gpa) hpa perm"
      and oth: "\<And>x. gpage x \<notin> local_pages \<Longrightarrow> ept_view (ctx', h') x = ept_view (ctx0, h2) x"
    by blast
  note keep = outsideD [OF out, unfolded fst_conv snd_conv]
  have v0: "ept_view (ctx0, h2) x = guest_entry (ept_mem (hst s)) (active_mmu_pages target) x AND NOT 0x6"
    if "x < 2 ^ 48" for x
    using xl [OF that] by (simp add: ept_view_def ctx0_def)
  show ?thesis
  proof (rule that [of "ctx'\<lparr>ctx_cr3 := ucast PD_GPA\<rparr>" h'])
    show "create_introspection_context gfpages current_pid target s =
      Some (s\<lparr>hst := h', contexts := ctx'\<lparr>ctx_cr3 := ucast PD_GPA\<rparr> # contexts s\<rparr>)"
      using new c m l cpu unfolding create_introspection_context_def ctx0_def
      by (simp add: pick_cpu_def)
    show "avail_frames (hst s) \<le> avail_frames h' + (3 * n_leaves target + 16)" using av2 av' by simp
    show "ept_view (ctx'\<lparr>ctx_cr3 := ucast PD_GPA\<rparr>, h') x =
        new_entry (guest_entry (ept_mem (hst s)) (active_mmu_pages target) gpa AND NOT 0x6) hpa perm"
      if a: "(gpa, hpa, perm) \<in> set (local_maps s)" "gpage x = gpage gpa" for x gpa hpa perm
    proof -
      have "gpa < 2 ^ 48" using bspec [OF local_maps_facts(2) a(1)] by simp
      then show ?thesis using loc [OF a] v0 by simp
    qed
  qed (use in' keep cpu oth v0 fr2 in \<open>simp_all add: ctx0_def pick_cpu_def\<close>)
qed

end
