(* ===== verification/Context_Set.thy ===== *)
theory Context_Set
  imports Contexts
begin

text \<open>
  All contexts together (\<^verbatim>\<open>kvm/imee.c\<close>): the entry the EPT of a VM's context has for every
  guest physical address, creating the contexts of all VMs (\<^verbatim>\<open>create_contexts\<close>) without
  disturbing the ones that exist, and visiting every context once (\<^verbatim>\<open>get_next_ctx\<close>).
\<close>

subsection \<open>The entry of every address\<close>

text \<open>The abstract view of a context: the module's own pages first, then the guest's entry without
  its write and execute bits.\<close>

definition guest_ro :: "ptmem \<Rightarrow> vm \<Rightarrow> u64 \<Rightarrow> u64" where
  "guest_ro m target x = guest_entry m (active_mmu_pages target) x AND NOT 0x6"

definition imee_view :: "imee \<Rightarrow> ptmem \<Rightarrow> vm \<Rightarrow> u64 \<Rightarrow> u64" where
  "imee_view s m target x =
     (case find (\<lambda>(gpa, _, _). gpage gpa = gpage x) (local_maps s) of
        Some (gpa, hpa, perm) \<Rightarrow> new_entry (guest_ro m target gpa) hpa perm
      | None \<Rightarrow> guest_ro m target x)"

lemma imee_view_other: "gpage x \<notin> local_pages \<Longrightarrow> imee_view s m target x = guest_ro m target x"
  by (auto simp: imee_view_def local_maps_def gpage_consts local_pages_def)

lemma imee_view_local:
  assumes "(gpa, hpa, perm) \<in> set (local_maps s)" "gpage x = gpage gpa"
  shows "imee_view s m target x = new_entry (guest_ro m target gpa) hpa perm"
  using assms by (auto simp: imee_view_def local_maps_def gpage_consts)

lemma local_pagesE:
  assumes "gpage x \<in> local_pages"
  obtains gpa hpa perm where "(gpa, hpa, perm) \<in> set (local_maps s)" "gpage x = gpage gpa"
proof -
  from assms obtain m where "m \<in> set (local_maps s)" "gpage x = gpage (fst m)"
    unfolding local_maps_facts(4) [of s, symmetric] by auto
  with that show ?thesis by (metis prod.collapse)
qed

definition views :: "imee \<Rightarrow> ptmem \<Rightarrow> vm \<Rightarrow> intro_ctx \<Rightarrow> host \<Rightarrow> bool" where
  "views s m target ctx h \<longleftrightarrow> (\<forall>x < 2 ^ 48. ept_view (ctx, h) x = imee_view s m target x)"

text \<open>The parts of the state that the local pages come from are not touched by creating contexts.\<close>

lemma local_maps_update [simp]:
  "local_maps (s\<lparr>hst := h\<rparr>) = local_maps s" "local_maps (s\<lparr>contexts := cs\<rparr>) = local_maps s"
  "local_maps (s\<lparr>current_target := t\<rparr>) = local_maps s"
  by (simp_all add: local_maps_def)

lemma create_context_views:
  assumes "vm_owner target \<noteq> current_pid" "kvm_to_ctx (vm_id target) (contexts s) = None"
    and "vm_ok target (hst s)" and "3 * n_leaves target + 16 \<le> avail_frames (hst s)"
  obtains ctx h' where "create_introspection_context gfpages current_pid target s =
      Some (s\<lparr>hst := h', contexts := ctx # contexts s\<rparr>)"
    and "ctx_in (future_frames (hst s)) ctx h'" and "ctx_kvm ctx = vm_id target" and "visited ctx = 0"
    and "code_ept_pte_p ctx = None" and "ctx_cr3 ctx = ucast PD_GPA"
    and "ctx_task ctx = vm_owner target" and "Some (target_vcpu ctx) = pick_cpu target"
    and "avail_frames (hst s) \<le> avail_frames h' + (3 * n_leaves target + 16)"
    and "\<And>u. u \<notin> future_frames (hst s) \<Longrightarrow> ept_mem h' u = ept_mem (hst s) u"
    and "views s (ept_mem (hst s)) target ctx h'"
proof (rule create_context_view [OF assms, of gfpages])
  fix ctx h'
  assume c: "create_introspection_context gfpages current_pid target s =
      Some (s\<lparr>hst := h', contexts := ctx # contexts s\<rparr>)"
    "ctx_in (future_frames (hst s)) ctx h'" "ctx_kvm ctx = vm_id target" "visited ctx = 0"
    "code_ept_pte_p ctx = None" "ctx_cr3 ctx = ucast PD_GPA"
    "ctx_task ctx = vm_owner target" "Some (target_vcpu ctx) = pick_cpu target"
    "avail_frames (hst s) \<le> avail_frames h' + (3 * n_leaves target + 16)"
    "\<And>u. u \<notin> future_frames (hst s) \<Longrightarrow> ept_mem h' u = ept_mem (hst s) u"
    and l: "\<And>x gpa hpa perm. (gpa, hpa, perm) \<in> set (local_maps s) \<Longrightarrow> gpage x = gpage gpa \<Longrightarrow>
      ept_view (ctx, h') x =
        new_entry (guest_entry (ept_mem (hst s)) (active_mmu_pages target) gpa AND NOT 0x6) hpa perm"
    and o: "\<And>x. x < 2 ^ 48 \<Longrightarrow> gpage x \<notin> local_pages \<Longrightarrow> ept_view (ctx, h') x =
      guest_entry (ept_mem (hst s)) (active_mmu_pages target) x AND NOT 0x6"
  have "views s (ept_mem (hst s)) target ctx h'"
    unfolding views_def
  proof (intro allI impI)
    fix x :: u64
    assume x: "x < 2 ^ 48"
    show "ept_view (ctx, h') x = imee_view s (ept_mem (hst s)) target x"
    proof (cases "gpage x \<in> local_pages")
      case True
      then obtain gpa hpa perm where m: "(gpa, hpa, perm) \<in> set (local_maps s)" "gpage x = gpage gpa"
        by (rule local_pagesE)
      show ?thesis unfolding imee_view_local [OF m] l [OF m] guest_ro_def ..
    next
      case False
      then show ?thesis using o [OF x False] by (simp add: imee_view_other guest_ro_def)
    qed
  qed
  with c show ?thesis by (rule that)
qed

subsection \<open>Contexts beside each other\<close>

text \<open>What a write outside a context's tables leaves of it.\<close>

lemma ctx_ok_frame:
  assumes ok: "ctx_ok c h" and m: "\<And>u. u \<in> tables (ept_mem h) (eptptr c) \<Longrightarrow> ept_mem h' u = ept_mem h u"
    and F: "tables (ept_mem h) (eptptr c) \<inter> future_frames h' = {}"
  shows "ctx_ok c h'" and "tables (ept_mem h') (eptptr c) = tables (ept_mem h) (eptptr c)"
    and "ept_view (c, h') x = ept_view (c, h) x"
proof -
  let ?r = "eptptr c"
  have f: "follow (ept_mem h') ?r q = follow (ept_mem h) ?r q" if "length q \<le> 3" for q
  proof (rule follow_cong)
    fix k t
    assume "k < length q" "follow (ept_mem h) ?r (take k q) = Some t"
    then have "t \<in> tables (ept_mem h) ?r" using that by (auto intro: tables_mem)
    then show "ept_mem h' t (q ! k) = ept_mem h t (q ! k)" by (simp add: m)
  qed
  show t: "tables (ept_mem h') ?r = tables (ept_mem h) ?r"
    unfolding tables_def using f by (metis (lifting))
  have "tree (ept_mem h') ?r"
    using ok f unfolding ctx_ok_def ept_ok_def tree_def by metis
  then show "ctx_ok c h'"
    using ok F t f by (simp add: ctx_ok_def ept_ok_def)
  have "ept_mem h' t = ept_mem h t" if "follow (ept_mem h) ?r (path3 x) = Some t" for t
    using m tables_mem [OF that] by simp
  then show "ept_view (c, h') x = ept_view (c, h) x"
    by (auto simp: ept_view_def xlate_def f split: option.splits)
qed

definition tables_of :: "host \<Rightarrow> intro_ctx \<Rightarrow> u64 set" where
  "tables_of h c = tables (ept_mem h) (eptptr c)"

text \<open>Every VM has at most one context, every context is well formed, and no two share a table.\<close>

definition ctxs_ok :: "imee \<Rightarrow> bool" where
  "ctxs_ok s \<longleftrightarrow>
     distinct (map ctx_kvm (contexts s)) \<and> (\<forall>c \<in> set (contexts s). ctx_ok c (hst s)) \<and>
     pairwise (\<lambda>c d. tables_of (hst s) c \<inter> tables_of (hst s) d = {}) (set (contexts s))"

lemma ctxs_okD:
  assumes "ctxs_ok s" "c \<in> set (contexts s)"
  shows "ctx_ok c (hst s)" "tables_of (hst s) c \<inter> future_frames (hst s) = {}"
  using assms by (auto simp: ctxs_ok_def ctx_ok_def ept_ok_def tables_of_def)

lemma kvm_to_ctx_None: "kvm_to_ctx k cs = None \<longleftrightarrow> k \<notin> ctx_kvm ` set cs"
  by (auto simp: kvm_to_ctx_def find_None_iff)

lemma kvm_to_ctx_Some:
  "distinct (map ctx_kvm cs) \<Longrightarrow> kvm_to_ctx k cs = Some c \<longleftrightarrow> c \<in> set cs \<and> ctx_kvm c = k"
  by (induction cs) (auto simp: kvm_to_ctx_def)

text \<open>One more context, built from frames that were free: the others keep their translations.\<close>

lemma add_context:
  assumes ok: "ctxs_ok s" and new: "ctx_kvm ctx \<notin> ctx_kvm ` set (contexts s)"
    and ctx: "ctx_in (future_frames (hst s)) ctx h'"
    and fr: "\<And>u. u \<notin> future_frames (hst s) \<Longrightarrow> ept_mem h' u = ept_mem (hst s) u"
  shows "ctxs_ok (s\<lparr>hst := h', contexts := ctx # contexts s\<rparr>)"
    and "\<And>c x. c \<in> set (contexts s) \<Longrightarrow> ept_view (c, h') x = ept_view (c, hst s) x"
proof -
  let ?h = "hst s"
  have F: "future_frames h' \<subseteq> future_frames ?h" and cok: "ctx_ok ctx h'"
    and tc: "tables_of h' ctx \<subseteq> future_frames ?h"
    using ctx by (auto simp: ctx_in_def tables_of_def)
  have old: "ctx_ok c h'" "tables_of h' c = tables_of ?h c" "ept_view (c, h') x = ept_view (c, ?h) x"
    if "c \<in> set (contexts s)" for c x
  proof -
    note d = ctxs_okD [OF ok that]
    have m: "ept_mem h' u = ept_mem ?h u" if "u \<in> tables (ept_mem ?h) (eptptr c)" for u
      using that d(2) fr by (auto simp: tables_of_def)
    have disj: "tables (ept_mem ?h) (eptptr c) \<inter> future_frames h' = {}"
      using d(2) F by (auto simp: tables_of_def)
    note fr' = ctx_ok_frame [OF d(1) m disj]
    show "ctx_ok c h'" "tables_of h' c = tables_of ?h c" "ept_view (c, h') x = ept_view (c, ?h) x"
      using fr' by (simp_all add: tables_of_def)
  qed
  show "ept_view (c, h') x = ept_view (c, ?h) x" if "c \<in> set (contexts s)" for c x
    by (rule old(3) [OF that])
  have pw: "tables_of h' c \<inter> tables_of h' ctx = {}" if "c \<in> set (contexts s)" for c
    using old(2) [OF that] ctxs_okD(2) [OF ok that] tc by auto
  have "pairwise (\<lambda>c d. tables_of h' c \<inter> tables_of h' d = {}) (set (ctx # contexts s))"
    using ok pw by (auto simp: ctxs_ok_def pairwise_def old(2))
  then show "ctxs_ok (s\<lparr>hst := h', contexts := ctx # contexts s\<rparr>)"
    using ok new cok old(1) by (auto simp: ctxs_ok_def)
qed

subsection \<open>The contexts of all VMs\<close>

definition introspected :: "int \<Rightarrow> vm list \<Rightarrow> vm list" where
  "introspected current_pid vms = filter (\<lambda>v. vm_owner v \<noteq> current_pid) vms"

definition frames_needed :: "int \<Rightarrow> vm list \<Rightarrow> nat" where
  "frames_needed current_pid vms = (\<Sum>v \<leftarrow> introspected current_pid vms. 3 * n_leaves v + 16)"

lemma vm_ok_mono: "vm_ok v h \<Longrightarrow> future_frames h' \<subseteq> future_frames h \<Longrightarrow> vm_ok v h'"
  by (auto simp: vm_ok_def)

lemma guest_ro_frame:
  assumes "vm_ok v h" "\<And>u. u \<notin> future_frames h \<Longrightarrow> m' u = m u"
  shows "guest_ro m' v x = guest_ro m v x"
proof -
  have "m' (spt p) = m (spt p)"
    if "find (\<lambda>p. is_leaf p \<and> gfn p = Some (drop_bit 12 x AND NOT 0x1FF)) (rev (active_mmu_pages v)) = Some p" for p
    using that assms by (auto simp: find_Some_iff vm_ok_def) (metis nth_mem length_rev set_rev)
  then show ?thesis by (auto simp: guest_ro_def guest_entry_def split: option.splits)
qed

lemma views_frame:
  assumes "vm_ok v h" "\<And>u. u \<notin> future_frames h \<Longrightarrow> m' u = m u" "local_maps s' = local_maps s"
    and "\<And>x. ept_view (c, h') x = ept_view (c, h2) x"
  shows "views s' m' v c h2 = views s m v c h'"
  using guest_ro_frame [OF assms(1), of m' m] assms(2-4)
  by (simp add: views_def imee_view_def split: option.split)

text \<open>The state \<open>s'\<close> after creating contexts from \<open>s\<close> for the VMs \<open>vs\<close>, with \<open>k\<close> frames.\<close>

definition contexts_made :: "vm list \<Rightarrow> nat \<Rightarrow> imee \<Rightarrow> imee \<Rightarrow> bool" where
  "contexts_made vs k s s' \<longleftrightarrow>
     ctxs_ok s' \<and> local_maps s' = local_maps s \<and> future_frames (hst s') \<subseteq> future_frames (hst s) \<and>
     avail_frames (hst s) \<le> avail_frames (hst s') + k \<and>
     (\<forall>u. u \<notin> future_frames (hst s) \<longrightarrow> ept_mem (hst s') u = ept_mem (hst s) u) \<and>
     ctx_kvm ` set (contexts s') = ctx_kvm ` set (contexts s) \<union> vm_id ` set vs \<and>
     (\<forall>c \<in> set (contexts s). c \<in> set (contexts s') \<and>
        (\<forall>x. ept_view (c, hst s') x = ept_view (c, hst s) x)) \<and>
     (\<forall>v \<in> set vs. vm_id v \<notin> ctx_kvm ` set (contexts s) \<longrightarrow>
        (\<exists>c. kvm_to_ctx (vm_id v) (contexts s') = Some c \<and> visited c = 0 \<and> code_ept_pte_p c = None \<and>
           ctx_cr3 c = ucast PD_GPA \<and> views s (ept_mem (hst s)) v c (hst s')))"

lemma contexts_made_refl:
  "ctxs_ok s \<Longrightarrow> vm_id ` set vs \<subseteq> ctx_kvm ` set (contexts s) \<Longrightarrow> contexts_made vs k s s"
  by (auto simp: contexts_made_def)

lemma contexts_made_one:
  assumes "ctxs_ok s" "vm_owner v \<noteq> current_pid" "vm_ok v (hst s)"
    "3 * n_leaves v + 16 \<le> avail_frames (hst s)"
  shows "\<exists>s'. create_introspection_context gfpages current_pid v s = Some s' \<and>
    contexts_made [v] (3 * n_leaves v + 16) s s'"
proof (cases "kvm_to_ctx (vm_id v) (contexts s) = None")
  case False
  then have "contexts_made [v] (3 * n_leaves v + 16) s s"
    by (intro contexts_made_refl assms(1)) (auto simp: kvm_to_ctx_None)
  with False show ?thesis by (auto simp: create_introspection_context_def)
next
  case True
  show ?thesis
  proof (rule create_context_views [OF assms(2) True assms(3,4), of gfpages])
    fix ctx h'
    assume c: "create_introspection_context gfpages current_pid v s =
      Some (s\<lparr>hst := h', contexts := ctx # contexts s\<rparr>)"
      and i: "ctx_in (future_frames (hst s)) ctx h'" "ctx_kvm ctx = vm_id v"
      and f: "visited ctx = 0" "code_ept_pte_p ctx = None" "ctx_cr3 ctx = ucast PD_GPA"
      and a: "avail_frames (hst s) \<le> avail_frames h' + (3 * n_leaves v + 16)"
      and fr: "\<And>u. u \<notin> future_frames (hst s) \<Longrightarrow> ept_mem h' u = ept_mem (hst s) u"
      and vw: "views s (ept_mem (hst s)) v ctx h'"
    let ?s = "s\<lparr>hst := h', contexts := ctx # contexts s\<rparr>"
    have new: "ctx_kvm ctx \<notin> ctx_kvm ` set (contexts s)" using True i(2) by (simp add: kvm_to_ctx_None)
    note add = add_context [OF assms(1) new i(1) fr]
    have fu: "future_frames h' \<subseteq> future_frames (hst s)" using i(1) by (simp add: ctx_in_def)
    have k: "kvm_to_ctx (vm_id v) (ctx # contexts s) = Some ctx" using i(2) by (simp add: kvm_to_ctx_def)
    have "contexts_made [v] (3 * n_leaves v + 16) s ?s"
      unfolding contexts_made_def using add fr a f vw fu k i(2) by auto
    with c show ?thesis by blast
  qed
qed

lemma contexts_made_trans:
  assumes m1: "contexts_made [v] k s s1" and m2: "contexts_made vs k' s1 s2"
    and ok: "\<forall>w \<in> set (v # vs). vm_ok w (hst s)" and d: "vm_id v \<notin> vm_id ` set vs"
  shows "contexts_made (v # vs) (k + k') s s2"
proof -
  note a = m1 [unfolded contexts_made_def] and b = m2 [unfolded contexts_made_def]
  have dist: "distinct (map ctx_kvm (contexts s2))" using b by (simp add: ctxs_ok_def)
  have fr1: "ept_mem (hst s1) u = ept_mem (hst s) u" if "u \<notin> future_frames (hst s)" for u
    using a that by blast
  have fr: "ept_mem (hst s2) u = ept_mem (hst s) u" if "u \<notin> future_frames (hst s)" for u
    using a b that by (metis subsetD)
  have new_v: "\<exists>c. kvm_to_ctx (vm_id v) (contexts s2) = Some c \<and> visited c = 0 \<and> code_ept_pte_p c = None \<and>
      ctx_cr3 c = ucast PD_GPA \<and> views s (ept_mem (hst s)) v c (hst s2)"
    if "vm_id v \<notin> ctx_kvm ` set (contexts s)"
  proof -
    from a that obtain c where c: "kvm_to_ctx (vm_id v) (contexts s1) = Some c" "visited c = 0"
        "code_ept_pte_p c = None" "ctx_cr3 c = ucast PD_GPA" "views s (ept_mem (hst s)) v c (hst s1)"
      by auto
    have c1: "c \<in> set (contexts s1)" "ctx_kvm c = vm_id v"
      using c(1) by (auto simp: kvm_to_ctx_def find_Some_iff)
    then have "kvm_to_ctx (vm_id v) (contexts s2) = Some c"
      using b kvm_to_ctx_Some [OF dist] by blast
    moreover have "views s (ept_mem (hst s)) v c (hst s2)"
      using c(5) b c1 by (simp add: views_def)
    ultimately show ?thesis using c by blast
  qed
  have new_w: "\<exists>c. kvm_to_ctx (vm_id w) (contexts s2) = Some c \<and> visited c = 0 \<and> code_ept_pte_p c = None \<and>
      ctx_cr3 c = ucast PD_GPA \<and> views s (ept_mem (hst s)) w c (hst s2)"
    if w: "w \<in> set vs" "vm_id w \<notin> ctx_kvm ` set (contexts s)" for w
  proof -
    have "vm_id w \<noteq> vm_id v" using w(1) d by (metis imageI)
    then have "vm_id w \<notin> ctx_kvm ` set (contexts s1)" using a w(2) by auto
    with b w(1) obtain c where c: "kvm_to_ctx (vm_id w) (contexts s2) = Some c" "visited c = 0"
        "code_ept_pte_p c = None" "ctx_cr3 c = ucast PD_GPA" "views s1 (ept_mem (hst s1)) w c (hst s2)"
      by blast
    have okw: "vm_ok w (hst s)" using ok w by simp
    have lm: "local_maps s1 = local_maps s" using a by simp
    have "views s (ept_mem (hst s)) w c (hst s2)"
      using c(5) views_frame [OF okw, of "ept_mem (hst s1)" "ept_mem (hst s)", OF fr1 lm refl] by simp
    with c show ?thesis by blast
  qed
  have "\<forall>c \<in> set (contexts s). c \<in> set (contexts s2) \<and> (\<forall>x. ept_view (c, hst s2) x = ept_view (c, hst s) x)"
    using a b by simp
  moreover have "ctx_kvm ` set (contexts s2) = ctx_kvm ` set (contexts s) \<union> vm_id ` set (v # vs)"
    using a b by auto
  moreover have "avail_frames (hst s) \<le> avail_frames (hst s2) + (k + k')" using a b by linarith
  moreover have "local_maps s2 = local_maps s" "ctxs_ok s2" "future_frames (hst s2) \<subseteq> future_frames (hst s)"
    using a b by auto
  ultimately show ?thesis unfolding contexts_made_def using fr new_v new_w by auto
qed

lemma create_contexts_post:
  assumes "ctxs_ok s" "\<forall>v \<in> set (introspected current_pid vms). vm_ok v (hst s)"
    "frames_needed current_pid vms \<le> avail_frames (hst s)" "distinct (map vm_id vms)"
  shows "\<exists>s'. create_contexts gfpages current_pid vms s = Some s' \<and>
    contexts_made (introspected current_pid vms) (frames_needed current_pid vms) s s'"
  using assms
proof (induction vms arbitrary: s)
  case Nil
  then show ?case by (simp add: contexts_made_refl introspected_def)
next
  case (Cons v vms)
  have d: "distinct (map vm_id vms)" using Cons.prems(4) by simp
  show ?case
  proof (cases "vm_owner v = current_pid")
    case True
    then show ?thesis
      using Cons.IH [OF Cons.prems(1) _ _ d] Cons.prems(2,3)
      by (simp add: introspected_def frames_needed_def create_introspection_context_def)
  next
    case False
    have i: "introspected current_pid (v # vms) = v # introspected current_pid vms"
      and fn: "frames_needed current_pid (v # vms) = (3 * n_leaves v + 16) + frames_needed current_pid vms"
      using False by (simp_all add: introspected_def frames_needed_def)
    have ok: "\<forall>w \<in> set (v # introspected current_pid vms). vm_ok w (hst s)" using Cons.prems(2) i by simp
    obtain s1 where s1: "create_introspection_context gfpages current_pid v s = Some s1"
      and m1: "contexts_made [v] (3 * n_leaves v + 16) s s1"
      using contexts_made_one [OF Cons.prems(1) False, of gfpages] ok Cons.prems(3) fn by auto
    note a = m1 [unfolded contexts_made_def]
    have ok1: "\<forall>w \<in> set (introspected current_pid vms). vm_ok w (hst s1)"
      using ok a vm_ok_mono by auto
    have av1: "frames_needed current_pid vms \<le> avail_frames (hst s1)" using a Cons.prems(3) fn by linarith
    have "ctxs_ok s1" using a by blast
    from Cons.IH [OF this ok1 av1 d] obtain s2
      where s2: "create_contexts gfpages current_pid vms s1 = Some s2"
        and m2: "contexts_made (introspected current_pid vms) (frames_needed current_pid vms) s1 s2"
      by blast
    have "vm_id v \<notin> vm_id ` set (introspected current_pid vms)"
      using Cons.prems(4) by (auto simp: introspected_def)
    from contexts_made_trans [OF m1 m2 ok this] s1 s2 show ?thesis by (simp add: i fn)
  qed
qed

subsection \<open>Visiting the contexts\<close>

text \<open>What \<open>n\<close> calls of \<^verbatim>\<open>get_next_ctx\<close> return: 0 and the VM, or -1.\<close>

fun visits :: "nat \<Rightarrow> imee \<Rightarrow> (int \<times> nat option) list" where
  "visits 0 s = []"
| "visits (Suc n) s =
     (case get_next_ctx s of (r, c, s1) \<Rightarrow> (r, map_option ctx_kvm c) # visits n s1)"

definition unvisited :: "intro_ctx list \<Rightarrow> intro_ctx list" where
  "unvisited cs = filter (\<lambda>c. visited c = 0) cs"

lemma next_unvisited_spec:
  "case next_unvisited cs of
     None \<Rightarrow> unvisited cs = []
   | Some (c, cs') \<Rightarrow>
       (\<exists>rest. unvisited cs = c\<lparr>visited := 0\<rparr> # rest \<and> unvisited cs' = rest) \<and> visited c = 1 \<and>
       map (\<lambda>c. c\<lparr>visited := 0\<rparr>) cs' = map (\<lambda>c. c\<lparr>visited := 0\<rparr>) cs"
  by (induction cs) (auto simp: unvisited_def Let_def split: option.splits)

lemma get_next_ctx_spec:
  "unvisited (contexts s) = [] \<Longrightarrow> get_next_ctx s = (-1, None, s)"
  "unvisited (contexts s) = c # rest \<Longrightarrow>
     \<exists>cs. get_next_ctx s = (0, Some (c\<lparr>visited := 1\<rparr>), s\<lparr>contexts := cs, current_target := Some (ctx_kvm c)\<rparr>) \<and>
       unvisited cs = rest \<and> map (\<lambda>c. c\<lparr>visited := 0\<rparr>) cs = map (\<lambda>c. c\<lparr>visited := 0\<rparr>) (contexts s)"
proof -
  assume "unvisited (contexts s) = []"
  then show "get_next_ctx s = (-1, None, s)"
    using next_unvisited_spec [of "contexts s"] by (auto simp: get_next_ctx_def split: option.splits)
next
  assume u: "unvisited (contexts s) = c # rest"
  then obtain c' cs where n: "next_unvisited (contexts s) = Some (c', cs)"
    using next_unvisited_spec [of "contexts s"] by (auto split: option.splits)
  then have p: "c = c'\<lparr>visited := 0\<rparr>" "unvisited cs = rest" "visited c' = 1"
    "map (\<lambda>c. c\<lparr>visited := 0\<rparr>) cs = map (\<lambda>c. c\<lparr>visited := 0\<rparr>) (contexts s)"
    using next_unvisited_spec [of "contexts s"] u by auto
  have c': "c' = c\<lparr>visited := 1\<rparr>" using p(1,3) by simp
  show "\<exists>cs. get_next_ctx s = (0, Some (c\<lparr>visited := 1\<rparr>),
        s\<lparr>contexts := cs, current_target := Some (ctx_kvm c)\<rparr>) \<and>
       unvisited cs = rest \<and> map (\<lambda>c. c\<lparr>visited := 0\<rparr>) cs = map (\<lambda>c. c\<lparr>visited := 0\<rparr>) (contexts s)"
    by (rule exI [of _ cs]) (simp add: get_next_ctx_def n p(2,4) c')
qed

lemma visits_none: "unvisited (contexts s) = [] \<Longrightarrow> visits n s = replicate n (-1, None)"
  by (induction n) (simp_all add: get_next_ctx_spec(1))

lemma visits_all:
  "visits (length (unvisited (contexts s)) + n) s =
     map (\<lambda>c. (0, Some (ctx_kvm c))) (unvisited (contexts s)) @ replicate n (-1, None)"
proof (induction "unvisited (contexts s)" arbitrary: s)
  case Nil
  from visits_none [of s n] Nil show ?case by simp
next
  case (Cons c rest)
  from get_next_ctx_spec(2) [OF Cons(2) [symmetric]] obtain cs
    where g: "get_next_ctx s = (0, Some (c\<lparr>visited := 1\<rparr>), s\<lparr>contexts := cs, current_target := Some (ctx_kvm c)\<rparr>)"
      and u: "unvisited cs = rest" by blast
  let ?s = "s\<lparr>contexts := cs, current_target := Some (ctx_kvm c)\<rparr>"
  have "visits (length rest + n) ?s = map (\<lambda>c. (0, Some (ctx_kvm c))) rest @ replicate n (-1, None)"
    using Cons(1) [of ?s] u by simp
  with g show ?case by (simp flip: Cons(2))
qed

end
