(* ===== verification/Remap.thy ===== *)
theory Remap
  imports Context_Set
begin

text \<open>
  Moving the module's code page under the guest's instruction pointer
  (\<^verbatim>\<open>remap_gpa_code\<close> in \<^verbatim>\<open>kvm/imee.c\<close>): the entry of the page it was under is
  put back, and the entry of the new page is replaced. The abstract state is the guest's entry for every page,
  \<open>orig\<close>, and the one page that currently differs from it.
\<close>

definition pool_of :: "intro_ctx \<Rightarrow> host \<Rightarrow> u64 set" where
  "pool_of ctx h = tables_of h ctx \<union> future_frames h"

lemma ctx_in_pool_of: "ctx_in (pool_of ctx h) ctx h \<longleftrightarrow> ctx_ok ctx h"
  by (auto simp: ctx_in_def pool_of_def tables_of_def)

text \<open>The page that carries the module's code is the one \<open>code_ept_pte_p\<close> points into, and
  \<open>code_ept_pte\<close> is what the guest had there.\<close>

definition remapped :: "(u64 \<Rightarrow> u64) \<Rightarrow> intro_ctx \<Rightarrow> host \<Rightarrow> bool" where
  "remapped orig ctx h \<longleftrightarrow>
     ctx_ok ctx h \<and>
     (case code_ept_pte_p ctx of
        None \<Rightarrow> (\<forall>x < 2 ^ 48. ept_view (ctx, h) x = orig (gpage x))
      | Some (t, i) \<Rightarrow>
          (\<exists>g < 2 ^ 48. follow (ept_mem h) (eptptr ctx) (path3 g) = Some t \<and> i = pt_idx g \<and>
             code_ept_pte ctx = orig (gpage g) \<and>
             (\<forall>x < 2 ^ 48. gpage x \<noteq> gpage g \<longrightarrow> ept_view (ctx, h) x = orig (gpage x))))"

text \<open>The entry the code writes for its page: the memory type and the ignored bits of the guest's
  entry stay, unless the guest's page had no last-level table.\<close>

definition remapped_entry :: "intro_ctx \<Rightarrow> (u64 \<Rightarrow> u64) \<Rightarrow> u64 \<Rightarrow> u64 \<Rightarrow> u64" where
  "remapped_entry ctx orig code_phys gpa =
     (if get_epte ctx gpa = None then new_entry 0 code_phys 0x4
      else (orig (gpage gpa) AND EPT_MASK) OR code_phys OR 0x4)"

lemma set_leaf:
  assumes ok: "ctx_in F ctx h" and f: "follow (ept_mem h) (eptptr ctx) (path3 g) = Some t"
  shows "ctx_in F ctx (set_entry h t (pt_idx g) e)"
    and "ept_view (ctx, set_entry h t (pt_idx g) e) x = (if gpage x = gpage g then e else ept_view (ctx, h) x)"
    and "follow (ept_mem (set_entry h t (pt_idx g) e)) (eptptr ctx) (path3 x) =
      follow (ept_mem h) (eptptr ctx) (path3 x)"
    and "outside F (ctx, set_entry h t (pt_idx g) e) = outside F (ctx, h)"
proof -
  let ?r = "eptptr ctx" and ?h = "set_entry h t (pt_idx g) e"
  have tr: "tree (ept_mem h) ?r" and c: "ctx_ok ctx h"
    using ok by (auto simp: ctx_in_def ctx_ok_def ept_ok_def)
  have tF: "t \<in> F" using ok tables_mem [OF f] by (auto simp: ctx_in_def)
  have fol: "follow (ept_mem ?h) ?r (path3 y) = follow (ept_mem h) ?r (path3 y)" for y
    using leaf_write_follow [OF tr f, of "path3 y"] by simp
  then show "follow (ept_mem ?h) ?r (path3 x) = follow (ept_mem h) ?r (path3 x)" .
  note tb = leaf_write_tables [OF tr f length_path3, of "pt_idx g" e]
  show "ctx_in F ctx ?h"
    using ok fol tb by (simp add: ctx_in_def ctx_ok_def ept_ok_def)
  show "ept_view (ctx, ?h) x = (if gpage x = gpage g then e else ept_view (ctx, h) x)"
    using leaf_write_xlate [OF tr f, of e x] by (simp add: ept_view_def same_page_iff)
  show "outside F (ctx, ?h) = outside F (ctx, h)"
    using tF by (auto simp: outside_def fun_eq_iff)
qed

lemma get_epte_follow:
  "ctx_in F ctx h \<Longrightarrow> x < 2 ^ 48 \<Longrightarrow>
     get_epte ctx x = map_option (\<lambda>t. (t, pt_idx x)) (follow (ept_mem h) (eptptr ctx) (path3 x))"
  by (simp add: ctx_in_def ctx_ok_def)

text \<open>The first step: the guest's entry is put back.\<close>

definition restore :: "intro_ctx \<Rightarrow> host \<Rightarrow> host" where
  "restore ctx h =
     (case code_ept_pte_p ctx of Some (t, i) \<Rightarrow> set_entry h t i (code_ept_pte ctx) | None \<Rightarrow> h)"

lemma restore_post:
  assumes "remapped orig ctx h"
  shows "ctx_in (pool_of ctx h) ctx (restore ctx h)"
    and "\<And>x. x < 2 ^ 48 \<Longrightarrow> ept_view (ctx, restore ctx h) x = orig (gpage x)"
    and "avail_frames (restore ctx h) = avail_frames h"
    and "outside (pool_of ctx h) (ctx, restore ctx h) = outside (pool_of ctx h) (ctx, h)"
proof -
  let ?F = "pool_of ctx h"
  have ok: "ctx_in ?F ctx h" using assms by (simp add: ctx_in_pool_of remapped_def)
  show av: "avail_frames (restore ctx h) = avail_frames h"
    by (auto simp: restore_def split: option.splits)
  have "ctx_in ?F ctx (restore ctx h) \<and> (\<forall>x < 2 ^ 48. ept_view (ctx, restore ctx h) x = orig (gpage x)) \<and>
      outside ?F (ctx, restore ctx h) = outside ?F (ctx, h)"
  proof (cases "code_ept_pte_p ctx")
    case None
    with assms ok show ?thesis by (simp add: restore_def remapped_def)
  next
    case (Some p)
    then obtain t i where p: "code_ept_pte_p ctx = Some (t, i)" by (cases p) auto
    then obtain g where g: "g < 2 ^ 48" "follow (ept_mem h) (eptptr ctx) (path3 g) = Some t"
      "i = pt_idx g" "code_ept_pte ctx = orig (gpage g)"
      "\<And>x. x < 2 ^ 48 \<Longrightarrow> gpage x \<noteq> gpage g \<Longrightarrow> ept_view (ctx, h) x = orig (gpage x)"
      using assms unfolding remapped_def by auto
    have r: "restore ctx h = set_entry h t (pt_idx g) (orig (gpage g))" by (simp add: restore_def p g)
    note s = set_leaf [OF ok g(2), of "orig (gpage g)"]
    have "ept_view (ctx, restore ctx h) x = orig (gpage x)" if x: "x < 2 ^ 48" for x
      using s(2) g(5) [OF x] by (cases "gpage x = gpage g") (simp_all add: r)
    with s show ?thesis by (simp add: r)
  qed
  then show "ctx_in ?F ctx (restore ctx h)" "outside ?F (ctx, restore ctx h) = outside ?F (ctx, h)"
    "\<And>x. x < 2 ^ 48 \<Longrightarrow> ept_view (ctx, restore ctx h) x = orig (gpage x)" by auto
qed

lemma remap_post:
  assumes rm: "remapped orig ctx h" and av: "3 \<le> avail_frames h" and gpa: "gpa < 2 ^ 48"
  obtains ctx' h' where "remap_gpa_code gfpages code_phys gpa ctx h = Some (0, ctx', h')"
    and "remapped orig ctx' h'" and "ctx_kvm ctx' = ctx_kvm ctx" and "visited ctx' = visited ctx"
    and "eptptr ctx' = eptptr ctx" and "ctx_in (pool_of ctx h) ctx' h'"
    and "\<And>u. u \<notin> pool_of ctx h \<Longrightarrow> ept_mem h' u = ept_mem h u"
    and "avail_frames h \<le> avail_frames h' + 3"
    and "\<And>x. x < 2 ^ 48 \<Longrightarrow> ept_view (ctx', h') x =
      (if gpage x = gpage gpa then remapped_entry ctx orig code_phys gpa else orig (gpage x))"
proof -
  let ?F = "pool_of ctx h" and ?h1 = "restore ctx h" and ?r = "eptptr ctx"
  note rs = restore_post [OF rm]
  have fo: "get_epte ctx gpa = map_option (\<lambda>t. (t, pt_idx gpa)) (follow (ept_mem ?h1) ?r (path3 gpa))"
    by (rule get_epte_follow [OF rs(1) gpa])
  have v1: "ept_view (ctx, ?h1) gpa = orig (gpage gpa)" by (rule rs(2) [OF gpa])
  show ?thesis
  proof (cases "follow (ept_mem ?h1) ?r (path3 gpa)")
    case (Some t)
    let ?old = "ept_mem ?h1 t (pt_idx gpa)"
    let ?e = "(?old AND EPT_MASK) OR code_phys OR 0x4"
    let ?c = "ctx\<lparr>code_ept_pte_p := Some (t, pt_idx gpa), code_ept_pte := ?old\<rparr>"
    let ?h = "set_entry ?h1 t (pt_idx gpa) ?e"
    have old: "?old = orig (gpage gpa)" using v1 Some by (simp add: ept_view_def xlate_def)
    have g: "get_epte ctx gpa = Some (t, pt_idx gpa)" using fo Some by simp
    note s = set_leaf [OF rs(1) Some, of ?e]
    have same: "ctx_in F ?c k = ctx_in F ctx k" "ept_view (?c, k) x = ept_view (ctx, k) x" for F k x
      by (simp_all add: ctx_in_def ctx_ok_def get_epte_def ept_view_def)
    have vw: "ept_view (?c, ?h) x =
        (if gpage x = gpage gpa then remapped_entry ctx orig code_phys gpa else orig (gpage x))"
      if "x < 2 ^ 48" for x
      unfolding same(2) s(2) using rs(2) [OF that] by (simp add: old remapped_entry_def g)
    have fl: "follow (ept_mem ?h) ?r (path3 gpa) = Some t" using s(3) Some by simp
    show ?thesis
    proof (rule that [of ?c ?h])
      show "remap_gpa_code gfpages code_phys gpa ctx h = Some (0, ?c, ?h)"
        using g by (simp add: remap_gpa_code_def restore_def Let_def)
      show cin: "ctx_in ?F ?c ?h" using s(1) by (simp only: same)
      show "remapped orig ?c ?h"
        unfolding remapped_def using cin fl vw gpa old by (auto simp: ctx_in_def)
      show "ept_mem ?h u = ept_mem h u" if "u \<notin> ?F" for u
        using outsideD(9) [OF s(4) that] outsideD(9) [OF rs(4) that] by simp
    qed (use vw rs(3) in simp_all)
  next
    case None
    have g: "get_epte ctx gpa = None" using fo None by simp
    have ok1: "ctx_ok ctx ?h1" using rs(1) by (simp add: ctx_in_def)
    have av1: "3 \<le> avail_frames ?h1" using av rs(3) by simp
    show ?thesis
    proof (rule map_epte_ctx_ok [OF ok1 av1 gpa, of gfpages code_phys "0x4"])
      fix t c h'
      assume m: "map_epte gfpages gpa code_phys 4 ctx ?h1 = Some (Some (t, pt_idx gpa), c, h')"
        and c: "ctx_ok c h'" "free_ept c = free_ept ctx" "eptptr c = ?r"
        and a: "avail_frames ?h1 \<le> avail_frames h' + 3"
        and f: "follow (ept_mem h') ?r (path3 gpa) = Some t"
        and x: "\<And>x. xlate (ept_mem h') ?r x =
          (if gpage x = gpage gpa then new_entry (xlate (ept_mem ?h1) ?r gpa) code_phys 4
           else xlate (ept_mem ?h1) ?r x)"
        and fr: "\<And>u. u \<notin> tables (ept_mem ?h1) ?r \<Longrightarrow> u \<notin> future_frames ?h1 \<Longrightarrow> ept_mem h' u = ept_mem ?h1 u"
        and fu: "future_frames h' \<subseteq> future_frames ?h1"
        and tb: "tables (ept_mem h') ?r \<subseteq> tables (ept_mem ?h1) ?r \<union> future_frames ?h1"
      let ?c = "c\<lparr>code_ept_pte_p := Some (t, pt_idx gpa), code_ept_pte := 0\<rparr>"
      have same: "ctx_in F ?c k = ctx_in F c k" "ept_view (?c, k) x = ept_view (c, k) x" for F k x
        by (simp_all add: ctx_in_def ctx_ok_def get_epte_def ept_view_def)
      have o0: "orig (gpage gpa) = 0" using v1 None by (simp add: ept_view_def xlate_def)
      have sub: "tables (ept_mem ?h1) ?r \<union> future_frames ?h1 \<subseteq> ?F" using rs(1) by (auto simp: ctx_in_def)
      have cin: "ctx_in ?F c h'" unfolding ctx_in_def using c(1,3) fu tb sub by auto
      have vw: "ept_view (?c, h') x =
          (if gpage x = gpage gpa then remapped_entry ctx orig code_phys gpa else orig (gpage x))"
        if "x < 2 ^ 48" for x
        using x [of x] rs(2) [OF that] v1 o0 c(3) by (simp add: ept_view_def remapped_entry_def g)
      have keep: "ctx_kvm c = ctx_kvm ctx" "visited c = visited ctx"
        using arg_cong [OF c(2), of ctx_kvm] arg_cong [OF c(2), of visited] by (simp_all add: free_ept_def)
      show ?thesis
      proof (rule that [of ?c h'])
        show "remap_gpa_code gfpages code_phys gpa ctx h = Some (0, ?c, h')"
          using g m by (simp add: remap_gpa_code_def restore_def Let_def)
        show cin': "ctx_in ?F ?c h'" using cin by (simp only: same)
        show "remapped orig ?c h'"
          unfolding remapped_def using cin' f vw gpa o0 c(3) by (auto simp: ctx_in_def)
        show "ept_mem h' u = ept_mem h u" if u: "u \<notin> ?F" for u
          using fr [of u] u sub outsideD(9) [OF rs(4) u] by auto
      qed (use vw keep a c(3) rs(3) in simp_all)
    qed
  qed
qed

end
