(* ===== verification/Vcpu_Setup.thy ===== *)
theory Vcpu_Setup
  imports Events Remap
begin

text \<open>
  Preparing the vCPU that runs the module's code (\<^verbatim>\<open>kvm/imee.c\<close>): its segments and control
  registers (\<^verbatim>\<open>setup_imee_vcpu_sregs\<close>), its general registers, the switch to the EPT of a
  context, and the registers it starts with after the code page was remapped.
\<close>

subsection \<open>Special registers\<close>

record kvm_sregs =
  sr_cs :: kvm_segment
  sr_ds :: kvm_segment
  sr_es :: kvm_segment
  sr_fs :: kvm_segment
  sr_gs :: kvm_segment
  sr_ss :: kvm_segment
  sr_tr :: kvm_segment
  sr_ldt :: kvm_segment
  sr_idt :: desc_ptr
  sr_gdt :: desc_ptr
  sr_cr0 :: u64
  sr_cr2 :: u64
  sr_cr3 :: u64
  sr_cr4 :: u64
  sr_cr8 :: u64
  sr_efer :: u64
  sr_apic_base :: u64
  sr_interrupts :: "nat set"

definition get_sregs :: "xenv \<Rightarrow> vcpu \<Rightarrow> kvm_sregs \<times> vcpu" where
  "get_sregs X v =
     (let E = ops X;
          (cs, v1) = vmx_get_segment CS v;
          (ds, v2) = vmx_get_segment DS v1;
          (es, v3) = vmx_get_segment ES v2;
          (fs, v4) = vmx_get_segment FS v3;
          (gs, v5) = vmx_get_segment GS v4;
          (ss, v6) = vmx_get_segment SS v5;
          (tr, v7) = vmx_get_segment TR v6;
          (ldt, v8) = vmx_get_segment LDTR v7;
          idt = vmx_get_idt v8;
          gdt = vmx_get_gdt v8;
          (cr0, v9) = kvm_read_cr0_bits E (NOT 0) v8;
          (cr3, v10) = kvm_read_cr3 E v9;
          (cr4, v11) = kvm_read_cr4 E v10
      in (\<lparr>sr_cs = cs, sr_ds = ds, sr_es = es, sr_fs = fs, sr_gs = gs, sr_ss = ss, sr_tr = tr, sr_ldt = ldt,
           sr_idt = idt, sr_gdt = gdt, sr_cr0 = cr0, sr_cr2 = arch_cr2 v11, sr_cr3 = cr3, sr_cr4 = cr4,
           sr_cr8 = kvm_get_cr8 X v11, sr_efer = arch_efer v11, sr_apic_base = arch_apic_base v11,
           sr_interrupts = (if interrupt_pending v11 \<and> \<not> interrupt_soft v11 then {interrupt_nr v11} else {})\<rparr>,
          v11))"

definition set_code_seg :: "kvm_segment \<Rightarrow> kvm_segment" where
  "set_code_seg s =
     s\<lparr>selector := 0x60, base := 0, limit := 0xFFFFFFFF, seg_type := 0xB, seg_s := 1, dpl := 0,
       present := 1, avl := 0, seg_l := 0, db := 1, seg_g := 1\<rparr>"

definition set_data_seg :: "u16 \<Rightarrow> u8 \<Rightarrow> kvm_segment \<Rightarrow> kvm_segment" where
  "set_data_seg sel d s =
     s\<lparr>selector := sel, base := 0, limit := 0xFFFFFFFF, seg_type := 0x3, seg_s := 1, dpl := d,
       present := 1, avl := 0, seg_l := 0, db := 1, seg_g := 1\<rparr>"

text \<open>
  The registers of the guest's vCPU are read while the VMCS of the vCPU that is set up is the loaded
  one: \<^verbatim>\<open>KVM_IMEE_RUN\<close> loads it, and the readers of \<^verbatim>\<open>vmx.c\<close> read the loaded VMCS.
  What they read goes to the guest's caches. The result is the guest's vCPU and the one set up. The
  unusable bit of a segment is kept as it was read.
\<close>

definition setup_imee_vcpu_sregs :: "xenv \<Rightarrow> vcpu \<Rightarrow> vcpu \<Rightarrow> vcpu \<times> vcpu" where
  "setup_imee_vcpu_sregs X guest v =
     (let E = ops X;
          (sregs, g1) = get_sregs X (guest\<lparr>vmcs := vmcs v\<rparr>);
          cs = set_code_seg (sr_cs sregs);
          ds = set_data_seg 0x7B 3 (sr_ds sregs);
          ss = set_data_seg 0x68 0 (sr_ss sregs);
          gs = set_data_seg 0x68 0 (sr_gs sregs);
          v1 = vmx_set_segment E cs CS v;
          v2 = vmx_set_segment E ds DS v1;
          v3 = vmx_set_segment E ss SS v2;
          v4 = vmx_set_segment E ds ES v3;
          v5 = vmx_set_segment E (sr_fs sregs) FS v4;
          v6 = vmx_set_segment E gs GS v5;
          v7 = vmx_set_segment E (sr_ldt sregs) LDTR v6;
          v8 = vmx_set_rflags 0x2 v7;
          v9 = vmx_set_efer E (sr_efer sregs) v8;
          v10 = vmx_set_cr0 E ((sr_cr0 sregs OR 0x2) AND NOT (0x4 OR 0x8)) v9;
          v11 = snd (vmx_set_cr4 E (sr_cr4 sregs OR 0x80 OR 0x600) v10)
      in (g1\<lparr>vmcs := vmcs guest\<rparr>, v11))"

definition init_imee_vcpu :: "xenv \<Rightarrow> vcpu \<Rightarrow> vcpu \<Rightarrow> int \<times> vcpu \<times> vcpu" where
  "init_imee_vcpu X guest v = (0, setup_imee_vcpu_sregs X guest v)"

subsection \<open>General registers\<close>

definition reset_general_regs :: "vcpu \<Rightarrow> vcpu" where
  "reset_general_regs v =
     v\<lparr>regs := (regs v)(RAX := 0, RBX := 0, RCX := 0, RDX := 0, RSP := 0, RBP := 0, RSI := 0, RDI := 0),
       regs_dirty := UNIV, regs_avail := UNIV\<rparr>"

definition adjust_imee_vcpu :: "u64 \<Rightarrow> u64 \<Rightarrow> vcpu \<Rightarrow> vcpu" where
  "adjust_imee_vcpu rip data v =
     v\<lparr>regs := (regs v)(RIP := rip, RCX := 0xDEADBEEF, RSP := data + 0xFF0),
       regs_dirty := insert (Gpr RIP) (regs_dirty v)\<rparr>"

text \<open>The start address: the page the guest runs in, with the offset of the module's entry point. The
  mask is an unsigned int, so the high half of the address is cleared.\<close>

definition imee_start_rip :: "u32 \<Rightarrow> arg_blk \<Rightarrow> u64" where
  "imee_start_rip last_rip arg = ucast (last_rip AND NOT 0xFFF) OR (arg_entry arg AND 0xFFF)"

definition remap_gpa ::
    "(nat \<Rightarrow> u64) \<Rightarrow> imee \<Rightarrow> u32 \<Rightarrow> u64 \<Rightarrow> intro_ctx \<Rightarrow> host \<Rightarrow> vcpu \<Rightarrow> (int \<times> intro_ctx \<times> host \<times> vcpu) option" where
  "remap_gpa gfpages s last_rip gpa ctx h v =
     do {
       (r, ctx1, h1) \<leftarrow> remap_gpa_code gfpages (code_hpa s) gpa ctx h;
       (if r \<noteq> 0 then Some (-1, ctx1, h1, v)
        else Some (0, ctx1, h1, adjust_imee_vcpu (imee_start_rip last_rip (imee_arg s)) 0 v))
     }"

definition switch_intro_ctx :: "env \<Rightarrow> intro_ctx \<Rightarrow> vcpu \<Rightarrow> vcpu" where
  "switch_intro_ctx E next v = vmx_write_eptp E (v\<lparr>root_hpa := eptptr next\<rparr>)"

end
