(* ===== verification/Scan_Protocol.thy ===== *)
theory Scan_Protocol
  imports Vcpu_Setup
begin

text \<open>
  The protocol between the core that runs the module's code and the cores that run guests
  (\<^verbatim>\<open>kvm/imee.c\<close>, \<^verbatim>\<open>kvm/vmx.c\<close>, \<^verbatim>\<open>kvm/kvm_main.c\<close>): setting up, starting a
  scan with the interrupt that samples the guest and the wait for it, the exits of the module's vCPU,
  moving on to the next VM, and stopping. One function is one handler as the code runs it; the
  interleaving of the cores is the step relation at the end.
\<close>

subsection \<open>State\<close>

text \<open>The globals of \<^verbatim>\<open>imee.c\<close> that synchronise the cores, the vCPUs by number, the VMCS loaded
  on each processor (the number of its vCPU) and the interrupts sent. \<open>exc_temp\<close> is the counter
  \<^verbatim>\<open>temp\<close> of \<^verbatim>\<open>vmx.c\<close>. \<^verbatim>\<open>ts_buffer1\<close> is never assigned, so the code under it
  does not run.\<close>

record world =
  im :: imee
  imee_scan_mode :: int
  exit_flg :: int
  go_flg :: u8
  imee_pid :: int
  imee_vcpu :: "nat option"
  last_cr3 :: u32
  last_rip :: u32
  last_rsp :: u32
  switched_cr3 :: u32
  do_switch :: int
  trial_run :: int
  imee_up :: int
  imee_idt :: desc_ptr
  imee_gdt :: desc_ptr
  imee_tr :: kvm_segment
  tmp_counter :: nat
  tmp_counter1 :: nat
  tmp_counter3 :: nat
  exc_temp :: int
  idt_vectors :: "nat set"
  vcpus :: "nat \<Rightarrow> vcpu"
  vcpu_cpu :: "nat \<Rightarrow> nat"
  loaded_on :: "nat \<Rightarrow> nat"
  ipis :: "(nat \<times> nat) list"

text \<open>What the module takes from the kernel: page frames, zeroed pages, the page tables of the calling
  process, and the interface of the architectural layer.\<close>

record kenv =
  gfpages :: "nat \<Rightarrow> u64"
  zpages :: "nat \<Rightarrow> u64"
  cur_mm :: kernel_mm
  xe :: xenv

abbreviation kops :: "kenv \<Rightarrow> env" where "kops K \<equiv> ops (xe K)"

definition upd_vcpu :: "nat \<Rightarrow> (vcpu \<Rightarrow> vcpu) \<Rightarrow> world \<Rightarrow> world" where
  "upd_vcpu n f w = w\<lparr>vcpus := (vcpus w)(n := f (vcpus w n))\<rparr>"

definition send_IPI :: "nat \<Rightarrow> nat \<Rightarrow> world \<Rightarrow> world" where
  "send_IPI cpu vector w = w\<lparr>ipis := ipis w @ [(cpu, vector)]\<rparr>"

text \<open>Dereferencing \<^verbatim>\<open>current_target\<close>: \<open>None\<close> for NULL.\<close>

definition target_ctx :: "world \<Rightarrow> intro_ctx option" where
  "target_ctx w = (case current_target (im w) of None \<Rightarrow> None | Some k \<Rightarrow> kvm_to_ctx k (contexts (im w)))"

subsection \<open>Interrupt handlers\<close>

definition imee_trace_cr3 :: "world \<Rightarrow> world" where
  "imee_trace_cr3 w = w\<lparr>tmp_counter1 := tmp_counter1 w + 1\<rparr>"

text \<open>\<^verbatim>\<open>read_cr3\<close> reads the VMCS of the target, loading it if another one is loaded; the result
  stays as it was (0) when there is no target.\<close>

definition vmx_read_cr3 :: "world \<Rightarrow> u32" where
  "vmx_read_cr3 w =
     (case target_ctx w of None \<Rightarrow> 0 | Some c \<Rightarrow> vmcs_read32 GUEST_CR3 (vcpus w (target_vcpu c)))"

text \<open>\<^verbatim>\<open>read_rsp_rip\<close>, \<^verbatim>\<open>get_seg_sec\<close>, \<^verbatim>\<open>get_idt\<close> and \<^verbatim>\<open>get_gdt\<close> read the
  VMCS loaded on the processor, whichever vCPU it belongs to.\<close>

definition vmx_read_rsp_rip :: "nat \<Rightarrow> world \<Rightarrow> u32 \<times> u32" where
  "vmx_read_rsp_rip cpu w =
     (let v = vcpus w (loaded_on w cpu) in (vmcs_read32 GUEST_RSP v, vmcs_read32 GUEST_RIP v))"

definition imee_write_eoi :: "nat \<Rightarrow> world \<Rightarrow> world option" where
  "imee_write_eoi cpu w =
     (let this_cr3 = vmx_read_cr3 w;
          (rsp, rip) = vmx_read_rsp_rip cpu w;
          w1 = w\<lparr>last_rsp := rsp, last_rip := rip\<rparr>;
          v = vcpus w1 (loaded_on w1 cpu)
      in if last_cr3 w1 = 0 \<and> target_ctx w1 = None then None
         else
           (let w2 = (if last_cr3 w1 = 0
                      then w1\<lparr>imee_tr := vmx_get_seg_sec TR v (imee_tr w1),
                              imee_idt := vmx_get_idt v, imee_gdt := vmx_get_gdt v\<rparr>
                      else w1)
            in Some (if last_cr3 w2 \<noteq> this_cr3
                     then w2\<lparr>last_cr3 := this_cr3, exit_flg := exit_flg w2 + 1\<rparr> else w2)))"

subsection \<open>Setting up\<close>

definition init_global_vars :: "int \<Rightarrow> nat \<Rightarrow> world \<Rightarrow> world" where
  "init_global_vars pid n w =
     w\<lparr>tmp_counter := 0, tmp_counter1 := 0, tmp_counter3 := 0, imee_pid := pid, imee_vcpu := Some n,
       exit_flg := 0\<rparr>"

definition install_int_handlers :: "world \<Rightarrow> world" where
  "install_int_handlers w = w\<lparr>idt_vectors := insert 0x56 (insert 0x55 (idt_vectors w))\<rparr>"

definition remove_int_handlers :: "world \<Rightarrow> world" where
  "remove_int_handlers w = w"

text \<open>The return value of \<^verbatim>\<open>init_local_page_tables\<close> is not used.\<close>

definition kvm_imee_get_guest_context ::
    "kenv \<Rightarrow> int \<Rightarrow> arg_blk \<Rightarrow> vm list \<Rightarrow> nat \<Rightarrow> world \<Rightarrow> (int \<times> world) option" where
  "kvm_imee_get_guest_context K pid argp vm_list n w =
     (let w1 = install_int_handlers (init_global_vars pid n w);
          s1 = (im w1)\<lparr>hst := init_ept_frames (gfpages K) (hst (im w1)), imee_arg := argp\<rparr>
      in do {
           (_, s2) \<leftarrow> init_local_page_tables (zpages K) (cur_mm K) s1;
           s3 \<leftarrow> create_contexts (gfpages K) pid vm_list s2;
           Some (0, w1\<lparr>im := s3\<rparr>)
         })"

subsection \<open>Starting a scan\<close>

text \<open>The part before the wait: \<open>Inl\<close> is the early return.\<close>

definition reset_go_flg :: "world \<Rightarrow> world" where
  "reset_go_flg w =
     (if go_flg w = 2 then w
      else if go_flg w = 1 then w\<lparr>go_flg := 0\<rparr>
      else if go_flg w = 3 then w\<lparr>go_flg := 2\<rparr> else w)"

definition start_prepare :: "kenv \<Rightarrow> nat \<Rightarrow> world \<Rightarrow> (int \<times> world) + world" where
  "start_prepare K n w =
     (let w1 = reset_go_flg (w\<lparr>last_cr3 := 0\<rparr>)
      in case get_next_ctx (im w1) of
           (r, next, s) \<Rightarrow>
             (case next of
                None \<Rightarrow> Inl (r, w1\<lparr>im := s\<rparr>)
              | Some c \<Rightarrow>
                  (let w2 = upd_vcpu n (switch_intro_ctx (kops K) c) (w1\<lparr>im := s\<rparr>);
                       (_, g, v) = init_imee_vcpu (xe K) (vcpus w2 (target_vcpu c)) (vcpus w2 n);
                       w3 = w2\<lparr>vcpus := (vcpus w2)(target_vcpu c := g, n := v)\<rparr>;
                       w4 = (upd_vcpu n reset_general_regs w3)\<lparr>exit_flg := 1\<rparr>
                   in Inr (send_IPI (vcpu_cpu w4 (target_vcpu c)) 0x56 w4))))"

text \<open>The wait: \<open>others j\<close> is what the other processors do before the flag is tested with the counter
  at \<open>j\<close>.\<close>

definition WAIT_LIMIT :: nat where "WAIT_LIMIT = 10000000"

function wait_exit :: "(nat \<Rightarrow> world \<Rightarrow> world option) \<Rightarrow> nat \<Rightarrow> world \<Rightarrow> (int \<times> world) option" where
  "wait_exit others j w =
     (case others j w of
        None \<Rightarrow> None
      | Some w1 \<Rightarrow>
          if exit_flg w1 = 1
          then (if Suc j > WAIT_LIMIT then Some (-1, w1) else wait_exit others (Suc j) w1)
          else Some (0, w1))"
  by pat_completeness auto
termination
  by (relation "measure (\<lambda>(_, j, _). Suc WAIT_LIMIT - j)") auto

declare wait_exit.simps [simp del]

definition start_finish :: "kenv \<Rightarrow> nat \<Rightarrow> world \<Rightarrow> world" where
  "start_finish K n w =
     (let w1 = w\<lparr>trial_run := 1\<rparr>
      in (upd_vcpu n (\<lambda>v. vmx_set_gdt (imee_gdt w1) (vmx_set_idt (imee_idt w1)
            (vmx_set_segment (kops K) (imee_tr w1) TR v))) w1)\<lparr>imee_up := 1\<rparr>)"

definition start_guest_intercept ::
    "kenv \<Rightarrow> (nat \<Rightarrow> world \<Rightarrow> world option) \<Rightarrow> nat \<Rightarrow> world \<Rightarrow> (int \<times> world) option" where
  "start_guest_intercept K others n w =
     (case start_prepare K n w of
        Inl (r, w1) \<Rightarrow> Some (r, w1)
      | Inr w1 \<Rightarrow>
          (case wait_exit others 0 w1 of
             None \<Rightarrow> None
           | Some (r, w2) \<Rightarrow> if r = -1 then Some (-1, w2) else Some (0, start_finish K n w2)))"

subsection \<open>Exits of the module's vCPU\<close>

text \<open>The handlers' parts for the process of the module (\<open>pid = imee_pid\<close>).\<close>

definition handle_vmcall_imee ::
    "kenv \<Rightarrow> (nat \<Rightarrow> world \<Rightarrow> world option) \<Rightarrow> nat \<Rightarrow> world \<Rightarrow> (int \<times> world) option" where
  "handle_vmcall_imee K others n w =
     (let finish = (\<lambda>x. Some (0, (if go_flg x = 2 then x\<lparr>go_flg := 3\<rparr>
                                  else if go_flg x = 1 then x\<lparr>go_flg := 0\<rparr> else x)\<lparr>last_cr3 := 0\<rparr>))
      in if imee_scan_mode w = SCAN_ALL then
           (case start_guest_intercept K others n w of
              None \<Rightarrow> None
            | Some (r, w1) \<Rightarrow> if r = 0 then Some (1, w1) else finish w1)
         else finish w)"

definition replace_ctx :: "intro_ctx \<Rightarrow> intro_ctx list \<Rightarrow> intro_ctx list" where
  "replace_ctx c cs = map (\<lambda>d. if ctx_kvm d = ctx_kvm c then c else d) cs"

definition handle_ept_violation_imee :: "kenv \<Rightarrow> nat \<Rightarrow> world \<Rightarrow> (int \<times> world) option" where
  "handle_ept_violation_imee K n w =
     (if trial_run w \<noteq> 0 then
        (let w1 = w\<lparr>trial_run := 0\<rparr>; gpa = vmcs_read64 GUEST_PHYSICAL_ADDRESS (vcpus w1 n)
         in case target_ctx w1 of
              None \<Rightarrow> None
            | Some ctx \<Rightarrow>
                (case remap_gpa (gfpages K) (im w1) (last_rip w1) gpa ctx (hst (im w1)) (vcpus w1 n) of
                   None \<Rightarrow> None
                 | Some (_, c1, h1, v1) \<Rightarrow>
                     (let s1 = (im w1)\<lparr>hst := h1, contexts := replace_ctx c1 (contexts (im w1))\<rparr>;
                          w2 = w1\<lparr>im := s1, vcpus := (vcpus w1)(n := vmx_flush_tlb (kops K) v1)\<rparr>
                      in if do_switch w2 \<noteq> 0 then Some (1, w2\<lparr>do_switch := 0\<rparr>)
                         else Some (1, upd_vcpu n (\<lambda>v.
                                (vmcs_writel GUEST_CR3 PD_GPA (v\<lparr>arch_cr3 := PD_GPA\<rparr>))
                                  \<lparr>regs := (regs v)(RBX := ucast (last_cr3 w2))\<rparr>) w2))))
      else
        (case target_ctx w of None \<Rightarrow> None | Some ctx \<Rightarrow> Some (-1, w)))"

definition handle_exception_imee :: "nat \<Rightarrow> world \<Rightarrow> int \<times> world" where
  "handle_exception_imee n w =
     (if exit_intr_info (vcpus w n) AND 0xFF = 0xE then (0, w)
      else if exc_temp w < 20 then (1, w\<lparr>exc_temp := exc_temp w + 1\<rparr>)
      else (0, w))"

subsection \<open>Entering and leaving a guest\<close>

definition sync_regs :: "vcpu \<Rightarrow> vcpu" where
  "sync_regs v =
     (let v1 = (if Gpr RSP \<in> regs_dirty v then vmcs_writel GUEST_RSP (regs v RSP) v else v)
      in if Gpr RIP \<in> regs_dirty v1 then vmcs_writel GUEST_RIP (regs v1 RIP) v1 else v1)"

definition do_switch_cr3 :: "nat \<Rightarrow> world \<Rightarrow> world" where
  "do_switch_cr3 n w =
     (let w1 = w\<lparr>last_cr3 := switched_cr3 w\<rparr>;
          w2 = (if vmcs_readl GUEST_CR3 (vcpus w1 n) \<noteq> 0xF0000000
                then upd_vcpu n (\<lambda>v. vmcs_write32 GUEST_CR3 (switched_cr3 w1)
                       (v\<lparr>arch_cr3 := ucast (switched_cr3 w1)\<rparr>)) w1
                else upd_vcpu n (\<lambda>v. v\<lparr>regs := (regs v)(RBX := ucast (switched_cr3 w1))\<rparr>) w1);
          rip = vmcs_readl GUEST_RIP (vcpus w2 n)
      in (upd_vcpu n (vmcs_writel GUEST_RIP (ucast (last_rip w2 AND NOT 0xFFF) OR (rip AND 0xFFF))) w2)
           \<lparr>trial_run := 1\<rparr>)"

definition vcpu_run_imee_entry :: "nat \<Rightarrow> world \<Rightarrow> world" where
  "vcpu_run_imee_entry n w =
     (let w1 = upd_vcpu n (\<lambda>v.
            (let v1 = vmcs_write32 EXCEPTION_BITMAP 0xFFFFFFFF v;
                 v2 = vmcs_write32 PAGE_FAULT_ERROR_CODE_MATCH 0 (vmcs_write32 PAGE_FAULT_ERROR_CODE_MASK 0 v1);
                 v3 = vmcs_write32 CPU_BASED_VM_EXEC_CONTROL
                        (vmcs_read32 CPU_BASED_VM_EXEC_CONTROL v2 AND NOT CPU_BASED_USE_TSC_OFFSETING) v2;
                 v4 = vmcs_write64 TSC_OFFSET 0 v3
             in vmcs_writel GUEST_CR0 (vmcs_readl GUEST_CR0 v4 AND NOT 0x8) v4)) w
      in if do_switch w1 = 1 then do_switch_cr3 n w1 else w1)"

text \<open>The same place for another process, \<open>task\<close> the leader of its group: arming and disarming the
  exit on writes of \<^verbatim>\<open>CR3\<close>. The result is the value \<open>go\<close> the code after the exit uses.\<close>

definition vcpu_run_guest_entry :: "int \<Rightarrow> nat \<Rightarrow> world \<Rightarrow> (u8 \<times> world) option" where
  "vcpu_run_guest_entry task n w =
     (case current_target (im w) of
        None \<Rightarrow> Some w
      | Some k \<Rightarrow>
          (case kvm_to_ctx k (contexts (im w)) of
             None \<Rightarrow> None
           | Some c \<Rightarrow>
               Some (if task = ctx_task c \<and> go_flg w = 1
                     then (upd_vcpu n (\<lambda>v. vmcs_write32 CPU_BASED_VM_EXEC_CONTROL
                             (vmcs_read32 CPU_BASED_VM_EXEC_CONTROL v OR CPU_BASED_CR3_LOAD_EXITING) v) w)
                            \<lparr>go_flg := 2\<rparr>
                     else w)))
     \<bind> (\<lambda>w1. Some (go_flg w1,
           if go_flg w1 = 3
           then (upd_vcpu n (\<lambda>v. vmcs_write32 CPU_BASED_VM_EXEC_CONTROL
                   (vmcs_read32 CPU_BASED_VM_EXEC_CONTROL v AND NOT CPU_BASED_CR3_LOAD_EXITING) v) w1)
                  \<lparr>go_flg := 0\<rparr>
           else w1))"

text \<open>After an exit with \<open>go = 2\<close>: a write of \<^verbatim>\<open>CR3\<close> by the target is emulated, and its value is
  announced to the module's processor. The result tells whether the guest is resumed at once.
  \<open>task_cpu\<close> gives the processor of the module's task.\<close>

definition guest_cr3_exit :: "kenv \<Rightarrow> nat \<Rightarrow> int \<Rightarrow> u8 \<Rightarrow> nat \<Rightarrow> nat \<Rightarrow> (u64 \<Rightarrow> u64) \<Rightarrow> world \<Rightarrow> (bool \<times> world) option" where
  "guest_cr3_exit K cpu task go n imee_cpu reg_read w =
     (let v = vcpus w n; q = vmcs_readl EXIT_QUALIFICATION v
      in case current_target (im w) of
           None \<Rightarrow> Some (False, w)
         | Some k \<Rightarrow>
             (case kvm_to_ctx k (contexts (im w)) of
                None \<Rightarrow> None
              | Some c \<Rightarrow>
                  Some
                    (if task = ctx_task c \<and> go = 2 \<and> vmcs_read32 VM_EXIT_REASON v = 28 \<and>
                        drop_bit 4 q AND 3 = 0 \<and> q AND 15 = 3
                     then
                       (let val = (ucast (reg_read (drop_bit 8 q AND 15)) :: u32)
                        in if go_flg w = 2 \<and> trial_run w = 0 then
                             (let w1 = w\<lparr>tmp_counter := tmp_counter w + 1\<rparr>;
                                  w2 = (if switched_cr3 w1 \<noteq> val then
                                          (let (rsp, rip) = vmx_read_rsp_rip cpu w1;
                                               x = w1\<lparr>last_rsp := rsp, last_rip := rip, switched_cr3 := val\<rparr>
                                           in if imee_vcpu x \<noteq> None
                                              then (send_IPI imee_cpu 0x55 x)\<lparr>tmp_counter3 := tmp_counter3 x + 1\<rparr>
                                              else x)
                                        else w1);
                                  w3 = upd_vcpu n (\<lambda>u.
                                         (let u1 = vmcs_writel GUEST_CR3 (scast val) (u\<lparr>arch_cr3 := scast val\<rparr>);
                                              rip = vmcs_readl GUEST_RIP u1 + ucast (vmcs_read32 VM_EXIT_INSTRUCTION_LEN u1)
                                          in vmx_flush_tlb (kops K) (vmcs_writel GUEST_RIP rip u1))) w2
                              in (True, w3))
                           else (True, w))
                     else (False, w))))"

subsection \<open>Stopping\<close>

definition kvm_imee_stop :: "nat \<Rightarrow> world \<Rightarrow> (int \<times> world) option" where
  "kvm_imee_stop n w =
     (let s1 = free_contexts ((im w)\<lparr>current_target := None\<rparr>)
      in case release_ept_frames (hst s1) of
           None \<Rightarrow> None
         | Some h \<Rightarrow>
             (let w1 = remove_int_handlers (w\<lparr>im := s1\<lparr>hst := h\<rparr>, exit_flg := 0\<rparr>);
                  w2 = (if go_flg w1 = 2 then w1\<lparr>go_flg := 3\<rparr> else w1);
                  w3 = upd_vcpu n (\<lambda>v. v\<lparr>root_hpa := INVALID_PAGE\<rparr>) (w2\<lparr>imee_pid := 0, imee_vcpu := None\<rparr>)
              in Some (0, w3\<lparr>im := (im w3)\<lparr>code_hpa := 0, data_hpa := 0\<rparr>, last_cr3 := 0, imee_up := 0\<rparr>)))"

definition kvm_vcpu_release :: "int \<Rightarrow> nat \<Rightarrow> world \<Rightarrow> world option" where
  "kvm_vcpu_release pid n w =
     (if pid = imee_pid w \<or> pid - imee_pid w < 5 then map_option snd (kvm_imee_stop n w) else Some w)"

datatype imee_ioctl = KVM_IMEE_STOP | KVM_IMEE_SETUP arg_blk | KVM_IMEE_RUN

text \<open>The three requests; \<open>run\<close> is \<^verbatim>\<open>kvm_arch_vcpu_ioctl_run\<close>.\<close>

definition kvm_vcpu_ioctl ::
    "kenv \<Rightarrow> (nat \<Rightarrow> world \<Rightarrow> world option) \<Rightarrow> (nat \<Rightarrow> world \<Rightarrow> (int \<times> world) option) \<Rightarrow> int \<Rightarrow> vm list \<Rightarrow>
     nat \<Rightarrow> imee_ioctl \<Rightarrow> world \<Rightarrow> (int \<times> world) option" where
  "kvm_vcpu_ioctl K others run pid vm_list n req w =
     (case req of
        KVM_IMEE_STOP \<Rightarrow> kvm_imee_stop n w
      | KVM_IMEE_SETUP argp \<Rightarrow> kvm_imee_get_guest_context K pid argp vm_list n w
      | KVM_IMEE_RUN \<Rightarrow>
          (case start_guest_intercept K others n w of
             None \<Rightarrow> None
           | Some (r, w1) \<Rightarrow> if r < 0 then Some (r, w1) else run n w1))"

end
