(* ===== verification/Guest_View.thy ===== *)
theory Guest_View
  imports Remap
begin

text \<open>
  The address space the module's code runs in: the processor's walk of the 32-bit page tables that
  \<^verbatim>\<open>init_local_page_tables\<close> fills, through the EPT that
  \<^verbatim>\<open>create_introspection_context\<close> builds. This is the specification side: it composes the
  models of the operations with the processor's translation.
\<close>

subsection \<open>Translation through the EPT\<close>

text \<open>A read of a 32-bit entry in a guest physical page: the EPT entry must allow reading.\<close>

definition ept_read32 ::
    "(u64 \<Rightarrow> u64) \<Rightarrow> (u64 \<Rightarrow> idx10 \<Rightarrow> u32) \<Rightarrow> u32 \<Rightarrow> idx10 \<Rightarrow> u32 option" where
  "ept_read32 view m32 p i =
     (let e = view (ucast p) in if e AND 1 = 0 then None else Some (m32 (e AND NOT EPT_MASK) i))"

text \<open>The host physical page of a virtual address and the rights of the EPT entry: bit 0 read, bit 1
  write, bit 2 execute.\<close>

definition translate ::
    "(u64 \<Rightarrow> u64) \<Rightarrow> (u64 \<Rightarrow> idx10 \<Rightarrow> u32) \<Rightarrow> u32 \<Rightarrow> u32 \<Rightarrow> (u64 \<times> u64) option" where
  "translate view m32 cr3 va =
     do { p \<leftarrow> walk32 (ept_read32 view m32) cr3 va;
          (let e = view (ucast p) in Some (e AND NOT EPT_MASK, e AND 7)) }"

lemma new_entry_addr: "new_entry old hpa perm AND NOT EPT_MASK = hpa AND NOT EPT_MASK"
proof -
  have b: "bit (0x270 :: int) n \<Longrightarrow> n < 12" for n
  proof -
    assume "bit (0x270 :: int) n"
    moreover have "(0x270 :: int) = take_bit 12 0x270" by simp
    ultimately have "bit (take_bit 12 0x270 :: int) n" by metis
    then show "n < 12" by (simp only: bit_take_bit_iff)
  qed
  show ?thesis
    by (rule bit_word_eqI) (auto simp: new_entry_def bit_simps dest: b)
qed

lemma new_entry_rights: "perm < 8 \<Longrightarrow> new_entry old hpa perm AND 7 = perm"
proof -
  assume "perm < 8"
  then have p: "take_bit 3 perm = perm" by (simp add: take_bit_eq_mod mod_word_less)
  have m: "(hpa AND NOT EPT_MASK) AND 7 = 0"
    by (rule bit_word_eqI) (auto simp: bit_simps)
  have f: "(perm AND 0xFFF) AND 7 = perm"
  proof (rule bit_word_eqI)
    fix n
    have "bit perm n \<Longrightarrow> n < 3" using p by (metis bit_take_bit_iff)
    then show "bit ((perm AND 0xFFF) AND 7) n = bit perm n" by (auto simp: bit_simps)
  qed
  have d: "(x OR y) AND 7 = (x AND 7) OR (y AND 7)" for x y :: u64 by (rule bit.conj_disj_distrib2)
  show ?thesis by (simp add: new_entry_def d m f del: and.assoc)
qed

lemma new_entry_readable: "perm AND 1 = 1 \<Longrightarrow> perm < 8 \<Longrightarrow> new_entry old hpa perm AND 1 \<noteq> 0"
proof -
  assume a: "perm AND 1 = 1" "perm < 8"
  have "new_entry old hpa perm AND 1 = (new_entry old hpa perm AND 7) AND 1" by (simp add: and.assoc)
  also have "\<dots> = 1" using a by (simp add: new_entry_rights)
  finally show ?thesis by simp
qed

subsection \<open>The page tables of the module\<close>

text \<open>What a successful \<^verbatim>\<open>init_local_page_tables\<close> leaves.\<close>

definition local_tables :: "imee \<Rightarrow> bool" where
  "local_tables s \<longleftrightarrow>
     page_addr (data_hpa s) \<and> page_addr (code_hpa s) \<and>
     mem32 s (fake_cr3_pd_hpa s) = fill_table 0xF0002067 0xF0001067 \<and>
     mem32 s (fake_cr3_pt_hpa_data s) = fill_table 0xF0004167 0xF0003167 \<and>
     mem32 s (fake_cr3_pt_hpa_exec s) = fill_table 0xF0003167 0xF0003167"

text \<open>\<^verbatim>\<open>get_zeroed_page\<close> returns pages that are not in use: three calls give three pages.\<close>

definition fresh_zpages :: "(nat \<Rightarrow> u64) \<Rightarrow> nat \<Rightarrow> bool" where
  "fresh_zpages zp n \<longleftrightarrow>
     distinct [zp n, zp (n + 1), zp (n + 2)] \<and> (\<forall>k < 3. page_addr (zp (n + k)))"

lemma init_local_tables:
  assumes "init_local_page_tables zp mm s = Some (0, s')" "fresh_zpages zp (zpages_calls s)"
  shows "local_tables s'" "page_addr (fake_cr3_pd_hpa s')" "page_addr (fake_cr3_pt_hpa_exec s')"
    "page_addr (fake_cr3_pt_hpa_data s')" "hst s' = hst s" "contexts s' = contexts s"
proof -
  note d = assms(1) [unfolded init_local_page_tables_def]
  have pz: "page_addr (zp (zpages_calls s + k))" if "k < 3" for k
    using assms(2) that by (simp add: fresh_zpages_def)
  have z: "page_addr (zp (zpages_calls s))" "page_addr (zp (zpages_calls s + 1))"
    "page_addr (zp (zpages_calls s + 2))"
    and dist: "zp (zpages_calls s) \<noteq> zp (zpages_calls s + 1)" "zp (zpages_calls s) \<noteq> zp (zpages_calls s + 2)"
      "zp (zpages_calls s + 1) \<noteq> zp (zpages_calls s + 2)"
    using assms(2) pz [of 0] pz [of 1] pz [of 2] by (auto simp: fresh_zpages_def)
  show "local_tables s'" "page_addr (fake_cr3_pd_hpa s')" "page_addr (fake_cr3_pt_hpa_exec s')"
    "page_addr (fake_cr3_pt_hpa_data s')" "hst s' = hst s" "contexts s' = contexts s"
    using d z dist
    by (auto simp: local_tables_def HPA_MASK_EPT page_addr_mask gpa_consts Let_def
        split: option.splits if_splits)
qed

lemma fill_table_zero: "fill_table a b i = (if i = 0 then a else b)"
  by (simp add: fill_table_def)

lemma translate_local:
  assumes t: "local_tables s"
    and pa: "page_addr (fake_cr3_pd_hpa s)" "page_addr (fake_cr3_pt_hpa_exec s)" "page_addr (fake_cr3_pt_hpa_data s)"
    and v: "views s m target ctx h"
  shows "translate (\<lambda>x. ept_view (ctx, h) x) (mem32 s) (ucast PD_GPA) va =
    Some (if drop_bit 12 va = 0 then (data_hpa s, 3) else (code_hpa s, 4))"
proof -
  have loc: "\<exists>old. ept_view (ctx, h) gpa = new_entry old hpa perm"
    if "(gpa, hpa, perm) \<in> set (local_maps s)" for gpa hpa perm
  proof -
    have "gpa < 2 ^ 48" using bspec [OF local_maps_facts(2) that] by simp
    then show ?thesis using v imee_view_local [OF that refl] by (auto simp: views_def)
  qed
  obtain o1 o2 o3 o4 o5 where
    e: "ept_view (ctx, h) 0xF0000000 = new_entry o1 (fake_cr3_pd_hpa s) 3"
      "ept_view (ctx, h) 0xF0001000 = new_entry o2 (fake_cr3_pt_hpa_exec s) 3"
      "ept_view (ctx, h) 0xF0002000 = new_entry o3 (fake_cr3_pt_hpa_data s) 3"
      "ept_view (ctx, h) 0xF0004000 = new_entry o4 (data_hpa s) 3"
      "ept_view (ctx, h) 0xF0003000 = new_entry o5 (code_hpa s) 4"
    using loc unfolding local_maps_def gpa_consts by (metis list.set_intros)
  have rd: "ept_read32 (\<lambda>x. ept_view (ctx, h) x) (mem32 s) 0xF0000000 i = Some (mem32 s (fake_cr3_pd_hpa s) i)"
    "ept_read32 (\<lambda>x. ept_view (ctx, h) x) (mem32 s) 0xF0001000 i = Some (mem32 s (fake_cr3_pt_hpa_exec s) i)"
    "ept_read32 (\<lambda>x. ept_view (ctx, h) x) (mem32 s) 0xF0002000 i = Some (mem32 s (fake_cr3_pt_hpa_data s) i)" for i
    using e pa by (simp_all add: ept_read32_def Let_def new_entry_readable new_entry_addr page_addr_clear)
  have a: "page_addr (data_hpa s)" "page_addr (code_hpa s)" using t by (simp_all add: local_tables_def)
  have w: "walk32 (ept_read32 (\<lambda>x. ept_view (ctx, h) x) (mem32 s)) 0xF0000000 va =
      Some (if drop_bit 12 va = 0 then 0xF0004000 else 0xF0003000)"
    using t first_page_iff [of va]
    by (auto simp: walk32_def rd local_tables_def fill_table_zero)
  have p: "ucast PD_GPA = (0xF0000000 :: u32)" by (simp add: PD_GPA_def)
  show ?thesis
    unfolding translate_def p w
    using e a by (simp add: new_entry_addr new_entry_rights page_addr_clear Let_def)
qed

end
