(* ===== verification/Scan_Steps.thy ===== *)
theory Scan_Steps
  imports Scan_Protocol Guest_View
begin

text \<open>
  The interleaving of the processors: a step relation whose steps are the handlers of
  \<^verbatim>\<open>Scan_Protocol\<close>, with the control state of the module's vCPU, and the invariants of every
  reachable state. The properties of the wait for the interrupt are here as well.
\<close>

subsection \<open>The wait\<close>

text \<open>What the other processors do up to the \<open>k\<close>-th test of the flag after the one at \<open>j\<close>.\<close>

fun run_from :: "(nat \<Rightarrow> world \<Rightarrow> world option) \<Rightarrow> nat \<Rightarrow> nat \<Rightarrow> world \<Rightarrow> world option" where
  "run_from others j 0 w = others j w"
| "run_from others j (Suc k) w = do { w1 \<leftarrow> others j w; run_from others (Suc j) k w1 }"

definition spinning :: "world option \<Rightarrow> bool" where
  "spinning r \<longleftrightarrow> (\<exists>w. r = Some w \<and> exit_flg w = 1)"

lemma wait_exit_served:
  assumes "k + j \<le> WAIT_LIMIT" "\<forall>i < k. spinning (run_from others j i w)"
    "run_from others j k w = Some y" "exit_flg y \<noteq> 1"
  shows "wait_exit others j w = Some (0, y)"
  using assms
proof (induction k arbitrary: j w)
  case 0
  then show ?case by (simp add: wait_exit.simps)
next
  case (Suc k)
  from Suc.prems(2) have "spinning (run_from others j 0 w)" by blast
  then obtain w1 where w1: "others j w = Some w1" "exit_flg w1 = 1" by (auto simp: spinning_def)
  have "spinning (run_from others (Suc j) i w1)" if "i < k" for i
    using Suc.prems(2) that w1 by force
  then have "wait_exit others (Suc j) w1 = Some (0, y)"
    using Suc.IH [of "Suc j" w1] Suc.prems w1 by simp
  with w1 Suc.prems(1) show ?case by (simp add: wait_exit.simps [of others j])
qed

lemma wait_exit_timeout:
  assumes "k + j = WAIT_LIMIT" "\<forall>i \<le> k. spinning (run_from others j i w)"
  shows "wait_exit others j w = map_option (Pair (-1)) (run_from others j k w)"
  using assms
proof (induction k arbitrary: j w)
  case 0
  from 0(2) obtain w1 where "others j w = Some w1" "exit_flg w1 = 1" by (auto simp: spinning_def)
  with 0 show ?case by (simp add: wait_exit.simps)
next
  case (Suc k)
  from Suc.prems(2) have "spinning (run_from others j 0 w)" by blast
  then obtain w1 where w1: "others j w = Some w1" "exit_flg w1 = 1" by (auto simp: spinning_def)
  have "spinning (run_from others (Suc j) i w1)" if "i \<le> k" for i
    using Suc.prems(2) that w1 by force
  then have "wait_exit others (Suc j) w1 = map_option (Pair (-1)) (run_from others (Suc j) k w1)"
    using Suc.IH [of "Suc j" w1] Suc.prems w1 by simp
  with w1 Suc.prems(1) show ?case by (simp add: wait_exit.simps [of others j])
qed

subsection \<open>The steps\<close>

text \<open>Where the module's vCPU is: outside \<^verbatim>\<open>KVM_IMEE_RUN\<close>, in the wait (entered from the request
  or from the module's \<^verbatim>\<open>VMCALL\<close>) with its counter, or running the module's code.\<close>

datatype phase = Stopped | Waiting bool nat | Running

text \<open>The end of \<^verbatim>\<open>handle_vmcall\<close> when there is no next VM.\<close>

definition scan_over :: "world \<Rightarrow> world" where
  "scan_over w =
     (if go_flg w = 2 then w\<lparr>go_flg := 3\<rparr> else if go_flg w = 1 then w\<lparr>go_flg := 0\<rparr> else w)\<lparr>last_cr3 := 0\<rparr>"

text \<open>One processor makes one step. \<open>n\<close> is the module's vCPU. The guests and the processor change the
  vCPUs in any way (\<open>hardware\<close>), \<open>go\<close> is any value; an EPT violation reports an address below \<open>2 ^ 48\<close>.\<close>

inductive wstep :: "kenv \<Rightarrow> nat \<Rightarrow> phase \<times> world \<Rightarrow> phase \<times> world \<Rightarrow> bool" for K n where
  run: "start_prepare K n w = Inr w' \<Longrightarrow> wstep K n (Stopped, w) (Waiting False 0, w')"
| run_none: "start_prepare K n w = Inl (r, w') \<Longrightarrow> wstep K n (Stopped, w) (Stopped, w')"
| spin: "exit_flg w = 1 \<Longrightarrow> Suc j \<le> WAIT_LIMIT \<Longrightarrow> wstep K n (Waiting b j, w) (Waiting b (Suc j), w)"
| timeout: "exit_flg w = 1 \<Longrightarrow> WAIT_LIMIT < Suc j \<Longrightarrow>
    wstep K n (Waiting b j, w) (Stopped, if b then scan_over w else w)"
| served: "exit_flg w \<noteq> 1 \<Longrightarrow> wstep K n (Waiting b j, w) (Running, start_finish K n w)"
| entry: "wstep K n (Running, w) (Running, vcpu_run_imee_entry n w)"
| violation: "gpa < 2 ^ 48 \<Longrightarrow>
    handle_ept_violation_imee K n (upd_vcpu n (vmcs_write64 GUEST_PHYSICAL_ADDRESS gpa) w) = Some (r, w') \<Longrightarrow>
    wstep K n (Running, w) (if r = 1 then Running else Stopped, w')"
| exception: "handle_exception_imee n w = (r, w') \<Longrightarrow>
    wstep K n (Running, w) (if r = 1 then Running else Stopped, w')"
| vmcall: "imee_scan_mode w = SCAN_ALL \<Longrightarrow> start_prepare K n w = Inr w' \<Longrightarrow>
    wstep K n (Running, w) (Waiting True 0, w')"
| vmcall_none: "imee_scan_mode w = SCAN_ALL \<Longrightarrow> start_prepare K n w = Inl (r, w') \<Longrightarrow>
    wstep K n (Running, w) (Stopped, scan_over w')"
| vmcall_one: "imee_scan_mode w \<noteq> SCAN_ALL \<Longrightarrow> wstep K n (Running, w) (Stopped, scan_over w)"
| sample: "(cpu, 0x56) \<in> set (ipis w) \<Longrightarrow> imee_write_eoi cpu w = Some w' \<Longrightarrow>
    wstep K n (p, w) (p, w'\<lparr>ipis := remove1 (cpu, 0x56) (ipis w')\<rparr>)"
| notify: "(cpu, 0x55) \<in> set (ipis w) \<Longrightarrow>
    wstep K n (p, w) (p, (imee_trace_cr3 w)\<lparr>ipis := remove1 (cpu, 0x55) (ipis w)\<rparr>)"
| guest_entry: "vcpu_run_guest_entry task m w = Some (go, w') \<Longrightarrow> wstep K n (p, w) (p, w')"
| guest_exit: "guest_cr3_exit K cpu task go m c reg_read w = Some (again, w') \<Longrightarrow> wstep K n (p, w) (p, w')"
| hardware: "wstep K n (p, w) (p, w\<lparr>vcpus := vs, vcpu_cpu := cs, loaded_on := ls\<rparr>)"
| stop: "kvm_imee_stop n w = Some (r, w') \<Longrightarrow> wstep K n (Stopped, w) (Stopped, w')"
| release: "kvm_vcpu_release pid m w = Some w' \<Longrightarrow> wstep K n (p, w) (p, w')"

inductive_cases wstepE: "wstep K n c c'"

definition reachable :: "kenv \<Rightarrow> nat \<Rightarrow> world \<Rightarrow> phase \<times> world \<Rightarrow> bool" where
  "reachable K n w0 = (wstep K n)\<^sup>*\<^sup>* (Stopped, w0)"

lemma reachable_invariant:
  assumes "reachable K n w0 c" "I (Stopped, w0)"
    and "\<And>c c'. I c \<Longrightarrow> wstep K n c c' \<Longrightarrow> I c'"
  shows "I c"
  using assms(1) unfolding reachable_def
proof (induction rule: rtranclp_induct)
  case base
  show ?case by (rule assms(2))
next
  case (step c c')
  then show ?case using assms(3) by blast
qed

subsection \<open>The interception of \<^verbatim>\<open>CR3\<close> is never armed\<close>

text \<open>No code sets \<open>go_flg\<close> to 1: \<^verbatim>\<open>imee_write_eoi\<close> has the line commented out, and
  \<open>do_switch\<close> likewise.\<close>

definition unarmed :: "phase \<times> world \<Rightarrow> bool" where
  "unarmed c \<longleftrightarrow> go_flg (snd c) = 0 \<and> do_switch (snd c) = 0 \<and> (\<forall>cpu. (cpu, 0x55) \<notin> set (ipis (snd c)))"

lemma upd_vcpu_globals [simp]:
  "go_flg (upd_vcpu n f w) = go_flg w" "do_switch (upd_vcpu n f w) = do_switch w"
  "ipis (upd_vcpu n f w) = ipis w" "im (upd_vcpu n f w) = im w" "trial_run (upd_vcpu n f w) = trial_run w"
  "last_cr3 (upd_vcpu n f w) = last_cr3 w" "last_rip (upd_vcpu n f w) = last_rip w"
  "exit_flg (upd_vcpu n f w) = exit_flg w" "vcpus (upd_vcpu n f w) = (vcpus w)(n := f (vcpus w n))"
  by (simp_all add: upd_vcpu_def)


lemma reset_go_flg_globals [simp]:
  "im (reset_go_flg w) = im w" "do_switch (reset_go_flg w) = do_switch w" "ipis (reset_go_flg w) = ipis w"
  "trial_run (reset_go_flg w) = trial_run w" "vcpus (reset_go_flg w) = vcpus w"
  "go_flg (reset_go_flg (w\<lparr>last_cr3 := x\<rparr>)) = go_flg (reset_go_flg w)"
  "vcpu_cpu (reset_go_flg w) = vcpu_cpu w" "loaded_on (reset_go_flg w) = loaded_on w"
  by (simp_all add: reset_go_flg_def)

lemma start_prepare_globals:
  assumes "start_prepare K n w = r"
  shows "case r of
      Inl (q, w') \<Rightarrow> q = -1 \<and> unvisited (contexts (im w)) = [] \<and> w' = reset_go_flg (w\<lparr>last_cr3 := 0\<rparr>)
    | Inr w' \<Rightarrow> go_flg w' = go_flg (reset_go_flg w) \<and> do_switch w' = do_switch w \<and>
        (\<exists>cpu. ipis w' = ipis w @ [(cpu, 0x56)]) \<and> trial_run w' = trial_run w \<and> exit_flg w' = 1 \<and>
        (\<exists>c cs rest. unvisited (contexts (im w)) = c # rest \<and> unvisited cs = rest \<and>
          map (\<lambda>c. c\<lparr>visited := 0\<rparr>) cs = map (\<lambda>c. c\<lparr>visited := 0\<rparr>) (contexts (im w)) \<and>
          im w' = (im w)\<lparr>contexts := cs, current_target := Some (ctx_kvm c)\<rparr>)"
proof (cases "unvisited (contexts (im w))")
  case Nil
  then show ?thesis
    using assms get_next_ctx_spec(1) [OF Nil] by (auto simp: start_prepare_def Let_def)
next
  case (Cons c rest)
  obtain cs where cs: "get_next_ctx (im w) =
      (0, Some (c\<lparr>visited := 1\<rparr>), (im w)\<lparr>contexts := cs, current_target := Some (ctx_kvm c)\<rparr>)"
    "unvisited cs = rest" "map (\<lambda>c. c\<lparr>visited := 0\<rparr>) cs = map (\<lambda>c. c\<lparr>visited := 0\<rparr>) (contexts (im w))"
    using get_next_ctx_spec(2) [OF Cons] by blast
  obtain w' where r: "r = Inr w'" and im: "im w' = (im w)\<lparr>contexts := cs, current_target := Some (ctx_kvm c)\<rparr>"
    and g: "go_flg w' = go_flg (reset_go_flg w) \<and> do_switch w' = do_switch w \<and>
      (\<exists>cpu. ipis w' = ipis w @ [(cpu, 0x56)]) \<and> trial_run w' = trial_run w \<and> exit_flg w' = 1"
    using assms cs(1)
    by (auto simp: start_prepare_def Let_def init_imee_vcpu_def send_IPI_def split: prod.splits)
  have "\<exists>c cs rest. unvisited (contexts (im w)) = c # rest \<and> unvisited cs = rest \<and>
      map (\<lambda>c. c\<lparr>visited := 0\<rparr>) cs = map (\<lambda>c. c\<lparr>visited := 0\<rparr>) (contexts (im w)) \<and>
      im w' = (im w)\<lparr>contexts := cs, current_target := Some (ctx_kvm c)\<rparr>"
    using Cons cs im by blast
  with r g show ?thesis by simp
qed

lemma unarmed_step:
  assumes "unarmed c" "wstep K n c c'"
  shows "unarmed c'"
  using assms(2,1)
proof cases
  case (run w w')
  then show ?thesis using assms(1) start_prepare_globals [OF run(3)]
    by (auto simp: unarmed_def reset_go_flg_def)
next
  case (run_none w r w')
  then show ?thesis using assms(1) start_prepare_globals [OF run_none(3)]
    by (auto simp: unarmed_def reset_go_flg_def)
next
  case (timeout w j b)
  then show ?thesis using assms(1) by (auto simp: unarmed_def scan_over_def)
next
  case (served w b j)
  then show ?thesis using assms(1) by (auto simp: unarmed_def start_finish_def Let_def)
next
  case (entry w)
  then show ?thesis using assms(1) by (auto simp: unarmed_def vcpu_run_imee_entry_def Let_def)
next
  case (violation gpa w r w')
  then show ?thesis using assms(1)
    by (auto simp: unarmed_def handle_ept_violation_imee_def Let_def split: option.splits if_splits)
next
  case (exception w r w')
  then show ?thesis using assms(1)
    by (auto simp: unarmed_def handle_exception_imee_def split: if_splits)
next
  case (vmcall w w')
  then show ?thesis using assms(1) start_prepare_globals [OF vmcall(4)]
    by (auto simp: unarmed_def reset_go_flg_def)
next
  case (vmcall_none w r w')
  then show ?thesis using assms(1) start_prepare_globals [OF vmcall_none(4)]
    by (auto simp: unarmed_def reset_go_flg_def scan_over_def)
next
  case (vmcall_one w)
  then show ?thesis using assms(1) by (auto simp: unarmed_def scan_over_def)
next
  case (sample cpu w w' p)
  then show ?thesis using assms(1)
    by (auto simp: unarmed_def imee_write_eoi_def Let_def split: if_splits prod.splits dest!: set_remove1_subset [THEN subsetD])
next
  case (guest_entry task m w go w' p)
  then show ?thesis using assms(1)
    by (auto simp: unarmed_def vcpu_run_guest_entry_def split: option.splits if_splits)
next
  case (guest_exit cpu task go m c reg_read w again w' p)
  then show ?thesis using assms(1)
    by (auto simp: unarmed_def guest_cr3_exit_def Let_def split: option.splits if_splits)
next
  case (stop w r w')
  then show ?thesis using assms(1)
    by (auto simp: unarmed_def kvm_imee_stop_def remove_int_handlers_def Let_def split: option.splits if_splits)
next
  case (release pid m w w' p)
  then show ?thesis using assms(1)
    by (auto simp: unarmed_def kvm_vcpu_release_def kvm_imee_stop_def remove_int_handlers_def Let_def
        split: option.splits if_splits)
qed (auto simp: unarmed_def imee_trace_cr3_def)

lemma reachable_unarmed:
  assumes "reachable K n w0 c" "unarmed (Stopped, w0)"
  shows "unarmed c"
  using assms by (rule reachable_invariant) (rule unarmed_step)

end
