(* ===== verification/Isolation.thy ===== *)
theory Isolation
  imports Scan_Steps
begin

text \<open>
  The isolation of the guests as an invariant of every reachable state: whatever the processors do,
  the EPT of every context lets the module write only its own frames and execute only its code frame,
  every other entry is the guest's without those rights, and the frames left are enough for the
  remaining scans, so that the EPT violation of a scan is always served.
\<close>

subsection \<open>The rights of an entry\<close>

definition module_frames :: "imee \<Rightarrow> u64 set" where
  "module_frames s =
     {code_hpa s, data_hpa s, fake_cr3_pd_hpa s, fake_cr3_pt_hpa_exec s, fake_cr3_pt_hpa_data s}"

definition own_rights :: "imee \<Rightarrow> u64 \<Rightarrow> bool" where
  "own_rights s e \<longleftrightarrow>
     (e AND 2 \<noteq> 0 \<longrightarrow> e AND NOT EPT_MASK \<in> module_frames s) \<and>
     (e AND 4 \<noteq> 0 \<longrightarrow> e AND NOT EPT_MASK = code_hpa s)"

definition pages_ok :: "imee \<Rightarrow> bool" where
  "pages_ok s \<longleftrightarrow> (\<forall>p \<in> module_frames s. page_addr p)"

lemma bit_4_int [simp]: "bit (4 :: int) n \<longleftrightarrow> n = 2"
  using bit_exp_iff [of 2 n, where ?'a = int] by simp

lemma and_2_4: "((x :: u64) AND 7) AND 2 = x AND 2" "((x :: u64) AND 7) AND 4 = x AND 4"
  by (simp_all add: and.assoc)

lemma own_rights_new_entry:
  assumes "pages_ok s" "(gpa, hpa, perm) \<in> set (local_maps s)"
  shows "own_rights s (new_entry old hpa perm)"
proof -
  have p: "perm = 3 \<and> hpa \<in> module_frames s \<or> perm = 4 \<and> hpa = code_hpa s"
    using assms(2) by (auto simp: local_maps_def module_frames_def)
  then have "perm < 8" by auto
  note r = new_entry_rights [OF this, of old hpa]
  have w: "new_entry old hpa perm AND 2 = perm AND 2" "new_entry old hpa perm AND 4 = perm AND 4"
    using and_2_4 [of "new_entry old hpa perm"] and_2_4 [of perm] r p by auto
  have "page_addr hpa" using p assms(1) by (auto simp: pages_ok_def module_frames_def)
  then have "new_entry old hpa perm AND NOT EPT_MASK = hpa"
    by (simp add: new_entry_addr page_addr_clear)
  with p w show ?thesis by (auto simp: own_rights_def)
qed

lemma own_rights_guest_ro: "own_rights s (guest_ro m v x)"
proof -
  have "(y AND NOT 0x6) AND 2 = 0" "(y AND NOT 0x6) AND 4 = 0" for y :: u64
    by (rule bit_word_eqI, auto simp: bit_simps)+
  then show ?thesis by (simp add: own_rights_def guest_ro_def)
qed

lemma own_rights_view: "pages_ok s \<Longrightarrow> own_rights s (imee_view s m v x)"
  by (auto simp: imee_view_def own_rights_guest_ro split: option.split
      simp: find_Some_iff in_set_conv_nth intro!: own_rights_new_entry)

text \<open>The entry of the code page: the guest's rights stay in it, but its frame is the module's.\<close>

lemma code_entry_addr:
  "page_addr p \<Longrightarrow> ((e AND EPT_MASK) OR p OR 0x4) AND NOT EPT_MASK = p"
  by (rule bit_word_eqI) (auto simp: bit_simps page_addr_bits)

lemma own_rights_remapped:
  assumes "page_addr (code_hpa s)"
  shows "own_rights s (remapped_entry c orig (code_hpa s) gpa)"
    and "remapped_entry c orig (code_hpa s) gpa AND NOT EPT_MASK = code_hpa s"
    and "remapped_entry c orig (code_hpa s) gpa AND 4 \<noteq> 0"
proof -
  show a: "remapped_entry c orig (code_hpa s) gpa AND NOT EPT_MASK = code_hpa s"
    using assms code_entry_addr [OF assms] by (simp add: remapped_entry_def new_entry_addr page_addr_clear)
  then show "own_rights s (remapped_entry c orig (code_hpa s) gpa)"
    by (simp add: own_rights_def module_frames_def)
  have "bit (remapped_entry c orig (code_hpa s) gpa) 2"
    by (auto simp: remapped_entry_def new_entry_def bit_simps)
  then have "bit (remapped_entry c orig (code_hpa s) gpa AND 4) 2" by (simp add: bit_simps)
  then show "remapped_entry c orig (code_hpa s) gpa AND 4 \<noteq> 0" by (metis bit_0_eq bot_apply bot_bool_def)
qed

subsection \<open>One context\<close>

definition ctx_inv :: "(nat \<Rightarrow> u64 \<Rightarrow> u64) \<Rightarrow> imee \<Rightarrow> intro_ctx \<Rightarrow> host \<Rightarrow> bool" where
  "ctx_inv org s c h \<longleftrightarrow>
     remapped (org (ctx_kvm c)) c h \<and> (\<forall>x < 2 ^ 48. own_rights s (org (ctx_kvm c) (gpage x))) \<and>
     (\<forall>x < 2 ^ 48. own_rights s (ept_view (c, h) x))"

lemma ctx_ok_visited [simp]: "ctx_ok (c\<lparr>visited := v\<rparr>) h = ctx_ok c h"
  by (simp add: ctx_ok_def get_epte_def)

lemma ept_view_visited [simp]: "ept_view (c\<lparr>visited := v\<rparr>, h) x = ept_view (c, h) x"
  by (simp add: ept_view_def)

lemma tables_of_visited [simp]: "tables_of h (c\<lparr>visited := v\<rparr>) = tables_of h c"
  by (simp add: tables_of_def)

lemma ctx_inv_visited: "ctx_inv org s (c\<lparr>visited := v\<rparr>) h = ctx_inv org s c h"
  by (simp add: ctx_inv_def remapped_def split: option.split)

lemma own_rights_cong:
  "module_frames s' = module_frames s \<Longrightarrow> code_hpa s' = code_hpa s \<Longrightarrow> own_rights s' e = own_rights s e"
  by (simp add: own_rights_def)

lemma remapped_frame:
  assumes rm: "remapped orig c h" and m: "\<And>u. u \<in> tables_of h c \<Longrightarrow> ept_mem h' u = ept_mem h u"
    and F: "tables_of h c \<inter> future_frames h' = {}"
  shows "remapped orig c h'"
proof -
  have ok: "ctx_ok c h" using rm by (simp add: remapped_def)
  note fr = ctx_ok_frame [OF ok m [unfolded tables_of_def] F [unfolded tables_of_def]]
  have "get_epte c x = map_option (\<lambda>t. (t, pt_idx x)) (follow (ept_mem k) (eptptr c) (path3 x))"
    if "x < 2 ^ 48" "k = h \<or> k = h'" for x k
    using ok fr(1) that by (auto simp: ctx_ok_def)
  then have e: "map_option (\<lambda>t. (t, pt_idx x)) (follow (ept_mem h') (eptptr c) (path3 x)) =
      map_option (\<lambda>t. (t, pt_idx x)) (follow (ept_mem h) (eptptr c) (path3 x))" if "x < 2 ^ 48" for x
    using that by metis
  have "follow (ept_mem h') (eptptr c) (path3 x) = follow (ept_mem h) (eptptr c) (path3 x)"
    if "x < 2 ^ 48" for x
    using e [OF that] by (auto simp: map_option_case split: option.splits)
  then show ?thesis
    using rm fr unfolding remapped_def by (auto split: option.splits)
qed

lemma replace_ctx_ids: "map ctx_kvm (replace_ctx c cs) = map ctx_kvm cs"
  by (induction cs) (simp_all add: replace_ctx_def)

text \<open>Remapping the code page of one context leaves the others as they are.\<close>

lemma remap_all:
  assumes ok: "ctxs_ok s" and inv: "\<forall>c \<in> set (contexts s). ctx_inv org s c (hst s)"
    and pg: "page_addr (code_hpa s)" and c: "c \<in> set (contexts s)"
    and av: "3 \<le> avail_frames (hst s)" and gpa: "gpa < 2 ^ 48"
  obtains c' h' where "remap_gpa_code pages (code_hpa s) gpa c (hst s) = Some (0, c', h')"
    and "ctx_kvm c' = ctx_kvm c" "visited c' = visited c" "eptptr c' = eptptr c"
    and "avail_frames (hst s) \<le> avail_frames h' + 3"
    and "ctxs_ok (s\<lparr>hst := h', contexts := replace_ctx c' (contexts s)\<rparr>)"
    and "\<forall>d \<in> set (replace_ctx c' (contexts s)). ctx_inv org s d h'"
    and "\<forall>d \<in> set (contexts s). d \<noteq> c \<longrightarrow> (\<forall>x. ept_view (d, h') x = ept_view (d, hst s) x)"
    and "\<And>x. x < 2 ^ 48 \<Longrightarrow> gpage x \<noteq> gpage gpa \<Longrightarrow> ept_view (c', h') x = org (ctx_kvm c) (gpage x)"
    and "ept_view (c', h') gpa AND NOT EPT_MASK = code_hpa s" "ept_view (c', h') gpa AND 4 \<noteq> 0"
proof -
  let ?h = "hst s" and ?o = "org (ctx_kvm c)"
  have rc: "remapped ?o c ?h" and ro: "\<forall>x < 2 ^ 48. own_rights s (?o (gpage x))"
    using inv c by (auto simp: ctx_inv_def)
  obtain c' h' where r: "remap_gpa_code pages (code_hpa s) gpa c ?h = Some (0, c', h')"
    and rm': "remapped ?o c' h'" and keep: "ctx_kvm c' = ctx_kvm c" "visited c' = visited c"
    and ptr: "eptptr c' = eptptr c"
    and cin: "ctx_in (pool_of c ?h) c' h'" and fr: "\<And>u. u \<notin> pool_of c ?h \<Longrightarrow> ept_mem h' u = ept_mem ?h u"
    and av': "avail_frames ?h \<le> avail_frames h' + 3"
    and vw: "\<And>x. x < 2 ^ 48 \<Longrightarrow> ept_view (c', h') x =
      (if gpage x = gpage gpa then remapped_entry c ?o (code_hpa s) gpa else ?o (gpage x))"
    by (rule remap_post [OF rc av gpa, of pages "code_hpa s"], rule that)
  note oe = own_rights_remapped [OF pg, of c ?o gpa]
  have inv': "ctx_inv org s c' h'"
    using rm' ro vw oe(1) by (simp add: ctx_inv_def keep)
  have dist: "distinct (map ctx_kvm (contexts s))" using ok by (simp add: ctxs_ok_def)
  have other: "ctx_kvm d \<noteq> ctx_kvm c" if "d \<in> set (contexts s)" "d \<noteq> c" for d
    using dist that c by (auto simp: distinct_map inj_on_def)
  have d: "remapped (org (ctx_kvm d)) d h' \<and> (\<forall>x. ept_view (d, h') x = ept_view (d, ?h) x) \<and> ctx_ok d h' \<and>
      tables_of h' d = tables_of ?h d \<and> tables_of ?h d \<inter> pool_of c ?h = {}"
    if "d \<in> set (contexts s)" "d \<noteq> c" for d
  proof -
    note dk = ctxs_okD [OF ok that(1)]
    have "tables_of ?h d \<inter> tables_of ?h c = {}"
      using ok that c by (auto simp: ctxs_ok_def pairwise_def)
    then have disj: "tables_of ?h d \<inter> pool_of c ?h = {}" using dk(2) by (auto simp: pool_of_def)
    then have m: "ept_mem h' u = ept_mem ?h u" if "u \<in> tables_of ?h d" for u using fr that by blast
    have F: "tables_of ?h d \<inter> future_frames h' = {}" using disj cin by (auto simp: ctx_in_def)
    have "remapped (org (ctx_kvm d)) d ?h" using inv that(1) by (simp add: ctx_inv_def)
    from remapped_frame [OF this m F] ctx_ok_frame [OF dk(1) m [unfolded tables_of_def] F [unfolded tables_of_def]] disj
    show ?thesis by (simp add: tables_of_def)
  qed
  have cs': "set (replace_ctx c' (contexts s)) = insert c' (set (contexts s) - {c})"
  proof -
    have "(\<lambda>d. if ctx_kvm d = ctx_kvm c' then c' else d) ` set (contexts s) =
        (\<lambda>d. if d = c then c' else d) ` set (contexts s)"
      using other by (intro image_cong) (auto simp: keep(1))
    also have "\<dots> = insert c' (set (contexts s) - {c})" using c by auto
    finally show ?thesis by (simp add: replace_ctx_def)
  qed
  have ids: "map ctx_kvm (replace_ctx c' (contexts s)) = map ctx_kvm (contexts s)"
    by (rule replace_ctx_ids)
  have tc: "tables_of h' c' \<subseteq> pool_of c ?h" and okc: "ctx_ok c' h'"
    using cin by (auto simp: ctx_in_def tables_of_def)
  have tcd: "tables_of h' c' \<inter> tables_of h' x = {}" "tables_of h' x \<inter> tables_of h' c' = {}"
    if "x \<in> set (contexts s)" "x \<noteq> c" for x
    using d [OF that] tc by blast+
  have old: "pairwise (\<lambda>x y. tables_of h' x \<inter> tables_of h' y = {}) (set (contexts s) - {c})"
    using ok d by (auto simp: ctxs_ok_def pairwise_def)
  have "pairwise (\<lambda>x y. tables_of h' x \<inter> tables_of h' y = {}) (set (replace_ctx c' (contexts s)))"
    unfolding cs' pairwise_insert using old tcd by auto
  then have okn: "ctxs_ok (s\<lparr>hst := h', contexts := replace_ctx c' (contexts s)\<rparr>)"
    using dist d okc cs' by (auto simp: ctxs_ok_def ids)
  have e: "ept_view (c', h') gpa = remapped_entry c ?o (code_hpa s) gpa" using vw [OF gpa] by simp
  show ?thesis
  proof (rule that [OF r keep ptr av' okn])
    show "\<forall>d \<in> set (replace_ctx c' (contexts s)). ctx_inv org s d h'"
      using inv inv' d unfolding cs' by (auto simp: ctx_inv_def)
    show "\<forall>x \<in> set (contexts s). x \<noteq> c \<longrightarrow> (\<forall>y. ept_view (x, h') y = ept_view (x, ?h) y)" using d by blast
  qed (use vw e oe in auto)
qed

subsection \<open>The invariant\<close>

text \<open>The scans that may still need frames: the contexts not visited, the one waited for, and the one whose
  first EPT violation is still to come.\<close>

definition scans_left :: "phase \<Rightarrow> world \<Rightarrow> nat" where
  "scans_left p w =
     length (unvisited (contexts (im w))) + (if trial_run w \<noteq> 0 then 1 else 0) +
     (case p of Waiting b j \<Rightarrow> 1 | _ \<Rightarrow> 0)"

definition target_listed :: "imee \<Rightarrow> bool" where
  "target_listed s \<longleftrightarrow> (\<forall>k. current_target s = Some k \<longrightarrow> k \<in> ctx_kvm ` set (contexts s))"

definition sys_ok :: "(nat \<Rightarrow> u64 \<Rightarrow> u64) \<Rightarrow> phase \<times> world \<Rightarrow> bool" where
  "sys_ok org c \<longleftrightarrow>
     (let s = im (snd c) in
       ctxs_ok s \<and> target_listed s \<and> (\<forall>d \<in> set (contexts s). ctx_inv org s d (hst s)) \<and>
       (contexts s \<noteq> [] \<longrightarrow> pages_ok s \<and> 3 * scans_left (fst c) (snd c) \<le> avail_frames (hst s)))"

text \<open>Steps that leave the module's globals alone, or do not need more frames, keep the invariant.\<close>

lemma sys_ok_same:
  assumes "sys_ok org (p, w)" "im w' = im w" "scans_left p' w' \<le> scans_left p w"
  shows "sys_ok org (p', w')"
  using assms(1) mult_le_mono2 [OF assms(3), of 3] by (auto simp: sys_ok_def Let_def assms(2))

lemma ctxs_ok_perm:
  assumes "map (\<lambda>c. c\<lparr>visited := 0\<rparr>) cs = map (\<lambda>c. c\<lparr>visited := 0\<rparr>) cs'" "d \<in> set cs"
  obtains d' where "d' \<in> set cs'" "d = d'\<lparr>visited := visited d\<rparr>"
proof -
  have "d\<lparr>visited := 0\<rparr> \<in> set (map (\<lambda>c. c\<lparr>visited := 0\<rparr>) cs')" unfolding assms(1) [symmetric] using assms(2) by simp
  then obtain d' where d': "d' \<in> set cs'" "d\<lparr>visited := 0\<rparr> = d'\<lparr>visited := 0\<rparr>" by auto
  have "d = d\<lparr>visited := 0, visited := visited d\<rparr>" by simp
  also have "\<dots> = d'\<lparr>visited := 0, visited := visited d\<rparr>" by (simp only: d'(2))
  finally show ?thesis using that d'(1) by simp
qed

lemma ctxs_ok_visited:
  assumes ok: "ctxs_ok s" and cs: "map (\<lambda>c. c\<lparr>visited := 0\<rparr>) cs = map (\<lambda>c. c\<lparr>visited := 0\<rparr>) (contexts s)"
  shows "ctxs_ok (s\<lparr>contexts := cs, current_target := t\<rparr>)" "ctx_kvm ` set cs = ctx_kvm ` set (contexts s)"
proof -
  have "map ctx_kvm (map (\<lambda>c. c\<lparr>visited := 0\<rparr>) cs) = map ctx_kvm (map (\<lambda>c. c\<lparr>visited := 0\<rparr>) (contexts s))"
    by (simp only: cs)
  then have ids: "map ctx_kvm cs = map ctx_kvm (contexts s)" by (simp add: comp_def)
  then show "ctx_kvm ` set cs = ctx_kvm ` set (contexts s)" by (metis set_map)
  have dist: "distinct (map ctx_kvm cs)" using ok ids by (simp add: ctxs_ok_def)
  have one: "ctx_ok d (hst s)" if "d \<in> set cs" for d
  proof -
    obtain d' where d': "d' \<in> set (contexts s)" "d = d'\<lparr>visited := visited d\<rparr>"
      by (rule ctxs_ok_perm [OF cs \<open>d \<in> set cs\<close>])
    show ?thesis by (subst d'(2)) (simp add: ctxs_okD(1) [OF ok d'(1)])
  qed
  have two: "tables_of (hst s) d \<inter> tables_of (hst s) e = {}"
    if "d \<in> set cs" "e \<in> set cs" "d \<noteq> e" for d e
  proof -
    obtain d' where d': "d' \<in> set (contexts s)" "d = d'\<lparr>visited := visited d\<rparr>"
      by (rule ctxs_ok_perm [OF cs \<open>d \<in> set cs\<close>])
    obtain e' where e': "e' \<in> set (contexts s)" "e = e'\<lparr>visited := visited e\<rparr>"
      by (rule ctxs_ok_perm [OF cs \<open>e \<in> set cs\<close>])
    have "ctx_kvm d \<noteq> ctx_kvm e" using dist that by (auto simp: distinct_map inj_on_def)
    moreover have "ctx_kvm d = ctx_kvm d'" "ctx_kvm e = ctx_kvm e'" 
      using arg_cong [OF d'(2), of ctx_kvm] arg_cong [OF e'(2), of ctx_kvm] by simp_all
    ultimately have "d' \<noteq> e'" by auto
    then have "tables_of (hst s) d' \<inter> tables_of (hst s) e' = {}"
      using ok d'(1) e'(1) by (auto simp: ctxs_ok_def pairwise_def)
    then show ?thesis by (subst d'(2), subst e'(2)) simp
  qed
  show "ctxs_ok (s\<lparr>contexts := cs, current_target := t\<rparr>)"
    using dist one two by (auto simp: ctxs_ok_def pairwise_def)
qed

lemma sys_ok_start:
  assumes ok: "sys_ok org (p, w)" and st: "start_prepare K n w = Inr w'" and p: "\<And>b j. p \<noteq> Waiting b j"
  shows "sys_ok org (Waiting b 0, w')"
proof -
  from start_prepare_globals [OF st] obtain c cs rest where
    u: "unvisited (contexts (im w)) = c # rest" "unvisited cs = rest"
    and cs: "map (\<lambda>c. c\<lparr>visited := 0\<rparr>) cs = map (\<lambda>c. c\<lparr>visited := 0\<rparr>) (contexts (im w))"
    and im: "im w' = (im w)\<lparr>contexts := cs, current_target := Some (ctx_kvm c)\<rparr>"
    and t: "trial_run w' = trial_run w" by auto
  let ?s = "im w"
  note a = ok [unfolded sys_ok_def Let_def]
  have ck: "ctxs_ok ?s" using a by simp
  note v = ctxs_ok_visited [OF ck cs]
  have "c \<in> set (unvisited (contexts ?s))" by (simp add: u(1))
  then have c: "c \<in> set (contexts ?s)" by (simp add: unvisited_def)
  have inv: "ctx_inv org (im w') d (hst (im w'))" if "d \<in> set cs" for d
  proof -
    obtain d' where d': "d' \<in> set (contexts ?s)" "d = d'\<lparr>visited := visited d\<rparr>"
      by (rule ctxs_ok_perm [OF cs \<open>d \<in> set cs\<close>])
    have "ctx_inv org ?s d' (hst ?s)" using a d'(1) by simp
    then have "ctx_inv org (im w') d' (hst (im w'))"
      by (simp add: ctx_inv_def im own_rights_def module_frames_def)
    then show ?thesis by (subst d'(2)) (simp add: ctx_inv_visited)
  qed
  have "scans_left (Waiting b 0) w' = scans_left p w"
    using p u by (auto simp: scans_left_def im t split: phase.split)
  moreover have "pages_ok (im w') = pages_ok ?s" by (simp add: pages_ok_def module_frames_def im)
  moreover have "contexts ?s \<noteq> []" using c by auto
  moreover have "ctxs_ok (im w')" using v(1) by (simp add: im)
  moreover have "ctx_kvm c \<in> ctx_kvm ` set cs" using v(2) c by simp
  ultimately show ?thesis
    using a inv by (auto simp: sys_ok_def Let_def im target_listed_def)
qed

lemma vmx_flush_tlb_frame:
  obtains fl where "vmx_flush_tlb E v = v\<lparr>flushes := fl\<rparr>"
proof -
  have "vmx_flush_tlb E v = v\<lparr>flushes := flushes (vmx_flush_tlb E v)\<rparr>"
    by (simp add: vmx_flush_tlb_def vpid_sync_context_def vpid_sync_vcpu_single_def vpid_sync_vcpu_global_def
        ept_sync_context_def ept_sync_global_def Let_def)
  then show thesis by (rule that)
qed

text \<open>The first EPT violation of a scan, when the remapping succeeds.\<close>

lemma violation_served:
  assumes tr: "trial_run w \<noteq> 0" and tg: "target_ctx w = Some c"
    and gpa: "vmcs_read64 GUEST_PHYSICAL_ADDRESS (vcpus w n) = gpa"
    and rg: "remap_gpa_code (gfpages K) (code_hpa (im w)) gpa c (hst (im w)) = Some (0, c', h')"
  obtains w' where "handle_ept_violation_imee K n w = Some (1, w')"
    and "im w' = (im w)\<lparr>hst := h', contexts := replace_ctx c' (contexts (im w))\<rparr>"
    and "trial_run w' = 0" "do_switch w' = 0"
    and "regs (vcpus w' n) RIP = imee_start_rip (last_rip w) (imee_arg (im w))"
    and "Gpr RIP \<in> regs_dirty (vcpus w' n)"
    and "do_switch w = 0 \<Longrightarrow> vmcs (vcpus w' n) GUEST_CR3 = PD_GPA"
    and "do_switch w = 0 \<Longrightarrow> regs (vcpus w' n) RBX = ucast (last_cr3 w)"
proof -
  let ?v = "adjust_imee_vcpu (imee_start_rip (last_rip w) (imee_arg (im w))) 0 (vcpus w n)"
  obtain fl where fl: "vmx_flush_tlb (kops K) ?v = ?v\<lparr>flushes := fl\<rparr>" by (rule vmx_flush_tlb_frame)
  have t: "target_ctx (w\<lparr>trial_run := 0\<rparr>) = Some c" using tg by (auto simp: target_ctx_def split: option.splits)
  have r: "remap_gpa (gfpages K) (im w) (last_rip w) gpa c (hst (im w)) (vcpus w n) = Some (0, c', h', ?v)"
    by (simp add: remap_gpa_def rg)
  define s' where "s' = (im w)\<lparr>hst := h', contexts := replace_ctx c' (contexts (im w))\<rparr>"
  define wa where "wa = w\<lparr>trial_run := 0, im := s', vcpus := (vcpus w)(n := ?v\<lparr>flushes := fl, arch_cr3 := PD_GPA,
    vmcs := (vmcs ?v)(GUEST_CR3 := PD_GPA), regs := (regs ?v)(RBX := ucast (last_cr3 w))\<rparr>)\<rparr>"
  define wb where "wb = w\<lparr>trial_run := 0, im := s', vcpus := (vcpus w)(n := ?v\<lparr>flushes := fl\<rparr>), do_switch := 0\<rparr>"
  show ?thesis
  proof (cases "do_switch w = 0")
    case True
    have "handle_ept_violation_imee K n w = Some (1, wa)"
      using True tr t r gpa fl
      by (simp add: handle_ept_violation_imee_def Let_def adjust_imee_vcpu_def vmcs_ops upd_vcpu_def wa_def s'_def)
    then show ?thesis by (rule that) (simp_all add: wa_def s'_def True adjust_imee_vcpu_def)
  next
    case False
    have "handle_ept_violation_imee K n w = Some (1, wb)"
      using False tr t r gpa fl
      by (simp add: handle_ept_violation_imee_def Let_def adjust_imee_vcpu_def vmcs_ops wb_def s'_def)
    then show ?thesis by (rule that) (simp_all add: wb_def s'_def False adjust_imee_vcpu_def)
  qed
qed

lemma unvisited_replace:
  assumes "ctxs_ok s" "c \<in> set (contexts s)" "ctx_kvm c' = ctx_kvm c" "visited c' = visited c"
  shows "length (unvisited (replace_ctx c' (contexts s))) = length (unvisited (contexts s))"
proof -
  have "distinct (map ctx_kvm (contexts s))" using assms(1) by (simp add: ctxs_ok_def)
  then have "visited (if ctx_kvm d = ctx_kvm c then c' else d) = visited d" if "d \<in> set (contexts s)" for d
    using that assms(2-4) by (auto simp: distinct_map inj_on_def)
  then have "filter ((\<lambda>c. visited c = 0) \<circ> (\<lambda>d. if ctx_kvm d = ctx_kvm c then c' else d)) (contexts s) =
      filter (\<lambda>c. visited c = 0) (contexts s)"
    by (intro filter_cong) auto
  then show ?thesis by (simp add: unvisited_def replace_ctx_def filter_map assms(3))
qed

lemma target_in: "target_ctx w = Some c \<Longrightarrow> c \<in> set (contexts (im w))"
  by (auto simp: target_ctx_def kvm_to_ctx_def find_Some_iff split: option.splits)

lemma target_ctx_some:
  assumes "target_listed (im w)" "current_target (im w) \<noteq> None"
  obtains c where "target_ctx w = Some c"
proof (cases "target_ctx w")
  case None
  then have "\<not> target_listed (im w)"
    using assms(2) by (auto simp: target_listed_def target_ctx_def kvm_to_ctx_None split: option.splits)
  with assms(1) show ?thesis by contradiction
qed (rule that)

text \<open>The EPT violation of a scan: served from any state that satisfies the invariant.\<close>

lemma violation_post:
  assumes ok: "sys_ok org (Running, w)" and tr: "trial_run w \<noteq> 0" and tg: "target_ctx w = Some c"
    and gpa: "vmcs_read64 GUEST_PHYSICAL_ADDRESS (vcpus w n) = gpa" "gpa < 2 ^ 48"
  obtains w' c' where "handle_ept_violation_imee K n w = Some (1, w')" and "sys_ok org (Running, w')"
    and "trial_run w' = 0" "do_switch w' = 0" "target_ctx w' = Some c'" "eptptr c' = eptptr c"
    and "\<forall>x < 2 ^ 48. gpage x \<noteq> gpage gpa \<longrightarrow> ept_view (c', hst (im w')) x = org (ctx_kvm c) (gpage x)"
    and "ept_view (c', hst (im w')) gpa AND NOT EPT_MASK = code_hpa (im w')"
    and "ept_view (c', hst (im w')) gpa AND 4 \<noteq> 0"
    and "regs (vcpus w' n) RIP = imee_start_rip (last_rip w) (imee_arg (im w))"
    and "do_switch w = 0 \<Longrightarrow> vmcs (vcpus w' n) GUEST_CR3 = PD_GPA"
    and "do_switch w = 0 \<Longrightarrow> regs (vcpus w' n) RBX = ucast (last_cr3 w)"
proof -
  let ?s = "im w"
  note a = ok [unfolded sys_ok_def Let_def]
  have c: "c \<in> set (contexts ?s)" by (rule target_in [OF tg])
  then have ne: "contexts ?s \<noteq> []" by auto
  have pg: "page_addr (code_hpa ?s)" using a ne by (simp add: pages_ok_def module_frames_def)
  have left: "3 * scans_left Running w \<le> avail_frames (hst ?s)" using a ne by simp
  then have av: "3 \<le> avail_frames (hst ?s)" using tr by (simp add: scans_left_def)
  have ck: "ctxs_ok ?s" and ai: "\<forall>d \<in> set (contexts ?s). ctx_inv org ?s d (hst ?s)"
    and tl: "target_listed ?s" using a by auto
  obtain c' h' where rg: "remap_gpa_code (gfpages K) (code_hpa ?s) gpa c (hst ?s) = Some (0, c', h')"
    and k: "ctx_kvm c' = ctx_kvm c" "visited c' = visited c" "eptptr c' = eptptr c"
    and av': "avail_frames (hst ?s) \<le> avail_frames h' + 3"
    and okn: "ctxs_ok (?s\<lparr>hst := h', contexts := replace_ctx c' (contexts ?s)\<rparr>)"
    and inv: "\<forall>d \<in> set (replace_ctx c' (contexts ?s)). ctx_inv org ?s d h'"
    and oth: "\<forall>d \<in> set (contexts ?s). d \<noteq> c \<longrightarrow> (\<forall>x. ept_view (d, h') x = ept_view (d, hst ?s) x)"
    and vw: "\<And>x. x < 2 ^ 48 \<Longrightarrow> gpage x \<noteq> gpage gpa \<Longrightarrow> ept_view (c', h') x = org (ctx_kvm c) (gpage x)"
    and e: "ept_view (c', h') gpa AND NOT EPT_MASK = code_hpa ?s" "ept_view (c', h') gpa AND 4 \<noteq> 0"
    by (rule remap_all [OF ck ai pg c av gpa(2), of "gfpages K"], rule that)
  obtain w' where h: "handle_ept_violation_imee K n w = Some (1, w')"
    and im: "im w' = ?s\<lparr>hst := h', contexts := replace_ctx c' (contexts ?s)\<rparr>"
    and t: "trial_run w' = 0" "do_switch w' = 0"
    and r: "regs (vcpus w' n) RIP = imee_start_rip (last_rip w) (imee_arg ?s)"
      "do_switch w = 0 \<Longrightarrow> vmcs (vcpus w' n) GUEST_CR3 = PD_GPA"
      "do_switch w = 0 \<Longrightarrow> regs (vcpus w' n) RBX = ucast (last_cr3 w)"
    by (rule violation_served [OF tr tg gpa(1) rg], rule that)
  have ids: "ctx_kvm ` set (replace_ctx c' (contexts ?s)) = ctx_kvm ` set (contexts ?s)"
    by (metis set_map replace_ctx_ids)
  have left': "3 * scans_left Running w' \<le> avail_frames h'"
    using left av' tr unvisited_replace [OF ck c k(1,2)] by (simp add: scans_left_def im t(1))
  have ow: "own_rights (im w') x = own_rights ?s x" for x by (rule own_rights_cong) (simp_all add: module_frames_def im)
  have "\<forall>d \<in> set (replace_ctx c' (contexts ?s)). ctx_inv org (im w') d h'"
    using inv by (simp add: ctx_inv_def ow)
  then have ok': "sys_ok org (Running, w')"
    using a okn left' ne ids by (auto simp: sys_ok_def Let_def im target_listed_def pages_ok_def module_frames_def)
  have kc: "current_target ?s = Some (ctx_kvm c)"
    using tg by (auto simp: target_ctx_def kvm_to_ctx_def find_Some_iff split: option.splits)
  have "c' \<in> set (replace_ctx c' (contexts ?s))" using c k(1) by (force simp: replace_ctx_def)
  then have tg': "target_ctx w' = Some c'"
    using okn kc k(1) by (simp add: target_ctx_def im kvm_to_ctx_Some ctxs_ok_def)
  show ?thesis
    by (rule that [OF h ok' t tg' k(3)]) (use vw e r in \<open>auto simp: im\<close>)
qed

subsection \<open>Every step keeps the invariant\<close>

lemma stop_globals:
  assumes "kvm_imee_stop n w = Some (r, w')"
  shows "r = 0" "contexts (im w') = []" "current_target (im w') = None" "code_hpa (im w') = 0"
    "data_hpa (im w') = 0" "imee_vcpu w' = None" "imee_pid w' = 0" "last_cr3 w' = 0" "exit_flg w' = 0"
    "release_ept_frames (hst (im w)) = Some (hst (im w'))" "idt_vectors w' = idt_vectors w" "ipis w' = ipis w"
  using assms
  by (cases "go_flg w = 2"; auto simp: kvm_imee_stop_def remove_int_handlers_def free_contexts_def Let_def
      upd_vcpu_def split: option.splits)+

lemma sys_ok_stopped:
  assumes "kvm_imee_stop n w = Some (r, w')"
  shows "sys_ok org (p, w')"
  using stop_globals [OF assms] by (simp add: sys_ok_def ctxs_ok_def target_listed_def Let_def pairwise_def)

lemma sample_globals:
  assumes "imee_write_eoi cpu w = Some w'"
  shows "im w' = im w" "trial_run w' = trial_run w"
  using assms by (auto simp: imee_write_eoi_def Let_def split: if_splits prod.splits)

lemma sys_ok_step:
  assumes ok: "sys_ok org c" and un: "unarmed c" and st: "wstep K n c c'"
  shows "sys_ok org c'"
  using st ok
proof cases
  case (run w w')
  then show ?thesis using sys_ok_start [OF _ run(3)] ok by blast
next
  case (vmcall w w')
  then show ?thesis using sys_ok_start [OF _ vmcall(4)] ok by blast
next
  case (run_none w r w')
  have "im w' = im w" "trial_run w' = trial_run w" using start_prepare_globals [OF run_none(3)] by auto
  then show ?thesis using sys_ok_same [of org Stopped w w' Stopped] ok run_none by (simp add: scans_left_def)
next
  case (vmcall_none w r w')
  have "im (scan_over w') = im w" "trial_run (scan_over w') = trial_run w"
    using start_prepare_globals [OF vmcall_none(4)] by (auto simp: scan_over_def)
  then show ?thesis using sys_ok_same [of org Running w "scan_over w'" Stopped] ok vmcall_none
    by (simp add: scans_left_def)
next
  case (vmcall_one w)
  have "im (scan_over w) = im w" "trial_run (scan_over w) = trial_run w" by (auto simp: scan_over_def)
  then show ?thesis using sys_ok_same [of org Running w "scan_over w" Stopped] ok vmcall_one
    by (simp add: scans_left_def)
next
  case (spin w j b)
  then show ?thesis using sys_ok_same [of org "Waiting b j" w w "Waiting b (Suc j)"] ok
    by (simp add: scans_left_def)
next
  case (timeout w j b)
  have "im (if b then scan_over w else w) = im w" "trial_run (if b then scan_over w else w) = trial_run w"
    by (auto simp: scan_over_def)
  then show ?thesis using sys_ok_same [of org "Waiting b j" w "if b then scan_over w else w" Stopped] ok timeout
    by (simp add: scans_left_def)
next
  case (served w b j)
  have "im (start_finish K n w) = im w" by (simp add: start_finish_def Let_def)
  then show ?thesis using sys_ok_same [of org "Waiting b j" w "start_finish K n w" Running] ok served
    by (simp add: scans_left_def)
next
  case (entry w)
  have "do_switch w = 0" using un entry by (simp add: unarmed_def)
  then have "im (vcpu_run_imee_entry n w) = im w" "trial_run (vcpu_run_imee_entry n w) = trial_run w"
    by (simp_all add: vcpu_run_imee_entry_def Let_def)
  then show ?thesis using sys_ok_same [of org Running w "vcpu_run_imee_entry n w" Running] ok entry
    by (simp add: scans_left_def)
next
  case (violation gpa w r w')
  let ?w = "upd_vcpu n (vmcs_write64 GUEST_PHYSICAL_ADDRESS gpa) w"
  have ok1: "sys_ok org (Running, ?w)"
    by (rule sys_ok_same [OF ok [unfolded violation(1)]]) (simp_all add: scans_left_def)
  have g: "vmcs_read64 GUEST_PHYSICAL_ADDRESS (vcpus ?w n) = gpa" by (simp add: vmcs_ops)
  show ?thesis
  proof (cases "trial_run ?w = 0")
    case True
    then have "im w' = im ?w" "trial_run w' = trial_run ?w" "r = -1"
      using violation(4) by (auto simp: handle_ept_violation_imee_def split: option.splits)
    with violation(2) show ?thesis
      using sys_ok_same [OF ok1, of w' Stopped] by (simp add: scans_left_def)
  next
    case False
    show ?thesis
    proof (cases "target_ctx ?w")
      case None
      then have "target_ctx (?w\<lparr>trial_run := 0\<rparr>) = None" by (simp add: target_ctx_def split: option.splits)
      with False violation(4) show ?thesis by (simp add: handle_ept_violation_imee_def Let_def)
    next
      case (Some d)
      obtain w2 where "handle_ept_violation_imee K n ?w = Some (1, w2)" "sys_ok org (Running, w2)"
        by (rule violation_post [OF ok1 False Some g violation(3), where K = K], rule that)
      with violation(2,4) show ?thesis by simp
    qed
  qed
next
  case (exception w r w')
  have "im w' = im w" "trial_run w' = trial_run w"
    using exception(3) by (auto simp: handle_exception_imee_def split: if_splits)
  then show ?thesis using sys_ok_same [of org Running w w' "if r = 1 then Running else Stopped"] ok exception(1,2)
    by (simp add: scans_left_def)
next
  case (sample cpu w w' p)
  have "sys_ok org (p, w)" using ok sample(1) by simp
  then show ?thesis unfolding sample(2)
    by (rule sys_ok_same) (use sample_globals [OF sample(4)] in \<open>simp_all add: scans_left_def\<close>)
next
  case (notify cpu w p)
  then show ?thesis
    using sys_ok_same [of org p w _ p] ok by (simp add: scans_left_def imee_trace_cr3_def)
next
  case (guest_entry task m w go w' p)
  have "im w' = im w" "trial_run w' = trial_run w"
    using guest_entry(3) by (auto simp: vcpu_run_guest_entry_def split: option.splits if_splits)
  then show ?thesis using sys_ok_same [of org p w w' p] ok guest_entry(1,2) by (simp add: scans_left_def)
next
  case (guest_exit cpu task go m ic reg_read w again w' p)
  have "im w' = im w" "trial_run w' = trial_run w"
    using guest_exit(1,3) un
    by (auto simp: guest_cr3_exit_def unarmed_def Let_def split: option.splits if_splits)
  then show ?thesis using sys_ok_same [of org p w w' p] ok guest_exit(1,2) by (simp add: scans_left_def)
next
  case (hardware p w vs cs ls)
  then show ?thesis using sys_ok_same [of org p w _ p] ok by (simp add: scans_left_def)
next
  case (stop w r w')
  then show ?thesis using sys_ok_stopped by blast
next
  case (release pid m w w' p)
  then show ?thesis using sys_ok_stopped ok by (auto simp: kvm_vcpu_release_def split: if_splits)
qed

lemma reachable_sys_ok:
  assumes "reachable K n w0 c" "sys_ok org (Stopped, w0)" "unarmed (Stopped, w0)"
  shows "sys_ok org c \<and> unarmed c"
  using assms(1)
  by (rule reachable_invariant) (use assms(2,3) sys_ok_step unarmed_step in blast)+

lemma sys_ok_isolated:
  assumes "sys_ok org (p, w)" "c \<in> set (contexts (im w))" "x < 2 ^ 48"
  shows "own_rights (im w) (ept_view (c, hst (im w)) x)"
  using assms by (auto simp: sys_ok_def Let_def ctx_inv_def)

end
