(* ===== verification/Setup.thy ===== *)
theory Setup
  imports Isolation
begin

text \<open>
  The request \<^verbatim>\<open>KVM_IMEE_SETUP\<close> establishes the invariant of \<^verbatim>\<open>Isolation\<close>:
  the pool of frames, the module's page tables and the contexts of all VMs
  (\<^verbatim>\<open>kvm_imee_get_guest_context\<close> in \<^verbatim>\<open>kvm/imee.c\<close>).
\<close>

subsection \<open>What the caller provides\<close>

text \<open>The host state after \<^verbatim>\<open>init_ept_frames\<close>.\<close>

definition setup_host :: "kenv \<Rightarrow> world \<Rightarrow> host" where
  "setup_host K w = init_ept_frames (gfpages K) (hst (im w))"

text \<open>Nothing of an earlier run is left, the kernel has a block of \<open>2 ^ PAGE_ORDER\<close> pages and three
  zeroed pages, and the two user pages of the module are present.\<close>

definition fresh_world :: "kenv \<Rightarrow> arg_blk \<Rightarrow> world \<Rightarrow> bool" where
  "fresh_world K argp w \<longleftrightarrow>
     contexts (im w) = [] \<and> current_target (im w) = None \<and> trial_run w = 0 \<and> unarmed (Stopped, w) \<and>
     p_base (hst (im w)) = 0 \<and> chunk_ok (gfpages K (gfpages_calls (hst (im w)))) \<and>
     fresh_zpages (zpages K) (zpages_calls (im w)) \<and> (\<forall>k < 3. zpages K (zpages_calls (im w) + k) \<noteq> 0) \<and>
     get_pte (cur_mm K) (data_host argp) \<noteq> None \<and> get_pte (cur_mm K) (code_host argp) \<noteq> None"

text \<open>The VMs on the list: each has an identity of its own, and the pool has room for their contexts and
  for one remapping each.\<close>

definition vms_fit :: "kenv \<Rightarrow> int \<Rightarrow> vm list \<Rightarrow> world \<Rightarrow> bool" where
  "vms_fit K pid vms w \<longleftrightarrow>
     distinct (map vm_id vms) \<and> (\<forall>v \<in> set (introspected pid vms). vm_ok v (setup_host K w)) \<and>
     frames_needed pid vms + 3 * length (introspected pid vms) \<le> 1023"

lemma init_frames_avail:
  "p_base h = 0 \<Longrightarrow> chunk_ok (gf (gfpages_calls h)) \<Longrightarrow> avail_frames (init_ept_frames gf h) = 1023"
  by (simp add: init_ept_frames_def do_alloc_ept_frames_def avail_frames_def Let_def)

lemma create_contexts_keeps:
  "create_contexts gf pid vms s = Some s' \<Longrightarrow>
     mem32 s' = mem32 s \<and> imee_arg s' = imee_arg s \<and> current_target s' = current_target s"
proof (induction vms arbitrary: s)
  case (Cons v vms)
  then obtain s1 where s1: "create_introspection_context gf pid v s = Some s1"
    "create_contexts gf pid vms s1 = Some s'" by (auto split: option.splits Option.bind_splits)
  have "mem32 s1 = mem32 s \<and> imee_arg s1 = imee_arg s \<and> current_target s1 = current_target s"
    using s1(1) by (auto simp: create_introspection_context_def split: if_splits Option.bind_splits)
  with Cons.IH [OF s1(2)] show ?case by simp
qed simp

lemma local_maps_frames:
  "local_maps s' = local_maps s \<Longrightarrow>
     code_hpa s' = code_hpa s \<and> data_hpa s' = data_hpa s \<and> fake_cr3_pd_hpa s' = fake_cr3_pd_hpa s \<and>
     fake_cr3_pt_hpa_exec s' = fake_cr3_pt_hpa_exec s \<and> fake_cr3_pt_hpa_data s' = fake_cr3_pt_hpa_data s"
  by (simp add: local_maps_def)

lemma init_local_defined:
  assumes "get_pte mm (data_host (imee_arg s)) \<noteq> None" "get_pte mm (code_host (imee_arg s)) \<noteq> None"
    "\<forall>k < 3. zp (zpages_calls s + k) \<noteq> 0"
  obtains s' where "init_local_page_tables zp mm s = Some (0, s')"
    and "imee_arg s' = imee_arg s" "current_target s' = current_target s"
proof -
  have "zp (zpages_calls s) \<noteq> 0" "zp (zpages_calls s + 1) \<noteq> 0" "zp (zpages_calls s + 2) \<noteq> 0"
    using assms(3) [rule_format, of 0] assms(3) [rule_format, of 1] assms(3) [rule_format, of 2] by simp_all
  then show ?thesis using that assms(1,2) by (auto simp: init_local_page_tables_def Let_def)
qed

text \<open>The abstract state of each context: the entry its EPT was created with, by page.\<close>

definition org_of :: "imee \<Rightarrow> ptmem \<Rightarrow> vm list \<Rightarrow> nat \<Rightarrow> u64 \<Rightarrow> u64" where
  "org_of s m vms k p =
     (case find (\<lambda>v. vm_id v = k) vms of Some v \<Rightarrow> imee_view s m v (push_bit 12 p) | None \<Rightarrow> 0)"

lemma gpage_push: "gpage (push_bit 12 (gpage x)) = gpage x"
  by (rule bit_word_eqI) (auto simp: gpage_def bit_simps)

lemma imee_view_page:
  assumes "x < 2 ^ 48"
  shows "imee_view s m v (push_bit 12 (gpage x)) = imee_view s m v x"
proof -
  have d: "drop_bit 12 (push_bit 12 (gpage x)) = gpage x"
    by (rule bit_word_eqI) (auto simp: gpage_def bit_simps)
  have t: "gpage x = drop_bit 12 x"
  proof (rule bit_word_eqI)
    fix n
    have "bit x (12 + n) \<Longrightarrow> n < 36" using assms [unfolded less_48_bits, rule_format, of "12 + n"] by linarith
    then show "bit (gpage x) n = bit (drop_bit 12 x) n" by (auto simp: gpage_def bit_simps)
  qed
  have "pt_idx (push_bit 12 (gpage x)) = pt_idx x"
    by (rule bit_word_eqI) (auto simp: pt_idx_def gpage_def bit_simps)
  then have "guest_entry m (active_mmu_pages v) (push_bit 12 (gpage x)) = guest_entry m (active_mmu_pages v) x"
    by (simp add: guest_entry_def d flip: t split: option.split)
  then show ?thesis by (simp add: imee_view_def gpage_push guest_ro_def split: option.split)
qed

lemma find_id: "distinct (map vm_id vms) \<Longrightarrow> v \<in> set vms \<Longrightarrow> find (\<lambda>u. vm_id u = vm_id v) vms = Some v"
  by (induction vms) auto

subsection \<open>The request\<close>

lemma setup_post:
  assumes fresh: "fresh_world K argp w" and fit: "vms_fit K pid vms w"
  obtains s2 s3 w' where "kvm_imee_get_guest_context K pid argp vms n w = Some (0, w')" and "im w' = s3"
    and "init_local_page_tables (zpages K) (cur_mm K) ((im w)\<lparr>hst := setup_host K w, imee_arg := argp\<rparr>) = Some (0, s2)"
    and "create_contexts (gfpages K) pid vms s2 = Some s3"
    and "contexts_made (introspected pid vms) (frames_needed pid vms) s2 s3"
    and "local_tables s2" "pages_ok s2" "hst s2 = setup_host K w" "contexts s2 = []"
    and "current_target s3 = None" "mem32 s3 = mem32 s2" "imee_arg s3 = argp" "imee_pid w' = pid"
    and "trial_run w' = 0" "unarmed (Stopped, w')"
proof -
  note f = fresh [unfolded fresh_world_def]
  let ?s1 = "(im w)\<lparr>hst := setup_host K w, imee_arg := argp\<rparr>"
  obtain s2 where s2: "init_local_page_tables (zpages K) (cur_mm K) ?s1 = Some (0, s2)"
    "imee_arg s2 = argp" "current_target s2 = None"
    using init_local_defined [of "cur_mm K" ?s1 "zpages K"] f by auto
  have "fresh_zpages (zpages K) (zpages_calls ?s1)" using f by simp
  note l = init_local_tables [OF s2(1) this]
  have c0: "contexts s2 = []" and h2: "hst s2 = setup_host K w" using l(5,6) f by simp_all
  have av: "avail_frames (hst s2) = 1023"
    unfolding h2 setup_host_def by (rule init_frames_avail) (use f in simp_all)
  have ok0: "ctxs_ok s2" by (simp add: ctxs_ok_def c0)
  note g = fit [unfolded vms_fit_def]
  have "frames_needed pid vms \<le> avail_frames (hst s2)" using g av by simp
  then obtain s3 where s3: "create_contexts (gfpages K) pid vms s2 = Some s3"
    "contexts_made (introspected pid vms) (frames_needed pid vms) s2 s3"
    using create_contexts_post [OF ok0, of pid vms "gfpages K"] g h2 by auto
  note k = create_contexts_keeps [OF s3(1)]
  let ?w = "(install_int_handlers (init_global_vars pid n w))\<lparr>im := s3\<rparr>"
  have r: "kvm_imee_get_guest_context K pid argp vms n w = Some (0, ?w)"
    using s2(1) s3(1)
    by (simp add: kvm_imee_get_guest_context_def setup_host_def install_int_handlers_def init_global_vars_def Let_def)
  have p: "pages_ok s2" using l(1-4) by (auto simp: pages_ok_def module_frames_def local_tables_def)
  have un: "unarmed (Stopped, ?w)" "trial_run ?w = 0"
    using f by (simp_all add: unarmed_def install_int_handlers_def init_global_vars_def)
  show ?thesis
    by (rule that [OF r _ s2(1) s3 l(1) p h2 c0])
      (use k s2 un in \<open>simp_all add: install_int_handlers_def init_global_vars_def\<close>)
qed

lemma contexts_made_length:
  assumes "contexts_made vs k s s'" "contexts s = []"
  shows "length (contexts s') \<le> length vs"
proof -
  have "card (ctx_kvm ` set (contexts s')) = length (contexts s')"
    using assms(1) distinct_card [of "map ctx_kvm (contexts s')"] by (simp add: contexts_made_def ctxs_ok_def)
  moreover have "ctx_kvm ` set (contexts s') = vm_id ` set vs"
    using assms by (simp add: contexts_made_def)
  moreover have "card (vm_id ` set vs) \<le> length vs"
    using card_image_le [of "set vs" vm_id] card_length [of vs] by (meson List.finite_set le_trans)
  ultimately show ?thesis by simp
qed

lemma setup_sys_ok:
  assumes "fresh_world K argp w" and fit: "vms_fit K pid vms w"
  obtains w' org where "kvm_imee_get_guest_context K pid argp vms n w = Some (0, w')"
    and "sys_ok org (Stopped, w')" "unarmed (Stopped, w')"
    and "ctx_kvm ` set (contexts (im w')) = vm_id ` set (introspected pid vms)"
    and "org = org_of (im w') (ept_mem (setup_host K w)) (introspected pid vms)"
    and "\<forall>c \<in> set (contexts (im w')). visited c = 0"
    and "\<forall>c \<in> set (contexts (im w')). \<forall>va.
      translate (\<lambda>x. ept_view (c, hst (im w')) x) (mem32 (im w')) (ucast PD_GPA) va =
        Some (if drop_bit 12 va = 0 then (data_hpa (im w'), 3) else (code_hpa (im w'), 4))"
proof (rule setup_post [OF assms, of n])
  fix s2 s3 w'
  assume r: "kvm_imee_get_guest_context K pid argp vms n w = Some (0, w')" and im: "im w' = s3"
    and m: "contexts_made (introspected pid vms) (frames_needed pid vms) s2 s3"
    and l: "local_tables s2" "pages_ok s2" "hst s2 = setup_host K w" "contexts s2 = []"
    and t: "current_target s3 = None" "mem32 s3 = mem32 s2" "trial_run w' = 0" "unarmed (Stopped, w')"
  let ?m = "ept_mem (setup_host K w)" and ?vs = "introspected pid vms"
  note a = m [unfolded contexts_made_def]
  have lm: "local_maps s3 = local_maps s2" using a by simp
  note fr = local_maps_frames [OF lm]
  have p3: "pages_ok s3" using l(2) fr by (simp add: pages_ok_def module_frames_def)
  have lt3: "local_tables s3" using l(1) fr t(2) by (simp add: local_tables_def)
  have d: "distinct (map vm_id ?vs)" using fit by (simp add: vms_fit_def introspected_def distinct_map_filter)
  let ?org = "org_of s3 ?m ?vs"
  have ck: "ctxs_ok s3" using a by simp
  have one: "ctx_inv ?org s3 c (hst s3) \<and> views s3 ?m v c (hst s3) \<and> visited c = 0"
    if c: "c \<in> set (contexts s3)" "v \<in> set ?vs" "ctx_kvm c = vm_id v" for c v
  proof -
    obtain c1 where "kvm_to_ctx (vm_id v) (contexts s3) = Some c1" "code_ept_pte_p c1 = None" "visited c1 = 0"
      "views s2 (ept_mem (hst s2)) v c1 (hst s3)"
      using a c(2) l(4) by auto
    moreover have "kvm_to_ctx (vm_id v) (contexts s3) = Some c"
      using ck c kvm_to_ctx_Some [of "contexts s3" "vm_id v" c] by (simp add: ctxs_ok_def)
    ultimately have c1: "code_ept_pte_p c = None" "visited c = 0" "views s2 ?m v c (hst s3)" by (simp_all add: l(3))
    then have v: "views s3 ?m v c (hst s3)" using c1(3) by (simp add: views_def imee_view_def lm)
    have o: "?org (ctx_kvm c) (gpage x) = imee_view s3 ?m v x" if "x < 2 ^ 48" for x
      using find_id [OF d c(2)] imee_view_page [OF that] c(3) by (simp add: org_of_def)
    have "ctx_ok c (hst s3)" using ctxs_okD(1) [OF ck c(1)] .
    then show ?thesis using v o c1(1,2) own_rights_view [OF p3] by (auto simp: ctx_inv_def remapped_def views_def)
  qed
  have ids: "ctx_kvm ` set (contexts s3) = vm_id ` set ?vs" using a l(4) by simp
  have vm: "\<exists>v \<in> set ?vs. ctx_kvm c = vm_id v" if "c \<in> set (contexts s3)" for c
    using that ids by (metis imageE imageI)
  have len: "length (unvisited (contexts s3)) \<le> length ?vs"
    using contexts_made_length [OF m l(4)] le_trans [OF length_filter_le] by (fastforce simp: unvisited_def)
  have "avail_frames (hst s2) = 1023"
    using assms(1) unfolding l(3) setup_host_def fresh_world_def by (intro init_frames_avail) simp_all
  then have av: "3 * scans_left Stopped w' \<le> avail_frames (hst s3)"
    using a fit len by (simp add: scans_left_def im t(3) vms_fit_def)
  have "\<forall>c \<in> set (contexts s3). ctx_inv ?org s3 c (hst s3)" using one vm by blast
  then have ok: "sys_ok ?org (Stopped, w')"
    using ck p3 av t(1) by (auto simp: sys_ok_def Let_def im target_listed_def)
  have pa: "page_addr (fake_cr3_pd_hpa s3)" "page_addr (fake_cr3_pt_hpa_exec s3)" "page_addr (fake_cr3_pt_hpa_data s3)"
    using p3 by (auto simp: pages_ok_def module_frames_def)
  show ?thesis
  proof (rule that [OF r ok t(4)])
    show "\<forall>c \<in> set (contexts (im w')). visited c = 0" using one vm unfolding im by blast
    show "\<forall>c \<in> set (contexts (im w')). \<forall>va.
      translate (\<lambda>x. ept_view (c, hst (im w')) x) (mem32 (im w')) (ucast PD_GPA) va =
        Some (if drop_bit 12 va = 0 then (data_hpa (im w'), 3) else (code_hpa (im w'), 4))"
      using one vm translate_local [OF lt3 pa] by (metis im)
  qed (simp_all add: im ids)
qed

end
