(* ===== verification/Scan_Runs.thy ===== *)
theory Scan_Runs
  imports Setup
begin

text \<open>
  Runs of the protocol: the request and the module's \<^verbatim>\<open>VMCALL\<close> as functions are sequences of
  steps of the interleaving, a delivered interrupt lets the module run, and the functional behaviour of
  the handlers of the interrupt and of the stop request.
\<close>

subsection \<open>The functions as sequences of steps\<close>

text \<open>What the other processors do during the wait are steps of the relation.\<close>

definition others_step :: "kenv \<Rightarrow> nat \<Rightarrow> (nat \<Rightarrow> world \<Rightarrow> world option) \<Rightarrow> bool" where
  "others_step K n others \<longleftrightarrow>
     (\<forall>j x y. others j x = Some y \<longrightarrow> (\<forall>b i. (wstep K n)\<^sup>*\<^sup>* (Waiting b i, x) (Waiting b i, y)))"

lemma wait_exit_steps:
  assumes "others_step K n others" "wait_exit others j w = Some (r, w')"
  shows "\<exists>k. (wstep K n)\<^sup>*\<^sup>* (Waiting b j, w) (Waiting b k, w') \<and>
    (r = 0 \<and> exit_flg w' \<noteq> 1 \<or> r = -1 \<and> exit_flg w' = 1 \<and> WAIT_LIMIT < Suc k)"
  using assms
proof (induction others j w rule: wait_exit.induct [case_names step])
  case (step others j w)
  note e = step.prems(2) [unfolded wait_exit.simps [of others j w]]
  obtain w1 where w1: "others j w = Some w1" using e by (cases "others j w") auto
  have o: "(wstep K n)\<^sup>*\<^sup>* (Waiting b j, w) (Waiting b j, w1)"
    using step.prems(1) w1 by (simp add: others_step_def)
  show ?case
  proof (cases "exit_flg w1 = 1 \<and> Suc j \<le> WAIT_LIMIT")
    case True
    then have "wait_exit others (Suc j) w1 = Some (r, w')" using e w1 by simp
    then obtain k where k: "(wstep K n)\<^sup>*\<^sup>* (Waiting b (Suc j), w1) (Waiting b k, w')"
      "r = 0 \<and> exit_flg w' \<noteq> 1 \<or> r = -1 \<and> exit_flg w' = 1 \<and> WAIT_LIMIT < Suc k"
      using step.IH [OF w1 _ _ step.prems(1)] True by auto
    have "wstep K n (Waiting b j, w1) (Waiting b (Suc j), w1)" using True by (intro wstep.spin) auto
    from rtranclp.rtrancl_into_rtrancl [OF o this] k show ?thesis by (meson rtranclp_trans)
  next
    case False
    then have "w' = w1" "r = 0 \<and> exit_flg w1 \<noteq> 1 \<or> r = -1 \<and> exit_flg w1 = 1 \<and> WAIT_LIMIT < Suc j"
      using e w1 by (auto split: if_splits)
    with o show ?thesis by blast
  qed
qed

lemma start_guest_intercept_steps:
  assumes "others_step K n others" "start_guest_intercept K others n w = Some (r, w')"
  shows "(wstep K n)\<^sup>*\<^sup>* (Stopped, w) (if r = 0 then Running else Stopped, w')"
proof (cases "start_prepare K n w")
  case (Inl a)
  obtain q w1 where a: "a = (q, w1)" by (cases a)
  then have "q = -1" using start_prepare_globals [OF Inl] by simp
  then show ?thesis using assms(2) Inl a wstep.run_none [of K n w q w1]
    by (auto simp: start_guest_intercept_def)
next
  case (Inr w1)
  obtain r2 w2 where w2: "wait_exit others 0 w1 = Some (r2, w2)"
    using assms(2) Inr by (cases "wait_exit others 0 w1") (auto simp: start_guest_intercept_def)
  obtain k where k: "(wstep K n)\<^sup>*\<^sup>* (Waiting False 0, w1) (Waiting False k, w2)"
    "r2 = 0 \<and> exit_flg w2 \<noteq> 1 \<or> r2 = -1 \<and> exit_flg w2 = 1 \<and> WAIT_LIMIT < Suc k"
    using wait_exit_steps [OF assms(1) w2] by blast
  have s: "(wstep K n)\<^sup>*\<^sup>* (Stopped, w) (Waiting False k, w2)"
    using wstep.run [OF Inr] k(1) by (rule converse_rtranclp_into_rtranclp)
  show ?thesis
  proof (cases "r2 = -1")
    case True
    then have "wstep K n (Waiting False k, w2) (Stopped, w2)" "r = -1" "w' = w2"
      using wstep.timeout [of w2 k K n False] k(2) assms(2) Inr w2 by (auto simp: start_guest_intercept_def)
    with s show ?thesis by (simp add: rtranclp.rtrancl_into_rtrancl)
  next
    case False
    then have "wstep K n (Waiting False k, w2) (Running, start_finish K n w2)"
      using k(2) by (intro wstep.served) auto
    moreover have "r = 0" "w' = start_finish K n w2"
      using False assms(2) Inr w2 by (auto simp: start_guest_intercept_def)
    ultimately show ?thesis using s by (simp add: rtranclp.rtrancl_into_rtrancl)
  qed
qed

subsection \<open>The interrupt\<close>

text \<open>What the handler on the guest's processor does when it finds the target: the flag is raised when the
  target's \<^verbatim>\<open>CR3\<close> differs from the one of the last sample, which is 0 at the start of a scan.\<close>

lemma sample_first:
  assumes "target_ctx w = Some c" "last_cr3 w = 0"
  obtains w' where "imee_write_eoi cpu w = Some w'"
    and "last_cr3 w' = vmcs_read32 GUEST_CR3 (vcpus w (target_vcpu c))"
    and "exit_flg w' = (if last_cr3 w' = 0 then exit_flg w else exit_flg w + 1)"
    and "last_rip w' = vmcs_read32 GUEST_RIP (vcpus w (loaded_on w cpu))"
    and "imee_idt w' = vmx_get_idt (vcpus w (loaded_on w cpu))"
    and "imee_gdt w' = vmx_get_gdt (vcpus w (loaded_on w cpu))"
    and "im w' = im w" "vcpus w' = vcpus w" "ipis w' = ipis w" "trial_run w' = trial_run w"
proof -
  let ?v = "vcpus w (loaded_on w cpu)"
  let ?w2 = "w\<lparr>last_rsp := vmcs_read32 GUEST_RSP ?v, last_rip := vmcs_read32 GUEST_RIP ?v,
    imee_tr := vmx_get_seg_sec TR ?v (imee_tr w), imee_idt := vmx_get_idt ?v, imee_gdt := vmx_get_gdt ?v\<rparr>"
  let ?cr3 = "vmcs_read32 GUEST_CR3 (vcpus w (target_vcpu c))"
  have t: "target_ctx (w\<lparr>last_rsp := a, last_rip := b\<rparr>) = Some c" for a b
    using assms(1) by (auto simp: target_ctx_def split: option.splits)
  have "imee_write_eoi cpu w = Some (if ?cr3 \<noteq> 0 then ?w2\<lparr>last_cr3 := ?cr3, exit_flg := exit_flg w + 1\<rparr> else ?w2)"
    using assms t by (simp add: imee_write_eoi_def vmx_read_cr3_def vmx_read_rsp_rip_def Let_def)
  then show ?thesis by (rule that) (simp_all add: assms(2))
qed

lemma sample_step:
  assumes "(cpu, 0x56) \<in> set (ipis w)" "imee_write_eoi cpu w = Some w'"
  shows "wstep K n (p, w) (p, w'\<lparr>ipis := remove1 (cpu, 0x56) (ipis w')\<rparr>)"
  by (rule wstep.sample [OF assms])

text \<open>From a stopped state with a context to visit, one delivered interrupt is enough for the module to run.\<close>

lemma run_reaches_running:
  assumes ok: "ctxs_ok (im w)" and u: "unvisited (contexts (im w)) = c # rest"
    and cr3: "vmcs_read32 GUEST_CR3 g \<noteq> 0"
  obtains w' where "(wstep K n)\<^sup>*\<^sup>* (Stopped, w) (Running, w')" and "trial_run w' = 1"
    and "current_target (im w') = Some (ctx_kvm c)" and "last_cr3 w' = vmcs_read32 GUEST_CR3 g"
    and "target_ctx w' \<noteq> None"
proof -
  obtain w1 where p: "start_prepare K n w = Inr w1"
    using start_prepare_globals [of K n w] u by (cases "start_prepare K n w") (auto split: prod.splits)
  from start_prepare_globals [OF p] obtain cpu c' cs where
    ip: "ipis w1 = ipis w @ [(cpu, 0x56)]" and e: "exit_flg w1 = 1" and
    cs: "unvisited (contexts (im w)) = c' # unvisited cs"
      "map (\<lambda>c. c\<lparr>visited := 0\<rparr>) cs = map (\<lambda>c. c\<lparr>visited := 0\<rparr>) (contexts (im w))"
      "im w1 = (im w)\<lparr>contexts := cs, current_target := Some (ctx_kvm c')\<rparr>" by auto
  have c': "c' = c" using cs(1) u by simp
  have l1: "last_cr3 w1 = 0"
    using p by (auto simp: start_prepare_def Let_def send_IPI_def reset_go_flg_def split: prod.splits option.splits)
  have "c \<in> set (unvisited (contexts (im w)))" by (simp add: u)
  then have "c \<in> set (contexts (im w))" by (simp add: unvisited_def)
  then have "ctx_kvm c \<in> ctx_kvm ` set cs" using ctxs_ok_visited(2) [OF ok cs(2)] by simp
  then have k: "kvm_to_ctx (ctx_kvm c) cs \<noteq> None" by (simp add: kvm_to_ctx_None)
  define w2 where "w2 = w1\<lparr>vcpus := (\<lambda>_. g), vcpu_cpu := vcpu_cpu w1, loaded_on := loaded_on w1\<rparr>"
  obtain d where t2: "target_ctx w2 = Some d" using k by (auto simp: target_ctx_def w2_def cs(3) c')
  have l2: "last_cr3 w2 = 0" by (simp add: w2_def l1)
  obtain w3 where w3: "imee_write_eoi cpu w2 = Some w3" "last_cr3 w3 = vmcs_read32 GUEST_CR3 g"
    "exit_flg w3 = exit_flg w2 + 1" "im w3 = im w2"
    by (rule sample_first [OF t2 l2, of cpu]) (use that cr3 in \<open>simp add: w2_def\<close>)
  let ?w3 = "w3\<lparr>ipis := remove1 (cpu, 0x56) (ipis w3)\<rparr>"
  have s1: "wstep K n (Stopped, w) (Waiting False 0, w1)" by (rule wstep.run [OF p])
  have s2: "wstep K n (Waiting False 0, w1) (Waiting False 0, w2)" unfolding w2_def by (rule wstep.hardware)
  have s3: "wstep K n (Waiting False 0, w2) (Waiting False 0, ?w3)"
    by (rule sample_step [OF _ w3(1)]) (simp add: w2_def ip)
  have s4: "wstep K n (Waiting False 0, ?w3) (Running, start_finish K n ?w3)"
    by (rule wstep.served) (simp add: w3(3) w2_def e)
  have "(wstep K n)\<^sup>*\<^sup>* (Stopped, w) (Running, start_finish K n ?w3)"
    using s1 s2 s3 s4 by (meson rtranclp.rtrancl_into_rtrancl rtranclp.rtrancl_refl)
  then show ?thesis
    by (rule that) (use w3 t2 cs k c' in \<open>auto simp: start_finish_def Let_def target_ctx_def w2_def\<close>)
qed

subsection \<open>Stopping\<close>

text \<open>The interrupt handlers stay installed, so a sampling interrupt that arrives after the stop request
  dereferences the NULL target.\<close>

lemma late_sample:
  assumes "kvm_imee_stop n w = Some (r, w')"
  shows "imee_write_eoi cpu w' = None" "idt_vectors w' = idt_vectors w"
  using stop_globals [OF assms]
  by (auto simp: imee_write_eoi_def target_ctx_def Let_def vmx_read_rsp_rip_def)

lemma second_run:
  assumes "unvisited (contexts (im w)) = []"
  shows "start_guest_intercept K others n w = Some (-1, reset_go_flg (w\<lparr>last_cr3 := 0\<rparr>))"
  using start_prepare_globals [of K n w] get_next_ctx_spec(1) [OF assms]
  by (simp add: start_guest_intercept_def start_prepare_def Let_def)

subsection \<open>The registers the module starts with\<close>

lemma sync_adjusted:
  assumes "Gpr RSP \<notin> regs_dirty v"
  shows "vmcs (sync_regs (adjust_imee_vcpu rip d v)) GUEST_RIP = rip"
    "vmcs (sync_regs (adjust_imee_vcpu rip d v)) GUEST_RSP = vmcs v GUEST_RSP"
    "regs (sync_regs (adjust_imee_vcpu rip d v)) RSP = d + 0xFF0"
  using assms by (simp_all add: sync_regs_def adjust_imee_vcpu_def vmcs_ops Let_def)

end
