(* ===== verification/Example_State.thy ===== *)
theory Example_State
  imports Scan_Runs
begin

text \<open>
  Concrete values of the state records, at which the properties are evaluated: an idle vCPU whose
  fields are all zero, the functions outside the repository as their documentation describes them
  for it, a kernel whose allocators return distinct aligned pages, and the module at load time.
\<close>

definition example_host :: host where
  "example_host =
     \<lparr>p_bases = [0, 0, 0, 0], p_base = 0, p_base_idx = 0, p_idx = 0, gfpages_calls = 0, freed = [],
       ept_mem = (\<lambda>_ _. 0)\<rparr>"

definition example_kernel_mm :: kernel_mm where
  "example_kernel_mm =
     \<lparr>pgd_none = (\<lambda>_. False), pgd_bad = (\<lambda>_. False),
       pud_none = (\<lambda>_. False), pud_bad = (\<lambda>_. False),
       pmd_none = (\<lambda>_. False), pmd_bad = (\<lambda>_. False),
       pte_at = (\<lambda>a. a OR 0x67), pte_none = (\<lambda>_. False)\<rparr>"

definition example_arg_blk :: arg_blk where
  "example_arg_blk =
     \<lparr>arg_cr3 = 0, num_x_page = 0, num_w_page = 0, arg_offset = 0, code_host = 0, data_host = 0,
       arg_stack = 0, arg_entry = 0, int_handler = 0, arg_thunk = 0, arg_got = 0, got_len = 0,
       arg_gotplt = 0, gotplt_len = 0\<rparr>"

definition example_desc_ptr :: desc_ptr where
  "example_desc_ptr =
     \<lparr>desc_size = 0, desc_address = 0\<rparr>"

definition example_kvm_segment :: kvm_segment where
  "example_kvm_segment =
     \<lparr>base = 0, limit = 0, selector = 0, seg_type = 0, present = 0, dpl = 0, db = 0, seg_s = 0,
       seg_l = 0, seg_g = 0, avl = 0, unusable = 0\<rparr>"

definition example_imee :: imee where
  "example_imee =
     \<lparr>hst = example_host, contexts = [], current_target = None, imee_arg = example_arg_blk,
       code_hpa = 0, data_hpa = 0, code_entry = 0, fake_cr3_pd_hpa = 0, fake_cr3_pt_hpa_exec = 0,
       fake_cr3_pt_hpa_data = 0, mem32 = (\<lambda>_ _. 0), zpages_calls = 0\<rparr>"

definition example_kvm_save_segment :: kvm_save_segment where
  "example_kvm_save_segment =
     \<lparr>sv_selector = 0, sv_base = 0, sv_limit = 0, sv_ar = 0\<rparr>"

definition example_host_state :: host_state where
  "example_host_state =
     \<lparr>hs_loaded = False, hs_fs_sel = 0, hs_gs_sel = 0, hs_ldt_sel = 0, hs_ds_sel = 0,
       hs_es_sel = 0, gs_ldt_reload_needed = False, fs_reload_needed = False\<rparr>"

definition example_cpu_regs :: cpu_regs where
  "example_cpu_regs =
     \<lparr>cpu_ldt = 0, cpu_fs = 0, cpu_gs = 0, cpu_ds = 0, cpu_es = 0, cpu_fs_base = 0,
       cpu_gs_base = 0, cpu_kernel_gs_base = 0, cpu_ts = False, cpu_shared_msrs = [],
       cpu_tss_reloads = 0, cpu_gdt_loads = 0, cpu_pebs_enable = 0, cpu_xcr0 = 0\<rparr>"

definition example_vcpu :: vcpu where
  "example_vcpu =
     \<lparr>regs = (\<lambda>_. 0), regs_avail = {}, regs_dirty = {}, arch_cr0 = 0,
       cr0_guest_owned_bits = 0, arch_cr3 = 0, arch_cr4 = 0, cr4_guest_owned_bits = 0,
       arch_efer = 0, arch_cr2 = 0, arch_cr8 = 0, arch_apic_base = 0, xcr0 = 0,
       arch_dr = (\<lambda>_. 0), arch_dr6 = 0, arch_dr7 = 0, eff_db = (\<lambda>_. 0),
       exc_pending = False, exc_has_error_code = False, exc_nr = 0, exc_error_code = 0,
       exc_reinject = False, interrupt_pending = False, interrupt_soft = False, interrupt_nr = 0,
       nmi_injected = False, nmi_pending = 0, nmi_queued = 0, requests = {},
       event_exit_inst_len = 0, guest_debug_dr7 = 0, switch_db_regs = False,
       guest_xcr0_loaded = False, apf_gfns = [], root_hpa = 0, dirs = (\<lambda>_. 0),
       guest_debug = 0, fpu_active = False, guest_fpu_loaded = False, in_guest_mode = False,
       vmcs12_eb = 0, vmcs12_cr0 = 0, vmcs12_cr0_mask = 0, vmcs12_cr0_shadow = 0,
       nested_vmxon = False, tss_addr = 0, ept_identity_map_addr = 0, x2apic_in_kernel = False,
       host_state_reload = 0, vmcs = (\<lambda>_. 0), cpl = 0, rflags_cache = 0, guest_msrs = [],
       nmsrs = 0, save_nmsrs = 0, rdtscp_enabled = False, msr_host_kernel_gs_base = 0,
       msr_guest_kernel_gs_base = 0, autoload_nr = 0, autoload_guest = [], autoload_host = [],
       host_st = example_host_state, vm86_active = False, save_rflags = 0,
       rmode_segs = (\<lambda>_. example_kvm_segment), cache_mask = {},
       seg_cache = (\<lambda>_. example_kvm_save_segment), vpid = 0, emulation_req = False,
       exit_intr_info = 0, idt_vectoring_info = 0, vmx_exit_reason = 0, nmi_known_unmasked = False,
       soft_vnmi_blocked = False, vnmi_blocked_time = 0, nested_run_pending = False,
       hcpu = example_cpu_regs, flushes = []\<rparr>"

definition example_env :: env where
  "example_env =
     \<lparr>enable_ept = True, enable_unrestricted_guest = True, enable_ept_ad_bits = False,
       emulate_invalid_guest_state = False, has_invvpid_single = False, has_invvpid_global = False,
       has_invept_context = True, has_invept_global = True, cpu_has_load_ia32_efer = False,
       cpu_has_load_perf_global_ctrl = False, has_msr_bitmap = False, has_virtual_nmis = False,
       host_efer = 0, bitmap_of = (\<lambda>_ _. 0), user_has_fpu = False,
       is_protmode = (\<lambda>v. arch_cr0 v AND 1 \<noteq> 0),
       is_paging = (\<lambda>v. arch_cr0 v AND 0x80000000 \<noteq> 0),
       is_pae = (\<lambda>v. arch_cr4 v AND 0x20 \<noteq> 0),
       is_long_mode = (\<lambda>v. arch_efer v AND 0x400 \<noteq> 0),
       nested_vmx_allowed = (\<lambda>_. False), rmode_tss_size = 0x2068,
       kvm_read_cr0_bits = (\<lambda>m v. (arch_cr0 v AND m, v)),
       kvm_read_cr3 = (\<lambda>v. (arch_cr3 v, v)), kvm_read_cr4 = (\<lambda>v. (arch_cr4 v, v)),
       kvm_mmu_reset_context = (\<lambda>v. v),
       kvm_exception_is_soft = (\<lambda>nr. nr = 3 \<or> nr = 4),
       kvm_clear_exception_queue = (\<lambda>v. v\<lparr>exc_pending := False\<rparr>),
       kvm_clear_interrupt_queue = (\<lambda>v. v\<lparr>interrupt_pending := False\<rparr>),
       kvm_queue_interrupt = (\<lambda>nr soft v. v\<lparr>interrupt_pending := True, interrupt_soft := soft, interrupt_nr := nr\<rparr>),
       kvm_inject_realmode_interrupt = (\<lambda>irq inc v. (True, v)),
       nested_exit_on_intr = (\<lambda>_. False),
       nested_vmx_vmexit = (\<lambda>r i q v. v\<lparr>in_guest_mode := False\<rparr>)\<rparr>"

definition example_xenv :: xenv where
  "example_xenv =
     \<lparr>ops = example_env, irqchip_in_kernel = False, lapic_get_cr8 = arch_cr8,
       lapic_set_tpr = (\<lambda>t v. v\<lparr>arch_cr8 := t\<rparr>),
       lapic_set_base = (\<lambda>_ v. v), cpuid_has_xsave = (\<lambda>_. False),
       cpuid_has_smep = (\<lambda>_. False), cpuid_has_fsgsbase = (\<lambda>_. False),
       cpuid_has_pcid = (\<lambda>_. False), cpuid_fxsr_opt = (\<lambda>_. False),
       cpuid_svm = (\<lambda>_. False), kvm_update_cpuid = (\<lambda>v. v),
       read_pdpt = (\<lambda>v g k. Some (\<lambda>i. 0)), pdpte_rsvd = (\<lambda>_. 0),
       is_present_gpte = (\<lambda>e. e AND 1 \<noteq> 0),
       kvm_read_cr4_bits = (\<lambda>m v. (arch_cr4 v AND m, v)),
       kvm_mmu_sync_roots = (\<lambda>v. v), kvm_mmu_flush_tlb = (\<lambda>v. v),
       kvm_mmu_new_cr3 = (\<lambda>v. v), clear_async_pf = (\<lambda>v. v), cr4_reserved = 0,
       cr0_reserved = 0, cr8_reserved = 0, cr3_pcid_reserved = 0, cr3_l_mode_reserved = 0,
       cr3_pae_reserved = 0, efer_reserved = 0, guest_supported_xcr0 = 0\<rparr>"

definition example_kenv :: kenv where
  "example_kenv =
     \<lparr>gfpages = (\<lambda>k. 0x40000000 + of_nat k * 0x400000),
       zpages = (\<lambda>k. 0x1000 + of_nat k * 0x1000), cur_mm = example_kernel_mm,
       xe = example_xenv\<rparr>"

definition example_world :: world where
  "example_world =
     \<lparr>im = example_imee, imee_scan_mode = 0, exit_flg = 0, go_flg = 0, imee_pid = 0,
       imee_vcpu = None, last_cr3 = 0, last_rip = 0, last_rsp = 0, switched_cr3 = 0, do_switch = 0,
       trial_run = 0, imee_up = 0, imee_idt = example_desc_ptr, imee_gdt = example_desc_ptr,
       imee_tr = example_kvm_segment, tmp_counter = 0, tmp_counter1 = 0, tmp_counter3 = 0,
       exc_temp = 0, idt_vectors = {}, vcpus = (\<lambda>_. example_vcpu),
       vcpu_cpu = (\<lambda>_. 0), loaded_on = (\<lambda>_. 0), ipis = []\<rparr>"

lemmas examples = example_host_def example_kernel_mm_def example_arg_blk_def example_desc_ptr_def
  example_kvm_segment_def example_imee_def example_kvm_save_segment_def example_host_state_def
  example_cpu_regs_def example_env_def example_xenv_def example_kenv_def example_world_def

text \<open>A VM with one last-level page for the guest frames 0 to 511, all of which it may read, write and
  execute.\<close>

definition example_vm :: vm where
  "example_vm =
     \<lparr>vm_id = 1, vm_owner = 100, vm_vcpus = (\<lambda>i. if i = 0 then Some 1 else None),
       active_mmu_pages = [\<lparr>spt = 0x7000, gfn = Some 0, role_level = 1\<rparr>]\<rparr>"

definition guest_world :: world where
  "guest_world = example_world\<lparr>im := example_imee\<lparr>hst := example_host\<lparr>ept_mem :=
     (\<lambda>_ _. 0)(0x7000 := (\<lambda>i. 0x5037))\<rparr>\<rparr>\<rparr>"

lemma example_chunk: "chunk_ok 0x40000000"
proof -
  have "(0x40000000 :: u64) = 2 ^ 30" by simp
  then have "bit (0x40000000 :: u64) n \<longleftrightarrow> n = 30" for n by (simp only: bit_exp_iff) auto
  then show ?thesis by (auto simp: chunk_ok_def)
qed

lemma less_3: "k < 3 \<longleftrightarrow> k = 0 \<or> k = 1 \<or> k = (2 :: nat)" by auto

lemma example_fresh: "fresh_world example_kenv example_arg_blk guest_world"
proof -
  have z: "fresh_zpages (\<lambda>k. 0x1000 + of_nat k * 0x1000) 0"
    by (auto simp: fresh_zpages_def page_addr_def less_3 EPT_MASK_val)
  show ?thesis
    by (auto simp: fresh_world_def guest_world_def examples unarmed_def get_pte_def z example_chunk less_3)
qed

lemma example_fit: "vms_fit example_kenv 50 [example_vm] guest_world"
proof -
  have h: "setup_host example_kenv guest_world = (hst (im guest_world))\<lparr>p_base := 0x40000000, gfpages_calls := 1\<rparr>"
    by (simp add: setup_host_def init_ept_frames_def do_alloc_ept_frames_def guest_world_def examples Let_def)
  have n: "0x7000 \<notin> future_frames (setup_host example_kenv guest_world)"
  proof
    assume "0x7000 \<in> future_frames (setup_host example_kenv guest_world)"
    then obtain j where "0x7000 = (0x40000000 :: u64) + of_nat j * 0x1000" "j < 1024"
      by (auto simp: future_frames_def h)
    then have e: "(0x7000 :: u64) = 0x40000000 OR push_bit 12 (of_nat j)"
      using chunk_page_bits(1) [OF example_chunk, of j] by simp
    have "bit (0x40000000 OR push_bit 12 (of_nat j) :: u64) 30" by (simp add: bit_or_iff)
    then show False unfolding e [symmetric] by simp
  qed
  have "gfn_ok 0" by (simp add: gfn_ok_def)
  then have "vm_ok example_vm (setup_host example_kenv guest_world)"
    using n by (simp add: vm_ok_def example_vm_def is_leaf_def)
  then show ?thesis
    by (simp add: vms_fit_def introspected_def frames_needed_def n_leaves_def example_vm_def is_leaf_def)
qed

lemma example_setup:
  obtains w0 c org where
    "kvm_imee_get_guest_context example_kenv 50 example_arg_blk [example_vm] 0 guest_world = Some (0, w0)"
    and "contexts (im w0) \<noteq> []" "c \<in> set (contexts (im w0))" "ctx_kvm c = 1" "visited c = 0"
    and "\<forall>d \<in> set (contexts (im w0)). ctx_kvm d = 1"
    and "sys_ok org (Stopped, w0)" "unarmed (Stopped, w0)"
proof (rule setup_sys_ok [OF example_fresh example_fit, of 0])
  fix w0 org
  assume a: "kvm_imee_get_guest_context example_kenv 50 example_arg_blk [example_vm] 0 guest_world = Some (0, w0)"
    "sys_ok org (Stopped, w0)" "unarmed (Stopped, w0)"
    and i: "ctx_kvm ` set (contexts (im w0)) = vm_id ` set (introspected 50 [example_vm])"
    and v: "\<forall>c \<in> set (contexts (im w0)). visited c = 0"
  have "ctx_kvm ` set (contexts (im w0)) = {1}"
    using i by (simp add: introspected_def example_vm_def)
  then have one: "\<forall>d \<in> set (contexts (im w0)). ctx_kvm d = 1" and ne: "contexts (im w0) \<noteq> []" by auto
  define c where "c = hd (contexts (im w0))"
  have c: "c \<in> set (contexts (im w0))" using ne by (simp add: c_def)
  show ?thesis
    by (rule that [OF a(1) ne c _ _ one a(2,3)]) (use c one v in \<open>simp_all\<close>)
qed

lemma example_room:
  assumes "sys_ok org (Stopped, w)" "c \<in> set (contexts (im w))" "visited c = 0"
  shows "ctx_ok c (hst (im w))" "3 \<le> avail_frames (hst (im w))"
proof -
  have "ctxs_ok (im w)" using assms(1) by (simp add: sys_ok_def Let_def)
  then show "ctx_ok c (hst (im w))" using ctxs_okD(1) assms(2) by blast
  have "c \<in> set (unvisited (contexts (im w)))" using assms(2,3) by (simp add: unvisited_def)
  then have "1 \<le> length (unvisited (contexts (im w)))" by (cases "unvisited (contexts (im w))") auto
  then have "3 \<le> 3 * scans_left Stopped w" by (simp add: scans_left_def)
  also have "\<dots> \<le> avail_frames (hst (im w))" using assms(1,2) by (auto simp: sys_ok_def Let_def)
  finally show "3 \<le> avail_frames (hst (im w))" .
qed

lemma example_running:
  obtains w0 w1 where
    "kvm_imee_get_guest_context example_kenv 50 example_arg_blk [example_vm] 0 guest_world = Some (0, w0)"
    and "reachable example_kenv 0 w0 (Running, w1)" "trial_run w1 = 1" "current_target (im w1) = Some 1"
    and "vmcs_read64 GUEST_PHYSICAL_ADDRESS (vcpus w1 0) = 0x3000" "last_cr3 w1 = 0x1000"
proof (rule example_setup)
  fix w0 c org
  assume s: "kvm_imee_get_guest_context example_kenv 50 example_arg_blk [example_vm] 0 guest_world = Some (0, w0)"
    and c: "c \<in> set (contexts (im w0))" "ctx_kvm c = 1" "visited c = 0"
    and one: "\<forall>d \<in> set (contexts (im w0)). ctx_kvm d = 1" and ok: "sys_ok org (Stopped, w0)"
  let ?g = "example_vcpu\<lparr>vmcs := (\<lambda>_. 0)(GUEST_CR3 := 0x1000)\<rparr>"
  let ?v = "example_vcpu\<lparr>vmcs := (\<lambda>_. 0)(GUEST_PHYSICAL_ADDRESS := 0x3000)\<rparr>"
  have ck: "ctxs_ok (im w0)" using ok by (simp add: sys_ok_def Let_def)
  have "c \<in> set (unvisited (contexts (im w0)))" using c by (simp add: unvisited_def)
  then obtain d rest where u: "unvisited (contexts (im w0)) = d # rest"
    by (cases "unvisited (contexts (im w0))") auto
  then have "d \<in> set (unvisited (contexts (im w0)))" by simp
  then have d: "ctx_kvm d = 1" using one by (simp add: unvisited_def)
  have g: "vmcs_read32 GUEST_CR3 ?g = 0x1000" by (simp add: vmcs_ops)
  then have g0: "vmcs_read32 GUEST_CR3 ?g \<noteq> 0" by simp
  show ?thesis
  proof (rule run_reaches_running [OF ck u g0, of example_kenv 0])
    fix w1
    assume r: "(wstep example_kenv 0)\<^sup>*\<^sup>* (Stopped, w0) (Running, w1)"
      and t: "trial_run w1 = 1" "current_target (im w1) = Some (ctx_kvm d)"
        "last_cr3 w1 = vmcs_read32 GUEST_CR3 ?g"
    let ?w2 = "w1\<lparr>vcpus := (\<lambda>_. ?v), vcpu_cpu := vcpu_cpu w1, loaded_on := loaded_on w1\<rparr>"
    have "reachable example_kenv 0 w0 (Running, ?w2)"
      unfolding reachable_def using r wstep.hardware by (rule rtranclp.rtrancl_into_rtrancl)
    then show ?thesis by (rule that [OF s]) (use t d g in \<open>simp_all add: vmcs_ops\<close>)
  qed
qed

end
