(* ===== verification/Clock.thy ===== *)
theory Clock
  imports Guest_Memory X86_Regs
begin

text \<open>
  Time (\<^verbatim>\<open>kvm/x86.c\<close>, \<^verbatim>\<open>kvm/vmx.c\<close>): scaling between clock rates, the offset of the guest's time stamp
  counter and its synchronisation between vCPUs, the paravirtual clock pages and stolen time.
\<close>

subsection \<open>State\<close>

text \<open>\<^verbatim>\<open>struct pvclock_vcpu_time_info\<close>.\<close>

record pvclock_info =
  pv_version :: u32
  pv_tsc_timestamp :: u64
  pv_system_time :: u64
  pv_mul :: u32
  pv_shift :: u8
  pv_flags :: u8

text \<open>The fields of \<^verbatim>\<open>struct kvm_vcpu_arch\<close> that keep time, then those of \<^verbatim>\<open>struct kvm_arch\<close>, with
  the vCPU and the memory they go with; \<open>vmcs12_cpu_ctl\<close> and \<open>vmcs12_tsc_offset\<close> are fields of the current
  \<^verbatim>\<open>vmcs12\<close>. The record is extended by the MSRs.\<close>

record clock_vcpu =
  mv :: vcpu
  cmem :: kvm_mem
  vmcs01_tsc_offset :: u64
  vmcs12_cpu_ctl :: u32
  vmcs12_tsc_offset :: u64
  hv_clock :: pvclock_info
  hw_tsc_khz :: u32
  pv_time :: gfn_to_hva_cache
  pv_time_enabled :: bool
  set_guest_stopped :: bool
  st_msr_val :: u64
  st_last_steal :: u64
  st_accum_steal :: u64
  st_cache :: gfn_to_hva_cache
  st_steal :: u64
  st_version :: u32
  st_rest :: "u8 list"
  last_guest_tsc :: u64
  last_kernel_ns :: u64
  this_tsc_nsec :: u64
  this_tsc_write :: u64
  this_tsc_generation :: u8
  tsc_catchup :: bool
  tsc_always_catchup :: bool
  virtual_tsc_shift :: u8
  virtual_tsc_mult :: u32
  virtual_tsc_khz :: u32
  tsc_adjust_msr :: u64
  masterclock_update :: bool
  kvmclock_offset :: u64
  last_tsc_nsec :: u64
  last_tsc_write :: u64
  last_tsc_khz :: u32
  cur_tsc_nsec :: u64
  cur_tsc_write :: u64
  cur_tsc_offset :: u64
  cur_tsc_generation :: u8
  nr_vcpus_matched_tsc :: nat
  use_master_clock :: bool
  master_kernel_ns :: u64
  master_cycle_now :: u64

text \<open>What the kernel provides: the memory functions, \<^verbatim>\<open>pvclock_scale_delta\<close>, the time stamp counter, the
  boot-based time in nanoseconds, whether the host's counter is unstable and its clock source, the number of
  vCPUs, the rates in kHz, whether the guest has the adjustment MSR, the time of boot and its subtraction, and
  the time the thread waited for a processor.\<close>

record clock_lib =
  cmlib :: mem_lib
  scale_delta :: "u64 \<Rightarrow> u32 \<Rightarrow> u8 \<Rightarrow> u64"
  native_tsc :: u64
  kernel_ns_now :: u64
  tsc_unstable :: bool
  gtod_is_tsc :: bool
  online_vcpus :: nat
  cpu_tsc_khz :: u32
  host_tsc_khz :: u32
  tolerance_ppm :: u32
  has_tsc_adjust :: bool
  boot_time :: "u64 \<times> u64"
  timespec_sub_ns :: "u64 \<times> u64 \<Rightarrow> u64 \<Rightarrow> u64 \<times> u64"
  run_delay :: u64

subsection \<open>Bytes of a structure\<close>

definition word_bytes :: "nat \<Rightarrow> u64 \<Rightarrow> u8 list" where
  "word_bytes n w = map (\<lambda>i. ucast (drop_bit (8 * i) w)) [0..<n]"

definition bytes_word :: "u8 list \<Rightarrow> u64" where
  "bytes_word bs = foldr (\<lambda>b w. ucast b OR push_bit 8 w) bs 0"

definition pvclock_bytes :: "pvclock_info \<Rightarrow> u8 list" where
  "pvclock_bytes c =
     word_bytes 4 (ucast (pv_version c)) @ replicate 4 0 @ word_bytes 8 (pv_tsc_timestamp c) @
     word_bytes 8 (pv_system_time c) @ word_bytes 4 (ucast (pv_mul c)) @ [pv_shift c, pv_flags c, 0, 0]"

subsection \<open>Scaling\<close>

text \<open>\<^verbatim>\<open>divl\<close> faults when the quotient does not fit: \<open>None\<close>. The loops of \<^verbatim>\<open>kvm_get_time_scale\<close>
  have no bound of their own; there \<open>None\<close> is also a loop that does not end.\<close>

definition div_frac :: "u32 \<Rightarrow> u32 \<Rightarrow> u32 option" where
  "div_frac dividend divisor =
     (if divisor \<le> dividend then None
      else Some (word_of_nat (unat dividend * 2 ^ 32 div unat divisor)))"

partial_function (option) shift_down :: "u64 \<Rightarrow> u64 \<Rightarrow> int \<Rightarrow> (u64 \<times> int) option" where
  "shift_down scaled64 tps64 shift =
     (if scaled64 * 2 < tps64 \<or> tps64 AND 0xFFFFFFFF00000000 \<noteq> 0
      then shift_down scaled64 (drop_bit 1 tps64) (shift - 1)
      else Some (tps64, shift))"

partial_function (option) shift_up :: "u32 \<Rightarrow> u64 \<Rightarrow> int \<Rightarrow> (u32 \<times> u64 \<times> int) option" where
  "shift_up tps32 scaled64 shift =
     (if ucast tps32 \<le> scaled64 \<or> scaled64 AND 0xFFFFFFFF00000000 \<noteq> 0
      then (if scaled64 AND 0xFFFFFFFF00000000 \<noteq> 0 \<or> tps32 AND 0x80000000 \<noteq> 0
            then shift_up tps32 (drop_bit 1 scaled64) (shift + 1)
            else shift_up (push_bit 1 tps32) scaled64 (shift + 1))
      else Some (tps32, scaled64, shift))"

definition kvm_get_time_scale :: "u32 \<Rightarrow> u32 \<Rightarrow> (u8 \<times> u32) option" where
  "kvm_get_time_scale scaled_khz base_khz =
     (case shift_down (ucast scaled_khz * 1000) (ucast base_khz * 1000) 0 of
        None \<Rightarrow> None
      | Some (tps64, shift) \<Rightarrow>
          (case shift_up (ucast tps64) (ucast scaled_khz * 1000) shift of
             None \<Rightarrow> None
           | Some (tps32, scaled64, shift) \<Rightarrow>
               map_option (\<lambda>mul. (word_of_int shift, mul)) (div_frac (ucast scaled64) tps32)))"

declare shift_down.simps [code] shift_up.simps [code]

definition adjust_tsc_khz :: "u32 \<Rightarrow> u32 \<Rightarrow> u32" where
  "adjust_tsc_khz khz ppm = ucast ((ucast khz * scast (1000000 + ppm)) div (1000000 :: u64))"

definition vmx_set_tsc_khz :: "clock_lib \<Rightarrow> u32 \<Rightarrow> bool \<Rightarrow> 'z clock_vcpu_scheme \<Rightarrow> 'z clock_vcpu_scheme" where
  "vmx_set_tsc_khz L user_tsc_khz scale s =
     (if \<not> scale then s
      else if host_tsc_khz L < user_tsc_khz then s\<lparr>tsc_catchup := True, tsc_always_catchup := True\<rparr>
      else s)"

definition kvm_set_tsc_khz :: "clock_lib \<Rightarrow> u32 \<Rightarrow> 'z clock_vcpu_scheme \<Rightarrow> 'z clock_vcpu_scheme option" where
  "kvm_set_tsc_khz L this_tsc_khz s =
     (if this_tsc_khz = 0 then Some s
      else case kvm_get_time_scale this_tsc_khz 1000000 of
             None \<Rightarrow> None
           | Some (shift, mul) \<Rightarrow>
               (let s1 = s\<lparr>virtual_tsc_shift := shift, virtual_tsc_mult := mul, virtual_tsc_khz := this_tsc_khz\<rparr>;
                    thresh_lo = adjust_tsc_khz (host_tsc_khz L) (- tolerance_ppm L);
                    thresh_hi = adjust_tsc_khz (host_tsc_khz L) (tolerance_ppm L);
                    use_scaling = (this_tsc_khz < thresh_lo \<or> thresh_hi < this_tsc_khz)
                in Some (vmx_set_tsc_khz L this_tsc_khz use_scaling s1)))"

definition nsec_to_cycles :: "clock_lib \<Rightarrow> u64 \<Rightarrow> 'z clock_vcpu_scheme \<Rightarrow> u64" where
  "nsec_to_cycles L nsec s = scale_delta L nsec (virtual_tsc_mult s) (virtual_tsc_shift s)"

definition compute_guest_tsc :: "clock_lib \<Rightarrow> u64 \<Rightarrow> 'z clock_vcpu_scheme \<Rightarrow> u64" where
  "compute_guest_tsc L kernel_ns s =
     scale_delta L (kernel_ns - this_tsc_nsec s) (virtual_tsc_mult s) (virtual_tsc_shift s) + this_tsc_write s"

subsection \<open>The offset of the time stamp counter\<close>

definition guest_read_tsc :: "clock_lib \<Rightarrow> 'z clock_vcpu_scheme \<Rightarrow> u64" where
  "guest_read_tsc L s = native_tsc L + vmcs_read64 TSC_OFFSET (mv s)"

definition vmx_read_l1_tsc :: "u64 \<Rightarrow> 'z clock_vcpu_scheme \<Rightarrow> u64" where
  "vmx_read_l1_tsc host_tsc s =
     host_tsc + (if in_guest_mode (mv s) then vmcs01_tsc_offset s else vmcs_read64 TSC_OFFSET (mv s))"

definition vmx_read_tsc_offset :: "'z clock_vcpu_scheme \<Rightarrow> u64" where
  "vmx_read_tsc_offset s = vmcs_read64 TSC_OFFSET (mv s)"

definition vmx_write_tsc_offset :: "u64 \<Rightarrow> 'z clock_vcpu_scheme \<Rightarrow> 'z clock_vcpu_scheme" where
  "vmx_write_tsc_offset offset s =
     (if in_guest_mode (mv s) then
        (let s1 = s\<lparr>vmcs01_tsc_offset := offset\<rparr>
         in s1\<lparr>mv := vmcs_write64 TSC_OFFSET
              (offset + (if vmcs12_cpu_ctl s1 AND CPU_BASED_USE_TSC_OFFSETING \<noteq> 0 then vmcs12_tsc_offset s1 else 0))
              (mv s1)\<rparr>)
      else s\<lparr>mv := vmcs_write64 TSC_OFFSET offset (mv s)\<rparr>)"

definition vmx_adjust_tsc_offset :: "u64 \<Rightarrow> 'z clock_vcpu_scheme \<Rightarrow> 'z clock_vcpu_scheme" where
  "vmx_adjust_tsc_offset adjustment s =
     (let s1 = s\<lparr>mv := vmcs_write64 TSC_OFFSET (vmcs_read64 TSC_OFFSET (mv s) + adjustment) (mv s)\<rparr>
      in if in_guest_mode (mv s1) then s1\<lparr>vmcs01_tsc_offset := vmcs01_tsc_offset s1 + adjustment\<rparr> else s1)"

definition adjust_tsc_offset_guest :: "u64 \<Rightarrow> 'z clock_vcpu_scheme \<Rightarrow> 'z clock_vcpu_scheme" where
  "adjust_tsc_offset_guest adjustment s = vmx_adjust_tsc_offset adjustment s"

definition vmx_compute_tsc_offset :: "clock_lib \<Rightarrow> u64 \<Rightarrow> u64" where
  "vmx_compute_tsc_offset L target_tsc = target_tsc - native_tsc L"

subsection \<open>Writes of the time stamp counter\<close>

definition kvm_track_tsc_matching :: "clock_lib \<Rightarrow> 'z clock_vcpu_scheme \<Rightarrow> 'z clock_vcpu_scheme" where
  "kvm_track_tsc_matching L s =
     (let vcpus_matched = (nr_vcpus_matched_tsc s + 1 = online_vcpus L);
          do_request = (vcpus_matched \<and> gtod_is_tsc L \<and> \<not> use_master_clock s \<or>
                        \<not> vcpus_matched \<and> use_master_clock s)
      in if do_request then s\<lparr>masterclock_update := True\<rparr> else s)"

definition update_ia32_tsc_adjust_msr :: "u64 \<Rightarrow> 'z clock_vcpu_scheme \<Rightarrow> 'z clock_vcpu_scheme" where
  "update_ia32_tsc_adjust_msr offset s =
     s\<lparr>tsc_adjust_msr := tsc_adjust_msr s + (offset - vmx_read_tsc_offset s)\<rparr>"

text \<open>The distance in microseconds between the written value and the value the counter last written would
  have by now: signed division rounds towards zero.\<close>

definition USEC_PER_SEC :: u64 where "USEC_PER_SEC = 1000000"

definition write_usdiff :: "u64 \<Rightarrow> u64 \<Rightarrow> 'z clock_vcpu_scheme \<Rightarrow> u64" where
  "write_usdiff data elapsed_us s =
     (if virtual_tsc_khz s \<noteq> 0 then
        (let d = sint ((data - last_tsc_write s) * 1000);
             q = sgn d * (\<bar>d\<bar> div uint (virtual_tsc_khz s));
             usdiff = word_of_int q - elapsed_us
         in if sint usdiff < 0 then - usdiff else usdiff)
      else USEC_PER_SEC)"

text \<open>\<open>elapsed\<close> is in microseconds only when the rate is known.\<close>

definition kvm_write_tsc :: "clock_lib \<Rightarrow> u64 \<Rightarrow> bool \<Rightarrow> 'z clock_vcpu_scheme \<Rightarrow> 'z clock_vcpu_scheme" where
  "kvm_write_tsc L data0 host_initiated s =
     (let offset0 = vmx_compute_tsc_offset L data0;
          ns = kernel_ns_now L;
          elapsed0 = ns - last_tsc_nsec s;
          elapsed = (if virtual_tsc_khz s \<noteq> 0 then elapsed0 div 1000 else elapsed0);
          usdiff = write_usdiff data0 elapsed s;
          matched = (sint usdiff < sint USEC_PER_SEC \<and> virtual_tsc_khz s = last_tsc_khz s);
          data = (if matched \<and> tsc_unstable L then data0 + nsec_to_cycles L elapsed s else data0);
          offset = (if matched then
                      (if tsc_unstable L then vmx_compute_tsc_offset L data else cur_tsc_offset s)
                    else offset0);
          s1 = (if matched then s
                else s\<lparr>cur_tsc_generation := cur_tsc_generation s + 1, cur_tsc_nsec := ns,
                       cur_tsc_write := data, cur_tsc_offset := offset\<rparr>);
          s2 = s1\<lparr>last_tsc_nsec := ns, last_tsc_write := data, last_tsc_khz := virtual_tsc_khz s1,
                  hv_clock := (hv_clock s1)\<lparr>pv_tsc_timestamp := 0\<rparr>, last_guest_tsc := data,
                  this_tsc_generation := cur_tsc_generation s1, this_tsc_nsec := cur_tsc_nsec s1,
                  this_tsc_write := cur_tsc_write s1\<rparr>;
          s3 = (if has_tsc_adjust L \<and> \<not> host_initiated then update_ia32_tsc_adjust_msr offset s2 else s2);
          s4 = vmx_write_tsc_offset offset s3;
          s5 = s4\<lparr>nr_vcpus_matched_tsc := (if matched then nr_vcpus_matched_tsc s4 + 1 else 0)\<rparr>
      in kvm_track_tsc_matching L s5)"

subsection \<open>The clock pages of the guest\<close>

definition kvm_write_wall_clock :: "clock_lib \<Rightarrow> u64 \<Rightarrow> 'z clock_vcpu_scheme \<Rightarrow> 'z clock_vcpu_scheme" where
  "kvm_write_wall_clock L wall_clock s =
     (if wall_clock = 0 then s
      else case kvm_read_guest (cmlib L) (cmem s) wall_clock 4 of
             Inl _ \<Rightarrow> s
           | Inr bs \<Rightarrow>
               (let v0 = ucast (bytes_word bs) :: u32;
                    v1 = (if v0 AND 1 \<noteq> 0 then v0 + 1 else v0) + 1;
                    m1 = snd (kvm_write_guest (cmlib L) wall_clock (word_bytes 4 (ucast v1)) (cmem s));
                    boot = (if kvmclock_offset s \<noteq> 0 then timespec_sub_ns L (boot_time L) (kvmclock_offset s)
                            else boot_time L);
                    m2 = snd (kvm_write_guest (cmlib L) wall_clock
                           (word_bytes 4 (ucast v1) @ word_bytes 4 (fst boot) @ word_bytes 4 (snd boot)) m1);
                    m3 = snd (kvm_write_guest (cmlib L) wall_clock (word_bytes 4 (ucast (v1 + 1))) m2)
                in s\<lparr>cmem := m3\<rparr>))"

definition PVCLOCK_TSC_STABLE_BIT :: u8 where "PVCLOCK_TSC_STABLE_BIT = 1"
definition PVCLOCK_GUEST_STOPPED :: u8 where "PVCLOCK_GUEST_STOPPED = 2"

text \<open>The values of the guest's clock: the time the guest can have read until \<open>last_guest_tsc\<close> is the least
  the new one may be.\<close>

definition update_hv_clock :: "clock_lib \<Rightarrow> bool \<Rightarrow> u64 \<Rightarrow> u64 \<Rightarrow> 'z clock_vcpu_scheme \<Rightarrow> 'z clock_vcpu_scheme option" where
  "update_hv_clock L use_master kernel_ns0 tsc_timestamp s =
     (let c = hv_clock s;
          max_kernel_ns = (if pv_tsc_timestamp c \<noteq> 0
             then scale_delta L (last_guest_tsc s - pv_tsc_timestamp c) (pv_mul c) (pv_shift c) + last_kernel_ns s
             else 0)
      in case (if hw_tsc_khz s \<noteq> cpu_tsc_khz L
               then map_option (\<lambda>(shift, mul). s\<lparr>hv_clock := c\<lparr>pv_shift := shift, pv_mul := mul\<rparr>,
                                                   hw_tsc_khz := cpu_tsc_khz L\<rparr>)
                      (kvm_get_time_scale 1000000 (cpu_tsc_khz L))
               else Some s) of
           None \<Rightarrow> None
         | Some s1 \<Rightarrow>
             (let kernel_ns = (if \<not> use_master \<and> sint kernel_ns0 < sint max_kernel_ns
                               then max_kernel_ns else kernel_ns0)
              in Some (s1\<lparr>hv_clock := (hv_clock s1)\<lparr>pv_tsc_timestamp := tsc_timestamp,
                              pv_system_time := kernel_ns + kvmclock_offset s1,
                              pv_version := pv_version (hv_clock s1) + 2\<rparr>,
                          last_kernel_ns := kernel_ns, last_guest_tsc := tsc_timestamp\<rparr>)))"

text \<open>The page is read for the flag the guest may have set, and written. \<open>None\<close>: the failed test of the memory
  cache, or its set-up does not end.\<close>

definition publish_clock :: "clock_lib \<Rightarrow> bool \<Rightarrow> 'z clock_vcpu_scheme \<Rightarrow> 'z clock_vcpu_scheme option" where
  "publish_clock L use_master s =
     (case kvm_read_guest_cached (cmlib L) (pv_time s) 32 (cmem s) of
        None \<Rightarrow> None
      | Some (Inl _, ghc) \<Rightarrow> Some (s\<lparr>pv_time := ghc\<rparr>)
      | Some (Inr bs, ghc) \<Rightarrow>
          (let fl = (bs ! 29) AND PVCLOCK_GUEST_STOPPED;
               fl1 = (if set_guest_stopped s then fl OR PVCLOCK_GUEST_STOPPED else fl);
               fl2 = (if use_master then fl1 OR PVCLOCK_TSC_STABLE_BIT else fl1);
               s1 = s\<lparr>pv_time := ghc, set_guest_stopped := False,
                       hv_clock := (hv_clock s)\<lparr>pv_flags := fl2\<rparr>\<rparr>
           in map_option (\<lambda>(r, ghc', m). s1\<lparr>pv_time := ghc', cmem := m\<rparr>)
                (kvm_write_guest_cached (cmlib L) ghc (pvclock_bytes (hv_clock s1)) (cmem s1))))"

text \<open>Catching up: the time stamp of the guest, and the state with the offset moved.\<close>

definition catch_up :: "clock_lib \<Rightarrow> u64 \<Rightarrow> u64 \<Rightarrow> 'z clock_vcpu_scheme \<Rightarrow> u64 \<times> 'z clock_vcpu_scheme" where
  "catch_up L kernel_ns tsc_timestamp s =
     (if tsc_catchup s then
        (let tsc = compute_guest_tsc L kernel_ns s
         in if tsc_timestamp < tsc then (tsc, adjust_tsc_offset_guest (tsc - tsc_timestamp) s)
            else (tsc_timestamp, s))
      else (tsc_timestamp, s))"

text \<open>\<open>None\<close> is also a loop of the scaling that does not end, or its fault.\<close>

definition kvm_guest_time_update :: "clock_lib \<Rightarrow> 'z clock_vcpu_scheme \<Rightarrow> (int \<times> 'z clock_vcpu_scheme) option" where
  "kvm_guest_time_update L s =
     (if cpu_tsc_khz L = 0 then Some (1, s\<lparr>mv := kvm_make_request REQ_CLOCK_UPDATE (mv s)\<rparr>)
      else
        (let use_master = use_master_clock s;
             host_tsc = (if use_master then master_cycle_now s else native_tsc L);
             kernel_ns = (if use_master then master_kernel_ns s else kernel_ns_now L);
             (tsc_timestamp, s1) = catch_up L kernel_ns (vmx_read_l1_tsc host_tsc s) s
         in if \<not> pv_time_enabled s1 then Some (0, s1)
            else case update_hv_clock L use_master kernel_ns tsc_timestamp s1 of
                   None \<Rightarrow> None
                 | Some s2 \<Rightarrow> map_option (\<lambda>s3. (0, s3)) (publish_clock L use_master s2)))"

subsection \<open>Stolen time\<close>

definition accumulate_steal_time :: "clock_lib \<Rightarrow> 'z clock_vcpu_scheme \<Rightarrow> 'z clock_vcpu_scheme" where
  "accumulate_steal_time L s =
     (if st_msr_val s AND 1 = 0 then s
      else s\<lparr>st_last_steal := run_delay L, st_accum_steal := run_delay L - st_last_steal s\<rparr>)"

definition steal_bytes :: "'z clock_vcpu_scheme \<Rightarrow> u8 list" where
  "steal_bytes s = word_bytes 8 (st_steal s) @ word_bytes 4 (ucast (st_version s)) @ st_rest s"

definition record_steal_time :: "clock_lib \<Rightarrow> 'z clock_vcpu_scheme \<Rightarrow> 'z clock_vcpu_scheme option" where
  "record_steal_time L s0 =
     (let s = accumulate_steal_time L s0
      in if st_msr_val s AND 1 = 0 then Some s
         else case kvm_read_guest_cached (cmlib L) (st_cache s) 64 (cmem s) of
                None \<Rightarrow> None
              | Some (Inl _, ghc) \<Rightarrow> Some (s\<lparr>st_cache := ghc\<rparr>)
              | Some (Inr bs, ghc) \<Rightarrow>
                  (let s1 = s\<lparr>st_cache := ghc, st_steal := bytes_word (take 8 bs) + st_accum_steal s,
                              st_version := ucast (bytes_word (take 4 (drop 8 bs))) + 2,
                              st_rest := drop 12 bs, st_accum_steal := 0\<rparr>
                   in map_option (\<lambda>(r, ghc', m). s1\<lparr>st_cache := ghc', cmem := m\<rparr>)
                        (kvm_write_guest_cached (cmlib L) ghc (steal_bytes s1) (cmem s1))))"

end
