(* ===== verification/Vmx_Controls.thy ===== *)
theory Vmx_Controls
  imports Events
begin

text \<open>
  What the processor and the code together allow (\<^verbatim>\<open>kvm/vmx.c\<close>): choosing the VMX controls from the
  capability MSRs when the module is loaded, the features the module then turns off, the controls of one vCPU
  and the controls a nested hypervisor is offered.
\<close>

subsection \<open>Controls and capabilities\<close>

text \<open>The bits are those of the architecture.\<close>

definition CPU_BASED_HLT_EXITING :: u32 where "CPU_BASED_HLT_EXITING = 0x80"
definition CPU_BASED_INVLPG_EXITING :: u32 where "CPU_BASED_INVLPG_EXITING = 0x200"
definition CPU_BASED_MWAIT_EXITING :: u32 where "CPU_BASED_MWAIT_EXITING = 0x400"
definition CPU_BASED_RDPMC_EXITING :: u32 where "CPU_BASED_RDPMC_EXITING = 0x800"
definition CPU_BASED_RDTSC_EXITING :: u32 where "CPU_BASED_RDTSC_EXITING = 0x1000"
definition CPU_BASED_CR8_LOAD_EXITING :: u32 where "CPU_BASED_CR8_LOAD_EXITING = 0x80000"
definition CPU_BASED_CR8_STORE_EXITING :: u32 where "CPU_BASED_CR8_STORE_EXITING = 0x100000"
definition CPU_BASED_TPR_SHADOW :: u32 where "CPU_BASED_TPR_SHADOW = 0x200000"
definition CPU_BASED_MOV_DR_EXITING :: u32 where "CPU_BASED_MOV_DR_EXITING = 0x800000"
definition CPU_BASED_UNCOND_IO_EXITING :: u32 where "CPU_BASED_UNCOND_IO_EXITING = 0x1000000"
definition CPU_BASED_USE_IO_BITMAPS :: u32 where "CPU_BASED_USE_IO_BITMAPS = 0x2000000"
definition CPU_BASED_USE_MSR_BITMAPS :: u32 where "CPU_BASED_USE_MSR_BITMAPS = 0x10000000"
definition CPU_BASED_MONITOR_EXITING :: u32 where "CPU_BASED_MONITOR_EXITING = 0x20000000"
definition CPU_BASED_PAUSE_EXITING :: u32 where "CPU_BASED_PAUSE_EXITING = 0x40000000"
definition CPU_BASED_ACTIVATE_SECONDARY_CONTROLS :: u32 where "CPU_BASED_ACTIVATE_SECONDARY_CONTROLS = 0x80000000"
definition SECONDARY_EXEC_VIRTUALIZE_APIC_ACCESSES :: u32 where "SECONDARY_EXEC_VIRTUALIZE_APIC_ACCESSES = 0x1"
definition SECONDARY_EXEC_ENABLE_EPT :: u32 where "SECONDARY_EXEC_ENABLE_EPT = 0x2"
definition SECONDARY_EXEC_RDTSCP :: u32 where "SECONDARY_EXEC_RDTSCP = 0x8"
definition SECONDARY_EXEC_VIRTUALIZE_X2APIC_MODE :: u32 where "SECONDARY_EXEC_VIRTUALIZE_X2APIC_MODE = 0x10"
definition SECONDARY_EXEC_ENABLE_VPID :: u32 where "SECONDARY_EXEC_ENABLE_VPID = 0x20"
definition SECONDARY_EXEC_WBINVD_EXITING :: u32 where "SECONDARY_EXEC_WBINVD_EXITING = 0x40"
definition SECONDARY_EXEC_UNRESTRICTED_GUEST :: u32 where "SECONDARY_EXEC_UNRESTRICTED_GUEST = 0x80"
definition SECONDARY_EXEC_APIC_REGISTER_VIRT :: u32 where "SECONDARY_EXEC_APIC_REGISTER_VIRT = 0x100"
definition SECONDARY_EXEC_VIRTUAL_INTR_DELIVERY :: u32 where "SECONDARY_EXEC_VIRTUAL_INTR_DELIVERY = 0x200"
definition SECONDARY_EXEC_PAUSE_LOOP_EXITING :: u32 where "SECONDARY_EXEC_PAUSE_LOOP_EXITING = 0x400"
definition SECONDARY_EXEC_ENABLE_INVPCID :: u32 where "SECONDARY_EXEC_ENABLE_INVPCID = 0x1000"
definition SECONDARY_EXEC_SHADOW_VMCS :: u32 where "SECONDARY_EXEC_SHADOW_VMCS = 0x4000"
definition PIN_BASED_EXT_INTR_MASK :: u32 where "PIN_BASED_EXT_INTR_MASK = 0x1"
definition PIN_BASED_NMI_EXITING :: u32 where "PIN_BASED_NMI_EXITING = 0x8"
definition PIN_BASED_VIRTUAL_NMIS :: u32 where "PIN_BASED_VIRTUAL_NMIS = 0x20"
definition PIN_BASED_VMX_PREEMPTION_TIMER :: u32 where "PIN_BASED_VMX_PREEMPTION_TIMER = 0x40"
definition PIN_BASED_POSTED_INTR :: u32 where "PIN_BASED_POSTED_INTR = 0x80"
definition PIN_BASED_ALWAYSON_WITHOUT_TRUE_MSR :: u32 where "PIN_BASED_ALWAYSON_WITHOUT_TRUE_MSR = 0x16"
definition VM_EXIT_HOST_ADDR_SPACE_SIZE :: u32 where "VM_EXIT_HOST_ADDR_SPACE_SIZE = 0x200"
definition VM_EXIT_ACK_INTR_ON_EXIT :: u32 where "VM_EXIT_ACK_INTR_ON_EXIT = 0x8000"
definition VM_EXIT_SAVE_IA32_PAT :: u32 where "VM_EXIT_SAVE_IA32_PAT = 0x40000"
definition VM_EXIT_LOAD_IA32_PAT :: u32 where "VM_EXIT_LOAD_IA32_PAT = 0x80000"
definition VM_EXIT_SAVE_IA32_EFER :: u32 where "VM_EXIT_SAVE_IA32_EFER = 0x100000"
definition VM_EXIT_SAVE_VMX_PREEMPTION_TIMER :: u32 where "VM_EXIT_SAVE_VMX_PREEMPTION_TIMER = 0x400000"
definition VM_EXIT_ALWAYSON_WITHOUT_TRUE_MSR :: u32 where "VM_EXIT_ALWAYSON_WITHOUT_TRUE_MSR = 0x36DFF"
definition VM_ENTRY_LOAD_IA32_PAT :: u32 where "VM_ENTRY_LOAD_IA32_PAT = 0x4000"
definition VM_ENTRY_ALWAYSON_WITHOUT_TRUE_MSR :: u32 where "VM_ENTRY_ALWAYSON_WITHOUT_TRUE_MSR = 0x11FF"

definition VMX_EPT_EXECUTE_ONLY_BIT :: u32 where "VMX_EPT_EXECUTE_ONLY_BIT = 0x1"
definition VMX_EPT_PAGE_WALK_4_BIT :: u32 where "VMX_EPT_PAGE_WALK_4_BIT = 0x40"
definition VMX_EPTP_UC_BIT :: u32 where "VMX_EPTP_UC_BIT = 0x100"
definition VMX_EPTP_WB_BIT :: u32 where "VMX_EPTP_WB_BIT = 0x4000"
definition VMX_EPT_2MB_PAGE_BIT :: u32 where "VMX_EPT_2MB_PAGE_BIT = 0x10000"
definition VMX_EPT_1GB_PAGE_BIT :: u32 where "VMX_EPT_1GB_PAGE_BIT = 0x20000"
definition VMX_EPT_INVEPT_BIT :: u32 where "VMX_EPT_INVEPT_BIT = 0x100000"
definition VMX_EPT_AD_BIT :: u32 where "VMX_EPT_AD_BIT = 0x200000"
definition VMX_EPT_EXTENT_CONTEXT_BIT :: u32 where "VMX_EPT_EXTENT_CONTEXT_BIT = 0x2000000"
definition VMX_EPT_EXTENT_GLOBAL_BIT :: u32 where "VMX_EPT_EXTENT_GLOBAL_BIT = 0x4000000"
definition VMX_VPID_EXTENT_SINGLE_CONTEXT_BIT :: u32 where "VMX_VPID_EXTENT_SINGLE_CONTEXT_BIT = 0x200"
definition VMX_VPID_EXTENT_GLOBAL_CONTEXT_BIT :: u32 where "VMX_VPID_EXTENT_GLOBAL_CONTEXT_BIT = 0x400"

definition VMX_MISC_PREEMPTION_TIMER_RATE_MASK :: u32 where "VMX_MISC_PREEMPTION_TIMER_RATE_MASK = 0x1F"
definition VMX_MISC_SAVE_EFER_LMA :: u32 where "VMX_MISC_SAVE_EFER_LMA = 0x20"

definition MSR_IA32_FEATURE_CONTROL :: u32 where "MSR_IA32_FEATURE_CONTROL = 0x3A"
definition MSR_IA32_VMX_BASIC :: u32 where "MSR_IA32_VMX_BASIC = 0x480"
definition MSR_IA32_VMX_PINBASED_CTLS :: u32 where "MSR_IA32_VMX_PINBASED_CTLS = 0x481"
definition MSR_IA32_VMX_PROCBASED_CTLS :: u32 where "MSR_IA32_VMX_PROCBASED_CTLS = 0x482"
definition MSR_IA32_VMX_EXIT_CTLS :: u32 where "MSR_IA32_VMX_EXIT_CTLS = 0x483"
definition MSR_IA32_VMX_ENTRY_CTLS :: u32 where "MSR_IA32_VMX_ENTRY_CTLS = 0x484"
definition MSR_IA32_VMX_MISC :: u32 where "MSR_IA32_VMX_MISC = 0x485"
definition MSR_IA32_VMX_CR0_FIXED0 :: u32 where "MSR_IA32_VMX_CR0_FIXED0 = 0x486"
definition MSR_IA32_VMX_CR0_FIXED1 :: u32 where "MSR_IA32_VMX_CR0_FIXED1 = 0x487"
definition MSR_IA32_VMX_CR4_FIXED0 :: u32 where "MSR_IA32_VMX_CR4_FIXED0 = 0x488"
definition MSR_IA32_VMX_CR4_FIXED1 :: u32 where "MSR_IA32_VMX_CR4_FIXED1 = 0x489"
definition MSR_IA32_VMX_VMCS_ENUM :: u32 where "MSR_IA32_VMX_VMCS_ENUM = 0x48A"
definition MSR_IA32_VMX_PROCBASED_CTLS2 :: u32 where "MSR_IA32_VMX_PROCBASED_CTLS2 = 0x48B"
definition MSR_IA32_VMX_EPT_VPID_CAP :: u32 where "MSR_IA32_VMX_EPT_VPID_CAP = 0x48C"
definition MSR_IA32_VMX_TRUE_PINBASED_CTLS :: u32 where "MSR_IA32_VMX_TRUE_PINBASED_CTLS = 0x48D"
definition MSR_IA32_VMX_TRUE_PROCBASED_CTLS :: u32 where "MSR_IA32_VMX_TRUE_PROCBASED_CTLS = 0x48E"
definition MSR_IA32_VMX_TRUE_EXIT_CTLS :: u32 where "MSR_IA32_VMX_TRUE_EXIT_CTLS = 0x48F"
definition MSR_IA32_VMX_TRUE_ENTRY_CTLS :: u32 where "MSR_IA32_VMX_TRUE_ENTRY_CTLS = 0x490"

lemmas control_bits = CPU_BASED_CR3_LOAD_EXITING_def CPU_BASED_CR3_STORE_EXITING_def
  CPU_BASED_USE_TSC_OFFSETING_def CPU_BASED_VIRTUAL_INTR_PENDING_def CPU_BASED_VIRTUAL_NMI_PENDING_def
  VM_ENTRY_IA32E_MODE_def VM_ENTRY_LOAD_IA32_EFER_def VM_EXIT_LOAD_IA32_EFER_def
  VM_ENTRY_LOAD_IA32_PERF_GLOBAL_CTRL_def VM_EXIT_LOAD_IA32_PERF_GLOBAL_CTRL_def
  CPU_BASED_HLT_EXITING_def CPU_BASED_INVLPG_EXITING_def CPU_BASED_MWAIT_EXITING_def
  CPU_BASED_RDPMC_EXITING_def CPU_BASED_RDTSC_EXITING_def CPU_BASED_CR8_LOAD_EXITING_def
  CPU_BASED_CR8_STORE_EXITING_def CPU_BASED_TPR_SHADOW_def CPU_BASED_MOV_DR_EXITING_def
  CPU_BASED_UNCOND_IO_EXITING_def CPU_BASED_USE_IO_BITMAPS_def CPU_BASED_USE_MSR_BITMAPS_def
  CPU_BASED_MONITOR_EXITING_def CPU_BASED_PAUSE_EXITING_def CPU_BASED_ACTIVATE_SECONDARY_CONTROLS_def
  SECONDARY_EXEC_VIRTUALIZE_APIC_ACCESSES_def SECONDARY_EXEC_ENABLE_EPT_def SECONDARY_EXEC_RDTSCP_def
  SECONDARY_EXEC_VIRTUALIZE_X2APIC_MODE_def SECONDARY_EXEC_ENABLE_VPID_def
  SECONDARY_EXEC_WBINVD_EXITING_def SECONDARY_EXEC_UNRESTRICTED_GUEST_def
  SECONDARY_EXEC_APIC_REGISTER_VIRT_def SECONDARY_EXEC_VIRTUAL_INTR_DELIVERY_def
  SECONDARY_EXEC_PAUSE_LOOP_EXITING_def SECONDARY_EXEC_ENABLE_INVPCID_def
  SECONDARY_EXEC_SHADOW_VMCS_def PIN_BASED_EXT_INTR_MASK_def PIN_BASED_NMI_EXITING_def
  PIN_BASED_VIRTUAL_NMIS_def PIN_BASED_VMX_PREEMPTION_TIMER_def PIN_BASED_POSTED_INTR_def
  PIN_BASED_ALWAYSON_WITHOUT_TRUE_MSR_def VM_EXIT_HOST_ADDR_SPACE_SIZE_def
  VM_EXIT_ACK_INTR_ON_EXIT_def VM_EXIT_SAVE_IA32_PAT_def VM_EXIT_LOAD_IA32_PAT_def
  VM_EXIT_SAVE_IA32_EFER_def VM_EXIT_SAVE_VMX_PREEMPTION_TIMER_def
  VM_EXIT_ALWAYSON_WITHOUT_TRUE_MSR_def VM_ENTRY_LOAD_IA32_PAT_def
  VM_ENTRY_ALWAYSON_WITHOUT_TRUE_MSR_def

subsection \<open>Choosing the controls\<close>

text \<open>\<open>rd\<close> is the value of an MSR of the processor, read in two halves.\<close>

definition msr_low :: "(u32 \<Rightarrow> u64) \<Rightarrow> u32 \<Rightarrow> u32" where "msr_low rd msr = ucast (rd msr)"
definition msr_high :: "(u32 \<Rightarrow> u64) \<Rightarrow> u32 \<Rightarrow> u32" where "msr_high rd msr = ucast (drop_bit 32 (rd msr))"

text \<open>\<open>None\<close> is \<^verbatim>\<open>-EIO\<close>, here and below.\<close>

definition adjust_vmx_controls :: "(u32 \<Rightarrow> u64) \<Rightarrow> u32 \<Rightarrow> u32 \<Rightarrow> u32 \<Rightarrow> u32 option" where
  "adjust_vmx_controls rd ctl_min ctl_opt msr =
     (let ctl = ((ctl_min OR ctl_opt) AND msr_high rd msr) OR msr_low rd msr
      in if ctl_min AND NOT ctl \<noteq> 0 then None else Some ctl)"

definition allow_1_setting :: "(u32 \<Rightarrow> u64) \<Rightarrow> u32 \<Rightarrow> u32 \<Rightarrow> bool" where
  "allow_1_setting rd msr ctl = (msr_high rd msr AND ctl \<noteq> 0)"

text \<open>The allocation order of the record is left out: it is the order of the size, at most one page.\<close>

record vmcs_config =
  conf_size :: u32
  revision_id :: u32
  pin_based_exec_ctrl :: u32
  cpu_based_exec_ctrl :: u32
  cpu_based_2nd_exec_ctrl :: u32
  vmexit_ctrl :: u32
  vmentry_ctrl :: u32

record vmx_capability =
  cap_ept :: u32
  cap_vpid :: u32

text \<open>The variables the set-up fills: the configuration, the capabilities and the two features; the family and
  the model of the processor are arguments.\<close>

record vmx_setup =
  vmcs_conf :: vmcs_config
  vmx_cap :: vmx_capability
  load_ia32_efer :: bool
  load_perf_global_ctrl :: bool

definition setup_vmcs_config :: "(u32 \<Rightarrow> u64) \<Rightarrow> nat \<Rightarrow> nat \<Rightarrow> vmx_capability \<Rightarrow> vmx_setup option" where
  "setup_vmcs_config rd family model cap0 = do {
     cpu1 \<leftarrow> adjust_vmx_controls rd
        (CPU_BASED_HLT_EXITING OR CPU_BASED_CR8_LOAD_EXITING OR CPU_BASED_CR8_STORE_EXITING OR
         CPU_BASED_CR3_LOAD_EXITING OR CPU_BASED_CR3_STORE_EXITING OR CPU_BASED_USE_IO_BITMAPS OR
         CPU_BASED_MOV_DR_EXITING OR CPU_BASED_USE_TSC_OFFSETING OR CPU_BASED_MWAIT_EXITING OR
         CPU_BASED_MONITOR_EXITING OR CPU_BASED_INVLPG_EXITING OR CPU_BASED_RDPMC_EXITING)
        (CPU_BASED_TPR_SHADOW OR CPU_BASED_USE_MSR_BITMAPS OR CPU_BASED_ACTIVATE_SECONDARY_CONTROLS)
        MSR_IA32_VMX_PROCBASED_CTLS;
     let cpu2 = (if cpu1 AND CPU_BASED_TPR_SHADOW \<noteq> 0
                 then cpu1 AND NOT CPU_BASED_CR8_LOAD_EXITING AND NOT CPU_BASED_CR8_STORE_EXITING else cpu1);
     sec1 \<leftarrow> (if cpu2 AND CPU_BASED_ACTIVATE_SECONDARY_CONTROLS \<noteq> 0 then
                adjust_vmx_controls rd 0
                  (SECONDARY_EXEC_VIRTUALIZE_APIC_ACCESSES OR SECONDARY_EXEC_VIRTUALIZE_X2APIC_MODE OR
                   SECONDARY_EXEC_WBINVD_EXITING OR SECONDARY_EXEC_ENABLE_VPID OR SECONDARY_EXEC_ENABLE_EPT OR
                   SECONDARY_EXEC_UNRESTRICTED_GUEST OR SECONDARY_EXEC_PAUSE_LOOP_EXITING OR
                   SECONDARY_EXEC_RDTSCP OR SECONDARY_EXEC_ENABLE_INVPCID OR SECONDARY_EXEC_APIC_REGISTER_VIRT OR
                   SECONDARY_EXEC_VIRTUAL_INTR_DELIVERY OR SECONDARY_EXEC_SHADOW_VMCS)
                  MSR_IA32_VMX_PROCBASED_CTLS2
              else Some 0);
     let sec2 = (if cpu2 AND CPU_BASED_TPR_SHADOW = 0
                 then sec1 AND NOT (SECONDARY_EXEC_APIC_REGISTER_VIRT OR SECONDARY_EXEC_VIRTUALIZE_X2APIC_MODE OR
                                    SECONDARY_EXEC_VIRTUAL_INTR_DELIVERY)
                 else sec1);
     let ept = (sec2 AND SECONDARY_EXEC_ENABLE_EPT \<noteq> 0);
     let cpu3 = (if ept then cpu2 AND NOT (CPU_BASED_CR3_LOAD_EXITING OR CPU_BASED_CR3_STORE_EXITING OR
                                           CPU_BASED_INVLPG_EXITING)
                 else cpu2);
     let cap = (if ept then \<lparr>cap_ept = msr_low rd MSR_IA32_VMX_EPT_VPID_CAP,
                              cap_vpid = msr_high rd MSR_IA32_VMX_EPT_VPID_CAP\<rparr>
                else cap0);
     ex \<leftarrow> adjust_vmx_controls rd VM_EXIT_HOST_ADDR_SPACE_SIZE
        (VM_EXIT_SAVE_IA32_PAT OR VM_EXIT_LOAD_IA32_PAT OR VM_EXIT_ACK_INTR_ON_EXIT) MSR_IA32_VMX_EXIT_CTLS;
     pin1 \<leftarrow> adjust_vmx_controls rd (PIN_BASED_EXT_INTR_MASK OR PIN_BASED_NMI_EXITING)
        (PIN_BASED_VIRTUAL_NMIS OR PIN_BASED_POSTED_INTR) MSR_IA32_VMX_PINBASED_CTLS;
     let pin2 = (if sec2 AND SECONDARY_EXEC_VIRTUAL_INTR_DELIVERY = 0 \<or> ex AND VM_EXIT_ACK_INTR_ON_EXIT = 0
                 then pin1 AND NOT PIN_BASED_POSTED_INTR else pin1);
     en \<leftarrow> adjust_vmx_controls rd 0 VM_ENTRY_LOAD_IA32_PAT MSR_IA32_VMX_ENTRY_CTLS;
     let low = msr_low rd MSR_IA32_VMX_BASIC;
     let high = msr_high rd MSR_IA32_VMX_BASIC;
     if high AND 0x1FFF > 0x1000 \<or> high AND push_bit 16 1 \<noteq> 0 \<or> drop_bit 18 high AND 15 \<noteq> 6 then None
     else
       (let perf = (allow_1_setting rd MSR_IA32_VMX_ENTRY_CTLS VM_ENTRY_LOAD_IA32_PERF_GLOBAL_CTRL \<and>
                    allow_1_setting rd MSR_IA32_VMX_EXIT_CTLS VM_EXIT_LOAD_IA32_PERF_GLOBAL_CTRL)
        in Some \<lparr>vmcs_conf = \<lparr>conf_size = high AND 0x1FFF, revision_id = low, pin_based_exec_ctrl = pin2,
                                cpu_based_exec_ctrl = cpu3, cpu_based_2nd_exec_ctrl = sec2,
                                vmexit_ctrl = ex, vmentry_ctrl = en\<rparr>,
                 vmx_cap = cap,
                 load_ia32_efer = (allow_1_setting rd MSR_IA32_VMX_ENTRY_CTLS VM_ENTRY_LOAD_IA32_EFER \<and>
                                   allow_1_setting rd MSR_IA32_VMX_EXIT_CTLS VM_EXIT_LOAD_IA32_EFER),
                 load_perf_global_ctrl = (perf \<and> \<not> (family = 6 \<and> model \<in> {26, 30, 37, 44, 46}))\<rparr>) }"

subsection \<open>Features of the processor\<close>

definition cpu_has_vmx_msr_bitmap :: "vmx_setup \<Rightarrow> bool" where
  "cpu_has_vmx_msr_bitmap S = (cpu_based_exec_ctrl (vmcs_conf S) AND CPU_BASED_USE_MSR_BITMAPS \<noteq> 0)"

definition cpu_has_vmx_tpr_shadow :: "vmx_setup \<Rightarrow> bool" where
  "cpu_has_vmx_tpr_shadow S = (cpu_based_exec_ctrl (vmcs_conf S) AND CPU_BASED_TPR_SHADOW \<noteq> 0)"

definition cpu_has_secondary_exec_ctrls :: "vmx_setup \<Rightarrow> bool" where
  "cpu_has_secondary_exec_ctrls S = (cpu_based_exec_ctrl (vmcs_conf S) AND CPU_BASED_ACTIVATE_SECONDARY_CONTROLS \<noteq> 0)"

definition cpu_has_vmx_virtualize_apic_accesses :: "vmx_setup \<Rightarrow> bool" where
  "cpu_has_vmx_virtualize_apic_accesses S = (cpu_based_2nd_exec_ctrl (vmcs_conf S) AND SECONDARY_EXEC_VIRTUALIZE_APIC_ACCESSES \<noteq> 0)"

definition cpu_has_vmx_virtualize_x2apic_mode :: "vmx_setup \<Rightarrow> bool" where
  "cpu_has_vmx_virtualize_x2apic_mode S = (cpu_based_2nd_exec_ctrl (vmcs_conf S) AND SECONDARY_EXEC_VIRTUALIZE_X2APIC_MODE \<noteq> 0)"

definition cpu_has_vmx_apic_register_virt :: "vmx_setup \<Rightarrow> bool" where
  "cpu_has_vmx_apic_register_virt S = (cpu_based_2nd_exec_ctrl (vmcs_conf S) AND SECONDARY_EXEC_APIC_REGISTER_VIRT \<noteq> 0)"

definition cpu_has_vmx_virtual_intr_delivery :: "vmx_setup \<Rightarrow> bool" where
  "cpu_has_vmx_virtual_intr_delivery S = (cpu_based_2nd_exec_ctrl (vmcs_conf S) AND SECONDARY_EXEC_VIRTUAL_INTR_DELIVERY \<noteq> 0)"

definition cpu_has_vmx_posted_intr :: "vmx_setup \<Rightarrow> bool" where
  "cpu_has_vmx_posted_intr S = (pin_based_exec_ctrl (vmcs_conf S) AND PIN_BASED_POSTED_INTR \<noteq> 0)"

definition cpu_has_vmx_ept :: "vmx_setup \<Rightarrow> bool" where
  "cpu_has_vmx_ept S = (cpu_based_2nd_exec_ctrl (vmcs_conf S) AND SECONDARY_EXEC_ENABLE_EPT \<noteq> 0)"

definition cpu_has_vmx_unrestricted_guest :: "vmx_setup \<Rightarrow> bool" where
  "cpu_has_vmx_unrestricted_guest S = (cpu_based_2nd_exec_ctrl (vmcs_conf S) AND SECONDARY_EXEC_UNRESTRICTED_GUEST \<noteq> 0)"

definition cpu_has_vmx_ple :: "vmx_setup \<Rightarrow> bool" where
  "cpu_has_vmx_ple S = (cpu_based_2nd_exec_ctrl (vmcs_conf S) AND SECONDARY_EXEC_PAUSE_LOOP_EXITING \<noteq> 0)"

definition cpu_has_vmx_vpid :: "vmx_setup \<Rightarrow> bool" where
  "cpu_has_vmx_vpid S = (cpu_based_2nd_exec_ctrl (vmcs_conf S) AND SECONDARY_EXEC_ENABLE_VPID \<noteq> 0)"

definition cpu_has_vmx_rdtscp :: "vmx_setup \<Rightarrow> bool" where
  "cpu_has_vmx_rdtscp S = (cpu_based_2nd_exec_ctrl (vmcs_conf S) AND SECONDARY_EXEC_RDTSCP \<noteq> 0)"

definition cpu_has_vmx_invpcid :: "vmx_setup \<Rightarrow> bool" where
  "cpu_has_vmx_invpcid S = (cpu_based_2nd_exec_ctrl (vmcs_conf S) AND SECONDARY_EXEC_ENABLE_INVPCID \<noteq> 0)"

definition cpu_has_virtual_nmis :: "vmx_setup \<Rightarrow> bool" where
  "cpu_has_virtual_nmis S = (pin_based_exec_ctrl (vmcs_conf S) AND PIN_BASED_VIRTUAL_NMIS \<noteq> 0)"

definition cpu_has_vmx_wbinvd_exit :: "vmx_setup \<Rightarrow> bool" where
  "cpu_has_vmx_wbinvd_exit S = (cpu_based_2nd_exec_ctrl (vmcs_conf S) AND SECONDARY_EXEC_WBINVD_EXITING \<noteq> 0)"

definition cpu_has_vmx_ept_execute_only :: "vmx_setup \<Rightarrow> bool" where
  "cpu_has_vmx_ept_execute_only S = (cap_ept (vmx_cap S) AND VMX_EPT_EXECUTE_ONLY_BIT \<noteq> 0)"

definition cpu_has_vmx_eptp_uncacheable :: "vmx_setup \<Rightarrow> bool" where
  "cpu_has_vmx_eptp_uncacheable S = (cap_ept (vmx_cap S) AND VMX_EPTP_UC_BIT \<noteq> 0)"

definition cpu_has_vmx_eptp_writeback :: "vmx_setup \<Rightarrow> bool" where
  "cpu_has_vmx_eptp_writeback S = (cap_ept (vmx_cap S) AND VMX_EPTP_WB_BIT \<noteq> 0)"

definition cpu_has_vmx_ept_2m_page :: "vmx_setup \<Rightarrow> bool" where
  "cpu_has_vmx_ept_2m_page S = (cap_ept (vmx_cap S) AND VMX_EPT_2MB_PAGE_BIT \<noteq> 0)"

definition cpu_has_vmx_ept_1g_page :: "vmx_setup \<Rightarrow> bool" where
  "cpu_has_vmx_ept_1g_page S = (cap_ept (vmx_cap S) AND VMX_EPT_1GB_PAGE_BIT \<noteq> 0)"

definition cpu_has_vmx_ept_4levels :: "vmx_setup \<Rightarrow> bool" where
  "cpu_has_vmx_ept_4levels S = (cap_ept (vmx_cap S) AND VMX_EPT_PAGE_WALK_4_BIT \<noteq> 0)"

definition cpu_has_vmx_ept_ad_bits :: "vmx_setup \<Rightarrow> bool" where
  "cpu_has_vmx_ept_ad_bits S = (cap_ept (vmx_cap S) AND VMX_EPT_AD_BIT \<noteq> 0)"

definition cpu_has_vmx_invept_context :: "vmx_setup \<Rightarrow> bool" where
  "cpu_has_vmx_invept_context S = (cap_ept (vmx_cap S) AND VMX_EPT_EXTENT_CONTEXT_BIT \<noteq> 0)"

definition cpu_has_vmx_invept_global :: "vmx_setup \<Rightarrow> bool" where
  "cpu_has_vmx_invept_global S = (cap_ept (vmx_cap S) AND VMX_EPT_EXTENT_GLOBAL_BIT \<noteq> 0)"

definition cpu_has_vmx_invvpid_single :: "vmx_setup \<Rightarrow> bool" where
  "cpu_has_vmx_invvpid_single S = (cap_vpid (vmx_cap S) AND VMX_VPID_EXTENT_SINGLE_CONTEXT_BIT \<noteq> 0)"

definition cpu_has_vmx_invvpid_global :: "vmx_setup \<Rightarrow> bool" where
  "cpu_has_vmx_invvpid_global S = (cap_vpid (vmx_cap S) AND VMX_VPID_EXTENT_GLOBAL_CONTEXT_BIT \<noteq> 0)"

definition cpu_has_vmx_apicv :: "vmx_setup \<Rightarrow> bool" where
  "cpu_has_vmx_apicv S =
     (cpu_has_vmx_apic_register_virt S \<and> cpu_has_vmx_virtual_intr_delivery S \<and> cpu_has_vmx_posted_intr S)"

definition cpu_has_vmx_flexpriority :: "vmx_setup \<Rightarrow> bool" where
  "cpu_has_vmx_flexpriority S = (cpu_has_vmx_tpr_shadow S \<and> cpu_has_vmx_virtualize_apic_accesses S)"

definition cpu_has_vmx_shadow_vmcs :: "(u32 \<Rightarrow> u64) \<Rightarrow> vmx_setup \<Rightarrow> bool" where
  "cpu_has_vmx_shadow_vmcs rd S =
     (if rd MSR_IA32_VMX_MISC AND push_bit 29 1 = 0 then False
      else cpu_based_2nd_exec_ctrl (vmcs_conf S) AND SECONDARY_EXEC_SHADOW_VMCS \<noteq> 0)"

lemmas cpu_has_defs = cpu_has_vmx_msr_bitmap_def cpu_has_vmx_tpr_shadow_def cpu_has_secondary_exec_ctrls_def
  cpu_has_vmx_virtualize_apic_accesses_def cpu_has_vmx_virtualize_x2apic_mode_def
  cpu_has_vmx_apic_register_virt_def cpu_has_vmx_virtual_intr_delivery_def
  cpu_has_vmx_posted_intr_def cpu_has_vmx_ept_def cpu_has_vmx_unrestricted_guest_def
  cpu_has_vmx_ple_def cpu_has_vmx_vpid_def cpu_has_vmx_rdtscp_def cpu_has_vmx_invpcid_def
  cpu_has_virtual_nmis_def cpu_has_vmx_wbinvd_exit_def cpu_has_vmx_ept_execute_only_def
  cpu_has_vmx_eptp_uncacheable_def cpu_has_vmx_eptp_writeback_def cpu_has_vmx_ept_2m_page_def
  cpu_has_vmx_ept_1g_page_def cpu_has_vmx_ept_4levels_def cpu_has_vmx_ept_ad_bits_def
  cpu_has_vmx_invept_context_def cpu_has_vmx_invept_global_def cpu_has_vmx_invvpid_single_def
  cpu_has_vmx_invvpid_global_def cpu_has_vmx_apicv_def cpu_has_vmx_flexpriority_def
  cpu_has_vmx_shadow_vmcs_def

subsection \<open>Loading the module\<close>

text \<open>The module parameters, as the administrator set them and as the set-up leaves them; the last three say
  whether the operations on the TPR shadow are removed from the table of operations, whether large pages are
  off, and what \<^verbatim>\<open>kvm_enable_efer_bits\<close> was given.\<close>

record vmx_params =
  par_vpid :: bool
  par_shadow_vmcs :: bool
  par_ept :: bool
  par_unrestricted_guest :: bool
  par_ept_ad_bits :: bool
  par_flexpriority :: bool
  par_apicv :: bool
  par_nested :: bool
  par_ple_gap :: u32
  no_update_cr8 :: bool
  no_hwapic :: bool
  largepages_off :: bool
  efer_bits :: u64

definition vmx_disabled_by_bios :: "(u32 \<Rightarrow> u64) \<Rightarrow> bool \<Rightarrow> bool" where
  "vmx_disabled_by_bios rd tboot =
     (let msr = rd MSR_IA32_FEATURE_CONTROL;
          locked = (msr AND 1 \<noteq> 0); inside = (msr AND 2 \<noteq> 0); outside = (msr AND 4 \<noteq> 0)
      in locked \<and> (\<not> inside \<and> tboot \<or> \<not> outside \<and> inside \<and> \<not> tboot \<or> \<not> outside \<and> \<not> tboot))"

text \<open>The feature control MSR as \<^verbatim>\<open>hardware_enable\<close> leaves it; -16 is \<^verbatim>\<open>-EBUSY\<close>.\<close>

definition hardware_enable :: "u64 \<Rightarrow> bool \<Rightarrow> u64 \<Rightarrow> int \<times> u64 \<times> u64" where
  "hardware_enable cr4 tboot old =
     (if cr4 AND X86_CR4_VMXE \<noteq> 0 then (-16, cr4, old)
      else let test_bits = 1 OR 4 OR (if tboot then 2 else 0)
           in (0, cr4 OR X86_CR4_VMXE, if old AND test_bits \<noteq> test_bits then old OR test_bits else old))"

definition feature_setup :: "(u32 \<Rightarrow> u64) \<Rightarrow> bool \<Rightarrow> vmx_setup \<Rightarrow> vmx_params \<Rightarrow> vmx_params" where
  "feature_setup rd has_nx S p =
     (let p1 = p\<lparr>efer_bits := (if has_nx then efer_bits p OR EFER_NX else efer_bits p),
                 par_vpid := par_vpid p \<and> cpu_has_vmx_vpid S,
                 par_shadow_vmcs := par_shadow_vmcs p \<and> cpu_has_vmx_shadow_vmcs rd S\<rparr>;
          p2 = (if \<not> cpu_has_vmx_ept S \<or> \<not> cpu_has_vmx_ept_4levels S
                then p1\<lparr>par_ept := False, par_unrestricted_guest := False, par_ept_ad_bits := False\<rparr> else p1);
          p3 = p2\<lparr>par_ept_ad_bits := par_ept_ad_bits p2 \<and> cpu_has_vmx_ept_ad_bits S,
                  par_unrestricted_guest := par_unrestricted_guest p2 \<and> cpu_has_vmx_unrestricted_guest S,
                  par_flexpriority := par_flexpriority p2 \<and> cpu_has_vmx_flexpriority S,
                  no_update_cr8 := no_update_cr8 p2 \<or> \<not> cpu_has_vmx_tpr_shadow S\<rparr>;
          p4 = p3\<lparr>largepages_off := largepages_off p3 \<or> par_ept p3 \<and> \<not> cpu_has_vmx_ept_2m_page S,
                  par_ple_gap := (if cpu_has_vmx_ple S then par_ple_gap p3 else 0),
                  par_apicv := par_apicv p3 \<and> cpu_has_vmx_apicv S\<rparr>
      in if par_apicv p4 then p4\<lparr>no_update_cr8 := True\<rparr> else p4\<lparr>no_hwapic := True\<rparr>)"

subsection \<open>The controls of a vCPU\<close>

text \<open>\<open>irqchip\<close> says whether the VM has its interrupt controller in the kernel.\<close>

definition vmx_vm_has_apicv :: "vmx_params \<Rightarrow> bool \<Rightarrow> bool" where
  "vmx_vm_has_apicv p irqchip = (par_apicv p \<and> irqchip)"

definition vm_need_tpr_shadow :: "vmx_setup \<Rightarrow> bool \<Rightarrow> bool" where
  "vm_need_tpr_shadow S irqchip = (cpu_has_vmx_tpr_shadow S \<and> irqchip)"

definition vm_need_virtualize_apic_accesses :: "vmx_params \<Rightarrow> bool \<Rightarrow> bool" where
  "vm_need_virtualize_apic_accesses p irqchip = (par_flexpriority p \<and> irqchip)"

definition vmx_pin_based_exec_ctrl :: "vmx_setup \<Rightarrow> vmx_params \<Rightarrow> bool \<Rightarrow> u32" where
  "vmx_pin_based_exec_ctrl S p irqchip =
     (let c = pin_based_exec_ctrl (vmcs_conf S)
      in if \<not> vmx_vm_has_apicv p irqchip then c AND NOT PIN_BASED_POSTED_INTR else c)"

definition vmx_exec_control :: "vmx_setup \<Rightarrow> vmx_params \<Rightarrow> bool \<Rightarrow> u32" where
  "vmx_exec_control S p irqchip =
     (let c = cpu_based_exec_ctrl (vmcs_conf S);
          c1 = (if \<not> vm_need_tpr_shadow S irqchip
                then (c AND NOT CPU_BASED_TPR_SHADOW) OR CPU_BASED_CR8_STORE_EXITING OR CPU_BASED_CR8_LOAD_EXITING
                else c)
      in if \<not> par_ept p
         then c1 OR CPU_BASED_CR3_STORE_EXITING OR CPU_BASED_CR3_LOAD_EXITING OR CPU_BASED_INVLPG_EXITING
         else c1)"

text \<open>Without EPT the function also turns the unrestricted guest off for good, so the parameters are part of
  the result.\<close>

definition vmx_secondary_exec_control :: "vmx_setup \<Rightarrow> u16 \<Rightarrow> bool \<Rightarrow> vmx_params \<Rightarrow> u32 \<times> vmx_params" where
  "vmx_secondary_exec_control S vp irqchip p =
     (let clear = (\<lambda>b m c. if b then c AND NOT m else c :: u32);
          p1 = (if par_ept p then p else p\<lparr>par_unrestricted_guest := False\<rparr>);
          c = cpu_based_2nd_exec_ctrl (vmcs_conf S);
          c1 = clear (\<not> vm_need_virtualize_apic_accesses p irqchip) SECONDARY_EXEC_VIRTUALIZE_APIC_ACCESSES c;
          c2 = clear (vp = 0) SECONDARY_EXEC_ENABLE_VPID c1;
          c3 = clear (\<not> par_ept p) SECONDARY_EXEC_ENABLE_INVPCID (clear (\<not> par_ept p) SECONDARY_EXEC_ENABLE_EPT c2);
          c4 = clear (\<not> par_unrestricted_guest p1) SECONDARY_EXEC_UNRESTRICTED_GUEST c3;
          c5 = clear (par_ple_gap p = 0) SECONDARY_EXEC_PAUSE_LOOP_EXITING c4;
          c6 = clear (\<not> vmx_vm_has_apicv p irqchip)
                 (SECONDARY_EXEC_APIC_REGISTER_VIRT OR SECONDARY_EXEC_VIRTUAL_INTR_DELIVERY) c5
      in (c6 AND NOT SECONDARY_EXEC_VIRTUALIZE_X2APIC_MODE AND NOT SECONDARY_EXEC_SHADOW_VMCS, p1))"

subsection \<open>What a nested hypervisor is offered\<close>

text \<open>The pairs of variables \<^verbatim>\<open>nested_vmx_*_low\<close> and \<^verbatim>\<open>nested_vmx_*_high\<close>: the bits
  that must be 1 and the bits that may be 1.\<close>

record nested_ctls =
  procbased_low :: u32
  procbased_high :: u32
  secondary_low :: u32
  secondary_high :: u32
  pinbased_low :: u32
  pinbased_high :: u32
  exit_low :: u32
  exit_high :: u32
  entry_low :: u32
  entry_high :: u32
  misc_low :: u32
  misc_high :: u32
  nested_ept_caps :: u32

definition nested_vmx_setup_ctls_msrs :: "(u32 \<Rightarrow> u64) \<Rightarrow> vmx_setup \<Rightarrow> vmx_params \<Rightarrow> nested_ctls" where
  "nested_vmx_setup_ctls_msrs rd S p =
     (let pin_lo = msr_low rd MSR_IA32_VMX_PINBASED_CTLS OR PIN_BASED_ALWAYSON_WITHOUT_TRUE_MSR;
          pin_hi0 = (msr_high rd MSR_IA32_VMX_PINBASED_CTLS AND
                     (PIN_BASED_EXT_INTR_MASK OR PIN_BASED_NMI_EXITING OR PIN_BASED_VIRTUAL_NMIS OR
                      PIN_BASED_VMX_PREEMPTION_TIMER)) OR PIN_BASED_ALWAYSON_WITHOUT_TRUE_MSR;
          ex_hi0 = msr_high rd MSR_IA32_VMX_EXIT_CTLS AND
                   (VM_EXIT_HOST_ADDR_SPACE_SIZE OR VM_EXIT_LOAD_IA32_PAT OR VM_EXIT_SAVE_IA32_PAT OR
                    VM_EXIT_SAVE_VMX_PREEMPTION_TIMER);
          no_timer = (pin_hi0 AND PIN_BASED_VMX_PREEMPTION_TIMER = 0 \<or>
                      ex_hi0 AND VM_EXIT_SAVE_VMX_PREEMPTION_TIMER = 0);
          ex_hi1 = (if no_timer then ex_hi0 AND NOT VM_EXIT_SAVE_VMX_PREEMPTION_TIMER else ex_hi0);
          pin_hi1 = (if no_timer then pin_hi0 AND NOT PIN_BASED_VMX_PREEMPTION_TIMER else pin_hi0);
          ex_hi2 = ex_hi1 OR VM_EXIT_ALWAYSON_WITHOUT_TRUE_MSR OR VM_EXIT_LOAD_IA32_EFER OR VM_EXIT_SAVE_IA32_EFER;
          en_hi = (msr_high rd MSR_IA32_VMX_ENTRY_CTLS AND (VM_ENTRY_IA32E_MODE OR VM_ENTRY_LOAD_IA32_PAT)) OR
                  VM_ENTRY_ALWAYSON_WITHOUT_TRUE_MSR OR VM_ENTRY_LOAD_IA32_EFER;
          cpu_hi = (msr_high rd MSR_IA32_VMX_PROCBASED_CTLS AND
                    (CPU_BASED_VIRTUAL_INTR_PENDING OR CPU_BASED_VIRTUAL_NMI_PENDING OR
                     CPU_BASED_USE_TSC_OFFSETING OR CPU_BASED_HLT_EXITING OR CPU_BASED_INVLPG_EXITING OR
                     CPU_BASED_MWAIT_EXITING OR CPU_BASED_CR3_LOAD_EXITING OR CPU_BASED_CR3_STORE_EXITING OR
                     CPU_BASED_CR8_LOAD_EXITING OR CPU_BASED_CR8_STORE_EXITING OR CPU_BASED_MOV_DR_EXITING OR
                     CPU_BASED_UNCOND_IO_EXITING OR CPU_BASED_USE_IO_BITMAPS OR CPU_BASED_MONITOR_EXITING OR
                     CPU_BASED_RDPMC_EXITING OR CPU_BASED_RDTSC_EXITING OR CPU_BASED_PAUSE_EXITING OR
                     CPU_BASED_ACTIVATE_SECONDARY_CONTROLS)) OR CPU_BASED_USE_MSR_BITMAPS;
          sec_hi0 = msr_high rd MSR_IA32_VMX_PROCBASED_CTLS2 AND
                    (SECONDARY_EXEC_VIRTUALIZE_APIC_ACCESSES OR SECONDARY_EXEC_WBINVD_EXITING);
          sec_hi1 = (if par_ept p then sec_hi0 OR SECONDARY_EXEC_ENABLE_EPT else sec_hi0);
          sec_hi2 = (if par_unrestricted_guest p then sec_hi1 OR SECONDARY_EXEC_UNRESTRICTED_GUEST else sec_hi1);
          caps = (if par_ept p
                  then ((VMX_EPT_PAGE_WALK_4_BIT OR VMX_EPTP_WB_BIT OR VMX_EPT_2MB_PAGE_BIT OR VMX_EPT_INVEPT_BIT)
                        AND cap_ept (vmx_cap S)) OR VMX_EPT_EXTENT_GLOBAL_BIT OR VMX_EPT_EXTENT_CONTEXT_BIT
                  else 0)
      in \<lparr>procbased_low = 0, procbased_high = cpu_hi, secondary_low = 0, secondary_high = sec_hi2,
          pinbased_low = pin_lo, pinbased_high = pin_hi1,
          exit_low = VM_EXIT_ALWAYSON_WITHOUT_TRUE_MSR, exit_high = ex_hi2,
          entry_low = VM_ENTRY_ALWAYSON_WITHOUT_TRUE_MSR, entry_high = en_hi,
          misc_low = msr_low rd MSR_IA32_VMX_MISC AND
            (VMX_MISC_PREEMPTION_TIMER_RATE_MASK OR VMX_MISC_SAVE_EFER_LMA),
          misc_high = 0, nested_ept_caps = caps\<rparr>)"

definition vmx_control_verify :: "u32 \<Rightarrow> u32 \<Rightarrow> u32 \<Rightarrow> bool" where
  "vmx_control_verify control low high = (((control AND high) OR low) = control)"

definition vmx_control_msr :: "u32 \<Rightarrow> u32 \<Rightarrow> u64" where
  "vmx_control_msr low high = ucast low OR push_bit 32 (ucast high)"

text \<open>The whole set-up: the configuration, the features, the nested controls when nesting is asked for, and
  the result of allocating a VMCS for every processor (\<open>area\<close>). The variables it fills are the last three
  components; -5 is \<^verbatim>\<open>-EIO\<close>.\<close>

definition hardware_setup ::
  "(u32 \<Rightarrow> u64) \<Rightarrow> nat \<Rightarrow> nat \<Rightarrow> bool \<Rightarrow> int \<Rightarrow> vmx_setup \<Rightarrow> vmx_params \<Rightarrow> nested_ctls
    \<Rightarrow> int \<times> vmx_setup \<times> vmx_params \<times> nested_ctls" where
  "hardware_setup rd family model has_nx area S0 p0 N0 =
     (case setup_vmcs_config rd family model (vmx_cap S0) of
        None \<Rightarrow> (-5, S0, p0, N0)
      | Some S \<Rightarrow>
          let p = feature_setup rd has_nx S p0
          in (area, S, p, if par_nested p then nested_vmx_setup_ctls_msrs rd S p else N0))"

end
