(* ===== verification/Msrs.thy ===== *)
theory Msrs
  imports Clock Async_Pf Vmx_Controls
begin

text \<open>
  Model-specific registers: the common part of \<^verbatim>\<open>kvm/x86.c\<close> (memory types, machine checks, the
  paravirtual and Hyper-V registers, the pass-through of ignored ones), the VMX part of \<^verbatim>\<open>kvm/vmx.c\<close> and
  the exits of \<^verbatim>\<open>RDMSR\<close> and \<^verbatim>\<open>WRMSR\<close>.
\<close>

subsection \<open>Register numbers\<close>

text \<open>Numbers of the architecture and of the paravirtual interfaces.\<close>

abbreviation "MSR_IA32_TSC \<equiv> 0x10 :: u32"
abbreviation "MSR_KVM_WALL_CLOCK \<equiv> 0x11 :: u32"
abbreviation "MSR_KVM_SYSTEM_TIME \<equiv> 0x12 :: u32"
abbreviation "MSR_IA32_APICBASE \<equiv> 0x1B :: u32"
abbreviation "MSR_IA32_TSC_ADJUST \<equiv> 0x3B :: u32"
abbreviation "MSR_IA32_UCODE_WRITE \<equiv> 0x79 :: u32"
abbreviation "MSR_IA32_UCODE_REV \<equiv> 0x8B :: u32"
abbreviation "MSR_P6_PERFCTR0 \<equiv> 0xC1 :: u32"
abbreviation "MSR_P6_PERFCTR1 \<equiv> 0xC2 :: u32"
abbreviation "MSR_MTRRcap \<equiv> 0xFE :: u32"
abbreviation "MSR_IA32_BBL_CR_CTL3 \<equiv> 0x11E :: u32"
abbreviation "MSR_IA32_SYSENTER_CS \<equiv> 0x174 :: u32"
abbreviation "MSR_IA32_SYSENTER_ESP \<equiv> 0x175 :: u32"
abbreviation "MSR_IA32_SYSENTER_EIP \<equiv> 0x176 :: u32"
abbreviation "MSR_IA32_MCG_CAP \<equiv> 0x179 :: u32"
abbreviation "MSR_IA32_MCG_STATUS \<equiv> 0x17A :: u32"
abbreviation "MSR_IA32_MCG_CTL \<equiv> 0x17B :: u32"
abbreviation "MSR_P6_EVNTSEL0 \<equiv> 0x186 :: u32"
abbreviation "MSR_P6_EVNTSEL1 \<equiv> 0x187 :: u32"
abbreviation "MSR_IA32_PERF_STATUS \<equiv> 0x198 :: u32"
abbreviation "MSR_IA32_MISC_ENABLE \<equiv> 0x1A0 :: u32"
abbreviation "MSR_IA32_DEBUGCTLMSR \<equiv> 0x1D9 :: u32"
abbreviation "MSR_EBC_FREQUENCY_ID \<equiv> 0x2C :: u32"
abbreviation "MSR_MTRRfix64K_00000 \<equiv> 0x250 :: u32"
abbreviation "MSR_MTRRfix16K_80000 \<equiv> 0x258 :: u32"
abbreviation "MSR_MTRRfix16K_A0000 \<equiv> 0x259 :: u32"
abbreviation "MSR_MTRRfix4K_C0000 \<equiv> 0x268 :: u32"
abbreviation "MSR_MTRRfix4K_F8000 \<equiv> 0x26F :: u32"
abbreviation "MSR_IA32_CR_PAT \<equiv> 0x277 :: u32"
abbreviation "MSR_MTRRdefType \<equiv> 0x2FF :: u32"
abbreviation "MSR_IA32_MC0_CTL \<equiv> 0x400 :: u32"
abbreviation "MSR_IA32_TSCDEADLINE \<equiv> 0x6E0 :: u32"
abbreviation "APIC_BASE_MSR \<equiv> 0x800 :: u32"
abbreviation "HV_X64_MSR_GUEST_OS_ID \<equiv> 0x40000000 :: u32"
abbreviation "HV_X64_MSR_HYPERCALL \<equiv> 0x40000001 :: u32"
abbreviation "HV_X64_MSR_VP_INDEX \<equiv> 0x40000002 :: u32"
abbreviation "HV_X64_MSR_EOI \<equiv> 0x40000070 :: u32"
abbreviation "HV_X64_MSR_ICR \<equiv> 0x40000071 :: u32"
abbreviation "HV_X64_MSR_TPR \<equiv> 0x40000072 :: u32"
abbreviation "HV_X64_MSR_APIC_ASSIST_PAGE \<equiv> 0x40000073 :: u32"
abbreviation "HV_X64_MSR_SINT15 \<equiv> 0x4000009F :: u32"
abbreviation "MSR_KVM_WALL_CLOCK_NEW \<equiv> 0x4B564D00 :: u32"
abbreviation "MSR_KVM_SYSTEM_TIME_NEW \<equiv> 0x4B564D01 :: u32"
abbreviation "MSR_KVM_ASYNC_PF_EN \<equiv> 0x4B564D02 :: u32"
abbreviation "MSR_KVM_STEAL_TIME \<equiv> 0x4B564D03 :: u32"
abbreviation "MSR_KVM_PV_EOI_EN \<equiv> 0x4B564D04 :: u32"
abbreviation "MSR_FS_BASE \<equiv> 0xC0000100 :: u32"
abbreviation "MSR_GS_BASE \<equiv> 0xC0000101 :: u32"
abbreviation "MSR_KERNEL_GS_BASE \<equiv> 0xC0000102 :: u32"
abbreviation "MSR_K7_EVNTSEL0 \<equiv> 0xC0010000 :: u32"
abbreviation "MSR_K7_EVNTSEL3 \<equiv> 0xC0010003 :: u32"
abbreviation "MSR_K7_PERFCTR0 \<equiv> 0xC0010004 :: u32"
abbreviation "MSR_K7_PERFCTR3 \<equiv> 0xC0010007 :: u32"
abbreviation "MSR_K8_SYSCFG \<equiv> 0xC0010010 :: u32"
abbreviation "MSR_K7_HWCR \<equiv> 0xC0010015 :: u32"
abbreviation "MSR_K7_CLK_CTL \<equiv> 0xC001001B :: u32"
abbreviation "MSR_AMD64_NB_CFG \<equiv> 0xC001001F :: u32"
abbreviation "MSR_AMD64_PATCH_LOADER \<equiv> 0xC0010020 :: u32"
abbreviation "MSR_K8_INT_PENDING_MSG \<equiv> 0xC0010055 :: u32"
abbreviation "MSR_FAM10H_MMIO_CONF_BASE \<equiv> 0xC0010058 :: u32"
abbreviation "MSR_K8_TSEG_ADDR \<equiv> 0xC0010112 :: u32"
abbreviation "MSR_K8_TSEG_MASK \<equiv> 0xC0010113 :: u32"
abbreviation "MSR_VM_HSAVE_PA \<equiv> 0xC0010117 :: u32"
abbreviation "MSR_AMD64_OSVW_ID_LENGTH \<equiv> 0xC0010140 :: u32"
abbreviation "MSR_AMD64_OSVW_STATUS \<equiv> 0xC0010141 :: u32"
abbreviation "MSR_AMD64_BU_CFG2 \<equiv> 0xC001102A :: u32"

abbreviation "KVM_NR_VAR_MTRR \<equiv> 8 :: u32"
abbreviation "KVM_MAX_MCE_BANKS \<equiv> 32 :: u32"
abbreviation "MCG_CTL_P \<equiv> 0x100 :: u64"

subsection \<open>State\<close>

text \<open>The remaining fields of \<^verbatim>\<open>struct kvm_vcpu_arch\<close> and \<^verbatim>\<open>struct kvm_arch\<close> that an MSR reads or
  writes; a variable range is a base and a mask of 64 bits. \<open>ext\<close> is the state of the local APIC, of the
  performance counters and of the work queue of asynchronous faults; \<open>shared_curr\<close> and \<open>shared_registered\<close>
  belong to the processor, \<open>wrmsr_done\<close> holds the writes of shared MSRs it accepted.\<close>

record 'x msr_vcpu = clock_vcpu +
  ext :: 'x
  apf_slots :: apf_table
  apf_msr_val :: u64
  apf_cache :: gfn_to_hva_cache
  apf_send_user_only :: bool
  mtrr_def_type :: u8
  mtrr_enabled :: u8
  mtrr_fixed :: "nat \<Rightarrow> u64"
  mtrr_base :: "nat \<Rightarrow> u64"
  mtrr_mask :: "nat \<Rightarrow> u64"
  arch_pat :: u64
  mcg_cap :: u64
  mcg_status :: u64
  mcg_ctl :: u64
  mce_banks :: "nat \<Rightarrow> u64"
  hv_vapic :: u64
  arch_time :: u64
  misc_enable_msr :: u64
  osvw_length :: u64
  osvw_status :: u64
  arch_wall_clock :: u64
  hv_guest_os_id :: u64
  hv_hypercall :: u64
  feature_control :: u64
  shared_curr :: "nat \<Rightarrow> u64"
  shared_registered :: bool
  wrmsr_done :: "(u32 \<times> u64) list"

text \<open>What is not in the repository: the x2APIC and Hyper-V views of the local APIC, its timer and the
  paravirtual end of interrupt, the performance counters, the queue of asynchronous faults, the CPUID bits,
  the copy from user space, canonical addresses, whether the processor accepts a write of an MSR, and the
  access to the instruction pointer. The configuration of the Xen page and the position of the vCPU in its VM are arguments too.\<close>

record 'x msr_lib =
  mx :: xenv
  mclk :: clock_lib
  x2apic_write :: "u32 \<Rightarrow> u64 \<Rightarrow> 'x \<Rightarrow> int \<times> 'x"
  x2apic_read :: "u32 \<Rightarrow> 'x \<Rightarrow> int \<times> u64"
  hv_apic_write :: "u32 \<Rightarrow> u64 \<Rightarrow> 'x \<Rightarrow> int \<times> 'x"
  hv_apic_read :: "u32 \<Rightarrow> 'x \<Rightarrow> int \<times> u64"
  set_tscdeadline :: "u64 \<Rightarrow> 'x \<Rightarrow> 'x"
  get_tscdeadline :: "'x \<Rightarrow> u64"
  pv_eoi_enable :: "u64 \<Rightarrow> 'x \<Rightarrow> int \<times> 'x"
  pv_eoi_val :: "'x \<Rightarrow> u64"
  pmu_msr :: "u32 \<Rightarrow> 'x \<Rightarrow> bool"
  pmu_set_msr :: "u32 \<Rightarrow> u64 \<Rightarrow> bool \<Rightarrow> 'x \<Rightarrow> int \<times> 'x"
  pmu_get_msr :: "u32 \<Rightarrow> 'x \<Rightarrow> int \<times> u64"
  clear_completions :: "'x \<Rightarrow> 'x"
  async_wakeup_all :: "'x \<Rightarrow> 'x"
  cpuid_osvw :: bool
  sched_info_on :: bool
  ignore_msrs :: bool
  xen_msr :: u32
  xen_blob :: "bool \<Rightarrow> u64 \<times> u8"   \<comment> \<open>long mode: address and number of pages\<close>
  memdup_user :: "(u64 \<Rightarrow> u8) \<Rightarrow> u64 \<Rightarrow> nat \<Rightarrow> int + u8 list"
  vcpu_index :: u64
  is_noncanonical :: "u64 \<Rightarrow> bool"
  get_canonical :: "u64 \<Rightarrow> u64"
  wrmsr_safe :: "u32 \<Rightarrow> u64 \<Rightarrow> bool"
  rip_read :: "vcpu \<Rightarrow> u64 \<times> vcpu"
  rip_write :: "u64 \<Rightarrow> vcpu \<Rightarrow> vcpu"
  vsetup :: vmx_setup
  nctls :: nested_ctls

definition msr_mem :: "'x msr_lib \<Rightarrow> mem_lib" where "msr_mem L = cmlib (mclk L)"
definition msr_env :: "'x msr_lib \<Rightarrow> env" where "msr_env L = ops (mx L)"

subsection \<open>\<^verbatim>\<open>EFER\<close> and the memory types\<close>

definition kvm_valid_efer :: "xenv \<Rightarrow> u64 \<Rightarrow> vcpu \<Rightarrow> bool" where
  "kvm_valid_efer X efer v =
     (if efer AND efer_reserved X \<noteq> 0 then False
      else if efer AND EFER_FFXSR \<noteq> 0 \<and> \<not> cpuid_fxsr_opt X v then False
      else if efer AND EFER_SVME \<noteq> 0 \<and> \<not> cpuid_svm X v then False
      else True)"

definition set_efer :: "xenv \<Rightarrow> u64 \<Rightarrow> vcpu \<Rightarrow> int \<times> vcpu" where
  "set_efer X efer v =
     (let old_efer = arch_efer v
      in if \<not> kvm_valid_efer X efer v then (1, v)
         else if is_paging (ops X) v \<and> arch_efer v AND EFER_LME \<noteq> efer AND EFER_LME then (1, v)
         else let efer1 = (efer AND NOT EFER_LMA) OR (arch_efer v AND EFER_LMA);
                  v1 = vmx_set_efer (ops X) efer1 v
              in (0, if (efer1 XOR old_efer) AND EFER_NX \<noteq> 0 then kvm_mmu_reset_context (ops X) v1 else v1))"

definition msr_mtrr_valid :: "u32 \<Rightarrow> bool" where
  "msr_mtrr_valid msr \<longleftrightarrow>
     0x200 \<le> msr \<and> msr \<le> 0x200 + 2 * KVM_NR_VAR_MTRR - 1 \<or>
     msr = MSR_MTRRfix64K_00000 \<or> msr = MSR_MTRRfix16K_80000 \<or> msr = MSR_MTRRfix16K_A0000 \<or>
     MSR_MTRRfix4K_C0000 \<le> msr \<and> msr \<le> MSR_MTRRfix4K_F8000 \<or>
     msr = MSR_MTRRdefType \<or> msr = MSR_IA32_CR_PAT \<or> msr = 0x2F8"

text \<open>\<open>t\<close> is a byte of the written value.\<close>

definition valid_pat_type :: "u8 \<Rightarrow> bool" where
  "valid_pat_type t \<longleftrightarrow> t < 8 \<and> push_bit (unat t) 1 AND 0xF3 \<noteq> (0 :: u32)"

definition valid_mtrr_type :: "u8 \<Rightarrow> bool" where
  "valid_mtrr_type t \<longleftrightarrow> t < 8 \<and> push_bit (unat t) 1 AND 0x73 \<noteq> (0 :: u32)"

definition mtrr_valid :: "u32 \<Rightarrow> u64 \<Rightarrow> bool" where
  "mtrr_valid msr data =
     (if \<not> msr_mtrr_valid msr then False
      else if msr = MSR_IA32_CR_PAT then list_all valid_pat_type (word_bytes 8 data)
      else if msr = MSR_MTRRdefType then
        (if data AND NOT 0xCFF \<noteq> 0 then False else valid_mtrr_type (ucast data))
      else if MSR_MTRRfix64K_00000 \<le> msr \<and> msr \<le> MSR_MTRRfix4K_F8000 then
        list_all valid_mtrr_type (word_bytes 8 data)
      else valid_mtrr_type (ucast data))"

definition set_msr_mtrr :: "'x msr_lib \<Rightarrow> u32 \<Rightarrow> u64 \<Rightarrow> 'x msr_vcpu \<Rightarrow> int \<times> 'x msr_vcpu" where
  "set_msr_mtrr L msr data s =
     (if \<not> mtrr_valid msr data then (1, s)
      else
        (let idx = unat ((msr - 0x200) div 2);
             is_mtrr_mask = (msr - 0x200 - 2 * ((msr - 0x200) div 2) \<noteq> 0);
             s1 = (if msr = MSR_MTRRdefType
                   then s\<lparr>mtrr_def_type := ucast data, mtrr_enabled := ucast (drop_bit 10 (data AND 0xC00))\<rparr>
                   else if msr = MSR_MTRRfix64K_00000 then s\<lparr>mtrr_fixed := (mtrr_fixed s)(0 := data)\<rparr>
                   else if msr = MSR_MTRRfix16K_80000 \<or> msr = MSR_MTRRfix16K_A0000
                   then s\<lparr>mtrr_fixed := (mtrr_fixed s)(unat (1 + msr - MSR_MTRRfix16K_80000) := data)\<rparr>
                   else if MSR_MTRRfix4K_C0000 \<le> msr \<and> msr \<le> MSR_MTRRfix4K_F8000
                   then s\<lparr>mtrr_fixed := (mtrr_fixed s)(unat (3 + msr - MSR_MTRRfix4K_C0000) := data)\<rparr>
                   else if msr = MSR_IA32_CR_PAT then s\<lparr>arch_pat := data\<rparr>
                   else if \<not> is_mtrr_mask then s\<lparr>mtrr_base := (mtrr_base s)(idx := data)\<rparr>
                   else s\<lparr>mtrr_mask := (mtrr_mask s)(idx := data)\<rparr>)
         in (0, s1\<lparr>mv := kvm_mmu_reset_context (msr_env L) (mv s1)\<rparr>)))"

text \<open>A read is a result and, when it succeeds, the value.\<close>

definition get_msr_mtrr :: "u32 \<Rightarrow> 'x msr_vcpu \<Rightarrow> int \<times> u64" where
  "get_msr_mtrr msr s =
     (if \<not> msr_mtrr_valid msr then (1, 0)
      else
        (let idx = unat ((msr - 0x200) div 2);
             is_mtrr_mask = (msr - 0x200 - 2 * ((msr - 0x200) div 2) \<noteq> 0)
         in (0, if msr = MSR_MTRRdefType then ucast (mtrr_def_type s) + push_bit 10 (ucast (mtrr_enabled s))
                else if msr = MSR_MTRRfix64K_00000 then mtrr_fixed s 0
                else if msr = MSR_MTRRfix16K_80000 \<or> msr = MSR_MTRRfix16K_A0000
                then mtrr_fixed s (unat (1 + msr - MSR_MTRRfix16K_80000))
                else if MSR_MTRRfix4K_C0000 \<le> msr \<and> msr \<le> MSR_MTRRfix4K_F8000
                then mtrr_fixed s (unat (3 + msr - MSR_MTRRfix4K_C0000))
                else if msr = MSR_IA32_CR_PAT then arch_pat s
                else if \<not> is_mtrr_mask then mtrr_base s idx else mtrr_mask s idx)))"

subsection \<open>Machine checks\<close>

definition set_msr_mce :: "u32 \<Rightarrow> u64 \<Rightarrow> 'x msr_vcpu \<Rightarrow> int \<times> 'x msr_vcpu" where
  "set_msr_mce msr data s =
     (let bank_num = ucast (mcg_cap s AND 0xFF) :: u32
      in if msr = MSR_IA32_MCG_STATUS then (0, s\<lparr>mcg_status := data\<rparr>)
         else if msr = MSR_IA32_MCG_CTL then
           (if mcg_cap s AND MCG_CTL_P = 0 then (1, s)
            else if data \<noteq> 0 \<and> data \<noteq> - 1 then (- 1, s)
            else (0, s\<lparr>mcg_ctl := data\<rparr>))
         else if MSR_IA32_MC0_CTL \<le> msr \<and> msr < MSR_IA32_MC0_CTL + 4 * bank_num then
           (let offset = msr - MSR_IA32_MC0_CTL
            in if offset AND 3 = 0 \<and> data \<noteq> 0 \<and> data OR 0x400 \<noteq> - 1 then (- 1, s)
               else (0, s\<lparr>mce_banks := (mce_banks s)(unat offset := data)\<rparr>))
         else (1, s))"

definition get_msr_mce :: "u32 \<Rightarrow> 'x msr_vcpu \<Rightarrow> int \<times> u64" where
  "get_msr_mce msr s =
     (let bank_num = ucast (mcg_cap s AND 0xFF) :: u32
      in if msr = 0 \<or> msr = 1 then (0, 0)
         else if msr = MSR_IA32_MCG_CAP then (0, mcg_cap s)
         else if msr = MSR_IA32_MCG_CTL then (if mcg_cap s AND MCG_CTL_P = 0 then (1, 0) else (0, mcg_ctl s))
         else if msr = MSR_IA32_MCG_STATUS then (0, mcg_status s)
         else if MSR_IA32_MC0_CTL \<le> msr \<and> msr < MSR_IA32_MC0_CTL + 4 * bank_num
         then (0, mce_banks s (unat (msr - MSR_IA32_MC0_CTL)))
         else (1, 0))"

subsection \<open>Xen and Hyper-V\<close>

text \<open>-7 is \<^verbatim>\<open>-E2BIG\<close>, -12 \<^verbatim>\<open>-ENOMEM\<close>; \<open>memdup_user\<close> has the error of its own.\<close>

definition xen_hvm_config :: "'x msr_lib \<Rightarrow> u64 \<Rightarrow> 'x msr_vcpu \<Rightarrow> int \<times> 'x msr_vcpu" where
  "xen_hvm_config L data s =
     (let (blob_addr, blob_size) = xen_blob L (is_long_mode (msr_env L) (mv s));
          page_num = ucast (data AND 0xFFF) :: u32;
          page_addr = data AND NOT 0xFFF
      in if ucast blob_size \<le> page_num then (-7, s)
         else case memdup_user L (user_mem (cmem s)) (blob_addr + ucast (page_num * 0x1000)) 0x1000 of
                Inl e \<Rightarrow> (e, s)
              | Inr page \<Rightarrow>
                  (case kvm_write_guest (msr_mem L) page_addr page (cmem s) of
                     (r, m) \<Rightarrow> (if r \<noteq> 0 then -12 else 0, s\<lparr>cmem := m\<rparr>)))"

definition HV_X64_MSR_HYPERCALL_ENABLE :: u64 where "HV_X64_MSR_HYPERCALL_ENABLE = 1"

definition kvm_hv_hypercall_enabled :: "'x msr_vcpu \<Rightarrow> bool" where
  "kvm_hv_hypercall_enabled s = (hv_hypercall s AND HV_X64_MSR_HYPERCALL_ENABLE \<noteq> 0)"

definition kvm_hv_msr_partition_wide :: "u32 \<Rightarrow> bool" where
  "kvm_hv_msr_partition_wide msr = (msr = HV_X64_MSR_GUEST_OS_ID \<or> msr = HV_X64_MSR_HYPERCALL)"

definition vmx_patch_hypercall :: "u8 list" where "vmx_patch_hypercall = [0x0F, 0x01, 0xC1]"

definition set_msr_hyperv_pw :: "'x msr_lib \<Rightarrow> u32 \<Rightarrow> u64 \<Rightarrow> 'x msr_vcpu \<Rightarrow> int \<times> 'x msr_vcpu" where
  "set_msr_hyperv_pw L msr data s =
     (if msr = HV_X64_MSR_GUEST_OS_ID then
        (let s1 = s\<lparr>hv_guest_os_id := data\<rparr>
         in (0, if hv_guest_os_id s1 = 0
                then s1\<lparr>hv_hypercall := hv_hypercall s1 AND NOT HV_X64_MSR_HYPERCALL_ENABLE\<rparr> else s1))
      else if msr = HV_X64_MSR_HYPERCALL then
        (if hv_guest_os_id s = 0 then (0, s)
         else if data AND HV_X64_MSR_HYPERCALL_ENABLE = 0 then (0, s\<lparr>hv_hypercall := data\<rparr>)
         else let addr = gfn_to_hva (msr_mem L) (cmem s) (drop_bit 12 data)
              in if is_error_hva (msr_mem L) addr then (1, s)
                 else case copy_to_user (msr_mem L) (user_mem (cmem s)) addr (vmx_patch_hypercall @ [0xC3]) of
                        (r, u) \<Rightarrow>
                          (let s1 = s\<lparr>cmem := (cmem s)\<lparr>user_mem := u\<rparr>\<rparr>
                           in if r \<noteq> 0 then (1, s1) else (0, s1\<lparr>hv_hypercall := data\<rparr>)))
      else (1, s))"

abbreviation "APIC_EOI \<equiv> 0xB0 :: u32"
abbreviation "APIC_ICR \<equiv> 0x300 :: u32"
abbreviation "APIC_TASKPRI \<equiv> 0x80 :: u32"

definition ext_call :: "('x \<Rightarrow> int \<times> 'x) \<Rightarrow> 'x msr_vcpu \<Rightarrow> int \<times> 'x msr_vcpu" where
  "ext_call f s = (case f (ext s) of (r, x) \<Rightarrow> (r, s\<lparr>ext := x\<rparr>))"

definition set_msr_hyperv :: "'x msr_lib \<Rightarrow> u32 \<Rightarrow> u64 \<Rightarrow> 'x msr_vcpu \<Rightarrow> int \<times> 'x msr_vcpu" where
  "set_msr_hyperv L msr data s =
     (if msr = HV_X64_MSR_APIC_ASSIST_PAGE then
        (if data AND 1 = 0 then (0, s\<lparr>hv_vapic := data\<rparr>)
         else let addr = gfn_to_hva (msr_mem L) (cmem s) (drop_bit 12 data)
              in if is_error_hva (msr_mem L) addr then (1, s)
                 else case copy_to_user (msr_mem L) (user_mem (cmem s)) addr (replicate 0x1000 0) of
                        (r, u) \<Rightarrow>
                          (let s1 = s\<lparr>cmem := (cmem s)\<lparr>user_mem := u\<rparr>\<rparr>
                           in if r \<noteq> 0 then (1, s1) else (0, s1\<lparr>hv_vapic := data\<rparr>)))
      else if msr = HV_X64_MSR_EOI then ext_call (hv_apic_write L APIC_EOI data) s
      else if msr = HV_X64_MSR_ICR then ext_call (hv_apic_write L APIC_ICR data) s
      else if msr = HV_X64_MSR_TPR then ext_call (hv_apic_write L APIC_TASKPRI data) s
      else (1, s))"

definition get_msr_hyperv_pw :: "u32 \<Rightarrow> 'x msr_vcpu \<Rightarrow> int \<times> u64" where
  "get_msr_hyperv_pw msr s =
     (if msr = HV_X64_MSR_GUEST_OS_ID then (0, hv_guest_os_id s)
      else if msr = HV_X64_MSR_HYPERCALL then (0, hv_hypercall s)
      else (1, 0))"

definition get_msr_hyperv :: "'x msr_lib \<Rightarrow> u32 \<Rightarrow> 'x msr_vcpu \<Rightarrow> int \<times> u64" where
  "get_msr_hyperv L msr s =
     (if msr = HV_X64_MSR_VP_INDEX then (0, vcpu_index L)
      else if msr = HV_X64_MSR_EOI then hv_apic_read L APIC_EOI (ext s)
      else if msr = HV_X64_MSR_ICR then hv_apic_read L APIC_ICR (ext s)
      else if msr = HV_X64_MSR_TPR then hv_apic_read L APIC_TASKPRI (ext s)
      else if msr = HV_X64_MSR_APIC_ASSIST_PAGE then (0, hv_vapic s)
      else (1, 0))"

subsection \<open>The common registers\<close>

text \<open>\<open>None\<close>: setting up the cache of a guest page does not end.\<close>

definition kvm_pv_enable_async_pf :: "'x msr_lib \<Rightarrow> u64 \<Rightarrow> 'x msr_vcpu \<Rightarrow> (int \<times> 'x msr_vcpu) option" where
  "kvm_pv_enable_async_pf L data s =
     (let gpa = data AND NOT 0x3F
      in if data AND 0x3C \<noteq> 0 then Some (1, s)
         else
           (let s1 = s\<lparr>apf_msr_val := data\<rparr>
            in if data AND 1 = 0
               then Some (0, s1\<lparr>ext := clear_completions L (ext s1), apf_slots := kvm_async_pf_hash_reset\<rparr>)
               else case kvm_gfn_to_hva_cache_init (msr_mem L) (cmem s1) gpa 4 of
                      None \<Rightarrow> None
                    | Some (r, ghc) \<Rightarrow>
                        (let s2 = s1\<lparr>apf_cache := ghc\<rparr>
                         in if r \<noteq> 0 then Some (1, s2)
                            else Some (0, s2\<lparr>apf_send_user_only := (data AND 2 = 0),
                                            ext := async_wakeup_all L (ext s2)\<rparr>))))"

definition kvmclock_reset :: "'x msr_vcpu \<Rightarrow> 'x msr_vcpu" where
  "kvmclock_reset s = s\<lparr>pv_time_enabled := False\<rparr>"

definition set_system_time :: "'x msr_lib \<Rightarrow> u64 \<Rightarrow> 'x msr_vcpu \<Rightarrow> (int \<times> 'x msr_vcpu) option" where
  "set_system_time L data s =
     (let s1 = (kvmclock_reset s)\<lparr>arch_time := data, mv := kvm_make_request REQ_GLOBAL_CLOCK_UPDATE (mv s)\<rparr>
      in if data AND 1 = 0 then Some (0, s1)
         else map_option (\<lambda>(r, ghc). (0, s1\<lparr>pv_time := ghc, pv_time_enabled := (r = 0)\<rparr>))
                (kvm_gfn_to_hva_cache_init (msr_mem L) (cmem s1) (data AND NOT 1) 32))"

definition set_steal_time :: "'x msr_lib \<Rightarrow> u64 \<Rightarrow> 'x msr_vcpu \<Rightarrow> (int \<times> 'x msr_vcpu) option" where
  "set_steal_time L data s =
     (if \<not> sched_info_on L then Some (1, s)
      else if data AND 0x3E \<noteq> 0 then Some (1, s)
      else case kvm_gfn_to_hva_cache_init (msr_mem L) (cmem s) (data AND NOT 0x3F) 64 of
             None \<Rightarrow> None
           | Some (r, ghc) \<Rightarrow>
               (let s1 = s\<lparr>st_cache := ghc\<rparr>
                in if r \<noteq> 0 then Some (1, s1)
                   else let s2 = s1\<lparr>st_msr_val := data\<rparr>
                        in Some (0, if data AND 1 = 0 then s2
                                    else s2\<lparr>mv := kvm_make_request REQ_STEAL_UPDATE (mv s2)\<rparr>)))"

definition msr_ignored_on_write :: "u32 list" where
  "msr_ignored_on_write = [MSR_AMD64_NB_CFG, MSR_IA32_UCODE_REV, MSR_IA32_UCODE_WRITE, MSR_VM_HSAVE_PA,
     MSR_AMD64_PATCH_LOADER, MSR_AMD64_BU_CFG2]"

definition kvm_set_msr_common ::
    "'x msr_lib \<Rightarrow> u32 \<Rightarrow> u64 \<Rightarrow> bool \<Rightarrow> 'x msr_vcpu \<Rightarrow> (int \<times> 'x msr_vcpu) option" where
  "kvm_set_msr_common L msr data host_initiated s =
     (if msr \<in> set msr_ignored_on_write then Some (0, s)
      else if msr = MSR_EFER then (case set_efer (mx L) data (mv s) of (r, v) \<Rightarrow> Some (r, s\<lparr>mv := v\<rparr>))
      else if msr = MSR_K7_HWCR then Some (if data AND NOT 0x40 AND NOT 0x100 AND NOT 0x8 \<noteq> 0 then 1 else 0, s)
      else if msr = MSR_FAM10H_MMIO_CONF_BASE then Some (if data \<noteq> 0 then 1 else 0, s)
      else if msr = MSR_IA32_DEBUGCTLMSR then
        Some (if data = 0 then 0 else if data AND NOT 3 \<noteq> 0 then 1 else 0, s)
      else if 0x200 \<le> msr \<and> msr \<le> 0x2FF then Some (set_msr_mtrr L msr data s)
      else if msr = MSR_IA32_APICBASE then Some (0, s\<lparr>mv := lapic_set_base (mx L) data (mv s)\<rparr>)
      else if APIC_BASE_MSR \<le> msr \<and> msr \<le> APIC_BASE_MSR + 0x3FF then
        Some (ext_call (x2apic_write L msr data) s)
      else if msr = MSR_IA32_TSCDEADLINE then Some (0, s\<lparr>ext := set_tscdeadline L data (ext s)\<rparr>)
      else if msr = MSR_IA32_TSC_ADJUST then
        Some (0, if has_tsc_adjust (mclk L)
                 then (if host_initiated then s else adjust_tsc_offset_guest (data - tsc_adjust_msr s) s)
                        \<lparr>tsc_adjust_msr := data\<rparr>
                 else s)
      else if msr = MSR_IA32_MISC_ENABLE then Some (0, s\<lparr>misc_enable_msr := data\<rparr>)
      else if msr = MSR_KVM_WALL_CLOCK_NEW \<or> msr = MSR_KVM_WALL_CLOCK then
        Some (0, kvm_write_wall_clock (mclk L) data (s\<lparr>arch_wall_clock := data\<rparr>))
      else if msr = MSR_KVM_SYSTEM_TIME_NEW \<or> msr = MSR_KVM_SYSTEM_TIME then set_system_time L data s
      else if msr = MSR_KVM_ASYNC_PF_EN then
        map_option (\<lambda>(r, s1). (if r \<noteq> 0 then 1 else 0, s1)) (kvm_pv_enable_async_pf L data s)
      else if msr = MSR_KVM_STEAL_TIME then set_steal_time L data s
      else if msr = MSR_KVM_PV_EOI_EN then
        (case ext_call (pv_eoi_enable L data) s of (r, s1) \<Rightarrow> Some (if r \<noteq> 0 then 1 else 0, s1))
      else if msr = MSR_IA32_MCG_CTL \<or> msr = MSR_IA32_MCG_STATUS \<or>
              MSR_IA32_MC0_CTL \<le> msr \<and> msr \<le> MSR_IA32_MC0_CTL + 4 * KVM_MAX_MCE_BANKS - 1 then
        Some (set_msr_mce msr data s)
      else if MSR_K7_EVNTSEL0 \<le> msr \<and> msr \<le> MSR_K7_PERFCTR3 then Some (0, s)
      else if msr = MSR_P6_PERFCTR0 \<or> msr = MSR_P6_PERFCTR1 \<or> msr = MSR_P6_EVNTSEL0 \<or> msr = MSR_P6_EVNTSEL1 then
        Some (if pmu_msr L msr (ext s) then ext_call (pmu_set_msr L msr data host_initiated) s else (0, s))
      else if msr = MSR_K7_CLK_CTL then Some (0, s)
      else if HV_X64_MSR_GUEST_OS_ID \<le> msr \<and> msr \<le> HV_X64_MSR_SINT15 then
        Some (if kvm_hv_msr_partition_wide msr then set_msr_hyperv_pw L msr data s else set_msr_hyperv L msr data s)
      else if msr = MSR_IA32_BBL_CR_CTL3 then Some (0, s)
      else if msr = MSR_AMD64_OSVW_ID_LENGTH then
        Some (if \<not> cpuid_osvw L then (1, s) else (0, s\<lparr>osvw_length := data\<rparr>))
      else if msr = MSR_AMD64_OSVW_STATUS then
        Some (if \<not> cpuid_osvw L then (1, s) else (0, s\<lparr>osvw_status := data\<rparr>))
      else if msr \<noteq> 0 \<and> msr = xen_msr L then Some (xen_hvm_config L data s)
      else if pmu_msr L msr (ext s) then Some (ext_call (pmu_set_msr L msr data host_initiated) s)
      else Some (if ignore_msrs L then 0 else 1, s))"

definition msr_zero_on_read :: "u32 list" where
  "msr_zero_on_read = [0x17, 0x2A, MSR_IA32_DEBUGCTLMSR, 0x1DB, 0x1DC, 0x1DD, 0x1DE, MSR_K8_SYSCFG,
     MSR_K8_TSEG_ADDR, MSR_K8_TSEG_MASK, MSR_K7_HWCR, MSR_VM_HSAVE_PA, MSR_K7_EVNTSEL0, MSR_K7_PERFCTR0,
     MSR_K8_INT_PENDING_MSG, MSR_AMD64_NB_CFG, MSR_FAM10H_MMIO_CONF_BASE, MSR_AMD64_BU_CFG2]"

definition kvm_get_msr_common :: "'x msr_lib \<Rightarrow> u32 \<Rightarrow> 'x msr_vcpu \<Rightarrow> int \<times> u64" where
  "kvm_get_msr_common L msr s =
     (if msr \<in> set msr_zero_on_read then (0, 0)
      else if msr = MSR_P6_PERFCTR0 \<or> msr = MSR_P6_PERFCTR1 \<or> msr = MSR_P6_EVNTSEL0 \<or> msr = MSR_P6_EVNTSEL1 then
        (if pmu_msr L msr (ext s) then pmu_get_msr L msr (ext s) else (0, 0))
      else if msr = MSR_IA32_UCODE_REV then (0, 0x100000000)
      else if msr = MSR_MTRRcap then (0, 0x500 OR ucast KVM_NR_VAR_MTRR)
      else if 0x200 \<le> msr \<and> msr \<le> 0x2FF then get_msr_mtrr msr s
      else if msr = 0xCD then (0, 3)
      else if msr = MSR_EBC_FREQUENCY_ID then (0, push_bit 24 1)
      else if msr = MSR_IA32_APICBASE then (0, arch_apic_base (mv s))
      else if APIC_BASE_MSR \<le> msr \<and> msr \<le> APIC_BASE_MSR + 0x3FF then x2apic_read L msr (ext s)
      else if msr = MSR_IA32_TSCDEADLINE then (0, get_tscdeadline L (ext s))
      else if msr = MSR_IA32_TSC_ADJUST then (0, tsc_adjust_msr s)
      else if msr = MSR_IA32_MISC_ENABLE then (0, misc_enable_msr s)
      else if msr = MSR_IA32_PERF_STATUS then (0, 1000 OR push_bit 40 4)
      else if msr = MSR_EFER then (0, arch_efer (mv s))
      else if msr = MSR_KVM_WALL_CLOCK \<or> msr = MSR_KVM_WALL_CLOCK_NEW then (0, arch_wall_clock s)
      else if msr = MSR_KVM_SYSTEM_TIME \<or> msr = MSR_KVM_SYSTEM_TIME_NEW then (0, arch_time s)
      else if msr = MSR_KVM_ASYNC_PF_EN then (0, apf_msr_val s)
      else if msr = MSR_KVM_STEAL_TIME then (0, st_msr_val s)
      else if msr = MSR_KVM_PV_EOI_EN then (0, pv_eoi_val L (ext s))
      else if msr = 0 \<or> msr = 1 \<or> msr = MSR_IA32_MCG_CAP \<or> msr = MSR_IA32_MCG_CTL \<or> msr = MSR_IA32_MCG_STATUS \<or>
              MSR_IA32_MC0_CTL \<le> msr \<and> msr \<le> MSR_IA32_MC0_CTL + 4 * KVM_MAX_MCE_BANKS - 1 then
        get_msr_mce msr s
      else if msr = MSR_K7_CLK_CTL then (0, 0x20000000)
      else if HV_X64_MSR_GUEST_OS_ID \<le> msr \<and> msr \<le> HV_X64_MSR_SINT15 then
        (if kvm_hv_msr_partition_wide msr then get_msr_hyperv_pw msr s else get_msr_hyperv L msr s)
      else if msr = MSR_IA32_BBL_CR_CTL3 then (0, 0xBE702111)
      else if msr = MSR_AMD64_OSVW_ID_LENGTH then (if \<not> cpuid_osvw L then (1, 0) else (0, osvw_length s))
      else if msr = MSR_AMD64_OSVW_STATUS then (if \<not> cpuid_osvw L then (1, 0) else (0, osvw_status s))
      else if pmu_msr L msr (ext s) then pmu_get_msr L msr (ext s)
      else if ignore_msrs L then (0, 0) else (1, 0))"

subsection \<open>The VMX registers\<close>

text \<open>What a read leaves in the caller's variable: \<open>None\<close> is nothing.\<close>

definition VMCS12_REVISION :: u64 where "VMCS12_REVISION = 0x11E57ED0"
definition VMCS12_SIZE :: u64 where "VMCS12_SIZE = 0x1000"
definition VMXON_CR0_ALWAYSON :: u64 where "VMXON_CR0_ALWAYSON = X86_CR0_PE OR X86_CR0_PG OR X86_CR0_NE"

definition vmx_get_vmx_msr :: "'x msr_lib \<Rightarrow> u32 \<Rightarrow> 'x msr_vcpu \<Rightarrow> bool \<times> u64 option \<times> 'x msr_vcpu" where
  "vmx_get_vmx_msr L msr s =
     (let allowed = nested_vmx_allowed (msr_env L) (mv s); N = nctls L
      in if \<not> allowed \<and> MSR_IA32_VMX_BASIC \<le> msr \<and> msr \<le> MSR_IA32_VMX_TRUE_ENTRY_CTLS
         then (True, None, s\<lparr>mv := kvm_queue_exception_e GP_VECTOR 0 (mv s)\<rparr>)
         else if msr = MSR_IA32_FEATURE_CONTROL then
           (if allowed then (True, Some (feature_control s), s) else (False, None, s))
         else if msr = MSR_IA32_VMX_BASIC then
           (True, Some (VMCS12_REVISION OR push_bit 32 VMCS12_SIZE OR push_bit 50 6), s)
         else if msr = MSR_IA32_VMX_TRUE_PINBASED_CTLS \<or> msr = MSR_IA32_VMX_PINBASED_CTLS then
           (True, Some (vmx_control_msr (pinbased_low N) (pinbased_high N)), s)
         else if msr = MSR_IA32_VMX_TRUE_PROCBASED_CTLS \<or> msr = MSR_IA32_VMX_PROCBASED_CTLS then
           (True, Some (vmx_control_msr (procbased_low N) (procbased_high N)), s)
         else if msr = MSR_IA32_VMX_TRUE_EXIT_CTLS \<or> msr = MSR_IA32_VMX_EXIT_CTLS then
           (True, Some (vmx_control_msr (exit_low N) (exit_high N)), s)
         else if msr = MSR_IA32_VMX_TRUE_ENTRY_CTLS \<or> msr = MSR_IA32_VMX_ENTRY_CTLS then
           (True, Some (vmx_control_msr (entry_low N) (entry_high N)), s)
         else if msr = MSR_IA32_VMX_MISC then (True, Some (vmx_control_msr (misc_low N) (misc_high N)), s)
         else if msr = MSR_IA32_VMX_CR0_FIXED0 then (True, Some VMXON_CR0_ALWAYSON, s)
         else if msr = MSR_IA32_VMX_CR0_FIXED1 then (True, Some (- 1), s)
         else if msr = MSR_IA32_VMX_CR4_FIXED0 then (True, Some VMXON_CR4_ALWAYSON, s)
         else if msr = MSR_IA32_VMX_CR4_FIXED1 then (True, Some (- 1), s)
         else if msr = MSR_IA32_VMX_VMCS_ENUM then (True, Some 0x1F, s)
         else if msr = MSR_IA32_VMX_PROCBASED_CTLS2 then
           (True, Some (vmx_control_msr (secondary_low N) (secondary_high N)), s)
         else if msr = MSR_IA32_VMX_EPT_VPID_CAP then (True, Some (ucast (nested_ept_caps N)), s)
         else (False, None, s))"

definition vmx_set_vmx_msr :: "'x msr_lib \<Rightarrow> u32 \<Rightarrow> u64 \<Rightarrow> bool \<Rightarrow> 'x msr_vcpu \<Rightarrow> bool \<times> 'x msr_vcpu" where
  "vmx_set_vmx_msr L msr data host_initiated s =
     (if \<not> nested_vmx_allowed (msr_env L) (mv s) then (False, s)
      else if msr = MSR_IA32_FEATURE_CONTROL then
        (if \<not> host_initiated \<and> feature_control s AND 1 \<noteq> 0 then (False, s)
         else (True, s\<lparr>feature_control := data\<rparr>))
      else (False, s))"

text \<open>The slot is the position of the MSR in \<^verbatim>\<open>vmx_msr_index\<close>. The current value is noted before the
  processor has accepted it.\<close>

definition kvm_set_shared_msr :: "'x msr_lib \<Rightarrow> nat \<Rightarrow> u64 \<Rightarrow> u64 \<Rightarrow> 'x msr_vcpu \<Rightarrow> int \<times> 'x msr_vcpu" where
  "kvm_set_shared_msr L slot value msk s =
     (if (value XOR shared_curr s slot) AND msk = 0 then (0, s)
      else
        (let s1 = s\<lparr>shared_curr := (shared_curr s)(slot := value)\<rparr>
         in if \<not> wrmsr_safe L (vmx_msr_index ! slot) value then (1, s1)
            else (0, s1\<lparr>wrmsr_done := wrmsr_done s1 @ [(vmx_msr_index ! slot, value)], shared_registered := True\<rparr>)))"

definition set_entry_data :: "nat \<Rightarrow> u64 \<Rightarrow> 'x msr_vcpu \<Rightarrow> 'x msr_vcpu" where
  "set_entry_data i data s =
     s\<lparr>mv := (mv s)\<lparr>guest_msrs := (guest_msrs (mv s))[i := (guest_msrs (mv s) ! i)\<lparr>sm_data := data\<rparr>]\<rparr>\<rparr>"

definition vmx_get_msr :: "'x msr_lib \<Rightarrow> u32 \<Rightarrow> 'x msr_vcpu \<Rightarrow> int \<times> u64 option \<times> 'x msr_vcpu" where
  "vmx_get_msr L msr s =
     (let common = (\<lambda>s. case kvm_get_msr_common L msr s of (r, d) \<Rightarrow> (r, if r = 0 then Some d else None, s))
      in if msr = MSR_FS_BASE then (0, Some (vmcs_readl (GUEST_BASE FS) (mv s)), s)
         else if msr = MSR_GS_BASE then (0, Some (vmcs_readl (GUEST_BASE GS) (mv s)), s)
         else if msr = MSR_KERNEL_GS_BASE then
           (let s1 = s\<lparr>mv := vmx_load_host_state (msr_env L) (mv s)\<rparr>
            in (0, Some (msr_guest_kernel_gs_base (mv s1)), s1))
         else if msr = MSR_EFER then common s
         else if msr = MSR_IA32_TSC then (0, Some (guest_read_tsc (mclk L) s), s)
         else if msr = MSR_IA32_SYSENTER_CS then (0, Some (ucast (vmcs_read32 GUEST_SYSENTER_CS (mv s))), s)
         else if msr = MSR_IA32_SYSENTER_EIP then (0, Some (vmcs_readl GUEST_SYSENTER_EIP (mv s)), s)
         else if msr = MSR_IA32_SYSENTER_ESP then (0, Some (vmcs_readl GUEST_SYSENTER_ESP (mv s)), s)
         else if msr = MSR_TSC_AUX \<and> \<not> rdtscp_enabled (mv s) then (1, None, s)
         else case vmx_get_vmx_msr L msr s of
                (True, d, s1) \<Rightarrow> (0, d, s1)
              | (False, _, s1) \<Rightarrow>
                  (case find_msr_entry (mv s1) msr of
                     Some i \<Rightarrow> (0, Some (sm_data (guest_msrs (mv s1) ! i)), s1)
                   | None \<Rightarrow> common s1))"

definition write_msr_entry :: "'x msr_lib \<Rightarrow> nat \<Rightarrow> u64 \<Rightarrow> 'x msr_vcpu \<Rightarrow> int \<times> 'x msr_vcpu" where
  "write_msr_entry L i data s =
     (let e = guest_msrs (mv s) ! i; s1 = set_entry_data i data s
      in if i < save_nmsrs (mv s1)
         then case kvm_set_shared_msr L (sm_index e) data (sm_mask e) s1 of
                (r, s2) \<Rightarrow> (r, if r \<noteq> 0 then set_entry_data i (sm_data e) s2 else s2)
         else (0, s1))"

definition vmx_set_msr :: "'x msr_lib \<Rightarrow> u32 \<Rightarrow> u64 \<Rightarrow> bool \<Rightarrow> 'x msr_vcpu \<Rightarrow> (int \<times> 'x msr_vcpu) option" where
  "vmx_set_msr L msr data host_initiated s =
     (let common = kvm_set_msr_common L msr data host_initiated;
          upd = (\<lambda>f. Some (0, s\<lparr>mv := f (mv s)\<rparr>))
      in if msr = MSR_EFER then common s
         else if msr = MSR_FS_BASE then upd (\<lambda>v. vmcs_writel (GUEST_BASE FS) data (vmx_segment_cache_clear v))
         else if msr = MSR_GS_BASE then upd (\<lambda>v. vmcs_writel (GUEST_BASE GS) data (vmx_segment_cache_clear v))
         else if msr = MSR_KERNEL_GS_BASE then
           upd (\<lambda>v. (vmx_load_host_state (msr_env L) v)\<lparr>msr_guest_kernel_gs_base := data\<rparr>)
         else if msr = MSR_IA32_SYSENTER_CS then upd (vmcs_write32 GUEST_SYSENTER_CS (ucast data))
         else if msr = MSR_IA32_SYSENTER_EIP then upd (vmcs_writel GUEST_SYSENTER_EIP data)
         else if msr = MSR_IA32_SYSENTER_ESP then upd (vmcs_writel GUEST_SYSENTER_ESP data)
         else if msr = MSR_IA32_TSC then Some (0, kvm_write_tsc (mclk L) data host_initiated s)
         else if msr = MSR_IA32_CR_PAT then
           (if vmentry_ctrl (vmcs_conf (vsetup L)) AND VM_ENTRY_LOAD_IA32_PAT \<noteq> 0
            then Some (0, s\<lparr>mv := vmcs_write64 GUEST_IA32_PAT data (mv s), arch_pat := data\<rparr>)
            else common s)
         else if msr = MSR_IA32_TSC_ADJUST then common s
         else if msr = MSR_TSC_AUX \<and> \<not> rdtscp_enabled (mv s) then Some (1, s)
         else if msr = MSR_TSC_AUX \<and> drop_bit 32 data \<noteq> 0 then Some (1, s)
         else case vmx_set_vmx_msr L msr data host_initiated s of
                (True, s1) \<Rightarrow> Some (0, s1)
              | (False, s1) \<Rightarrow>
                  (case find_msr_entry (mv s1) msr of
                     Some i \<Rightarrow> Some (write_msr_entry L i data s1)
                   | None \<Rightarrow> common s1))"

subsection \<open>Reading and writing by the guest and by user space\<close>

definition kvm_set_msr :: "'x msr_lib \<Rightarrow> u32 \<Rightarrow> u64 \<Rightarrow> bool \<Rightarrow> 'x msr_vcpu \<Rightarrow> (int \<times> 'x msr_vcpu) option" where
  "kvm_set_msr L msr data host_initiated s =
     (if msr \<in> {MSR_FS_BASE, MSR_GS_BASE, MSR_KERNEL_GS_BASE, MSR_CSTAR, MSR_LSTAR} \<and> is_noncanonical L data
      then Some (1, s)
      else if msr = MSR_IA32_SYSENTER_EIP \<or> msr = MSR_IA32_SYSENTER_ESP
      then vmx_set_msr L msr (get_canonical L data) host_initiated s
      else vmx_set_msr L msr data host_initiated s)"

definition kvm_get_msr :: "'x msr_lib \<Rightarrow> u32 \<Rightarrow> 'x msr_vcpu \<Rightarrow> int \<times> u64 option \<times> 'x msr_vcpu" where
  "kvm_get_msr L msr s = vmx_get_msr L msr s"

definition do_set_msr :: "'x msr_lib \<Rightarrow> u32 \<Rightarrow> u64 \<Rightarrow> 'x msr_vcpu \<Rightarrow> (int \<times> u64 \<times> 'x msr_vcpu) option" where
  "do_set_msr L msr data s = map_option (\<lambda>(r, s1). (r, data, s1)) (kvm_set_msr L msr data True s)"

definition do_get_msr :: "'x msr_lib \<Rightarrow> u32 \<Rightarrow> u64 \<Rightarrow> 'x msr_vcpu \<Rightarrow> (int \<times> u64 \<times> 'x msr_vcpu) option" where
  "do_get_msr L msr data s =
     (case kvm_get_msr L msr s of (r, d, s1) \<Rightarrow> Some (r, case d of None \<Rightarrow> data | Some x \<Rightarrow> x, s1))"

text \<open>The entries as they are afterwards, and how many were done.\<close>

fun msr_io_loop ::
    "(u32 \<Rightarrow> u64 \<Rightarrow> 'x msr_vcpu \<Rightarrow> (int \<times> u64 \<times> 'x msr_vcpu) option) \<Rightarrow> (u32 \<times> u64) list \<Rightarrow> 'x msr_vcpu
      \<Rightarrow> (nat \<times> (u32 \<times> u64) list \<times> 'x msr_vcpu) option" where
  "msr_io_loop do_msr [] s = Some (0, [], s)"
| "msr_io_loop do_msr ((idx, data) # es) s =
     (case do_msr idx data s of
        None \<Rightarrow> None
      | Some (r, d, s1) \<Rightarrow>
          if r \<noteq> 0 then Some (0, (idx, d) # es, s1)
          else map_option (\<lambda>(n, es', s2). (n + 1, (idx, d) # es', s2)) (msr_io_loop do_msr es s1))"

text \<open>\<open>entries\<close> is the copy of the user's array, or the error of the copy; \<open>written\<close> says whether copying it back
  succeeds. The result is the number or the error, and the array user space sees.\<close>

definition MAX_IO_MSRS :: nat where "MAX_IO_MSRS = 256"

definition msr_io ::
    "(u32 \<Rightarrow> u64 \<Rightarrow> 'x msr_vcpu \<Rightarrow> (int \<times> u64 \<times> 'x msr_vcpu) option) \<Rightarrow> nat option \<Rightarrow>
      int + (u32 \<times> u64) list \<Rightarrow> bool \<Rightarrow> bool \<Rightarrow> 'x msr_vcpu
      \<Rightarrow> (int \<times> (u32 \<times> u64) list option \<times> 'x msr_vcpu) option" where
  "msr_io do_msr nr entries writeback written s =
     (case nr of
        None \<Rightarrow> Some (- EFAULT, None, s)
      | Some n \<Rightarrow>
          if MAX_IO_MSRS \<le> n then Some (-7, None, s)
          else case entries of
                 Inl e \<Rightarrow> Some (e, None, s)
               | Inr es \<Rightarrow>
                   map_option (\<lambda>(k, es', s1).
                       if writeback \<and> \<not> written then (- EFAULT, None, s1)
                       else (int k, if writeback then Some es' else None, s1))
                     (msr_io_loop do_msr es s))"

definition skip_emulated_instruction :: "'x msr_lib \<Rightarrow> vcpu \<Rightarrow> vcpu" where
  "skip_emulated_instruction L v =
     (case rip_read L v of
        (rip, v1) \<Rightarrow>
          vmx_set_interrupt_shadow 0 (rip_write L (rip + ucast (vmcs_read32 VM_EXIT_INSTRUCTION_LEN v1)) v1))"

definition kvm_inject_gp :: "u32 \<Rightarrow> vcpu \<Rightarrow> vcpu" where
  "kvm_inject_gp error_code v = kvm_queue_exception_e GP_VECTOR error_code v"

text \<open>\<open>junk\<close> is what the local variable holds before it is assigned.\<close>

definition handle_rdmsr :: "'x msr_lib \<Rightarrow> u64 \<Rightarrow> 'x msr_vcpu \<Rightarrow> int \<times> 'x msr_vcpu" where
  "handle_rdmsr L junk s =
     (case vmx_get_msr L (ucast (regs (mv s) RCX)) s of
        (r, d, s1) \<Rightarrow>
          if r \<noteq> 0 then (1, s1\<lparr>mv := kvm_inject_gp 0 (mv s1)\<rparr>)
          else let data = (case d of None \<Rightarrow> junk | Some x \<Rightarrow> x);
                   v = mv s1;
                   v1 = v\<lparr>regs := (regs v)(RAX := data AND 0xFFFFFFFF, RDX := drop_bit 32 data AND 0xFFFFFFFF)\<rparr>
               in (1, s1\<lparr>mv := skip_emulated_instruction L v1\<rparr>))"

definition handle_wrmsr :: "'x msr_lib \<Rightarrow> 'x msr_vcpu \<Rightarrow> (int \<times> 'x msr_vcpu) option" where
  "handle_wrmsr L s =
     (let data = (regs (mv s) RAX AND 0xFFFFFFFF) OR push_bit 32 (regs (mv s) RDX AND 0xFFFFFFFF)
      in map_option (\<lambda>(r, s1). (1, s1\<lparr>mv := (if r \<noteq> 0 then kvm_inject_gp 0 (mv s1)
                                              else skip_emulated_instruction L (mv s1))\<rparr>))
           (kvm_set_msr L (ucast (regs (mv s) RCX)) data False s))"

end
