(* ===== verification/Control_Theorems.thy ===== *)
theory Control_Theorems
  imports Vmx_Controls
begin

text \<open>
  Properties of the VMX controls: what the set-up chooses is supported by the processor and consistent, the
  module parameters and the controls of a vCPU stay within it, and a nested hypervisor that chooses its
  controls the same way has them accepted.
\<close>

subsection \<open>Sets of bits\<close>

definition bits_in :: "u32 \<Rightarrow> u32 \<Rightarrow> bool" where "bits_in a b = (a AND NOT b = 0)"

lemma bits_in_iff: "bits_in a b \<longleftrightarrow> (\<forall>n. bit a n \<longrightarrow> bit b n)"
proof -
  have "bits_in a b \<longleftrightarrow> (\<forall>n<32. \<not> bit (a AND NOT b) n)" by (simp add: bits_in_def bit_eq_iff)
  also have "\<dots> \<longleftrightarrow> (\<forall>n. bit a n \<longrightarrow> bit b n)" using bit_imp_le_length[of a] by (auto simp: bit_simps)
  finally show ?thesis .
qed

lemma and_zero_iff: "a AND b = (0 :: u32) \<longleftrightarrow> (\<forall>n. bit a n \<longrightarrow> \<not> bit b n)"
proof -
  have "a AND b = 0 \<longleftrightarrow> bits_in a (NOT b)" by (simp add: bits_in_def)
  then show ?thesis using bit_imp_le_length[of a] by (auto simp: bits_in_iff bit_simps)
qed

lemma bits_in_trans [trans]: "bits_in a b \<Longrightarrow> bits_in b c \<Longrightarrow> bits_in a c" by (auto simp: bits_in_iff)

lemma bits_in_clear: "bits_in a b \<Longrightarrow> bits_in (a AND NOT m) b" by (auto simp: bits_in_iff bit_simps)

lemma bits_in_kept: "bits_in a b \<Longrightarrow> a AND m = 0 \<Longrightarrow> bits_in a (b AND NOT m)"
proof -
  assume a: "bits_in a b" "a AND m = 0"
  from a(2) have "\<And>n. bit a n \<Longrightarrow> \<not> bit m n" by (metis bit_and_iff bit_0_eq bot_apply bot_bool_def)
  with a(1) show ?thesis by (auto simp: bits_in_iff bit_simps dest: bit_imp_le_length)
qed

lemma bits_in_or: "bits_in (a OR b) c \<longleftrightarrow> bits_in a c \<and> bits_in b c" by (auto simp: bits_in_iff bit_simps)

lemma bits_in_0 [simp]: "bits_in 0 b" by (simp add: bits_in_def)

lemma adjust_vmx_controlsD:
  assumes "adjust_vmx_controls rd ctl_min ctl_opt msr = Some c" "bits_in (msr_low rd msr) (msr_high rd msr)"
  shows "bits_in ctl_min c \<and> bits_in (msr_low rd msr) c \<and> bits_in c (msr_high rd msr)"
  using assms by (auto simp: adjust_vmx_controls_def Let_def bits_in_def[symmetric] split: if_splits)
    (auto simp: bits_in_iff bit_simps)

lemma clear_zero: "m AND b = b \<Longrightarrow> (a AND NOT m) AND b = (0 :: u32)"
proof -
  assume m: "m AND b = b"
  then have "\<And>n. bit b n \<Longrightarrow> bit m n" by (metis bit_and_iff)
  then show ?thesis by (intro bit_word_eqI) (auto simp: bit_simps)
qed

subsection \<open>Choosing the controls\<close>

text \<open>The documented meaning of a capability MSR: what must be 1 may be 1.\<close>

definition capability_msr :: "(u32 \<Rightarrow> u64) \<Rightarrow> u32 \<Rightarrow> bool" where
  "capability_msr rd msr = bits_in (msr_low rd msr) (msr_high rd msr)"

text \<open>The exits a capability may oblige but another feature replaces: CR8 accesses with the TPR shadow, CR3
  accesses and \<^verbatim>\<open>INVLPG\<close> with EPT.\<close>

definition CR8_EXITS :: u32 where "CR8_EXITS = CPU_BASED_CR8_LOAD_EXITING OR CPU_BASED_CR8_STORE_EXITING"

definition PAGING_EXITS :: u32 where
  "PAGING_EXITS = CPU_BASED_CR3_LOAD_EXITING OR CPU_BASED_CR3_STORE_EXITING OR CPU_BASED_INVLPG_EXITING"

definition REQUIRED_EXITS :: u32 where
  "REQUIRED_EXITS = CPU_BASED_HLT_EXITING OR CPU_BASED_USE_IO_BITMAPS OR CPU_BASED_MOV_DR_EXITING OR
     CPU_BASED_USE_TSC_OFFSETING OR CPU_BASED_MWAIT_EXITING OR CPU_BASED_MONITOR_EXITING OR CPU_BASED_RDPMC_EXITING"

text \<open>A configuration the processor supports and whose controls go together.\<close>

definition config_supported :: "(u32 \<Rightarrow> u64) \<Rightarrow> vmcs_config \<Rightarrow> bool" where
  "config_supported rd c \<longleftrightarrow>
     bits_in (cpu_based_exec_ctrl c) (msr_high rd MSR_IA32_VMX_PROCBASED_CTLS) \<and>
     (cpu_based_exec_ctrl c AND CPU_BASED_ACTIVATE_SECONDARY_CONTROLS = 0 \<and> cpu_based_2nd_exec_ctrl c = 0 \<or>
      cpu_based_exec_ctrl c AND CPU_BASED_ACTIVATE_SECONDARY_CONTROLS \<noteq> 0 \<and>
      bits_in (cpu_based_2nd_exec_ctrl c) (msr_high rd MSR_IA32_VMX_PROCBASED_CTLS2)) \<and>
     bits_in (pin_based_exec_ctrl c) (msr_high rd MSR_IA32_VMX_PINBASED_CTLS) \<and>
     bits_in (vmexit_ctrl c) (msr_high rd MSR_IA32_VMX_EXIT_CTLS) \<and>
     bits_in (msr_low rd MSR_IA32_VMX_EXIT_CTLS OR VM_EXIT_HOST_ADDR_SPACE_SIZE) (vmexit_ctrl c) \<and>
     bits_in (vmentry_ctrl c) (msr_high rd MSR_IA32_VMX_ENTRY_CTLS) \<and>
     bits_in (msr_low rd MSR_IA32_VMX_ENTRY_CTLS) (vmentry_ctrl c) \<and>
     bits_in (PIN_BASED_EXT_INTR_MASK OR PIN_BASED_NMI_EXITING) (pin_based_exec_ctrl c) \<and>
     bits_in REQUIRED_EXITS (cpu_based_exec_ctrl c) \<and>
     bits_in (msr_low rd MSR_IA32_VMX_PROCBASED_CTLS)
       (cpu_based_exec_ctrl c OR CR8_EXITS OR PAGING_EXITS) \<and>
     (cpu_based_exec_ctrl c AND CPU_BASED_TPR_SHADOW = 0 \<longrightarrow> bits_in CR8_EXITS (cpu_based_exec_ctrl c)) \<and>
     (cpu_based_2nd_exec_ctrl c AND SECONDARY_EXEC_ENABLE_EPT = 0 \<longrightarrow>
        bits_in PAGING_EXITS (cpu_based_exec_ctrl c)) \<and>
     (cpu_based_2nd_exec_ctrl c AND (SECONDARY_EXEC_APIC_REGISTER_VIRT OR SECONDARY_EXEC_VIRTUALIZE_X2APIC_MODE OR
        SECONDARY_EXEC_VIRTUAL_INTR_DELIVERY) \<noteq> 0 \<longrightarrow> cpu_based_exec_ctrl c AND CPU_BASED_TPR_SHADOW \<noteq> 0) \<and>
     (pin_based_exec_ctrl c AND PIN_BASED_POSTED_INTR \<noteq> 0 \<longrightarrow>
        cpu_based_2nd_exec_ctrl c AND SECONDARY_EXEC_VIRTUAL_INTR_DELIVERY \<noteq> 0 \<and>
        vmexit_ctrl c AND VM_EXIT_ACK_INTR_ON_EXIT \<noteq> 0) \<and>
     bits_in (CR8_EXITS OR PAGING_EXITS) (msr_high rd MSR_IA32_VMX_PROCBASED_CTLS) \<and>
     conf_size c \<le> 0x1000"

definition CPU_MIN :: u32 where "CPU_MIN = REQUIRED_EXITS OR CR8_EXITS OR PAGING_EXITS"
definition CPU_OPT :: u32 where
  "CPU_OPT = CPU_BASED_TPR_SHADOW OR CPU_BASED_USE_MSR_BITMAPS OR CPU_BASED_ACTIVATE_SECONDARY_CONTROLS"

definition VIRTUAL_APIC :: u32 where
  "VIRTUAL_APIC = SECONDARY_EXEC_APIC_REGISTER_VIRT OR SECONDARY_EXEC_VIRTUALIZE_X2APIC_MODE OR
     SECONDARY_EXEC_VIRTUAL_INTR_DELIVERY"

lemmas exit_masks = CPU_MIN_def CPU_OPT_def REQUIRED_EXITS_def CR8_EXITS_def PAGING_EXITS_def VIRTUAL_APIC_def

text \<open>The stages of \<open>setup_vmcs_config\<close>.\<close>

lemma setup_stages:
  assumes "setup_vmcs_config rd family model cap0 = Some S"
  obtains cpu1 sec1 ex pin1 en where
    "adjust_vmx_controls rd CPU_MIN CPU_OPT MSR_IA32_VMX_PROCBASED_CTLS = Some cpu1"
    "if (cpu1 AND NOT (if cpu1 AND CPU_BASED_TPR_SHADOW \<noteq> 0 then CR8_EXITS else 0)) AND
        CPU_BASED_ACTIVATE_SECONDARY_CONTROLS \<noteq> 0
     then \<exists>opt. adjust_vmx_controls rd 0 opt MSR_IA32_VMX_PROCBASED_CTLS2 = Some sec1 else sec1 = 0"
    "adjust_vmx_controls rd VM_EXIT_HOST_ADDR_SPACE_SIZE
       (VM_EXIT_SAVE_IA32_PAT OR VM_EXIT_LOAD_IA32_PAT OR VM_EXIT_ACK_INTR_ON_EXIT) MSR_IA32_VMX_EXIT_CTLS = Some ex"
    "adjust_vmx_controls rd (PIN_BASED_EXT_INTR_MASK OR PIN_BASED_NMI_EXITING)
       (PIN_BASED_VIRTUAL_NMIS OR PIN_BASED_POSTED_INTR) MSR_IA32_VMX_PINBASED_CTLS = Some pin1"
    "adjust_vmx_controls rd 0 VM_ENTRY_LOAD_IA32_PAT MSR_IA32_VMX_ENTRY_CTLS = Some en"
    "vmexit_ctrl (vmcs_conf S) = ex" "vmentry_ctrl (vmcs_conf S) = en" "conf_size (vmcs_conf S) \<le> 0x1000"
    "cpu_based_2nd_exec_ctrl (vmcs_conf S) =
       sec1 AND NOT (if (cpu1 AND NOT (if cpu1 AND CPU_BASED_TPR_SHADOW \<noteq> 0 then CR8_EXITS else 0)) AND
                        CPU_BASED_TPR_SHADOW = 0 then VIRTUAL_APIC else 0)"
    "cpu_based_exec_ctrl (vmcs_conf S) =
       (cpu1 AND NOT (if cpu1 AND CPU_BASED_TPR_SHADOW \<noteq> 0 then CR8_EXITS else 0))
         AND NOT (if cpu_based_2nd_exec_ctrl (vmcs_conf S) AND SECONDARY_EXEC_ENABLE_EPT \<noteq> 0 then PAGING_EXITS else 0)"
    "pin_based_exec_ctrl (vmcs_conf S) =
       pin1 AND NOT (if cpu_based_2nd_exec_ctrl (vmcs_conf S) AND SECONDARY_EXEC_VIRTUAL_INTR_DELIVERY = 0 \<or>
                        ex AND VM_EXIT_ACK_INTR_ON_EXIT = 0 then PIN_BASED_POSTED_INTR else 0)"
proof -
  have m: "CPU_BASED_HLT_EXITING OR CPU_BASED_CR8_LOAD_EXITING OR CPU_BASED_CR8_STORE_EXITING OR
         CPU_BASED_CR3_LOAD_EXITING OR CPU_BASED_CR3_STORE_EXITING OR CPU_BASED_USE_IO_BITMAPS OR
         CPU_BASED_MOV_DR_EXITING OR CPU_BASED_USE_TSC_OFFSETING OR CPU_BASED_MWAIT_EXITING OR
         CPU_BASED_MONITOR_EXITING OR CPU_BASED_INVLPG_EXITING OR CPU_BASED_RDPMC_EXITING = CPU_MIN"
    by (simp add: exit_masks control_bits)
  have c8: "x AND NOT CPU_BASED_CR8_LOAD_EXITING AND NOT CPU_BASED_CR8_STORE_EXITING = x AND NOT CR8_EXITS" for x
    by (intro bit_word_eqI) (auto simp: bit_simps CR8_EXITS_def)
  have sz: "\<not> (0x1000 :: u32) < x AND 0x1FFF \<Longrightarrow> x AND 0x1FFF \<le> 0x1000" for x by simp
  show ?thesis
    using assms
    unfolding setup_vmcs_config_def m CPU_OPT_def[symmetric] c8 PAGING_EXITS_def[symmetric]
      VIRTUAL_APIC_def[symmetric] Let_def bind_eq_Some_conv
    apply (elim exE conjE)
    subgoal premises p for cpu1 sec1 ex pin1 en
    proof -
      have sz: "msr_high rd MSR_IA32_VMX_BASIC AND 0x1FFF \<le> 0x1000"
        using p(6) by (simp split: if_splits)
      have S: "S = T" if "(if b then None else Some T) = Some S" for b T using that by (simp split: if_splits)
      note S = S[OF p(6)]
      note [simp] = S[THEN arg_cong[where f=vmcs_conf], simplified]
      show ?thesis
        apply (rule that[of cpu1 sec1 ex pin1 en])
        subgoal by (rule p(1))
        subgoal using p(2) by (cases "cpu1 AND CPU_BASED_TPR_SHADOW = 0") (auto split: if_splits)
        subgoal by (rule p(3))
        subgoal by (rule p(4))
        subgoal by (rule p(5))
        subgoal by simp
        subgoal by simp
        subgoal using sz by simp
        subgoal by simp
        subgoal by simp
        subgoal by simp
        done
    qed
    done
qed

lemma bits_in_test: "bits_in b c \<Longrightarrow> b \<noteq> 0 \<Longrightarrow> c AND b \<noteq> 0"
  using and_zero_iff[of b b] by (auto simp: and_zero_iff bits_in_iff)

lemma vmcs_config_supported_lemma:
  assumes "setup_vmcs_config rd family model cap0 = Some S"
    and "\<forall>msr \<in> {MSR_IA32_VMX_PROCBASED_CTLS, MSR_IA32_VMX_PROCBASED_CTLS2, MSR_IA32_VMX_PINBASED_CTLS,
                 MSR_IA32_VMX_EXIT_CTLS, MSR_IA32_VMX_ENTRY_CTLS}. capability_msr rd msr"
  shows "config_supported rd (vmcs_conf S)"
proof -
  obtain cpu1 sec1 ex pin1 en where st:
    "adjust_vmx_controls rd CPU_MIN CPU_OPT MSR_IA32_VMX_PROCBASED_CTLS = Some cpu1"
    "if (cpu1 AND NOT (if cpu1 AND CPU_BASED_TPR_SHADOW \<noteq> 0 then CR8_EXITS else 0)) AND
        CPU_BASED_ACTIVATE_SECONDARY_CONTROLS \<noteq> 0
     then \<exists>opt. adjust_vmx_controls rd 0 opt MSR_IA32_VMX_PROCBASED_CTLS2 = Some sec1 else sec1 = 0"
    "adjust_vmx_controls rd VM_EXIT_HOST_ADDR_SPACE_SIZE
       (VM_EXIT_SAVE_IA32_PAT OR VM_EXIT_LOAD_IA32_PAT OR VM_EXIT_ACK_INTR_ON_EXIT) MSR_IA32_VMX_EXIT_CTLS = Some ex"
    "adjust_vmx_controls rd (PIN_BASED_EXT_INTR_MASK OR PIN_BASED_NMI_EXITING)
       (PIN_BASED_VIRTUAL_NMIS OR PIN_BASED_POSTED_INTR) MSR_IA32_VMX_PINBASED_CTLS = Some pin1"
    "adjust_vmx_controls rd 0 VM_ENTRY_LOAD_IA32_PAT MSR_IA32_VMX_ENTRY_CTLS = Some en"
    and c: "vmexit_ctrl (vmcs_conf S) = ex" "vmentry_ctrl (vmcs_conf S) = en" "conf_size (vmcs_conf S) \<le> 0x1000"
    and sec: "cpu_based_2nd_exec_ctrl (vmcs_conf S) =
       sec1 AND NOT (if (cpu1 AND NOT (if cpu1 AND CPU_BASED_TPR_SHADOW \<noteq> 0 then CR8_EXITS else 0)) AND
                        CPU_BASED_TPR_SHADOW = 0 then VIRTUAL_APIC else 0)"
    and cpu: "cpu_based_exec_ctrl (vmcs_conf S) =
       (cpu1 AND NOT (if cpu1 AND CPU_BASED_TPR_SHADOW \<noteq> 0 then CR8_EXITS else 0))
         AND NOT (if cpu_based_2nd_exec_ctrl (vmcs_conf S) AND SECONDARY_EXEC_ENABLE_EPT \<noteq> 0 then PAGING_EXITS else 0)"
    and pin: "pin_based_exec_ctrl (vmcs_conf S) =
       pin1 AND NOT (if cpu_based_2nd_exec_ctrl (vmcs_conf S) AND SECONDARY_EXEC_VIRTUAL_INTR_DELIVERY = 0 \<or>
                        ex AND VM_EXIT_ACK_INTR_ON_EXIT = 0 then PIN_BASED_POSTED_INTR else 0)"
    by (rule setup_stages[OF assms(1)])
  define C P where "C = (if cpu1 AND CPU_BASED_TPR_SHADOW \<noteq> 0 then CR8_EXITS else 0)"
    and "P = (if cpu_based_2nd_exec_ctrl (vmcs_conf S) AND SECONDARY_EXEC_ENABLE_EPT \<noteq> 0 then PAGING_EXITS else 0)"
  note sup = adjust_vmx_controlsD[OF st(1)] adjust_vmx_controlsD[OF st(3)] adjust_vmx_controlsD[OF st(4)]
    adjust_vmx_controlsD[OF st(5)]
  have keep: "((cpu1 AND NOT C) AND NOT P) AND b = cpu1 AND b \<and> (cpu1 AND NOT C) AND b = cpu1 AND b"
    if "b AND (CR8_EXITS OR PAGING_EXITS) = 0" for b
  proof -
    have "\<And>n. bit b n \<Longrightarrow> \<not> bit C n \<and> \<not> bit P n"
      using that unfolding and_zero_iff C_def P_def by (simp add: bit_or_iff)
    then show ?thesis by (intro conjI bit_word_eqI) (auto simp: bit_simps)
  qed
  have low: "\<And>m. m \<in> {MSR_IA32_VMX_PROCBASED_CTLS, MSR_IA32_VMX_PROCBASED_CTLS2, MSR_IA32_VMX_PINBASED_CTLS,
                 MSR_IA32_VMX_EXIT_CTLS, MSR_IA32_VMX_ENTRY_CTLS} \<Longrightarrow> bits_in (msr_low rd m) (msr_high rd m)"
    using assms(2) unfolding capability_msr_def by blast
  have tpr: "CPU_BASED_TPR_SHADOW AND (CR8_EXITS OR PAGING_EXITS) = 0"
    and sc: "CPU_BASED_ACTIVATE_SECONDARY_CONTROLS AND (CR8_EXITS OR PAGING_EXITS) = 0"
    and rq: "REQUIRED_EXITS AND (CR8_EXITS OR PAGING_EXITS) = 0"
    by (simp_all add: exit_masks control_bits)
  let ?cpu = "cpu_based_exec_ctrl (vmcs_conf S)" and ?sec = "cpu_based_2nd_exec_ctrl (vmcs_conf S)"
  have cpu': "?cpu = (cpu1 AND NOT C) AND NOT P" using cpu unfolding C_def P_def .
  note cpu1 = sup(1)[OF low]
  have a1: "bits_in ?cpu (msr_high rd MSR_IA32_VMX_PROCBASED_CTLS)"
    unfolding cpu' using cpu1 by (intro bits_in_clear) simp
  have tpr': "?cpu AND CPU_BASED_TPR_SHADOW = cpu1 AND CPU_BASED_TPR_SHADOW"
    "(cpu1 AND NOT C) AND CPU_BASED_TPR_SHADOW = cpu1 AND CPU_BASED_TPR_SHADOW"
    and sc': "?cpu AND CPU_BASED_ACTIVATE_SECONDARY_CONTROLS = cpu1 AND CPU_BASED_ACTIVATE_SECONDARY_CONTROLS"
    "(cpu1 AND NOT C) AND CPU_BASED_ACTIVATE_SECONDARY_CONTROLS = cpu1 AND CPU_BASED_ACTIVATE_SECONDARY_CONTROLS"
    using keep[OF tpr] keep[OF sc] unfolding cpu' by blast+
  have sec': "?sec = sec1 AND NOT (if cpu1 AND CPU_BASED_TPR_SHADOW = 0 then VIRTUAL_APIC else 0)"
    using sec tpr'(2) unfolding C_def by simp
  have a2: "?cpu AND CPU_BASED_ACTIVATE_SECONDARY_CONTROLS = 0 \<and> ?sec = 0 \<or>
      ?cpu AND CPU_BASED_ACTIVATE_SECONDARY_CONTROLS \<noteq> 0 \<and> bits_in ?sec (msr_high rd MSR_IA32_VMX_PROCBASED_CTLS2)"
  proof (cases "cpu1 AND CPU_BASED_ACTIVATE_SECONDARY_CONTROLS = 0")
    case True
    then show ?thesis using st(2) sc' unfolding C_def[symmetric] by (simp add: sec')
  next
    case False
    then obtain opt where "adjust_vmx_controls rd 0 opt MSR_IA32_VMX_PROCBASED_CTLS2 = Some sec1"
      using st(2) sc'(2) unfolding C_def[symmetric] by auto
    from adjust_vmx_controlsD[OF this low] have "bits_in sec1 (msr_high rd MSR_IA32_VMX_PROCBASED_CTLS2)" by simp
    then show ?thesis using False sc' by (simp add: sec' bits_in_clear)
  qed
  have a3: "bits_in (pin_based_exec_ctrl (vmcs_conf S)) (msr_high rd MSR_IA32_VMX_PINBASED_CTLS)"
    unfolding pin using sup(3)[OF low] by (intro bits_in_clear) simp
  have a4: "bits_in (PIN_BASED_EXT_INTR_MASK OR PIN_BASED_NMI_EXITING) (pin_based_exec_ctrl (vmcs_conf S))"
    unfolding pin using sup(3)[OF low] by (intro bits_in_kept) (auto simp: control_bits)
  have r1: "bits_in REQUIRED_EXITS cpu1 \<and> bits_in CR8_EXITS cpu1 \<and> bits_in PAGING_EXITS cpu1"
    using cpu1 unfolding CPU_MIN_def bits_in_or by simp
  have cp0: "CR8_EXITS AND PAGING_EXITS = 0" by (simp add: exit_masks control_bits)
  have a5: "bits_in REQUIRED_EXITS ?cpu"
    unfolding cpu' C_def P_def using rq r1 by (intro bits_in_kept) (auto simp: exit_masks control_bits)
  have a6: "bits_in (msr_low rd MSR_IA32_VMX_PROCBASED_CTLS) (?cpu OR CR8_EXITS OR PAGING_EXITS)"
    unfolding cpu' C_def P_def using cpu1 by (auto simp: bits_in_iff bit_simps dest: bit_imp_le_length)
  have a7: "?cpu AND CPU_BASED_TPR_SHADOW = 0 \<longrightarrow> bits_in CR8_EXITS ?cpu"
    unfolding tpr'(1) unfolding cpu' C_def P_def using r1 cp0 by (auto intro!: bits_in_kept)
  have a8: "?sec AND SECONDARY_EXEC_ENABLE_EPT = 0 \<longrightarrow> bits_in PAGING_EXITS ?cpu"
    unfolding cpu' C_def P_def using r1 cp0 by (auto intro!: bits_in_kept simp: and.commute)
  have a9: "?sec AND VIRTUAL_APIC \<noteq> 0 \<longrightarrow> ?cpu AND CPU_BASED_TPR_SHADOW \<noteq> 0"
    unfolding tpr'(1) by (auto simp: sec' clear_zero)
  have a10: "pin_based_exec_ctrl (vmcs_conf S) AND PIN_BASED_POSTED_INTR \<noteq> 0 \<longrightarrow>
      ?sec AND SECONDARY_EXEC_VIRTUAL_INTR_DELIVERY \<noteq> 0 \<and> ex AND VM_EXIT_ACK_INTR_ON_EXIT \<noteq> 0"
    by (auto simp: pin clear_zero)
  have a11: "bits_in ex (msr_high rd MSR_IA32_VMX_EXIT_CTLS)"
    "bits_in (msr_low rd MSR_IA32_VMX_EXIT_CTLS OR VM_EXIT_HOST_ADDR_SPACE_SIZE) ex"
    "bits_in en (msr_high rd MSR_IA32_VMX_ENTRY_CTLS)" "bits_in (msr_low rd MSR_IA32_VMX_ENTRY_CTLS) en"
    using sup(2,4) low by (auto simp: bits_in_or)
  have a12: "bits_in (CR8_EXITS OR PAGING_EXITS) (msr_high rd MSR_IA32_VMX_PROCBASED_CTLS)"
    using cpu1 r1 by (auto simp: bits_in_or intro: bits_in_trans)
  show ?thesis unfolding config_supported_def c(1,2)
    using a12 a1 a2 a3 a4 a5 a6 a7 a8 a9[unfolded VIRTUAL_APIC_def] a10 a11 c(3) by blast
qed

text \<open>C23: The controls chosen when the module is loaded are supported by the processor and go together. Each
  field has only bits its capability MSR allows; the exits the hypervisor relies on are on, in particular every
  CR8 access exits unless the TPR shadow is used and every CR3 access and \<^verbatim>\<open>INVLPG\<close> exits unless EPT is
  used, and these exits can be turned on again; no control the processor insists on is cleared other than these; the virtualised APIC is only used with
  the TPR shadow and posted interrupts only with virtual interrupt delivery and acknowledgement on exit; a VMCS
  fits a page. The hypothesis is the documented meaning of the capability MSRs.\<close>

theorem vmcs_config_supported:
  assumes "setup_vmcs_config rd family model cap0 = Some S"
    and "\<forall>msr \<in> {MSR_IA32_VMX_PROCBASED_CTLS, MSR_IA32_VMX_PROCBASED_CTLS2, MSR_IA32_VMX_PINBASED_CTLS,
                 MSR_IA32_VMX_EXIT_CTLS, MSR_IA32_VMX_ENTRY_CTLS}. capability_msr rd msr"
  shows "config_supported rd (vmcs_conf S)"
  using assms by (rule vmcs_config_supported_lemma)

text \<open>A processor that allows everything and insists on nothing.\<close>

definition example_cpu :: "u32 \<Rightarrow> u64" where
  "example_cpu msr = (if msr = MSR_IA32_VMX_BASIC then 0x0018040000000012
     else if msr = MSR_IA32_VMX_EPT_VPID_CAP then 0xFFFFFFFFFFFFFFFF else 0xFFFFFFFF00000000)"

theorem vmcs_config_supported_witness:
  "\<exists>S. setup_vmcs_config example_cpu 6 60 \<lparr>cap_ept = 0, cap_vpid = 0\<rparr> = Some S \<and>
       config_supported example_cpu (vmcs_conf S)"
proof -
  have "\<not> Option.is_none (setup_vmcs_config example_cpu 6 60 \<lparr>cap_ept = 0, cap_vpid = 0\<rparr>)" by code_simp
  then obtain S where S: "setup_vmcs_config example_cpu 6 60 \<lparr>cap_ept = 0, cap_vpid = 0\<rparr> = Some S"
    by (auto simp: Option.is_none_def)
  have "\<forall>msr \<in> {MSR_IA32_VMX_PROCBASED_CTLS, MSR_IA32_VMX_PROCBASED_CTLS2, MSR_IA32_VMX_PINBASED_CTLS,
                 MSR_IA32_VMX_EXIT_CTLS, MSR_IA32_VMX_ENTRY_CTLS}. capability_msr example_cpu msr" by code_simp
  from vmcs_config_supported[OF S this] S show ?thesis by blast
qed

subsection \<open>The controls of a vCPU\<close>

lemma feature_setup_features:
  assumes "p = feature_setup rd nx S p0"
  shows "(par_ept p \<longrightarrow> cpu_has_vmx_ept S) \<and> (par_unrestricted_guest p \<longrightarrow> cpu_has_vmx_unrestricted_guest S) \<and>
    (par_ept_ad_bits p \<longrightarrow> cpu_has_vmx_ept_ad_bits S) \<and>
    (par_flexpriority p \<longrightarrow> cpu_has_vmx_flexpriority S) \<and> (par_apicv p \<longrightarrow> cpu_has_vmx_apicv S) \<and>
    (par_vpid p \<longrightarrow> cpu_has_vmx_vpid S) \<and> (par_shadow_vmcs p \<longrightarrow> cpu_has_vmx_shadow_vmcs rd S)"
  unfolding assms feature_setup_def Let_def by simp

lemma bits_in_self: "bits_in a (x OR a)" by (simp add: bits_in_iff bit_simps)

lemma bits_in_orI: "bits_in a b \<Longrightarrow> bits_in a (b OR c)" by (auto simp: bits_in_iff bit_simps)

lemma exec_control_masks:
  "vmx_exec_control S p irqchip =
     (let c = cpu_based_exec_ctrl (vmcs_conf S);
          d = (if vm_need_tpr_shadow S irqchip then c else (c AND NOT CPU_BASED_TPR_SHADOW) OR CR8_EXITS)
      in if par_ept p then d else d OR PAGING_EXITS)"
proof -
  have "x OR CPU_BASED_CR8_STORE_EXITING OR CPU_BASED_CR8_LOAD_EXITING = x OR CR8_EXITS"
    "x OR CPU_BASED_CR3_STORE_EXITING OR CPU_BASED_CR3_LOAD_EXITING OR CPU_BASED_INVLPG_EXITING = x OR PAGING_EXITS"
    for x by (auto intro!: bit_word_eqI simp: bit_simps exit_masks)
  then show ?thesis by (simp add: vmx_exec_control_def Let_def)
qed

lemma masked_bit: "(if c then m else 0) AND b = (if c then m AND b else (0 :: u32))" by simp

lemma and_kept: "m AND b = 0 \<Longrightarrow> (a AND NOT m) AND b = a AND (b :: u32)"
proof -
  assume "m AND b = 0"
  then have "\<And>n. bit m n \<Longrightarrow> \<not> bit b n" by (simp add: and_zero_iff)
  then show ?thesis by (intro bit_word_eqI) (auto simp: bit_simps)
qed

text \<open>All the bits the function clears.\<close>

definition secondary_cleared :: "vmx_params \<Rightarrow> u16 \<Rightarrow> bool \<Rightarrow> u32" where
  "secondary_cleared p vp irqchip =
     (if \<not> vm_need_virtualize_apic_accesses p irqchip then SECONDARY_EXEC_VIRTUALIZE_APIC_ACCESSES else 0) OR
     (if vp = 0 then SECONDARY_EXEC_ENABLE_VPID else 0) OR
     (if \<not> par_ept p then SECONDARY_EXEC_ENABLE_EPT OR SECONDARY_EXEC_ENABLE_INVPCID else 0) OR
     (if \<not> (par_ept p \<and> par_unrestricted_guest p) then SECONDARY_EXEC_UNRESTRICTED_GUEST else 0) OR
     (if par_ple_gap p = 0 then SECONDARY_EXEC_PAUSE_LOOP_EXITING else 0) OR
     (if \<not> vmx_vm_has_apicv p irqchip
      then SECONDARY_EXEC_APIC_REGISTER_VIRT OR SECONDARY_EXEC_VIRTUAL_INTR_DELIVERY else 0) OR
     SECONDARY_EXEC_VIRTUALIZE_X2APIC_MODE OR SECONDARY_EXEC_SHADOW_VMCS"

lemma secondary_masks:
  "vmx_secondary_exec_control S vp irqchip p =
     (cpu_based_2nd_exec_ctrl (vmcs_conf S) AND NOT (secondary_cleared p vp irqchip),
      if par_ept p then p else p\<lparr>par_unrestricted_guest := False\<rparr>)"
proof -
  have m: "(if b then c AND NOT m else c) = c AND NOT (if b then m else 0)" for b :: bool and c m :: u32 by simp
  have o: "(if b then m OR k else 0) = (if b then m else 0) OR (if b then k else (0 :: u32))" for b m k by simp
  have u: "par_unrestricted_guest (if par_ept p then p else p\<lparr>par_unrestricted_guest := False\<rparr>) =
      (par_ept p \<and> par_unrestricted_guest p)" by simp
  show ?thesis unfolding vmx_secondary_exec_control_def Let_def secondary_cleared_def u m o prod.inject
    by (intro conjI refl) (simp only: bit.de_Morgan_disj and.assoc and.left_commute and.commute)
qed

lemma secondary_cleared_test:
  "secondary_cleared p vp irqchip AND SECONDARY_EXEC_ENABLE_EPT = (if par_ept p then 0 else SECONDARY_EXEC_ENABLE_EPT)"
  "secondary_cleared p vp irqchip AND SECONDARY_EXEC_UNRESTRICTED_GUEST =
     (if par_ept p \<and> par_unrestricted_guest p then 0 else SECONDARY_EXEC_UNRESTRICTED_GUEST)"
  "secondary_cleared p vp irqchip AND SECONDARY_EXEC_VIRTUAL_INTR_DELIVERY =
     (if vmx_vm_has_apicv p irqchip then 0 else SECONDARY_EXEC_VIRTUAL_INTR_DELIVERY)"
  unfolding secondary_cleared_def bit.conj_disj_distrib2 masked_bit by (simp_all add: control_bits)

lemma masked_test:
  "(a AND NOT m) AND b \<noteq> 0 \<longleftrightarrow> c \<and> a AND b \<noteq> 0" if "m AND b = (if c then 0 else b)" for a b m :: u32
  using that clear_zero and_kept by (cases c) auto

lemma exec_control_facts:
  assumes "bits_in (cpu_based_exec_ctrl (vmcs_conf S)) hi" "bits_in (CR8_EXITS OR PAGING_EXITS) hi"
    "cpu_based_exec_ctrl (vmcs_conf S) AND CPU_BASED_TPR_SHADOW = 0 \<longrightarrow>
       bits_in CR8_EXITS (cpu_based_exec_ctrl (vmcs_conf S))"
  shows "bits_in (vmx_exec_control S p irqchip) hi"
    "\<not> par_ept p \<longrightarrow> bits_in PAGING_EXITS (vmx_exec_control S p irqchip)"
    "vmx_exec_control S p irqchip AND CPU_BASED_TPR_SHADOW =
      (if vm_need_tpr_shadow S irqchip then cpu_based_exec_ctrl (vmcs_conf S) AND CPU_BASED_TPR_SHADOW else 0)"
    "vmx_exec_control S p irqchip AND CPU_BASED_TPR_SHADOW = 0 \<longrightarrow>
      bits_in CR8_EXITS (vmx_exec_control S p irqchip)"
proof -
  let ?c = "vmcs_conf S" and ?x = "vmx_exec_control S p irqchip"
  show "bits_in ?x hi" using assms(1,2) unfolding exec_control_masks Let_def by (simp add: bits_in_or bits_in_clear)
  show "\<not> par_ept p \<longrightarrow> bits_in PAGING_EXITS ?x" unfolding exec_control_masks Let_def by (simp add: bits_in_self)
  have disj: "(y OR CR8_EXITS) AND CPU_BASED_TPR_SHADOW = y AND CPU_BASED_TPR_SHADOW"
    "(y OR PAGING_EXITS) AND CPU_BASED_TPR_SHADOW = y AND CPU_BASED_TPR_SHADOW" for y
    by (simp_all add: bit.conj_disj_distrib2 exit_masks control_bits)
  show x3: "?x AND CPU_BASED_TPR_SHADOW =
      (if vm_need_tpr_shadow S irqchip then cpu_based_exec_ctrl ?c AND CPU_BASED_TPR_SHADOW else 0)"
    unfolding exec_control_masks Let_def by (simp add: disj clear_zero)
  show "?x AND CPU_BASED_TPR_SHADOW = 0 \<longrightarrow> bits_in CR8_EXITS ?x"
    using assms(3) unfolding x3 unfolding exec_control_masks Let_def by (auto simp: bits_in_self intro: bits_in_orI)
qed

text \<open>C24: After a successful set-up, the controls of a vCPU are supported by the processor and consistent,
  whatever the parameters and the VM: EPT is on exactly when the parameter is, and if it is off the CR3 and
  \<^verbatim>\<open>INVLPG\<close> exits are on; the CR8 exits are on whenever the TPR shadow is off; unrestricted guest needs EPT;
  virtual interrupt delivery needs the TPR shadow and posted interrupts need it.\<close>

theorem vcpu_controls_supported:
  assumes "hardware_setup rd family model nx area S0 p0 N0 = (r, S, p, N)" "r \<noteq> -5"
    and "\<forall>msr \<in> {MSR_IA32_VMX_PROCBASED_CTLS, MSR_IA32_VMX_PROCBASED_CTLS2, MSR_IA32_VMX_PINBASED_CTLS,
                 MSR_IA32_VMX_EXIT_CTLS, MSR_IA32_VMX_ENTRY_CTLS}. capability_msr rd msr"
    and "vmx_secondary_exec_control S vp irqchip p = (sec, p')"
  shows "bits_in (vmx_exec_control S p irqchip) (msr_high rd MSR_IA32_VMX_PROCBASED_CTLS) \<and>
    bits_in (vmx_pin_based_exec_ctrl S p irqchip) (msr_high rd MSR_IA32_VMX_PINBASED_CTLS) \<and>
    bits_in sec (cpu_based_2nd_exec_ctrl (vmcs_conf S)) \<and>
    (sec AND SECONDARY_EXEC_ENABLE_EPT \<noteq> 0 \<longleftrightarrow> par_ept p) \<and>
    (sec AND SECONDARY_EXEC_UNRESTRICTED_GUEST \<noteq> 0 \<longrightarrow> par_ept p \<and> par_unrestricted_guest p') \<and>
    (\<not> par_ept p \<longrightarrow> bits_in PAGING_EXITS (vmx_exec_control S p irqchip)) \<and>
    (vmx_exec_control S p irqchip AND CPU_BASED_TPR_SHADOW = 0 \<longrightarrow>
       bits_in CR8_EXITS (vmx_exec_control S p irqchip)) \<and>
    (sec AND SECONDARY_EXEC_VIRTUAL_INTR_DELIVERY \<noteq> 0 \<longrightarrow>
       vmx_exec_control S p irqchip AND CPU_BASED_TPR_SHADOW \<noteq> 0) \<and>
    (vmx_pin_based_exec_ctrl S p irqchip AND PIN_BASED_POSTED_INTR \<noteq> 0 \<longrightarrow>
       sec AND SECONDARY_EXEC_VIRTUAL_INTR_DELIVERY \<noteq> 0)"
proof -
  have S: "setup_vmcs_config rd family model (vmx_cap S0) = Some S" "p = feature_setup rd nx S p0"
    using assms(1,2) by (auto simp: hardware_setup_def Let_def split: option.splits)
  note ok = vmcs_config_supported_lemma[OF S(1) assms(3)]
  have sec: "sec = cpu_based_2nd_exec_ctrl (vmcs_conf S) AND NOT (secondary_cleared p vp irqchip)"
    and p': "p' = (if par_ept p then p else p\<lparr>par_unrestricted_guest := False\<rparr>)"
    using assms(4) by (simp_all add: secondary_masks)
  let ?c = "vmcs_conf S"
  have ept: "sec AND SECONDARY_EXEC_ENABLE_EPT \<noteq> 0 \<longleftrightarrow>
      par_ept p \<and> cpu_based_2nd_exec_ctrl ?c AND SECONDARY_EXEC_ENABLE_EPT \<noteq> 0"
    and ug: "sec AND SECONDARY_EXEC_UNRESTRICTED_GUEST \<noteq> 0 \<longleftrightarrow>
      (par_ept p \<and> par_unrestricted_guest p) \<and> cpu_based_2nd_exec_ctrl ?c AND SECONDARY_EXEC_UNRESTRICTED_GUEST \<noteq> 0"
    and vid: "sec AND SECONDARY_EXEC_VIRTUAL_INTR_DELIVERY \<noteq> 0 \<longleftrightarrow>
      vmx_vm_has_apicv p irqchip \<and> cpu_based_2nd_exec_ctrl ?c AND SECONDARY_EXEC_VIRTUAL_INTR_DELIVERY \<noteq> 0"
    unfolding sec by (rule masked_test, rule secondary_cleared_test)+
  have feat: "par_ept p \<longrightarrow> cpu_based_2nd_exec_ctrl ?c AND SECONDARY_EXEC_ENABLE_EPT \<noteq> 0"
    using feature_setup_features[OF S(2)] by (simp add: cpu_has_vmx_ept_def)
  let ?hi = "msr_high rd MSR_IA32_VMX_PROCBASED_CTLS" and ?x = "vmx_exec_control S p irqchip"
  have cpu: "bits_in (cpu_based_exec_ctrl ?c) ?hi" "bits_in (CR8_EXITS OR PAGING_EXITS) ?hi"
    "cpu_based_exec_ctrl ?c AND CPU_BASED_TPR_SHADOW = 0 \<longrightarrow> bits_in CR8_EXITS (cpu_based_exec_ctrl ?c)"
    "bits_in (pin_based_exec_ctrl ?c) (msr_high rd MSR_IA32_VMX_PINBASED_CTLS)"
    "pin_based_exec_ctrl ?c AND PIN_BASED_POSTED_INTR \<noteq> 0 \<longrightarrow>
        cpu_based_2nd_exec_ctrl ?c AND SECONDARY_EXEC_VIRTUAL_INTR_DELIVERY \<noteq> 0"
    using ok unfolding config_supported_def by blast+
  note x = exec_control_facts[OF cpu(1-3), of p irqchip]
  have apicv: "vmx_vm_has_apicv p irqchip \<longrightarrow> irqchip \<and> cpu_has_vmx_apicv S"
    using feature_setup_features[OF S(2)] by (simp add: vmx_vm_has_apicv_def)
  have virt: "cpu_based_2nd_exec_ctrl ?c AND VIRTUAL_APIC \<noteq> 0 \<longrightarrow>
      cpu_based_exec_ctrl ?c AND CPU_BASED_TPR_SHADOW \<noteq> 0"
    using ok unfolding config_supported_def VIRTUAL_APIC_def by blast
  have va: "a AND SECONDARY_EXEC_VIRTUAL_INTR_DELIVERY \<noteq> 0 \<Longrightarrow> a AND VIRTUAL_APIC \<noteq> 0" for a
    by (auto simp: VIRTUAL_APIC_def bit.conj_disj_distrib or_eq_0_iff)
  have x5: "sec AND SECONDARY_EXEC_VIRTUAL_INTR_DELIVERY \<noteq> 0 \<longrightarrow> ?x AND CPU_BASED_TPR_SHADOW \<noteq> 0"
    using virt va[of "cpu_based_2nd_exec_ctrl ?c"] apicv unfolding vid x(3)
    by (auto simp: vm_need_tpr_shadow_def cpu_has_vmx_tpr_shadow_def)
  have pin: "vmx_pin_based_exec_ctrl S p irqchip AND PIN_BASED_POSTED_INTR \<noteq> 0 \<longrightarrow>
      vmx_vm_has_apicv p irqchip \<and> pin_based_exec_ctrl ?c AND PIN_BASED_POSTED_INTR \<noteq> 0"
    "bits_in (vmx_pin_based_exec_ctrl S p irqchip) (msr_high rd MSR_IA32_VMX_PINBASED_CTLS)"
    using cpu(4) by (auto simp: vmx_pin_based_exec_ctrl_def Let_def clear_zero bits_in_clear)
  have x6: "bits_in sec (cpu_based_2nd_exec_ctrl ?c)" unfolding sec by (rule bits_in_clear) (simp add: bits_in_iff)
  have x7: "sec AND SECONDARY_EXEC_UNRESTRICTED_GUEST \<noteq> 0 \<longrightarrow> par_ept p \<and> par_unrestricted_guest p'"
    using ug by (simp add: p')
  show ?thesis using x(1,2,4) pin x5 x6 x7 ept feat vid cpu(5) by blast
qed

text \<open>An interrupt controller in the kernel, every feature wanted.\<close>

definition example_params :: vmx_params where
  "example_params = \<lparr>par_vpid = True, par_shadow_vmcs = True, par_ept = True, par_unrestricted_guest = True,
     par_ept_ad_bits = True, par_flexpriority = True, par_apicv = True, par_nested = True, par_ple_gap = 128,
     no_update_cr8 = False, no_hwapic = False, largepages_off = False, efer_bits = 0\<rparr>"

definition example_setup :: vmx_setup where
  "example_setup = \<lparr>vmcs_conf = \<lparr>conf_size = 0, revision_id = 0, pin_based_exec_ctrl = 0, cpu_based_exec_ctrl = 0,
     cpu_based_2nd_exec_ctrl = 0, vmexit_ctrl = 0, vmentry_ctrl = 0\<rparr>,
     vmx_cap = \<lparr>cap_ept = 0, cap_vpid = 0\<rparr>, load_ia32_efer = False, load_perf_global_ctrl = False\<rparr>"

definition example_hardware :: "int \<times> vmx_setup \<times> vmx_params \<times> nested_ctls" where
  "example_hardware = hardware_setup example_cpu 6 60 True 0 example_setup example_params
     (nested_vmx_setup_ctls_msrs example_cpu example_setup example_params)"

theorem vcpu_controls_supported_witness:
  "case example_hardware of (r, S, p, N) \<Rightarrow>
     par_ept p \<and> fst (vmx_secondary_exec_control S 1 True p) AND SECONDARY_EXEC_ENABLE_EPT \<noteq> 0"
proof -
  obtain r S p N where h: "example_hardware = (r, S, p, N)" by (cases example_hardware)
  have r: "fst example_hardware = 0" and e: "par_ept (fst (snd (snd example_hardware)))" by code_simp+
  have c: "\<forall>msr \<in> {MSR_IA32_VMX_PROCBASED_CTLS, MSR_IA32_VMX_PROCBASED_CTLS2, MSR_IA32_VMX_PINBASED_CTLS,
                 MSR_IA32_VMX_EXIT_CTLS, MSR_IA32_VMX_ENTRY_CTLS}. capability_msr example_cpu msr" by code_simp
  obtain sec p' where x: "vmx_secondary_exec_control S 1 True p = (sec, p')"
    by (cases "vmx_secondary_exec_control S 1 True p")
  have r0: "r \<noteq> -5" and p: "par_ept p" using r e by (simp_all add: h)
  have "sec AND SECONDARY_EXEC_ENABLE_EPT \<noteq> 0 \<longleftrightarrow> par_ept p"
    using vcpu_controls_supported[OF h[unfolded example_hardware_def] r0 c x] by blast
  with p show ?thesis by (simp add: h x)
qed

subsection \<open>A nested hypervisor's controls\<close>

text \<open>The capability MSRs a nested hypervisor reads split into the two variables again.\<close>

lemma control_msr_halves:
  "msr_low (\<lambda>_. vmx_control_msr lo hi) m = lo \<and> msr_high (\<lambda>_. vmx_control_msr lo hi) m = hi"
  unfolding msr_low_def msr_high_def vmx_control_msr_def
  using bit_imp_le_length[of lo] by (auto intro!: bit_word_eqI simp: bit_simps) (fastforce+)?

lemma adjusted_control_accepted:
  assumes "adjust_vmx_controls rd ctl_min ctl_opt msr = Some c" "rd msr = vmx_control_msr lo hi"
  shows "vmx_control_verify c lo hi"
proof -
  have h: "msr_low rd msr = lo" "msr_high rd msr = hi"
    using control_msr_halves[of lo hi msr] assms(2) by (simp_all add: msr_low_def msr_high_def)
  have "c = ((ctl_min OR ctl_opt) AND hi) OR lo"
    using assms(1) by (simp add: adjust_vmx_controls_def Let_def h split: if_splits)
  then show ?thesis unfolding vmx_control_verify_def by (intro bit_word_eqI) (auto simp: bit_simps)
qed

lemma accepted_control_bits:
  "vmx_control_verify c lo hi \<longleftrightarrow> bits_in lo c \<and> bits_in c (hi OR lo)"
  unfolding vmx_control_verify_def using bit_imp_le_length[of lo] bit_imp_le_length[of c]
  by (auto simp: bit_eq_iff bits_in_iff bit_simps)

end
