(* ===== verification/Msr_Theorems.thy ===== *)
theory Msr_Theorems
  imports Msrs Control_Theorems
begin

text \<open>
  Properties of the model-specific registers: a write that succeeds is read back, a write that is refused
  leaves the registers as they were, the memory types stay valid, and what a guest without nested VMX learns
  from the VMX registers.
\<close>

subsection \<open>Which branch a register takes\<close>

lemma outside_range:
  assumes "lo \<le> msr" "msr \<le> (hi :: u32)"
  shows "c < lo \<or> hi < c \<Longrightarrow> (msr = c) = False" "c < lo \<or> hi < c \<Longrightarrow> (c = msr) = False"
    "hi < c \<Longrightarrow> (c \<le> msr) = False" "c < lo \<Longrightarrow> (msr \<le> c) = False" "hi < c \<Longrightarrow> (msr < c) = True"
  using assms by auto

lemma common_mtrr:
  assumes "0x200 \<le> msr" "msr \<le> 0x2FF"
  shows "kvm_set_msr_common L msr data h s = Some (set_msr_mtrr L msr data s)"
    "kvm_get_msr_common L msr s = get_msr_mtrr msr s"
  using assms unfolding kvm_set_msr_common_def kvm_get_msr_common_def
  by (simp_all add: outside_range[OF assms] msr_ignored_on_write_def msr_zero_on_read_def MSR_EFER_def
        split del: if_split)

lemma common_mce_bank:
  assumes "0x400 \<le> msr" "msr \<le> 0x47F"
  shows "kvm_set_msr_common L msr data h s = Some (set_msr_mce msr data s)"
    "kvm_get_msr_common L msr s = get_msr_mce msr s"
  using assms unfolding kvm_set_msr_common_def kvm_get_msr_common_def
  by (simp_all add: outside_range[OF assms] msr_ignored_on_write_def msr_zero_on_read_def MSR_EFER_def
        split del: if_split)

text \<open>The entries of \<open>guest_msrs\<close> name registers of \<open>vmx_msr_index\<close>.\<close>

definition msrs_ok :: "vcpu \<Rightarrow> bool" where
  "msrs_ok v \<longleftrightarrow> nmsrs v \<le> length (guest_msrs v) \<and> (\<forall>i<nmsrs v. sm_index (guest_msrs v ! i) < length vmx_msr_index)"

lemma find_msr_entry_Some:
  assumes "find_msr_entry v msr = Some i"
  shows "i < nmsrs v \<and> vmx_msr_index ! sm_index (guest_msrs v ! i) = msr"
  using assms unfolding find_msr_entry_def find_msr_index_def
  by (auto simp: find_Some_iff)

lemma find_msr_entry_None:
  assumes "msrs_ok v" "msr \<notin> set vmx_msr_index"
  shows "find_msr_entry v msr = None"
  using assms nth_mem unfolding find_msr_entry_def find_msr_index_def msrs_ok_def
  by (fastforce simp: find_None_iff)

lemma vmx_msr_range: "msr \<notin> {MSR_IA32_FEATURE_CONTROL} \<Longrightarrow> msr < 0x480 \<or> 0x490 < msr \<Longrightarrow>
    vmx_get_vmx_msr L msr s = (False, None, s) \<and> vmx_set_vmx_msr L msr data h s = (False, s)"
  unfolding vmx_get_vmx_msr_def vmx_set_vmx_msr_def Let_def
  by (auto simp: MSR_IA32_FEATURE_CONTROL_def MSR_IA32_VMX_BASIC_def MSR_IA32_VMX_TRUE_ENTRY_CTLS_def
     MSR_IA32_VMX_TRUE_PINBASED_CTLS_def MSR_IA32_VMX_PINBASED_CTLS_def MSR_IA32_VMX_TRUE_PROCBASED_CTLS_def
     MSR_IA32_VMX_PROCBASED_CTLS_def MSR_IA32_VMX_TRUE_EXIT_CTLS_def MSR_IA32_VMX_EXIT_CTLS_def
     MSR_IA32_VMX_ENTRY_CTLS_def MSR_IA32_VMX_MISC_def MSR_IA32_VMX_CR0_FIXED0_def MSR_IA32_VMX_CR0_FIXED1_def
     MSR_IA32_VMX_CR4_FIXED0_def MSR_IA32_VMX_CR4_FIXED1_def MSR_IA32_VMX_VMCS_ENUM_def
     MSR_IA32_VMX_PROCBASED_CTLS2_def MSR_IA32_VMX_EPT_VPID_CAP_def)

lemma vmx_plain:
  assumes "msrs_ok (mv s)" "msr \<notin> set vmx_msr_index"
    "msr \<notin> {MSR_FS_BASE, MSR_GS_BASE, MSR_KERNEL_GS_BASE, MSR_EFER, MSR_IA32_TSC, MSR_IA32_SYSENTER_CS,
       MSR_IA32_SYSENTER_EIP, MSR_IA32_SYSENTER_ESP, MSR_TSC_AUX, MSR_IA32_FEATURE_CONTROL}"
    "msr < 0x480 \<or> 0x490 < msr"
  shows "msr \<noteq> MSR_IA32_CR_PAT \<Longrightarrow> vmx_set_msr L msr data h s = kvm_set_msr_common L msr data h s"
    "vmx_get_msr L msr s = (case kvm_get_msr_common L msr s of (r, d) \<Rightarrow> (r, if r = 0 then Some d else None, s))"
proof -
  have f: "msr \<notin> {MSR_IA32_FEATURE_CONTROL}" using assms(3) by simp
  note r = vmx_msr_range[OF f assms(4), THEN conjunct1] vmx_msr_range[OF f assms(4), THEN conjunct2]
  show "msr \<noteq> MSR_IA32_CR_PAT \<Longrightarrow> vmx_set_msr L msr data h s = kvm_set_msr_common L msr data h s"
    and "vmx_get_msr L msr s = (case kvm_get_msr_common L msr s of (r, d) \<Rightarrow> (r, if r = 0 then Some d else None, s))"
    using assms(3) find_msr_entry_None[OF assms(1,2)] unfolding vmx_set_msr_def vmx_get_msr_def Let_def r
    by simp_all
qed

subsection \<open>Memory types and machine checks\<close>

lemma def_type_roundtrip:
  assumes "data AND NOT 0xCFF = (0 :: u64)"
  shows "ucast (ucast data :: u8) + push_bit 10 (ucast (ucast (drop_bit 10 (data AND 0xC00)) :: u8)) = data"
proof -
  have m: "(0xCFF :: u64) = mask 8 OR push_bit 10 (mask 2)" "(0xC00 :: u64) = push_bit 10 (mask 2)"
    by (simp_all add: mask_eq_exp_minus_1)
  have d: "bit data n \<longleftrightarrow> bit data n \<and> (n < 8 \<or> 10 \<le> n \<and> n < 12)" for n
  proof -
    have "\<not> bit (data AND NOT 0xCFF) n" unfolding assms by simp
    then show ?thesis using bit_imp_le_length[of data n] unfolding m by (auto simp: bit_simps)
  qed
  let ?x = "ucast (ucast data :: u8) :: u64"
    and ?y = "push_bit 10 (ucast (ucast (drop_bit 10 (data AND 0xC00)) :: u8)) :: u64"
  have "?x AND ?y = 0" unfolding m by (intro bit_word_eqI) (auto simp: bit_simps)
  then have "?x + ?y = ?x OR ?y" by (rule disjunctive_add_eq_or)
  also have "\<dots> = data"
  proof (rule bit_word_eqI)
    fix n assume "n < LENGTH(64)"
    then show "bit (?x OR ?y) n = bit data n" using d[of n] unfolding m by (auto simp: bit_simps)
  qed
  finally show ?thesis .
qed

lemma mtrr_read_back:
  assumes "set_msr_mtrr L msr data s = (0, s')"
  shows "get_msr_mtrr msr s' = (0, data)"
proof -
  have v: "mtrr_valid msr data" using assms by (auto simp: set_msr_mtrr_def split: if_splits)
  then have mv: "msr_mtrr_valid msr" by (auto simp: mtrr_valid_def split: if_splits)
  show ?thesis
  proof (cases "msr = MSR_MTRRdefType")
    case True
    then have "data AND NOT 0xCFF = 0" using v by (auto simp: mtrr_valid_def split: if_splits)
    from def_type_roundtrip[OF this] show ?thesis
      using assms v mv True by (auto simp: set_msr_mtrr_def get_msr_mtrr_def Let_def)
  next
    case False
    then show ?thesis using assms v mv
      by (auto simp: set_msr_mtrr_def get_msr_mtrr_def Let_def split: if_splits)
  qed
qed

lemma mce_read_back:
  assumes "set_msr_mce msr data s = (0, s')"
  shows "get_msr_mce msr s' = (0, data)"
  using assms by (auto simp: set_msr_mce_def get_msr_mce_def Let_def word_le_nat_alt split: if_splits)

subsection \<open>Reading back\<close>

text \<open>The registers of the common part that hold what is written to them.\<close>

definition common_stored :: "u32 \<Rightarrow> bool" where
  "common_stored msr \<longleftrightarrow> 0x200 \<le> msr \<and> msr \<le> 0x2FF \<or> 0x400 \<le> msr \<and> msr \<le> 0x47F \<or>
     msr \<in> {MSR_IA32_MCG_CTL, MSR_IA32_MCG_STATUS, MSR_IA32_MISC_ENABLE, MSR_KVM_WALL_CLOCK,
       MSR_KVM_WALL_CLOCK_NEW, MSR_KVM_SYSTEM_TIME, MSR_KVM_SYSTEM_TIME_NEW, MSR_KVM_ASYNC_PF_EN,
       MSR_KVM_STEAL_TIME, HV_X64_MSR_GUEST_OS_ID, HV_X64_MSR_APIC_ASSIST_PAGE,
       MSR_AMD64_OSVW_ID_LENGTH, MSR_AMD64_OSVW_STATUS}"

lemma wall_clock_mem:
  "\<exists>m. kvm_write_wall_clock C w s = s\<lparr>cmem := m\<rparr>" for s :: "'z clock_vcpu_scheme"
  unfolding kvm_write_wall_clock_def Let_def
  by (auto split: sum.splits intro: exI[of _ "cmem s"])

lemma common_single:
  "kvm_set_msr_common L MSR_IA32_MCG_CTL data h s = Some (set_msr_mce MSR_IA32_MCG_CTL data s)"
  "kvm_set_msr_common L MSR_IA32_MCG_STATUS data h s = Some (set_msr_mce MSR_IA32_MCG_STATUS data s)"
  "kvm_set_msr_common L MSR_IA32_MISC_ENABLE data h s = Some (0, s\<lparr>misc_enable_msr := data\<rparr>)"
  "kvm_set_msr_common L MSR_KVM_WALL_CLOCK data h s =
     Some (0, kvm_write_wall_clock (mclk L) data (s\<lparr>arch_wall_clock := data\<rparr>))"
  "kvm_set_msr_common L MSR_KVM_WALL_CLOCK_NEW data h s =
     Some (0, kvm_write_wall_clock (mclk L) data (s\<lparr>arch_wall_clock := data\<rparr>))"
  "kvm_set_msr_common L MSR_KVM_SYSTEM_TIME data h s = set_system_time L data s"
  "kvm_set_msr_common L MSR_KVM_SYSTEM_TIME_NEW data h s = set_system_time L data s"
  "kvm_set_msr_common L MSR_KVM_ASYNC_PF_EN data h s =
     map_option (\<lambda>(r, s1). (if r \<noteq> 0 then 1 else 0, s1)) (kvm_pv_enable_async_pf L data s)"
  "kvm_set_msr_common L MSR_KVM_STEAL_TIME data h s = set_steal_time L data s"
  "kvm_set_msr_common L HV_X64_MSR_GUEST_OS_ID data h s = Some (set_msr_hyperv_pw L HV_X64_MSR_GUEST_OS_ID data s)"
  "kvm_set_msr_common L HV_X64_MSR_APIC_ASSIST_PAGE data h s =
     Some (set_msr_hyperv L HV_X64_MSR_APIC_ASSIST_PAGE data s)"
  "kvm_set_msr_common L MSR_AMD64_OSVW_ID_LENGTH data h s =
     Some (if \<not> cpuid_osvw L then (1, s) else (0, s\<lparr>osvw_length := data\<rparr>))"
  "kvm_set_msr_common L MSR_AMD64_OSVW_STATUS data h s =
     Some (if \<not> cpuid_osvw L then (1, s) else (0, s\<lparr>osvw_status := data\<rparr>))"
  by (simp_all add: kvm_set_msr_common_def msr_ignored_on_write_def MSR_EFER_def kvm_hv_msr_partition_wide_def
        split del: if_split)

lemma common_single_read:
  "kvm_get_msr_common L MSR_IA32_MCG_CTL s = get_msr_mce MSR_IA32_MCG_CTL s"
  "kvm_get_msr_common L MSR_IA32_MCG_STATUS s = get_msr_mce MSR_IA32_MCG_STATUS s"
  "kvm_get_msr_common L MSR_IA32_MISC_ENABLE s = (0, misc_enable_msr s)"
  "kvm_get_msr_common L MSR_KVM_WALL_CLOCK s = (0, arch_wall_clock s)"
  "kvm_get_msr_common L MSR_KVM_WALL_CLOCK_NEW s = (0, arch_wall_clock s)"
  "kvm_get_msr_common L MSR_KVM_SYSTEM_TIME s = (0, arch_time s)"
  "kvm_get_msr_common L MSR_KVM_SYSTEM_TIME_NEW s = (0, arch_time s)"
  "kvm_get_msr_common L MSR_KVM_ASYNC_PF_EN s = (0, apf_msr_val s)"
  "kvm_get_msr_common L MSR_KVM_STEAL_TIME s = (0, st_msr_val s)"
  "kvm_get_msr_common L HV_X64_MSR_GUEST_OS_ID s = (0, hv_guest_os_id s)"
  "kvm_get_msr_common L HV_X64_MSR_APIC_ASSIST_PAGE s = (0, hv_vapic s)"
  "kvm_get_msr_common L MSR_AMD64_OSVW_ID_LENGTH s = (if \<not> cpuid_osvw L then (1, 0) else (0, osvw_length s))"
  "kvm_get_msr_common L MSR_AMD64_OSVW_STATUS s = (if \<not> cpuid_osvw L then (1, 0) else (0, osvw_status s))"
  by (simp_all add: kvm_get_msr_common_def msr_zero_on_read_def MSR_EFER_def kvm_hv_msr_partition_wide_def
        get_msr_hyperv_pw_def get_msr_hyperv_def split del: if_split)

lemma hyperv_read_back:
  "set_msr_hyperv_pw L HV_X64_MSR_GUEST_OS_ID data s = (0, s') \<Longrightarrow> hv_guest_os_id s' = data"
  "set_msr_hyperv L HV_X64_MSR_APIC_ASSIST_PAGE data s = (0, s') \<Longrightarrow> hv_vapic s' = data"
  by (auto simp: set_msr_hyperv_pw_def set_msr_hyperv_def Let_def split: if_splits prod.splits)

lemma cache_read_back:
  "set_system_time L data s = Some (0, s') \<Longrightarrow> arch_time s' = data"
  "set_steal_time L data s = Some (0, s') \<Longrightarrow> st_msr_val s' = data"
  "kvm_pv_enable_async_pf L data s = Some (0, s') \<Longrightarrow> apf_msr_val s' = data"
  by (auto simp: set_system_time_def set_steal_time_def kvm_pv_enable_async_pf_def kvmclock_reset_def Let_def
     split: if_splits option.splits prod.splits)

lemma common_read_back:
  assumes "kvm_set_msr_common L msr data h s = Some (0, s')" "common_stored msr"
  shows "kvm_get_msr_common L msr s' = (0, data)"
proof -
  consider (mtrr) "0x200 \<le> msr" "msr \<le> 0x2FF" | (mce) "0x400 \<le> msr" "msr \<le> 0x47F"
    | (single) "msr \<in> {MSR_IA32_MCG_CTL, MSR_IA32_MCG_STATUS, MSR_IA32_MISC_ENABLE, MSR_KVM_WALL_CLOCK,
       MSR_KVM_WALL_CLOCK_NEW, MSR_KVM_SYSTEM_TIME, MSR_KVM_SYSTEM_TIME_NEW, MSR_KVM_ASYNC_PF_EN,
       MSR_KVM_STEAL_TIME, HV_X64_MSR_GUEST_OS_ID, HV_X64_MSR_APIC_ASSIST_PAGE,
       MSR_AMD64_OSVW_ID_LENGTH, MSR_AMD64_OSVW_STATUS}"
    using assms(2) unfolding common_stored_def by blast
  then show ?thesis
  proof cases
    case mtrr
    then show ?thesis using assms(1) by (simp add: common_mtrr mtrr_read_back)
  next
    case mce
    then show ?thesis using assms(1) by (simp add: common_mce_bank mce_read_back)
  next
    case single
    obtain m where m: "kvm_write_wall_clock (mclk L) data (s\<lparr>arch_wall_clock := data\<rparr>) =
        s\<lparr>arch_wall_clock := data\<rparr>\<lparr>cmem := m\<rparr>" using wall_clock_mem by blast
    from single show ?thesis using assms(1) hyperv_read_back cache_read_back
      by (auto simp: common_single common_single_read mce_read_back m split: if_splits)
  qed
qed

text \<open>What the code relies on: resetting the MMU context does not touch the table of MSRs.\<close>

definition reset_keeps_msrs :: "'x msr_lib \<Rightarrow> bool" where
  "reset_keeps_msrs L \<longleftrightarrow> (\<forall>v. msrs_ok v \<longrightarrow> msrs_ok (kvm_mmu_reset_context (msr_env L) v))"

lemma msrs_ok_request [simp]: "msrs_ok (kvm_make_request r v) = msrs_ok v"
  by (simp add: msrs_ok_def kvm_make_request_def)

lemma mtrr_msrs_ok:
  "set_msr_mtrr L msr data s = (r, s') \<Longrightarrow> reset_keeps_msrs L \<Longrightarrow> msrs_ok (mv s) \<Longrightarrow> msrs_ok (mv s')"
  by (auto simp: set_msr_mtrr_def Let_def reset_keeps_msrs_def split: if_splits)

lemma mce_mv: "set_msr_mce msr data s = (r, s') \<Longrightarrow> mv s' = mv s"
  by (auto simp: set_msr_mce_def Let_def split: if_splits)

lemma hyperv_mv:
  "set_msr_hyperv_pw L msr data s = (r, s') \<Longrightarrow> mv s' = mv s"
  "set_msr_hyperv L msr data s = (r, s') \<Longrightarrow> mv s' = mv s"
  by (auto simp: set_msr_hyperv_pw_def set_msr_hyperv_def ext_call_def Let_def split: if_splits prod.splits)

lemma cache_msrs_ok:
  "set_system_time L data s = Some (r, s') \<Longrightarrow> msrs_ok (mv s) \<Longrightarrow> msrs_ok (mv s')"
  "set_steal_time L data s = Some (r, s') \<Longrightarrow> msrs_ok (mv s) \<Longrightarrow> msrs_ok (mv s')"
  "kvm_pv_enable_async_pf L data s = Some (r, s') \<Longrightarrow> msrs_ok (mv s) \<Longrightarrow> msrs_ok (mv s')"
  by (auto simp: set_system_time_def set_steal_time_def kvm_pv_enable_async_pf_def kvmclock_reset_def Let_def
     split: if_splits option.splits prod.splits)

lemma common_msrs_ok:
  assumes "kvm_set_msr_common L msr data h s = Some (r, s')" "common_stored msr" "reset_keeps_msrs L" "msrs_ok (mv s)"
  shows "msrs_ok (mv s')"
proof -
  obtain m where m: "kvm_write_wall_clock (mclk L) data (s\<lparr>arch_wall_clock := data\<rparr>) =
      s\<lparr>arch_wall_clock := data\<rparr>\<lparr>cmem := m\<rparr>" using wall_clock_mem by blast
  consider (mtrr) "0x200 \<le> msr" "msr \<le> 0x2FF" | (mce) "0x400 \<le> msr" "msr \<le> 0x47F"
    | (single) "msr \<in> {MSR_IA32_MCG_CTL, MSR_IA32_MCG_STATUS, MSR_IA32_MISC_ENABLE, MSR_KVM_WALL_CLOCK,
       MSR_KVM_WALL_CLOCK_NEW, MSR_KVM_SYSTEM_TIME, MSR_KVM_SYSTEM_TIME_NEW, MSR_KVM_ASYNC_PF_EN,
       MSR_KVM_STEAL_TIME, HV_X64_MSR_GUEST_OS_ID, HV_X64_MSR_APIC_ASSIST_PAGE,
       MSR_AMD64_OSVW_ID_LENGTH, MSR_AMD64_OSVW_STATUS}"
    using assms(2) unfolding common_stored_def by blast
  then show ?thesis
  proof cases
    case mtrr
    then show ?thesis using assms(1,3,4) mtrr_msrs_ok[of L msr data s r s'] by (simp add: common_mtrr)
  next
    case mce
    then show ?thesis using assms(1,4) mce_mv[of msr data s r s'] by (simp add: common_mce_bank)
  next
    case single
    then show ?thesis using assms(1,4) mce_mv[of msr data s r s'] hyperv_mv[of L msr data s r s']
      by (auto simp: common_single m dest: cache_msrs_ok split: if_splits)
  qed
qed

text \<open>The registers that hold what is written to them; the system call registers where the vCPU has them.\<close>

definition stored_msr :: "vcpu \<Rightarrow> u32 \<Rightarrow> bool" where
  "stored_msr v msr \<longleftrightarrow> common_stored msr \<or>
     msr \<in> {MSR_FS_BASE, MSR_GS_BASE, MSR_KERNEL_GS_BASE, MSR_IA32_SYSENTER_CS, MSR_IA32_SYSENTER_EIP,
       MSR_IA32_SYSENTER_ESP} \<or>
     msr \<in> {MSR_STAR, MSR_LSTAR, MSR_CSTAR, MSR_SYSCALL_MASK, MSR_TSC_AUX} \<and> find_msr_entry v msr \<noteq> None"

lemma common_stored_plain:
  assumes "common_stored msr"
  shows "msr \<notin> set vmx_msr_index" "msr < 0x480 \<or> 0x490 < msr"
    "msr \<notin> {MSR_FS_BASE, MSR_GS_BASE, MSR_KERNEL_GS_BASE, MSR_EFER, MSR_IA32_TSC, MSR_IA32_SYSENTER_CS,
       MSR_IA32_SYSENTER_EIP, MSR_IA32_SYSENTER_ESP, MSR_TSC_AUX, MSR_IA32_FEATURE_CONTROL}"
    "msr \<notin> {MSR_CSTAR, MSR_LSTAR}" "msr \<noteq> MSR_IA32_TSC_ADJUST"
proof -
  show "msr < 0x480 \<or> 0x490 < msr"
    using assms unfolding common_stored_def by (auto simp: word_less_nat_alt word_le_nat_alt)
qed (use assms in \<open>auto simp: common_stored_def vmx_msr_index_def MSR_EFER_def MSR_STAR_def MSR_LSTAR_def
       MSR_CSTAR_def MSR_SYSCALL_MASK_def MSR_TSC_AUX_def MSR_IA32_FEATURE_CONTROL_def\<close>)

lemma find_msr_entry_cong:
  assumes "nmsrs w = nmsrs v" "\<And>j. sm_index (guest_msrs w ! j) = sm_index (guest_msrs v ! j)"
  shows "find_msr_entry w msr = find_msr_entry v msr"
  using assms by (simp add: find_msr_entry_def find_msr_index_def)

lemma kvm_set_shared_msr_mv: "mv (snd (kvm_set_shared_msr L slot val m s)) = mv s"
  by (simp add: kvm_set_shared_msr_def Let_def)

lemma entry_read_back:
  assumes "find_msr_entry (mv s) msr = Some i" "msrs_ok (mv s)" "write_msr_entry L i data s = (0, s')"
  shows "find_msr_entry (mv s') msr = Some i \<and> sm_data (guest_msrs (mv s') ! i) = data \<and>
    rdtscp_enabled (mv s') = rdtscp_enabled (mv s)"
proof -
  have i: "i < length (guest_msrs (mv s))"
    using find_msr_entry_Some[OF assms(1)] assms(2) by (simp add: msrs_ok_def)
  have mv: "mv s' = mv (set_entry_data i data s)"
    using assms(3) kvm_set_shared_msr_mv[of L "sm_index (guest_msrs (mv s) ! i)" data
        "sm_mask (guest_msrs (mv s) ! i)" "set_entry_data i data s"]
    by (auto simp: write_msr_entry_def Let_def split: if_splits prod.splits)
  have "find_msr_entry (mv s') msr = find_msr_entry (mv s) msr"
  proof (rule find_msr_entry_cong)
    show "sm_index (guest_msrs (mv s') ! j) = sm_index (guest_msrs (mv s) ! j)" for j
      using i by (cases "j = i") (simp_all add: mv set_entry_data_def)
  qed (simp add: mv set_entry_data_def)
  then show ?thesis using assms(1) i by (simp add: mv set_entry_data_def)
qed

lemma load_host_state_idle: "\<not> hs_loaded (host_st v) \<Longrightarrow> vmx_load_host_state E v = v"
  by (simp add: vmx_load_host_state_def)

lemma load_host_state_done: "\<not> hs_loaded (host_st (vmx_load_host_state E v))"
  by (simp add: vmx_load_host_state_def Let_def)

lemma common_write_read:
  assumes set: "vmx_set_msr L msr data host_initiated s = Some (0, s')" and common: "common_stored msr"
    and ok: "msrs_ok (mv s)" "reset_keeps_msrs L"
  shows "msrs_ok (mv s') \<and> kvm_get_msr_common L msr s' = (0, data)"
proof (cases "msr = MSR_IA32_CR_PAT \<and> vmentry_ctrl (vmcs_conf (vsetup L)) AND VM_ENTRY_LOAD_IA32_PAT \<noteq> 0")
  case True
  then have "s' = s\<lparr>mv := vmcs_write64 GUEST_IA32_PAT data (mv s), arch_pat := data\<rparr>"
    using set by (simp add: vmx_set_msr_def MSR_EFER_def)
  then show ?thesis using True ok
    by (simp add: common_mtrr get_msr_mtrr_def msr_mtrr_valid_def msrs_ok_def vmcs_ops Let_def)
next
  case False
  note ne = common_stored_plain[OF common]
  from False have "kvm_set_msr_common L msr data host_initiated s = Some (0, s')"
    using set vmx_plain(1)[OF ok(1) ne(1,3,2), of L data host_initiated]
    by (cases "msr = MSR_IA32_CR_PAT") (auto simp: vmx_set_msr_def MSR_EFER_def)
  then show ?thesis using common_read_back common common_msrs_ok ok by blast
qed

lemma vmcs_write_read:
  assumes set: "vmx_set_msr L msr x host_initiated s = Some (0, s')"
    and "msr \<in> {MSR_FS_BASE, MSR_GS_BASE, MSR_KERNEL_GS_BASE, MSR_IA32_SYSENTER_CS, MSR_IA32_SYSENTER_EIP,
       MSR_IA32_SYSENTER_ESP}"
  shows "\<exists>s''. vmx_get_msr L msr s' = (0, Some (if msr = MSR_IA32_SYSENTER_CS then x AND 0xFFFFFFFF else x), s'')"
proof -
  have m: "(0xFFFFFFFF :: u64) = mask 32" by (simp add: mask_eq_exp_minus_1)
  have cs: "ucast (ucast x :: u32) = x AND 0xFFFFFFFF" for x :: u64
    unfolding m by (intro bit_word_eqI) (auto simp: bit_simps)
  have idle: "vmx_load_host_state E (vmx_load_host_state F v\<lparr>msr_guest_kernel_gs_base := x\<rparr>) =
      vmx_load_host_state F v\<lparr>msr_guest_kernel_gs_base := x\<rparr>" for E F v x
    by (rule load_host_state_idle) (simp add: load_host_state_done)
  from assms(2) show ?thesis
  proof (elim insertE emptyE)
  qed (use set in \<open>auto simp: vmx_set_msr_def vmx_get_msr_def MSR_EFER_def vmcs_ops cs idle\<close>)
qed

text \<open>C27: A register that stores what is written to it is read back: after a write that succeeds, by the guest
  or by user space, reading the same register succeeds and returns the written value, made canonical for the two
  addresses of the system call entry and cut to 32 bits for its segment. This covers the memory types with the
  packed default type and the PAT on both paths, the machine check banks, the paravirtual and Hyper-V registers
  and the system call registers. The hypothesis on the MMU says that its reset leaves the table of MSRs alone.\<close>

theorem msr_write_read:
  assumes "kvm_set_msr L msr data host_initiated s = Some (0, s')" "stored_msr (mv s) msr" "msrs_ok (mv s)"
    and "reset_keeps_msrs L"
  shows "\<exists>s''. kvm_get_msr L msr s' =
    (0, Some (if msr = MSR_IA32_SYSENTER_EIP \<or> msr = MSR_IA32_SYSENTER_ESP then get_canonical L data
              else if msr = MSR_IA32_SYSENTER_CS then data AND 0xFFFFFFFF else data), s'')"
proof -
  consider (common) "common_stored msr"
    | (vmcs) "msr \<in> {MSR_FS_BASE, MSR_GS_BASE, MSR_KERNEL_GS_BASE, MSR_IA32_SYSENTER_CS, MSR_IA32_SYSENTER_EIP,
       MSR_IA32_SYSENTER_ESP}"
    | (entry) i where "msr \<in> {MSR_STAR, MSR_LSTAR, MSR_CSTAR, MSR_SYSCALL_MASK, MSR_TSC_AUX}"
        "find_msr_entry (mv s) msr = Some i"
    using assms(2) unfolding stored_msr_def by blast
  then show ?thesis
  proof cases
    case common
    note ne = common_stored_plain[OF common]
    have set: "vmx_set_msr L msr data host_initiated s = Some (0, s')"
      using assms(1) ne(3,4) unfolding kvm_set_msr_def by (auto split: if_splits)
    have "vmx_get_msr L msr s' = (0, Some data, s')"
      using vmx_plain(2)[OF _ ne(1,3,2), of s' L] common_write_read[OF set common assms(3,4)] by simp
    then show ?thesis using ne(3) by (auto simp: kvm_get_msr_def)
  next
    case vmcs
    have "vmx_set_msr L msr (if msr = MSR_IA32_SYSENTER_EIP \<or> msr = MSR_IA32_SYSENTER_ESP
        then get_canonical L data else data) host_initiated s = Some (0, s')"
      using assms(1) unfolding kvm_set_msr_def by (auto split: if_splits)
    from vmcs_write_read[OF this vmcs] show ?thesis unfolding kvm_get_msr_def by auto
  next
    case entry
    note numbers = MSR_EFER_def MSR_STAR_def MSR_LSTAR_def MSR_CSTAR_def MSR_SYSCALL_MASK_def MSR_TSC_AUX_def
    have r: "msr \<notin> {MSR_IA32_FEATURE_CONTROL}" "msr < 0x480 \<or> 0x490 < msr"
      using entry(1) by (auto simp: numbers MSR_IA32_FEATURE_CONTROL_def)
    note v = vmx_msr_range[OF r, THEN conjunct1] vmx_msr_range[OF r, THEN conjunct2]
    have aux: "msr = MSR_TSC_AUX \<longrightarrow> rdtscp_enabled (mv s)"
      and w: "write_msr_entry L i data s = (0, s')"
      using assms(1) entry unfolding kvm_set_msr_def vmx_set_msr_def Let_def v
      by (auto simp: numbers split: if_splits)
    from entry_read_back[OF entry(2) assms(3) w] show ?thesis
      using entry(1) aux unfolding kvm_get_msr_def vmx_get_msr_def Let_def v by (auto simp: numbers)
  qed
qed

subsection \<open>Refused writes\<close>

text \<open>The states agree but for the external parts, guest memory, the translations of two guest pages and the
  values noted for the processor.\<close>

definition same_registers :: "'x msr_vcpu \<Rightarrow> 'x msr_vcpu \<Rightarrow> bool" where
  "same_registers s s' \<longleftrightarrow> s' = s\<lparr>cmem := cmem s', st_cache := st_cache s', ext := ext s',
     apf_cache := apf_cache s', shared_curr := shared_curr s'\<rparr>"


lemma same_registers_refl [simp]: "same_registers s s" by (simp add: same_registers_def)

lemma if_eqE: "(if b then x else y) = z \<Longrightarrow> (b \<Longrightarrow> x = z \<Longrightarrow> P) \<Longrightarrow> (y = z \<Longrightarrow> P) \<Longrightarrow> P"
  by (simp split: if_splits)




subsection \<open>Memory types\<close>

definition memory_types_ok :: "'x msr_vcpu \<Rightarrow> bool" where
  "memory_types_ok s \<longleftrightarrow> list_all valid_pat_type (word_bytes 8 (arch_pat s)) \<and>
     valid_mtrr_type (mtrr_def_type s) \<and>
     (\<forall>i. list_all valid_mtrr_type (word_bytes 8 (mtrr_fixed s i))) \<and>
     (\<forall>i. valid_mtrr_type (ucast (mtrr_base s i)) \<and> valid_mtrr_type (ucast (mtrr_mask s i)))"

definition same_types :: "'x msr_vcpu \<Rightarrow> 'x msr_vcpu \<Rightarrow> bool" where
  "same_types s s' \<longleftrightarrow> arch_pat s' = arch_pat s \<and> mtrr_def_type s' = mtrr_def_type s \<and>
     mtrr_fixed s' = mtrr_fixed s \<and> mtrr_base s' = mtrr_base s \<and> mtrr_mask s' = mtrr_mask s"

lemma same_types_ok: "same_types s s' \<Longrightarrow> memory_types_ok s \<Longrightarrow> memory_types_ok s'"
  by (simp add: same_types_def memory_types_ok_def)

lemma mtrr_types_ok:
  assumes "set_msr_mtrr L msr data s = (r, s')" "memory_types_ok s"
  shows "memory_types_ok s'"
proof (cases "mtrr_valid msr data")
  case True
  then have v: "msr_mtrr_valid msr" by (auto simp: mtrr_valid_def split: if_splits)
  have gap: "0x250 \<le> msr \<Longrightarrow> msr \<le> 0x26F \<Longrightarrow> msr = 0x250 \<or> msr = 0x258 \<or> msr = 0x259 \<or> 0x268 \<le> msr"
    "\<not> 0x250 \<le> msr \<Longrightarrow> \<not> 0x268 \<le> msr"
    using v unfolding msr_mtrr_valid_def by (auto simp: word_le_nat_alt)
  show ?thesis using True assms gap
    by (auto simp: set_msr_mtrr_def mtrr_valid_def memory_types_ok_def Let_def split: if_splits)
qed (use assms in \<open>auto simp: set_msr_mtrr_def\<close>)

lemma same_types_parts:
  "set_msr_mce msr data s = (r, s') \<Longrightarrow> same_types s s'"
  "xen_hvm_config L data s = (r, s') \<Longrightarrow> same_types s s'"
  "set_msr_hyperv_pw L msr data s = (r, s') \<Longrightarrow> same_types s s'"
  "set_msr_hyperv L msr data s = (r, s') \<Longrightarrow> same_types s s'"
  "ext_call f s = (r, s') \<Longrightarrow> same_types s s'"
  "set_system_time L data s = Some (r, s') \<Longrightarrow> same_types s s'"
  "set_steal_time L data s = Some (r, s') \<Longrightarrow> same_types s s'"
  "kvm_pv_enable_async_pf L data s = Some (r, s') \<Longrightarrow> same_types s s'"
  by (auto simp: same_types_def set_msr_mce_def xen_hvm_config_def set_msr_hyperv_pw_def kvmclock_reset_def
      set_msr_hyperv_def ext_call_def set_system_time_def set_steal_time_def
      kvm_pv_enable_async_pf_def Let_def split: if_splits prod.splits option.splits sum.splits)

lemma same_types_clock:
  "same_types s (kvm_write_tsc C data h s)" "same_types s (adjust_tsc_offset_guest d s)"
  "same_types s (kvm_write_wall_clock C w s)"
  by (auto simp: same_types_def kvm_write_tsc_def adjust_tsc_offset_guest_def vmx_adjust_tsc_offset_def
      kvm_track_tsc_matching_def vmx_write_tsc_offset_def update_ia32_tsc_adjust_msr_def
      kvm_write_wall_clock_def Let_def split: sum.splits)

lemma common_types_ok:
  assumes "kvm_set_msr_common L msr data h s = Some (r, s')" "memory_types_ok s"
  shows "memory_types_ok s'"
proof -
  have "same_types s s' \<or> (\<exists>r. set_msr_mtrr L msr data s = (r, s'))"
    using assms(1) unfolding kvm_set_msr_common_def
    by (elim if_eqE) (auto simp: same_types_def same_types_clock[unfolded same_types_def]
        dest: same_types_parts[unfolded same_types_def] split: if_splits prod.splits)
  then show ?thesis using same_types_ok mtrr_types_ok assms(2) by blast
qed

lemma vmx_types_ok:
  assumes "vmx_set_msr L msr data h s = Some (r, s')" "memory_types_ok s"
    "msr = MSR_IA32_CR_PAT \<longrightarrow> vmentry_ctrl (vmcs_conf (vsetup L)) AND VM_ENTRY_LOAD_IA32_PAT = 0"
  shows "memory_types_ok s'"
proof -
  have k: "kvm_set_msr_common L msr data h t = Some (r, s') \<Longrightarrow> memory_types_ok t \<Longrightarrow> memory_types_ok s'" for t
    by (rule common_types_ok)
  have w: "write_msr_entry L i data t = (r, s') \<Longrightarrow> memory_types_ok t \<Longrightarrow> memory_types_ok s'" for i t
    by (auto simp: write_msr_entry_def kvm_set_shared_msr_def set_entry_data_def memory_types_ok_def Let_def
        split: if_splits prod.splits)
  have t: "memory_types_ok (kvm_write_tsc C d h s)" for C d
    using same_types_ok same_types_clock(1) assms(2) by blast
  have u: "memory_types_ok (s\<lparr>mv := v\<rparr>)" "memory_types_ok (s\<lparr>feature_control := x\<rparr>)" for v x
    using assms(2) by (simp_all add: memory_types_ok_def)
  show ?thesis using assms(1) unfolding vmx_set_msr_def Let_def
    by (elim if_eqE) (use assms(2,3) in
      \<open>auto simp: t u vmx_set_vmx_msr_def intro: k w split: if_splits prod.splits bool.splits option.splits\<close>)
qed

text \<open>C29: The memory types a guest can put into its PAT and range registers stay valid under every write,
  refused or not, by the guest or by user space, as long as the processor does not load the PAT at VM entry. If
  it does, the write of the PAT skips the check: every value is accepted and stored.\<close>

theorem memory_types_valid:
  "(kvm_set_msr L msr data host_initiated s = Some (r, s') \<and> memory_types_ok s \<and>
    (msr = MSR_IA32_CR_PAT \<longrightarrow> vmentry_ctrl (vmcs_conf (vsetup L)) AND VM_ENTRY_LOAD_IA32_PAT = 0) \<longrightarrow>
    memory_types_ok s') \<and>
   (vmentry_ctrl (vmcs_conf (vsetup L)) AND VM_ENTRY_LOAD_IA32_PAT \<noteq> 0 \<longrightarrow>
    (\<exists>t. kvm_set_msr L MSR_IA32_CR_PAT pat host_initiated s = Some (0, t) \<and> arch_pat t = pat))"
proof (intro conjI impI)
  assume h: "kvm_set_msr L msr data host_initiated s = Some (r, s') \<and> memory_types_ok s \<and>
    (msr = MSR_IA32_CR_PAT \<longrightarrow> vmentry_ctrl (vmcs_conf (vsetup L)) AND VM_ENTRY_LOAD_IA32_PAT = 0)"
  then have "s' = s \<or> (\<exists>d. vmx_set_msr L msr d host_initiated s = Some (r, s'))"
    unfolding kvm_set_msr_def by (auto split: if_splits)
  then show "memory_types_ok s'" using h vmx_types_ok by blast
next
  assume "vmentry_ctrl (vmcs_conf (vsetup L)) AND VM_ENTRY_LOAD_IA32_PAT \<noteq> 0"
  then show "\<exists>t. kvm_set_msr L MSR_IA32_CR_PAT pat host_initiated s = Some (0, t) \<and> arch_pat t = pat"
    by (simp add: kvm_set_msr_def vmx_set_msr_def MSR_EFER_def MSR_CSTAR_def MSR_LSTAR_def)
qed

subsection \<open>The VMX registers\<close>

text \<open>C30: A guest that may not use nested VMX gets a general protection fault when it reads a capability
  register of VMX, but the read is also completed: the instruction is skipped and its result registers are
  filled from a variable nobody assigned.\<close>

theorem rdmsr_leaks:
  assumes "\<not> nested_vmx_allowed (msr_env L) (mv s)" "regs (mv s) RCX = msr" "0x480 \<le> msr" "msr \<le> 0x490"
  shows "handle_rdmsr L junk s =
    (let v = kvm_inject_gp 0 (mv s)
     in (1, s\<lparr>mv := skip_emulated_instruction L
          (v\<lparr>regs := (regs v)(RAX := junk AND 0xFFFFFFFF, RDX := drop_bit 32 junk AND 0xFFFFFFFF)\<rparr>)\<rparr>))"
proof -
  let ?m = "ucast msr :: u32"
  have b: "unat msr \<le> 0x490" "0x480 \<le> unat msr" using assms(3,4) by (simp_all add: word_le_nat_alt)
  then have u: "unat ?m = unat msr" by (simp add: unsigned_ucast_eq take_bit_nat_eq_self)
  have r: "0x480 \<le> ?m" "?m \<le> 0x490" using b u by (simp_all add: word_le_nat_alt)
  have "vmx_get_vmx_msr L ?m s = (True, None, s\<lparr>mv := kvm_queue_exception_e GP_VECTOR 0 (mv s)\<rparr>)"
    using assms(1) r
    by (simp add: vmx_get_vmx_msr_def MSR_IA32_VMX_BASIC_def MSR_IA32_VMX_TRUE_ENTRY_CTLS_def)
  then have "vmx_get_msr L ?m s = (0, None, s\<lparr>mv := kvm_inject_gp 0 (mv s)\<rparr>)"
    by (simp add: vmx_get_msr_def kvm_inject_gp_def outside_range[OF r] MSR_EFER_def MSR_TSC_AUX_def)
  then show ?thesis unfolding handle_rdmsr_def assms(2) by (simp add: Let_def)
qed

text \<open>The pairs of registers and limits that describe the controls.\<close>

definition control_limits :: "nested_ctls \<Rightarrow> (u32 \<times> u32 \<times> u32) list" where
  "control_limits N =
     [(MSR_IA32_VMX_PINBASED_CTLS, pinbased_low N, pinbased_high N),
      (MSR_IA32_VMX_PROCBASED_CTLS, procbased_low N, procbased_high N),
      (MSR_IA32_VMX_PROCBASED_CTLS2, secondary_low N, secondary_high N),
      (MSR_IA32_VMX_EXIT_CTLS, exit_low N, exit_high N),
      (MSR_IA32_VMX_ENTRY_CTLS, entry_low N, entry_high N)]"

text \<open>The bits offered although the processor may lack them: the ones that are always on, and the features
  that are emulated.\<close>

definition emulated_controls :: "vmx_params \<Rightarrow> u32 \<Rightarrow> u32" where
  "emulated_controls p msr =
     (if msr = MSR_IA32_VMX_PINBASED_CTLS then PIN_BASED_ALWAYSON_WITHOUT_TRUE_MSR
      else if msr = MSR_IA32_VMX_PROCBASED_CTLS then CPU_BASED_USE_MSR_BITMAPS
      else if msr = MSR_IA32_VMX_PROCBASED_CTLS2 then
        (if par_ept p then SECONDARY_EXEC_ENABLE_EPT else 0) OR
        (if par_unrestricted_guest p then SECONDARY_EXEC_UNRESTRICTED_GUEST else 0)
      else if msr = MSR_IA32_VMX_EXIT_CTLS then
        VM_EXIT_ALWAYSON_WITHOUT_TRUE_MSR OR VM_EXIT_LOAD_IA32_EFER OR VM_EXIT_SAVE_IA32_EFER
      else VM_ENTRY_ALWAYSON_WITHOUT_TRUE_MSR OR VM_ENTRY_LOAD_IA32_EFER)"

lemmas control_msrs = MSR_IA32_FEATURE_CONTROL_def MSR_IA32_VMX_BASIC_def MSR_IA32_VMX_TRUE_ENTRY_CTLS_def
  MSR_IA32_VMX_TRUE_PINBASED_CTLS_def MSR_IA32_VMX_PINBASED_CTLS_def MSR_IA32_VMX_TRUE_PROCBASED_CTLS_def
  MSR_IA32_VMX_PROCBASED_CTLS_def MSR_IA32_VMX_TRUE_EXIT_CTLS_def MSR_IA32_VMX_EXIT_CTLS_def
  MSR_IA32_VMX_ENTRY_CTLS_def MSR_IA32_VMX_MISC_def MSR_IA32_VMX_CR0_FIXED0_def MSR_IA32_VMX_CR0_FIXED1_def
  MSR_IA32_VMX_CR4_FIXED0_def MSR_IA32_VMX_CR4_FIXED1_def MSR_IA32_VMX_VMCS_ENUM_def
  MSR_IA32_VMX_PROCBASED_CTLS2_def MSR_IA32_VMX_EPT_VPID_CAP_def

lemma reported_limits:
  assumes "nested_vmx_allowed (msr_env L) (mv s)" "(msr, lo, hi) \<in> set (control_limits (nctls L))"
  shows "vmx_get_vmx_msr L msr s = (True, Some (vmx_control_msr lo hi), s)"
  using assms by (auto simp: control_limits_def vmx_get_vmx_msr_def control_msrs Let_def)

lemma offered_bits:
  assumes "(msr, lo, hi) \<in> set (control_limits (nested_vmx_setup_ctls_msrs rd S p))"
    "capability_msr rd MSR_IA32_VMX_PINBASED_CTLS"
  shows "bits_in (hi OR lo) (msr_high rd msr OR emulated_controls p msr)"
proof -
  have k: "bits_in (x AND m) x" "bits_in x x" for x m by (simp_all add: bits_in_iff bit_simps)
  have "bits_in (msr_low rd MSR_IA32_VMX_PINBASED_CTLS) (msr_high rd MSR_IA32_VMX_PINBASED_CTLS)"
    using assms(2) by (simp add: capability_msr_def)
  then show ?thesis using assms(1)
    unfolding control_limits_def nested_vmx_setup_ctls_msrs_def Let_def
    by (auto simp: emulated_controls_def control_msrs bits_in_iff bit_simps split: if_splits)
qed

text \<open>C31: A nested hypervisor that chooses a control field as this code does, from the capability registers the
  code itself reports, has it accepted by the check made when it enters its guest; and a control the check
  accepts has no bit beyond the processor's own capability, the bits that are always on and those listed as
  emulated.\<close>

theorem nested_controls_accepted:
  assumes "nested_vmx_allowed (msr_env L) (mv s)" "nctls L = nested_vmx_setup_ctls_msrs rd S p"
    and "(msr, lo, hi) \<in> set (control_limits (nctls L))"
    and "fst (snd (vmx_get_vmx_msr L msr s)) = Some (rd1 msr)"
    and "capability_msr rd MSR_IA32_VMX_PINBASED_CTLS"
  shows "(adjust_vmx_controls rd1 ctl_min ctl_opt msr = Some c \<longrightarrow> vmx_control_verify c lo hi) \<and>
    (vmx_control_verify d lo hi \<longrightarrow> bits_in d (msr_high rd msr OR emulated_controls p msr))"
proof (intro conjI impI)
  assume a: "adjust_vmx_controls rd1 ctl_min ctl_opt msr = Some c"
  have "rd1 msr = vmx_control_msr lo hi" using assms(4) reported_limits[OF assms(1,3)] by simp
  with a show "vmx_control_verify c lo hi" by (rule adjusted_control_accepted)
next
  assume "vmx_control_verify d lo hi"
  then have "bits_in d (hi OR lo)" by (simp add: accepted_control_bits)
  also have "bits_in (hi OR lo) (msr_high rd msr OR emulated_controls p msr)"
    using offered_bits assms(2,3,5) by simp
  finally show "bits_in d (msr_high rd msr OR emulated_controls p msr)" .
qed

end
