(* ===== verification/Example_Msrs.thy ===== *)
theory Example_Msrs
  imports Example_State Memory_Theorems Msr_Theorems Clock_Theorems
begin

text \<open>
  A vCPU with a clock and its registers, on the idle vCPU and the memory of the other examples, and the
  functions outside the repository for it: a counter standing at zero, an APIC that refuses every access, and
  nested VMX not allowed.
\<close>

definition example_cache :: gfn_to_hva_cache where
  "example_cache = \<lparr>ghc_generation = - 150, ghc_gpa = 0, ghc_hva = 0, ghc_len = 64,
     ghc_memslot = Some \<lparr>base_gfn = 0, npages = 1, dirty_bitmap = 0, rmap = [0, 0, 0], lpage_info = [0, 0],
       userspace_addr = 0, mflags = 0, slot_id = 0\<rparr>\<rparr>"

definition example_msrs :: "unit msr_vcpu" where
  "example_msrs =
     \<lparr>mv = example_vcpu, cmem = initial_mem, vmcs01_tsc_offset = 0, vmcs12_cpu_ctl = 0, vmcs12_tsc_offset = 0,
      hv_clock = \<lparr>pv_version = 0, pv_tsc_timestamp = 0, pv_system_time = 0, pv_mul = 0, pv_shift = 0, pv_flags = 0\<rparr>,
      hw_tsc_khz = 1000000, pv_time = example_cache, pv_time_enabled = True, set_guest_stopped = False,
      st_msr_val = 0, st_last_steal = 0, st_accum_steal = 0, st_cache = example_cache, st_steal = 0,
      st_version = 0, st_rest = replicate 52 0, last_guest_tsc = 0, last_kernel_ns = 0, this_tsc_nsec = 0,
      this_tsc_write = 0, this_tsc_generation = 0, tsc_catchup = False, tsc_always_catchup = False,
      virtual_tsc_shift = 0, virtual_tsc_mult = 0, virtual_tsc_khz = 1000000, tsc_adjust_msr = 0,
      masterclock_update = False, kvmclock_offset = 0, last_tsc_nsec = 0, last_tsc_write = 0,
      last_tsc_khz = 1000000, cur_tsc_nsec = 0, cur_tsc_write = 0, cur_tsc_offset = 0, cur_tsc_generation = 0,
      nr_vcpus_matched_tsc = 0, use_master_clock = True, master_kernel_ns = 5000, master_cycle_now = 5000,
      ext = (), apf_slots = kvm_async_pf_hash_reset, apf_msr_val = 0, apf_cache = example_cache,
      apf_send_user_only = False, mtrr_def_type = 6, mtrr_enabled = 2, mtrr_fixed = (\<lambda>_. 0),
      mtrr_base = (\<lambda>_. 0), mtrr_mask = (\<lambda>_. 0), arch_pat = 0x0007040600070406, mcg_cap = 0x120,
      mcg_status = 0, mcg_ctl = 0, mce_banks = (\<lambda>_. 0), hv_vapic = 0, arch_time = 0, misc_enable_msr = 0,
      osvw_length = 0, osvw_status = 0, arch_wall_clock = 0, hv_guest_os_id = 0, hv_hypercall = 0,
      feature_control = 0, shared_curr = (\<lambda>_. 0), shared_registered = False, wrmsr_done = []\<rparr>"

definition example_clock_lib :: clock_lib where
  "example_clock_lib =
     \<lparr>cmlib = example_lib, scale_delta = (\<lambda>d m s. d), native_tsc = 0, kernel_ns_now = 0, tsc_unstable = False,
      gtod_is_tsc = True, online_vcpus = 1, cpu_tsc_khz = 1000000, host_tsc_khz = 1000000, tolerance_ppm = 250,
      has_tsc_adjust = True, boot_time = (0, 0), timespec_sub_ns = (\<lambda>t d. t), run_delay = 0\<rparr>"

text \<open>\<open>nest\<close> says whether nested VMX is allowed.\<close>

definition example_msr_lib :: "bool \<Rightarrow> unit msr_lib" where
  "example_msr_lib nest =
     \<lparr>mx = example_xenv\<lparr>ops := example_env\<lparr>nested_vmx_allowed := \<lambda>_. nest\<rparr>\<rparr>, mclk = example_clock_lib,
      x2apic_write = (\<lambda>m d x. (1, x)), x2apic_read = (\<lambda>m x. (1, 0)), hv_apic_write = (\<lambda>m d x. (1, x)),
      hv_apic_read = (\<lambda>m x. (1, 0)), set_tscdeadline = (\<lambda>d x. x), get_tscdeadline = (\<lambda>x. 0),
      pv_eoi_enable = (\<lambda>d x. (1, x)), pv_eoi_val = (\<lambda>x. 0), pmu_msr = (\<lambda>m x. False),
      pmu_set_msr = (\<lambda>m d h x. (1, x)), pmu_get_msr = (\<lambda>m x. (1, 0)), clear_completions = (\<lambda>x. x),
      async_wakeup_all = (\<lambda>x. x), cpuid_osvw = False, sched_info_on = True, ignore_msrs = False, xen_msr = 0,
      xen_blob = (\<lambda>lm. (0, 0)), memdup_user = (\<lambda>u a n. Inl (- 14)), vcpu_index = 0,
      is_noncanonical = (\<lambda>a. False), get_canonical = (\<lambda>a. a), wrmsr_safe = (\<lambda>m d. True),
      rip_read = (\<lambda>v. (regs v RIP, v)), rip_write = (\<lambda>r v. v\<lparr>regs := (regs v)(RIP := r)\<rparr>),
      vsetup = example_setup, nctls = nested_vmx_setup_ctls_msrs example_cpu example_setup example_params\<rparr>"

lemmas msr_nums = MSR_EFER_def MSR_STAR_def MSR_CSTAR_def MSR_LSTAR_def MSR_SYSCALL_MASK_def MSR_TSC_AUX_def
  vmx_msr_index_def control_msrs

lemmas example_msr_defs = example_msrs_def example_msr_lib_def example_clock_lib_def examples example_vcpu_def

lemma example_nested: "nested_vmx_allowed (msr_env (example_msr_lib nest)) v = nest"
  by (simp add: example_msr_defs msr_env_def)

lemma example_msrs_ok: "msrs_ok (mv example_msrs)"
  by (simp add: msrs_ok_def example_msr_defs)

lemma example_reset: "reset_keeps_msrs (example_msr_lib nest)"
  by (simp add: reset_keeps_msrs_def example_msr_defs msr_env_def)

theorem msr_write_read_witness:
  "\<exists>s' s''. kvm_set_msr (example_msr_lib False) 0x1A0 5 False example_msrs = Some (0, s') \<and>
     kvm_get_msr (example_msr_lib False) 0x1A0 s' = (0, Some 5, s'')"
proof -
  have "\<exists>s'. kvm_set_msr (example_msr_lib False) MSR_IA32_MISC_ENABLE 5 False example_msrs = Some (0, s')"
    by (simp add: kvm_set_msr_def vmx_set_msr_def kvm_set_msr_common_def msr_ignored_on_write_def Let_def
        vmx_set_vmx_msr_def find_msr_entry_def find_msr_index_def example_msrs_def example_vcpu_def msr_nums)
  then obtain s' where w: "kvm_set_msr (example_msr_lib False) MSR_IA32_MISC_ENABLE 5 False example_msrs = Some (0, s')"
    by blast
  have "stored_msr (mv example_msrs) MSR_IA32_MISC_ENABLE"
    by (simp add: stored_msr_def common_stored_def)
  from msr_write_read[OF w this example_msrs_ok example_reset] w show ?thesis
    by (simp add: msr_nums)
qed


lemma example_types_ok: "memory_types_ok example_msrs"
proof -
  have "list_all valid_pat_type (word_bytes 8 0x0007040600070406)" "valid_mtrr_type 6"
    "list_all valid_mtrr_type (word_bytes 8 0)" "valid_mtrr_type (ucast (0 :: u64))" by code_simp+
  then show ?thesis unfolding memory_types_ok_def by (simp add: example_msrs_def)
qed

theorem memory_types_valid_witness:
  "\<exists>r s'. kvm_set_msr (example_msr_lib False) 0x277 0x0606060606060606 False example_msrs = Some (r, s') \<and>
     memory_types_ok s'"
proof -
  have "\<exists>r s'. kvm_set_msr (example_msr_lib False) 0x277 0x0606060606060606 False example_msrs = Some (r, s')"
    by (simp add: kvm_set_msr_def vmx_set_msr_def common_mtrr(1) Let_def
        vmx_set_vmx_msr_def find_msr_entry_def find_msr_index_def example_msrs_def example_vcpu_def msr_nums
        split_paired_Ex[symmetric])
  then obtain r s' where
    w: "kvm_set_msr (example_msr_lib False) 0x277 0x0606060606060606 False example_msrs = Some (r, s')" by blast
  have "vmentry_ctrl (vmcs_conf (vsetup (example_msr_lib False))) AND VM_ENTRY_LOAD_IA32_PAT = 0"
    by (simp add: example_msr_lib_def example_setup_def)
  with w example_types_ok have "memory_types_ok s'" using memory_types_valid[THEN conjunct1, THEN mp] by blast
  with w show ?thesis by blast
qed

theorem rdmsr_leaks_witness:
  "let s = example_msrs\<lparr>mv := example_vcpu\<lparr>regs := (\<lambda>_. 0)(RCX := 0x480)\<rparr>\<rparr>;
       t = mv (snd (handle_rdmsr (example_msr_lib False) 0x123456789 s))
   in regs t RAX = 0x23456789 \<and> regs t RDX = 1 \<and> exc_pending t \<and> exc_nr t = GP_VECTOR"
proof -
  define s where "s = example_msrs\<lparr>mv := example_vcpu\<lparr>regs := (\<lambda>_. 0)(RCX := 0x480)\<rparr>\<rparr>"
  have "regs (mv s) RCX = 0x480" by (simp add: s_def)
  from rdmsr_leaks[where L = "example_msr_lib False" and junk = "0x123456789", OF _ this] example_nested
  have h: "handle_rdmsr (example_msr_lib False) 0x123456789 s =
    (let v = kvm_inject_gp 0 (mv s)
     in (1, s\<lparr>mv := skip_emulated_instruction (example_msr_lib False)
          (v\<lparr>regs := (regs v)(RAX := 0x23456789, RDX := 1)\<rparr>)\<rparr>))" by simp
  show ?thesis unfolding s_def[symmetric] Let_def h
    by (simp add: s_def kvm_inject_gp_def kvm_queue_exception_e_def skip_emulated_instruction_def
      example_msr_lib_def kvm_multiple_exception_def queue_exc_def kvm_make_request_def Let_def example_vcpu_def
      vmx_set_interrupt_shadow_def vmcs_write32_def vmcs_writel_def vmcs_read32_def)
qed

theorem nested_controls_accepted_witness:
  "let L = example_msr_lib True;
       rd1 = (\<lambda>m. case fst (snd (vmx_get_vmx_msr L m example_msrs)) of Some x \<Rightarrow> x | None \<Rightarrow> 0)
   in \<exists>c. adjust_vmx_controls rd1 1 0 MSR_IA32_VMX_PINBASED_CTLS = Some c \<and>
        vmx_control_verify c (pinbased_low (nctls L)) (pinbased_high (nctls L))"
proof -
  define L where "L = example_msr_lib True"
  define rd1 where
    "rd1 = (\<lambda>m. case fst (snd (vmx_get_vmx_msr L m example_msrs)) of Some x \<Rightarrow> x | None \<Rightarrow> 0)"
  let ?m = "MSR_IA32_VMX_PINBASED_CTLS"
  have a: "nested_vmx_allowed (msr_env L) (mv example_msrs)" unfolding L_def by (simp add: example_nested)
  have n: "nctls L = nested_vmx_setup_ctls_msrs example_cpu example_setup example_params"
    by (simp add: L_def example_msr_lib_def)
  have i: "(?m, pinbased_low (nctls L), pinbased_high (nctls L)) \<in> set (control_limits (nctls L))"
    by (simp add: control_limits_def)
  have r: "fst (snd (vmx_get_vmx_msr L ?m example_msrs)) = Some (rd1 ?m)"
    unfolding rd1_def using reported_limits[OF a i] by simp
  have c: "capability_msr example_cpu ?m" by code_simp
  have k: "rd1 ?m = vmx_control_msr (pinbased_low (nctls L)) (pinbased_high (nctls L))"
    using reported_limits[OF a i] by (simp add: rd1_def)
  have "\<not> Option.is_none (adjust_vmx_controls (\<lambda>_. vmx_control_msr
      (pinbased_low (nested_vmx_setup_ctls_msrs example_cpu example_setup example_params))
      (pinbased_high (nested_vmx_setup_ctls_msrs example_cpu example_setup example_params))) 1 0 ?m)" by code_simp
  then obtain x where "adjust_vmx_controls rd1 1 0 ?m = Some x"
    unfolding adjust_vmx_controls_def msr_low_def msr_high_def k n by (auto simp: Option.is_none_def)
  then show ?thesis using nested_controls_accepted[where ?rd1.0 = rd1 and ctl_min = 1 and ctl_opt = 0, OF a n i r c] unfolding L_def[symmetric] Let_def rd1_def
    by blast
qed



end
