(* ===== verification/Mmio.thy ===== *)
theory Mmio
  imports Io_Bus Guest_Memory
begin

text \<open>
  Memory and port accesses of emulated instructions (\<^verbatim>\<open>kvm/x86.c\<close>): reading and writing guest memory
  through the guest's page tables, the accesses that hit a device, first those in the kernel and then, in
  fragments and pieces of eight bytes, those of user space, and port I/O.
\<close>

subsection \<open>State\<close>

text \<open>\<^verbatim>\<open>struct kvm_mmio_fragment\<close>: the pointer to the data is an offset into the buffer of the
  emulator.\<close>

record mmio_fragment =
  frag_gpa :: u64
  frag_data :: nat
  frag_len :: u32

datatype completion = Complete_mmio | Complete_pio

text \<open>The fields of \<^verbatim>\<open>struct kvm_vcpu\<close> and \<^verbatim>\<open>struct kvm_run\<close> that the accesses use, with the
  memory and the buses of the VM and the state \<open>'s\<close> of its devices. \<open>emul_buf\<close> is the memory that the
  argument \<^verbatim>\<open>val\<close> points into, \<open>pte_writes\<close> the calls of \<^verbatim>\<open>kvm_mmu_pte_write\<close>.\<close>

record 's io_vcpu =
  io_mem :: kvm_mem
  io_buses :: kvm_buses
  io_devs :: 's
  apic_dev :: "nat option"
  emul_buf :: "u8 list"
  pte_writes :: "(u64 \<times> u8 list) list"
  mmio_read_completed :: bool
  mmio_nr_fragments :: nat
  mmio_cur_fragment :: nat
  mmio_fragments :: "mmio_fragment list"
  mmio_needed :: bool
  mmio_is_write :: bool
  run_mmio_addr :: u64
  run_mmio_len :: u32
  run_mmio_write :: bool
  run_mmio_data :: "u8 list"
  run_exit_reason :: nat
  pio_port :: u16
  pio_in :: bool
  pio_count :: u32
  pio_size :: u32
  pio_data :: "u8 list"
  run_io :: "bool \<times> u32 \<times> u64 \<times> u32 \<times> u16"   \<comment> \<open>in?, size, offset of the data, count, port\<close>
  completion_fn :: "completion option"

text \<open>The guest's page tables: the privilege level, the cached translation of the last MMIO access, and the
  walker, which reads guest memory and returns \<open>UNMAPPED_GVA\<close> for a fault.\<close>

record mmu_lib =
  mmu_cpl :: nat
  match_mmio_gva :: "u64 \<Rightarrow> bool"
  permission_fault :: "u32 \<Rightarrow> bool"
  mmio_gfn :: u64
  gva_to_gpa :: "kvm_mem \<Rightarrow> u64 \<Rightarrow> u32 \<Rightarrow> u64"
  match_mmio_gpa :: "u64 \<Rightarrow> bool"

definition UNMAPPED_GVA :: u64 where "UNMAPPED_GVA = - 1"
definition PFERR_WRITE_MASK :: u32 where "PFERR_WRITE_MASK = 2"
definition PFERR_USER_MASK :: u32 where "PFERR_USER_MASK = 4"
definition PFERR_FETCH_MASK :: u32 where "PFERR_FETCH_MASK = 16"
definition APIC_DEFAULT_PHYS_BASE :: u64 where "APIC_DEFAULT_PHYS_BASE = 0xFEE00000"
definition KVM_EXIT_IO :: nat where "KVM_EXIT_IO = 2"
definition KVM_EXIT_MMIO :: nat where "KVM_EXIT_MMIO = 6"

text \<open>The results of a callback of the emulator.\<close>

datatype emul_result = X86EMUL_CONTINUE | X86EMUL_PROPAGATE_FAULT | X86EMUL_IO_NEEDED

text \<open>Copying into the buffer at an offset.\<close>

definition put_at :: "nat \<Rightarrow> 'a list \<Rightarrow> 'a list \<Rightarrow> 'a list" where
  "put_at off d b = take off b @ d @ drop (off + length d) b"

definition get_at :: "nat \<Rightarrow> nat \<Rightarrow> 'a list \<Rightarrow> 'a list" where
  "get_at off n b = take n (drop off b)"

subsection \<open>Guest memory by virtual address\<close>

lemma page_room: "0 < 0x1000 - unat ((x :: u64) AND 0xFFF)"
proof -
  have "x AND 0xFFF \<le> 0xFFF" by (rule word_and_le1)
  then show ?thesis by (simp add: word_le_nat_alt)
qed

function read_virt_loop :: "mem_lib \<Rightarrow> mmu_lib \<Rightarrow> kvm_mem \<Rightarrow> u64 \<Rightarrow> nat \<Rightarrow> u32 \<Rightarrow> emul_result \<times> u8 list" where
  "read_virt_loop lib M m addr bytes access =
     (if bytes = 0 then (X86EMUL_CONTINUE, [])
      else let gpa = gva_to_gpa M m addr access;
               offset = unat (addr AND 0xFFF);
               toread = min bytes (0x1000 - offset)
           in if gpa = UNMAPPED_GVA then (X86EMUL_PROPAGATE_FAULT, [])
              else case kvm_read_guest lib m gpa toread of
                     Inl _ \<Rightarrow> (X86EMUL_IO_NEEDED, [])
                   | Inr d \<Rightarrow> (let (r, d') = read_virt_loop lib M m (addr + of_nat toread) (bytes - toread) access
                              in (r, d @ d')))"
  by pat_completeness auto

termination
  by (relation "measure (\<lambda>(lib, M, m, addr, bytes, access). bytes)") (use page_room in auto)

definition kvm_read_guest_virt_helper ::
    "mem_lib \<Rightarrow> mmu_lib \<Rightarrow> kvm_mem \<Rightarrow> u64 \<Rightarrow> nat \<Rightarrow> u32 \<Rightarrow> emul_result \<times> u8 list" where
  "kvm_read_guest_virt_helper lib M m addr bytes access = read_virt_loop lib M m addr bytes access"

definition user_access :: "mmu_lib \<Rightarrow> u32" where
  "user_access M = (if mmu_cpl M = 3 then PFERR_USER_MASK else 0)"

definition kvm_mmu_gva_to_gpa_read :: "mmu_lib \<Rightarrow> kvm_mem \<Rightarrow> u64 \<Rightarrow> u64" where
  "kvm_mmu_gva_to_gpa_read M m gva = gva_to_gpa M m gva (user_access M)"

definition kvm_mmu_gva_to_gpa_fetch :: "mmu_lib \<Rightarrow> kvm_mem \<Rightarrow> u64 \<Rightarrow> u64" where
  "kvm_mmu_gva_to_gpa_fetch M m gva = gva_to_gpa M m gva (user_access M OR PFERR_FETCH_MASK)"

definition kvm_mmu_gva_to_gpa_write :: "mmu_lib \<Rightarrow> kvm_mem \<Rightarrow> u64 \<Rightarrow> u64" where
  "kvm_mmu_gva_to_gpa_write M m gva = gva_to_gpa M m gva (user_access M OR PFERR_WRITE_MASK)"

definition kvm_mmu_gva_to_gpa_system :: "mmu_lib \<Rightarrow> kvm_mem \<Rightarrow> u64 \<Rightarrow> u64" where
  "kvm_mmu_gva_to_gpa_system M m gva = gva_to_gpa M m gva 0"

definition kvm_fetch_guest_virt :: "mem_lib \<Rightarrow> mmu_lib \<Rightarrow> kvm_mem \<Rightarrow> u64 \<Rightarrow> nat \<Rightarrow> emul_result \<times> u8 list" where
  "kvm_fetch_guest_virt lib M m addr bytes =
     kvm_read_guest_virt_helper lib M m addr bytes (user_access M OR PFERR_FETCH_MASK)"

definition kvm_read_guest_virt :: "mem_lib \<Rightarrow> mmu_lib \<Rightarrow> kvm_mem \<Rightarrow> u64 \<Rightarrow> nat \<Rightarrow> emul_result \<times> u8 list" where
  "kvm_read_guest_virt lib M m addr bytes = kvm_read_guest_virt_helper lib M m addr bytes (user_access M)"

definition kvm_read_guest_virt_system :: "mem_lib \<Rightarrow> mmu_lib \<Rightarrow> kvm_mem \<Rightarrow> u64 \<Rightarrow> nat \<Rightarrow> emul_result \<times> u8 list" where
  "kvm_read_guest_virt_system lib M m addr bytes = kvm_read_guest_virt_helper lib M m addr bytes 0"

function kvm_write_guest_virt_system ::
    "mem_lib \<Rightarrow> mmu_lib \<Rightarrow> u64 \<Rightarrow> u8 list \<Rightarrow> kvm_mem \<Rightarrow> emul_result \<times> kvm_mem" where
  "kvm_write_guest_virt_system lib M addr data m =
     (if data = [] then (X86EMUL_CONTINUE, m)
      else let gpa = gva_to_gpa M m addr PFERR_WRITE_MASK;
               offset = unat (addr AND 0xFFF);
               towrite = min (length data) (0x1000 - offset)
           in if gpa = UNMAPPED_GVA then (X86EMUL_PROPAGATE_FAULT, m)
              else let (ret, m1) = kvm_write_guest lib gpa (take towrite data) m
                   in if ret < 0 then (X86EMUL_IO_NEEDED, m1)
                      else kvm_write_guest_virt_system lib M (addr + of_nat towrite) (drop towrite data) m1)"
  by pat_completeness auto
termination
  by (relation "measure (\<lambda>(lib, M, addr, data, m). length data)") (use page_room in auto)

declare read_virt_loop.simps [simp del] kvm_write_guest_virt_system.simps [simp del]

subsection \<open>Devices in the kernel\<close>

text \<open>The local APIC first, if there is one, then the bus. An access of more than eight bytes goes in pieces,
  up to the first that nothing handles; the result is the number of bytes handled. A missing bus is None.\<close>

definition mmio_write_piece ::
    "'s bus_lib \<Rightarrow> kvm_buses \<Rightarrow> nat option \<Rightarrow> u64 \<Rightarrow> u8 list \<Rightarrow> 's \<Rightarrow> (bool \<times> 's) option" where
  "mmio_write_piece L k apic addr v s =
     (let n = of_nat (length v);
          (r, s1) = (case apic of None \<Rightarrow> (1, s) | Some d \<Rightarrow> iodev_write L d addr n v s)
      in if r = 0 then Some (True, s1)
         else do { (r2, s2) \<leftarrow> kvm_io_bus_write L k KVM_MMIO_BUS addr n v s1; Some (r2 = 0, s2) })"

function vcpu_mmio_write ::
    "'s bus_lib \<Rightarrow> kvm_buses \<Rightarrow> nat option \<Rightarrow> u64 \<Rightarrow> u8 list \<Rightarrow> 's \<Rightarrow> (nat \<times> 's) option" where
  "vcpu_mmio_write L k apic addr v s =
     (let n = min (length v) 8
      in do { (d, s1) \<leftarrow> mmio_write_piece L k apic addr (take n v) s;
              if \<not> d then Some (0, s1)
              else if length v - n = 0 then Some (n, s1)
              else do { (h, s2) \<leftarrow> vcpu_mmio_write L k apic (addr + of_nat n) (drop n v) s1; Some (n + h, s2) } })"
  by pat_completeness auto
termination
  by (relation "measure (\<lambda>(L, k, apic, addr, v, s). length v)") auto

definition mmio_read_piece ::
    "'s bus_lib \<Rightarrow> kvm_buses \<Rightarrow> nat option \<Rightarrow> u64 \<Rightarrow> u8 list \<Rightarrow> 's \<Rightarrow> (bool \<times> u8 list \<times> 's) option" where
  "mmio_read_piece L k apic addr v s =
     (let n = of_nat (length v);
          (r, v1, s1) = (case apic of None \<Rightarrow> (1, v, s) | Some d \<Rightarrow> iodev_read L d addr n v s)
      in if r = 0 then Some (True, v1, s1)
         else do { (r2, v2, s2) \<leftarrow> kvm_io_bus_read L k KVM_MMIO_BUS addr n v1 s1; Some (r2 = 0, v2, s2) })"

function vcpu_mmio_read ::
    "'s bus_lib \<Rightarrow> kvm_buses \<Rightarrow> nat option \<Rightarrow> u64 \<Rightarrow> u8 list \<Rightarrow> 's \<Rightarrow> (nat \<times> u8 list \<times> 's) option" where
  "vcpu_mmio_read L k apic addr v s =
     (let n = min (length v) 8
      in do { (d, v1, s1) \<leftarrow> mmio_read_piece L k apic addr (take n v) s;
              if \<not> d then Some (0, v1 @ drop n v, s1)
              else if length v - n = 0 then Some (n, v1, s1)
              else do { (h, v2, s2) \<leftarrow> vcpu_mmio_read L k apic (addr + of_nat n) (drop n v) s1;
                        Some (n + h, v1 @ v2, s2) } })"
  by pat_completeness auto
termination
  by (relation "measure (\<lambda>(L, k, apic, addr, v, s). length v)") auto

declare vcpu_mmio_write.simps [simp del] vcpu_mmio_read.simps [simp del]

subsection \<open>Where an access goes\<close>

text \<open>The C result is -1 for a fault, 1 for a device, 0 for memory.\<close>

definition vcpu_mmio_gva_to_gpa :: "mmu_lib \<Rightarrow> kvm_mem \<Rightarrow> u64 \<Rightarrow> bool \<Rightarrow> int \<times> u64" where
  "vcpu_mmio_gva_to_gpa M m gva write =
     (let access = user_access M OR (if write then PFERR_WRITE_MASK else 0)
      in if match_mmio_gva M gva \<and> \<not> permission_fault M access
         then (1, push_bit 12 (mmio_gfn M) OR (gva AND 0xFFF))
         else let gpa = gva_to_gpa M m gva access
              in if gpa = UNMAPPED_GVA then (-1, gpa)
                 else if gpa AND NOT 0xFFF = APIC_DEFAULT_PHYS_BASE then (1, gpa)
                 else if match_mmio_gpa M gpa then (1, gpa) else (0, gpa))"

text \<open>The buffer argument \<open>val\<close> is the offset \<open>off\<close>; the result is the C return value as a truth value.\<close>

definition emulator_write_phys :: "mem_lib \<Rightarrow> u64 \<Rightarrow> u8 list \<Rightarrow> 's io_vcpu \<Rightarrow> bool \<times> 's io_vcpu" where
  "emulator_write_phys lib gpa val v =
     (let (ret, m) = kvm_write_guest lib gpa val (io_mem v)
      in if ret < 0 then (False, v\<lparr>io_mem := m\<rparr>)
         else (True, v\<lparr>io_mem := m, pte_writes := pte_writes v @ [(gpa, val)]\<rparr>))"

definition read_prepare :: "'s io_vcpu \<Rightarrow> bool \<times> 's io_vcpu" where
  "read_prepare v =
     (if mmio_read_completed v then (True, v\<lparr>mmio_read_completed := False\<rparr>) else (False, v))"

definition read_emulate :: "mem_lib \<Rightarrow> u64 \<Rightarrow> nat \<Rightarrow> nat \<Rightarrow> 's io_vcpu \<Rightarrow> bool \<times> 's io_vcpu" where
  "read_emulate lib gpa off bytes v =
     (case kvm_read_guest lib (io_mem v) gpa bytes of
        Inl _ \<Rightarrow> (False, v)
      | Inr d \<Rightarrow> (True, v\<lparr>emul_buf := put_at off d (emul_buf v)\<rparr>))"

definition write_emulate :: "mem_lib \<Rightarrow> u64 \<Rightarrow> nat \<Rightarrow> nat \<Rightarrow> 's io_vcpu \<Rightarrow> bool \<times> 's io_vcpu" where
  "write_emulate lib gpa off bytes v = emulator_write_phys lib gpa (get_at off bytes (emul_buf v)) v"

definition read_mmio :: "'s bus_lib \<Rightarrow> u64 \<Rightarrow> nat \<Rightarrow> nat \<Rightarrow> 's io_vcpu \<Rightarrow> (nat \<times> 's io_vcpu) option" where
  "read_mmio L gpa bytes off v = do {
     (h, d, s) \<leftarrow> vcpu_mmio_read L (io_buses v) (apic_dev v) gpa (get_at off bytes (emul_buf v)) (io_devs v);
     Some (h, v\<lparr>emul_buf := put_at off d (emul_buf v), io_devs := s\<rparr>) }"

definition write_mmio :: "'s bus_lib \<Rightarrow> u64 \<Rightarrow> nat \<Rightarrow> nat \<Rightarrow> 's io_vcpu \<Rightarrow> (nat \<times> 's io_vcpu) option" where
  "write_mmio L gpa bytes off v = do {
     (h, s) \<leftarrow> vcpu_mmio_write L (io_buses v) (apic_dev v) gpa (get_at off bytes (emul_buf v)) (io_devs v);
     Some (h, v\<lparr>io_devs := s\<rparr>) }"

definition read_exit_mmio :: "'s io_vcpu \<Rightarrow> emul_result \<times> 's io_vcpu" where
  "read_exit_mmio v = (X86EMUL_IO_NEEDED, v)"

definition write_exit_mmio :: "'s io_vcpu \<Rightarrow> emul_result \<times> 's io_vcpu" where
  "write_exit_mmio v =
     (let frag = mmio_fragments v ! 0; n = unat (min 8 (frag_len frag))
      in (X86EMUL_CONTINUE, v\<lparr>run_mmio_data := put_at 0 (get_at (frag_data frag) n (emul_buf v)) (run_mmio_data v)\<rparr>))"

text \<open>The tables \<^verbatim>\<open>read_emultor\<close> and \<^verbatim>\<open>write_emultor\<close>: only the read has a prepare step.\<close>

record 's read_write_emulator_ops =
  ops_prepare :: "('s io_vcpu \<Rightarrow> bool \<times> 's io_vcpu) option"
  ops_emulate :: "u64 \<Rightarrow> nat \<Rightarrow> nat \<Rightarrow> 's io_vcpu \<Rightarrow> bool \<times> 's io_vcpu"
  ops_mmio :: "u64 \<Rightarrow> nat \<Rightarrow> nat \<Rightarrow> 's io_vcpu \<Rightarrow> (nat \<times> 's io_vcpu) option"
  ops_exit_mmio :: "'s io_vcpu \<Rightarrow> emul_result \<times> 's io_vcpu"
  ops_write :: bool

definition read_emultor :: "mem_lib \<Rightarrow> 's bus_lib \<Rightarrow> 's read_write_emulator_ops" where
  "read_emultor lib L = \<lparr>ops_prepare = Some read_prepare, ops_emulate = read_emulate lib,
     ops_mmio = read_mmio L, ops_exit_mmio = read_exit_mmio, ops_write = False\<rparr>"

definition write_emultor :: "mem_lib \<Rightarrow> 's bus_lib \<Rightarrow> 's read_write_emulator_ops" where
  "write_emultor lib L = \<lparr>ops_prepare = None, ops_emulate = write_emulate lib,
     ops_mmio = write_mmio L, ops_exit_mmio = write_exit_mmio, ops_write = True\<rparr>"

text \<open>What no device of the kernel handles becomes a fragment; one beyond the array is None.\<close>

definition add_fragment :: "mmio_fragment \<Rightarrow> 's io_vcpu \<Rightarrow> 's io_vcpu option" where
  "add_fragment f v =
     (if mmio_nr_fragments v < length (mmio_fragments v)
      then Some (v\<lparr>mmio_fragments := (mmio_fragments v)[mmio_nr_fragments v := f],
                   mmio_nr_fragments := mmio_nr_fragments v + 1\<rparr>)
      else None)"

definition emulator_read_write_onepage ::
    "mmu_lib \<Rightarrow> 's read_write_emulator_ops \<Rightarrow> u64 \<Rightarrow> nat \<Rightarrow> nat \<Rightarrow> 's io_vcpu \<Rightarrow>
      (emul_result \<times> 's io_vcpu) option" where
  "emulator_read_write_onepage M ops addr off bytes v =
     (let (ret, gpa) = vcpu_mmio_gva_to_gpa M (io_mem v) addr (ops_write ops)
      in if ret < 0 then Some (X86EMUL_PROPAGATE_FAULT, v)
         else let (ok, v1) = (if ret \<noteq> 0 then (False, v) else ops_emulate ops gpa off bytes v)
              in if ok then Some (X86EMUL_CONTINUE, v1)
                 else do {
                   (handled, v2) \<leftarrow> ops_mmio ops gpa bytes off v1;
                   if handled = bytes then Some (X86EMUL_CONTINUE, v2)
                   else do {
                     v3 \<leftarrow> add_fragment \<lparr>frag_gpa = gpa + of_nat handled, frag_data = off + handled,
                                         frag_len = of_nat (bytes - handled)\<rparr> v2;
                     Some (X86EMUL_CONTINUE, v3) } })"

definition emulator_read_write ::
    "mmu_lib \<Rightarrow> 's read_write_emulator_ops \<Rightarrow> u64 \<Rightarrow> nat \<Rightarrow> nat \<Rightarrow> 's io_vcpu \<Rightarrow>
      (emul_result \<times> 's io_vcpu) option" where
  "emulator_read_write M ops addr off bytes v =
     (let (ready, v1) = (case ops_prepare ops of None \<Rightarrow> (False, v) | Some p \<Rightarrow> p v)
      in if ready then Some (X86EMUL_CONTINUE, v1)
         else do {
           let v2 = v1\<lparr>mmio_nr_fragments := 0\<rparr>;
           let now = unat (- addr AND 0xFFF);
           let cross = (((addr + of_nat bytes - 1) XOR addr) AND NOT 0xFFF \<noteq> 0);
           (rc, v3) \<leftarrow> (if cross then emulator_read_write_onepage M ops addr off now v2
                        else Some (X86EMUL_CONTINUE, v2));
           if rc \<noteq> X86EMUL_CONTINUE then Some (rc, v3)
           else do {
             (rc1, v4) \<leftarrow> (if cross
                then emulator_read_write_onepage M ops (addr + of_nat now) (off + now) (bytes - now) v3
                else emulator_read_write_onepage M ops addr off bytes v3);
             if rc1 \<noteq> X86EMUL_CONTINUE \<or> mmio_nr_fragments v4 = 0 then Some (rc1, v4)
             else let f = mmio_fragments v4 ! 0
                  in Some (ops_exit_mmio ops
                       (v4\<lparr>mmio_needed := True, mmio_cur_fragment := 0, run_mmio_len := min 8 (frag_len f),
                          run_mmio_write := ops_write ops, mmio_is_write := ops_write ops,
                          run_exit_reason := KVM_EXIT_MMIO, run_mmio_addr := frag_gpa f\<rparr>)) } })"

definition emulator_read_emulated ::
    "mem_lib \<Rightarrow> 's bus_lib \<Rightarrow> mmu_lib \<Rightarrow> u64 \<Rightarrow> nat \<Rightarrow> nat \<Rightarrow> 's io_vcpu \<Rightarrow> (emul_result \<times> 's io_vcpu) option" where
  "emulator_read_emulated lib L M addr off bytes v = emulator_read_write M (read_emultor lib L) addr off bytes v"

definition emulator_write_emulated ::
    "mem_lib \<Rightarrow> 's bus_lib \<Rightarrow> mmu_lib \<Rightarrow> u64 \<Rightarrow> nat \<Rightarrow> nat \<Rightarrow> 's io_vcpu \<Rightarrow> (emul_result \<times> 's io_vcpu) option" where
  "emulator_write_emulated lib L M addr off bytes v = emulator_read_write M (write_emultor lib L) addr off bytes v"

subsection \<open>Completing an access in user space\<close>

text \<open>\<open>emul\<close> is \<^verbatim>\<open>emulate_instruction\<close> without decoding, whose result 0 is
  \<^verbatim>\<open>EMULATE_DONE\<close>. A failed \<^verbatim>\<open>BUG_ON\<close> is None.\<close>

definition complete_emulated_io :: "('s io_vcpu \<Rightarrow> int \<times> 's io_vcpu) \<Rightarrow> 's io_vcpu \<Rightarrow> int \<times> 's io_vcpu" where
  "complete_emulated_io emul v = (let (r, v1) = emul v in (if r \<noteq> 0 then 0 else 1, v1))"

definition complete_emulated_pio ::
    "('s io_vcpu \<Rightarrow> int \<times> 's io_vcpu) \<Rightarrow> 's io_vcpu \<Rightarrow> (int \<times> 's io_vcpu) option" where
  "complete_emulated_pio emul v = (if pio_count v = 0 then None else Some (complete_emulated_io emul v))"

text \<open>The piece user space has just served is finished: its data is taken, and the fragment or the next
  fragment goes on.\<close>

definition finish_piece :: "'s io_vcpu \<Rightarrow> 's io_vcpu" where
  "finish_piece v =
     (let cur = mmio_cur_fragment v;
          frag = mmio_fragments v ! cur;
          len = min 8 (frag_len frag);
          v1 = (if mmio_is_write v then v
                else v\<lparr>emul_buf := put_at (frag_data frag) (take (unat len) (run_mmio_data v)) (emul_buf v)\<rparr>)
      in if frag_len frag \<le> 8 then v1\<lparr>mmio_cur_fragment := cur + 1\<rparr>
         else v1\<lparr>mmio_fragments := (mmio_fragments v)[cur :=
                \<lparr>frag_gpa = frag_gpa frag + ucast len, frag_data = frag_data frag + unat len,
                 frag_len = frag_len frag - len\<rparr>]\<rparr>)"

definition complete_emulated_mmio ::
    "('s io_vcpu \<Rightarrow> int \<times> 's io_vcpu) \<Rightarrow> 's io_vcpu \<Rightarrow> (int \<times> 's io_vcpu) option" where
  "complete_emulated_mmio emul v =
     (if \<not> mmio_needed v then None
      else let v1 = finish_piece v
           in if mmio_nr_fragments v1 \<le> mmio_cur_fragment v1 then
                (if mmio_is_write v1 then Some (1, v1\<lparr>mmio_needed := False\<rparr>)
                 else Some (complete_emulated_io emul (v1\<lparr>mmio_needed := False, mmio_read_completed := True\<rparr>)))
              else let frag = mmio_fragments v1 ! mmio_cur_fragment v1;
                       len = min 8 (frag_len frag);
                       v2 = v1\<lparr>run_exit_reason := KVM_EXIT_MMIO, run_mmio_addr := frag_gpa frag\<rparr>;
                       v3 = (if mmio_is_write v2
                             then v2\<lparr>run_mmio_data := put_at 0 (get_at (frag_data frag) (unat len) (emul_buf v2)) (run_mmio_data v2)\<rparr>
                             else v2)
                   in Some (0, v3\<lparr>run_mmio_len := len, run_mmio_write := mmio_is_write v3,
                                  completion_fn := Some Complete_mmio\<rparr>))"

subsection \<open>Ports\<close>

definition kernel_pio :: "'s bus_lib \<Rightarrow> 's io_vcpu \<Rightarrow> (int \<times> 's io_vcpu) option" where
  "kernel_pio L v =
     (let pd = take (unat (pio_size v)) (pio_data v)
      in if pio_in v then do {
           (r, d, s) \<leftarrow> kvm_io_bus_read L (io_buses v) KVM_PIO_BUS (ucast (pio_port v)) (pio_size v) pd (io_devs v);
           Some (r, v\<lparr>pio_data := put_at 0 d (pio_data v), io_devs := s\<rparr>) }
         else do {
           (r, s) \<leftarrow> kvm_io_bus_write L (io_buses v) KVM_PIO_BUS (ucast (pio_port v)) (pio_size v) pd (io_devs v);
           Some (r, v\<lparr>io_devs := s\<rparr>) })"

definition emulator_pio_in_out ::
    "'s bus_lib \<Rightarrow> u32 \<Rightarrow> u16 \<Rightarrow> u32 \<Rightarrow> bool \<Rightarrow> 's io_vcpu \<Rightarrow> (int \<times> 's io_vcpu) option" where
  "emulator_pio_in_out L sz port cnt is_in v = do {
     (r, v1) \<leftarrow> kernel_pio L (v\<lparr>pio_port := port, pio_in := is_in, pio_count := cnt, pio_size := sz\<rparr>);
     if r = 0 then Some (1, v1\<lparr>pio_count := 0\<rparr>)
     else Some (0, v1\<lparr>run_exit_reason := KVM_EXIT_IO, run_io := (is_in, sz, 1 * 0x1000, cnt, port)\<rparr>) }"

text \<open>The result of an input is the bytes copied to the caller, if there are any.\<close>

definition emulator_pio_in_emulated ::
    "'s bus_lib \<Rightarrow> u32 \<Rightarrow> u16 \<Rightarrow> u32 \<Rightarrow> 's io_vcpu \<Rightarrow> (int \<times> u8 list option \<times> 's io_vcpu) option" where
  "emulator_pio_in_emulated L sz port cnt v =
     (let avail = (\<lambda>v. (1, Some (take (unat (sz * cnt)) (pio_data v)), v\<lparr>pio_count := 0\<rparr>))
      in if pio_count v \<noteq> 0 then Some (avail v)
         else do {
           (ret, v1) \<leftarrow> emulator_pio_in_out L sz port cnt True v;
           Some (if ret \<noteq> 0 then avail v1 else (0, None, v1)) })"

definition emulator_pio_out_emulated ::
    "'s bus_lib \<Rightarrow> u32 \<Rightarrow> u16 \<Rightarrow> u8 list \<Rightarrow> u32 \<Rightarrow> 's io_vcpu \<Rightarrow> (int \<times> 's io_vcpu) option" where
  "emulator_pio_out_emulated L sz port val cnt v =
     emulator_pio_in_out L sz port cnt False
       (v\<lparr>pio_data := put_at 0 (take (unat (sz * cnt)) val) (pio_data v)\<rparr>)"

definition kvm_fast_pio_out :: "'s bus_lib \<Rightarrow> u64 \<Rightarrow> u32 \<Rightarrow> u16 \<Rightarrow> 's io_vcpu \<Rightarrow> (int \<times> 's io_vcpu) option" where
  "kvm_fast_pio_out L rax sz port v = do {
     (ret, v1) \<leftarrow> emulator_pio_out_emulated L sz port
        (map (\<lambda>i. ucast (drop_bit (8 * i) rax)) [0..<8]) 1 v;
     Some (ret, v1\<lparr>pio_count := 0\<rparr>) }"

end
