(* ===== verification/Vmcs_Fields.thy ===== *)
theory Vmcs_Fields
  imports Clock Mmio
begin

text \<open>
  The layout of \<^verbatim>\<open>struct vmcs12\<close>, the VMCS that a nested hypervisor keeps for its guest, and the table that
  finds a field of it by the number an instruction uses (\<^verbatim>\<open>kvm/vmx.c\<close>). The constants \<open>F_...\<close> are the
  encodings of the fields, which the architecture fixes; \<open>VMCS12_...\<close> are the offsets of the members of the
  packed structure.
\<close>

subsection \<open>Encodings\<close>

abbreviation (input) "F_VIRTUAL_PROCESSOR_ID \<equiv> 0x0 :: nat"
abbreviation (input) "F_GUEST_ES_SELECTOR \<equiv> 0x800 :: nat"
abbreviation (input) "F_GUEST_CS_SELECTOR \<equiv> 0x802 :: nat"
abbreviation (input) "F_GUEST_SS_SELECTOR \<equiv> 0x804 :: nat"
abbreviation (input) "F_GUEST_DS_SELECTOR \<equiv> 0x806 :: nat"
abbreviation (input) "F_GUEST_FS_SELECTOR \<equiv> 0x808 :: nat"
abbreviation (input) "F_GUEST_GS_SELECTOR \<equiv> 0x80A :: nat"
abbreviation (input) "F_GUEST_LDTR_SELECTOR \<equiv> 0x80C :: nat"
abbreviation (input) "F_GUEST_TR_SELECTOR \<equiv> 0x80E :: nat"
abbreviation (input) "F_HOST_ES_SELECTOR \<equiv> 0xC00 :: nat"
abbreviation (input) "F_HOST_CS_SELECTOR \<equiv> 0xC02 :: nat"
abbreviation (input) "F_HOST_SS_SELECTOR \<equiv> 0xC04 :: nat"
abbreviation (input) "F_HOST_DS_SELECTOR \<equiv> 0xC06 :: nat"
abbreviation (input) "F_HOST_FS_SELECTOR \<equiv> 0xC08 :: nat"
abbreviation (input) "F_HOST_GS_SELECTOR \<equiv> 0xC0A :: nat"
abbreviation (input) "F_HOST_TR_SELECTOR \<equiv> 0xC0C :: nat"
abbreviation (input) "F_IO_BITMAP_A \<equiv> 0x2000 :: nat"
abbreviation (input) "F_IO_BITMAP_B \<equiv> 0x2002 :: nat"
abbreviation (input) "F_MSR_BITMAP \<equiv> 0x2004 :: nat"
abbreviation (input) "F_VM_EXIT_MSR_STORE_ADDR \<equiv> 0x2006 :: nat"
abbreviation (input) "F_VM_EXIT_MSR_LOAD_ADDR \<equiv> 0x2008 :: nat"
abbreviation (input) "F_VM_ENTRY_MSR_LOAD_ADDR \<equiv> 0x200A :: nat"
abbreviation (input) "F_TSC_OFFSET \<equiv> 0x2010 :: nat"
abbreviation (input) "F_VIRTUAL_APIC_PAGE_ADDR \<equiv> 0x2012 :: nat"
abbreviation (input) "F_APIC_ACCESS_ADDR \<equiv> 0x2014 :: nat"
abbreviation (input) "F_EPT_POINTER \<equiv> 0x201A :: nat"
abbreviation (input) "F_GUEST_PHYSICAL_ADDRESS \<equiv> 0x2400 :: nat"
abbreviation (input) "F_VMCS_LINK_POINTER \<equiv> 0x2800 :: nat"
abbreviation (input) "F_GUEST_IA32_DEBUGCTL \<equiv> 0x2802 :: nat"
abbreviation (input) "F_GUEST_IA32_PAT \<equiv> 0x2804 :: nat"
abbreviation (input) "F_GUEST_IA32_EFER \<equiv> 0x2806 :: nat"
abbreviation (input) "F_GUEST_IA32_PERF_GLOBAL_CTRL \<equiv> 0x2808 :: nat"
abbreviation (input) "F_GUEST_PDPTR0 \<equiv> 0x280A :: nat"
abbreviation (input) "F_GUEST_PDPTR1 \<equiv> 0x280C :: nat"
abbreviation (input) "F_GUEST_PDPTR2 \<equiv> 0x280E :: nat"
abbreviation (input) "F_GUEST_PDPTR3 \<equiv> 0x2810 :: nat"
abbreviation (input) "F_HOST_IA32_PAT \<equiv> 0x2C00 :: nat"
abbreviation (input) "F_HOST_IA32_EFER \<equiv> 0x2C02 :: nat"
abbreviation (input) "F_HOST_IA32_PERF_GLOBAL_CTRL \<equiv> 0x2C04 :: nat"
abbreviation (input) "F_PIN_BASED_VM_EXEC_CONTROL \<equiv> 0x4000 :: nat"
abbreviation (input) "F_CPU_BASED_VM_EXEC_CONTROL \<equiv> 0x4002 :: nat"
abbreviation (input) "F_EXCEPTION_BITMAP \<equiv> 0x4004 :: nat"
abbreviation (input) "F_PAGE_FAULT_ERROR_CODE_MASK \<equiv> 0x4006 :: nat"
abbreviation (input) "F_PAGE_FAULT_ERROR_CODE_MATCH \<equiv> 0x4008 :: nat"
abbreviation (input) "F_CR3_TARGET_COUNT \<equiv> 0x400A :: nat"
abbreviation (input) "F_VM_EXIT_CONTROLS \<equiv> 0x400C :: nat"
abbreviation (input) "F_VM_EXIT_MSR_STORE_COUNT \<equiv> 0x400E :: nat"
abbreviation (input) "F_VM_EXIT_MSR_LOAD_COUNT \<equiv> 0x4010 :: nat"
abbreviation (input) "F_VM_ENTRY_CONTROLS \<equiv> 0x4012 :: nat"
abbreviation (input) "F_VM_ENTRY_MSR_LOAD_COUNT \<equiv> 0x4014 :: nat"
abbreviation (input) "F_VM_ENTRY_INTR_INFO_FIELD \<equiv> 0x4016 :: nat"
abbreviation (input) "F_VM_ENTRY_EXCEPTION_ERROR_CODE \<equiv> 0x4018 :: nat"
abbreviation (input) "F_VM_ENTRY_INSTRUCTION_LEN \<equiv> 0x401A :: nat"
abbreviation (input) "F_TPR_THRESHOLD \<equiv> 0x401C :: nat"
abbreviation (input) "F_SECONDARY_VM_EXEC_CONTROL \<equiv> 0x401E :: nat"
abbreviation (input) "F_VM_INSTRUCTION_ERROR \<equiv> 0x4400 :: nat"
abbreviation (input) "F_VM_EXIT_REASON \<equiv> 0x4402 :: nat"
abbreviation (input) "F_VM_EXIT_INTR_INFO \<equiv> 0x4404 :: nat"
abbreviation (input) "F_VM_EXIT_INTR_ERROR_CODE \<equiv> 0x4406 :: nat"
abbreviation (input) "F_IDT_VECTORING_INFO_FIELD \<equiv> 0x4408 :: nat"
abbreviation (input) "F_IDT_VECTORING_ERROR_CODE \<equiv> 0x440A :: nat"
abbreviation (input) "F_VM_EXIT_INSTRUCTION_LEN \<equiv> 0x440C :: nat"
abbreviation (input) "F_VMX_INSTRUCTION_INFO \<equiv> 0x440E :: nat"
abbreviation (input) "F_GUEST_ES_LIMIT \<equiv> 0x4800 :: nat"
abbreviation (input) "F_GUEST_CS_LIMIT \<equiv> 0x4802 :: nat"
abbreviation (input) "F_GUEST_SS_LIMIT \<equiv> 0x4804 :: nat"
abbreviation (input) "F_GUEST_DS_LIMIT \<equiv> 0x4806 :: nat"
abbreviation (input) "F_GUEST_FS_LIMIT \<equiv> 0x4808 :: nat"
abbreviation (input) "F_GUEST_GS_LIMIT \<equiv> 0x480A :: nat"
abbreviation (input) "F_GUEST_LDTR_LIMIT \<equiv> 0x480C :: nat"
abbreviation (input) "F_GUEST_TR_LIMIT \<equiv> 0x480E :: nat"
abbreviation (input) "F_GUEST_GDTR_LIMIT \<equiv> 0x4810 :: nat"
abbreviation (input) "F_GUEST_IDTR_LIMIT \<equiv> 0x4812 :: nat"
abbreviation (input) "F_GUEST_ES_AR_BYTES \<equiv> 0x4814 :: nat"
abbreviation (input) "F_GUEST_CS_AR_BYTES \<equiv> 0x4816 :: nat"
abbreviation (input) "F_GUEST_SS_AR_BYTES \<equiv> 0x4818 :: nat"
abbreviation (input) "F_GUEST_DS_AR_BYTES \<equiv> 0x481A :: nat"
abbreviation (input) "F_GUEST_FS_AR_BYTES \<equiv> 0x481C :: nat"
abbreviation (input) "F_GUEST_GS_AR_BYTES \<equiv> 0x481E :: nat"
abbreviation (input) "F_GUEST_LDTR_AR_BYTES \<equiv> 0x4820 :: nat"
abbreviation (input) "F_GUEST_TR_AR_BYTES \<equiv> 0x4822 :: nat"
abbreviation (input) "F_GUEST_INTERRUPTIBILITY_INFO \<equiv> 0x4824 :: nat"
abbreviation (input) "F_GUEST_ACTIVITY_STATE \<equiv> 0x4826 :: nat"
abbreviation (input) "F_GUEST_SYSENTER_CS \<equiv> 0x482A :: nat"
abbreviation (input) "F_VMX_PREEMPTION_TIMER_VALUE \<equiv> 0x482E :: nat"
abbreviation (input) "F_HOST_IA32_SYSENTER_CS \<equiv> 0x4C00 :: nat"
abbreviation (input) "F_CR0_GUEST_HOST_MASK \<equiv> 0x6000 :: nat"
abbreviation (input) "F_CR4_GUEST_HOST_MASK \<equiv> 0x6002 :: nat"
abbreviation (input) "F_CR0_READ_SHADOW \<equiv> 0x6004 :: nat"
abbreviation (input) "F_CR4_READ_SHADOW \<equiv> 0x6006 :: nat"
abbreviation (input) "F_CR3_TARGET_VALUE0 \<equiv> 0x6008 :: nat"
abbreviation (input) "F_CR3_TARGET_VALUE1 \<equiv> 0x600A :: nat"
abbreviation (input) "F_CR3_TARGET_VALUE2 \<equiv> 0x600C :: nat"
abbreviation (input) "F_CR3_TARGET_VALUE3 \<equiv> 0x600E :: nat"
abbreviation (input) "F_EXIT_QUALIFICATION \<equiv> 0x6400 :: nat"
abbreviation (input) "F_GUEST_LINEAR_ADDRESS \<equiv> 0x640A :: nat"
abbreviation (input) "F_GUEST_CR0 \<equiv> 0x6800 :: nat"
abbreviation (input) "F_GUEST_CR3 \<equiv> 0x6802 :: nat"
abbreviation (input) "F_GUEST_CR4 \<equiv> 0x6804 :: nat"
abbreviation (input) "F_GUEST_ES_BASE \<equiv> 0x6806 :: nat"
abbreviation (input) "F_GUEST_CS_BASE \<equiv> 0x6808 :: nat"
abbreviation (input) "F_GUEST_SS_BASE \<equiv> 0x680A :: nat"
abbreviation (input) "F_GUEST_DS_BASE \<equiv> 0x680C :: nat"
abbreviation (input) "F_GUEST_FS_BASE \<equiv> 0x680E :: nat"
abbreviation (input) "F_GUEST_GS_BASE \<equiv> 0x6810 :: nat"
abbreviation (input) "F_GUEST_LDTR_BASE \<equiv> 0x6812 :: nat"
abbreviation (input) "F_GUEST_TR_BASE \<equiv> 0x6814 :: nat"
abbreviation (input) "F_GUEST_GDTR_BASE \<equiv> 0x6816 :: nat"
abbreviation (input) "F_GUEST_IDTR_BASE \<equiv> 0x6818 :: nat"
abbreviation (input) "F_GUEST_DR7 \<equiv> 0x681A :: nat"
abbreviation (input) "F_GUEST_RSP \<equiv> 0x681C :: nat"
abbreviation (input) "F_GUEST_RIP \<equiv> 0x681E :: nat"
abbreviation (input) "F_GUEST_RFLAGS \<equiv> 0x6820 :: nat"
abbreviation (input) "F_GUEST_PENDING_DBG_EXCEPTIONS \<equiv> 0x6822 :: nat"
abbreviation (input) "F_GUEST_SYSENTER_ESP \<equiv> 0x6824 :: nat"
abbreviation (input) "F_GUEST_SYSENTER_EIP \<equiv> 0x6826 :: nat"
abbreviation (input) "F_HOST_CR0 \<equiv> 0x6C00 :: nat"
abbreviation (input) "F_HOST_CR3 \<equiv> 0x6C02 :: nat"
abbreviation (input) "F_HOST_CR4 \<equiv> 0x6C04 :: nat"
abbreviation (input) "F_HOST_FS_BASE \<equiv> 0x6C06 :: nat"
abbreviation (input) "F_HOST_GS_BASE \<equiv> 0x6C08 :: nat"
abbreviation (input) "F_HOST_TR_BASE \<equiv> 0x6C0A :: nat"
abbreviation (input) "F_HOST_GDTR_BASE \<equiv> 0x6C0C :: nat"
abbreviation (input) "F_HOST_IDTR_BASE \<equiv> 0x6C0E :: nat"
abbreviation (input) "F_HOST_IA32_SYSENTER_ESP \<equiv> 0x6C10 :: nat"
abbreviation (input) "F_HOST_IA32_SYSENTER_EIP \<equiv> 0x6C12 :: nat"
abbreviation (input) "F_HOST_RSP \<equiv> 0x6C14 :: nat"
abbreviation (input) "F_HOST_RIP \<equiv> 0x6C16 :: nat"

subsection \<open>The structure\<close>

abbreviation (input) "VMCS12_revision_id \<equiv> 0 :: nat"
abbreviation (input) "VMCS12_abort \<equiv> 4 :: nat"
abbreviation (input) "VMCS12_launch_state \<equiv> 8 :: nat"
abbreviation (input) "VMCS12_io_bitmap_a \<equiv> 40 :: nat"
abbreviation (input) "VMCS12_io_bitmap_b \<equiv> 48 :: nat"
abbreviation (input) "VMCS12_msr_bitmap \<equiv> 56 :: nat"
abbreviation (input) "VMCS12_vm_exit_msr_store_addr \<equiv> 64 :: nat"
abbreviation (input) "VMCS12_vm_exit_msr_load_addr \<equiv> 72 :: nat"
abbreviation (input) "VMCS12_vm_entry_msr_load_addr \<equiv> 80 :: nat"
abbreviation (input) "VMCS12_tsc_offset \<equiv> 88 :: nat"
abbreviation (input) "VMCS12_virtual_apic_page_addr \<equiv> 96 :: nat"
abbreviation (input) "VMCS12_apic_access_addr \<equiv> 104 :: nat"
abbreviation (input) "VMCS12_ept_pointer \<equiv> 112 :: nat"
abbreviation (input) "VMCS12_guest_physical_address \<equiv> 120 :: nat"
abbreviation (input) "VMCS12_vmcs_link_pointer \<equiv> 128 :: nat"
abbreviation (input) "VMCS12_guest_ia32_debugctl \<equiv> 136 :: nat"
abbreviation (input) "VMCS12_guest_ia32_pat \<equiv> 144 :: nat"
abbreviation (input) "VMCS12_guest_ia32_efer \<equiv> 152 :: nat"
abbreviation (input) "VMCS12_guest_ia32_perf_global_ctrl \<equiv> 160 :: nat"
abbreviation (input) "VMCS12_guest_pdptr0 \<equiv> 168 :: nat"
abbreviation (input) "VMCS12_guest_pdptr1 \<equiv> 176 :: nat"
abbreviation (input) "VMCS12_guest_pdptr2 \<equiv> 184 :: nat"
abbreviation (input) "VMCS12_guest_pdptr3 \<equiv> 192 :: nat"
abbreviation (input) "VMCS12_host_ia32_pat \<equiv> 200 :: nat"
abbreviation (input) "VMCS12_host_ia32_efer \<equiv> 208 :: nat"
abbreviation (input) "VMCS12_host_ia32_perf_global_ctrl \<equiv> 216 :: nat"
abbreviation (input) "VMCS12_cr0_guest_host_mask \<equiv> 288 :: nat"
abbreviation (input) "VMCS12_cr4_guest_host_mask \<equiv> 296 :: nat"
abbreviation (input) "VMCS12_cr0_read_shadow \<equiv> 304 :: nat"
abbreviation (input) "VMCS12_cr4_read_shadow \<equiv> 312 :: nat"
abbreviation (input) "VMCS12_cr3_target_value0 \<equiv> 320 :: nat"
abbreviation (input) "VMCS12_cr3_target_value1 \<equiv> 328 :: nat"
abbreviation (input) "VMCS12_cr3_target_value2 \<equiv> 336 :: nat"
abbreviation (input) "VMCS12_cr3_target_value3 \<equiv> 344 :: nat"
abbreviation (input) "VMCS12_exit_qualification \<equiv> 352 :: nat"
abbreviation (input) "VMCS12_guest_linear_address \<equiv> 360 :: nat"
abbreviation (input) "VMCS12_guest_cr0 \<equiv> 368 :: nat"
abbreviation (input) "VMCS12_guest_cr3 \<equiv> 376 :: nat"
abbreviation (input) "VMCS12_guest_cr4 \<equiv> 384 :: nat"
abbreviation (input) "VMCS12_guest_es_base \<equiv> 392 :: nat"
abbreviation (input) "VMCS12_guest_cs_base \<equiv> 400 :: nat"
abbreviation (input) "VMCS12_guest_ss_base \<equiv> 408 :: nat"
abbreviation (input) "VMCS12_guest_ds_base \<equiv> 416 :: nat"
abbreviation (input) "VMCS12_guest_fs_base \<equiv> 424 :: nat"
abbreviation (input) "VMCS12_guest_gs_base \<equiv> 432 :: nat"
abbreviation (input) "VMCS12_guest_ldtr_base \<equiv> 440 :: nat"
abbreviation (input) "VMCS12_guest_tr_base \<equiv> 448 :: nat"
abbreviation (input) "VMCS12_guest_gdtr_base \<equiv> 456 :: nat"
abbreviation (input) "VMCS12_guest_idtr_base \<equiv> 464 :: nat"
abbreviation (input) "VMCS12_guest_dr7 \<equiv> 472 :: nat"
abbreviation (input) "VMCS12_guest_rsp \<equiv> 480 :: nat"
abbreviation (input) "VMCS12_guest_rip \<equiv> 488 :: nat"
abbreviation (input) "VMCS12_guest_rflags \<equiv> 496 :: nat"
abbreviation (input) "VMCS12_guest_pending_dbg_exceptions \<equiv> 504 :: nat"
abbreviation (input) "VMCS12_guest_sysenter_esp \<equiv> 512 :: nat"
abbreviation (input) "VMCS12_guest_sysenter_eip \<equiv> 520 :: nat"
abbreviation (input) "VMCS12_host_cr0 \<equiv> 528 :: nat"
abbreviation (input) "VMCS12_host_cr3 \<equiv> 536 :: nat"
abbreviation (input) "VMCS12_host_cr4 \<equiv> 544 :: nat"
abbreviation (input) "VMCS12_host_fs_base \<equiv> 552 :: nat"
abbreviation (input) "VMCS12_host_gs_base \<equiv> 560 :: nat"
abbreviation (input) "VMCS12_host_tr_base \<equiv> 568 :: nat"
abbreviation (input) "VMCS12_host_gdtr_base \<equiv> 576 :: nat"
abbreviation (input) "VMCS12_host_idtr_base \<equiv> 584 :: nat"
abbreviation (input) "VMCS12_host_ia32_sysenter_esp \<equiv> 592 :: nat"
abbreviation (input) "VMCS12_host_ia32_sysenter_eip \<equiv> 600 :: nat"
abbreviation (input) "VMCS12_host_rsp \<equiv> 608 :: nat"
abbreviation (input) "VMCS12_host_rip \<equiv> 616 :: nat"
abbreviation (input) "VMCS12_pin_based_vm_exec_control \<equiv> 688 :: nat"
abbreviation (input) "VMCS12_cpu_based_vm_exec_control \<equiv> 692 :: nat"
abbreviation (input) "VMCS12_exception_bitmap \<equiv> 696 :: nat"
abbreviation (input) "VMCS12_page_fault_error_code_mask \<equiv> 700 :: nat"
abbreviation (input) "VMCS12_page_fault_error_code_match \<equiv> 704 :: nat"
abbreviation (input) "VMCS12_cr3_target_count \<equiv> 708 :: nat"
abbreviation (input) "VMCS12_vm_exit_controls \<equiv> 712 :: nat"
abbreviation (input) "VMCS12_vm_exit_msr_store_count \<equiv> 716 :: nat"
abbreviation (input) "VMCS12_vm_exit_msr_load_count \<equiv> 720 :: nat"
abbreviation (input) "VMCS12_vm_entry_controls \<equiv> 724 :: nat"
abbreviation (input) "VMCS12_vm_entry_msr_load_count \<equiv> 728 :: nat"
abbreviation (input) "VMCS12_vm_entry_intr_info_field \<equiv> 732 :: nat"
abbreviation (input) "VMCS12_vm_entry_exception_error_code \<equiv> 736 :: nat"
abbreviation (input) "VMCS12_vm_entry_instruction_len \<equiv> 740 :: nat"
abbreviation (input) "VMCS12_tpr_threshold \<equiv> 744 :: nat"
abbreviation (input) "VMCS12_secondary_vm_exec_control \<equiv> 748 :: nat"
abbreviation (input) "VMCS12_vm_instruction_error \<equiv> 752 :: nat"
abbreviation (input) "VMCS12_vm_exit_reason \<equiv> 756 :: nat"
abbreviation (input) "VMCS12_vm_exit_intr_info \<equiv> 760 :: nat"
abbreviation (input) "VMCS12_vm_exit_intr_error_code \<equiv> 764 :: nat"
abbreviation (input) "VMCS12_idt_vectoring_info_field \<equiv> 768 :: nat"
abbreviation (input) "VMCS12_idt_vectoring_error_code \<equiv> 772 :: nat"
abbreviation (input) "VMCS12_vm_exit_instruction_len \<equiv> 776 :: nat"
abbreviation (input) "VMCS12_vmx_instruction_info \<equiv> 780 :: nat"
abbreviation (input) "VMCS12_guest_es_limit \<equiv> 784 :: nat"
abbreviation (input) "VMCS12_guest_cs_limit \<equiv> 788 :: nat"
abbreviation (input) "VMCS12_guest_ss_limit \<equiv> 792 :: nat"
abbreviation (input) "VMCS12_guest_ds_limit \<equiv> 796 :: nat"
abbreviation (input) "VMCS12_guest_fs_limit \<equiv> 800 :: nat"
abbreviation (input) "VMCS12_guest_gs_limit \<equiv> 804 :: nat"
abbreviation (input) "VMCS12_guest_ldtr_limit \<equiv> 808 :: nat"
abbreviation (input) "VMCS12_guest_tr_limit \<equiv> 812 :: nat"
abbreviation (input) "VMCS12_guest_gdtr_limit \<equiv> 816 :: nat"
abbreviation (input) "VMCS12_guest_idtr_limit \<equiv> 820 :: nat"
abbreviation (input) "VMCS12_guest_es_ar_bytes \<equiv> 824 :: nat"
abbreviation (input) "VMCS12_guest_cs_ar_bytes \<equiv> 828 :: nat"
abbreviation (input) "VMCS12_guest_ss_ar_bytes \<equiv> 832 :: nat"
abbreviation (input) "VMCS12_guest_ds_ar_bytes \<equiv> 836 :: nat"
abbreviation (input) "VMCS12_guest_fs_ar_bytes \<equiv> 840 :: nat"
abbreviation (input) "VMCS12_guest_gs_ar_bytes \<equiv> 844 :: nat"
abbreviation (input) "VMCS12_guest_ldtr_ar_bytes \<equiv> 848 :: nat"
abbreviation (input) "VMCS12_guest_tr_ar_bytes \<equiv> 852 :: nat"
abbreviation (input) "VMCS12_guest_interruptibility_info \<equiv> 856 :: nat"
abbreviation (input) "VMCS12_guest_activity_state \<equiv> 860 :: nat"
abbreviation (input) "VMCS12_guest_sysenter_cs \<equiv> 864 :: nat"
abbreviation (input) "VMCS12_host_ia32_sysenter_cs \<equiv> 868 :: nat"
abbreviation (input) "VMCS12_vmx_preemption_timer_value \<equiv> 872 :: nat"
abbreviation (input) "VMCS12_virtual_processor_id \<equiv> 904 :: nat"
abbreviation (input) "VMCS12_guest_es_selector \<equiv> 906 :: nat"
abbreviation (input) "VMCS12_guest_cs_selector \<equiv> 908 :: nat"
abbreviation (input) "VMCS12_guest_ss_selector \<equiv> 910 :: nat"
abbreviation (input) "VMCS12_guest_ds_selector \<equiv> 912 :: nat"
abbreviation (input) "VMCS12_guest_fs_selector \<equiv> 914 :: nat"
abbreviation (input) "VMCS12_guest_gs_selector \<equiv> 916 :: nat"
abbreviation (input) "VMCS12_guest_ldtr_selector \<equiv> 918 :: nat"
abbreviation (input) "VMCS12_guest_tr_selector \<equiv> 920 :: nat"
abbreviation (input) "VMCS12_host_es_selector \<equiv> 922 :: nat"
abbreviation (input) "VMCS12_host_cs_selector \<equiv> 924 :: nat"
abbreviation (input) "VMCS12_host_ss_selector \<equiv> 926 :: nat"
abbreviation (input) "VMCS12_host_ds_selector \<equiv> 928 :: nat"
abbreviation (input) "VMCS12_host_fs_selector \<equiv> 930 :: nat"
abbreviation (input) "VMCS12_host_gs_selector \<equiv> 932 :: nat"
abbreviation (input) "VMCS12_host_tr_selector \<equiv> 934 :: nat"

text \<open>The members in order, with their sizes in bytes; paddings included.\<close>

definition vmcs12_layout :: "(nat \<times> nat) list" where
  "vmcs12_layout =
    [(VMCS12_revision_id, 4), (VMCS12_abort, 4), (VMCS12_launch_state, 4), (12, 28),
     (VMCS12_io_bitmap_a, 8), (VMCS12_io_bitmap_b, 8), (VMCS12_msr_bitmap, 8),
     (VMCS12_vm_exit_msr_store_addr, 8), (VMCS12_vm_exit_msr_load_addr, 8),
     (VMCS12_vm_entry_msr_load_addr, 8), (VMCS12_tsc_offset, 8), (VMCS12_virtual_apic_page_addr, 8),
     (VMCS12_apic_access_addr, 8), (VMCS12_ept_pointer, 8), (VMCS12_guest_physical_address, 8),
     (VMCS12_vmcs_link_pointer, 8), (VMCS12_guest_ia32_debugctl, 8), (VMCS12_guest_ia32_pat, 8),
     (VMCS12_guest_ia32_efer, 8), (VMCS12_guest_ia32_perf_global_ctrl, 8), (VMCS12_guest_pdptr0, 8),
     (VMCS12_guest_pdptr1, 8), (VMCS12_guest_pdptr2, 8), (VMCS12_guest_pdptr3, 8),
     (VMCS12_host_ia32_pat, 8), (VMCS12_host_ia32_efer, 8), (VMCS12_host_ia32_perf_global_ctrl, 8),
     (224, 64), (VMCS12_cr0_guest_host_mask, 8), (VMCS12_cr4_guest_host_mask, 8),
     (VMCS12_cr0_read_shadow, 8), (VMCS12_cr4_read_shadow, 8), (VMCS12_cr3_target_value0, 8),
     (VMCS12_cr3_target_value1, 8), (VMCS12_cr3_target_value2, 8), (VMCS12_cr3_target_value3, 8),
     (VMCS12_exit_qualification, 8), (VMCS12_guest_linear_address, 8), (VMCS12_guest_cr0, 8),
     (VMCS12_guest_cr3, 8), (VMCS12_guest_cr4, 8), (VMCS12_guest_es_base, 8), (VMCS12_guest_cs_base, 8),
     (VMCS12_guest_ss_base, 8), (VMCS12_guest_ds_base, 8), (VMCS12_guest_fs_base, 8),
     (VMCS12_guest_gs_base, 8), (VMCS12_guest_ldtr_base, 8), (VMCS12_guest_tr_base, 8),
     (VMCS12_guest_gdtr_base, 8), (VMCS12_guest_idtr_base, 8), (VMCS12_guest_dr7, 8),
     (VMCS12_guest_rsp, 8), (VMCS12_guest_rip, 8), (VMCS12_guest_rflags, 8),
     (VMCS12_guest_pending_dbg_exceptions, 8), (VMCS12_guest_sysenter_esp, 8),
     (VMCS12_guest_sysenter_eip, 8), (VMCS12_host_cr0, 8), (VMCS12_host_cr3, 8), (VMCS12_host_cr4, 8),
     (VMCS12_host_fs_base, 8), (VMCS12_host_gs_base, 8), (VMCS12_host_tr_base, 8),
     (VMCS12_host_gdtr_base, 8), (VMCS12_host_idtr_base, 8), (VMCS12_host_ia32_sysenter_esp, 8),
     (VMCS12_host_ia32_sysenter_eip, 8), (VMCS12_host_rsp, 8), (VMCS12_host_rip, 8), (624, 64),
     (VMCS12_pin_based_vm_exec_control, 4), (VMCS12_cpu_based_vm_exec_control, 4),
     (VMCS12_exception_bitmap, 4), (VMCS12_page_fault_error_code_mask, 4),
     (VMCS12_page_fault_error_code_match, 4), (VMCS12_cr3_target_count, 4), (VMCS12_vm_exit_controls, 4),
     (VMCS12_vm_exit_msr_store_count, 4), (VMCS12_vm_exit_msr_load_count, 4),
     (VMCS12_vm_entry_controls, 4), (VMCS12_vm_entry_msr_load_count, 4),
     (VMCS12_vm_entry_intr_info_field, 4), (VMCS12_vm_entry_exception_error_code, 4),
     (VMCS12_vm_entry_instruction_len, 4), (VMCS12_tpr_threshold, 4),
     (VMCS12_secondary_vm_exec_control, 4), (VMCS12_vm_instruction_error, 4), (VMCS12_vm_exit_reason, 4),
     (VMCS12_vm_exit_intr_info, 4), (VMCS12_vm_exit_intr_error_code, 4),
     (VMCS12_idt_vectoring_info_field, 4), (VMCS12_idt_vectoring_error_code, 4),
     (VMCS12_vm_exit_instruction_len, 4), (VMCS12_vmx_instruction_info, 4), (VMCS12_guest_es_limit, 4),
     (VMCS12_guest_cs_limit, 4), (VMCS12_guest_ss_limit, 4), (VMCS12_guest_ds_limit, 4),
     (VMCS12_guest_fs_limit, 4), (VMCS12_guest_gs_limit, 4), (VMCS12_guest_ldtr_limit, 4),
     (VMCS12_guest_tr_limit, 4), (VMCS12_guest_gdtr_limit, 4), (VMCS12_guest_idtr_limit, 4),
     (VMCS12_guest_es_ar_bytes, 4), (VMCS12_guest_cs_ar_bytes, 4), (VMCS12_guest_ss_ar_bytes, 4),
     (VMCS12_guest_ds_ar_bytes, 4), (VMCS12_guest_fs_ar_bytes, 4), (VMCS12_guest_gs_ar_bytes, 4),
     (VMCS12_guest_ldtr_ar_bytes, 4), (VMCS12_guest_tr_ar_bytes, 4),
     (VMCS12_guest_interruptibility_info, 4), (VMCS12_guest_activity_state, 4),
     (VMCS12_guest_sysenter_cs, 4), (VMCS12_host_ia32_sysenter_cs, 4),
     (VMCS12_vmx_preemption_timer_value, 4), (876, 28), (VMCS12_virtual_processor_id, 2),
     (VMCS12_guest_es_selector, 2), (VMCS12_guest_cs_selector, 2), (VMCS12_guest_ss_selector, 2),
     (VMCS12_guest_ds_selector, 2), (VMCS12_guest_fs_selector, 2), (VMCS12_guest_gs_selector, 2),
     (VMCS12_guest_ldtr_selector, 2), (VMCS12_guest_tr_selector, 2), (VMCS12_host_es_selector, 2),
     (VMCS12_host_cs_selector, 2), (VMCS12_host_ss_selector, 2), (VMCS12_host_ds_selector, 2),
     (VMCS12_host_fs_selector, 2), (VMCS12_host_gs_selector, 2), (VMCS12_host_tr_selector, 2)]"

subsection \<open>The table of fields\<close>

definition FIELD :: "nat \<Rightarrow> nat \<Rightarrow> (nat \<times> nat) list" where "FIELD number off = [(number, off)]"
definition FIELD64 :: "nat \<Rightarrow> nat \<Rightarrow> (nat \<times> nat) list" where
  "FIELD64 number off = [(number, off), (number + 1, off + 4)]"

definition vmcs_field_to_offset_table :: "(nat \<times> nat) list" where
  "vmcs_field_to_offset_table = concat
    [FIELD F_VIRTUAL_PROCESSOR_ID VMCS12_virtual_processor_id,
     FIELD F_GUEST_ES_SELECTOR VMCS12_guest_es_selector,
     FIELD F_GUEST_CS_SELECTOR VMCS12_guest_cs_selector,
     FIELD F_GUEST_SS_SELECTOR VMCS12_guest_ss_selector,
     FIELD F_GUEST_DS_SELECTOR VMCS12_guest_ds_selector,
     FIELD F_GUEST_FS_SELECTOR VMCS12_guest_fs_selector,
     FIELD F_GUEST_GS_SELECTOR VMCS12_guest_gs_selector,
     FIELD F_GUEST_LDTR_SELECTOR VMCS12_guest_ldtr_selector,
     FIELD F_GUEST_TR_SELECTOR VMCS12_guest_tr_selector,
     FIELD F_HOST_ES_SELECTOR VMCS12_host_es_selector, FIELD F_HOST_CS_SELECTOR VMCS12_host_cs_selector,
     FIELD F_HOST_SS_SELECTOR VMCS12_host_ss_selector, FIELD F_HOST_DS_SELECTOR VMCS12_host_ds_selector,
     FIELD F_HOST_FS_SELECTOR VMCS12_host_fs_selector, FIELD F_HOST_GS_SELECTOR VMCS12_host_gs_selector,
     FIELD F_HOST_TR_SELECTOR VMCS12_host_tr_selector, FIELD64 F_IO_BITMAP_A VMCS12_io_bitmap_a,
     FIELD64 F_IO_BITMAP_B VMCS12_io_bitmap_b, FIELD64 F_MSR_BITMAP VMCS12_msr_bitmap,
     FIELD64 F_VM_EXIT_MSR_STORE_ADDR VMCS12_vm_exit_msr_store_addr,
     FIELD64 F_VM_EXIT_MSR_LOAD_ADDR VMCS12_vm_exit_msr_load_addr,
     FIELD64 F_VM_ENTRY_MSR_LOAD_ADDR VMCS12_vm_entry_msr_load_addr,
     FIELD64 F_TSC_OFFSET VMCS12_tsc_offset,
     FIELD64 F_VIRTUAL_APIC_PAGE_ADDR VMCS12_virtual_apic_page_addr,
     FIELD64 F_APIC_ACCESS_ADDR VMCS12_apic_access_addr, FIELD64 F_EPT_POINTER VMCS12_ept_pointer,
     FIELD64 F_GUEST_PHYSICAL_ADDRESS VMCS12_guest_physical_address,
     FIELD64 F_VMCS_LINK_POINTER VMCS12_vmcs_link_pointer,
     FIELD64 F_GUEST_IA32_DEBUGCTL VMCS12_guest_ia32_debugctl,
     FIELD64 F_GUEST_IA32_PAT VMCS12_guest_ia32_pat, FIELD64 F_GUEST_IA32_EFER VMCS12_guest_ia32_efer,
     FIELD64 F_GUEST_IA32_PERF_GLOBAL_CTRL VMCS12_guest_ia32_perf_global_ctrl,
     FIELD64 F_GUEST_PDPTR0 VMCS12_guest_pdptr0, FIELD64 F_GUEST_PDPTR1 VMCS12_guest_pdptr1,
     FIELD64 F_GUEST_PDPTR2 VMCS12_guest_pdptr2, FIELD64 F_GUEST_PDPTR3 VMCS12_guest_pdptr3,
     FIELD64 F_HOST_IA32_PAT VMCS12_host_ia32_pat, FIELD64 F_HOST_IA32_EFER VMCS12_host_ia32_efer,
     FIELD64 F_HOST_IA32_PERF_GLOBAL_CTRL VMCS12_host_ia32_perf_global_ctrl,
     FIELD F_PIN_BASED_VM_EXEC_CONTROL VMCS12_pin_based_vm_exec_control,
     FIELD F_CPU_BASED_VM_EXEC_CONTROL VMCS12_cpu_based_vm_exec_control,
     FIELD F_EXCEPTION_BITMAP VMCS12_exception_bitmap,
     FIELD F_PAGE_FAULT_ERROR_CODE_MASK VMCS12_page_fault_error_code_mask,
     FIELD F_PAGE_FAULT_ERROR_CODE_MATCH VMCS12_page_fault_error_code_match,
     FIELD F_CR3_TARGET_COUNT VMCS12_cr3_target_count, FIELD F_VM_EXIT_CONTROLS VMCS12_vm_exit_controls,
     FIELD F_VM_EXIT_MSR_STORE_COUNT VMCS12_vm_exit_msr_store_count,
     FIELD F_VM_EXIT_MSR_LOAD_COUNT VMCS12_vm_exit_msr_load_count,
     FIELD F_VM_ENTRY_CONTROLS VMCS12_vm_entry_controls,
     FIELD F_VM_ENTRY_MSR_LOAD_COUNT VMCS12_vm_entry_msr_load_count,
     FIELD F_VM_ENTRY_INTR_INFO_FIELD VMCS12_vm_entry_intr_info_field,
     FIELD F_VM_ENTRY_EXCEPTION_ERROR_CODE VMCS12_vm_entry_exception_error_code,
     FIELD F_VM_ENTRY_INSTRUCTION_LEN VMCS12_vm_entry_instruction_len,
     FIELD F_TPR_THRESHOLD VMCS12_tpr_threshold,
     FIELD F_SECONDARY_VM_EXEC_CONTROL VMCS12_secondary_vm_exec_control,
     FIELD F_VM_INSTRUCTION_ERROR VMCS12_vm_instruction_error,
     FIELD F_VM_EXIT_REASON VMCS12_vm_exit_reason, FIELD F_VM_EXIT_INTR_INFO VMCS12_vm_exit_intr_info,
     FIELD F_VM_EXIT_INTR_ERROR_CODE VMCS12_vm_exit_intr_error_code,
     FIELD F_IDT_VECTORING_INFO_FIELD VMCS12_idt_vectoring_info_field,
     FIELD F_IDT_VECTORING_ERROR_CODE VMCS12_idt_vectoring_error_code,
     FIELD F_VM_EXIT_INSTRUCTION_LEN VMCS12_vm_exit_instruction_len,
     FIELD F_VMX_INSTRUCTION_INFO VMCS12_vmx_instruction_info,
     FIELD F_GUEST_ES_LIMIT VMCS12_guest_es_limit, FIELD F_GUEST_CS_LIMIT VMCS12_guest_cs_limit,
     FIELD F_GUEST_SS_LIMIT VMCS12_guest_ss_limit, FIELD F_GUEST_DS_LIMIT VMCS12_guest_ds_limit,
     FIELD F_GUEST_FS_LIMIT VMCS12_guest_fs_limit, FIELD F_GUEST_GS_LIMIT VMCS12_guest_gs_limit,
     FIELD F_GUEST_LDTR_LIMIT VMCS12_guest_ldtr_limit, FIELD F_GUEST_TR_LIMIT VMCS12_guest_tr_limit,
     FIELD F_GUEST_GDTR_LIMIT VMCS12_guest_gdtr_limit, FIELD F_GUEST_IDTR_LIMIT VMCS12_guest_idtr_limit,
     FIELD F_GUEST_ES_AR_BYTES VMCS12_guest_es_ar_bytes,
     FIELD F_GUEST_CS_AR_BYTES VMCS12_guest_cs_ar_bytes,
     FIELD F_GUEST_SS_AR_BYTES VMCS12_guest_ss_ar_bytes,
     FIELD F_GUEST_DS_AR_BYTES VMCS12_guest_ds_ar_bytes,
     FIELD F_GUEST_FS_AR_BYTES VMCS12_guest_fs_ar_bytes,
     FIELD F_GUEST_GS_AR_BYTES VMCS12_guest_gs_ar_bytes,
     FIELD F_GUEST_LDTR_AR_BYTES VMCS12_guest_ldtr_ar_bytes,
     FIELD F_GUEST_TR_AR_BYTES VMCS12_guest_tr_ar_bytes,
     FIELD F_GUEST_INTERRUPTIBILITY_INFO VMCS12_guest_interruptibility_info,
     FIELD F_GUEST_ACTIVITY_STATE VMCS12_guest_activity_state,
     FIELD F_GUEST_SYSENTER_CS VMCS12_guest_sysenter_cs,
     FIELD F_HOST_IA32_SYSENTER_CS VMCS12_host_ia32_sysenter_cs,
     FIELD F_VMX_PREEMPTION_TIMER_VALUE VMCS12_vmx_preemption_timer_value,
     FIELD F_CR0_GUEST_HOST_MASK VMCS12_cr0_guest_host_mask,
     FIELD F_CR4_GUEST_HOST_MASK VMCS12_cr4_guest_host_mask,
     FIELD F_CR0_READ_SHADOW VMCS12_cr0_read_shadow, FIELD F_CR4_READ_SHADOW VMCS12_cr4_read_shadow,
     FIELD F_CR3_TARGET_VALUE0 VMCS12_cr3_target_value0,
     FIELD F_CR3_TARGET_VALUE1 VMCS12_cr3_target_value1,
     FIELD F_CR3_TARGET_VALUE2 VMCS12_cr3_target_value2,
     FIELD F_CR3_TARGET_VALUE3 VMCS12_cr3_target_value3,
     FIELD F_EXIT_QUALIFICATION VMCS12_exit_qualification,
     FIELD F_GUEST_LINEAR_ADDRESS VMCS12_guest_linear_address, FIELD F_GUEST_CR0 VMCS12_guest_cr0,
     FIELD F_GUEST_CR3 VMCS12_guest_cr3, FIELD F_GUEST_CR4 VMCS12_guest_cr4,
     FIELD F_GUEST_ES_BASE VMCS12_guest_es_base, FIELD F_GUEST_CS_BASE VMCS12_guest_cs_base,
     FIELD F_GUEST_SS_BASE VMCS12_guest_ss_base, FIELD F_GUEST_DS_BASE VMCS12_guest_ds_base,
     FIELD F_GUEST_FS_BASE VMCS12_guest_fs_base, FIELD F_GUEST_GS_BASE VMCS12_guest_gs_base,
     FIELD F_GUEST_LDTR_BASE VMCS12_guest_ldtr_base, FIELD F_GUEST_TR_BASE VMCS12_guest_tr_base,
     FIELD F_GUEST_GDTR_BASE VMCS12_guest_gdtr_base, FIELD F_GUEST_IDTR_BASE VMCS12_guest_idtr_base,
     FIELD F_GUEST_DR7 VMCS12_guest_dr7, FIELD F_GUEST_RSP VMCS12_guest_rsp,
     FIELD F_GUEST_RIP VMCS12_guest_rip, FIELD F_GUEST_RFLAGS VMCS12_guest_rflags,
     FIELD F_GUEST_PENDING_DBG_EXCEPTIONS VMCS12_guest_pending_dbg_exceptions,
     FIELD F_GUEST_SYSENTER_ESP VMCS12_guest_sysenter_esp,
     FIELD F_GUEST_SYSENTER_EIP VMCS12_guest_sysenter_eip, FIELD F_HOST_CR0 VMCS12_host_cr0,
     FIELD F_HOST_CR3 VMCS12_host_cr3, FIELD F_HOST_CR4 VMCS12_host_cr4,
     FIELD F_HOST_FS_BASE VMCS12_host_fs_base, FIELD F_HOST_GS_BASE VMCS12_host_gs_base,
     FIELD F_HOST_TR_BASE VMCS12_host_tr_base, FIELD F_HOST_GDTR_BASE VMCS12_host_gdtr_base,
     FIELD F_HOST_IDTR_BASE VMCS12_host_idtr_base,
     FIELD F_HOST_IA32_SYSENTER_ESP VMCS12_host_ia32_sysenter_esp,
     FIELD F_HOST_IA32_SYSENTER_EIP VMCS12_host_ia32_sysenter_eip, FIELD F_HOST_RSP VMCS12_host_rsp,
     FIELD F_HOST_RIP VMCS12_host_rip]"

definition shadow_read_only_fields :: "nat list" where
  "shadow_read_only_fields =
    [F_VM_EXIT_REASON, F_VM_EXIT_INTR_INFO, F_VM_EXIT_INSTRUCTION_LEN, F_IDT_VECTORING_INFO_FIELD,
     F_IDT_VECTORING_ERROR_CODE, F_VM_EXIT_INTR_ERROR_CODE, F_EXIT_QUALIFICATION, F_GUEST_LINEAR_ADDRESS,
     F_GUEST_PHYSICAL_ADDRESS]"

definition shadow_read_write_fields :: "nat list" where
  "shadow_read_write_fields =
    [F_GUEST_RIP, F_GUEST_RSP, F_GUEST_CR0, F_GUEST_CR3, F_GUEST_CR4, F_GUEST_INTERRUPTIBILITY_INFO,
     F_GUEST_RFLAGS, F_GUEST_CS_SELECTOR, F_GUEST_CS_AR_BYTES, F_GUEST_CS_LIMIT, F_GUEST_CS_BASE,
     F_GUEST_ES_BASE, F_CR0_GUEST_HOST_MASK, F_CR0_READ_SHADOW, F_CR4_READ_SHADOW, F_TSC_OFFSET,
     F_EXCEPTION_BITMAP, F_CPU_BASED_VM_EXEC_CONTROL, F_VM_ENTRY_EXCEPTION_ERROR_CODE,
     F_VM_ENTRY_INTR_INFO_FIELD, F_VM_ENTRY_INSTRUCTION_LEN, F_VM_ENTRY_EXCEPTION_ERROR_CODE,
     F_HOST_FS_BASE, F_HOST_GS_BASE, F_HOST_FS_SELECTOR, F_HOST_GS_SELECTOR]"
text \<open>An entry of the table that is absent or zero is no field: -1. The table has no entry of zero.\<close>

definition vmcs_field_to_offset :: "u64 \<Rightarrow> int" where
  "vmcs_field_to_offset field =
     (case map_of vmcs_field_to_offset_table (unat field) of
        None \<Rightarrow> - 1
      | Some off \<Rightarrow> if off = 0 then - 1 else int off)"

definition VMCS_FIELD_TYPE_U16 :: nat where "VMCS_FIELD_TYPE_U16 = 0"
definition VMCS_FIELD_TYPE_U64 :: nat where "VMCS_FIELD_TYPE_U64 = 1"
definition VMCS_FIELD_TYPE_U32 :: nat where "VMCS_FIELD_TYPE_U32 = 2"
definition VMCS_FIELD_TYPE_NATURAL_WIDTH :: nat where "VMCS_FIELD_TYPE_NATURAL_WIDTH = 3"

definition vmcs_field_type :: "u64 \<Rightarrow> nat" where
  "vmcs_field_type field =
     (if 0x1 AND field \<noteq> 0 then VMCS_FIELD_TYPE_U32 else unat (drop_bit 13 field AND 0x3))"

definition vmcs_field_readonly :: "u64 \<Rightarrow> bool" where
  "vmcs_field_readonly field = (drop_bit 10 field AND 0x3 = 1)"

subsection \<open>Members\<close>

text \<open>\<open>u\<close> is the memory of the host's user space, where the guest's pages are, and \<open>p\<close> the address of the
  structure: the pointers of the code are into the same memory that the guest can write.\<close>

definition mem_get :: "(u64 \<Rightarrow> u8) \<Rightarrow> u64 \<Rightarrow> nat \<Rightarrow> u8 list" where
  "mem_get u a n = map (\<lambda>i. u (a + of_nat i)) [0..<n]"

definition mem_put :: "u64 \<Rightarrow> u8 list \<Rightarrow> (u64 \<Rightarrow> u8) \<Rightarrow> u64 \<Rightarrow> u8" where
  "mem_put a bs u = (\<lambda>x. if unat (x - a) < length bs then bs ! unat (x - a) else u x)"

definition v12_get :: "nat \<Rightarrow> u64 \<Rightarrow> nat \<Rightarrow> (u64 \<Rightarrow> u8) \<Rightarrow> u64" where
  "v12_get n p off u = bytes_word (mem_get u (p + of_nat off) n)"

definition v12_put :: "nat \<Rightarrow> u64 \<Rightarrow> nat \<Rightarrow> u64 \<Rightarrow> (u64 \<Rightarrow> u8) \<Rightarrow> u64 \<Rightarrow> u8" where
  "v12_put n p off x u = mem_put (p + of_nat off) (word_bytes n x) u"

definition field_bytes :: "u64 \<Rightarrow> nat" where
  "field_bytes field =
     (if vmcs_field_type field = VMCS_FIELD_TYPE_U16 then 2
      else if vmcs_field_type field = VMCS_FIELD_TYPE_U32 then 4 else 8)"

definition vmcs12_read_any :: "u64 \<Rightarrow> u64 \<Rightarrow> (u64 \<Rightarrow> u8) \<Rightarrow> u64 option" where
  "vmcs12_read_any p field u =
     (let offset = vmcs_field_to_offset field
      in if offset < 0 then None else Some (v12_get (field_bytes field) p (nat offset) u))"

definition vmcs12_write_any :: "u64 \<Rightarrow> u64 \<Rightarrow> u64 \<Rightarrow> (u64 \<Rightarrow> u8) \<Rightarrow> bool \<times> (u64 \<Rightarrow> u8)" where
  "vmcs12_write_any p field field_value u =
     (let offset = vmcs_field_to_offset field
      in if offset < 0 then (False, u)
         else (True, v12_put (field_bytes field) p (nat offset) field_value u))"

subsection \<open>The shadow VMCS\<close>

text \<open>The hardware's copy of some fields, as a function of the encoding. A read or write of a field is cut to
  its width.\<close>

definition cut_to :: "nat \<Rightarrow> u64 \<Rightarrow> u64" where "cut_to n x = take_bit (8 * n) x"

definition copy_shadow_to_vmcs12 :: "(nat \<Rightarrow> u64) \<Rightarrow> u64 \<Rightarrow> (u64 \<Rightarrow> u8) \<Rightarrow> u64 \<Rightarrow> u8" where
  "copy_shadow_to_vmcs12 shadow_vmcs p u =
     fold (\<lambda>field u. snd (vmcs12_write_any p (of_nat field) (cut_to (field_bytes (of_nat field)) (shadow_vmcs field)) u))
       shadow_read_write_fields u"

text \<open>\<open>fv\<close> is \<^verbatim>\<open>field_value\<close>, which keeps the value of the field before when a field cannot be read.\<close>

fun copy_fields :: "u64 \<Rightarrow> (u64 \<Rightarrow> u8) \<Rightarrow> nat list \<Rightarrow> u64 \<Rightarrow> (nat \<Rightarrow> u64) \<Rightarrow> nat \<Rightarrow> u64" where
  "copy_fields p u [] fv shadow_vmcs = shadow_vmcs"
| "copy_fields p u (field # fs) fv shadow_vmcs =
     (let v = (case vmcs12_read_any p (of_nat field) u of None \<Rightarrow> fv | Some x \<Rightarrow> x)
      in copy_fields p u fs v (shadow_vmcs(field := cut_to (field_bytes (of_nat field)) v)))"

definition copy_vmcs12_to_shadow :: "u64 \<Rightarrow> (u64 \<Rightarrow> u8) \<Rightarrow> (nat \<Rightarrow> u64) \<Rightarrow> nat \<Rightarrow> u64" where
  "copy_vmcs12_to_shadow p u shadow_vmcs =
     copy_fields p u (shadow_read_write_fields @ shadow_read_only_fields) 0 shadow_vmcs"

end
