(* ===== verification/Nested_Vmx.thy ===== *)
theory Nested_Vmx
  imports Msrs Vmcs_Fields
begin

text \<open>
  The VMX instructions of a nested hypervisor (\<^verbatim>\<open>kvm/vmx.c\<close>): the permission checks, the operands, how
  success and failure are reported, the current VMCS and its shadow, the pool of hardware VMCSs for nested
  guests, and the checks made before such a guest is entered.
\<close>

subsection \<open>State\<close>

text \<open>\<^verbatim>\<open>struct nested_vmx\<close>. A page is named by its address in \<open>user_mem\<close>: the nested VMCS lies in guest
  memory. \<open>pinned\<close> lists the pages that were taken and not released. A hardware VMCS is a number, \<open>0\<close>
  for \<^verbatim>\<open>vmcs01\<close>; \<open>vmcs_freed\<close> lists those given back. \<open>secondary_ctl\<close>, \<open>vmcs_link\<close> and
  \<open>insn_info\<close> are the fields \<^verbatim>\<open>SECONDARY_VM_EXEC_CONTROL\<close>, \<^verbatim>\<open>VMCS_LINK_POINTER\<close> and
  \<^verbatim>\<open>VMX_INSTRUCTION_INFO\<close> of the loaded VMCS.\<close>

record nested_vcpu =
  nv :: vcpu
  nmem :: kvm_mem
  current_vmptr :: u64
  current_vmcs12 :: "u64 option"
  current_vmcs12_page :: u64
  pinned :: "u64 list"
  current_shadow_vmcs :: "(nat \<Rightarrow> u64) option"
  sync_shadow_vmcs :: bool
  secondary_ctl :: u32
  vmcs_link :: u64
  insn_info :: u32
  vmcs02_pool :: "(u64 \<times> nat) list"
  vmcs02_num :: nat
  loaded_vmcs :: nat
  vmcs_freed :: "nat list"
  n_feature_control :: u64
  n_apic_access_page :: "u64 option"
  n_vmcs01_tsc_offset :: u64

text \<open>What lies outside: the functions of the MSRs, the walk of the guest's page tables and the fault it reports
  for a range, the general registers by number, the page of a frame, the allocation of a hardware VMCS given those
  in use, whether a shadow VMCS can be allocated and its physical address. \<open>stack_exception\<close> is what the
  variable \<^verbatim>\<open>e\<close> of a handler holds before anything is stored in it.\<close>

record 'x nested_lib =
  nmsr :: "'x msr_lib"
  nmmu :: "vcpu \<Rightarrow> mmu_lib"
  virt_fault :: "vcpu \<Rightarrow> kvm_mem \<Rightarrow> u64 \<Rightarrow> nat \<Rightarrow> u64 \<times> u32"
  stack_exception :: "u64 \<times> u32"
  reg_read :: "nat \<Rightarrow> vcpu \<Rightarrow> u64 \<times> vcpu"
  reg_write :: "nat \<Rightarrow> u64 \<Rightarrow> vcpu \<Rightarrow> vcpu"
  page_of :: "kvm_mem \<Rightarrow> u64 \<Rightarrow> u64 option"
  alloc_vmcs :: "nat list \<Rightarrow> nat option"
  enable_shadow_vmcs :: bool
  shadow_alloc_ok :: bool
  shadow_pa :: u64

definition nenv :: "'x nested_lib \<Rightarrow> env" where "nenv L = msr_env (nmsr L)"
definition nlib :: "'x nested_lib \<Rightarrow> mem_lib" where "nlib L = msr_mem (nmsr L)"

definition on_vcpu :: "(vcpu \<Rightarrow> vcpu) \<Rightarrow> nested_vcpu \<Rightarrow> nested_vcpu" where
  "on_vcpu f s = s\<lparr>nv := f (nv s)\<rparr>"

definition nested_get_page :: "'x nested_lib \<Rightarrow> nested_vcpu \<Rightarrow> u64 \<Rightarrow> u64 option" where
  "nested_get_page L s addr = page_of L (nmem s) (drop_bit 12 addr)"

text \<open>Members of the nested VMCS at address \<open>p\<close>.\<close>

definition v12 :: "nat \<Rightarrow> nat \<Rightarrow> u64 \<Rightarrow> nested_vcpu \<Rightarrow> u64" where
  "v12 n off p s = v12_get n p off (user_mem (nmem s))"

definition set_v12 :: "nat \<Rightarrow> nat \<Rightarrow> u64 \<Rightarrow> u64 \<Rightarrow> nested_vcpu \<Rightarrow> nested_vcpu" where
  "set_v12 n off p x s = s\<lparr>nmem := (nmem s)\<lparr>user_mem := v12_put n p off x (user_mem (nmem s))\<rparr>\<rparr>"

subsection \<open>Reporting success and failure\<close>

definition X86_EFLAGS_CF :: u64 where "X86_EFLAGS_CF = 0x1"
definition X86_EFLAGS_PF :: u64 where "X86_EFLAGS_PF = 0x4"
definition X86_EFLAGS_AF :: u64 where "X86_EFLAGS_AF = 0x10"
definition X86_EFLAGS_ZF :: u64 where "X86_EFLAGS_ZF = 0x40"
definition X86_EFLAGS_SF :: u64 where "X86_EFLAGS_SF = 0x80"
definition X86_EFLAGS_OF :: u64 where "X86_EFLAGS_OF = 0x800"

definition VMXERR_VMCLEAR_INVALID_ADDRESS :: u32 where "VMXERR_VMCLEAR_INVALID_ADDRESS = 2"
definition VMXERR_VMLAUNCH_NONCLEAR_VMCS :: u32 where "VMXERR_VMLAUNCH_NONCLEAR_VMCS = 4"
definition VMXERR_VMRESUME_NONLAUNCHED_VMCS :: u32 where "VMXERR_VMRESUME_NONLAUNCHED_VMCS = 5"
definition VMXERR_ENTRY_INVALID_CONTROL_FIELD :: u32 where "VMXERR_ENTRY_INVALID_CONTROL_FIELD = 7"
definition VMXERR_ENTRY_INVALID_HOST_STATE_FIELD :: u32 where "VMXERR_ENTRY_INVALID_HOST_STATE_FIELD = 8"
definition VMXERR_VMPTRLD_INVALID_ADDRESS :: u32 where "VMXERR_VMPTRLD_INVALID_ADDRESS = 9"
definition VMXERR_VMPTRLD_INCORRECT_VMCS_REVISION_ID :: u32 where
  "VMXERR_VMPTRLD_INCORRECT_VMCS_REVISION_ID = 11"
definition VMXERR_UNSUPPORTED_VMCS_COMPONENT :: u32 where "VMXERR_UNSUPPORTED_VMCS_COMPONENT = 12"
definition VMXERR_VMWRITE_READ_ONLY_VMCS_COMPONENT :: u32 where "VMXERR_VMWRITE_READ_ONLY_VMCS_COMPONENT = 13"
definition VMXERR_VMXON_IN_VMX_ROOT_OPERATION :: u32 where "VMXERR_VMXON_IN_VMX_ROOT_OPERATION = 15"
definition VMXERR_INVALID_OPERAND_TO_INVEPT_INVVPID :: u32 where "VMXERR_INVALID_OPERAND_TO_INVEPT_INVVPID = 28"

definition update_flags :: "u64 \<Rightarrow> u64 \<Rightarrow> nested_vcpu \<Rightarrow> nested_vcpu" where
  "update_flags cleared raised =
     on_vcpu (\<lambda>v. case vmx_get_rflags v of (r, v1) \<Rightarrow> vmx_set_rflags ((r AND NOT cleared) OR raised) v1)"

definition nested_vmx_succeed :: "nested_vcpu \<Rightarrow> nested_vcpu" where
  "nested_vmx_succeed =
     update_flags (X86_EFLAGS_CF OR X86_EFLAGS_PF OR X86_EFLAGS_AF OR X86_EFLAGS_ZF OR X86_EFLAGS_SF OR X86_EFLAGS_OF) 0"

definition nested_vmx_failInvalid :: "nested_vcpu \<Rightarrow> nested_vcpu" where
  "nested_vmx_failInvalid =
     update_flags (X86_EFLAGS_PF OR X86_EFLAGS_AF OR X86_EFLAGS_ZF OR X86_EFLAGS_SF OR X86_EFLAGS_OF) X86_EFLAGS_CF"

text \<open>\<open>None\<close>: the pointer to the current VMCS is null although \<^verbatim>\<open>current_vmptr\<close> is not -1.\<close>

definition nested_vmx_failValid :: "u32 \<Rightarrow> nested_vcpu \<Rightarrow> nested_vcpu option" where
  "nested_vmx_failValid vm_instruction_error s =
     (if current_vmptr s = - 1 then Some (nested_vmx_failInvalid s)
      else
        (let s1 = update_flags (X86_EFLAGS_CF OR X86_EFLAGS_PF OR X86_EFLAGS_AF OR X86_EFLAGS_SF OR X86_EFLAGS_OF)
                    X86_EFLAGS_ZF s
         in map_option (\<lambda>p. set_v12 4 VMCS12_vm_instruction_error p (ucast vm_instruction_error) s1)
              (current_vmcs12 s1)))"

definition skip_insn :: "'x nested_lib \<Rightarrow> nested_vcpu \<Rightarrow> nested_vcpu" where
  "skip_insn L = on_vcpu (skip_emulated_instruction (nmsr L))"

text \<open>The common end of the handlers: failing, skipping the instruction and going back to the guest.\<close>

definition fail_and_skip :: "'x nested_lib \<Rightarrow> u32 \<Rightarrow> nested_vcpu \<Rightarrow> (int \<times> nested_vcpu) option" where
  "fail_and_skip L err s = map_option (\<lambda>s1. (1, skip_insn L s1)) (nested_vmx_failValid err s)"

definition invalid_and_skip :: "'x nested_lib \<Rightarrow> nested_vcpu \<Rightarrow> (int \<times> nested_vcpu) option" where
  "invalid_and_skip L s = Some (1, skip_insn L (nested_vmx_failInvalid s))"

definition succeed_and_skip :: "'x nested_lib \<Rightarrow> nested_vcpu \<Rightarrow> (int \<times> nested_vcpu) option" where
  "succeed_and_skip L s = Some (1, skip_insn L (nested_vmx_succeed s))"

definition skip_and_succeed :: "'x nested_lib \<Rightarrow> nested_vcpu \<Rightarrow> (int \<times> nested_vcpu) option" where
  "skip_and_succeed L s = Some (1, nested_vmx_succeed (skip_insn L s))"

definition fault :: "(vcpu \<Rightarrow> vcpu) \<Rightarrow> nested_vcpu \<Rightarrow> (int \<times> nested_vcpu) option" where
  "fault f s = Some (1, on_vcpu f s)"

subsection \<open>Prerequisites\<close>

text \<open>A compatibility-mode code segment in long mode is no place for a VMX instruction.\<close>

definition bad_code_segment :: "'x nested_lib \<Rightarrow> nested_vcpu \<Rightarrow> bool \<times> nested_vcpu" where
  "bad_code_segment L s =
     (case vmx_get_segment CS (nv s) of
        (cs, v) \<Rightarrow> (is_long_mode (nenv L) v \<and> seg_l cs = 0, s\<lparr>nv := v\<rparr>))"

definition in_vm86 :: "nested_vcpu \<Rightarrow> bool \<times> nested_vcpu" where
  "in_vm86 s = (case vmx_get_rflags (nv s) of (r, v) \<Rightarrow> (r AND X86_EFLAGS_VM \<noteq> 0, s\<lparr>nv := v\<rparr>))"

definition cpl_not_0 :: "'x nested_lib \<Rightarrow> nested_vcpu \<Rightarrow> bool \<times> nested_vcpu" where
  "cpl_not_0 L s = (case vmx_get_cpl (nenv L) (nv s) of (c, v) \<Rightarrow> (c \<noteq> 0, s\<lparr>nv := v\<rparr>))"

definition nested_vmx_check_permission :: "'x nested_lib \<Rightarrow> nested_vcpu \<Rightarrow> bool \<times> nested_vcpu" where
  "nested_vmx_check_permission L s =
     (if \<not> nested_vmxon (nv s) then (False, on_vcpu (kvm_queue_exception UD_VECTOR) s)
      else
        (case vmx_get_segment CS (nv s) of
           (cs, v1) \<Rightarrow>
             (case in_vm86 (s\<lparr>nv := v1\<rparr>) of
                (vm, s2) \<Rightarrow>
                  if vm \<or> is_long_mode (nenv L) (nv s2) \<and> seg_l cs = 0
                  then (False, on_vcpu (kvm_queue_exception UD_VECTOR) s2)
                  else (case cpl_not_0 L s2 of
                          (bad, s3) \<Rightarrow>
                            if bad then (False, on_vcpu (kvm_inject_gp 0) s3) else (True, s3)))))"

definition nested_vmx_check_vmcs12 :: "'x nested_lib \<Rightarrow> nested_vcpu \<Rightarrow> bool \<times> nested_vcpu" where
  "nested_vmx_check_vmcs12 L s =
     (if current_vmptr s = - 1 then (False, skip_insn L (nested_vmx_failInvalid s)) else (True, s))"

text \<open>The numbers of the segment registers.\<close>

definition sreg_of :: "nat \<Rightarrow> sreg" where
  "sreg_of n = [ES, CS, SS, DS, FS, GS, TR, LDTR] ! n"

definition field_of :: "nat \<Rightarrow> nat \<Rightarrow> u32 \<Rightarrow> nat" where
  "field_of at n w = unat (drop_bit at w AND mask n)"

definition add_reg :: "'x nested_lib \<Rightarrow> bool \<Rightarrow> nat \<Rightarrow> nat \<Rightarrow> u64 \<times> nested_vcpu \<Rightarrow> u64 \<times> nested_vcpu" where
  "add_reg L used r scaling a =
     (if used then (case reg_read L r (nv (snd a)) of (x, v) \<Rightarrow> (fst a + push_bit scaling x, (snd a)\<lparr>nv := v\<rparr>)) else a)"

definition get_vmx_mem_address ::
    "'x nested_lib \<Rightarrow> u64 \<Rightarrow> u32 \<Rightarrow> nested_vcpu \<Rightarrow> u64 option \<times> nested_vcpu" where
  "get_vmx_mem_address L exit_qualification vmx_instruction_info s =
     (let scaling = field_of 0 2 vmx_instruction_info;
          addr_size = field_of 7 3 vmx_instruction_info;
          is_reg = bit vmx_instruction_info 10;
          seg_reg = field_of 15 3 vmx_instruction_info;
          index_reg = field_of 18 4 vmx_instruction_info;
          index_is_valid = (\<not> bit vmx_instruction_info 22);
          base_reg = field_of 23 4 vmx_instruction_info;
          base_is_valid = (\<not> bit vmx_instruction_info 27)
      in if is_reg then (None, on_vcpu (kvm_queue_exception UD_VECTOR) s)
         else
           (case vmx_get_segment_base (sreg_of seg_reg) (nv s) of
              (b, v) \<Rightarrow>
                (case add_reg L index_is_valid index_reg scaling
                        (add_reg L base_is_valid base_reg 0 (b, s\<lparr>nv := v\<rparr>)) of
                   (a, s1) \<Rightarrow>
                     let ret = a + exit_qualification
                     in (Some (if addr_size = 1 then ret AND 0xFFFFFFFF else ret), s1))))"

text \<open>Reading the operand. A page that cannot be read is reported like a fault, but only a failing walk stores
  what it found in \<^verbatim>\<open>e\<close>.\<close>

definition read_operand ::
    "'x nested_lib \<Rightarrow> u64 \<Rightarrow> nat \<Rightarrow> nested_vcpu \<Rightarrow> u8 list option \<times> nested_vcpu" where
  "read_operand L gva n s =
     (case kvm_read_guest_virt (nlib L) (nmmu L (nv s)) (nmem s) gva n of
        (r, bs) \<Rightarrow>
          if r = X86EMUL_CONTINUE then (Some bs, s)
          else let (a, c) = (if r = X86EMUL_PROPAGATE_FAULT then virt_fault L (nv s) (nmem s) gva n
                             else stack_exception L)
               in (None, on_vcpu (kvm_inject_page_fault a c) s))"

definition operand_address :: "'x nested_lib \<Rightarrow> nested_vcpu \<Rightarrow> u64 option \<times> nested_vcpu" where
  "operand_address L s = get_vmx_mem_address L (vmcs_readl EXIT_QUALIFICATION (nv s)) (insn_info s) s"

subsection \<open>Entering and leaving VMX operation\<close>

definition shadow_off :: "nested_vcpu \<Rightarrow> nested_vcpu" where
  "shadow_off s = s\<lparr>sync_shadow_vmcs := False, secondary_ctl := secondary_ctl s AND NOT SECONDARY_EXEC_SHADOW_VMCS,
     vmcs_link := - 1\<rparr>"

text \<open>\<open>None\<close>: the shadow VMCS that is read back is null.\<close>

definition nested_release_vmcs12 :: "'x nested_lib \<Rightarrow> nested_vcpu \<Rightarrow> nested_vcpu option" where
  "nested_release_vmcs12 L s =
     map_option (\<lambda>s1. s1\<lparr>pinned := remove1 (current_vmcs12_page s1) (pinned s1)\<rparr>)
       (if enable_shadow_vmcs L then
          (case current_vmcs12 s of
             None \<Rightarrow> Some s
           | Some p \<Rightarrow>
               (case current_shadow_vmcs s of
                  None \<Rightarrow> None
                | Some sh \<Rightarrow> Some (shadow_off (s\<lparr>nmem := (nmem s)\<lparr>user_mem :=
                                copy_shadow_to_vmcs12 sh p (user_mem (nmem s))\<rparr>\<rparr>))))
        else Some s)"

definition drop_current :: "'x nested_lib \<Rightarrow> nested_vcpu \<Rightarrow> nested_vcpu option" where
  "drop_current L s =
     map_option (\<lambda>s1. s1\<lparr>current_vmptr := - 1, current_vmcs12 := None\<rparr>) (nested_release_vmcs12 L s)"

definition nested_free_all_saved_vmcss :: "nested_vcpu \<Rightarrow> nested_vcpu" where
  "nested_free_all_saved_vmcss s =
     s\<lparr>vmcs_freed := vmcs_freed s @ filter (\<lambda>i. loaded_vmcs s \<noteq> i) (map snd (vmcs02_pool s)) @
         (if loaded_vmcs s \<noteq> 0 then [0] else []),
       vmcs02_pool := [], vmcs02_num := 0\<rparr>"

definition free_nested :: "'x nested_lib \<Rightarrow> nested_vcpu \<Rightarrow> nested_vcpu option" where
  "free_nested L s =
     (if \<not> nested_vmxon (nv s) then Some s
      else
        (let s1 = on_vcpu (\<lambda>v. v\<lparr>nested_vmxon := False\<rparr>) s
         in map_option
              (\<lambda>s2. let s3 = (if enable_shadow_vmcs L then s2\<lparr>current_shadow_vmcs := None\<rparr> else s2);
                        s4 = (case n_apic_access_page s3 of
                                None \<Rightarrow> s3
                              | Some p \<Rightarrow> s3\<lparr>pinned := remove1 p (pinned s3), n_apic_access_page := None\<rparr>)
                    in nested_free_all_saved_vmcss s4)
              (if current_vmptr s1 \<noteq> - 1 then drop_current L s1 else Some s1)))"

definition VMXON_NEEDED_FEATURES :: u64 where "VMXON_NEEDED_FEATURES = 0x5"

definition handle_vmon :: "'x nested_lib \<Rightarrow> nested_vcpu \<Rightarrow> (int \<times> nested_vcpu) option" where
  "handle_vmon L s =
     (case kvm_read_cr4_bits (mx (nmsr L)) X86_CR4_VMXE (nv s) of
        (c4, v1) \<Rightarrow>
          (case (if c4 = 0 then (0, v1) else kvm_read_cr0_bits (nenv L) X86_CR0_PE v1) of
             (c0, v2) \<Rightarrow>
               (case (if c4 = 0 \<or> c0 = 0 then (False, s\<lparr>nv := v2\<rparr>) else in_vm86 (s\<lparr>nv := v2\<rparr>)) of
                  (vm, s3) \<Rightarrow>
                    if c4 = 0 \<or> c0 = 0 \<or> vm then fault (kvm_queue_exception UD_VECTOR) s3
                    else (case bad_code_segment L s3 of
                            (bad, s4) \<Rightarrow>
                              if bad then fault (kvm_queue_exception UD_VECTOR) s4
                              else (case cpl_not_0 L s4 of
                                      (user, s5) \<Rightarrow>
                                        if user then fault (kvm_inject_gp 0) s5
                                        else if nested_vmxon (nv s5)
                                        then fail_and_skip L VMXERR_VMXON_IN_VMX_ROOT_OPERATION s5
                                        else if n_feature_control s5 AND VMXON_NEEDED_FEATURES \<noteq> VMXON_NEEDED_FEATURES
                                        then fault (kvm_inject_gp 0) s5
                                        else if enable_shadow_vmcs L \<and> \<not> shadow_alloc_ok L then Some (- 12, s5)
                                        else
                                          (let s6 = (if enable_shadow_vmcs L
                                                     then s5\<lparr>current_shadow_vmcs := Some (\<lambda>_. 0)\<rparr> else s5)
                                           in skip_and_succeed L (on_vcpu (\<lambda>v. v\<lparr>nested_vmxon := True\<rparr>)
                                                (s6\<lparr>vmcs02_pool := [], vmcs02_num := 0\<rparr>))))))))"

text \<open>The early returns that the instructions share.\<close>

definition if_permitted ::
    "'x nested_lib \<Rightarrow> nested_vcpu \<Rightarrow> (nested_vcpu \<Rightarrow> (int \<times> nested_vcpu) option) \<Rightarrow> (int \<times> nested_vcpu) option" where
  "if_permitted L s f =
     (case nested_vmx_check_permission L s of (ok, s1) \<Rightarrow> if ok then f s1 else Some (1, s1))"

definition if_current ::
    "'x nested_lib \<Rightarrow> nested_vcpu \<Rightarrow> (nested_vcpu \<Rightarrow> (int \<times> nested_vcpu) option) \<Rightarrow> (int \<times> nested_vcpu) option" where
  "if_current L s f =
     (case nested_vmx_check_vmcs12 L s of (ok, s1) \<Rightarrow> if ok then f s1 else Some (1, s1))"

definition if_address ::
    "'x nested_lib \<Rightarrow> nested_vcpu \<Rightarrow> (u64 \<Rightarrow> nested_vcpu \<Rightarrow> (int \<times> nested_vcpu) option) \<Rightarrow> (int \<times> nested_vcpu) option" where
  "if_address L s f =
     (case operand_address L s of (None, s1) \<Rightarrow> Some (1, s1) | (Some gva, s1) \<Rightarrow> f gva s1)"

definition if_operand ::
    "'x nested_lib \<Rightarrow> u64 \<Rightarrow> nat \<Rightarrow> nested_vcpu \<Rightarrow> (u8 list \<Rightarrow> nested_vcpu \<Rightarrow> (int \<times> nested_vcpu) option) \<Rightarrow>
      (int \<times> nested_vcpu) option" where
  "if_operand L gva n s f =
     (case read_operand L gva n s of (None, s1) \<Rightarrow> Some (1, s1) | (Some bs, s1) \<Rightarrow> f bs s1)"

definition handle_vmoff :: "'x nested_lib \<Rightarrow> nested_vcpu \<Rightarrow> (int \<times> nested_vcpu) option" where
  "handle_vmoff L s =
     if_permitted L s (\<lambda>s1. case free_nested L s1 of None \<Rightarrow> None | Some s2 \<Rightarrow> skip_and_succeed L s2)"

subsection \<open>The pool of hardware VMCSs\<close>

definition VMCS02_POOL_SIZE :: nat where "VMCS02_POOL_SIZE = 1"

definition nested_free_vmcs02 :: "u64 \<Rightarrow> nested_vcpu \<Rightarrow> nested_vcpu" where
  "nested_free_vmcs02 vmptr s =
     (case find (\<lambda>it. fst it = vmptr) (vmcs02_pool s) of
        None \<Rightarrow> s
      | Some it \<Rightarrow> s\<lparr>vmcs_freed := vmcs_freed s @ [snd it], vmcs02_pool := remove1 it (vmcs02_pool s),
                      vmcs02_num := vmcs02_num s - 1\<rparr>)"

definition nested_get_current_vmcs02 :: "'x nested_lib \<Rightarrow> nested_vcpu \<Rightarrow> nat option \<times> nested_vcpu" where
  "nested_get_current_vmcs02 L s =
     (case find (\<lambda>it. fst it = current_vmptr s) (vmcs02_pool s) of
        Some it \<Rightarrow> (Some (snd it), s\<lparr>vmcs02_pool := it # remove1 it (vmcs02_pool s)\<rparr>)
      | None \<Rightarrow>
          if max VMCS02_POOL_SIZE 1 \<le> vmcs02_num s then
            (let it = last (vmcs02_pool s)
             in (Some (snd it), s\<lparr>vmcs02_pool := (current_vmptr s, snd it) # butlast (vmcs02_pool s)\<rparr>))
          else
            (case alloc_vmcs L (0 # map snd (vmcs02_pool s)) of
               None \<Rightarrow> (None, s)
             | Some i \<Rightarrow> (Some i, s\<lparr>vmcs02_pool := (current_vmptr s, i) # vmcs02_pool s,
                                    vmcs02_num := vmcs02_num s + 1\<rparr>)))"

subsection \<open>The current VMCS\<close>

definition aligned :: "u64 \<Rightarrow> bool" where "aligned a = (a AND 0xFFF = 0)"

definition handle_vmclear :: "'x nested_lib \<Rightarrow> nested_vcpu \<Rightarrow> (int \<times> nested_vcpu) option" where
  "handle_vmclear L s =
     if_permitted L s (\<lambda>s. if_address L s (\<lambda>gva s. if_operand L gva 8 s (\<lambda>bs s.
       let vmptr = bytes_word bs
       in if \<not> aligned vmptr then fail_and_skip L VMXERR_VMCLEAR_INVALID_ADDRESS s
          else case (if vmptr = current_vmptr s then drop_current L s else Some s) of
                 None \<Rightarrow> None
               | Some s1 \<Rightarrow>
                   (case nested_get_page L s1 vmptr of
                      None \<Rightarrow> fault (kvm_make_request REQ_TRIPLE_FAULT) s1
                    | Some p \<Rightarrow> skip_and_succeed L
                        (nested_free_vmcs02 vmptr (set_v12 4 VMCS12_launch_state p 0 s1))))))"

definition install_current :: "'x nested_lib \<Rightarrow> u64 \<Rightarrow> u64 \<Rightarrow> nested_vcpu \<Rightarrow> nested_vcpu" where
  "install_current L vmptr p s =
     (let s1 = s\<lparr>current_vmptr := vmptr, current_vmcs12 := Some p, current_vmcs12_page := p\<rparr>
      in if enable_shadow_vmcs L
         then s1\<lparr>secondary_ctl := secondary_ctl s1 OR SECONDARY_EXEC_SHADOW_VMCS, vmcs_link := shadow_pa L,
                 sync_shadow_vmcs := True\<rparr>
         else s1)"

definition handle_vmptrld :: "'x nested_lib \<Rightarrow> nested_vcpu \<Rightarrow> (int \<times> nested_vcpu) option" where
  "handle_vmptrld L s =
     if_permitted L s (\<lambda>s. if_address L s (\<lambda>gva s. if_operand L gva 8 s (\<lambda>bs s.
       let vmptr = bytes_word bs
       in if \<not> aligned vmptr then fail_and_skip L VMXERR_VMPTRLD_INVALID_ADDRESS s
          else if current_vmptr s = vmptr then succeed_and_skip L s
          else case nested_get_page L s vmptr of
                 None \<Rightarrow> invalid_and_skip L s
               | Some p \<Rightarrow>
                   if v12 4 VMCS12_revision_id p s \<noteq> VMCS12_REVISION
                   then fail_and_skip L VMXERR_VMPTRLD_INCORRECT_VMCS_REVISION_ID s
                   else
                     (let s1 = s\<lparr>pinned := p # pinned s\<rparr>
                      in case (if current_vmptr s1 \<noteq> - 1 then nested_release_vmcs12 L s1 else Some s1) of
                           None \<Rightarrow> None
                         | Some s2 \<Rightarrow> succeed_and_skip L (install_current L vmptr p s2)))))"

definition write_system :: "'x nested_lib \<Rightarrow> u64 \<Rightarrow> u8 list \<Rightarrow> nested_vcpu \<Rightarrow> emul_result \<times> nested_vcpu" where
  "write_system L gva bs s =
     (case kvm_write_guest_virt_system (nlib L) (nmmu L (nv s)) gva bs (nmem s) of (r, m) \<Rightarrow> (r, s\<lparr>nmem := m\<rparr>))"

definition handle_vmptrst :: "'x nested_lib \<Rightarrow> nested_vcpu \<Rightarrow> (int \<times> nested_vcpu) option" where
  "handle_vmptrst L s =
     if_permitted L s (\<lambda>s. if_address L s (\<lambda>gva s.
       case write_system L gva (word_bytes 8 (current_vmptr s)) s of
         (r, s1) \<Rightarrow>
           if r = X86EMUL_CONTINUE then succeed_and_skip L s1
           else let (a, c) = (if r = X86EMUL_PROPAGATE_FAULT then virt_fault L (nv s1) (nmem s1) gva 8
                              else stack_exception L)
                in fault (kvm_inject_page_fault a c) s1))"

subsection \<open>Reading and writing fields\<close>

definition read_reg :: "'x nested_lib \<Rightarrow> nat \<Rightarrow> nested_vcpu \<Rightarrow> u64 \<times> nested_vcpu" where
  "read_reg L r s = (case reg_read L r (nv s) of (x, v) \<Rightarrow> (x, s\<lparr>nv := v\<rparr>))"

definition operand_size :: "'x nested_lib \<Rightarrow> nested_vcpu \<Rightarrow> nat" where
  "operand_size L s = (if is_long_mode (nenv L) (nv s) then 8 else 4)"

text \<open>The destination in memory is written without looking at the result.\<close>

definition handle_vmread :: "'x nested_lib \<Rightarrow> nested_vcpu \<Rightarrow> (int \<times> nested_vcpu) option" where
  "handle_vmread L s =
     (let info = insn_info s
      in if_permitted L s (\<lambda>s. if_current L s (\<lambda>s.
           case read_reg L (field_of 28 4 info) s of
             (field, s) \<Rightarrow>
               (case current_vmcs12 s of
                  None \<Rightarrow> None
                | Some p \<Rightarrow>
                    (case vmcs12_read_any p field (user_mem (nmem s)) of
                       None \<Rightarrow> fail_and_skip L VMXERR_UNSUPPORTED_VMCS_COMPONENT s
                     | Some x \<Rightarrow>
                         if bit info 10
                         then succeed_and_skip L (on_vcpu (reg_write L (field_of 3 4 info) x) s)
                         else if_address L s (\<lambda>gva s.
                                succeed_and_skip L (snd (write_system L gva (word_bytes (operand_size L s) x) s))))))))"

definition vmwrite_value ::
    "'x nested_lib \<Rightarrow> u32 \<Rightarrow> nested_vcpu \<Rightarrow> (u64 \<Rightarrow> nested_vcpu \<Rightarrow> (int \<times> nested_vcpu) option) \<Rightarrow>
      (int \<times> nested_vcpu) option" where
  "vmwrite_value L info s f =
     (if bit info 10 then (case read_reg L (field_of 3 4 info) s of (x, s) \<Rightarrow> f x s)
      else if_address L s (\<lambda>gva s. if_operand L gva (operand_size L s) s (\<lambda>bs s. f (bytes_word bs) s)))"

definition handle_vmwrite :: "'x nested_lib \<Rightarrow> nested_vcpu \<Rightarrow> (int \<times> nested_vcpu) option" where
  "handle_vmwrite L s =
     (let info = insn_info s
      in if_permitted L s (\<lambda>s. if_current L s (\<lambda>s. vmwrite_value L info s (\<lambda>x s.
           case read_reg L (field_of 28 4 info) s of
             (field, s) \<Rightarrow>
               if vmcs_field_readonly field then fail_and_skip L VMXERR_VMWRITE_READ_ONLY_VMCS_COMPONENT s
               else
                 (case current_vmcs12 s of
                    None \<Rightarrow> None
                  | Some p \<Rightarrow>
                      (case vmcs12_write_any p field x (user_mem (nmem s)) of
                         (False, _) \<Rightarrow> fail_and_skip L VMXERR_UNSUPPORTED_VMCS_COMPONENT s
                       | (True, u) \<Rightarrow> succeed_and_skip L (s\<lparr>nmem := (nmem s)\<lparr>user_mem := u\<rparr>\<rparr>)))))))"

subsection \<open>Invalidating translations\<close>

text \<open>The shift of a 64-bit value by a register uses the low six bits of the count on the processor. \<open>None\<close> is
  \<^verbatim>\<open>BUG_ON\<close>, or a context that is compared with the current VMCS when there is none.\<close>

definition nested_ept_get_cr3 :: "nested_vcpu \<Rightarrow> u64 option" where
  "nested_ept_get_cr3 s = map_option (\<lambda>p. v12 8 VMCS12_ept_pointer p s) (current_vmcs12 s)"

definition flush_nested :: "'x nested_lib \<Rightarrow> nested_vcpu \<Rightarrow> (int \<times> nested_vcpu) option" where
  "flush_nested L s =
     succeed_and_skip L (on_vcpu (\<lambda>v. kvm_mmu_flush_tlb (mx (nmsr L)) (kvm_mmu_sync_roots (mx (nmsr L)) v)) s)"

definition handle_invept :: "'x nested_lib \<Rightarrow> nested_vcpu \<Rightarrow> (int \<times> nested_vcpu) option" where
  "handle_invept L s =
     (let N = nctls (nmsr L); eptp_mask = (push_bit 51 1 - 1) AND NOT 0xFFF :: u64
      in if secondary_high N AND SECONDARY_EXEC_ENABLE_EPT = 0 \<or> nested_ept_caps N AND VMX_EPT_INVEPT_BIT = 0
         then fault (kvm_queue_exception UD_VECTOR) s
         else if_permitted L s (\<lambda>s.
           case kvm_read_cr0_bits (nenv L) X86_CR0_PE (nv s) of
             (pe, v) \<Rightarrow>
               if pe = 0 then fault (kvm_queue_exception UD_VECTOR) (s\<lparr>nv := v\<rparr>)
               else
                 (case read_reg L (field_of 28 4 (insn_info s)) (s\<lparr>nv := v\<rparr>) of
                    (type, s) \<Rightarrow>
                      let types = drop_bit 24 (nested_ept_caps N) AND 6
                      in if \<not> bit types (unat type mod 64)
                         then fail_and_skip L VMXERR_INVALID_OPERAND_TO_INVEPT_INVVPID s
                         else if_address L s (\<lambda>gva s. if_operand L gva 16 s (\<lambda>bs s.
                           if type = 1 then
                             (case nested_ept_get_cr3 s of
                                None \<Rightarrow> None
                              | Some cr3 \<Rightarrow>
                                  if bytes_word (take 8 bs) AND eptp_mask \<noteq> cr3 AND eptp_mask
                                  then Some (1, skip_insn L s) else flush_nested L s)
                           else if type = 2 then flush_nested L s
                           else None)))))"

definition handle_invvpid :: "nested_vcpu \<Rightarrow> (int \<times> nested_vcpu) option" where
  "handle_invvpid s = fault (kvm_queue_exception UD_VECTOR) s"

subsection \<open>Entering a nested guest\<close>

text \<open>The two kinds of failure: the instruction fails with a number, or it seems to succeed and the guest exits
  at once with a reason and a qualification.\<close>

datatype entry_check = Entry_ok | Insn_fails u32 | Entry_fails u32 u64

definition EXIT_REASON_INVALID_STATE :: u32 where "EXIT_REASON_INVALID_STATE = 33"
definition ENTRY_FAIL_DEFAULT :: u64 where "ENTRY_FAIL_DEFAULT = 0"
definition ENTRY_FAIL_VMCS_LINK_PTR :: u64 where "ENTRY_FAIL_VMCS_LINK_PTR = 4"

definition v12_32 :: "nat \<Rightarrow> u64 \<Rightarrow> nested_vcpu \<Rightarrow> u32" where "v12_32 off p s = ucast (v12 4 off p s)"
definition v12_64 :: "nat \<Rightarrow> u64 \<Rightarrow> nested_vcpu \<Rightarrow> u64" where "v12_64 off p s = v12 8 off p s"

definition nested_cpu_has :: "u64 \<Rightarrow> u32 \<Rightarrow> nested_vcpu \<Rightarrow> bool" where
  "nested_cpu_has p b s = (v12_32 VMCS12_cpu_based_vm_exec_control p s AND b \<noteq> 0)"

definition nested_cpu_has2 :: "u64 \<Rightarrow> u32 \<Rightarrow> nested_vcpu \<Rightarrow> bool" where
  "nested_cpu_has2 p b s =
     (v12_32 VMCS12_cpu_based_vm_exec_control p s AND CPU_BASED_ACTIVATE_SECONDARY_CONTROLS \<noteq> 0 \<and>
      v12_32 VMCS12_secondary_vm_exec_control p s AND b \<noteq> 0)"

definition nested_cr0_valid :: "'x nested_lib \<Rightarrow> u64 \<Rightarrow> u64 \<Rightarrow> nested_vcpu \<Rightarrow> bool" where
  "nested_cr0_valid L p val s =
     (let always_on = (if secondary_high (nctls (nmsr L)) AND SECONDARY_EXEC_UNRESTRICTED_GUEST \<noteq> 0 \<and>
                          nested_cpu_has2 p SECONDARY_EXEC_UNRESTRICTED_GUEST s
                       then VMXON_CR0_ALWAYSON AND NOT (X86_CR0_PE OR X86_CR0_PG) else VMXON_CR0_ALWAYSON)
      in val AND always_on = always_on)"

definition controls_verified :: "'x nested_lib \<Rightarrow> u64 \<Rightarrow> nested_vcpu \<Rightarrow> bool" where
  "controls_verified L p s =
     (let N = nctls (nmsr L)
      in vmx_control_verify (v12_32 VMCS12_cpu_based_vm_exec_control p s) (procbased_low N) (procbased_high N) \<and>
         vmx_control_verify (v12_32 VMCS12_secondary_vm_exec_control p s) (secondary_low N) (secondary_high N) \<and>
         vmx_control_verify (v12_32 VMCS12_pin_based_vm_exec_control p s) (pinbased_low N) (pinbased_high N) \<and>
         vmx_control_verify (v12_32 VMCS12_vm_exit_controls p s) (exit_low N) (exit_high N) \<and>
         vmx_control_verify (v12_32 VMCS12_vm_entry_controls p s) (entry_low N) (entry_high N))"

definition guest_efer_bad :: "'x nested_lib \<Rightarrow> u64 \<Rightarrow> nested_vcpu \<Rightarrow> bool" where
  "guest_efer_bad L p s =
     (let ctl = v12_32 VMCS12_vm_entry_controls p s; efer = v12_64 VMCS12_guest_ia32_efer p s;
          ia32e = (ctl AND VM_ENTRY_IA32E_MODE \<noteq> 0)
      in ctl AND VM_ENTRY_LOAD_IA32_EFER \<noteq> 0 \<and>
         (\<not> kvm_valid_efer (mx (nmsr L)) efer (nv s) \<or> ia32e \<noteq> (efer AND EFER_LMA \<noteq> 0) \<or>
          v12_64 VMCS12_guest_cr0 p s AND X86_CR0_PG \<noteq> 0 \<and> ia32e \<noteq> (efer AND EFER_LME \<noteq> 0)))"

definition host_efer_bad :: "'x nested_lib \<Rightarrow> u64 \<Rightarrow> nested_vcpu \<Rightarrow> bool" where
  "host_efer_bad L p s =
     (let ctl = v12_32 VMCS12_vm_exit_controls p s; efer = v12_64 VMCS12_host_ia32_efer p s;
          ia32e = (ctl AND VM_EXIT_HOST_ADDR_SPACE_SIZE \<noteq> 0)
      in ctl AND VM_EXIT_LOAD_IA32_EFER \<noteq> 0 \<and>
         (\<not> kvm_valid_efer (mx (nmsr L)) efer (nv s) \<or> ia32e \<noteq> (efer AND EFER_LMA \<noteq> 0) \<or>
          ia32e \<noteq> (efer AND EFER_LME \<noteq> 0)))"

definition nested_run_checks :: "'x nested_lib \<Rightarrow> bool \<Rightarrow> u64 \<Rightarrow> nested_vcpu \<Rightarrow> entry_check" where
  "nested_run_checks L launch p s =
     (let control = Insn_fails VMXERR_ENTRY_INVALID_CONTROL_FIELD;
          invalid = Entry_fails EXIT_REASON_INVALID_STATE ENTRY_FAIL_DEFAULT;
          on = (\<lambda>x m. x AND m = (m :: u64))
      in if v12_32 VMCS12_launch_state p s = (if launch then 1 else 0)
         then Insn_fails (if launch then VMXERR_VMLAUNCH_NONCLEAR_VMCS else VMXERR_VMRESUME_NONLAUNCHED_VMCS)
         else if v12_32 VMCS12_guest_activity_state p s \<noteq> 0 then control
         else if nested_cpu_has p CPU_BASED_USE_MSR_BITMAPS s \<and> \<not> aligned (v12_64 VMCS12_msr_bitmap p s) then control
         else if nested_cpu_has2 p SECONDARY_EXEC_VIRTUALIZE_APIC_ACCESSES s \<and>
                 \<not> aligned (v12_64 VMCS12_apic_access_addr p s) then control
         else if v12_32 VMCS12_vm_entry_msr_load_count p s > 0 \<or> v12_32 VMCS12_vm_exit_msr_load_count p s > 0 \<or>
                 v12_32 VMCS12_vm_exit_msr_store_count p s > 0 then control
         else if \<not> controls_verified L p s then control
         else if \<not> on (v12_64 VMCS12_host_cr0 p s) VMXON_CR0_ALWAYSON \<or> \<not> on (v12_64 VMCS12_host_cr4 p s) VMXON_CR4_ALWAYSON
         then Insn_fails VMXERR_ENTRY_INVALID_HOST_STATE_FIELD
         else if \<not> nested_cr0_valid L p (v12_64 VMCS12_guest_cr0 p s) s \<or>
                 \<not> on (v12_64 VMCS12_guest_cr4 p s) VMXON_CR4_ALWAYSON then invalid
         else if v12_64 VMCS12_vmcs_link_pointer p s \<noteq> - 1
         then Entry_fails EXIT_REASON_INVALID_STATE ENTRY_FAIL_VMCS_LINK_PTR
         else if guest_efer_bad L p s then invalid
         else if host_efer_bad L p s then invalid
         else Entry_ok)"

text \<open>What \<^verbatim>\<open>nested_vmx_run\<close> does before the new VMCS is filled: it returns, the failed entry is reflected to
  the hypervisor with a reason and a qualification, or the guest is entered.\<close>

datatype run_result = Returned int nested_vcpu | Entry_failure u32 u64 nested_vcpu | Entering nested_vcpu

definition nested_enter :: "'x nested_lib \<Rightarrow> u64 \<Rightarrow> nested_vcpu \<Rightarrow> run_result" where
  "nested_enter L p s =
     (case nested_get_current_vmcs02 L s of
        (None, s1) \<Rightarrow> Returned (- 12) s1
      | (Some i, s1) \<Rightarrow>
          (let s2 = on_vcpu (\<lambda>v. v\<lparr>in_guest_mode := True, nested_run_pending := True\<rparr>) s1;
               s3 = s2\<lparr>n_vmcs01_tsc_offset := vmcs_read64 TSC_OFFSET (nv s2), loaded_vmcs := i\<rparr>
           in Entering (set_v12 4 VMCS12_launch_state p 1 (on_vcpu vmx_segment_cache_clear s3))))"

definition nested_vmx_run :: "'x nested_lib \<Rightarrow> bool \<Rightarrow> nested_vcpu \<Rightarrow> run_result option" where
  "nested_vmx_run L launch s0 =
     (case nested_vmx_check_permission L s0 of
        (False, s) \<Rightarrow> Some (Returned 1 s)
      | (True, s1) \<Rightarrow>
          (case nested_vmx_check_vmcs12 L s1 of
             (False, s) \<Rightarrow> Some (Returned 1 s)
           | (True, s2) \<Rightarrow>
               (let s3 = skip_insn L s2
                in case current_vmcs12 s3 of
                     None \<Rightarrow> None
                   | Some p \<Rightarrow>
                       (case (if enable_shadow_vmcs L
                              then map_option (\<lambda>sh. s3\<lparr>nmem := (nmem s3)\<lparr>user_mem :=
                                       copy_shadow_to_vmcs12 sh p (user_mem (nmem s3))\<rparr>\<rparr>) (current_shadow_vmcs s3)
                              else Some s3) of
                          None \<Rightarrow> None
                        | Some s4 \<Rightarrow>
                            (case nested_run_checks L launch p s4 of
                               Insn_fails e \<Rightarrow> map_option (Returned 1) (nested_vmx_failValid e s4)
                             | Entry_fails r q \<Rightarrow> Some (Entry_failure r q s4)
                             | Entry_ok \<Rightarrow> Some (nested_enter L p s4))))))"

end
