(* ===== verification/Nested_Props.thy ===== *)
theory Nested_Props
  imports Nested_Vmx "HOL-Library.Multiset"
begin

text \<open>
  The nested VMX state is consistent whatever the nested hypervisor executes. \<open>same_vmx\<close> relates states that
  differ only where a VMX instruction may read its operands, report its result and fault; a rule for each early
  return of the handlers then carries the invariant \<open>nested_wf\<close> through them.
\<close>

named_theorems vmxon_keeps \<open>operations of the vCPU that do not enter or leave VMX operation\<close>

subsection \<open>What keeps VMX operation\<close>

definition keeps :: "(vcpu \<Rightarrow> 'a \<times> vcpu) \<Rightarrow> bool" where
  "keeps f \<longleftrightarrow> (\<forall>v. nested_vmxon (snd (f v)) = nested_vmxon v)"

definition keeps_vmxon :: "'x nested_lib \<Rightarrow> bool" where
  "keeps_vmxon L \<longleftrightarrow>
     (\<forall>b. keeps (kvm_read_cr0_bits (nenv L) b)) \<and> (\<forall>b. keeps (kvm_read_cr4_bits (mx (nmsr L)) b)) \<and>
     (\<forall>r. keeps (reg_read L r)) \<and> (\<forall>r x v. nested_vmxon (reg_write L r x v) = nested_vmxon v) \<and>
     keeps (rip_read (nmsr L)) \<and> (\<forall>r v. nested_vmxon (rip_write (nmsr L) r v) = nested_vmxon v) \<and>
     (\<forall>v. nested_vmxon (kvm_mmu_sync_roots (mx (nmsr L)) v) = nested_vmxon v) \<and>
     (\<forall>v. nested_vmxon (kvm_mmu_flush_tlb (mx (nmsr L)) v) = nested_vmxon v)"

lemma vmcs_keeps [vmxon_keeps]: "nested_vmxon (vmcs_writel f x v) = nested_vmxon v"
  "nested_vmxon (vmcs_write32 f y v) = nested_vmxon v"
  by (simp_all add: vmcs_ops)

lemma exception_keeps [vmxon_keeps]:
  "nested_vmxon (kvm_queue_exception n v) = nested_vmxon v"
  "nested_vmxon (kvm_queue_exception_e n e v) = nested_vmxon v"
  "nested_vmxon (kvm_inject_gp e v) = nested_vmxon v"
  "nested_vmxon (kvm_inject_page_fault a e v) = nested_vmxon v"
  "nested_vmxon (kvm_make_request r v) = nested_vmxon v"
proof -
  have m: "nested_vmxon (kvm_multiple_exception n b e r v) = nested_vmxon v" for n b e r v
    by (simp add: kvm_multiple_exception_def kvm_make_request_def queue_exc_def Let_def)
  show "nested_vmxon (kvm_queue_exception n v) = nested_vmxon v"
    "nested_vmxon (kvm_queue_exception_e n e v) = nested_vmxon v"
    "nested_vmxon (kvm_inject_gp e v) = nested_vmxon v"
    "nested_vmxon (kvm_inject_page_fault a e v) = nested_vmxon v"
    "nested_vmxon (kvm_make_request r v) = nested_vmxon v"
    by (simp_all add: kvm_queue_exception_def kvm_queue_exception_e_def kvm_inject_gp_def kvm_inject_page_fault_def m
        kvm_make_request_def)
qed

lemma guest_seg_keeps [vmxon_keeps]:
  "nested_vmxon (snd (vmx_read_guest_seg_selector g v)) = nested_vmxon v"
  "nested_vmxon (snd (vmx_read_guest_seg_base g v)) = nested_vmxon v"
  "nested_vmxon (snd (vmx_read_guest_seg_limit g v)) = nested_vmxon v"
  "nested_vmxon (snd (vmx_read_guest_seg_ar g v)) = nested_vmxon v"
  by (simp_all add: vmx_read_guest_seg_selector_def vmx_read_guest_seg_base_def vmx_read_guest_seg_limit_def
      vmx_read_guest_seg_ar_def vmx_segment_cache_test_set_def Let_def split: prod.split)

lemma segment_keeps [vmxon_keeps]:
  "nested_vmxon (snd (vmx_get_segment g v)) = nested_vmxon v"
  "nested_vmxon (snd (vmx_get_segment_base g v)) = nested_vmxon v"
proof -
  show s: "nested_vmxon (snd (vmx_get_segment g v)) = nested_vmxon v" for v
    by (simp add: vmx_get_segment_def Let_def case_prod_unfold vmxon_keeps)
  show "nested_vmxon (snd (vmx_get_segment_base g v)) = nested_vmxon v"
    by (simp add: vmx_get_segment_base_def case_prod_unfold s vmxon_keeps)
qed

lemma flags_keeps [vmxon_keeps]:
  "nested_vmxon (snd (vmx_get_rflags v)) = nested_vmxon v"
  "nested_vmxon (vmx_set_rflags r v) = nested_vmxon v"
  by (simp_all add: vmx_get_rflags_def vmx_set_rflags_def Let_def vmcs_ops)

lemma cpl_keeps [vmxon_keeps]: "nested_vmxon (snd (vmx_get_cpl E v)) = nested_vmxon v"
  by (simp add: vmx_get_cpl_def Let_def case_prod_unfold vmxon_keeps)

lemma skip_keeps: "keeps_vmxon L \<Longrightarrow> nested_vmxon (skip_emulated_instruction (nmsr L) v) = nested_vmxon v"
  by (simp add: skip_emulated_instruction_def case_prod_unfold keeps_vmxon_def keeps_def vmx_set_interrupt_shadow_def
      Let_def vmcs_ops)

subsection \<open>States that differ only in what an instruction touches\<close>

definition same_vmx :: "nested_vcpu \<Rightarrow> nested_vcpu \<Rightarrow> bool" where
  "same_vmx s s' \<longleftrightarrow> (\<exists>v m. s' = s\<lparr>nv := v, nmem := m\<rparr> \<and> nested_vmxon v = nested_vmxon (nv s))"

lemma same_vmxI: "nested_vmxon v = nested_vmxon (nv s) \<Longrightarrow> same_vmx s (s\<lparr>nv := v, nmem := m\<rparr>)"
  unfolding same_vmx_def by blast

lemma same_vmxE:
  assumes "same_vmx s s'" obtains v m where "s' = s\<lparr>nv := v, nmem := m\<rparr>" "nested_vmxon v = nested_vmxon (nv s)"
  using assms unfolding same_vmx_def by blast

lemma same_vmx_refl [simp, intro]: "same_vmx s s"
  using same_vmxI[of "nv s" s "nmem s"] by simp

lemma same_vmx_trans [trans]: "same_vmx s t \<Longrightarrow> same_vmx t u \<Longrightarrow> same_vmx s u"
  by (elim same_vmxE) (simp add: same_vmxI)

lemma same_vmx_upd:
  "nested_vmxon v = nested_vmxon (nv s) \<Longrightarrow> same_vmx s (s\<lparr>nv := v\<rparr>)"
  "same_vmx s (s\<lparr>nmem := m\<rparr>)"
  "(\<And>v. nested_vmxon (f v) = nested_vmxon v) \<Longrightarrow> same_vmx s (on_vcpu f s)"
  "same_vmx s (set_v12 n off p x s)"
  using same_vmxI[of v s "nmem s"] same_vmxI[of "nv s" s m] same_vmxI[of "f (nv s)" s "nmem s"]
    same_vmxI[of "nv s" s "(nmem s)\<lparr>user_mem := v12_put n p off x (user_mem (nmem s))\<rparr>"]
  by (simp_all add: on_vcpu_def set_v12_def)

lemma same_fields:
  assumes "same_vmx s s'"
  shows "current_vmptr s' = current_vmptr s" "current_vmcs12 s' = current_vmcs12 s" "nested_vmxon (nv s') = nested_vmxon (nv s)"
    "insn_info s' = insn_info s" "current_shadow_vmcs s' = current_shadow_vmcs s"
  using assms by (auto elim!: same_vmxE)

text \<open>The invariant. A current VMCS has one pinned page and an address in use; nothing else is pinned but the APIC
  access page. Outside VMX operation there is none, and the pool of hardware VMCSs is empty.\<close>

definition held_pages :: "nested_vcpu \<Rightarrow> u64 multiset" where
  "held_pages s = (case current_vmcs12 s of None \<Rightarrow> {#} | Some p \<Rightarrow> {#p#}) +
     (case n_apic_access_page s of None \<Rightarrow> {#} | Some p \<Rightarrow> {#p#})"

definition nested_wf :: "'x nested_lib \<Rightarrow> nested_vcpu \<Rightarrow> bool" where
  "nested_wf L s \<longleftrightarrow>
     (current_vmptr s = - 1 \<longleftrightarrow> current_vmcs12 s = None) \<and>
     (\<forall>p. current_vmcs12 s = Some p \<longrightarrow> current_vmcs12_page s = p) \<and>
     mset (pinned s) = held_pages s \<and>
     (nested_vmxon (nv s) \<longrightarrow> enable_shadow_vmcs L \<longrightarrow> current_shadow_vmcs s \<noteq> None) \<and>
     (\<not> nested_vmxon (nv s) \<longrightarrow> current_vmcs12 s = None \<and> n_apic_access_page s = None \<and> vmcs02_pool s = []) \<and>
     vmcs02_num s = length (vmcs02_pool s) \<and> vmcs02_num s \<le> max VMCS02_POOL_SIZE 1 \<and>
     distinct (map fst (vmcs02_pool s))"

lemma wf_same: "nested_wf L s \<Longrightarrow> same_vmx s s' \<Longrightarrow> nested_wf L s'"
  by (elim same_vmxE) (simp add: nested_wf_def held_pages_def)

subsection \<open>The parts of the handlers\<close>

lemma update_flags_same: "same_vmx s (update_flags c r s)"
  unfolding update_flags_def by (rule same_vmx_upd) (simp add: case_prod_unfold vmxon_keeps)

lemma report_same: "same_vmx s (nested_vmx_succeed s)" "same_vmx s (nested_vmx_failInvalid s)"
  by (simp_all add: nested_vmx_succeed_def nested_vmx_failInvalid_def update_flags_same)

lemma fail_same:
  assumes "nested_wf L s"
  obtains s' where "nested_vmx_failValid e s = Some s'" "same_vmx s s'"
proof (cases "current_vmptr s = - 1")
  case True
  then show thesis using that report_same(2) by (simp add: nested_vmx_failValid_def)
next
  case False
  then obtain p where p: "current_vmcs12 s = Some p" using assms by (auto simp: nested_wf_def)
  have "current_vmcs12 (update_flags c r s) = Some p" for c r using same_fields(2)[OF update_flags_same] p by simp
  then show thesis
    using False that same_vmx_trans[OF update_flags_same same_vmx_upd(4)] by (simp add: nested_vmx_failValid_def Let_def)
qed

lemma skip_same: "keeps_vmxon L \<Longrightarrow> same_vmx s (skip_insn L s)"
  unfolding skip_insn_def by (rule same_vmx_upd) (rule skip_keeps)

text \<open>A handler returns, in a state that is well formed.\<close>

definition returns :: "'x nested_lib \<Rightarrow> (int \<times> nested_vcpu) option \<Rightarrow> bool" where
  "returns L r \<longleftrightarrow> (\<exists>k s'. r = Some (k, s') \<and> nested_wf L s')"

lemma returns_Some: "nested_wf L s \<Longrightarrow> returns L (Some (k, s))" by (simp add: returns_def)

lemma returns_same: "nested_wf L s \<Longrightarrow> same_vmx s s' \<Longrightarrow> returns L (Some (k, s'))"
  by (rule returns_Some) (rule wf_same)

lemma returns_ends:
  assumes "keeps_vmxon L" "nested_wf L s"
  shows "returns L (fail_and_skip L e s)" "returns L (invalid_and_skip L s)" "returns L (succeed_and_skip L s)"
    "returns L (skip_and_succeed L s)"
    and "(\<And>v. nested_vmxon (f v) = nested_vmxon v) \<Longrightarrow> returns L (fault f s)"
proof -
  note skip = skip_same[OF assms(1)]
  obtain t where t: "nested_vmx_failValid e s = Some t" "same_vmx s t" using fail_same[OF assms(2)] .
  show "returns L (fail_and_skip L e s)"
    using returns_same[OF assms(2) same_vmx_trans[OF t(2) skip]] by (simp add: fail_and_skip_def t(1))
  show "returns L (invalid_and_skip L s)" "returns L (succeed_and_skip L s)" "returns L (skip_and_succeed L s)"
    unfolding invalid_and_skip_def succeed_and_skip_def skip_and_succeed_def
    by (rule returns_same[OF assms(2)], rule same_vmx_trans[OF report_same(2) skip] same_vmx_trans[OF report_same(1) skip]
        same_vmx_trans[OF skip report_same(1)])+
  show "(\<And>v. nested_vmxon (f v) = nested_vmxon v) \<Longrightarrow> returns L (fault f s)"
    unfolding fault_def by (rule returns_same[OF assms(2)]) (rule same_vmx_upd(3))
qed

lemma fst_fields: "same_vmx s (s\<lparr>nv := snd (f (nv s))\<rparr>)" if "\<And>v. nested_vmxon (snd (f v)) = nested_vmxon v"
  by (rule same_vmx_upd) (rule that)

lemma checks_same:
  "same_vmx s (snd (in_vm86 s))" "same_vmx s (snd (cpl_not_0 L s))" "same_vmx s (snd (bad_code_segment L s))"
  by (simp_all add: in_vm86_def cpl_not_0_def bad_code_segment_def case_prod_unfold same_vmx_upd vmxon_keeps)

lemma permission_same:
  assumes "nested_vmx_check_permission L s = (ok, s')"
  shows "same_vmx s s'" "ok \<Longrightarrow> nested_vmxon (nv s)"
proof -
  show "ok \<Longrightarrow> nested_vmxon (nv s)" using assms by (auto simp: nested_vmx_check_permission_def split: if_splits)
  define s1 where "s1 = s\<lparr>nv := snd (vmx_get_segment CS (nv s))\<rparr>"
  define s2 where "s2 = snd (in_vm86 s1)"
  define s3 where "s3 = snd (cpl_not_0 L s2)"
  have s1: "same_vmx s s1" unfolding s1_def by (rule fst_fields) (rule vmxon_keeps)
  have s2: "same_vmx s s2" unfolding s2_def by (rule same_vmx_trans[OF s1 checks_same(1)])
  have s3: "same_vmx s s3" unfolding s3_def by (rule same_vmx_trans[OF s2 checks_same(2)])
  have inj: "same_vmx t (on_vcpu (kvm_queue_exception e) t)" "same_vmx t (on_vcpu (kvm_inject_gp e') t)" for t e e'
    by (rule same_vmx_upd, rule vmxon_keeps)+
  consider "s' = on_vcpu (kvm_queue_exception UD_VECTOR) s" | "s' = on_vcpu (kvm_queue_exception UD_VECTOR) s2"
    | "s' = on_vcpu (kvm_inject_gp 0) s3" | "s' = s3"
    using assms by (auto simp: nested_vmx_check_permission_def case_prod_unfold s1_def[symmetric] s2_def[symmetric]
        s3_def[symmetric] split: if_splits)
  then show "same_vmx s s'"
    by cases (use inj same_vmx_trans[OF s2 inj(1)] same_vmx_trans[OF s3 inj(2)] s3 in auto)
qed

lemma current_same:
  assumes "keeps_vmxon L" "nested_vmx_check_vmcs12 L s = (ok, s')"
  shows "same_vmx s s'" "ok \<Longrightarrow> s' = s \<and> current_vmptr s \<noteq> - 1"
proof -
  show "same_vmx s s'"
    using assms(2) same_vmx_trans[OF report_same(2) skip_same[OF assms(1)], of s]
    by (auto simp: nested_vmx_check_vmcs12_def split: if_splits)
  show "ok \<Longrightarrow> s' = s \<and> current_vmptr s \<noteq> - 1"
    using assms(2) by (auto simp: nested_vmx_check_vmcs12_def split: if_splits)
qed

lemma read_reg_same: "keeps_vmxon L \<Longrightarrow> same_vmx s (snd (read_reg L r s))"
  by (simp add: read_reg_def case_prod_unfold same_vmx_upd keeps_vmxon_def keeps_def)

lemma add_reg_same: "keeps_vmxon L \<Longrightarrow> same_vmx s (snd a) \<Longrightarrow> same_vmx s (snd (add_reg L used r k a))"
  using same_vmx_trans[of s "snd a" "(snd a)\<lparr>nv := snd (reg_read L r (nv (snd a)))\<rparr>"]
  by (simp add: add_reg_def case_prod_unfold same_vmx_upd keeps_vmxon_def keeps_def)

lemma address_same:
  assumes "keeps_vmxon L" "get_vmx_mem_address L q i s = (a, s')"
  shows "same_vmx s s'"
proof -
  have "same_vmx s (s\<lparr>nv := snd (vmx_get_segment_base g (nv s))\<rparr>)" for g by (rule fst_fields) (rule vmxon_keeps)
  then have "same_vmx s (snd (add_reg L u1 r1 k1 (add_reg L u2 r2 k2 (b, s\<lparr>nv := snd (vmx_get_segment_base g (nv s))\<rparr>))))"
    for u1 r1 k1 u2 r2 k2 b g by (intro add_reg_same assms(1)) simp
  moreover have "same_vmx s (on_vcpu (kvm_queue_exception e) s)" for e by (rule same_vmx_upd) (rule vmxon_keeps)
  ultimately show ?thesis using assms(2)
    by (auto simp: get_vmx_mem_address_def Let_def case_prod_unfold split: if_splits)
qed

lemma operand_same:
  assumes "read_operand L g n s = (r, s')" shows "same_vmx s s'"
proof -
  have "same_vmx s (on_vcpu (kvm_inject_page_fault a c) s)" for a c by (rule same_vmx_upd) (rule vmxon_keeps)
  then show ?thesis using assms by (auto simp: read_operand_def Let_def case_prod_unfold split: if_splits)
qed

lemma write_same: "same_vmx s (snd (write_system L g bs s))"
  by (simp add: write_system_def case_prod_unfold same_vmx_upd)

subsection \<open>Rules for the early returns\<close>

text \<open>For any property of results that holds of the returns with a well-formed state.\<close>

lemma if_permitted_rule:
  assumes "nested_wf L s" "\<And>k t. nested_wf L t \<Longrightarrow> Q (Some (k, t))"
    "\<And>t. nested_wf L t \<Longrightarrow> nested_vmxon (nv t) \<Longrightarrow> same_vmx s t \<Longrightarrow> Q (f t)"
  shows "Q (if_permitted L s f)"
proof (cases "nested_vmx_check_permission L s")
  case (Pair ok t)
  note p = permission_same[OF Pair]
  show ?thesis using assms(3)[OF wf_same[OF assms(1) p(1)] _ p(1)] p(2) same_fields(3)[OF p(1)]
      assms(2)[OF wf_same[OF assms(1) p(1)]] by (auto simp: if_permitted_def Pair)
qed

lemma if_address_rule:
  assumes "keeps_vmxon L" "nested_wf L s" "\<And>k t. nested_wf L t \<Longrightarrow> Q (Some (k, t))"
    "\<And>a t. nested_wf L t \<Longrightarrow> same_vmx s t \<Longrightarrow> Q (f a t)"
  shows "Q (if_address L s f)"
proof (cases "operand_address L s")
  case (Pair a t)
  have p: "same_vmx s t" using Pair address_same[OF assms(1)] by (auto simp: operand_address_def)
  show ?thesis using assms(4)[OF wf_same[OF assms(2) p] p] assms(3)[OF wf_same[OF assms(2) p]]
    by (auto simp: if_address_def Pair split: option.split)
qed

lemma if_operand_rule:
  assumes "nested_wf L s" "\<And>k t. nested_wf L t \<Longrightarrow> Q (Some (k, t))"
    "\<And>bs t. nested_wf L t \<Longrightarrow> same_vmx s t \<Longrightarrow> Q (f bs t)"
  shows "Q (if_operand L g n s f)"
proof (cases "read_operand L g n s")
  case (Pair bs t)
  note p = operand_same[OF Pair]
  show ?thesis using assms(3)[OF wf_same[OF assms(1) p] p] assms(2)[OF wf_same[OF assms(1) p]]
    by (auto simp: if_operand_def Pair split: option.split)
qed

lemma if_permitted_returns:
  assumes "nested_wf L s" "\<And>t. nested_wf L t \<Longrightarrow> nested_vmxon (nv t) \<Longrightarrow> same_vmx s t \<Longrightarrow> returns L (f t)"
  shows "returns L (if_permitted L s f)"
  by (rule if_permitted_rule[where Q = "returns L"]) (use assms returns_Some in blast)+

lemma if_address_returns:
  assumes "keeps_vmxon L" "nested_wf L s" "\<And>a t. nested_wf L t \<Longrightarrow> same_vmx s t \<Longrightarrow> returns L (f a t)"
  shows "returns L (if_address L s f)"
  by (rule if_address_rule[where Q = "returns L"]) (use assms returns_Some in blast)+

lemma if_operand_returns:
  assumes "nested_wf L s" "\<And>bs t. nested_wf L t \<Longrightarrow> same_vmx s t \<Longrightarrow> returns L (f bs t)"
  shows "returns L (if_operand L g n s f)"
  by (rule if_operand_rule[where Q = "returns L"]) (use assms returns_Some in blast)+

lemma if_current_returns:
  assumes "keeps_vmxon L" "nested_wf L s" "current_vmptr s \<noteq> - 1 \<Longrightarrow> returns L (f s)"
  shows "returns L (if_current L s f)"
proof (cases "nested_vmx_check_vmcs12 L s")
  case (Pair ok t)
  note p = current_same[OF assms(1) Pair]
  show ?thesis using assms(3) p returns_same[OF assms(2) p(1)] by (auto simp: if_current_def Pair)
qed

lemma vmwrite_value_returns:
  assumes "keeps_vmxon L" "nested_wf L s" "\<And>x t. nested_wf L t \<Longrightarrow> same_vmx s t \<Longrightarrow> returns L (f x t)"
  shows "returns L (vmwrite_value L i s f)"
proof -
  have r: "same_vmx s (snd (read_reg L r s))" for r by (rule read_reg_same[OF assms(1)])
  have "returns L (if_address L s (\<lambda>g s. if_operand L g (operand_size L s) s (\<lambda>bs s. f (bytes_word bs) s)))"
    by (intro if_address_returns if_operand_returns assms(1,2) assms(3)) (blast intro: same_vmx_trans)+
  then show ?thesis using assms(3)[OF wf_same[OF assms(2) r] r] by (auto simp: vmwrite_value_def case_prod_unfold)
qed

subsection \<open>The current VMCS\<close>

text \<open>The fields that letting go of the current VMCS leaves alone.\<close>

definition same_pool :: "nested_vcpu \<Rightarrow> nested_vcpu \<Rightarrow> bool" where
  "same_pool s t \<longleftrightarrow> nv t = nv s \<and> n_apic_access_page t = n_apic_access_page s \<and> vmcs02_pool t = vmcs02_pool s \<and>
     vmcs02_num t = vmcs02_num s \<and> current_shadow_vmcs t = current_shadow_vmcs s \<and> current_vmptr t = current_vmptr s \<and>
     current_vmcs12 t = current_vmcs12 s"

lemma released:
  assumes "nested_wf L s" "nested_vmxon (nv s)" "current_vmcs12 s = Some p"
  obtains t where "nested_release_vmcs12 L (s\<lparr>pinned := q\<rparr>) = Some t" "mset (pinned t) = mset q - {#p#}" "same_pool s t"
proof -
  have pg: "current_vmcs12_page s = p" using assms(1,3) by (auto simp: nested_wf_def)
  show thesis
  proof (cases "enable_shadow_vmcs L")
    case True
    then obtain sh where sh: "current_shadow_vmcs s = Some sh" using assms(1,2) by (auto simp: nested_wf_def)
    let ?t = "shadow_off (s\<lparr>pinned := q, nmem := (nmem s)\<lparr>user_mem := copy_shadow_to_vmcs12 sh p (user_mem (nmem s))\<rparr>\<rparr>)"
    show thesis
      by (rule that[of "?t\<lparr>pinned := remove1 p q\<rparr>"])
        (simp_all add: True sh pg assms(3) nested_release_vmcs12_def shadow_off_def same_pool_def)
  next
    case False
    then show thesis
      by (intro that[of "s\<lparr>pinned := remove1 p q\<rparr>"]) (simp_all add: nested_release_vmcs12_def pg same_pool_def)
  qed
qed

lemma wf_pool:
  assumes "nested_wf L s" "nested_vmxon (nv s)" "same_pool s t"
    "current_vmptr t' = a" "current_vmcs12 t' = c" "a = - 1 \<longleftrightarrow> c = None" "\<And>p. c = Some p \<Longrightarrow> current_vmcs12_page t' = p"
    "nv t' = nv t" "n_apic_access_page t' = n_apic_access_page t" "vmcs02_pool t' = vmcs02_pool t" "vmcs02_num t' = vmcs02_num t"
    "current_shadow_vmcs t' = current_shadow_vmcs t"
    "mset (pinned t') = (case c of None \<Rightarrow> {#} | Some p \<Rightarrow> {#p#}) +
       (case n_apic_access_page s of None \<Rightarrow> {#} | Some p \<Rightarrow> {#p#})"
  shows "nested_wf L t'"
  using assms by (simp add: nested_wf_def same_pool_def held_pages_def)

lemma dropped:
  assumes "nested_wf L s" "nested_vmxon (nv s)" "current_vmcs12 s \<noteq> None"
  obtains t where "drop_current L s = Some t" "nested_wf L t" "nv t = nv s" "current_vmcs12 t = None"
    "n_apic_access_page t = n_apic_access_page s" "vmcs02_pool t = vmcs02_pool s"
proof -
  obtain p where p: "current_vmcs12 s = Some p" using assms(3) by auto
  obtain t where t: "nested_release_vmcs12 L (s\<lparr>pinned := pinned s\<rparr>) = Some t" "mset (pinned t) = mset (pinned s) - {#p#}"
      "same_pool s t"
    using released[OF assms(1,2) p] by blast
  let ?t = "t\<lparr>current_vmptr := - 1, current_vmcs12 := None\<rparr>"
  have "mset (pinned s) = held_pages s" using assms(1) by (simp add: nested_wf_def)
  then have "nested_wf L ?t"
    by (intro wf_pool[OF assms(1,2) t(3), of ?t "- 1" None]) (simp_all add: t(2) held_pages_def p)
  moreover have "drop_current L s = Some ?t" using t(1) by (simp add: drop_current_def)
  ultimately show thesis using that[of ?t] t(3) by (simp add: same_pool_def)
qed

subsection \<open>The handlers\<close>

lemma freed:
  assumes "nested_wf L s" "nested_vmxon (nv s)"
  obtains t where "free_nested L s = Some t" "nested_wf L t" "\<not> nested_vmxon (nv t)" "pinned t = []"
proof -
  define finish where "finish = (\<lambda>s2. let s3 = (if enable_shadow_vmcs L then s2\<lparr>current_shadow_vmcs := None\<rparr> else s2);
      s4 = (case n_apic_access_page s3 of None \<Rightarrow> s3
            | Some p \<Rightarrow> s3\<lparr>pinned := remove1 p (pinned s3), n_apic_access_page := None\<rparr>)
    in nested_free_all_saved_vmcss s4)"
  let ?off = "on_vcpu (\<lambda>v. v\<lparr>nested_vmxon := False\<rparr>) s"
  have fin: "nested_wf L (finish (on_vcpu (\<lambda>v. v\<lparr>nested_vmxon := False\<rparr>) t)) \<and>
      \<not> nested_vmxon (nv (finish (on_vcpu (\<lambda>v. v\<lparr>nested_vmxon := False\<rparr>) t))) \<and>
      pinned (finish (on_vcpu (\<lambda>v. v\<lparr>nested_vmxon := False\<rparr>) t)) = []"
    if "nested_wf L t" "current_vmcs12 t = None" for t
  proof -
    have m: "mset (pinned t) = (case n_apic_access_page t of None \<Rightarrow> {#} | Some p \<Rightarrow> {#p#})" "current_vmptr t = - 1"
      using that by (simp_all add: nested_wf_def held_pages_def)
    have "pinned t = (case n_apic_access_page t of None \<Rightarrow> [] | Some p \<Rightarrow> [p])"
      using m(1) by (cases "n_apic_access_page t") simp_all
    then show ?thesis using that(2) m(2)
      by (cases "n_apic_access_page t") (simp_all add: finish_def Let_def nested_free_all_saved_vmcss_def on_vcpu_def nested_wf_def
          held_pages_def)
  qed
  have eq: "free_nested L s = map_option finish (if current_vmptr ?off \<noteq> - 1 then drop_current L ?off else Some ?off)"
    using assms(2) by (simp add: free_nested_def finish_def on_vcpu_def Let_def)
  have comm: "drop_current L (on_vcpu (\<lambda>v. v\<lparr>nested_vmxon := False\<rparr>) u) =
      map_option (on_vcpu (\<lambda>v. v\<lparr>nested_vmxon := False\<rparr>)) (drop_current L u)" for u
    by (simp add: drop_current_def nested_release_vmcs12_def on_vcpu_def shadow_off_def option.map_comp comp_def split: option.split)
  show thesis
  proof (cases "current_vmcs12 s")
    case None
    then have "current_vmptr s = - 1" using assms(1) by (simp add: nested_wf_def)
    then have "free_nested L s = Some (finish ?off)" unfolding eq by (simp add: on_vcpu_def)
    then show thesis using that[of "finish ?off"] fin[OF assms(1) None] by blast
  next
    case (Some p)
    then obtain t where t: "drop_current L s = Some t" "nested_wf L t" "current_vmcs12 t = None"
      using dropped[OF assms] by blast
    have "current_vmptr s \<noteq> - 1" using Some assms(1) by (simp add: nested_wf_def)
    then have "free_nested L s = Some (finish (on_vcpu (\<lambda>v. v\<lparr>nested_vmxon := False\<rparr>) t))"
      unfolding eq comm t(1) by (simp add: on_vcpu_def)
    then show thesis using that fin[OF t(2,3)] by blast
  qed
qed

lemma vmoff_returns: "keeps_vmxon L \<Longrightarrow> nested_wf L s \<Longrightarrow> returns L (handle_vmoff L s)"
  unfolding handle_vmoff_def
proof (rule if_permitted_returns)
  fix t assume L: "keeps_vmxon L" and t: "nested_wf L t" "nested_vmxon (nv t)"
  obtain u where "free_nested L t = Some u" "nested_wf L u" using freed[OF t] by blast
  then show "returns L (case free_nested L t of None \<Rightarrow> None | Some s2 \<Rightarrow> skip_and_succeed L s2)"
    using returns_ends(4)[OF L] by simp
qed

lemma distinct_fst_remove1: "distinct (map fst xs) \<Longrightarrow> distinct (map fst (remove1 x xs))"
proof (induction xs)
  case (Cons a xs)
  have "set (map fst (remove1 x xs)) \<subseteq> set (map fst xs)" using set_remove1_subset[of x xs] by auto
  then show ?case using Cons by auto
qed simp

lemma vmcs02_freed:
  assumes "nested_wf L s" shows "nested_wf L (nested_free_vmcs02 p s)"
proof (cases "find (\<lambda>it. fst it = p) (vmcs02_pool s)")
  case (Some it)
  then have it: "it \<in> set (vmcs02_pool s)" by (auto simp: find_Some_iff)
  have n: "vmcs02_num s = length (vmcs02_pool s)" "vmcs02_num s \<le> max VMCS02_POOL_SIZE 1" "distinct (map fst (vmcs02_pool s))"
    using assms by (simp_all add: nested_wf_def)
  have p: "length (remove1 it (vmcs02_pool s)) = vmcs02_num s - 1" "vmcs02_num s - 1 \<le> max VMCS02_POOL_SIZE 1"
    "distinct (map fst (remove1 it (vmcs02_pool s)))"
    using n it by (simp_all add: length_remove1 distinct_fst_remove1)
  show ?thesis using assms Some p
    unfolding nested_free_vmcs02_def nested_wf_def held_pages_def option.case nested_vcpu.simps by simp
qed (use assms in \<open>simp add: nested_free_vmcs02_def\<close>)

lemma vmclear_returns:
  assumes L: "keeps_vmxon L" "nested_wf L s"
  shows "returns L (handle_vmclear L s)"
  unfolding handle_vmclear_def
proof (intro if_permitted_returns if_address_returns if_operand_returns L)
  fix t a u bs w
  assume "nested_vmxon (nv t)" "same_vmx t u" "same_vmx u w" and w: "nested_wf L w"
  then have on: "nested_vmxon (nv w)" by (metis same_fields(3))
  let ?p = "bytes_word bs"
  have x: "\<exists>x. (if ?p = current_vmptr w then drop_current L w else Some w) = Some x \<and> nested_wf L x" if "aligned ?p"
  proof (cases "?p = current_vmptr w")
    case True
    have "?p \<noteq> - 1" using that by (auto simp: aligned_def)
    then show ?thesis using True w dropped[OF w on] by (metis nested_wf_def)
  qed (use w in simp)
  have "nested_wf L (nested_free_vmcs02 ?p (set_v12 4 VMCS12_launch_state q 0 x))" if "nested_wf L x" for q x
    by (rule vmcs02_freed) (rule wf_same[OF that same_vmx_upd(4)])
  then show "returns L (let vmptr = ?p
       in if \<not> aligned vmptr then fail_and_skip L VMXERR_VMCLEAR_INVALID_ADDRESS w
          else case (if vmptr = current_vmptr w then drop_current L w else Some w) of
                 None \<Rightarrow> None
               | Some s1 \<Rightarrow>
                   (case nested_get_page L s1 vmptr of
                      None \<Rightarrow> fault (kvm_make_request REQ_TRIPLE_FAULT) s1
                    | Some p \<Rightarrow> skip_and_succeed L
                        (nested_free_vmcs02 vmptr (set_v12 4 VMCS12_launch_state p 0 s1))))"
    using returns_ends[OF L(1)] w x by (auto simp: Let_def vmxon_keeps split: option.split)
qed

lemma installed:
  assumes "nested_wf L s" "nested_vmxon (nv s)" "vmptr \<noteq> - 1"
  obtains t where "(if current_vmptr s \<noteq> - 1 then nested_release_vmcs12 L (s\<lparr>pinned := p # pinned s\<rparr>)
    else Some (s\<lparr>pinned := p # pinned s\<rparr>)) = Some t" "nested_wf L (install_current L vmptr p t)"
proof (cases "current_vmcs12 s")
  case None
  let ?t = "s\<lparr>pinned := p # pinned s\<rparr>"
  have c: "current_vmptr s = - 1" using None assms(1) by (simp add: nested_wf_def)
  have "nested_wf L (install_current L vmptr p ?t)"
    using assms None by (simp add: install_current_def nested_wf_def held_pages_def Let_def)
  then show thesis using that c by simp
next
  case (Some p0)
  obtain t where t: "nested_release_vmcs12 L (s\<lparr>pinned := p # pinned s\<rparr>) = Some t"
      "mset (pinned t) = mset (p # pinned s) - {#p0#}" "same_pool s t"
    using released[OF assms(1,2) Some] by blast
  have c: "current_vmptr s \<noteq> - 1" using Some assms(1) by (simp add: nested_wf_def)
  have "mset (pinned s) = held_pages s" using assms(1) by (simp add: nested_wf_def)
  then have m: "mset (pinned t) = {#p#} + (case n_apic_access_page s of None \<Rightarrow> {#} | Some p \<Rightarrow> {#p#})"
    by (simp add: t(2) held_pages_def Some)
  have "nested_wf L (install_current L vmptr p t)"
    by (rule wf_pool[OF assms(1,2) t(3), of _ vmptr "Some p"]) (use assms(3) m in \<open>simp_all add: install_current_def Let_def\<close>)
  then show thesis using that t(1) c by simp
qed

lemma vmptrld_returns:
  assumes L: "keeps_vmxon L" "nested_wf L s"
  shows "returns L (handle_vmptrld L s)"
  unfolding handle_vmptrld_def
proof (intro if_permitted_returns if_address_returns if_operand_returns L)
  fix t a u bs w
  assume "nested_vmxon (nv t)" "same_vmx t u" "same_vmx u w" and w: "nested_wf L w"
  then have on: "nested_vmxon (nv w)" by (metis same_fields(3))
  let ?p = "bytes_word bs"
  note ends = returns_ends[OF L(1)]
  have load: "returns L (let s1 = w\<lparr>pinned := p # pinned w\<rparr>
      in case (if current_vmptr s1 \<noteq> - 1 then nested_release_vmcs12 L s1 else Some s1) of
           None \<Rightarrow> None | Some s2 \<Rightarrow> succeed_and_skip L (install_current L ?p p s2))" if "aligned ?p" for p
  proof -
    have "?p \<noteq> - 1" using that by (auto simp: aligned_def)
    then obtain x where "(if current_vmptr w \<noteq> - 1 then nested_release_vmcs12 L (w\<lparr>pinned := p # pinned w\<rparr>)
        else Some (w\<lparr>pinned := p # pinned w\<rparr>)) = Some x" "nested_wf L (install_current L ?p p x)"
      using installed[OF w on] by blast
    then show ?thesis using ends(3) by (simp split: if_splits)
  qed
  show "returns L (let vmptr = ?p
       in if \<not> aligned vmptr then fail_and_skip L VMXERR_VMPTRLD_INVALID_ADDRESS w
          else if current_vmptr w = vmptr then succeed_and_skip L w
          else case nested_get_page L w vmptr of
                 None \<Rightarrow> invalid_and_skip L w
               | Some p \<Rightarrow>
                   if v12 4 VMCS12_revision_id p w \<noteq> VMCS12_REVISION
                   then fail_and_skip L VMXERR_VMPTRLD_INCORRECT_VMCS_REVISION_ID w
                   else
                     (let s1 = w\<lparr>pinned := p # pinned w\<rparr>
                      in case (if current_vmptr s1 \<noteq> - 1 then nested_release_vmcs12 L s1 else Some s1) of
                           None \<Rightarrow> None
                         | Some s2 \<Rightarrow> succeed_and_skip L (install_current L vmptr p s2)))"
    using ends(1-3)[OF w] load by (auto simp: Let_def split: option.split)
qed

lemma vmptrst_returns:
  assumes L: "keeps_vmxon L" "nested_wf L s"
  shows "returns L (handle_vmptrst L s)"
  unfolding handle_vmptrst_def
proof (intro if_permitted_returns if_address_returns L)
  fix t a u assume u: "nested_wf L u"
  let ?w = "write_system L a (word_bytes 8 (current_vmptr u)) u"
  have w: "nested_wf L (snd ?w)" by (rule wf_same[OF u write_same])
  show "returns L (case ?w of (r, s1) \<Rightarrow>
      if r = X86EMUL_CONTINUE then succeed_and_skip L s1
      else let (a, c) = (if r = X86EMUL_PROPAGATE_FAULT then virt_fault L (nv s1) (nmem s1) a 8 else stack_exception L)
           in fault (kvm_inject_page_fault a c) s1)"
    using returns_ends(3,5)[OF L(1) w] by (simp add: case_prod_unfold Let_def vmxon_keeps)
qed

lemma vmread_returns:
  assumes L: "keeps_vmxon L" "nested_wf L s"
  shows "returns L (handle_vmread L s)"
  unfolding handle_vmread_def Let_def
proof (intro if_permitted_returns if_current_returns L)
  fix t assume t: "nested_wf L t" "current_vmptr t \<noteq> - 1"
  obtain f u where r: "read_reg L (field_of 28 4 (insn_info s)) t = (f, u)" by fastforce
  then have u: "same_vmx t u" using read_reg_same[OF L(1), of t "field_of 28 4 (insn_info s)"] by simp
  note wf = wf_same[OF t(1) u] and ends = returns_ends[OF L(1)]
  obtain p where p: "current_vmcs12 u = Some p" using t same_fields(2)[OF u] by (auto simp: nested_wf_def)
  have g: "nested_wf L (on_vcpu (reg_write L k x) u)" for k x
    by (rule wf_same[OF wf], rule same_vmx_upd) (use L(1) in \<open>simp add: keeps_vmxon_def\<close>)
  have m: "returns L (if_address L u (\<lambda>a s. succeed_and_skip L (snd (write_system L a (bs s) s))))" for bs
    by (intro if_address_returns L(1) wf ends(3)) (rule wf_same[OF _ write_same])
  show "returns L (case read_reg L (field_of 28 4 (insn_info s)) t of (field, s') \<Rightarrow>
      case current_vmcs12 s' of None \<Rightarrow> None
      | Some p \<Rightarrow>
          (case vmcs12_read_any p field (user_mem (nmem s')) of
             None \<Rightarrow> fail_and_skip L VMXERR_UNSUPPORTED_VMCS_COMPONENT s'
           | Some x \<Rightarrow>
               if bit (insn_info s) 10 then succeed_and_skip L (on_vcpu (reg_write L (field_of 3 4 (insn_info s)) x) s')
               else if_address L s' (\<lambda>gva s. succeed_and_skip L (snd (write_system L gva (word_bytes (operand_size L s) x) s)))))"
    using ends(1)[OF wf] ends(3)[OF g] m by (simp add: r p split: option.split)
qed

lemma vmwrite_returns:
  assumes L: "keeps_vmxon L" "nested_wf L s"
  shows "returns L (handle_vmwrite L s)"
  unfolding handle_vmwrite_def Let_def
proof (intro if_permitted_returns if_current_returns vmwrite_value_returns L)
  fix t w x assume t: "current_vmptr t \<noteq> - 1" "same_vmx t w" and w: "nested_wf L w"
  obtain f u where r: "read_reg L (field_of 28 4 (insn_info s)) w = (f, u)" by fastforce
  then have u: "same_vmx w u" using read_reg_same[OF L(1), of w "field_of 28 4 (insn_info s)"] by simp
  note wf = wf_same[OF w u] and ends = returns_ends[OF L(1)]
  obtain p where p: "current_vmcs12 u = Some p"
    using t(1) w same_fields(1)[OF t(2)] same_fields(2)[OF u] by (auto simp: nested_wf_def)
  have m: "nested_wf L (u\<lparr>nmem := m\<rparr>)" for m by (rule wf_same[OF wf same_vmx_upd(2)])
  show "returns L (case read_reg L (field_of 28 4 (insn_info s)) w of (field, s') \<Rightarrow>
      if vmcs_field_readonly field then fail_and_skip L VMXERR_VMWRITE_READ_ONLY_VMCS_COMPONENT s'
      else case current_vmcs12 s' of None \<Rightarrow> None
           | Some p \<Rightarrow>
               (case vmcs12_write_any p field x (user_mem (nmem s')) of
                  (False, uu) \<Rightarrow> fail_and_skip L VMXERR_UNSUPPORTED_VMCS_COMPONENT s'
                | (True, u) \<Rightarrow> succeed_and_skip L (s'\<lparr>nmem := (nmem s')\<lparr>user_mem := u\<rparr>\<rparr>)))"
    using ends(1)[OF wf] ends(3)[OF m] by (simp add: r p split: prod.split bool.split)
qed

lemma entered_vmx:
  assumes "nested_wf L s" "\<not> nested_vmxon (nv s)"
  shows "nested_wf L (on_vcpu (\<lambda>v. v\<lparr>nested_vmxon := True\<rparr>)
    ((if enable_shadow_vmcs L then s\<lparr>current_shadow_vmcs := Some (\<lambda>_. 0)\<rparr> else s)\<lparr>vmcs02_pool := [], vmcs02_num := 0\<rparr>))"
  using assms by (simp add: nested_wf_def on_vcpu_def held_pages_def)

lemma vmon_returns:
  assumes L: "keeps_vmxon L" "nested_wf L s"
  shows "returns L (handle_vmon L s)"
proof -
  note ends = returns_ends[OF L(1)]
  obtain c4 v1 where r4: "kvm_read_cr4_bits (mx (nmsr L)) X86_CR4_VMXE (nv s) = (c4, v1)" by fastforce
  obtain c0 v2 where r0: "(if c4 = 0 then (0, v1) else kvm_read_cr0_bits (nenv L) X86_CR0_PE v1) = (c0, v2)" by fastforce
  obtain vm s3 where r3: "(if c4 = 0 \<or> c0 = 0 then (False, s\<lparr>nv := v2\<rparr>) else in_vm86 (s\<lparr>nv := v2\<rparr>)) = (vm, s3)" by fastforce
  obtain bad s4 where r5: "bad_code_segment L s3 = (bad, s4)" by fastforce
  obtain user s5 where r6: "cpl_not_0 L s4 = (user, s5)" by fastforce
  have on: "nested_vmxon v1 = nested_vmxon (nv s)" "nested_vmxon v2 = nested_vmxon v1"
    using L(1) r4 r0 unfolding keeps_vmxon_def keeps_def by (metis snd_conv)+
  have "same_vmx s (s\<lparr>nv := v2\<rparr>)" by (rule same_vmx_upd) (simp add: on)
  then have s3: "same_vmx s s3" using same_vmx_trans[OF _ checks_same(1)] r3 by (metis snd_conv)
  have s4: "same_vmx s s4" using same_vmx_trans[OF s3 checks_same(3)[of s3 L]] r5 by simp
  have s5: "same_vmx s s5" using same_vmx_trans[OF s4 checks_same(2)[of s4 L]] r6 by simp
  note wf = wf_same[OF L(2) s3] wf_same[OF L(2) s4] wf_same[OF L(2) s5]
  have e: "handle_vmon L s = (if c4 = 0 \<or> c0 = 0 \<or> vm then fault (kvm_queue_exception UD_VECTOR) s3
      else if bad then fault (kvm_queue_exception UD_VECTOR) s4
      else if user then fault (kvm_inject_gp 0) s5
      else if nested_vmxon (nv s5) then fail_and_skip L VMXERR_VMXON_IN_VMX_ROOT_OPERATION s5
      else if n_feature_control s5 AND VMXON_NEEDED_FEATURES \<noteq> VMXON_NEEDED_FEATURES then fault (kvm_inject_gp 0) s5
      else if enable_shadow_vmcs L \<and> \<not> shadow_alloc_ok L then Some (- 12, s5)
      else skip_and_succeed L (on_vcpu (\<lambda>v. v\<lparr>nested_vmxon := True\<rparr>)
        ((if enable_shadow_vmcs L then s5\<lparr>current_shadow_vmcs := Some (\<lambda>_. 0)\<rparr> else s5)\<lparr>vmcs02_pool := [], vmcs02_num := 0\<rparr>)))"
    unfolding handle_vmon_def r4 prod.case r0 r3 r5 r6 Let_def by (rule refl)
  show ?thesis unfolding e
    using ends(1)[OF wf(3)] ends(5)[OF wf(1)] ends(5)[OF wf(2)] ends(5)[OF wf(3)] ends(4)[OF entered_vmx[OF wf(3)]]
      returns_Some[OF wf(3)] by (simp add: vmxon_keeps)
qed

lemma flush_returns:
  assumes "keeps_vmxon L" "nested_wf L s" shows "returns L (flush_nested L s)"
  unfolding flush_nested_def
  by (intro returns_ends(3)[OF assms(1)] wf_same[OF assms(2)] same_vmx_upd) (use assms(1) in \<open>simp add: keeps_vmxon_def\<close>)

lemma get_vmcs02:
  assumes "nested_wf L s" "nested_get_current_vmcs02 L s = (r, t)" "nested_vmxon (nv s)"
  shows "nested_wf L t"
proof -
  have n: "vmcs02_num s = length (vmcs02_pool s)" "length (vmcs02_pool s) \<le> 1" "distinct (map fst (vmcs02_pool s))"
    using assms(1) by (simp_all add: nested_wf_def VMCS02_POOL_SIZE_def)
  have wf: "nested_wf L (s\<lparr>vmcs02_pool := [q], vmcs02_num := 1\<rparr>)" for q
    using assms(1,3) by (simp add: nested_wf_def held_pages_def)
  have wf1: "nested_wf L (s\<lparr>vmcs02_pool := [q]\<rparr>)" if "vmcs02_num s = 1" for q
    using assms(1,3) that by (simp add: nested_wf_def held_pages_def)
  show ?thesis
  proof (cases "vmcs02_pool s")
    case Nil
    then have "t = s \<or> (\<exists>q. t = s\<lparr>vmcs02_pool := [q], vmcs02_num := 1\<rparr>)" using assms(2) n(1)
      by (auto simp: nested_get_current_vmcs02_def VMCS02_POOL_SIZE_def split: option.splits)
    then show ?thesis using assms(1) wf by blast
  next
    case (Cons it xs)
    then have p: "vmcs02_pool s = [it]" "vmcs02_num s = 1" using n(1,2) by simp_all
    then have "t = s\<lparr>vmcs02_pool := [it]\<rparr> \<or> t = s\<lparr>vmcs02_pool := [(current_vmptr s, snd it)]\<rparr>" using assms(2)
      by (cases "fst it = current_vmptr s") (auto simp: nested_get_current_vmcs02_def VMCS02_POOL_SIZE_def)
    then show ?thesis using wf1[OF p(2)] by blast
  qed
qed

end
