(* ===== verification/Nested_Runs.thy ===== *)
theory Nested_Runs
  imports Nested_Props
begin

text \<open>
  Runs of a nested hypervisor: it executes VMX instructions one after the other, with any computation of its own
  in between. Every state it reaches is well formed, every instruction but \<^verbatim>\<open>INVEPT\<close> returns, and
  \<^verbatim>\<open>INVEPT\<close> stops the host exactly in the cases its check of the operand lets through.
\<close>

datatype vmx_insn = VMXON | VMXOFF | VMCLEAR | VMPTRLD | VMPTRST | VMREAD | VMWRITE | INVVPID | INVEPT

fun exec_insn :: "'x nested_lib \<Rightarrow> vmx_insn \<Rightarrow> nested_vcpu \<Rightarrow> (int \<times> nested_vcpu) option" where
  "exec_insn L VMXON s = handle_vmon L s"
| "exec_insn L VMXOFF s = handle_vmoff L s"
| "exec_insn L VMCLEAR s = handle_vmclear L s"
| "exec_insn L VMPTRLD s = handle_vmptrld L s"
| "exec_insn L VMPTRST s = handle_vmptrst L s"
| "exec_insn L VMREAD s = handle_vmread L s"
| "exec_insn L VMWRITE s = handle_vmwrite L s"
| "exec_insn L INVVPID s = handle_invvpid s"
| "exec_insn L INVEPT s = handle_invept L s"

text \<open>A state before any VMX instruction, as \<^verbatim>\<open>vmx_create_vcpu\<close> leaves it.\<close>

definition nested_init :: "nested_vcpu \<Rightarrow> bool" where
  "nested_init s \<longleftrightarrow> current_vmptr s = - 1 \<and> current_vmcs12 s = None \<and> pinned s = [] \<and> n_apic_access_page s = None \<and>
     vmcs02_pool s = [] \<and> vmcs02_num s = 0 \<and> \<not> nested_vmxon (nv s)"

text \<open>Between two instructions the registers, the VMCS fields, the memory and the description of the next
  instruction change in any way; an entry of a nested guest and its exit leave the new pool.\<close>

inductive nested_reach :: "'x nested_lib \<Rightarrow> nested_vcpu \<Rightarrow> nested_vcpu \<Rightarrow> bool" for L s0 where
  start: "nested_reach L s0 s0"
| runs: "nested_reach L s0 s \<Longrightarrow> nested_vmxon v = nested_vmxon (nv s) \<Longrightarrow>
    nested_reach L s0 (s\<lparr>nv := v, nmem := m, insn_info := i\<rparr>)"
| executes: "nested_reach L s0 s \<Longrightarrow> exec_insn L insn s = Some (r, s') \<Longrightarrow> nested_reach L s0 s'"
| enters: "nested_reach L s0 s \<Longrightarrow> nested_vmx_run L launch s = Some (Entering s') \<Longrightarrow>
    nested_reach L s0 (s'\<lparr>loaded_vmcs := 0\<rparr>)"

lemma insn_returns:
  assumes "keeps_vmxon L" "nested_wf L s" "insn \<noteq> INVEPT"
  shows "returns L (exec_insn L insn s)"
  using assms(3) vmon_returns[OF assms(1,2)] vmoff_returns[OF assms(1,2)] vmclear_returns[OF assms(1,2)]
    vmptrld_returns[OF assms(1,2)] vmptrst_returns[OF assms(1,2)] vmread_returns[OF assms(1,2)]
    vmwrite_returns[OF assms(1,2)] returns_ends(5)[OF assms(1,2), of "kvm_queue_exception UD_VECTOR"]
  by (cases insn) (simp_all add: handle_invvpid_def vmxon_keeps)

subsection \<open>\<^verbatim>\<open>INVEPT\<close>\<close>

definition returns_or_stops :: "'x nested_lib \<Rightarrow> (int \<times> nested_vcpu) option \<Rightarrow> bool" where
  "returns_or_stops L r \<longleftrightarrow> r = None \<or> returns L r"

text \<open>The offered types of invalidation, as the handler extracts them.\<close>

definition invept_types :: "'x nested_lib \<Rightarrow> u32" where
  "invept_types L = drop_bit 24 (nested_ept_caps (nctls (nmsr L))) AND 6"

lemma invept_type_bit: "bit (invept_types L) k \<longleftrightarrow> (k = 1 \<or> k = 2) \<and> bit (nested_ept_caps (nctls (nmsr L))) (24 + k)"
  by (auto simp: invept_types_def bit_and_iff bit_drop_bit_eq add.commute)

text \<open>What the handler does once the operand is read.\<close>

definition invept_switch :: "'x nested_lib \<Rightarrow> u64 \<Rightarrow> u8 list \<Rightarrow> nested_vcpu \<Rightarrow> (int \<times> nested_vcpu) option" where
  "invept_switch L type bs s =
     (if type = 1 then
        (case nested_ept_get_cr3 s of
           None \<Rightarrow> None
         | Some cr3 \<Rightarrow>
             if bytes_word (take 8 bs) AND ((push_bit 51 1 - 1) AND NOT 0xFFF) \<noteq> cr3 AND ((push_bit 51 1 - 1) AND NOT 0xFFF)
             then Some (1, skip_insn L s) else flush_nested L s)
      else if type = 2 then flush_nested L s
      else None)"

lemma invept_switch_returns:
  assumes "keeps_vmxon L" "nested_wf L s"
  shows "returns_or_stops L (invept_switch L type bs s)"
    "invept_switch L type bs s = None \<longleftrightarrow> \<not> (type = 1 \<and> current_vmptr s \<noteq> - 1 \<or> type = 2)"
proof -
  have f: "returns L (flush_nested L s)" by (rule flush_returns[OF assms])
  then have n: "flush_nested L s \<noteq> None" by (auto simp: returns_def)
  have s: "returns L (Some (1, skip_insn L s))" by (rule returns_same[OF assms(2) skip_same[OF assms(1)]])
  show "returns_or_stops L (invept_switch L type bs s)"
    using f s by (simp add: invept_switch_def returns_or_stops_def split: option.split)
  have "current_vmptr s = - 1 \<longleftrightarrow> current_vmcs12 s = None" using assms(2) by (simp add: nested_wf_def)
  then show "invept_switch L type bs s = None \<longleftrightarrow> \<not> (type = 1 \<and> current_vmptr s \<noteq> - 1 \<or> type = 2)"
    using n by (auto simp: invept_switch_def nested_ept_get_cr3_def split: option.split)
qed

lemma invept_unfold:
  "handle_invept L s =
     (if secondary_high (nctls (nmsr L)) AND SECONDARY_EXEC_ENABLE_EPT = 0 \<or>
         nested_ept_caps (nctls (nmsr L)) AND VMX_EPT_INVEPT_BIT = 0
      then fault (kvm_queue_exception UD_VECTOR) s
      else if_permitted L s (\<lambda>s.
        let r0 = kvm_read_cr0_bits (nenv L) X86_CR0_PE (nv s); s' = s\<lparr>nv := snd r0\<rparr>;
            r = read_reg L (field_of 28 4 (insn_info s)) s'
        in if fst r0 = 0 then fault (kvm_queue_exception UD_VECTOR) s'
           else if \<not> bit (invept_types L) (unat (fst r) mod 64)
           then fail_and_skip L VMXERR_INVALID_OPERAND_TO_INVEPT_INVVPID (snd r)
           else if_address L (snd r) (\<lambda>gva s. if_operand L gva 16 s (\<lambda>bs s. invept_switch L (fst r) bs s))))"
  unfolding handle_invept_def Let_def case_prod_unfold invept_types_def invept_switch_def by (rule refl)

lemma invept_returns_or_stops:
  assumes L: "keeps_vmxon L" "nested_wf L s"
  shows "returns_or_stops L (handle_invept L s)"
proof -
  note ends = returns_ends[OF L(1)]
  have r: "returns L r \<Longrightarrow> returns_or_stops L r" for r by (simp add: returns_or_stops_def)
  have q: "returns_or_stops L (Some (k, t))" if "nested_wf L t" for k t by (rule r[OF returns_Some[OF that]])
  have ud: "returns_or_stops L (fault (kvm_queue_exception UD_VECTOR) t)" if "nested_wf L t" for t
    by (rule r, rule ends(5)[OF that]) (rule vmxon_keeps)
  have fl: "returns_or_stops L (fail_and_skip L e t)" if "nested_wf L t" for e t by (rule r, rule ends(1)[OF that])
  have sw: "returns_or_stops L (if_address L t (\<lambda>gva s. if_operand L gva 16 s (\<lambda>bs s. invept_switch L ty bs s)))"
    if t: "nested_wf L t" for t ty
  proof (rule if_address_rule[OF L(1) t])
    fix a u assume "nested_wf L u"
    then show "returns_or_stops L (if_operand L a 16 u (\<lambda>bs s. invept_switch L ty bs s))"
      by (rule if_operand_rule) (use q invept_switch_returns(1)[OF L(1)] in blast)+
  qed (rule q)
  show ?thesis unfolding invept_unfold
  proof (split if_split, intro conjI impI)
    show "returns_or_stops L (fault (kvm_queue_exception UD_VECTOR) s)" by (rule ud[OF L(2)])
  next
    show "returns_or_stops L (if_permitted L s (\<lambda>s.
        let r0 = kvm_read_cr0_bits (nenv L) X86_CR0_PE (nv s); s' = s\<lparr>nv := snd r0\<rparr>;
            r = read_reg L (field_of 28 4 (insn_info s)) s'
        in if fst r0 = 0 then fault (kvm_queue_exception UD_VECTOR) s'
           else if \<not> bit (invept_types L) (unat (fst r) mod 64)
           then fail_and_skip L VMXERR_INVALID_OPERAND_TO_INVEPT_INVVPID (snd r)
           else if_address L (snd r) (\<lambda>gva s. if_operand L gva 16 s (\<lambda>bs s. invept_switch L (fst r) bs s))))"
    proof (rule if_permitted_rule[OF L(2)])
      fix t assume t: "nested_wf L t"
      let ?v = "snd (kvm_read_cr0_bits (nenv L) X86_CR0_PE (nv t))"
      have s: "same_vmx t (t\<lparr>nv := ?v\<rparr>)" by (rule same_vmx_upd) (use L(1) in \<open>simp add: keeps_vmxon_def keeps_def\<close>)
      have "same_vmx t (snd (read_reg L k (t\<lparr>nv := ?v\<rparr>)))" for k by (rule same_vmx_trans[OF s read_reg_same[OF L(1)]])
      then show "returns_or_stops L (let r0 = kvm_read_cr0_bits (nenv L) X86_CR0_PE (nv t); s' = t\<lparr>nv := snd r0\<rparr>;
            r = read_reg L (field_of 28 4 (insn_info t)) s'
        in if fst r0 = 0 then fault (kvm_queue_exception UD_VECTOR) s'
           else if \<not> bit (invept_types L) (unat (fst r) mod 64)
           then fail_and_skip L VMXERR_INVALID_OPERAND_TO_INVEPT_INVVPID (snd r)
           else if_address L (snd r) (\<lambda>gva s. if_operand L gva 16 s (\<lambda>bs s. invept_switch L (fst r) bs s)))"
        using wf_same[OF t] s ud fl sw by (simp add: Let_def)
    qed (rule q)
  qed
qed

subsection \<open>Entering a nested guest\<close>

lemma wf_loaded: "nested_wf L (s\<lparr>loaded_vmcs := i\<rparr>) \<longleftrightarrow> nested_wf L s"
    "nested_wf L (s\<lparr>n_vmcs01_tsc_offset := x\<rparr>) \<longleftrightarrow> nested_wf L s" "nested_wf L (s\<lparr>insn_info := j\<rparr>) \<longleftrightarrow> nested_wf L s"
  by (simp_all add: nested_wf_def held_pages_def)

lemma enter_wf:
  assumes "nested_wf L s" "nested_vmxon (nv s)" "nested_enter L p s = Entering t"
  shows "nested_wf L t"
proof -
  obtain i u where g: "nested_get_current_vmcs02 L s = (Some i, u)"
    using assms(3) by (auto simp: nested_enter_def Let_def split: prod.splits option.splits)
  have u: "nested_wf L u" by (rule get_vmcs02[OF assms(1) g assms(2)])
  let ?u2 = "on_vcpu (\<lambda>v. v\<lparr>in_guest_mode := True, nested_run_pending := True\<rparr>) u"
  let ?u3 = "?u2\<lparr>n_vmcs01_tsc_offset := vmcs_read64 TSC_OFFSET (nv ?u2), loaded_vmcs := i\<rparr>"
  have "nested_wf L ?u2" by (rule wf_same[OF u]) (rule same_vmx_upd, simp)
  then have u3: "nested_wf L ?u3" by (simp only: wf_loaded)
  have "nested_wf L (on_vcpu vmx_segment_cache_clear ?u3)"
    by (rule wf_same[OF u3]) (rule same_vmx_upd, simp add: vmx_segment_cache_clear_def)
  moreover have "t = set_v12 4 VMCS12_launch_state p 1 (on_vcpu vmx_segment_cache_clear ?u3)"
    using assms(3) by (simp add: nested_enter_def Let_def g)
  ultimately show ?thesis using wf_same same_vmx_upd(4) by blast
qed

lemma run_wf:
  assumes L: "keeps_vmxon L" "nested_wf L s" and r: "nested_vmx_run L launch s = Some (Entering t)"
  shows "nested_wf L t"
proof -
  obtain s1 where p: "nested_vmx_check_permission L s = (True, s1)"
    using r by (auto simp: nested_vmx_run_def split: prod.splits bool.splits)
  obtain s2 where c: "nested_vmx_check_vmcs12 L s1 = (True, s2)"
    using r p by (auto simp: nested_vmx_run_def split: prod.splits bool.splits)
  let ?s3 = "skip_insn L s2"
  have s3: "same_vmx s ?s3"
    by (rule same_vmx_trans[OF permission_same(1)[OF p]], rule same_vmx_trans[OF current_same(1)[OF L(1) c] skip_same[OF L(1)]])
  have on: "nested_vmxon (nv s)" using permission_same(2)[OF p] by simp
  obtain q s4 where q: "current_vmcs12 ?s3 = Some q"
      "(if enable_shadow_vmcs L
        then map_option (\<lambda>sh. ?s3\<lparr>nmem := (nmem ?s3)\<lparr>user_mem := copy_shadow_to_vmcs12 sh q (user_mem (nmem ?s3))\<rparr>\<rparr>)
          (current_shadow_vmcs ?s3)
        else Some ?s3) = Some s4"
    using r by (auto simp: nested_vmx_run_def p c Let_def split: option.splits)
  have e: "nested_enter L q s4 = Entering t"
    using r q by (auto simp: nested_vmx_run_def p c Let_def simp del: map_option_eq_Some split: entry_check.splits)
  have "same_vmx ?s3 s4" using q(2) same_vmx_upd(2)[of ?s3] by (auto split: if_splits)
  then have s4: "same_vmx s s4" by (rule same_vmx_trans[OF s3])
  show ?thesis
    by (rule enter_wf[OF wf_same[OF L(2) s4] _ e]) (simp add: same_fields(3)[OF s4] on)
qed

lemma reach_wf:
  assumes "keeps_vmxon L" "nested_init s0" "nested_reach L s0 s"
  shows "nested_wf L s"
  using assms(3)
proof induction
  case start
  then show ?case using assms(2) by (simp add: nested_init_def nested_wf_def held_pages_def)
next
  case (runs s v i m)
  have "nested_wf L (s\<lparr>nv := v, nmem := m\<rparr>)" by (rule wf_same[OF runs.IH same_vmxI[OF runs.hyps(2)]])
  then show ?case by (simp only: wf_loaded)
next
  case (executes s insn r s')
  have "returns_or_stops L (exec_insn L insn s)"
    using insn_returns[OF assms(1) executes.IH, of insn] invept_returns_or_stops[OF assms(1) executes.IH]
    by (cases "insn = INVEPT") (auto simp: returns_or_stops_def)
  then show ?case using executes.hyps(2) by (simp add: returns_or_stops_def returns_def)
next
  case (enters s launch s')
  show ?case unfolding wf_loaded by (rule run_wf[OF assms(1) enters.IH enters.hyps(2)])
qed

subsection \<open>Properties\<close>

lemma reach_held:
  assumes "keeps_vmxon L" "nested_init s0" "nested_reach L s0 s"
  shows "current_vmptr s = - 1 \<longleftrightarrow> current_vmcs12 s = None"
    and "current_vmcs12 s = Some p \<Longrightarrow> current_vmcs12_page s = p \<and> p \<in> set (pinned s) \<and>
      (enable_shadow_vmcs L \<longrightarrow> current_shadow_vmcs s \<noteq> None)"
    and "mset (pinned s) = held_pages s"
    and "vmcs02_num s = length (vmcs02_pool s)" and "vmcs02_num s \<le> VMCS02_POOL_SIZE" and "distinct (map fst (vmcs02_pool s))"
    and "\<not> nested_vmxon (nv s) \<Longrightarrow> current_vmcs12 s = None \<and> pinned s = [] \<and> vmcs02_pool s = []"
proof -
  have wf: "nested_wf L s" by (rule reach_wf[OF assms])
  show "current_vmptr s = - 1 \<longleftrightarrow> current_vmcs12 s = None" "mset (pinned s) = held_pages s"
    "vmcs02_num s = length (vmcs02_pool s)" "distinct (map fst (vmcs02_pool s))"
    using wf by (simp_all add: nested_wf_def)
  show "vmcs02_num s \<le> VMCS02_POOL_SIZE" using wf by (simp add: nested_wf_def VMCS02_POOL_SIZE_def)
  have "p \<in># held_pages s" if "current_vmcs12 s = Some p" using that by (simp add: held_pages_def)
  then show "current_vmcs12 s = Some p \<Longrightarrow> current_vmcs12_page s = p \<and> p \<in> set (pinned s) \<and>
      (enable_shadow_vmcs L \<longrightarrow> current_shadow_vmcs s \<noteq> None)"
    using wf by (auto simp: nested_wf_def simp flip: set_mset_mset)
  show "\<not> nested_vmxon (nv s) \<Longrightarrow> current_vmcs12 s = None \<and> pinned s = [] \<and> vmcs02_pool s = []"
    using wf by (auto simp: nested_wf_def held_pages_def)
qed

text \<open>C32: Whatever a nested hypervisor executes, a current VMCS exists exactly when its address is not -1 and is
  the one page pinned for it, its shadow exists, the pool of hardware VMCSs stays within its size without two
  entries for an address, and outside VMX operation nothing is held.\<close>

theorem nested_runs_consistent:
  assumes "keeps_vmxon L" "nested_init s0" "nested_reach L s0 s"
  shows "(current_vmptr s = - 1 \<longleftrightarrow> current_vmcs12 s = None) \<and>
    (\<forall>p. current_vmcs12 s = Some p \<longrightarrow> current_vmcs12_page s = p \<and> p \<in> set (pinned s) \<and>
      (enable_shadow_vmcs L \<longrightarrow> current_shadow_vmcs s \<noteq> None)) \<and>
    mset (pinned s) = held_pages s \<and>
    vmcs02_num s = length (vmcs02_pool s) \<and> vmcs02_num s \<le> VMCS02_POOL_SIZE \<and> distinct (map fst (vmcs02_pool s)) \<and>
    (\<not> nested_vmxon (nv s) \<longrightarrow> current_vmcs12 s = None \<and> pinned s = [] \<and> vmcs02_pool s = [])"
  using reach_held[OF assms] by blast


text \<open>C34: \<^verbatim>\<open>INVEPT\<close> stops the host (by \<^verbatim>\<open>BUG_ON\<close> or through a null pointer) exactly when it
  is offered and permitted, its operand is readable, the low six bits of the type name an offered type, and either
  the type itself is neither of the two or it asks for one context while no VMCS is current.\<close>

theorem invept_stops:
  assumes "keeps_vmxon L" "nested_init s0" "nested_reach L s0 s"
    and perm: "nested_vmx_check_permission L s = (True, s1)" "kvm_read_cr0_bits (nenv L) X86_CR0_PE (nv s1) = (pe, v)" "pe \<noteq> 0"
    and offered: "secondary_high (nctls (nmsr L)) AND SECONDARY_EXEC_ENABLE_EPT \<noteq> 0"
      "nested_ept_caps (nctls (nmsr L)) AND VMX_EPT_INVEPT_BIT \<noteq> 0"
    and operand: "read_reg L (field_of 28 4 (insn_info s)) (s1\<lparr>nv := v\<rparr>) = (ty, s2)"
      "operand_address L s2 = (Some gva, s3)" "read_operand L gva 16 s3 = (Some bs, s4)"
  shows "exec_insn L INVEPT s = None \<longleftrightarrow>
    bit (invept_types L) (unat ty mod 64) \<and> \<not> (ty = 1 \<and> current_vmptr s \<noteq> - 1 \<or> ty = 2)"
proof -
  note L = assms(1)
  have wf: "nested_wf L s" by (rule reach_wf[OF assms(1-3)])
  have s1: "same_vmx s s1" by (rule permission_same(1)[OF perm(1)])
  have "nested_vmxon v = nested_vmxon (nv s1)" using L perm(2) unfolding keeps_vmxon_def keeps_def by (metis snd_conv)
  then have "same_vmx s (s1\<lparr>nv := v\<rparr>)" by (intro same_vmx_trans[OF s1] same_vmx_upd)
  then have s2: "same_vmx s s2" using same_vmx_trans[OF _ read_reg_same[OF L]] operand(1) by (metis snd_conv)
  have s3: "same_vmx s s3" using same_vmx_trans[OF s2] address_same[OF L] operand(2) by (simp add: operand_address_def)
  have s4: "same_vmx s s4" by (rule same_vmx_trans[OF s3 operand_same[OF operand(3)]])
  have "returns L (fail_and_skip L e s2)" for e by (rule returns_ends(1)[OF L wf_same[OF wf s2]])
  then have f: "fail_and_skip L e s2 \<noteq> None" for e unfolding returns_def by (metis option.discI)
  have "exec_insn L INVEPT s = (if \<not> bit (invept_types L) (unat ty mod 64)
      then fail_and_skip L VMXERR_INVALID_OPERAND_TO_INVEPT_INVVPID s2 else invept_switch L ty bs s4)"
    using perm offered operand same_fields(4)[OF s1]
    by (simp add: invept_unfold if_permitted_def Let_def if_address_def if_operand_def)
  then show ?thesis using f invept_switch_returns(2)[OF L wf_same[OF wf s4], of ty bs] same_fields(1)[OF s4] by simp
qed

end
