(* ===== verification/Vmx_Bitmaps.thy ===== *)
theory Vmx_Bitmaps
  imports Vmx_Controls Vmcs_Fields
begin

text \<open>
  The bitmaps of \<^verbatim>\<open>kvm/vmx.c\<close>: identifiers of virtual processors (\<^verbatim>\<open>allocate_vpid\<close>,
  \<^verbatim>\<open>free_vpid\<close>), the bitmaps that say which MSRs, ports and VMCS fields a guest reaches without an exit,
  and \<^verbatim>\<open>vmx_init\<close>, which allocates and fills them. A bitmap is the function from the number of a bit;
  the bit \<open>n\<close> of a page is bit \<open>n mod 8\<close> of its byte \<open>n div 8\<close>.
\<close>

type_synonym bitmap = "nat \<Rightarrow> bool"

definition clear_bit :: "nat \<Rightarrow> bitmap \<Rightarrow> bitmap" where "clear_bit n bm = bm(n := False)"
definition set_bitmap :: "nat \<Rightarrow> bitmap \<Rightarrow> bitmap" where "set_bitmap n bm = bm(n := True)"

text \<open>\<^verbatim>\<open>find_first_zero_bit\<close> of the kernel: the size when every bit is set.\<close>

fun zero_bit_from :: "bitmap \<Rightarrow> nat \<Rightarrow> nat \<Rightarrow> nat" where
  "zero_bit_from bm n 0 = n"
| "zero_bit_from bm n (Suc k) = (if bm n then zero_bit_from bm (Suc n) k else n)"

definition find_first_zero_bit :: "bitmap \<Rightarrow> nat \<Rightarrow> nat" where
  "find_first_zero_bit bm sz = zero_bit_from bm 0 sz"

subsection \<open>Identifiers of virtual processors\<close>

definition VMX_NR_VPIDS :: nat where "VMX_NR_VPIDS = 65536"

definition allocate_vpid :: "bool \<Rightarrow> bitmap \<Rightarrow> vcpu \<Rightarrow> bitmap \<times> vcpu" where
  "allocate_vpid enable_vpid vmx_vpid_bitmap v =
     (let v0 = v\<lparr>vpid := 0\<rparr>
      in if \<not> enable_vpid then (vmx_vpid_bitmap, v0)
         else let id = find_first_zero_bit vmx_vpid_bitmap VMX_NR_VPIDS
              in if id < VMX_NR_VPIDS then (set_bitmap id vmx_vpid_bitmap, v0\<lparr>vpid := word_of_nat id\<rparr>)
                 else (vmx_vpid_bitmap, v0))"

definition free_vpid :: "bool \<Rightarrow> bitmap \<Rightarrow> vcpu \<Rightarrow> bitmap" where
  "free_vpid enable_vpid vmx_vpid_bitmap v =
     (if \<not> enable_vpid then vmx_vpid_bitmap
      else if vpid v \<noteq> 0 then clear_bit (unat (vpid v)) vmx_vpid_bitmap else vmx_vpid_bitmap)"

subsection \<open>Intercepted MSRs\<close>

definition MSR_TYPE_R :: nat where "MSR_TYPE_R = 1"
definition MSR_TYPE_W :: nat where "MSR_TYPE_W = 2"

text \<open>\<open>has\<close> is \<^verbatim>\<open>cpu_has_vmx_msr_bitmap\<close>. The offsets of the four bitmaps in the page are in bytes.\<close>

definition disable_intercept_for_msr :: "bool \<Rightarrow> u32 \<Rightarrow> nat \<Rightarrow> bitmap \<Rightarrow> bitmap" where
  "disable_intercept_for_msr has msr type msr_bitmap =
     (let r = (type AND MSR_TYPE_R \<noteq> 0); w = (type AND MSR_TYPE_W \<noteq> 0); low = unat (msr AND 0x1FFF)
      in if \<not> has then msr_bitmap
         else if msr \<le> 0x1FFF then
           (let b = (if r then clear_bit (8 * 0 + unat msr) msr_bitmap else msr_bitmap)
            in if w then clear_bit (8 * 0x800 + unat msr) b else b)
         else if 0xC0000000 \<le> msr \<and> msr \<le> 0xC0001FFF then
           (let b = (if r then clear_bit (8 * 0x400 + low) msr_bitmap else msr_bitmap)
            in if w then clear_bit (8 * 0xC00 + low) b else b)
         else msr_bitmap)"

definition enable_intercept_for_msr :: "bool \<Rightarrow> u32 \<Rightarrow> nat \<Rightarrow> bitmap \<Rightarrow> bitmap" where
  "enable_intercept_for_msr has msr type msr_bitmap =
     (let r = (type AND MSR_TYPE_R \<noteq> 0); w = (type AND MSR_TYPE_W \<noteq> 0); low = unat (msr AND 0x1FFF)
      in if \<not> has then msr_bitmap
         else if msr \<le> 0x1FFF then
           (let b = (if r then set_bitmap (8 * 0 + unat msr) msr_bitmap else msr_bitmap)
            in if w then set_bitmap (8 * 0x800 + unat msr) b else b)
         else if 0xC0000000 \<le> msr \<and> msr \<le> 0xC0001FFF then
           (let b = (if r then set_bitmap (8 * 0x400 + low) msr_bitmap else msr_bitmap)
            in if w then set_bitmap (8 * 0xC00 + low) b else b)
         else msr_bitmap)"

text \<open>The bitmaps of the module, as addresses of pages and their contents; an address of 0 is the failed
  allocation. \<open>freed\<close> lists what was given back.\<close>

record vmx_pages =
  io_bitmap_a :: bitmap
  io_bitmap_b :: bitmap
  msr_bitmap_legacy :: bitmap
  msr_bitmap_longmode :: bitmap
  msr_bitmap_legacy_x2apic :: bitmap
  msr_bitmap_longmode_x2apic :: bitmap
  vmread_bitmap :: bitmap
  vmwrite_bitmap :: bitmap
  page_addrs :: "nat \<Rightarrow> u64"
  pages_freed :: "u64 list"
  vpid_bitmap :: bitmap

definition vmx_disable_intercept_for_msr :: "bool \<Rightarrow> u32 \<Rightarrow> bool \<Rightarrow> vmx_pages \<Rightarrow> vmx_pages" where
  "vmx_disable_intercept_for_msr has msr longmode_only P =
     (let both = MSR_TYPE_R OR MSR_TYPE_W;
          P1 = (if \<not> longmode_only
                then P\<lparr>msr_bitmap_legacy := disable_intercept_for_msr has msr both (msr_bitmap_legacy P)\<rparr> else P)
      in P1\<lparr>msr_bitmap_longmode := disable_intercept_for_msr has msr both (msr_bitmap_longmode P1)\<rparr>)"

definition vmx_enable_intercept_msr_read_x2apic :: "bool \<Rightarrow> u32 \<Rightarrow> vmx_pages \<Rightarrow> vmx_pages" where
  "vmx_enable_intercept_msr_read_x2apic has msr P =
     P\<lparr>msr_bitmap_legacy_x2apic := enable_intercept_for_msr has msr MSR_TYPE_R (msr_bitmap_legacy_x2apic P),
       msr_bitmap_longmode_x2apic := enable_intercept_for_msr has msr MSR_TYPE_R (msr_bitmap_longmode_x2apic P)\<rparr>"

definition vmx_disable_intercept_msr_read_x2apic :: "bool \<Rightarrow> u32 \<Rightarrow> vmx_pages \<Rightarrow> vmx_pages" where
  "vmx_disable_intercept_msr_read_x2apic has msr P =
     P\<lparr>msr_bitmap_legacy_x2apic := disable_intercept_for_msr has msr MSR_TYPE_R (msr_bitmap_legacy_x2apic P),
       msr_bitmap_longmode_x2apic := disable_intercept_for_msr has msr MSR_TYPE_R (msr_bitmap_longmode_x2apic P)\<rparr>"

definition vmx_disable_intercept_msr_write_x2apic :: "bool \<Rightarrow> u32 \<Rightarrow> vmx_pages \<Rightarrow> vmx_pages" where
  "vmx_disable_intercept_msr_write_x2apic has msr P =
     P\<lparr>msr_bitmap_legacy_x2apic := disable_intercept_for_msr has msr MSR_TYPE_W (msr_bitmap_legacy_x2apic P),
       msr_bitmap_longmode_x2apic := disable_intercept_for_msr has msr MSR_TYPE_W (msr_bitmap_longmode_x2apic P)\<rparr>"

subsection \<open>Loading and unloading the module\<close>

text \<open>What the other parts of the kernel are told: the registers switched per processor, the masks of the MMU
  and whether it uses two-dimensional paging. \<open>None\<close> is not called.\<close>

record vmx_init_calls =
  shared_msrs :: "(nat \<times> u32) list"
  mask_ptes :: "(u64 \<times> u64 \<times> u64 \<times> u64 \<times> u64) option"
  mmio_spte_mask :: "u64 option"
  tdp :: "bool option"

definition VMX_EPT_ACCESS_BIT :: u64 where "VMX_EPT_ACCESS_BIT = 0x100"
definition VMX_EPT_DIRTY_BIT :: u64 where "VMX_EPT_DIRTY_BIT = 0x200"
definition VMX_EPT_EXECUTABLE_MASK :: u64 where "VMX_EPT_EXECUTABLE_MASK = 0x4"

definition ept_set_mmio_spte_mask :: "vmx_init_calls \<Rightarrow> vmx_init_calls" where
  "ept_set_mmio_spte_mask c = c\<lparr>mmio_spte_mask := Some (push_bit 62 0x3 OR 0x6)\<rparr>"

text \<open>The pages in the order they are allocated: the two I/O bitmaps, the MSR bitmaps legacy, legacy x2APIC,
  long mode and long mode x2APIC, and those of \<^verbatim>\<open>VMREAD\<close> and \<^verbatim>\<open>VMWRITE\<close>. The first allocation that
  fails goes to the label that gives back the earlier ones, the last one first.\<close>

definition alloc_bitmaps :: "(nat \<Rightarrow> u64) \<Rightarrow> vmx_pages \<Rightarrow> vmx_pages option \<times> vmx_pages" where
  "alloc_bitmaps get_free_page P =
     (case find (\<lambda>i. get_free_page i = 0) [0..<8] of
        Some i \<Rightarrow> (None, P\<lparr>pages_freed := pages_freed P @ rev (map get_free_page [0..<i])\<rparr>)
      | None \<Rightarrow> (Some (P\<lparr>page_addrs := get_free_page\<rparr>), P))"

definition ones :: bitmap where "ones = (\<lambda>n. True)"

definition fill_bitmaps :: "vmx_pages \<Rightarrow> vmx_pages" where
  "fill_bitmaps P =
     (let rw = fold clear_bit shadow_read_write_fields
      in P\<lparr>vmwrite_bitmap := rw ones,
           vmread_bitmap := fold clear_bit shadow_read_only_fields (rw ones),
           io_bitmap_a := clear_bit 0x80 ones, io_bitmap_b := ones,
           msr_bitmap_legacy := ones, msr_bitmap_longmode := ones,
           vpid_bitmap := set_bitmap 0 (vpid_bitmap P)\<rparr>)"

definition fill_x2apic :: "bool \<Rightarrow> vmx_pages \<Rightarrow> vmx_pages" where
  "fill_x2apic has P =
     (let P1 = fold (\<lambda>msr. vmx_disable_intercept_msr_read_x2apic has (of_nat msr)) [0x800..<0x900] P;
          P2 = vmx_enable_intercept_msr_read_x2apic has 0x802 P1;
          P3 = vmx_enable_intercept_msr_read_x2apic has 0x839 P2;
          P4 = vmx_disable_intercept_msr_write_x2apic has 0x808 P3;
          P5 = vmx_disable_intercept_msr_write_x2apic has 0x80B P4
      in vmx_disable_intercept_msr_write_x2apic has 0x83F P5)"

definition open_msrs :: "bool \<Rightarrow> vmx_pages \<Rightarrow> vmx_pages" where
  "open_msrs has P =
     (let P1 = vmx_disable_intercept_for_msr has 0xC0000100 False P;
          P2 = vmx_disable_intercept_for_msr has 0xC0000101 False P1;
          P3 = vmx_disable_intercept_for_msr has 0xC0000102 True P2;
          P4 = vmx_disable_intercept_for_msr has 0x174 False P3;
          P5 = vmx_disable_intercept_for_msr has 0x175 False P4;
          P6 = vmx_disable_intercept_for_msr has 0x176 False P5
      in P6\<lparr>msr_bitmap_legacy_x2apic := msr_bitmap_legacy P6,
            msr_bitmap_longmode_x2apic := msr_bitmap_longmode P6\<rparr>)"

text \<open>\<open>kvm_init\<close> is the result of registering the module; it sets up the hardware, so \<open>S\<close> and \<open>p\<close> are
  the capabilities and parameters afterwards.\<close>

definition vmx_init ::
    "(nat \<Rightarrow> u64) \<Rightarrow> int \<Rightarrow> vmx_setup \<Rightarrow> vmx_params \<Rightarrow> vmx_pages \<Rightarrow> vmx_init_calls \<Rightarrow>
      int \<times> vmx_pages \<times> vmx_init_calls" where
  "vmx_init get_free_page kvm_init S p P c =
     (let c1 = c\<lparr>shared_msrs := shared_msrs c @ enumerate 0 vmx_msr_index\<rparr>
      in case alloc_bitmaps get_free_page P of
           (None, P') \<Rightarrow> (- 12, P', c1)
         | (Some P1, _) \<Rightarrow>
             (let P2 = fill_bitmaps P1; has = cpu_has_vmx_msr_bitmap S
              in if kvm_init \<noteq> 0
                 then (kvm_init, P2\<lparr>pages_freed := pages_freed P2 @ rev (map get_free_page [0..<8])\<rparr>, c1)
                 else
                   (let P3 = open_msrs has P2;
                        P4 = (if par_apicv p then fill_x2apic has P3 else P3);
                        ad = (\<lambda>b. if par_ept_ad_bits p then b else 0)
                    in (0, P4,
                        if par_ept p
                        then (ept_set_mmio_spte_mask (c1\<lparr>mask_ptes :=
                                Some (0, ad VMX_EPT_ACCESS_BIT, ad VMX_EPT_DIRTY_BIT, 0, VMX_EPT_EXECUTABLE_MASK)\<rparr>))
                               \<lparr>tdp := Some True\<rparr>
                        else c1\<lparr>tdp := Some False\<rparr>))))"

definition vmx_exit :: "vmx_pages \<Rightarrow> vmx_pages" where
  "vmx_exit P = P\<lparr>pages_freed := pages_freed P @ map (page_addrs P) [3, 5, 2, 4, 1, 0, 7, 6]\<rparr>"

end
