(* ===== verification/Nested_Exits.thy ===== *)
theory Nested_Exits
  imports Nested_Vmx Vmx_Bitmaps
begin

text \<open>
  Who handles the exit of a nested guest: \<^verbatim>\<open>nested_vmx_exit_handled\<close> and the functions it calls decide
  whether the hypervisor of the guest asked for it, \<^verbatim>\<open>vmx_handle_exit\<close> what is done with any exit
  (\<^verbatim>\<open>kvm/vmx.c\<close>). \<open>p\<close> is the address of the nested VMCS.
\<close>

subsection \<open>Ports and MSRs\<close>

text \<open>The remaining ports of an access; \<open>last_bitmap\<close> and \<open>b\<close> are the address and value of the byte that was
  read last.\<close>

fun io_loop :: "mem_lib \<Rightarrow> kvm_mem \<Rightarrow> u64 \<Rightarrow> u64 \<Rightarrow> u32 \<Rightarrow> nat \<Rightarrow> u64 \<Rightarrow> u8 \<Rightarrow> bool" where
  "io_loop lib m a b port 0 last_bitmap byte = False"
| "io_loop lib m a b port (Suc n) last_bitmap byte =
     (if 0x10000 \<le> port then True
      else
        (let bitmap = (if port < 0x8000 then a else b) + ucast (drop_bit 3 (port AND 0x7FFF));
             r = (if last_bitmap \<noteq> bitmap then kvm_read_guest lib m bitmap 1 else Inr [byte])
         in case r of
              Inl _ \<Rightarrow> True
            | Inr bs \<Rightarrow> if bit (hd bs) (unat (port AND 7)) then True
                        else io_loop lib m a b (port + 1) n bitmap (hd bs)))"

definition nested_vmx_exit_handled_io :: "'x nested_lib \<Rightarrow> u64 \<Rightarrow> nested_vcpu \<Rightarrow> bool" where
  "nested_vmx_exit_handled_io L p s =
     (if nested_cpu_has p CPU_BASED_UNCOND_IO_EXITING s then True
      else if \<not> nested_cpu_has p CPU_BASED_USE_IO_BITMAPS s then False
      else let q = vmcs_readl EXIT_QUALIFICATION (nv s)
           in io_loop (nlib L) (nmem s) (v12_64 VMCS12_io_bitmap_a p s) (v12_64 VMCS12_io_bitmap_b p s)
                (ucast (drop_bit 16 q)) (unat (q AND 7) + 1) (- 1) (- 1))"

definition EXIT_REASON_MSR_WRITE :: u32 where "EXIT_REASON_MSR_WRITE = 32"

definition nested_vmx_exit_handled_msr :: "'x nested_lib \<Rightarrow> u64 \<Rightarrow> u32 \<Rightarrow> nested_vcpu \<Rightarrow> bool" where
  "nested_vmx_exit_handled_msr L p exit_reason s =
     (let msr_index = ucast (regs (nv s) RCX) :: u32;
          high = (0xC0000000 \<le> msr_index);
          bitmap = v12_64 VMCS12_msr_bitmap p s + (if exit_reason = EXIT_REASON_MSR_WRITE then 2048 else 0) +
                   (if high then 1024 else 0);
          i = (if high then msr_index - 0xC0000000 else msr_index)
      in if \<not> nested_cpu_has p CPU_BASED_USE_MSR_BITMAPS s then True
         else if i < 1024 * 8 then
           (case kvm_read_guest (nlib L) (nmem s) (bitmap + ucast (i div 8)) 1 of
              Inl _ \<Rightarrow> True
            | Inr bs \<Rightarrow> bit (hd bs) (unat (i AND 7)))
         else True)"

subsection \<open>Control registers\<close>

text \<open>The value of the register is read for every kind of access.\<close>

definition cr3_target :: "u64 \<Rightarrow> u64 \<Rightarrow> nested_vcpu \<Rightarrow> bool" where
  "cr3_target p val s =
     (let n = v12_32 VMCS12_cr3_target_count p s
      in 1 \<le> n \<and> v12_64 VMCS12_cr3_target_value0 p s = val \<or> 2 \<le> n \<and> v12_64 VMCS12_cr3_target_value1 p s = val \<or>
         3 \<le> n \<and> v12_64 VMCS12_cr3_target_value2 p s = val \<or> 4 \<le> n \<and> v12_64 VMCS12_cr3_target_value3 p s = val)"

definition cr_access_handled :: "u64 \<Rightarrow> nat \<Rightarrow> nat \<Rightarrow> u64 \<Rightarrow> nested_vcpu \<Rightarrow> bool" where
  "cr_access_handled p access cr val s =
     (let mask0 = v12_64 VMCS12_cr0_guest_host_mask p s; shadow0 = v12_64 VMCS12_cr0_read_shadow p s
      in if access = 0 then
           (if cr = 0 then mask0 AND (val XOR shadow0) \<noteq> 0
            else if cr = 3 then \<not> cr3_target p val s \<and> nested_cpu_has p CPU_BASED_CR3_LOAD_EXITING s
            else if cr = 4 then
              v12_64 VMCS12_cr4_guest_host_mask p s AND (v12_64 VMCS12_cr4_read_shadow p s XOR val) \<noteq> 0
            else cr = 8 \<and> nested_cpu_has p CPU_BASED_CR8_LOAD_EXITING s)
         else if access = 2 then mask0 AND X86_CR0_TS \<noteq> 0 \<and> shadow0 AND X86_CR0_TS \<noteq> 0
         else if access = 1 then
           cr = 3 \<and> nested_cpu_has p CPU_BASED_CR3_STORE_EXITING s \<or>
           cr = 8 \<and> nested_cpu_has p CPU_BASED_CR8_STORE_EXITING s
         else
           mask0 AND (0xE AND (val XOR shadow0)) \<noteq> 0 \<or>
           mask0 AND 0x1 \<noteq> 0 \<and> shadow0 AND 0x1 = 0 \<and> val AND 0x1 \<noteq> 0)"

definition nested_vmx_exit_handled_cr :: "'x nested_lib \<Rightarrow> u64 \<Rightarrow> nested_vcpu \<Rightarrow> bool \<times> nested_vcpu" where
  "nested_vmx_exit_handled_cr L p s =
     (let q = vmcs_readl EXIT_QUALIFICATION (nv s)
      in case read_reg L (unat (drop_bit 8 q AND 15)) s of
           (val, s1) \<Rightarrow> (cr_access_handled p (unat (drop_bit 4 q AND 3)) (unat (q AND 15)) val s1, s1))"

subsection \<open>All exits of a nested guest\<close>

definition is_exception :: "u32 \<Rightarrow> bool" where
  "is_exception intr_info \<longleftrightarrow>
     intr_info AND (INTR_INFO_INTR_TYPE_MASK OR INTR_INFO_VALID_MASK) =
     (INTR_TYPE_HARD_EXCEPTION OR INTR_INFO_VALID_MASK)"

abbreviation (input) EXIT_REASON_EXCEPTION_NMI :: u32 where "EXIT_REASON_EXCEPTION_NMI \<equiv> 0"
abbreviation (input) EXIT_REASON_EXTERNAL_INTERRUPT :: u32 where "EXIT_REASON_EXTERNAL_INTERRUPT \<equiv> 1"
abbreviation (input) EXIT_REASON_TRIPLE_FAULT :: u32 where "EXIT_REASON_TRIPLE_FAULT \<equiv> 2"
abbreviation (input) EXIT_REASON_PENDING_INTERRUPT :: u32 where "EXIT_REASON_PENDING_INTERRUPT \<equiv> 7"
abbreviation (input) EXIT_REASON_NMI_WINDOW :: u32 where "EXIT_REASON_NMI_WINDOW \<equiv> 8"
abbreviation (input) EXIT_REASON_TASK_SWITCH :: u32 where "EXIT_REASON_TASK_SWITCH \<equiv> 9"
abbreviation (input) EXIT_REASON_CPUID :: u32 where "EXIT_REASON_CPUID \<equiv> 10"
abbreviation (input) EXIT_REASON_HLT :: u32 where "EXIT_REASON_HLT \<equiv> 12"
abbreviation (input) EXIT_REASON_INVD :: u32 where "EXIT_REASON_INVD \<equiv> 13"
abbreviation (input) EXIT_REASON_INVLPG :: u32 where "EXIT_REASON_INVLPG \<equiv> 14"
abbreviation (input) EXIT_REASON_RDPMC :: u32 where "EXIT_REASON_RDPMC \<equiv> 15"
abbreviation (input) EXIT_REASON_RDTSC :: u32 where "EXIT_REASON_RDTSC \<equiv> 16"
abbreviation (input) EXIT_REASON_CR_ACCESS :: u32 where "EXIT_REASON_CR_ACCESS \<equiv> 28"
abbreviation (input) EXIT_REASON_DR_ACCESS :: u32 where "EXIT_REASON_DR_ACCESS \<equiv> 29"
abbreviation (input) EXIT_REASON_IO_INSTRUCTION :: u32 where "EXIT_REASON_IO_INSTRUCTION \<equiv> 30"
abbreviation (input) EXIT_REASON_MSR_READ :: u32 where "EXIT_REASON_MSR_READ \<equiv> 31"
abbreviation (input) EXIT_REASON_MWAIT_INSTRUCTION :: u32 where "EXIT_REASON_MWAIT_INSTRUCTION \<equiv> 36"
abbreviation (input) EXIT_REASON_MONITOR_INSTRUCTION :: u32 where "EXIT_REASON_MONITOR_INSTRUCTION \<equiv> 39"
abbreviation (input) EXIT_REASON_PAUSE_INSTRUCTION :: u32 where "EXIT_REASON_PAUSE_INSTRUCTION \<equiv> 40"
abbreviation (input) EXIT_REASON_MCE_DURING_VMENTRY :: u32 where "EXIT_REASON_MCE_DURING_VMENTRY \<equiv> 41"
abbreviation (input) EXIT_REASON_APIC_ACCESS :: u32 where "EXIT_REASON_APIC_ACCESS \<equiv> 44"
abbreviation (input) EXIT_REASON_EPT_VIOLATION :: u32 where "EXIT_REASON_EPT_VIOLATION \<equiv> 48"
abbreviation (input) EXIT_REASON_EPT_MISCONFIG :: u32 where "EXIT_REASON_EPT_MISCONFIG \<equiv> 49"
abbreviation (input) EXIT_REASON_PREEMPTION_TIMER :: u32 where "EXIT_REASON_PREEMPTION_TIMER \<equiv> 52"
abbreviation (input) EXIT_REASON_WBINVD :: u32 where "EXIT_REASON_WBINVD \<equiv> 54"

text \<open>The exits that a control of the processor decides alone.\<close>

definition exit_controls :: "(u32 \<times> u32) list" where
  "exit_controls =
     [(EXIT_REASON_PENDING_INTERRUPT, CPU_BASED_VIRTUAL_INTR_PENDING), (EXIT_REASON_NMI_WINDOW, CPU_BASED_VIRTUAL_NMI_PENDING),
      (EXIT_REASON_HLT, CPU_BASED_HLT_EXITING), (EXIT_REASON_INVLPG, CPU_BASED_INVLPG_EXITING),
      (EXIT_REASON_RDPMC, CPU_BASED_RDPMC_EXITING), (EXIT_REASON_RDTSC, CPU_BASED_RDTSC_EXITING),
      (EXIT_REASON_DR_ACCESS, CPU_BASED_MOV_DR_EXITING), (EXIT_REASON_MWAIT_INSTRUCTION, CPU_BASED_MWAIT_EXITING),
      (EXIT_REASON_MONITOR_INSTRUCTION, CPU_BASED_MONITOR_EXITING)]"

definition exit_controls2 :: "(u32 \<times> u32) list" where
  "exit_controls2 =
     [(EXIT_REASON_APIC_ACCESS, SECONDARY_EXEC_VIRTUALIZE_APIC_ACCESSES), (EXIT_REASON_WBINVD, SECONDARY_EXEC_WBINVD_EXITING)]"

definition exception_handled :: "'x nested_lib \<Rightarrow> u64 \<Rightarrow> u32 \<Rightarrow> nested_vcpu \<Rightarrow> bool" where
  "exception_handled L p intr_info s =
     (if \<not> is_exception intr_info then False
      else if is_page_fault intr_info then enable_ept (nenv L)
      else if is_no_device intr_info \<and> v12_64 VMCS12_guest_cr0 p s AND X86_CR0_TS = 0 then False
      else v12_32 VMCS12_exception_bitmap p s AND push_bit (unat (intr_info AND INTR_INFO_VECTOR_MASK) mod 32) 1 \<noteq> 0)"

text \<open>\<open>failed\<close> is \<^verbatim>\<open>vmx->fail\<close>. Every reason that is not listed is the nested hypervisor's, among them the
  VMX instructions, \<^verbatim>\<open>CPUID\<close>, \<^verbatim>\<open>INVD\<close>, task switches and triple faults.\<close>

definition nested_vmx_exit_handled :: "'x nested_lib \<Rightarrow> bool \<Rightarrow> u64 \<Rightarrow> nested_vcpu \<Rightarrow> bool \<times> nested_vcpu" where
  "nested_vmx_exit_handled L failed p s =
     (let exit_reason = vmx_exit_reason (nv s); intr_info = vmcs_read32 VM_EXIT_INTR_INFO (nv s)
      in if nested_run_pending (nv s) then (False, s)
         else if failed then (True, s)
         else if exit_reason = EXIT_REASON_EXCEPTION_NMI then (exception_handled L p intr_info s, s)
         else if exit_reason \<in> {EXIT_REASON_EXTERNAL_INTERRUPT, EXIT_REASON_MCE_DURING_VMENTRY,
                                EXIT_REASON_EPT_VIOLATION, EXIT_REASON_EPT_MISCONFIG} then (False, s)
         else if exit_reason = EXIT_REASON_CR_ACCESS then nested_vmx_exit_handled_cr L p s
         else if exit_reason = EXIT_REASON_IO_INSTRUCTION then (nested_vmx_exit_handled_io L p s, s)
         else if exit_reason = EXIT_REASON_MSR_READ \<or> exit_reason = EXIT_REASON_MSR_WRITE
         then (nested_vmx_exit_handled_msr L p exit_reason s, s)
         else if exit_reason = EXIT_REASON_PAUSE_INSTRUCTION
         then (nested_cpu_has p CPU_BASED_PAUSE_EXITING s \<or> nested_cpu_has2 p SECONDARY_EXEC_PAUSE_LOOP_EXITING s, s)
         else if exit_reason = EXIT_REASON_PREEMPTION_TIMER
         then (v12_32 VMCS12_pin_based_vm_exec_control p s AND PIN_BASED_VMX_PREEMPTION_TIMER \<noteq> 0, s)
         else (case map_of exit_controls exit_reason of
                 Some b \<Rightarrow> (nested_cpu_has p b s, s)
               | None \<Rightarrow>
                   (case map_of exit_controls2 exit_reason of
                      Some b \<Rightarrow> (nested_cpu_has2 p b s, s)
                    | None \<Rightarrow> (True, s))))"

text \<open>The timer of a nested guest counts on while the hypervisor below runs: \<open>timer\<close> is the field
  \<^verbatim>\<open>VMX_PREEMPTION_TIMER_VALUE\<close>, \<open>misc\<close> the MSR with the rate, \<open>x\<close> the state of the clock. The difference
  is cut to 32 bits after the shift.\<close>

definition nested_adjust_preemption_timer ::
    "clock_lib \<Rightarrow> u64 \<Rightarrow> u64 \<Rightarrow> nested_vcpu \<Rightarrow> 'z clock_vcpu_scheme \<Rightarrow> u32 \<Rightarrow> u32" where
  "nested_adjust_preemption_timer K misc p s x timer =
     (if v12_32 VMCS12_pin_based_vm_exec_control p s AND PIN_BASED_VMX_PREEMPTION_TIMER = 0 then timer
      else
        (let preempt_scale = unat (misc AND 0x1F);
             delta_tsc_l1 = vmx_read_l1_tsc (native_tsc K) x - last_guest_tsc x;
             preempt_val_l1 = ucast (drop_bit preempt_scale delta_tsc_l1) :: u32
         in if timer \<le> preempt_val_l1 then 0 else timer - preempt_val_l1))"

subsection \<open>Handling an exit\<close>

datatype exit_handler =
    handle_exception | handle_external_interrupt | handle_triple_fault | handle_nmi_window | handle_io | handle_cr
  | handle_dr | handle_cpuid | handle_rdmsr_exit | handle_wrmsr_exit | handle_interrupt_window | handle_halt | handle_invd
  | handle_invlpg | handle_rdpmc | handle_vmcall | handle_vmclear_exit | handle_vmlaunch | handle_vmptrld_exit
  | handle_vmptrst_exit | handle_vmread_exit | handle_vmresume | handle_vmwrite_exit | handle_vmoff_exit
  | handle_vmon_exit | handle_tpr_below_threshold | handle_apic_access | handle_apic_write | handle_apic_eoi_induced
  | handle_wbinvd | handle_xsetbv | handle_task_switch | handle_machine_check | handle_ept_violation
  | handle_ept_misconfig | handle_pause | handle_invalid_op | handle_invept_exit | handle_invvpid_exit

definition kvm_vmx_exit_handlers :: "(u32 \<times> exit_handler) list" where
  "kvm_vmx_exit_handlers =
     [(0, handle_exception), (1, handle_external_interrupt), (2, handle_triple_fault), (8, handle_nmi_window),
      (30, handle_io), (28, handle_cr), (29, handle_dr), (10, handle_cpuid), (31, handle_rdmsr_exit),
      (32, handle_wrmsr_exit), (7, handle_interrupt_window), (12, handle_halt), (13, handle_invd),
      (14, handle_invlpg), (15, handle_rdpmc), (18, handle_vmcall), (19, handle_vmclear_exit), (20, handle_vmlaunch),
      (21, handle_vmptrld_exit), (22, handle_vmptrst_exit), (23, handle_vmread_exit), (24, handle_vmresume),
      (25, handle_vmwrite_exit), (26, handle_vmoff_exit), (27, handle_vmon_exit), (43, handle_tpr_below_threshold),
      (44, handle_apic_access), (56, handle_apic_write), (45, handle_apic_eoi_induced), (54, handle_wbinvd),
      (55, handle_xsetbv), (9, handle_task_switch), (41, handle_machine_check), (48, handle_ept_violation),
      (49, handle_ept_misconfig), (40, handle_pause), (36, handle_invalid_op), (39, handle_invalid_op),
      (50, handle_invept_exit), (53, handle_invvpid_exit)]"

text \<open>What is done with an exit: the emulator runs the guest whose state is invalid, the exit is reflected to the
  nested hypervisor, user space is told (a failed entry with a reason, or an error of event delivery with two
  words), a handler is called, or the reason is unknown.\<close>

datatype exit_outcome = Emulate_state | Reflected | Fail_entry u64 | Delivery_error u32 u32 | Handler exit_handler | Unexpected

definition unblock_soft_nmi :: "'x nested_lib \<Rightarrow> nested_vcpu \<Rightarrow> nested_vcpu option" where
  "unblock_soft_nmi L s =
     (let v = nv s;
          open = on_vcpu (\<lambda>v. v\<lparr>soft_vnmi_blocked := False\<rparr>) s;
          late = (if vmx_interrupt_allowed v \<or> vnmi_blocked_time v > 1000000000 \<and> nmi_pending v \<noteq> 0 then open else s)
      in if has_virtual_nmis (nenv L) \<or> \<not> soft_vnmi_blocked v then Some s
         else if \<not> in_guest_mode v then Some late
         else map_option
                (\<lambda>p. if v12_32 VMCS12_pin_based_vm_exec_control p s AND PIN_BASED_VIRTUAL_NMIS \<noteq> 0 then s else late)
                (current_vmcs12 s))"

definition reflects :: "'x nested_lib \<Rightarrow> bool \<Rightarrow> nested_vcpu \<Rightarrow> (bool \<times> nested_vcpu) option" where
  "reflects L failed s =
     (if \<not> in_guest_mode (nv s) then Some (False, s)
      else map_option (\<lambda>p. nested_vmx_exit_handled L failed p s) (current_vmcs12 s))"

definition vmx_handle_exit ::
    "'x nested_lib \<Rightarrow> bool \<Rightarrow> u32 \<Rightarrow> nested_vcpu \<Rightarrow> (exit_outcome \<times> nested_vcpu) option" where
  "vmx_handle_exit L failed insn_error s0 =
     (let exit_reason = vmx_exit_reason (nv s0); vectoring_info = idt_vectoring_info (nv s0)
      in if emulation_req (nv s0) then Some (Emulate_state, s0)
         else case reflects L failed s0 of
                None \<Rightarrow> None
              | Some (True, s) \<Rightarrow>
                  Some (Reflected, on_vcpu (\<lambda>v. nested_vmx_vmexit (nenv L) exit_reason
                          (vmcs_read32 VM_EXIT_INTR_INFO v) (vmcs_readl EXIT_QUALIFICATION v) v) s)
              | Some (False, s) \<Rightarrow>
                  if bit exit_reason 31 then Some (Fail_entry (ucast exit_reason), s)
                  else if failed then Some (Fail_entry (ucast insn_error), s)
                  else if vectoring_info AND INTR_INFO_VALID_MASK \<noteq> 0 \<and>
                          exit_reason \<notin> {EXIT_REASON_EXCEPTION_NMI, EXIT_REASON_EPT_VIOLATION, EXIT_REASON_TASK_SWITCH}
                  then Some (Delivery_error vectoring_info exit_reason, s)
                  else
                    (case unblock_soft_nmi L s of
                       None \<Rightarrow> None
                     | Some s1 \<Rightarrow>
                         (case map_of kvm_vmx_exit_handlers exit_reason of
                            Some h \<Rightarrow> Some (Handler h, s1)
                          | None \<Rightarrow> Some (Unexpected, on_vcpu (kvm_queue_exception UD_VECTOR) s1))))"

end
