(* ===== verification/Vmx_Bitmap_Theorems.thy ===== *)
theory Vmx_Bitmap_Theorems
  imports Vmx_Bitmaps "HOL-Library.Multiset"
begin

text \<open>
  The identifiers of virtual processors are handed out at most once, the MSR bitmaps intercept what the
  architecture's layout says they do, and every page of the module is given back once.
\<close>

subsection \<open>Identifiers\<close>

lemma zero_bit_from: "n \<le> zero_bit_from bm n k" "zero_bit_from bm n k \<le> n + k"
  "zero_bit_from bm n k < n + k \<Longrightarrow> \<not> bm (zero_bit_from bm n k)"
  by (induction bm n k rule: zero_bit_from.induct) (auto split: if_splits)

lemma before_zero_bit: "i < zero_bit_from bm n k \<Longrightarrow> n \<le> i \<Longrightarrow> bm i"
proof (induction bm n k rule: zero_bit_from.induct)
  case (2 bm n k)
  then show ?case by (cases "n = i") (auto split: if_splits)
qed simp

lemma find_first_zero_bit:
  "find_first_zero_bit bm n < n \<Longrightarrow> \<not> bm (find_first_zero_bit bm n)"
  "find_first_zero_bit bm n < n \<longleftrightarrow> (\<exists>i < n. \<not> bm i)"
proof -
  let ?i = "find_first_zero_bit bm n"
  have le: "?i \<le> n" using zero_bit_from(2)[of bm 0 n] by (simp add: find_first_zero_bit_def)
  show z: "\<not> bm ?i" if "?i < n"
    using zero_bit_from(3)[of bm 0 n] that by (simp add: find_first_zero_bit_def)
  have "bm i" if "i < ?i" for i using before_zero_bit[of i bm 0 n] that by (simp add: find_first_zero_bit_def)
  then show "?i < n \<longleftrightarrow> (\<exists>i < n. \<not> bm i)" using z le by (metis le_neq_implies_less)
qed

text \<open>Requests of vCPUs: the vCPU \<open>i\<close> is created or destroyed.\<close>

datatype vpid_request = Create nat | Destroy nat

text \<open>The bitmap and the vCPUs that exist; the request of a vCPU that exists already, or does not, is not made.\<close>

type_synonym vpid_state = "bitmap \<times> (nat \<rightharpoonup> vcpu)"

fun vpid_step :: "bool \<Rightarrow> (nat \<Rightarrow> vcpu) \<Rightarrow> vpid_request \<Rightarrow> vpid_state \<Rightarrow> vpid_state" where
  "vpid_step en new (Create i) (bm, vs) =
     (case vs i of Some _ \<Rightarrow> (bm, vs)
      | None \<Rightarrow> (case allocate_vpid en bm (new i) of (bm', v) \<Rightarrow> (bm', vs(i \<mapsto> v))))"
| "vpid_step en new (Destroy i) (bm, vs) =
     (case vs i of None \<Rightarrow> (bm, vs) | Some v \<Rightarrow> (free_vpid en bm v, vs(i := None)))"

text \<open>The bitmap is full exactly at 0 and at the identifiers in use, and no two vCPUs share one.\<close>

definition vpid_in_use :: "(nat \<rightharpoonup> vcpu) \<Rightarrow> nat \<Rightarrow> nat" where
  "vpid_in_use vs i = (case vs i of None \<Rightarrow> 0 | Some v \<Rightarrow> unat (vpid v))"

definition ids_ok :: "bitmap \<Rightarrow> (nat \<Rightarrow> nat) \<Rightarrow> bool" where
  "ids_ok bm ids \<longleftrightarrow>
     (\<forall>n < VMX_NR_VPIDS. bm n \<longleftrightarrow> n = 0 \<or> (\<exists>i. ids i = n)) \<and> (\<forall>i j. ids i = ids j \<longrightarrow> ids i = 0 \<or> i = j)"

definition vpids_ok :: "bool \<Rightarrow> vpid_state \<Rightarrow> bool" where
  "vpids_ok en st \<longleftrightarrow> ids_ok (fst st) (vpid_in_use (snd st)) \<and> (\<not> en \<longrightarrow> (\<forall>i. vpid_in_use (snd st) i = 0))"

lemma ids_ok_add:
  assumes "ids_ok bm ids" "ids i = 0" "\<not> bm x" "x < VMX_NR_VPIDS"
  shows "ids_ok (bm(x := True)) (ids(i := x))"
proof -
  have used: "bm n \<longleftrightarrow> n = 0 \<or> (\<exists>j. ids j = n)" if "n < VMX_NR_VPIDS" for n using assms(1) that by (simp add: ids_ok_def)
  have inj: "ids j = 0 \<or> j = k" if "ids j = ids k" for j k using assms(1) that by (simp add: ids_ok_def)
  have x: "x \<noteq> 0" "ids j \<noteq> x" for j using used[OF assms(4)] assms(3) by auto
  have "(bm(x := True)) n \<longleftrightarrow> n = 0 \<or> (\<exists>j. (ids(i := x)) j = n)" if n: "n < VMX_NR_VPIDS" for n
  proof (cases "n = x \<or> n = 0")
    case False
    then have "(\<exists>j. (ids(i := x)) j = n) \<longleftrightarrow> (\<exists>j. ids j = n)" using assms(2) by (metis fun_upd_apply)
    then show ?thesis using False used[OF n] by simp
  qed (use used[OF n] in auto)
  moreover have "(ids(i := x)) j = 0 \<or> j = k" if "(ids(i := x)) j = (ids(i := x)) k" for j k
    using inj[of j k] x(2)[of j] x(2)[of k] that by (simp split: if_splits)
  ultimately show ?thesis unfolding ids_ok_def by blast
qed

lemma ids_ok_remove:
  assumes "ids_ok bm ids" "ids i \<noteq> 0"
  shows "ids_ok (bm(ids i := False)) (ids(i := 0))"
proof -
  have used: "bm n \<longleftrightarrow> n = 0 \<or> (\<exists>j. ids j = n)" if "n < VMX_NR_VPIDS" for n using assms(1) that by (simp add: ids_ok_def)
  have inj: "ids j = 0 \<or> j = k" if "ids j = ids k" for j k using assms(1) that by (simp add: ids_ok_def)
  have "(bm(ids i := False)) n \<longleftrightarrow> n = 0 \<or> (\<exists>j. (ids(i := 0)) j = n)" if n: "n < VMX_NR_VPIDS" for n
  proof (cases "n = ids i")
    case True
    then have "(ids(i := 0)) j \<noteq> n" for j using inj[of j i] assms(2) by auto
    then show ?thesis using True assms(2) by simp
  next
    case False
    then have "n = 0 \<or> (\<exists>j. (ids(i := 0)) j = n) \<longleftrightarrow> n = 0 \<or> (\<exists>j. ids j = n)" by (metis fun_upd_apply)
    then show ?thesis using False used[OF n] by simp
  qed
  moreover have "(ids(i := 0)) j = 0 \<or> j = k" if "(ids(i := 0)) j = (ids(i := 0)) k" for j k
    using inj[of j k] that by (simp split: if_splits)
  ultimately show ?thesis unfolding ids_ok_def by blast
qed

lemma vpid_small: "unat (vpid v) < VMX_NR_VPIDS"
  using unsigned_less[of "vpid v"] by (simp add: VMX_NR_VPIDS_def)

lemma allocated_vpid:
  assumes "allocate_vpid en bm v = (bm', w)" "bm 0"
  shows "(vpid w = 0 \<and> bm' = bm) \<or> (vpid w \<noteq> 0 \<and> \<not> bm (unat (vpid w)) \<and> bm' = bm(unat (vpid w) := True))"
    "vpid w = 0 \<longleftrightarrow> \<not> en \<or> (\<forall>n < VMX_NR_VPIDS. bm n)"
proof -
  let ?i = "find_first_zero_bit bm VMX_NR_VPIDS"
  have i: "?i < VMX_NR_VPIDS \<longleftrightarrow> (\<exists>n < VMX_NR_VPIDS. \<not> bm n)" by (rule find_first_zero_bit(2))
  show "(vpid w = 0 \<and> bm' = bm) \<or> (vpid w \<noteq> 0 \<and> \<not> bm (unat (vpid w)) \<and> bm' = bm(unat (vpid w) := True))"
    and "vpid w = 0 \<longleftrightarrow> \<not> en \<or> (\<forall>n < VMX_NR_VPIDS. bm n)"
  proof (atomize (full), cases "en \<and> ?i < VMX_NR_VPIDS")
    case True
    then have z: "\<not> bm ?i" "?i \<noteq> 0" using find_first_zero_bit(1)[of bm VMX_NR_VPIDS] assms(2) by metis+
    have u: "unat (word_of_nat ?i :: u16) = ?i" using True by (simp add: VMX_NR_VPIDS_def unat_of_nat)
    then have "(word_of_nat ?i :: u16) \<noteq> 0" using z(2) by (metis unat_0)
    moreover have "bm' = bm(?i := True)" "vpid w = word_of_nat ?i"
      using assms(1) True by (auto simp: allocate_vpid_def Let_def set_bitmap_def)
    ultimately show "((vpid w = 0 \<and> bm' = bm) \<or> (vpid w \<noteq> 0 \<and> \<not> bm (unat (vpid w)) \<and> bm' = bm(unat (vpid w) := True))) \<and>
        (vpid w = 0 \<longleftrightarrow> \<not> en \<or> (\<forall>n < VMX_NR_VPIDS. bm n))"
      using True i u z(1) by auto
  next
    case False
    then have "vpid w = 0 \<and> bm' = bm" using assms(1) by (auto simp: allocate_vpid_def Let_def split: if_splits)
    then show "((vpid w = 0 \<and> bm' = bm) \<or> (vpid w \<noteq> 0 \<and> \<not> bm (unat (vpid w)) \<and> bm' = bm(unat (vpid w) := True))) \<and>
        (vpid w = 0 \<longleftrightarrow> \<not> en \<or> (\<forall>n < VMX_NR_VPIDS. bm n))"
      using False i by auto
  qed
qed

lemma in_use_upd: "vpid_in_use (vs(i \<mapsto> v)) = (vpid_in_use vs)(i := unat (vpid v))"
  "vpid_in_use (vs(i := None)) = (vpid_in_use vs)(i := 0)"
  by (auto simp: vpid_in_use_def)

lemma vpids_ok_step:
  assumes ok: "vpids_ok en st"
  shows "vpids_ok en (vpid_step en new r st)"
proof -
  obtain bm vs where st: "st = (bm, vs)" by (cases st)
  have ids: "ids_ok bm (vpid_in_use vs)" and off: "\<not> en \<Longrightarrow> vpid_in_use vs i = 0" for i
    using ok by (simp_all add: vpids_ok_def st)
  then have b0: "bm 0" by (simp add: ids_ok_def VMX_NR_VPIDS_def)
  show ?thesis
  proof (cases r)
    case (Create i)
    show ?thesis
    proof (cases "vs i")
      case None
      then have z: "vpid_in_use vs i = 0" by (simp add: vpid_in_use_def)
      then have same: "(vpid_in_use vs)(i := 0) = vpid_in_use vs" by auto
      obtain bm' w where a: "allocate_vpid en bm (new i) = (bm', w)" by fastforce
      have "ids_ok bm' (vpid_in_use (vs(i \<mapsto> w)))"
        using allocated_vpid(1)[OF a b0] ids ids_ok_add[OF ids z _ vpid_small] by (auto simp: in_use_upd same)
      moreover have "vpid_in_use (vs(i \<mapsto> w)) j = 0" if "\<not> en" for j
        using off[OF that, of j] allocated_vpid(2)[OF a b0] that by (simp add: in_use_upd)
      ultimately show ?thesis using None by (simp add: Create st a vpids_ok_def)
    qed (use ok in \<open>simp add: Create st\<close>)
  next
    case (Destroy i)
    show ?thesis
    proof (cases "vs i")
      case (Some v)
      then have u: "vpid_in_use vs i = unat (vpid v)" by (simp add: vpid_in_use_def)
      show ?thesis
      proof (cases "vpid v = 0 \<or> \<not> en")
        case True
        then have "(vpid_in_use vs)(i := 0) = vpid_in_use vs" using u off[of i] by auto
        then show ?thesis using ids Some True off by (auto simp: Destroy st vpids_ok_def free_vpid_def in_use_upd)
      next
        case False
        then show ?thesis
          using ids_ok_remove[OF ids, of i] u Some
          by (simp add: Destroy st vpids_ok_def free_vpid_def in_use_upd clear_bit_def unat_eq_zero)
      qed
    qed (use ok in \<open>simp add: Destroy st\<close>)
  qed
qed

lemma vpids_state:
  fixes en new rs
  defines "st \<equiv> fold (vpid_step en new) rs (set_bitmap 0 (\<lambda>_. False), \<lambda>_. None)"
  shows "snd st i = Some v \<Longrightarrow> snd st j = Some w \<Longrightarrow> vpid v = vpid w \<Longrightarrow> vpid v = 0 \<or> i = j"
    and "n < VMX_NR_VPIDS \<Longrightarrow> fst st n \<longleftrightarrow> n = 0 \<or> (\<exists>k u. snd st k = Some u \<and> unat (vpid u) = n)"
    and "snd (allocate_vpid en (fst st) u) = v' \<Longrightarrow> vpid v' = 0 \<longleftrightarrow>
      \<not> en \<or> (\<forall>m < VMX_NR_VPIDS. m \<noteq> 0 \<longrightarrow> (\<exists>k u. snd st k = Some u \<and> unat (vpid u) = m))"
proof -
  have "vpids_ok en (fold (vpid_step en new) rs st0)" if "vpids_ok en st0" for st0
    using that by (induction rs arbitrary: st0) (simp_all add: vpids_ok_step)
  moreover have "vpids_ok en (set_bitmap 0 (\<lambda>_. False), \<lambda>_. None)"
    by (auto simp: vpids_ok_def ids_ok_def vpid_in_use_def set_bitmap_def)
  ultimately have ok: "vpids_ok en st" by (simp add: st_def)
  have u: "vpid_in_use (snd st) k = n \<longleftrightarrow> (\<exists>u. snd st k = Some u \<and> unat (vpid u) = n)" if "n \<noteq> 0" for n k
    using that by (auto simp: vpid_in_use_def split: option.splits)
  have "vpid_in_use (snd st) i = vpid_in_use (snd st) j \<Longrightarrow> vpid_in_use (snd st) i = 0 \<or> i = j"
    using ok by (simp add: vpids_ok_def ids_ok_def)
  then show "snd st i = Some v \<Longrightarrow> snd st j = Some w \<Longrightarrow> vpid v = vpid w \<Longrightarrow> vpid v = 0 \<or> i = j"
    by (auto simp: vpid_in_use_def unat_eq_zero)
  show used: "fst st n \<longleftrightarrow> n = 0 \<or> (\<exists>k u. snd st k = Some u \<and> unat (vpid u) = n)" if "n < VMX_NR_VPIDS" for n
    using ok that u[of n] by (cases "n = 0") (simp_all add: vpids_ok_def ids_ok_def)
  obtain bm' w' where a: "allocate_vpid en (fst st) u = (bm', w')" by fastforce
  have "fst st 0" using used[of 0] by (simp add: VMX_NR_VPIDS_def)
  then show "snd (allocate_vpid en (fst st) u) = v' \<Longrightarrow> vpid v' = 0 \<longleftrightarrow>
      \<not> en \<or> (\<forall>m < VMX_NR_VPIDS. m \<noteq> 0 \<longrightarrow> (\<exists>k u. snd st k = Some u \<and> unat (vpid u) = m))"
    using allocated_vpid(2)[OF a] used by (auto simp: a)
qed

text \<open>C39: Whatever vCPUs are created and destroyed, two of them never have the same identifier other than 0, 0
  is given only when identifiers are off or all are in use, and the bitmap holds exactly those in use.\<close>

theorem vpids_distinct:
  fixes en new rs
  defines "st \<equiv> fold (vpid_step en new) rs (set_bitmap 0 (\<lambda>_. False), \<lambda>_. None)"
  shows "(\<forall>i j v w. snd st i = Some v \<longrightarrow> snd st j = Some w \<longrightarrow> vpid v = vpid w \<longrightarrow> vpid v = 0 \<or> i = j) \<and>
    (\<forall>n < VMX_NR_VPIDS. fst st n \<longleftrightarrow> n = 0 \<or> (\<exists>k u. snd st k = Some u \<and> unat (vpid u) = n)) \<and>
    (\<forall>u. vpid (snd (allocate_vpid en (fst st) u)) = 0 \<longleftrightarrow>
      \<not> en \<or> (\<forall>m < VMX_NR_VPIDS. m \<noteq> 0 \<longrightarrow> (\<exists>k u. snd st k = Some u \<and> unat (vpid u) = m)))"
  unfolding st_def using vpids_state(1,2)[where en = en and new = new and rs = rs]
    vpids_state(3)[OF refl, where en = en and new = new and rs = rs] by blast

subsection \<open>Intercepted MSRs\<close>

text \<open>The architecture's layout of the page: the number of the bit of an MSR, or none for an MSR that is always
  intercepted.\<close>

definition msr_bit :: "u32 \<Rightarrow> bool \<Rightarrow> nat option" where
  "msr_bit msr write =
     (if msr \<le> 0x1FFF then Some ((if write then 0x4000 else 0) + unat msr)
      else if 0xC0000000 \<le> msr \<and> msr \<le> 0xC0001FFF
      then Some ((if write then 0x6000 else 0x2000) + unat (msr - 0xC0000000))
      else None)"

definition intercepted :: "bitmap \<Rightarrow> u32 \<Rightarrow> bool \<Rightarrow> bool" where
  "intercepted bm msr write = (case msr_bit msr write of None \<Rightarrow> True | Some n \<Rightarrow> bm n)"

lemma high_offset:
  assumes "0xC0000000 \<le> msr" "msr \<le> (0xC0001FFF :: u32)"
  shows "msr AND 0x1FFF = msr - 0xC0000000" "unat (msr - 0xC0000000) < 0x2000"
proof -
  have m: "(0x1FFF :: u32) = mask 13" by (simp add: mask_eq_exp_minus_1)
  have l: "msr - 0xC0000000 \<le> 0x1FFF" using assms by unat_arith
  then show l': "unat (msr - 0xC0000000) < 0x2000" by (simp add: word_le_nat_alt)
  have "unat msr = 0xC0000000 + unat (msr - 0xC0000000)"
    using assms(1) by (simp add: unat_sub word_le_nat_alt)
  then have "unat (take_bit 13 msr) = unat (msr - 0xC0000000) mod 8192"
    unfolding unsigned_take_bit_eq by (simp add: take_bit_nat_def mod_add_eq[symmetric])
  then have "unat (take_bit 13 msr) = unat (msr - 0xC0000000)" using l' by simp
  then have "take_bit 13 msr = msr - 0xC0000000" by (rule unsigned_word_eqI)
  then show "msr AND 0x1FFF = msr - 0xC0000000" by (simp add: m take_bit_eq_mask)
qed

lemma msr_bit_inj: "msr_bit a w = Some n \<Longrightarrow> msr_bit b x = Some n \<Longrightarrow> a = b \<and> w = x"
proof -
  assume h: "msr_bit a w = Some n" "msr_bit b x = Some n"
  have lo: "c \<le> 0x1FFF \<Longrightarrow> unat c < 0x2000" for c :: u32 by (simp add: word_le_nat_alt)
  show "a = b \<and> w = x"
    using h lo[of a] lo[of b] high_offset(2)[of a] high_offset(2)[of b]
    by (auto simp: msr_bit_def dest!: unsigned_word_eqI split: if_splits)
qed

definition of_type :: "nat \<Rightarrow> bool \<Rightarrow> bool" where
  "of_type t write \<longleftrightarrow> (if write then t AND MSR_TYPE_W \<noteq> 0 else t AND MSR_TYPE_R \<noteq> 0)"

lemma intercept_bits:
  "disable_intercept_for_msr has m t bm n \<longleftrightarrow> bm n \<and> \<not> (has \<and> (\<exists>w. of_type t w \<and> msr_bit m w = Some n))"
  "enable_intercept_for_msr has m t bm n \<longleftrightarrow> bm n \<or> (has \<and> (\<exists>w. of_type t w \<and> msr_bit m w = Some n))"
  by (auto simp: disable_intercept_for_msr_def enable_intercept_for_msr_def Let_def clear_bit_def set_bitmap_def
      msr_bit_def of_type_def high_offset ex_bool_eq)

lemma intercepted_upd:
  "intercepted (disable_intercept_for_msr has m t bm) msr write \<longleftrightarrow>
     intercepted bm msr write \<and> \<not> (has \<and> msr = m \<and> of_type t write \<and> msr_bit m write \<noteq> None)"
  "intercepted (enable_intercept_for_msr has m t bm) msr write \<longleftrightarrow>
     intercepted bm msr write \<or> has \<and> msr = m \<and> of_type t write"
proof -
  have same: "msr = m \<and> write = w" if "msr_bit msr write = Some n" "msr_bit m w = Some n" for n w
    using msr_bit_inj that by blast
  have e: "(\<exists>w. of_type t w \<and> msr_bit m w = Some n) \<longleftrightarrow> msr = m \<and> of_type t write" if "msr_bit msr write = Some n" for n
    using same[OF that] that by blast
  show "intercepted (disable_intercept_for_msr has m t bm) msr write \<longleftrightarrow>
      intercepted bm msr write \<and> \<not> (has \<and> msr = m \<and> of_type t write \<and> msr_bit m write \<noteq> None)"
    by (cases "msr_bit msr write") (auto simp: intercepted_def intercept_bits e)
  show "intercepted (enable_intercept_for_msr has m t bm) msr write \<longleftrightarrow>
      intercepted bm msr write \<or> has \<and> msr = m \<and> of_type t write"
    by (cases "msr_bit msr write") (auto simp: intercepted_def intercept_bits e)
qed

lemma of_type_simps [simp]: "of_type MSR_TYPE_R w \<longleftrightarrow> \<not> w" "of_type MSR_TYPE_W w \<longleftrightarrow> w"
    "of_type (MSR_TYPE_R OR MSR_TYPE_W) w"
  by (simp_all add: of_type_def MSR_TYPE_R_def MSR_TYPE_W_def)

lemma msr_bit_low: "m \<le> 0x1FFF \<Longrightarrow> msr_bit m w \<noteq> None"
  by (simp add: msr_bit_def)

lemma intercepted_ones [simp]: "intercepted ones m w"
  by (simp add: intercepted_def ones_def split: option.splits)

definition opened :: "u32 set" where "opened = {0xC0000100, 0xC0000101, 0x174, 0x175, 0x176}"

lemma open_msrs_bits:
  "intercepted (msr_bitmap_legacy (open_msrs has P)) m w \<longleftrightarrow> intercepted (msr_bitmap_legacy P) m w \<and> \<not> (has \<and> m \<in> opened)"
  "intercepted (msr_bitmap_longmode (open_msrs has P)) m w \<longleftrightarrow>
     intercepted (msr_bitmap_longmode P) m w \<and> \<not> (has \<and> (m \<in> opened \<or> m = 0xC0000102))"
  "msr_bitmap_legacy_x2apic (open_msrs has P) = msr_bitmap_legacy (open_msrs has P)"
  "msr_bitmap_longmode_x2apic (open_msrs has P) = msr_bitmap_longmode (open_msrs has P)"
  by (auto simp: open_msrs_def Let_def vmx_disable_intercept_for_msr_def intercepted_upd opened_def msr_bit_def)

lemma read_x2apic_fold:
  fixes bits :: "vmx_pages \<Rightarrow> bitmap"
  assumes "\<And>P a. bits (vmx_disable_intercept_msr_read_x2apic has a P) = disable_intercept_for_msr has a MSR_TYPE_R (bits P)"
  shows "intercepted (bits (fold (\<lambda>a. vmx_disable_intercept_msr_read_x2apic has (of_nat a)) ms P)) m w \<longleftrightarrow>
    intercepted (bits P) m w \<and> \<not> (has \<and> \<not> w \<and> m \<in> of_nat ` set ms \<and> msr_bit m w \<noteq> None)"
  by (induction ms arbitrary: P) (auto simp: assms intercepted_upd)

text \<open>The registers of the interrupt controller that are read, or written, without an exit.\<close>

definition apic_open :: "u32 \<Rightarrow> bool \<Rightarrow> bool" where
  "apic_open m w \<longleftrightarrow> (if w then m \<in> {0x808, 0x80B, 0x83F} else 0x800 \<le> m \<and> m < 0x900 \<and> m \<notin> {0x802, 0x839})"

lemma apic_range: "m \<in> of_nat ` {0x800..<0x900} \<longleftrightarrow> 0x800 \<le> m \<and> m < (0x900 :: u32)"
proof
  assume "0x800 \<le> m \<and> m < (0x900 :: u32)"
  then have "unat m \<in> {0x800..<0x900}" by (simp add: word_le_nat_alt word_less_nat_alt)
  then show "m \<in> of_nat ` {0x800..<0x900}" by (intro image_eqI[of _ _ "unat m"]) simp_all
qed (auto simp: word_le_nat_alt word_less_nat_alt unat_of_nat)

lemma fill_x2apic_bits:
  fixes bits :: "vmx_pages \<Rightarrow> bitmap"
  assumes b: "\<And>P a. bits (vmx_disable_intercept_msr_read_x2apic has a P) = disable_intercept_for_msr has a MSR_TYPE_R (bits P)"
    "\<And>P a. bits (vmx_enable_intercept_msr_read_x2apic has a P) = enable_intercept_for_msr has a MSR_TYPE_R (bits P)"
    "\<And>P a. bits (vmx_disable_intercept_msr_write_x2apic has a P) = disable_intercept_for_msr has a MSR_TYPE_W (bits P)"
    and all: "intercepted (bits P) 0x802 False" "intercepted (bits P) 0x839 False"
  shows "intercepted (bits (fill_x2apic has P)) m w \<longleftrightarrow> intercepted (bits P) m w \<and> \<not> (has \<and> apic_open m w)"
proof -
  define Q where "Q = fold (\<lambda>a. vmx_disable_intercept_msr_read_x2apic has (of_nat a)) [0x800..<0x900] P"
  have q: "intercepted (bits Q) m w \<longleftrightarrow>
      intercepted (bits P) m w \<and> \<not> (has \<and> \<not> w \<and> 0x800 \<le> m \<and> m < 0x900 \<and> msr_bit m w \<noteq> None)"
    unfolding Q_def read_x2apic_fold[where bits = bits, OF b(1)] set_upt by (simp only: apic_range conj_assoc)
  have "intercepted (bits (fill_x2apic has P)) m w \<longleftrightarrow>
      (intercepted (bits Q) m w \<or> has \<and> \<not> w \<and> (m = 0x802 \<or> m = 0x839)) \<and>
      \<not> (has \<and> w \<and> m \<in> {0x808, 0x80B, 0x83F} \<and> msr_bit m w \<noteq> None)"
    unfolding fill_x2apic_def Let_def b intercepted_upd of_type_simps Q_def by blast
  moreover have "m < 0x900 \<Longrightarrow> msr_bit m w \<noteq> None" by (rule msr_bit_low) unat_arith
  ultimately show ?thesis unfolding q apic_open_def using all by (cases w) auto
qed

text \<open>What the later steps leave alone.\<close>

lemma fold_keeps: "(\<And>a P. f (g a P) = f P) \<Longrightarrow> f (fold g xs P) = f P"
  by (induction xs arbitrary: P) simp_all

lemma fill_x2apic_keeps:
  fixes f :: "vmx_pages \<Rightarrow> 'b"
  assumes "\<And>P x y. f (P\<lparr>msr_bitmap_legacy_x2apic := x, msr_bitmap_longmode_x2apic := y\<rparr>) = f P"
  shows "f (fill_x2apic has P) = f P"
proof -
  have k: "f (vmx_disable_intercept_msr_read_x2apic has a P) = f P" "f (vmx_enable_intercept_msr_read_x2apic has a P) = f P"
    "f (vmx_disable_intercept_msr_write_x2apic has a P) = f P" for a P
    using assms by (simp_all add: vmx_disable_intercept_msr_read_x2apic_def vmx_enable_intercept_msr_read_x2apic_def
        vmx_disable_intercept_msr_write_x2apic_def)
  show ?thesis unfolding fill_x2apic_def Let_def k by (rule fold_keeps) (rule k)
qed

lemma fold_clear: "fold clear_bit ns bm n \<longleftrightarrow> bm n \<and> n \<notin> set ns"
  by (induction ns arbitrary: bm) (auto simp: clear_bit_def)

lemma open_msrs_keeps:
  "io_bitmap_a (open_msrs has P) = io_bitmap_a P" "io_bitmap_b (open_msrs has P) = io_bitmap_b P"
  "vmread_bitmap (open_msrs has P) = vmread_bitmap P" "vmwrite_bitmap (open_msrs has P) = vmwrite_bitmap P"
  by (simp_all add: open_msrs_def Let_def vmx_disable_intercept_for_msr_def)

lemma filled:
  "intercepted (msr_bitmap_legacy (fill_bitmaps P)) m w" "intercepted (msr_bitmap_longmode (fill_bitmaps P)) m w"
  "io_bitmap_a (fill_bitmaps P) n \<longleftrightarrow> n \<noteq> 0x80" "io_bitmap_b (fill_bitmaps P) n"
  "vmwrite_bitmap (fill_bitmaps P) n \<longleftrightarrow> n \<notin> set shadow_read_write_fields"
  "vmread_bitmap (fill_bitmaps P) n \<longleftrightarrow> n \<notin> set shadow_read_only_fields \<union> set shadow_read_write_fields"
  by (simp_all add: fill_bitmaps_def Let_def fold_clear) (auto simp: ones_def clear_bit_def)

text \<open>The ports, MSRs and VMCS fields that a guest reaches without an exit.\<close>

definition passes :: "vmx_params \<Rightarrow> bool \<Rightarrow> bool \<Rightarrow> u32 \<Rightarrow> bool \<Rightarrow> bool" where
  "passes p longmode x2apic m w \<longleftrightarrow>
     m \<in> opened \<or> longmode \<and> m = 0xC0000102 \<or> x2apic \<and> par_apicv p \<and> apic_open m w"

lemma init_intercepts:
  assumes "vmx_init get_free_page kvm_init S p P c = (0, P', c')"
  shows "intercepted (msr_bitmap_legacy P') m w \<longleftrightarrow> \<not> (cpu_has_vmx_msr_bitmap S \<and> passes p False False m w)"
    and "intercepted (msr_bitmap_longmode P') m w \<longleftrightarrow> \<not> (cpu_has_vmx_msr_bitmap S \<and> passes p True False m w)"
    and "intercepted (msr_bitmap_legacy_x2apic P') m w \<longleftrightarrow> \<not> (cpu_has_vmx_msr_bitmap S \<and> passes p False True m w)"
    and "intercepted (msr_bitmap_longmode_x2apic P') m w \<longleftrightarrow> \<not> (cpu_has_vmx_msr_bitmap S \<and> passes p True True m w)"
    and "io_bitmap_a P' n \<longleftrightarrow> n \<noteq> 0x80" and "io_bitmap_b P' n"
    and "vmwrite_bitmap P' n \<longleftrightarrow> n \<notin> set shadow_read_write_fields"
    and "vmread_bitmap P' n \<longleftrightarrow> n \<notin> set shadow_read_only_fields \<union> set shadow_read_write_fields"
proof -
  let ?has = "cpu_has_vmx_msr_bitmap S"
  obtain P1 where P': "P' = (let P3 = open_msrs ?has (fill_bitmaps P1) in if par_apicv p then fill_x2apic ?has P3 else P3)"
    using assms by (auto simp: vmx_init_def Let_def split: prod.splits option.splits if_splits)
  let ?O = "open_msrs ?has (fill_bitmaps P1)"
  have other: "f P' = f ?O" if "\<And>P x y. f (P\<lparr>msr_bitmap_legacy_x2apic := x, msr_bitmap_longmode_x2apic := y\<rparr>) = f P"
    for f :: "vmx_pages \<Rightarrow> bitmap" using fill_x2apic_keeps[OF that] by (simp add: P' Let_def)
  have x2: "intercepted (msr_bitmap_legacy_x2apic P') m w \<longleftrightarrow>
        intercepted (msr_bitmap_legacy ?O) m w \<and> \<not> (?has \<and> par_apicv p \<and> apic_open m w)"
      "intercepted (msr_bitmap_longmode_x2apic P') m w \<longleftrightarrow>
        intercepted (msr_bitmap_longmode ?O) m w \<and> \<not> (?has \<and> par_apicv p \<and> apic_open m w)"
    by (simp_all add: P' Let_def open_msrs_bits filled opened_def fill_x2apic_bits[where bits = msr_bitmap_legacy_x2apic]
        fill_x2apic_bits[where bits = msr_bitmap_longmode_x2apic] vmx_disable_intercept_msr_read_x2apic_def
        vmx_enable_intercept_msr_read_x2apic_def vmx_disable_intercept_msr_write_x2apic_def)
  show "intercepted (msr_bitmap_legacy P') m w \<longleftrightarrow> \<not> (?has \<and> passes p False False m w)"
    "intercepted (msr_bitmap_longmode P') m w \<longleftrightarrow> \<not> (?has \<and> passes p True False m w)"
    by (auto simp: other[of msr_bitmap_legacy] other[of msr_bitmap_longmode] open_msrs_bits filled passes_def)
  show "intercepted (msr_bitmap_legacy_x2apic P') m w \<longleftrightarrow> \<not> (?has \<and> passes p False True m w)"
    "intercepted (msr_bitmap_longmode_x2apic P') m w \<longleftrightarrow> \<not> (?has \<and> passes p True True m w)"
    by (auto simp: x2 open_msrs_bits filled passes_def)
  show "io_bitmap_a P' n \<longleftrightarrow> n \<noteq> 0x80" "io_bitmap_b P' n" "vmwrite_bitmap P' n \<longleftrightarrow> n \<notin> set shadow_read_write_fields"
    "vmread_bitmap P' n \<longleftrightarrow> n \<notin> set shadow_read_only_fields \<union> set shadow_read_write_fields"
    by (simp_all add: other[of io_bitmap_a] other[of io_bitmap_b] other[of vmwrite_bitmap] other[of vmread_bitmap]
        open_msrs_keeps filled)
qed

text \<open>C40: After the module is loaded the MSR bitmaps, read with the layout of the architecture, intercept every
  access but those of the system call registers, the segment bases (that of \<^verbatim>\<open>swapgs\<close> in long mode only)
  and, with APIC virtualisation, those of the interrupt controller's registers that need no emulation; the port
  bitmaps intercept every port but 0x80 and the field bitmaps every field that is not shadowed.\<close>

theorem vmx_init_intercepts:
  assumes "vmx_init get_free_page kvm_init S p P c = (0, P', c')"
  defines "open_to \<equiv> \<lambda>longmode x2apic m w. cpu_has_vmx_msr_bitmap S \<and> passes p longmode x2apic m w"
  shows "(\<forall>m w. intercepted (msr_bitmap_legacy P') m w = (\<not> open_to False False m w) \<and>
      intercepted (msr_bitmap_longmode P') m w = (\<not> open_to True False m w) \<and>
      intercepted (msr_bitmap_legacy_x2apic P') m w = (\<not> open_to False True m w) \<and>
      intercepted (msr_bitmap_longmode_x2apic P') m w = (\<not> open_to True True m w)) \<and>
    (\<forall>n. io_bitmap_a P' n = (n \<noteq> 0x80) \<and> io_bitmap_b P' n) \<and>
    (\<forall>n. vmwrite_bitmap P' n = (n \<notin> set shadow_read_write_fields) \<and>
      vmread_bitmap P' n = (n \<notin> set shadow_read_only_fields \<union> set shadow_read_write_fields))"
  using init_intercepts[OF assms(1)] by (simp add: open_to_def)

subsection \<open>Pages\<close>

lemma find_takeWhile:
  "find Q xs = None \<Longrightarrow> takeWhile (\<lambda>i. \<not> Q i) xs = xs"
  "find Q [a..<b] = Some i \<Longrightarrow> takeWhile (\<lambda>i. \<not> Q i) [a..<b] = [a..<i]"
proof -
  show "find Q xs = None \<Longrightarrow> takeWhile (\<lambda>i. \<not> Q i) xs = xs" by (simp add: find_None_iff takeWhile_eq_all_conv)
  assume "find Q [a..<b] = Some i"
  then obtain k where k: "a + k < b" "Q i" "i = a + k" "\<And>j. j < k \<Longrightarrow> \<not> Q (a + j)"
    unfolding find_Some_iff length_upt by (metis add.commute less_diff_conv less_trans nth_upt)
  have "\<not> Q j" if "j \<in> set [a..<i]" for j using k(4)[of "j - a"] that by (simp add: k(3)) linarith
  moreover have "[a..<b] = [a..<i] @ i # [Suc i..<b]"
    using k(1,3) upt_add_eq_append[of a i "b - i"] upt_conv_Cons[of i b] by simp
  ultimately show "takeWhile (\<lambda>i. \<not> Q i) [a..<b] = [a..<i]" using k(2) by (simp add: takeWhile_append2 del: set_upt)
qed

text \<open>Loading that fails gives back every page it had taken, once; loading that succeeds gives back none, and
  unloading then all eight, once.\<close>

theorem bitmap_pages_freed:
  fixes get_free_page kvm_init S p P c
  defines "taken \<equiv> map get_free_page (takeWhile (\<lambda>i. get_free_page i \<noteq> 0) [0..<8])"
  assumes "vmx_init get_free_page kvm_init S p P c = (r, P', c')"
  shows "r \<noteq> 0 \<Longrightarrow> mset (pages_freed P') = mset (pages_freed P) + mset taken"
    and "r = 0 \<Longrightarrow> pages_freed P' = pages_freed P \<and> length taken = 8 \<and>
      mset (pages_freed (vmx_exit P')) = mset (pages_freed P) + mset taken"
proof -
  let ?f = "find (\<lambda>i. get_free_page i = 0) [0..<8]"
  have t: "taken = map get_free_page [0..<(case ?f of None \<Rightarrow> 8 | Some i \<Rightarrow> i)]"
    using find_takeWhile(1)[of "\<lambda>i. get_free_page i = 0" "[0..<8]"] find_takeWhile(2)[of "\<lambda>i. get_free_page i = 0" 0 8]
    by (cases ?f) (simp_all only: taken_def option.case)
  show "r \<noteq> 0 \<Longrightarrow> mset (pages_freed P') = mset (pages_freed P) + mset taken"
    using assms(2) t by (auto simp: vmx_init_def alloc_bitmaps_def fill_bitmaps_def Let_def split: option.splits if_splits)
  assume r: "r = 0"
  define P1 where "P1 = P\<lparr>page_addrs := get_free_page\<rparr>"
  have P1: "pages_freed P1 = pages_freed P" "page_addrs P1 = get_free_page" by (simp_all add: P1_def)
  have n: "?f = None" and P': "P' = (let P3 = open_msrs (cpu_has_vmx_msr_bitmap S) (fill_bitmaps P1)
      in if par_apicv p then fill_x2apic (cpu_has_vmx_msr_bitmap S) P3 else P3)"
    using assms(2) r by (auto simp: vmx_init_def alloc_bitmaps_def Let_def P1_def split: option.splits if_splits)
  have "pages_freed P' = pages_freed P" "page_addrs P' = get_free_page"
    using fill_x2apic_keeps[of pages_freed] fill_x2apic_keeps[of page_addrs]
    by (simp_all add: P' Let_def P1 open_msrs_def vmx_disable_intercept_for_msr_def fill_bitmaps_def)
  then show "pages_freed P' = pages_freed P \<and> length taken = 8 \<and>
      mset (pages_freed (vmx_exit P')) = mset (pages_freed P) + mset taken"
    unfolding t n by (simp add: vmx_exit_def upt_rec numeral_eq_Suc)
qed

end
