(* ===== verification/Nested_Exit_Theorems.thy ===== *)
theory Nested_Exit_Theorems
  imports Nested_Exits Vmx_Bitmap_Theorems
begin

text \<open>
  The decision whether an exit of a nested guest is reflected to its hypervisor agrees with the rules of the
  architecture for the bitmaps of that hypervisor, and the handlers of \<^verbatim>\<open>vmx_handle_exit\<close> are reached
  for their exits only.
\<close>

subsection \<open>Ports\<close>

text \<open>The architecture's rule for one port: the two bitmaps hold a bit for each of the 65536 ports, and an access
  beyond the last port exits. A byte that cannot be read counts as set.\<close>

definition bit_at :: "mem_lib \<Rightarrow> kvm_mem \<Rightarrow> u64 \<Rightarrow> nat \<Rightarrow> bool" where
  "bit_at lib m a n = (case kvm_read_guest lib m a 1 of Inl _ \<Rightarrow> True | Inr bs \<Rightarrow> bit (hd bs) n)"

definition port_bit_addr :: "u64 \<Rightarrow> u64 \<Rightarrow> u32 \<Rightarrow> u64" where
  "port_bit_addr a b port = (if port < 0x8000 then a else b) + ucast (drop_bit 3 (port AND 0x7FFF))"

definition port_exits :: "mem_lib \<Rightarrow> kvm_mem \<Rightarrow> u64 \<Rightarrow> u64 \<Rightarrow> u32 \<Rightarrow> bool" where
  "port_exits lib m a b port \<longleftrightarrow> 0x10000 \<le> port \<or> bit_at lib m (port_bit_addr a b port) (unat (port AND 7))"

lemma and_7_less: "unat (x AND 7 :: u32) < 8"
proof -
  have "x AND 7 \<le> 7" by (rule word_and_le1)
  then show ?thesis by (simp add: word_le_nat_alt)
qed

lemma io_loop_exits:
  assumes none: "\<exists>e. kvm_read_guest lib m (- 1) 1 = Inl e"
    and cached: "prev = - 1 \<and> byte = - 1 \<or> (\<exists>bs. kvm_read_guest lib m prev 1 = Inr bs \<and> hd bs = byte)"
  shows "io_loop lib m a b port n prev byte \<longleftrightarrow> (\<exists>k < n. port_exits lib m a b (port + of_nat k))"
  using cached
proof (induction n arbitrary: port prev byte)
  case (Suc n)
  let ?a = "port_bit_addr a b port" and ?n = "unat (port AND 7)"
  define r where "r = (if prev \<noteq> ?a then kvm_read_guest lib m ?a 1 else Inr [byte])"
  have split: "(\<exists>k < Suc n. port_exits lib m a b (port + of_nat k)) \<longleftrightarrow>
      port_exits lib m a b port \<or> (\<exists>k < n. port_exits lib m a b (port + 1 + of_nat k))"
    by (auto simp: less_Suc_eq_0_disj add.commute add.left_commute)
  show ?case
  proof (cases "0x10000 \<le> port")
    case True
    then show ?thesis unfolding split by (simp add: port_exits_def)
  next
    case False
    have step: "io_loop lib m a b port (Suc n) prev byte = (case r of Inl _ \<Rightarrow> True
        | Inr bs \<Rightarrow> if bit (hd bs) ?n then True else io_loop lib m a b (port + 1) n ?a (hd bs))"
      using False unfolding r_def port_bit_addr_def by (simp only: io_loop.simps Let_def if_False)
    have here: "port_exits lib m a b port \<longleftrightarrow> (case r of Inl _ \<Rightarrow> True | Inr bs \<Rightarrow> bit (hd bs) ?n)"
    proof (cases "prev = ?a \<and> prev = - 1")
      case True
      then have "byte = - 1" using Suc.prems none by auto
      then show ?thesis using True none False and_7_less[of port]
        by (auto simp: port_exits_def bit_at_def r_def)
    next
      case f: False
      then show ?thesis using Suc.prems False by (auto simp: port_exits_def bit_at_def r_def)
    qed
    have rest: "io_loop lib m a b (port + 1) n ?a (hd bs) \<longleftrightarrow> (\<exists>k < n. port_exits lib m a b (port + 1 + of_nat k))"
      if "r = Inr bs" "\<not> bit (hd bs) ?n" for bs
    proof (rule Suc.IH)
      show "?a = - 1 \<and> hd bs = - 1 \<or> (\<exists>bs'. kvm_read_guest lib m ?a 1 = Inr bs' \<and> hd bs' = hd bs)"
        using that Suc.prems and_7_less[of port] by (auto simp: r_def split: if_splits)
    qed
    show ?thesis unfolding split step here using rest by (auto split: sum.split)
  qed
qed simp

text \<open>C37: An access of a nested guest to ports is reflected exactly when its hypervisor asked for every port, or
  for bitmaps with the bit of one of the accessed ports set: reading each byte of the bitmap once for neighbouring
  ports loses nothing, given that no byte of the guest lies at the last address.\<close>

theorem nested_io_exit:
  assumes "\<exists>e. kvm_read_guest (nlib L) (nmem s) (- 1) 1 = Inl e"
  defines "q \<equiv> vmcs_readl EXIT_QUALIFICATION (nv s)"
  shows "nested_vmx_exit_handled_io L p s \<longleftrightarrow> nested_cpu_has p CPU_BASED_UNCOND_IO_EXITING s \<or>
    nested_cpu_has p CPU_BASED_USE_IO_BITMAPS s \<and>
    (\<exists>k \<le> unat (q AND 7). port_exits (nlib L) (nmem s) (v12_64 VMCS12_io_bitmap_a p s) (v12_64 VMCS12_io_bitmap_b p s)
      (ucast (drop_bit 16 q) + of_nat k))"
  using io_loop_exits[OF assms(1), of "- 1" "- 1" "v12_64 VMCS12_io_bitmap_a p s" "v12_64 VMCS12_io_bitmap_b p s"
      "ucast (drop_bit 16 q)" "unat (q AND 7) + 1"]
  by (simp add: nested_vmx_exit_handled_io_def q_def Let_def less_Suc_eq_le)

subsection \<open>MSRs\<close>

lemma byte_of_bit:
  assumes "n = 8 * c + unat i"
  shows "of_nat (n div 8) = (of_nat c + ucast ((i :: u32) div 8) :: u64)" "n mod 8 = unat (i AND 7)"
proof -
  have "n div 8 = c + unat i div 8" "n mod 8 = unat i mod 8" using assms by simp_all
  moreover have "of_nat (unat (i div 8)) = (ucast (i div 8) :: u64)" by (rule of_nat_unat)
  moreover have "unat (i div 8) = unat i div 8" by (simp add: unat_div)
  moreover have "unat (i AND 7) = unat i mod 8"
  proof -
    have m: "i AND 7 = take_bit 3 i" by (simp add: take_bit_eq_mask mask_eq_exp_minus_1)
    show ?thesis unfolding m unsigned_take_bit_eq by (simp add: take_bit_eq_mod)
  qed
  ultimately show "of_nat (n div 8) = (of_nat c + ucast (i div 8) :: u64)" "n mod 8 = unat (i AND 7)" by simp_all
qed

text \<open>C38: An access of a nested guest to a model-specific register is reflected exactly when its hypervisor uses no
  bitmap, the register has no bit in it, or its bit in the page the hypervisor named is set, with the layout that
  the host's own bitmaps are filled by.\<close>

theorem nested_msr_exit:
  fixes s :: nested_vcpu
  defines "msr \<equiv> ucast (regs (nv s) RCX) :: u32"
  shows "nested_vmx_exit_handled_msr L p r s \<longleftrightarrow> \<not> nested_cpu_has p CPU_BASED_USE_MSR_BITMAPS s \<or>
    (case msr_bit msr (r = EXIT_REASON_MSR_WRITE) of None \<Rightarrow> True
     | Some n \<Rightarrow> bit_at (nlib L) (nmem s) (v12_64 VMCS12_msr_bitmap p s + of_nat (n div 8)) (n mod 8))"
proof -
  let ?w = "r = EXIT_REASON_MSR_WRITE" and ?base = "v12_64 VMCS12_msr_bitmap p s"
  let ?read = "\<lambda>c i. bit_at (nlib L) (nmem s) (?base + (of_nat c + ucast (i div 8))) (unat (i AND 7))"
  have lo: "msr < 8192 \<longleftrightarrow> msr \<le> 0x1FFF" by unat_arith
  have hi: "msr - 0xC0000000 < 8192 \<longleftrightarrow> msr \<le> 0xC0001FFF" if "0xC0000000 \<le> msr" using that by unat_arith
  have code: "nested_vmx_exit_handled_msr L p r s \<longleftrightarrow> \<not> nested_cpu_has p CPU_BASED_USE_MSR_BITMAPS s \<or>
      (if 0xC0000000 \<le> msr then msr - 0xC0000000 < 8192 \<longrightarrow> ?read (if ?w then 3072 else 1024) (msr - 0xC0000000)
       else msr < 8192 \<longrightarrow> ?read (if ?w then 2048 else 0) msr)"
    by (simp add: nested_vmx_exit_handled_msr_def msr_def Let_def bit_at_def add.assoc)
  show ?thesis
  proof (cases "0xC0000000 \<le> msr")
    case True
    then have "\<not> msr \<le> 0x1FFF" by unat_arith
    then show ?thesis unfolding code using True hi[OF True]
      by (simp add: msr_bit_def byte_of_bit[of "24576 + unat (msr - 0xC0000000)" 3072]
          byte_of_bit[of "8192 + unat (msr - 0xC0000000)" 1024])
  next
    case False
    then show ?thesis unfolding code using lo
      by (simp add: msr_bit_def byte_of_bit[of "16384 + unat msr" 2048] byte_of_bit[of "unat msr" 0])
  qed
qed

subsection \<open>Routing\<close>

text \<open>The exits that every hypervisor takes: triple fault, task switch, \<^verbatim>\<open>CPUID\<close>, \<^verbatim>\<open>INVD\<close>, the
  ten VMX instructions from \<^verbatim>\<open>VMCALL\<close> on, a failed entry for an invalid state, the TPR threshold,
  \<^verbatim>\<open>INVEPT\<close>, \<^verbatim>\<open>INVVPID\<close> and \<^verbatim>\<open>XSETBV\<close>.\<close>

definition always_taken :: "u32 set" where
  "always_taken = {2, 9, 10, 13, 18, 19, 20, 21, 22, 23, 24, 25, 26, 27, 33, 43, 50, 53, 55}"

lemma always_reflected:
  assumes "vmx_exit_reason (nv s) \<in> always_taken" "\<not> nested_run_pending (nv s)"
  shows "nested_vmx_exit_handled L failed p s = (True, s)"
proof -
  let ?r = "vmx_exit_reason (nv s)"
  have r: "?r \<notin> {0, 1, 28, 30, 31, 32, 40, 41, 48, 49, 52} \<union> fst ` set exit_controls \<union> fst ` set exit_controls2"
    using assms(1) unfolding always_taken_def exit_controls_def exit_controls2_def by (elim insertE emptyE) simp_all
  then have "map_of exit_controls ?r = None" "map_of exit_controls2 ?r = None" by (simp_all add: map_of_eq_None_iff)
  then show ?thesis using r assms(2)
    unfolding nested_vmx_exit_handled_def Let_def EXIT_REASON_MSR_WRITE_def by simp
qed

text \<open>While a nested guest runs, an exit that every hypervisor takes is reflected to its hypervisor with the
  reason and the qualification of the processor, and no handler of the host sees it: a VMX instruction of a nested
  guest never changes the nested state of the hypervisor that runs it.\<close>

theorem nested_exits_routed:
  assumes "vmx_exit_reason (nv s) \<in> always_taken" "in_guest_mode (nv s)" "current_vmcs12 s \<noteq> None"
    "\<not> nested_run_pending (nv s)" "\<not> emulation_req (nv s)"
  shows "vmx_handle_exit L failed e s =
    Some (Reflected, s\<lparr>nv := nested_vmx_vmexit (nenv L) (vmx_exit_reason (nv s)) (vmcs_read32 VM_EXIT_INTR_INFO (nv s))
      (vmcs_readl EXIT_QUALIFICATION (nv s)) (nv s)\<rparr>)"
  using assms(2,3,5) by (auto simp: vmx_handle_exit_def reflects_def Let_def on_vcpu_def always_reflected[OF assms(1,4)])

end
