(* ===== verification/Vmcs_Field_Props.thy ===== *)
theory Vmcs_Field_Props
  imports Vmcs_Fields
begin

text \<open>
  The table of fields describes the structure: every number finds a member of the width its encoding says, so
  members never overlap, and what is written to a field is read back.
\<close>

subsection \<open>The layout\<close>

fun packed :: "nat \<Rightarrow> (nat \<times> nat) list \<Rightarrow> nat option" where
  "packed at [] = Some at"
| "packed at ((off, n) # ms) = (if off = at \<and> 0 < n then packed (at + n) ms else None)"

text \<open>The width of a field from its number.\<close>

definition nat_bytes :: "nat \<Rightarrow> nat" where
  "nat_bytes f = (if odd f then 4 else if f div 0x2000 mod 4 = 0 then 2 else if f div 0x2000 mod 4 = 2 then 4 else 8)"

lemma field_bytes_nat: "field_bytes f = nat_bytes (unat f)"
proof -
  have m: "(0x3 :: u64) = mask 2" by (simp add: mask_eq_exp_minus_1)
  have o: "1 AND f \<noteq> 0 \<longleftrightarrow> odd (unat f)"
  proof -
    have "1 AND f = of_bool (bit f 0)" by (simp add: and.commute[of 1] and_one_eq mod_2_eq_odd bit_0)
    moreover have "odd (unat f) \<longleftrightarrow> bit (unat f) 0" by (simp only: bit_0)
    ultimately show ?thesis by (simp add: bit_unsigned_iff del: bit_0)
  qed
  have t: "unat (drop_bit 13 f AND 0x3) = unat f div 0x2000 mod 4"
    unfolding m by (simp add: take_bit_eq_mask[symmetric] drop_bit_eq_div take_bit_eq_mod unat_div unat_mod)
  show ?thesis unfolding field_bytes_def vmcs_field_type_def nat_bytes_def t using o
    by (auto simp: VMCS_FIELD_TYPE_U16_def VMCS_FIELD_TYPE_U32_def)
qed

definition entry_ok :: "nat \<times> nat \<Rightarrow> bool" where
  "entry_ok e = (case e of (field, off) \<Rightarrow>
     40 \<le> off \<and> field < 0x8000 \<and> off + nat_bytes field \<le> 936 \<and>
     (if even field then (off, nat_bytes field) \<in> set vmcs12_layout else (off - 4, 8) \<in> set vmcs12_layout))"

lemma layout_packed: "packed 0 vmcs12_layout = Some 936"
  by (simp add: vmcs12_layout_def)

lemma table_ok: "list_all entry_ok vmcs_field_to_offset_table"
  by (simp add: vmcs_field_to_offset_table_def FIELD_def FIELD64_def entry_ok_def nat_bytes_def vmcs12_layout_def)

lemma field_table_distinct: "distinct (map fst vmcs_field_to_offset_table)"
  by (simp add: vmcs_field_to_offset_table_def FIELD_def FIELD64_def)

lemma lookup_ok:
  assumes "vmcs_field_to_offset f = int off"
  shows "(unat f, off) \<in> set vmcs_field_to_offset_table" "entry_ok (unat f, off)"
proof -
  show m: "(unat f, off) \<in> set vmcs_field_to_offset_table"
    using assms by (auto simp: vmcs_field_to_offset_def split: option.splits if_splits dest: map_of_SomeD)
  show "entry_ok (unat f, off)" using table_ok m by (auto simp: list_all_iff)
qed

lemma table_halves: "list_all (\<lambda>(f, off). odd f \<longrightarrow> (f - 1, off - 4) \<in> set vmcs_field_to_offset_table)
    vmcs_field_to_offset_table"
  by (simp add: vmcs_field_to_offset_table_def FIELD_def FIELD64_def)

lemma table_members: "distinct (map snd (filter (\<lambda>(f, off). even f) vmcs_field_to_offset_table))"
  by (simp add: vmcs_field_to_offset_table_def FIELD_def FIELD64_def)

lemma packed_ge: "packed a ms = Some e \<Longrightarrow> (off, n) \<in> set ms \<Longrightarrow> a \<le> off"
  by (induction a ms rule: packed.induct) (auto split: if_splits intro: order_trans[rotated])

lemma packed_apart:
  "packed a ms = Some e \<Longrightarrow> (off, n) \<in> set ms \<Longrightarrow> (off', n') \<in> set ms \<Longrightarrow>
    off = off' \<and> n = n' \<or> off + n \<le> off' \<or> off' + n' \<le> off"
  by (induction a ms rule: packed.induct) (auto split: if_splits dest: packed_ge)

text \<open>The member a field belongs to, as the number of the whole field and its offset.\<close>

lemma field_member:
  assumes "(f, off) \<in> set vmcs_field_to_offset_table"
  obtains g m n where "even g" "g div 2 = f div 2" "(g, m) \<in> set vmcs_field_to_offset_table" "(m, n) \<in> set vmcs12_layout"
    "m \<le> off" "off + nat_bytes f \<le> m + n"
proof (cases "even f")
  case True
  then show thesis using that[of f off "nat_bytes f"] assms table_ok by (auto simp: list_all_iff entry_ok_def)
next
  case False
  have "(f - 1, off - 4) \<in> set vmcs_field_to_offset_table" using table_halves assms False by (auto simp: list_all_iff)
  moreover have "40 \<le> off" "(off - 4, 8) \<in> set vmcs12_layout"
    using table_ok assms False by (auto simp: list_all_iff entry_ok_def)
  moreover have "nat_bytes f = 4" using False by (simp add: nat_bytes_def)
  moreover have "even (f - 1)" "(f - 1) div 2 = f div 2" using False by (auto elim!: oddE)
  ultimately show thesis using that[of "f - 1" "off - 4" 8] by auto
qed

lemma fields_apart:
  assumes "(f, off) \<in> set vmcs_field_to_offset_table" "(g, off') \<in> set vmcs_field_to_offset_table" "f div 2 \<noteq> g div 2"
  shows "off + nat_bytes f \<le> off' \<or> off' + nat_bytes g \<le> off"
proof -
  obtain a m n where f: "even a" "a div 2 = f div 2" "(a, m) \<in> set vmcs_field_to_offset_table"
    "(m, n) \<in> set vmcs12_layout" "m \<le> off" "off + nat_bytes f \<le> m + n"
    using field_member[OF assms(1)] .
  obtain b m' n' where g: "even b" "b div 2 = g div 2" "(b, m') \<in> set vmcs_field_to_offset_table"
    "(m', n') \<in> set vmcs12_layout" "m' \<le> off'" "off' + nat_bytes g \<le> m' + n'"
    using field_member[OF assms(2)] .
  have "a \<noteq> b" using f(2) g(2) assms(3) by auto
  then have "m \<noteq> m'" using inj_onD[OF distinct_map[THEN iffD1, OF table_members, THEN conjunct2], of "(a, m)" "(b, m')"]
      f(1,3) g(1,3) by auto
  then show ?thesis using packed_apart[OF layout_packed f(4) g(4)] f(5,6) g(5,6) by auto
qed

subsection \<open>Bytes\<close>

lemma bit_bytes_word: "bit (bytes_word bs) i \<longleftrightarrow> i < 64 \<and> i div 8 < length bs \<and> bit (bs ! (i div 8)) (i mod 8)"
proof (induction bs arbitrary: i)
  case Nil
  then show ?case by (simp add: bytes_word_def)
next
  case (Cons b bs)
  have "bytes_word (b # bs) = ucast b OR push_bit 8 (bytes_word bs)" by (simp add: bytes_word_def)
  moreover have "bit (ucast b :: u64) i \<longleftrightarrow> i < 8 \<and> bit b i"
    using bit_imp_le_length[of b i] by (auto simp: bit_simps)
  ultimately show ?case
  proof (cases "i < 8")
    case False
    then have e: "i div 8 = Suc ((i - 8) div 8)" "i mod 8 = (i - 8) mod 8"
      by (auto simp: le_div_geq le_mod_geq)
    with False show ?thesis
      using \<open>bytes_word (b # bs) = _\<close> \<open>bit (ucast b :: u64) i \<longleftrightarrow> _\<close>
      by (auto simp: bit_or_iff bit_push_bit_iff Cons.IH)
  qed (auto simp: bit_or_iff bit_push_bit_iff)
qed

lemma bytes_of_word: "n \<le> 8 \<Longrightarrow> bytes_word (word_bytes n x) = take_bit (8 * n) x"
proof (rule bit_word_eqI)
  fix i assume n: "n \<le> 8" and i: "i < LENGTH(64)"
  have "8 * (i div 8) + i mod 8 = i" by simp
  moreover have "i div 8 < n \<longleftrightarrow> i < 8 * n" by auto
  ultimately show "bit (bytes_word (word_bytes n x)) i = bit (take_bit (8 * n) x) i"
    using i by (auto simp: bit_bytes_word word_bytes_def bit_take_bit_iff bit_ucast_iff bit_drop_bit_eq)
qed

lemma length_word_bytes [simp]: "length (word_bytes n x) = n" by (simp add: word_bytes_def)

lemma length_mem_get [simp]: "length (mem_get u a n) = n" by (simp add: mem_get_def)

lemma word_of_bytes:
  assumes "length bs = n" "n \<le> 8"
  shows "word_bytes n (bytes_word bs) = bs"
proof (rule nth_equalityI)
  fix i assume "i < length (word_bytes n (bytes_word bs))"
  then have i: "i < n" "i < 8" using assms by auto
  show "word_bytes n (bytes_word bs) ! i = bs ! i"
  proof (rule bit_word_eqI)
    fix k assume "k < LENGTH(8)"
    then have "(8 * i + k) div 8 = i" "(8 * i + k) mod 8 = k" "8 * i + k < 64" using i by auto
    then show "bit (word_bytes n (bytes_word bs) ! i) k = bit (bs ! i) k"
      using i assms \<open>k < LENGTH(8)\<close>
      by (simp add: word_bytes_def bit_ucast_iff bit_drop_bit_eq bit_bytes_word)
  qed
qed (simp add: assms)

subsection \<open>Reading what was written\<close>

text \<open>Offsets in a structure are small, so addresses do not wrap into each other.\<close>

lemma offset_diff:
  assumes "a < 2 ^ 32" "b < 2 ^ 32"
  shows "unat (p + of_nat a - (p + of_nat b) :: u64) = (if b \<le> a then a - b else 2 ^ 64 + a - b)"
proof (cases "b \<le> a")
  case True
  then have "p + of_nat a - (p + of_nat b) = (of_nat (a - b) :: u64)" by (simp add: of_nat_diff)
  then show ?thesis using True assms by (simp only: unat_of_nat) simp
next
  case False
  then have "p + of_nat a - (p + of_nat b) = (of_nat (2 ^ 64 + a - b) :: u64)"
    using assms by (simp add: of_nat_diff)
  then show ?thesis using False assms by (simp only: unat_of_nat) simp
qed

lemma mem_get_put:
  assumes "off + length bs \<le> 4096" "off' + n \<le> 4096"
  shows "mem_get (mem_put (p + of_nat off) bs u) (p + of_nat off') n =
    map (\<lambda>i. if off \<le> off' + i \<and> off' + i < off + length bs then bs ! (off' + i - off)
             else u (p + of_nat (off' + i))) [0..<n]"
  unfolding mem_get_def
proof (rule map_cong[OF refl])
  fix i assume "i \<in> set [0..<n]"
  then have i: "off' + i < 2 ^ 32" "off < 2 ^ 32" "off' + i < 4096" using assms by auto
  have e: "p + of_nat off' + of_nat i = p + of_nat (off' + i)" by (simp add: algebra_simps)
  show "mem_put (p + of_nat off) bs u (p + of_nat off' + of_nat i) =
      (if off \<le> off' + i \<and> off' + i < off + length bs then bs ! (off' + i - off) else u (p + of_nat (off' + i)))"
    unfolding e mem_put_def offset_diff[OF i(1,2)] using assms i by auto
qed

lemma mem_get_put_same:
  "off + length bs \<le> 4096 \<Longrightarrow> mem_get (mem_put (p + of_nat off) bs u) (p + of_nat off) (length bs) = bs"
  by (subst mem_get_put) (auto intro: nth_equalityI)

lemma mem_get_put_other:
  assumes "off + length bs \<le> 4096" "off' + n \<le> 4096" "off + length bs \<le> off' \<or> off' + n \<le> off"
  shows "mem_get (mem_put (p + of_nat off) bs u) (p + of_nat off') n = mem_get u (p + of_nat off') n"
  using assms by (subst mem_get_put) (auto simp: mem_get_def algebra_simps)

lemma mem_put_get: "mem_put a (mem_get u a n) u = u" if "n \<le> 4096"
proof
  fix x :: u64
  have "a + of_nat (unat (x - a)) = x" by simp
  then show "mem_put a (mem_get u a n) u x = u x" by (simp add: mem_put_def mem_get_def)
qed

lemma v12_get_put:
  assumes "n \<le> 8" "off + n \<le> 4096"
  shows "v12_get n p off (v12_put n p off x u) = take_bit (8 * n) x"
  using mem_get_put_same[of off "word_bytes n x"] assms by (simp add: v12_get_def v12_put_def bytes_of_word)

lemma v12_get_other:
  assumes "off + n \<le> 4096" "off' + n' \<le> 4096" "off + n \<le> off' \<or> off' + n' \<le> off"
  shows "v12_get n' p off' (v12_put n p off x u) = v12_get n' p off' u"
  using mem_get_put_other[of off "word_bytes n x"] assms by (simp add: v12_get_def v12_put_def)

lemma v12_put_get:
  assumes "n \<le> 8"
  shows "v12_put n p off (v12_get n p off u) u = u"
  using assms by (simp add: v12_put_def v12_get_def word_of_bytes mem_put_get)

end
