(* ===== verification/Vmcs_Field_Theorems.thy ===== *)
theory Vmcs_Field_Theorems
  imports Vmcs_Field_Props
begin

text \<open>
  Properties of the fields of a nested hypervisor's VMCS: what is written is read back and nothing else
  changes, and the copies between the structure and the shadow VMCS of the hardware agree.
\<close>

subsection \<open>Field accesses\<close>

lemma offset_cases:
  obtains (no) "vmcs_field_to_offset f < 0" "\<And>off. (unat f, off) \<notin> set vmcs_field_to_offset_table"
  | (field) off where "vmcs_field_to_offset f = int off" "(unat f, off) \<in> set vmcs_field_to_offset_table"
      "40 \<le> off" "off + field_bytes f \<le> 936"
proof (cases "map_of vmcs_field_to_offset_table (unat f)")
  case None
  then have "(unat f, off) \<notin> set vmcs_field_to_offset_table" for off
    by (metis map_of_eq_None_iff image_eqI fst_conv)
  then show thesis using no None by (simp add: vmcs_field_to_offset_def)
next
  case (Some off)
  then have m: "(unat f, off) \<in> set vmcs_field_to_offset_table" by (rule map_of_SomeD)
  then have "entry_ok (unat f, off)" using table_ok by (auto simp: list_all_iff)
  then show thesis using field[of off] m Some
    by (auto simp: entry_ok_def vmcs_field_to_offset_def field_bytes_nat)
qed

lemma field_bytes_bounds: "0 < field_bytes f" "field_bytes f \<le> 8" "field_bytes f \<in> {2, 4, 8}"
  by (simp_all add: field_bytes_def)

lemma field_offset:
  "(unat f, off) \<in> set vmcs_field_to_offset_table \<Longrightarrow> 0 < off \<Longrightarrow> vmcs_field_to_offset f = int off"
  using field_table_distinct by (simp add: vmcs_field_to_offset_def map_of_is_SomeI)

lemma bytes_word_append:
  assumes "length bs = 4" "length cs = 4"
  shows "bytes_word (bs @ cs) = bytes_word bs OR push_bit 32 (bytes_word cs)"
proof (rule bit_word_eqI)
  fix i assume i: "i < LENGTH(64)"
  show "bit (bytes_word (bs @ cs)) i = bit (bytes_word bs OR push_bit 32 (bytes_word cs)) i"
  proof (cases "i < 32")
    case True
    then have "i div 8 < 4" by auto
    then show ?thesis using True assms by (simp add: bit_bytes_word bit_or_iff bit_push_bit_iff nth_append)
  next
    case False
    then obtain j where j: "i = j + 4 * 8" using le_iff_add[of "4 * 8" i] by (auto simp: add.commute)
    have "i div 8 = 4 + j div 8" "i mod 8 = j mod 8" unfolding j by (rule div_mult_self1[THEN trans], simp, simp, rule mod_mult_self1)
    then show ?thesis using False i assms
      by (auto simp: bit_bytes_word bit_or_iff bit_push_bit_iff nth_append j)
  qed
qed

lemma v12_halves: "v12_get 8 p off u = v12_get 4 p off u OR push_bit 32 (v12_get 4 p (off + 4) u)"
proof -
  have "mem_get u (p + of_nat off) 8 = mem_get u (p + of_nat off) 4 @ mem_get u (p + of_nat (off + 4)) 4"
    by (simp add: mem_get_def numeral_eq_Suc algebra_simps)
  then show ?thesis by (simp add: v12_get_def bytes_word_append)
qed

lemma v12_get_less: "n \<le> 8 \<Longrightarrow> take_bit (8 * n) (v12_get n p off u) = v12_get n p off u"
  by (rule bit_word_eqI) (auto simp: v12_get_def bit_bytes_word bit_take_bit_iff)

lemma write_read_any:
  assumes "fst (vmcs12_write_any p f x u)"
  shows "vmcs12_read_any p f (snd (vmcs12_write_any p f x u)) = Some (cut_to (field_bytes f) x)"
proof (cases rule: offset_cases[of f])
  case (field off)
  then show ?thesis using field_bytes_bounds(2)[of f]
    by (simp add: vmcs12_write_any_def vmcs12_read_any_def v12_get_put cut_to_def)
qed (use assms in \<open>simp add: vmcs12_write_any_def Let_def\<close>)

lemma write_read_other:
  assumes "unat f div 2 \<noteq> unat g div 2"
  shows "vmcs12_read_any p g (snd (vmcs12_write_any p f x u)) = vmcs12_read_any p g u"
proof (cases rule: offset_cases[of f])
  case f: (field off)
  show ?thesis
  proof (cases rule: offset_cases[of g])
    case g: (field off')
    have "off + field_bytes f \<le> off' \<or> off' + field_bytes g \<le> off"
      using fields_apart[OF f(2) g(2) assms] by (simp add: field_bytes_nat)
    then show ?thesis using f g
      by (simp add: vmcs12_write_any_def vmcs12_read_any_def v12_get_other)
  qed (simp add: vmcs12_read_any_def)
qed (simp add: vmcs12_write_any_def)

lemma write_any_outside:
  assumes "unat (a - p) < 40 \<or> 936 \<le> unat (a - p)"
  shows "snd (vmcs12_write_any p f x u) a = u a"
proof (cases rule: offset_cases[of f])
  case (field off)
  have "\<not> unat (a - (p + of_nat off)) < field_bytes f"
  proof
    assume "unat (a - (p + of_nat off)) < field_bytes f"
    then obtain k where k: "a - (p + of_nat off) = of_nat k" "k < field_bytes f"
      by (intro that[of "unat (a - (p + of_nat off))"]) simp_all
    then have "a - p = of_nat (off + k)" by (simp add: algebra_simps)
    moreover have "off + k < 2 ^ 64" "40 \<le> off + k" "off + k < 936" using field(3,4) k(2) by auto
    ultimately show False using assms by (simp only: unat_of_nat) simp
  qed
  then show ?thesis using field by (simp add: vmcs12_write_any_def v12_put_def mem_put_def)
qed (simp add: vmcs12_write_any_def)

lemma field_pair:
  assumes "odd g" "(g, off) \<in> set vmcs_field_to_offset_table"
  shows "(g - 1, off - 4) \<in> set vmcs_field_to_offset_table" "nat_bytes (g - 1) = 8" "nat_bytes g = 4" "40 \<le> off - 4"
    "off \<le> 932" "g < 0x8000"
proof -
  show p: "(g - 1, off - 4) \<in> set vmcs_field_to_offset_table" using table_halves assms by (auto simp: list_all_iff)
  show "nat_bytes g = 4" using assms(1) by (simp add: nat_bytes_def)
  have "entry_ok (g, off)" "entry_ok (g - 1, off - 4)" using table_ok assms p by (auto simp: list_all_iff)
  then have l: "(off - 4, 8) \<in> set vmcs12_layout" "(off - 4, nat_bytes (g - 1)) \<in> set vmcs12_layout"
    and b: "40 \<le> off - 4" "off \<le> 932" "g < 0x8000"
    using assms(1) by (auto simp: entry_ok_def nat_bytes_def)
  show "40 \<le> off - 4" "off \<le> 932" "g < 0x8000" using b by simp_all
  have "0 < nat_bytes (g - 1)" by (simp add: nat_bytes_def)
  then show "nat_bytes (g - 1) = 8" using packed_apart[OF layout_packed l] by auto
qed

lemma halves_of_or:
  assumes "take_bit 32 a = a"
  shows "take_bit 32 (a OR push_bit 32 b) = a" "drop_bit 32 (a OR push_bit 32 b) = take_bit 32 (b :: u64)"
proof -
  have a: "\<not> bit a i" if "\<not> i < 32" for i using assms that by (metis bit_take_bit_iff)
  show "take_bit 32 (a OR push_bit 32 b) = a"
    by (rule bit_word_eqI) (use a in \<open>auto simp: bit_take_bit_iff bit_or_iff bit_push_bit_iff\<close>)
  show "drop_bit 32 (a OR push_bit 32 b) = take_bit 32 b"
    by (rule bit_word_eqI) (use a in \<open>auto simp: bit_take_bit_iff bit_drop_bit_eq bit_or_iff bit_push_bit_iff\<close>)
qed

lemma upper_half:
  assumes "off \<le> 928"
  shows "v12_get 4 p (off + 4) (v12_put 8 p off x u) = drop_bit 32 x"
proof -
  let ?v = "v12_put 8 p off x u"
  have "x = v12_get 4 p off ?v OR push_bit 32 (v12_get 4 p (off + 4) ?v)"
    using v12_get_put[of 8 off p x u] assms unfolding v12_halves by (simp add: take_bit_word_eq_self)
  then have "drop_bit 32 x = take_bit 32 (v12_get 4 p (off + 4) ?v)"
    using halves_of_or(2)[of "v12_get 4 p off ?v" "v12_get 4 p (off + 4) ?v"] v12_get_less[of 4 p off ?v] by simp
  then show ?thesis using v12_get_less[of 4 p "off + 4" ?v] by simp
qed

lemma push_take: "push_bit 32 (take_bit 32 x) = push_bit 32 (x :: u64)"
  by (rule bit_word_eqI) (auto simp: bit_simps)

lemma write_upper_half:
  assumes "fst (vmcs12_write_any p f x u)" "odd (unat f)"
  shows "vmcs12_read_any p (f - 1) (snd (vmcs12_write_any p f x u)) =
    Some (take_bit 32 (the (vmcs12_read_any p (f - 1) u)) OR push_bit 32 x)"
proof (cases rule: offset_cases[of f])
  case (field off)
  note fp = field_pair[OF assms(2) field(2)]
  have u: "unat (f - 1) = unat f - 1" using assms(2) by (intro unat_minus_one) auto
  have o: "vmcs_field_to_offset (f - 1) = int (off - 4)" using field_offset[of "f - 1" "off - 4"] fp(1,4) u by simp
  have b: "field_bytes f = 4" "field_bytes (f - 1) = 8" using fp(2,3) by (simp_all add: field_bytes_nat u)
  let ?u = "v12_put 4 p off x u"
  have "v12_get 8 p (off - 4) ?u = v12_get 4 p (off - 4) u OR push_bit 32 x"
    using v12_get_other[of off 4 "off - 4" 4 p x u] v12_get_put[of 4 off p x u] fp(4,5)
    by (simp add: v12_halves push_take)
  moreover have "take_bit 32 (v12_get 8 p (off - 4) u) = v12_get 4 p (off - 4) u"
    using v12_get_less[of 4 p "off - 4" u] unfolding v12_halves by (intro halves_of_or(1)) simp
  moreover have "nat (int off - 4) = off - 4" "\<not> off < 4" using fp(4) by simp_all
  ultimately show ?thesis using field(1) fp(4) by (simp add: vmcs12_write_any_def vmcs12_read_any_def o b)
qed (use assms in \<open>simp add: vmcs12_write_any_def Let_def\<close>)

lemma write_whole:
  assumes "fst (vmcs12_write_any p f x u)" "even (unat f)" "vmcs12_read_any p (f + 1) u \<noteq> None"
  shows "vmcs12_read_any p (f + 1) (snd (vmcs12_write_any p f x u)) = Some (drop_bit 32 x)"
proof (cases rule: offset_cases[of "f + 1"])
  case (field off)
  have nm: "f \<noteq> - 1" using assms(2) by (auto simp: unsigned_minus_1_eq_mask mask_eq_exp_minus_1)
  then have u: "unat (f + 1) = Suc (unat f)" using unatSuc[of f] by (simp add: add.commute add_eq_0_iff)
  note fp = field_pair[OF _ field(2)]
  have o: "odd (unat (f + 1))" using assms(2) u by simp
  have "vmcs_field_to_offset f = int (off - 4)" using field_offset[of f "off - 4"] fp(1,4)[OF o] u by simp
  moreover have "field_bytes f = 8" "field_bytes (f + 1) = 4" using fp(2,3)[OF o] by (simp_all add: field_bytes_nat u)
  moreover have "nat (int off - 4) = off - 4" "\<not> off < 4" "off - 4 + 4 = off" "off - 4 \<le> 928"
    using fp(4,5)[OF o] by simp_all
  ultimately show ?thesis using field(1) fp(4,5)[OF o] upper_half[of "off - 4" p x u]
    by (simp add: vmcs12_write_any_def vmcs12_read_any_def) arith
qed (use assms in \<open>simp add: vmcs12_read_any_def Let_def\<close>)

text \<open>C35: A write to a field of the nested VMCS stores the value, cut to the width of the field, and changes no
  other field, neither the revision nor the launch state, and nothing outside the structure. The two halves of a
  64-bit field are views of it: writing the whole sets the upper half, and writing the upper half keeps the lower
  one. A field can be written exactly when it can be read.\<close>

theorem vmwrite_vmread:
  assumes "vmcs12_write_any p f x u = (written, u')"
  shows "(written \<longleftrightarrow> vmcs12_read_any p f u \<noteq> None) \<and>
    (written \<longrightarrow> vmcs12_read_any p f u' = Some (cut_to (field_bytes f) x)) \<and>
    (\<forall>g. unat f div 2 \<noteq> unat g div 2 \<longrightarrow> vmcs12_read_any p g u' = vmcs12_read_any p g u) \<and>
    (\<forall>a. unat (a - p) < 40 \<or> 936 \<le> unat (a - p) \<longrightarrow> u' a = u a) \<and>
    (written \<and> even (unat f) \<and> vmcs12_read_any p (f + 1) u \<noteq> None \<longrightarrow>
       vmcs12_read_any p (f + 1) u' = Some (drop_bit 32 x)) \<and>
    (written \<and> odd (unat f) \<longrightarrow> vmcs12_read_any p (f - 1) u' =
       Some (take_bit 32 (the (vmcs12_read_any p (f - 1) u)) OR push_bit 32 x))"
proof -
  have u': "u' = snd (vmcs12_write_any p f x u)" and w: "written = fst (vmcs12_write_any p f x u)" using assms by simp_all
  have wr: "written \<longleftrightarrow> vmcs12_read_any p f u \<noteq> None"
    unfolding w by (simp add: vmcs12_write_any_def vmcs12_read_any_def Let_def)
  show ?thesis using wr write_read_any[of p f x u] write_read_other[of f _ p x u] write_any_outside[of _ p f x u]
      write_whole[of p f x u] write_upper_half[of p f x u] unfolding u' w by blast
qed

theorem vmwrite_vmread_witness:
  "\<exists>u'. vmcs12_write_any 0x5000 0x2800 0x123456789ABCDEF0 (\<lambda>_. 0) = (True, u') \<and>
     vmcs12_read_any 0x5000 0x2801 u' = Some 0x12345678"
proof -
  obtain w u' where w: "vmcs12_write_any 0x5000 0x2800 0x123456789ABCDEF0 (\<lambda>_. 0) = (w, u')" by fastforce
  have "(unat (0x2800 :: u64), 128) \<in> set vmcs_field_to_offset_table"
    "(unat (0x2801 :: u64), 132) \<in> set vmcs_field_to_offset_table"
    by (simp_all add: vmcs_field_to_offset_table_def FIELD_def FIELD64_def)
  from this[THEN field_offset] have "vmcs12_read_any 0x5000 0x2800 (\<lambda>_. 0) \<noteq> None"
    "vmcs12_read_any 0x5000 (0x2800 + 1) (\<lambda>_. 0) \<noteq> None"
    by (simp_all add: vmcs12_read_any_def)
  then show ?thesis using vmwrite_vmread[OF w] w by simp
qed

subsection \<open>The shadow VMCS\<close>

definition shadow_fields :: "nat set" where
  "shadow_fields = set shadow_read_write_fields \<union> set shadow_read_only_fields"

lemma shadow_field_ok:
  assumes "f \<in> shadow_fields"
  shows "even f" "f < 0x8000" "unat (of_nat f :: u64) = f" "vmcs12_read_any p (of_nat f) u \<noteq> None"
proof -
  have "list_all (\<lambda>f. f \<in> set (map fst vmcs_field_to_offset_table)) (shadow_read_write_fields @ shadow_read_only_fields)"
    by (simp add: shadow_read_write_fields_def shadow_read_only_fields_def vmcs_field_to_offset_table_def
        FIELD_def FIELD64_def)
  moreover have "list_all even (shadow_read_write_fields @ shadow_read_only_fields)"
    by (simp add: shadow_read_write_fields_def shadow_read_only_fields_def)
  ultimately show "even f" and m: "f < 0x8000" and n: "unat (of_nat f :: u64) = f"
    and "vmcs12_read_any p (of_nat f) u \<noteq> None"
  proof -
    assume a: "list_all (\<lambda>f. f \<in> set (map fst vmcs_field_to_offset_table)) (shadow_read_write_fields @ shadow_read_only_fields)"
      and e: "list_all even (shadow_read_write_fields @ shadow_read_only_fields)"
    show "even f" using e assms by (auto simp: list_all_iff shadow_fields_def)
    have "f \<in> fst ` set vmcs_field_to_offset_table" using a assms by (auto simp: list_all_iff shadow_fields_def)
    then obtain off where t: "(f, off) \<in> set vmcs_field_to_offset_table" by force
    then have "entry_ok (f, off)" using table_ok by (auto simp: list_all_iff)
    then show l: "f < 0x8000" and n: "unat (of_nat f :: u64) = f" by (auto simp: entry_ok_def unat_of_nat)
    show "vmcs12_read_any p (of_nat f) u \<noteq> None"
      using t by (cases rule: offset_cases[of "of_nat f"]) (auto simp: n vmcs12_read_any_def)
  qed
qed

lemma read_any_cut: "vmcs12_read_any p f u = Some x \<Longrightarrow> cut_to (field_bytes f) x = x"
  using field_bytes_bounds(2)[of f] by (auto simp: vmcs12_read_any_def cut_to_def v12_get_less Let_def split: if_splits)

lemma copy_fields_value:
  assumes "set fs \<subseteq> shadow_fields"
  shows "copy_fields p u fs fv s f = (if f \<in> set fs then the (vmcs12_read_any p (of_nat f) u) else s f)"
  using assms
proof (induction fs arbitrary: fv s)
  case (Cons a fs)
  obtain x where x: "vmcs12_read_any p (of_nat a) u = Some x" using shadow_field_ok(4)[of a p u] Cons.prems by auto
  show ?case using Cons read_any_cut[OF x] by (auto simp: x)
qed simp

lemma write_back_same:
  assumes "vmcs12_read_any p f u = Some x"
  shows "snd (vmcs12_write_any p f x u) = u"
proof (cases rule: offset_cases[of f])
  case (field off)
  then show ?thesis using assms field_bytes_bounds(2)[of f]
    by (auto simp: vmcs12_write_any_def vmcs12_read_any_def v12_put_get)
qed (simp add: vmcs12_write_any_def)

lemma fold_writes:
  fixes p :: u64 and s :: "nat \<Rightarrow> u64"
  assumes "set fs \<subseteq> shadow_fields"
  defines "W \<equiv> \<lambda>f u. snd (vmcs12_write_any p (of_nat f) (cut_to (field_bytes (of_nat f)) (s f)) u)"
  shows "f \<in> set fs \<Longrightarrow> vmcs12_read_any p (of_nat f) (fold W fs u) = Some (cut_to (field_bytes (of_nat f)) (s f))"
    and "unat g div 2 \<notin> (\<lambda>f. f div 2) ` set fs \<Longrightarrow> vmcs12_read_any p g (fold W fs u) = vmcs12_read_any p g u"
    and "unat (a - p) < 40 \<or> 936 \<le> unat (a - p) \<Longrightarrow> fold W fs u a = u a"
proof -
  have other: "unat g div 2 \<notin> (\<lambda>f. f div 2) ` set fs \<Longrightarrow> vmcs12_read_any p g (fold W fs u) = vmcs12_read_any p g u"
    if "set fs \<subseteq> shadow_fields" for fs u g
    using that
  proof (induction fs arbitrary: u)
    case (Cons a fs)
    have "vmcs12_read_any p g (W a u) = vmcs12_read_any p g u"
      unfolding W_def using Cons.prems shadow_field_ok(3)[of a] by (intro write_read_other) auto
    then show ?case using Cons by simp
  qed simp
  show "unat g div 2 \<notin> (\<lambda>f. f div 2) ` set fs \<Longrightarrow> vmcs12_read_any p g (fold W fs u) = vmcs12_read_any p g u"
    by (rule other[OF assms(1)])
  show "unat (a - p) < 40 \<or> 936 \<le> unat (a - p) \<Longrightarrow> fold W fs u a = u a"
    using assms(1) by (induction fs arbitrary: u) (simp_all add: W_def write_any_outside)
  show "f \<in> set fs \<Longrightarrow> vmcs12_read_any p (of_nat f) (fold W fs u) = Some (cut_to (field_bytes (of_nat f)) (s f))"
    using assms(1)
  proof (induction fs arbitrary: u)
    case (Cons a fs)
    show ?case
    proof (cases "f \<in> set fs")
      case True
      then show ?thesis using Cons by simp
    next
      case False
      then have f: "f = a" "f \<in> shadow_fields" using Cons.prems by auto
      have "f div 2 \<notin> (\<lambda>f. f div 2) ` set fs"
      proof
        assume "f div 2 \<in> (\<lambda>f. f div 2) ` set fs"
        then obtain b where "b \<in> set fs" "f div 2 = b div 2" by auto
        moreover have "even b" "even f" using shadow_field_ok(1) calculation(1) Cons.prems f by auto
        ultimately show False using False by (metis dvd_div_mult_self)
      qed
      then have "vmcs12_read_any p (of_nat f) (fold W fs (W a u)) = vmcs12_read_any p (of_nat f) (W a u)"
        using other[of fs "of_nat f" "W a u"] Cons.prems(2) shadow_field_ok(3)[OF f(2)] by simp
      moreover have "fst (vmcs12_write_any p (of_nat f) (cut_to (field_bytes (of_nat f)) (s f)) u)"
        using shadow_field_ok(4)[OF f(2), of p u] by (auto simp: vmcs12_write_any_def vmcs12_read_any_def Let_def split: if_splits)
      ultimately show ?thesis using write_read_any f(1) by (simp add: W_def cut_to_def)
    qed
  qed simp
qed

text \<open>C36: The copies between the nested VMCS and the shadow VMCS agree. Copying to the shadow gives every shadowed
  field its value, and copying straight back changes nothing. After the nested hypervisor wrote some of the
  shadowed fields directly, copying back makes exactly these writes visible: every field it can write has the
  value of the shadow, and every other field, the header and all memory outside the structure are unchanged.\<close>

theorem shadow_copies_agree:
  "(\<forall>f \<in> shadow_fields. vmcs12_read_any p (of_nat f) u = Some (copy_vmcs12_to_shadow p u s0 f)) \<and>
   (\<forall>f. f \<notin> shadow_fields \<longrightarrow> copy_vmcs12_to_shadow p u s0 f = s0 f) \<and>
   copy_shadow_to_vmcs12 (copy_vmcs12_to_shadow p u s0) p u = u \<and>
   (\<forall>f \<in> set shadow_read_write_fields. vmcs12_read_any p (of_nat f) (copy_shadow_to_vmcs12 s p u) =
      Some (cut_to (field_bytes (of_nat f)) (s f))) \<and>
   (\<forall>g. unat g div 2 \<notin> (\<lambda>f. f div 2) ` set shadow_read_write_fields \<longrightarrow>
      vmcs12_read_any p g (copy_shadow_to_vmcs12 s p u) = vmcs12_read_any p g u) \<and>
   (\<forall>a. unat (a - p) < 40 \<or> 936 \<le> unat (a - p) \<longrightarrow> copy_shadow_to_vmcs12 s p u a = u a)"
proof -
  let ?s = "copy_vmcs12_to_shadow p u s0"
  have rw: "set shadow_read_write_fields \<subseteq> shadow_fields" by (simp add: shadow_fields_def)
  have v: "?s f = (if f \<in> shadow_fields then the (vmcs12_read_any p (of_nat f) u) else s0 f)" for f
    unfolding copy_vmcs12_to_shadow_def by (subst copy_fields_value) (auto simp: shadow_fields_def)
  have same: "snd (vmcs12_write_any p (of_nat f) (cut_to (field_bytes (of_nat f)) (?s f)) u) = u"
    if "f \<in> shadow_fields" for f
    using shadow_field_ok(4)[OF that, of p u] that by (auto simp: v read_any_cut write_back_same)
  have "fold (\<lambda>f u. snd (vmcs12_write_any p (of_nat f) (cut_to (field_bytes (of_nat f)) (?s f)) u)) fs u = u"
    if "set fs \<subseteq> shadow_fields" for fs
    using that by (induction fs) (simp_all add: same)
  then have "copy_shadow_to_vmcs12 ?s p u = u" using rw by (simp add: copy_shadow_to_vmcs12_def)
  moreover have "\<forall>f \<in> shadow_fields. vmcs12_read_any p (of_nat f) u = Some (?s f)"
    using shadow_field_ok(4)[of _ p u] by (auto simp: v)
  ultimately show ?thesis using fold_writes[OF rw, of _ p s u] v by (auto simp: copy_shadow_to_vmcs12_def)
qed

theorem shadow_copies_agree_witness:
  "vmcs12_read_any 0x5000 (of_nat F_GUEST_RIP) (copy_shadow_to_vmcs12 (\<lambda>f. 7) 0x5000 (\<lambda>_. 0)) = Some 7"
proof -
  have "F_GUEST_RIP \<in> set shadow_read_write_fields" by (simp add: shadow_read_write_fields_def)
  moreover have "cut_to (field_bytes (of_nat F_GUEST_RIP)) 7 = 7"
    by (simp add: field_bytes_nat nat_bytes_def cut_to_def)
  ultimately show ?thesis using shadow_copies_agree[where p = "0x5000" and u = "\<lambda>_. 0" and s = "\<lambda>f. 7"] by metis
qed

end
