(* ===== verification/Example_Nested.thy ===== *)
theory Example_Nested
  imports Nested_Runs Nested_Exit_Theorems Example_Msrs Access_Theorems Vmcs_Field_Theorems
begin

text \<open>
  A vCPU with nested VMX: register 0 and the following hold the same number, the guest's addresses are physical,
  and \<^verbatim>\<open>INVEPT\<close> is offered with both types. Each property about nested VMX is applied to it.
\<close>

definition nested_mmu :: mmu_lib where
  "nested_mmu = \<lparr>mmu_cpl = 0, match_mmio_gva = (\<lambda>_. False), permission_fault = (\<lambda>_. False), mmio_gfn = 0,
     gva_to_gpa = (\<lambda>m gva access. gva), match_mmio_gpa = (\<lambda>_. False)\<rparr>"

definition example_nested_lib :: "u64 \<Rightarrow> unit nested_lib" where
  "example_nested_lib x =
     \<lparr>nmsr = (example_msr_lib True)\<lparr>nctls := (nctls (example_msr_lib True))\<lparr>secondary_high := SECONDARY_EXEC_ENABLE_EPT,
        nested_ept_caps := 0x06100000\<rparr>\<rparr>,
      nmmu = (\<lambda>_. nested_mmu), virt_fault = (\<lambda>v m a n. (a, 0)), stack_exception = (0, 0),
      reg_read = (\<lambda>r v. (x, v)), reg_write = (\<lambda>r x v. v), page_of = (\<lambda>m g. Some (push_bit 12 g)),
      alloc_vmcs = (\<lambda>is. Some (Suc (Max (set is)))), enable_shadow_vmcs = True, shadow_alloc_ok = True, shadow_pa = 0\<rparr>"

definition example_nested :: nested_vcpu where
  "example_nested =
     \<lparr>nv = example_vcpu\<lparr>arch_cr0 := 1, arch_cr4 := 0x2000\<rparr>, nmem = initial_mem, current_vmptr = - 1, current_vmcs12 = None,
      current_vmcs12_page = 0, pinned = [], current_shadow_vmcs = None, sync_shadow_vmcs = False, secondary_ctl = 0,
      vmcs_link = - 1, insn_info = 0, vmcs02_pool = [], vmcs02_num = 0, loaded_vmcs = 0, vmcs_freed = [],
      n_feature_control = 5, n_apic_access_page = None, n_vmcs01_tsc_offset = 0\<rparr>"

lemmas example_nested_defs = example_nested_lib_def example_msr_defs nenv_def nlib_def msr_env_def msr_mem_def

lemma example_keeps: "keeps_vmxon (example_nested_lib x)"
  by (simp add: keeps_vmxon_def keeps_def example_nested_defs)

lemma example_init: "nested_init example_nested"
  by (simp add: nested_init_def example_nested_def example_msr_defs)

subsection \<open>Identifiers and bitmaps\<close>

lemma first_zero_here: "\<not> bm n \<Longrightarrow> zero_bit_from bm n (Suc k) = n" by simp

lemma example_vpid: "snd (vpid_step True (\<lambda>_. example_vcpu) (Create 0) (set_bitmap 0 (\<lambda>_. False), \<lambda>_. None)) 0 =
    Some (example_vcpu\<lparr>vpid := 1\<rparr>)"
proof -
  have "find_first_zero_bit (set_bitmap 0 (\<lambda>_. False)) (Suc (Suc 65534)) = 1"
    by (simp only: find_first_zero_bit_def zero_bit_from.simps) (simp add: set_bitmap_def)
  then have "find_first_zero_bit (set_bitmap 0 (\<lambda>_. False)) VMX_NR_VPIDS = 1" by (simp add: VMX_NR_VPIDS_def)
  then show ?thesis by (simp add: allocate_vpid_def Let_def VMX_NR_VPIDS_def)
qed

theorem vpids_distinct_witness:
  "fst (fold (vpid_step True (\<lambda>_. example_vcpu)) [Create 0] (set_bitmap 0 (\<lambda>_. False), \<lambda>_. None)) 1"
proof -
  let ?st = "fold (vpid_step True (\<lambda>_. example_vcpu)) [Create 0] (set_bitmap 0 (\<lambda>_. False), \<lambda>_. None)"
  have "snd ?st 0 = Some (example_vcpu\<lparr>vpid := 1\<rparr>)" by (simp only: fold_simps example_vpid)
  moreover have "unat (vpid (example_vcpu\<lparr>vpid := 1\<rparr>)) = 1" "(1 :: nat) < VMX_NR_VPIDS" by (simp_all add: VMX_NR_VPIDS_def)
  ultimately show ?thesis using vpids_distinct[of True "\<lambda>_. example_vcpu" "[Create 0]"] by blast
qed

definition no_pages :: vmx_pages where
  "no_pages = \<lparr>io_bitmap_a = ones, io_bitmap_b = ones, msr_bitmap_legacy = ones, msr_bitmap_longmode = ones,
     msr_bitmap_legacy_x2apic = ones, msr_bitmap_longmode_x2apic = ones, vmread_bitmap = ones, vmwrite_bitmap = ones,
     page_addrs = (\<lambda>_. 0), pages_freed = [], vpid_bitmap = (\<lambda>_. False)\<rparr>"

definition no_calls :: vmx_init_calls where
  "no_calls = \<lparr>shared_msrs = [], mask_ptes = None, mmio_spte_mask = None, tdp = None\<rparr>"

lemma example_loaded:
  obtains P' c' where "vmx_init (\<lambda>i. of_nat (i + 1)) 0 example_setup example_params no_pages no_calls = (0, P', c')"
  by (simp add: vmx_init_def alloc_bitmaps_def Let_def upt_rec)

theorem vmx_init_intercepts_witness:
  "\<exists>P' c'. vmx_init (\<lambda>i. of_nat (i + 1)) 0 example_setup example_params no_pages no_calls = (0, P', c') \<and>
     intercepted (msr_bitmap_legacy P') 0x10 False \<and> \<not> io_bitmap_a P' 0x80"
proof -
  obtain P' c' where l: "vmx_init (\<lambda>i. of_nat (i + 1)) 0 example_setup example_params no_pages no_calls = (0, P', c')"
    by (rule example_loaded)
  have "\<not> passes example_params False False 0x10 False" by (simp add: passes_def opened_def)
  then show ?thesis using l vmx_init_intercepts[OF l] by auto
qed

theorem bitmap_pages_freed_witness:
  "\<exists>P' c'. vmx_init (\<lambda>i. of_nat (i + 1)) 0 example_setup example_params no_pages no_calls = (0, P', c') \<and>
     mset (pages_freed (vmx_exit P')) = {#1, 2, 3, 4, 5, 6, 7, 8#}"
proof -
  obtain P' c' where l: "vmx_init (\<lambda>i. of_nat (i + 1)) 0 example_setup example_params no_pages no_calls = (0, P', c')"
    by (rule example_loaded)
  then show ?thesis using bitmap_pages_freed(2)[OF l refl] by (simp add: no_pages_def upt_rec)
qed

subsection \<open>Runs of a nested hypervisor\<close>

theorem nested_runs_consistent_witness:
  "current_vmptr (example_nested\<lparr>nv := nv example_nested, nmem := initial_mem, insn_info := 7\<rparr>) = - 1 \<and>
   current_vmcs12 (example_nested\<lparr>nv := nv example_nested, nmem := initial_mem, insn_info := 7\<rparr>) = None"
  using nested_runs_consistent[OF example_keeps[of 65] example_init
      nested_reach.runs[OF nested_reach.start, where v = "nv example_nested" and m = initial_mem and i = 7]]
  by (simp add: example_nested_def)


lemma no_page_at_end: "kvm_read_guest example_lib initial_mem (- 1) 1 = Inl (- EFAULT)"
proof -
  have "\<not> (base_gfn (slot_array (memslots initial_mem) ! i) \<le> g \<and>
      g < base_gfn (slot_array (memslots initial_mem) ! i) + npages (slot_array (memslots initial_mem) ! i))"
    if "i < length (slot_array (memslots initial_mem))" for i g
    using that by (simp add: initial_mem_def kvm_init_memslots_id_def)
  then have "search example_lib (memslots initial_mem) g = None" for g
    unfolding example_fields find_None_iff by auto
  then have "gfn_to_memslot example_lib initial_mem g = None" for g by (simp add: gfn_to_memslot_def)
  then have "kvm_read_guest_page example_lib initial_mem g k n = Inl (- EFAULT)" for g k n
    by (simp add: kvm_read_guest_page_def gfn_to_hva_prot_def gfn_to_hva_many_prot_def example_lib_def)
  then show ?thesis by (simp add: kvm_read_guest_def read_guest_loop.simps next_segment_def Let_def)
qed

theorem nested_io_exit_witness:
  "nested_vmx_exit_handled_io (example_nested_lib 65) 0 example_nested \<longleftrightarrow>
     nested_cpu_has 0 CPU_BASED_UNCOND_IO_EXITING example_nested \<or>
     nested_cpu_has 0 CPU_BASED_USE_IO_BITMAPS example_nested \<and>
     (\<exists>k \<le> 0. port_exits example_lib initial_mem (v12_64 VMCS12_io_bitmap_a 0 example_nested)
       (v12_64 VMCS12_io_bitmap_b 0 example_nested) (of_nat k))"
proof -
  have l: "nlib (example_nested_lib 65) = example_lib" "nmem example_nested = initial_mem"
      "vmcs_readl EXIT_QUALIFICATION (nv example_nested) = 0"
    by (simp_all add: example_nested_defs example_nested_def vmcs_readl_def)
  show ?thesis
    using nested_io_exit[of "example_nested_lib 65" example_nested 0, unfolded l] no_page_at_end by simp
qed

lemma no_controls: "v12_32 VMCS12_cpu_based_vm_exec_control 0 example_nested = 0"
proof -
  have "user_mem (nmem example_nested) = (\<lambda>_. 0)" by (simp add: example_nested_def initial_mem_def)
  then show ?thesis by (simp add: v12_32_def v12_def v12_get_def mem_get_def bytes_word_def numeral_eq_Suc)
qed

theorem nested_msr_exit_witness: "nested_vmx_exit_handled_msr (example_nested_lib 65) 0 31 example_nested"
  using nested_msr_exit[of "example_nested_lib 65" 0 31 example_nested] no_controls by (simp add: nested_cpu_has_def)

definition example_l2 :: nested_vcpu where
  "example_l2 = example_nested\<lparr>nv := (nv example_nested)\<lparr>in_guest_mode := True, nested_vmxon := True, vmx_exit_reason := 25\<rparr>,
     current_vmptr := 0x1000, current_vmcs12 := Some 0x1000\<rparr>"

theorem nested_exits_routed_witness: "\<exists>s'. vmx_handle_exit (example_nested_lib 65) False 0 example_l2 = Some (Reflected, s')"
proof -
  have "vmx_exit_reason (nv example_l2) = 25" "in_guest_mode (nv example_l2)" "current_vmcs12 example_l2 \<noteq> None"
    "\<not> nested_run_pending (nv example_l2)" "\<not> emulation_req (nv example_l2)"
    by (simp_all add: example_l2_def example_nested_def example_vcpu_def)
  then show ?thesis
    using nested_exits_routed[of example_l2 "example_nested_lib 65" False 0] by (auto simp: always_taken_def)
qed

subsection \<open>The invalidation that stops the host\<close>

text \<open>The guest enters VMX operation, then executes \<^verbatim>\<open>INVEPT\<close> with type 65 and an operand at address 0.\<close>

lemma example_lib_fields:
  "kvm_read_cr4_bits (mx (nmsr (example_nested_lib x))) b v = (arch_cr4 v AND b, v)"
  "kvm_read_cr0_bits (nenv (example_nested_lib x)) b v = (arch_cr0 v AND b, v)"
  "is_protmode (nenv (example_nested_lib x)) v \<longleftrightarrow> arch_cr0 v AND 1 \<noteq> 0"
  "is_long_mode (nenv (example_nested_lib x)) v \<longleftrightarrow> arch_efer v AND 0x400 \<noteq> 0"
  "enable_shadow_vmcs (example_nested_lib x)" "shadow_alloc_ok (example_nested_lib x)"
  "read_reg (example_nested_lib x) r s = (x, s)"
  by (simp_all add: example_nested_defs read_reg_def)

text \<open>What the vCPU starts with.\<close>

definition plain :: "vcpu \<Rightarrow> bool" where
  "plain v \<longleftrightarrow> \<not> vm86_active v \<and> arch_efer v = 0 \<and> vmcs v = (\<lambda>_. 0) \<and> arch_cr0 v = 1 \<and> arch_cr4 v = 0x2000 \<and>
     rflags_cache v = 0 \<and> cpl v = 0 \<and>
     (\<forall>g. seg_cache v g = example_kvm_save_segment)"

lemma plain_vcpu: "plain (nv example_nested)"
  by (simp add: plain_def example_nested_def example_vcpu_def)

lemma plain_seg:
  assumes "plain v"
  shows "plain (snd (vmx_read_guest_seg_selector g v))" "fst (vmx_read_guest_seg_selector g v) = 0"
    "plain (snd (vmx_read_guest_seg_base g v))" "fst (vmx_read_guest_seg_base g v) = 0"
    "plain (snd (vmx_read_guest_seg_limit g v))" "plain (snd (vmx_read_guest_seg_ar g v))"
    "fst (vmx_read_guest_seg_ar g v) = 0"
  using assms by (auto simp: plain_def vmx_read_guest_seg_selector_def vmx_read_guest_seg_base_def
      vmx_read_guest_seg_limit_def vmx_read_guest_seg_ar_def vmx_segment_cache_test_set_def Let_def vmcs_ops
      example_kvm_save_segment_def split: if_splits)

lemma plain_segment:
  assumes "plain v"
  shows "plain (snd (vmx_get_segment g v))" "plain (snd (vmx_get_segment_base g v))" "fst (vmx_get_segment_base g v) = 0"
    "plain (snd (vmx_get_rflags v))" "fst (vmx_get_rflags v) = 0"
proof -
  have "\<not> vm86_active v" using assms by (simp add: plain_def)
  then show "plain (snd (vmx_get_segment g v))" "plain (snd (vmx_get_segment_base g v))" "fst (vmx_get_segment_base g v) = 0"
    using assms by (simp_all add: vmx_get_segment_def vmx_get_segment_base_def Let_def case_prod_unfold plain_seg)
  show "plain (snd (vmx_get_rflags v))" "fst (vmx_get_rflags v) = 0"
    using assms by (auto simp: plain_def vmx_get_rflags_def Let_def vmcs_ops)
qed

lemma plain_cpl:
  assumes "plain v"
  shows "plain (snd (vmx_get_cpl (nenv (example_nested_lib x)) v))" "fst (vmx_get_cpl (nenv (example_nested_lib x)) v) = 0"
proof -
  let ?w = "snd (vmx_get_rflags v)"
  let ?u = "?w\<lparr>regs_avail := insert EXREG_CPL (regs_avail ?w)\<rparr>"
  have p: "is_protmode (nenv (example_nested_lib x)) v" "\<not> is_long_mode (nenv (example_nested_lib x)) v"
    using assms by (simp_all add: example_lib_fields plain_def)
  have w: "plain ?w" "fst (vmx_get_rflags v) = 0" by (rule plain_segment[OF assms])+
  have "plain ?u" using w(1) by (simp add: plain_def)
  then have u: "fst (vmx_read_guest_seg_selector CS ?u) = 0" "plain (snd (vmx_read_guest_seg_selector CS ?u))"
    by (rule plain_seg)+
  have "plain ((snd (vmx_read_guest_seg_selector CS ?u))\<lparr>cpl := 0\<rparr>)" using u(2) by (simp add: plain_def)
  moreover have "cpl ?w = 0" using w(1) by (simp add: plain_def)
  ultimately show "plain (snd (vmx_get_cpl (nenv (example_nested_lib x)) v))" "fst (vmx_get_cpl (nenv (example_nested_lib x)) v) = 0"
    using p w u by (simp_all add: vmx_get_cpl_def Let_def case_prod_unfold)
qed

lemma plain_checks:
  assumes "plain (nv s)"
  shows "plain (nv (snd (in_vm86 s)))" "\<not> fst (in_vm86 s)" "plain (nv (snd (bad_code_segment (example_nested_lib x) s)))"
    "\<not> fst (bad_code_segment (example_nested_lib x) s)" "plain (nv (snd (cpl_not_0 (example_nested_lib x) s)))"
    "\<not> fst (cpl_not_0 (example_nested_lib x) s)"
  using plain_segment[OF assms] plain_cpl[OF assms, of x]
  by (simp_all add: in_vm86_def bad_code_segment_def cpl_not_0_def case_prod_unfold example_lib_fields plain_def)

lemma example_entered:
  obtains r s' where "exec_insn (example_nested_lib x) VMXON example_nested = Some (r, s')" "nested_vmxon (nv s')"
    "current_vmptr s' = - 1"
proof -
  let ?L = "example_nested_lib x" and ?s = "example_nested"
  let ?s3 = "snd (in_vm86 ?s)"
  let ?s4 = "snd (bad_code_segment ?L ?s3)"
  let ?s5 = "snd (cpl_not_0 ?L ?s4)"
  let ?t = "?s5\<lparr>current_shadow_vmcs := Some (\<lambda>_. 0), vmcs02_pool := [], vmcs02_num := 0\<rparr>"
  have s5: "same_vmx ?s ?s5" by (rule same_vmx_trans[OF same_vmx_trans[OF checks_same(1,3)] checks_same(2)])
  have p: "plain (nv ?s3)" "plain (nv ?s4)" using plain_checks plain_vcpu by blast+
  have on: "\<not> nested_vmxon (nv ?s5)" "n_feature_control ?s5 = 5" "current_vmptr ?s5 = - 1"
    using s5 by (auto elim!: same_vmxE simp: example_nested_def example_vcpu_def)
  have "arch_cr4 (nv ?s) = 0x2000" "arch_cr0 (nv ?s) = 1" using plain_vcpu by (simp_all add: plain_def)
  then have "handle_vmon ?L ?s = skip_and_succeed ?L (on_vcpu (\<lambda>v. v\<lparr>nested_vmxon := True\<rparr>) ?t)"
    using on plain_checks[OF plain_vcpu] plain_checks[OF p(1)] plain_checks[OF p(2)]
    by (simp add: handle_vmon_def example_lib_fields X86_CR4_VMXE_def X86_CR0_PE_def case_prod_unfold VMXON_NEEDED_FEATURES_def)
  moreover have s: "same_vmx u (nested_vmx_succeed (skip_insn ?L u))" for u
    by (rule same_vmx_trans[OF skip_same[OF example_keeps] report_same(1)])
  ultimately show thesis
    using that same_fields(1,3)[OF s] on(3) by (simp add: skip_and_succeed_def on_vcpu_def)
qed

lemma example_permission:
  assumes "plain (nv s)" "nested_vmxon (nv s)"
  obtains s1 where "nested_vmx_check_permission (example_nested_lib x) s = (True, s1)" "plain (nv s1)" "same_vmx s s1" "nmem s1 = nmem s"
proof -
  let ?L = "example_nested_lib x" and ?s1 = "s\<lparr>nv := snd (vmx_get_segment CS (nv s))\<rparr>"
  let ?s3 = "snd (cpl_not_0 ?L (snd (in_vm86 ?s1)))"
  have p1: "plain (nv ?s1)" using plain_segment(1)[OF assms(1)] by simp
  have p2: "plain (nv (snd (in_vm86 ?s1)))" by (rule plain_checks(1)[OF p1])
  then have "\<not> is_long_mode (nenv ?L) (nv (snd (in_vm86 ?s1)))" by (simp add: example_lib_fields plain_def)
  then have e: "nested_vmx_check_permission ?L s = (True, ?s3)"
    using assms plain_checks(2)[OF p1] plain_checks(6)[OF p2, of x]
    by (simp add: nested_vmx_check_permission_def case_prod_unfold)
  show thesis by (rule that[OF e plain_checks(5)[OF p2] permission_same(1)[OF e]])
      (simp add: cpl_not_0_def in_vm86_def case_prod_unfold)
qed

lemma example_address:
  assumes "plain (nv s)" "insn_info s = 0x8400000"
  obtains t where "operand_address (example_nested_lib x) s = (Some 0, t)" "nmem t = nmem s"
proof -
  have "vmcs_readl EXIT_QUALIFICATION (nv s) = 0" using assms(1) by (simp add: plain_def vmcs_readl_def)
  then show thesis
    using that plain_segment(3)[OF assms(1)] assms(2)
    by (simp add: operand_address_def get_vmx_mem_address_def add_reg_def case_prod_unfold Let_def)
qed

lemma example_input:
  assumes "gfn_to_memslot example_lib m 0 = Some sl" "base_gfn sl = 0" "userspace_addr sl = 0x400000" "mflags sl = 1"
    "nmem s = m"
  obtains bs where "read_operand (example_nested_lib x) 0 16 s = (Some bs, s)"
proof -
  have l: "nlib (example_nested_lib x) = example_lib" "nmmu (example_nested_lib x) v = nested_mmu" for v
    by (simp_all add: example_nested_defs)
  have "kvm_read_guest_page example_lib m 0 0 16 = Inr (map (\<lambda>i. user_mem m (0x400000 + of_nat i)) [0..<16])"
    using assms by (simp add: kvm_read_guest_page_def gfn_to_hva_prot_def gfn_to_hva_many_prot_def memslot_is_readonly_def
        KVM_MEM_READONLY_def example_lib_def del: upt_rec_numeral)
  then have "\<exists>bs. kvm_read_guest example_lib m 0 16 = Inr bs"
    by (simp add: kvm_read_guest_def read_guest_loop.simps[of _ _ _ _ 16] read_guest_loop.simps[of _ _ _ _ 0] next_segment_def
        Let_def)
  then obtain bs where "kvm_read_guest example_lib m 0 16 = Inr bs" by blast
  then have "kvm_read_guest_virt example_lib nested_mmu m 0 16 = (X86EMUL_CONTINUE, bs)"
    by (simp add: kvm_read_guest_virt_def kvm_read_guest_virt_helper_def read_virt_loop.simps[of _ _ _ _ 16]
        read_virt_loop.simps[of _ _ _ _ 0] nested_mmu_def UNMAPPED_GVA_def Let_def)
  then show thesis using that by (simp add: read_operand_def l assms(5))
qed

theorem invept_stops_witness: "\<exists>s. exec_insn (example_nested_lib 65) INVEPT s = None"
proof -
  let ?L = "example_nested_lib 65"
  obtain r s' where e: "exec_insn ?L VMXON example_nested = Some (r, s')" "nested_vmxon (nv s')" "current_vmptr s' = - 1"
    by (rule example_entered)
  obtain m sl where m: "gfn_to_memslot example_lib m 0 = Some sl" "base_gfn sl = 0" "userspace_addr sl = 0x400000" "mflags sl = 1"
    using example_mapped by (metis unat_0 zero_less_numeral)
  let ?v = "(nv example_nested)\<lparr>nested_vmxon := True\<rparr>"
  let ?s = "s'\<lparr>nv := ?v, nmem := m, insn_info := 0x8400000\<rparr>"
  have reach: "nested_reach ?L example_nested ?s"
    by (rule nested_reach.runs[OF nested_reach.executes[OF nested_reach.start e(1)]]) (simp add: e(2))
  have "plain (nv ?s)" using plain_vcpu by (simp add: plain_def)
  then obtain s1 where s1: "nested_vmx_check_permission ?L ?s = (True, s1)" "plain (nv s1)" "same_vmx ?s s1" "nmem s1 = nmem ?s"
    by (rule example_permission) simp
  have i: "insn_info s1 = 0x8400000" using same_fields(4)[OF s1(3)] by simp
  obtain s3 where s3: "operand_address ?L s1 = (Some 0, s3)" "nmem s3 = nmem s1"
    using example_address[OF s1(2) i] by blast
  obtain bs where bs: "read_operand ?L 0 16 s3 = (Some bs, s3)" using example_input[OF m, of s3] s1(4) s3(2) by auto
  have pe: "kvm_read_cr0_bits (nenv ?L) X86_CR0_PE (nv s1) = (1, nv s1)"
    using s1(2) by (simp add: example_lib_fields plain_def X86_CR0_PE_def)
  have off: "secondary_high (nctls (nmsr ?L)) AND SECONDARY_EXEC_ENABLE_EPT \<noteq> 0"
      "nested_ept_caps (nctls (nmsr ?L)) AND VMX_EPT_INVEPT_BIT \<noteq> 0" "bit (invept_types ?L) 1"
    by (simp_all add: example_nested_lib_def SECONDARY_EXEC_ENABLE_EPT_def VMX_EPT_INVEPT_BIT_def invept_types_def)
  have rr: "read_reg ?L (field_of 28 4 (insn_info ?s)) (s1\<lparr>nv := nv s1\<rparr>) = (65, s1)"
    by (simp add: example_lib_fields)
  have "exec_insn ?L INVEPT ?s = None"
    using invept_stops[OF example_keeps example_init reach s1(1) pe _ off(1,2) rr s3(1) bs] off(3) by simp
  then show ?thesis by blast
qed

end
