(* ===== verification/Mmio_Props.thy ===== *)
theory Mmio_Props
  imports Mmio Io_Bus_Props
begin

text \<open>
  The exits of an emulated access as a state machine: user space sees every byte of every fragment once,
  in order and at its address, in pieces of at most eight bytes; a read puts what user space answered at
  the place of the buffer the byte was asked for.
\<close>

subsection \<open>The pieces of a fragment\<close>

text \<open>What user space is asked for: an address and a length, with the offset in the buffer.\<close>

function pieces :: "mmio_fragment \<Rightarrow> (u64 \<times> nat \<times> nat) list" where
  "pieces f =
     (if frag_len f \<le> 8 then [(frag_gpa f, frag_data f, unat (frag_len f))]
      else (frag_gpa f, frag_data f, 8) #
        pieces \<lparr>frag_gpa = frag_gpa f + 8, frag_data = frag_data f + 8, frag_len = frag_len f - 8\<rparr>)"
  by pat_completeness auto
termination
  by (relation "measure (\<lambda>f. unat (frag_len f))") (auto simp: not_le word_less_nat_alt unat_sub_if')

declare pieces.simps [simp del]

lemma pieces_ne: "pieces f \<noteq> []"
  by (simp add: pieces.simps [of f])

text \<open>Byte by byte: the pieces of a fragment cover its bytes, each once and in order.\<close>

definition piece_bytes :: "u64 \<times> nat \<times> nat \<Rightarrow> (u64 \<times> nat) list" where
  "piece_bytes = (\<lambda>(a, off, n). map (\<lambda>i. (a + of_nat i, off + i)) [0..<n])"

definition frag_bytes :: "mmio_fragment \<Rightarrow> (u64 \<times> nat) list" where
  "frag_bytes f = piece_bytes (frag_gpa f, frag_data f, unat (frag_len f))"

lemma piece_bytes_split:
  "piece_bytes (a, off, m) @ piece_bytes (a + of_nat m, off + m, n) = piece_bytes (a, off, m + n)"
proof -
  have "[m..<m + n] = map (\<lambda>i. i + m) [0..<n]" by (metis map_add_upt add.commute)
  then have "[0..<m + n] = [0..<m] @ map (\<lambda>i. i + m) [0..<n]"
    using upt_add_eq_append [of 0 m n] by simp
  then show ?thesis by (simp add: piece_bytes_def comp_def ac_simps)
qed

lemma pieces_bytes: "concat (map piece_bytes (pieces f)) = frag_bytes f"
proof (induction f rule: pieces.induct)
  case (1 f)
  show ?case
  proof (cases "frag_len f \<le> 8")
    case False
    then have u: "unat (frag_len f - 8) = unat (frag_len f) - 8" "8 \<le> unat (frag_len f)"
      by (simp_all add: not_le word_less_nat_alt unat_sub_if' )
    have "piece_bytes (frag_gpa f, frag_data f, 8) @
        piece_bytes (frag_gpa f + of_nat 8, frag_data f + 8, unat (frag_len f) - 8) = frag_bytes f"
      unfolding piece_bytes_split frag_bytes_def using u(2) by simp
    with 1 False u show ?thesis by (simp add: pieces.simps [of f] frag_bytes_def)
  qed (simp add: pieces.simps [of f] frag_bytes_def)
qed

lemma pieces_short: "(a, off, n) \<in> set (pieces f) \<Longrightarrow> n \<le> 8"
proof (induction f rule: pieces.induct)
  case (1 f)
  then show ?case
    by (subst (asm) (2) pieces.simps) (auto simp: word_le_nat_alt split: if_splits)
qed

subsection \<open>Serving the exits\<close>

text \<open>What is left to serve: the current fragment and those after it.\<close>

definition open_fragments :: "'s io_vcpu \<Rightarrow> mmio_fragment list" where
  "open_fragments v = take (mmio_nr_fragments v - mmio_cur_fragment v) (drop (mmio_cur_fragment v) (mmio_fragments v))"

text \<open>User space answers a read by filling the data area; it sees the address and, for a write, the data.\<close>

definition user_serves :: "(u64 \<Rightarrow> nat \<Rightarrow> u8 list) \<Rightarrow> 's io_vcpu \<Rightarrow> 's io_vcpu" where
  "user_serves answer v =
     (if run_mmio_write v then v
      else v\<lparr>run_mmio_data := put_at 0 (answer (run_mmio_addr v) (unat (run_mmio_len v))) (run_mmio_data v)\<rparr>)"

definition seen :: "'s io_vcpu \<Rightarrow> u64 \<times> u8 list" where
  "seen v = (run_mmio_addr v, take (unat (run_mmio_len v)) (run_mmio_data v))"

text \<open>\<open>n\<close> exits in a row: what user space saw and answered, and the result of the last completion; each
  earlier one has to ask for another exit.\<close>

primrec serve_exits ::
    "('s io_vcpu \<Rightarrow> int \<times> 's io_vcpu) \<Rightarrow> (u64 \<Rightarrow> nat \<Rightarrow> u8 list) \<Rightarrow> nat \<Rightarrow> 's io_vcpu \<Rightarrow>
      ((u64 \<times> u8 list) list \<times> int \<times> 's io_vcpu) option" where
  "serve_exits emul answer 0 v = None"
| "serve_exits emul answer (Suc n) v =
     (let v1 = user_serves answer v
      in do { (r, v2) \<leftarrow> complete_emulated_mmio emul v1;
              if n = 0 then Some ([seen v1], r, v2)
              else if r = 0 then do { (es, r', v3) \<leftarrow> serve_exits emul answer n v2; Some (seen v1 # es, r', v3) }
              else None })"

text \<open>The exit that is set up belongs to the current piece.\<close>

definition frag_in_buf :: "'s io_vcpu \<Rightarrow> mmio_fragment \<Rightarrow> bool" where
  "frag_in_buf v f \<longleftrightarrow> frag_data f + unat (frag_len f) \<le> length (emul_buf v)"

definition mmio_open :: "'s io_vcpu \<Rightarrow> bool" where
  "mmio_open v \<longleftrightarrow> mmio_cur_fragment v < mmio_nr_fragments v \<and> mmio_nr_fragments v \<le> length (mmio_fragments v) \<and>
     length (run_mmio_data v) = 8 \<and> (\<forall>f \<in> set (open_fragments v). frag_in_buf v f)"

definition mmio_asked :: "'s io_vcpu \<Rightarrow> bool" where
  "mmio_asked v \<longleftrightarrow> mmio_open v \<and> mmio_needed v \<and> run_mmio_write v = mmio_is_write v \<and>
     (let f = mmio_fragments v ! mmio_cur_fragment v
      in run_mmio_addr v = frag_gpa f \<and> run_mmio_len v = min 8 (frag_len f) \<and>
         (mmio_is_write v \<longrightarrow>
            take (unat (min 8 (frag_len f))) (run_mmio_data v) =
            get_at (frag_data f) (unat (min 8 (frag_len f))) (emul_buf v)))"

lemma open_Cons:
  assumes "mmio_open v"
  shows "open_fragments v = mmio_fragments v ! mmio_cur_fragment v #
    take (mmio_nr_fragments v - Suc (mmio_cur_fragment v)) (drop (Suc (mmio_cur_fragment v)) (mmio_fragments v))"
proof -
  have c: "mmio_cur_fragment v < mmio_nr_fragments v" "mmio_cur_fragment v < length (mmio_fragments v)"
    using assms by (auto simp: mmio_open_def)
  then have "drop (mmio_cur_fragment v) (mmio_fragments v) = mmio_fragments v ! mmio_cur_fragment v #
      drop (Suc (mmio_cur_fragment v)) (mmio_fragments v)" by (simp add: Cons_nth_drop_Suc)
  moreover have "mmio_nr_fragments v - mmio_cur_fragment v = Suc (mmio_nr_fragments v - Suc (mmio_cur_fragment v))"
    using c by simp
  ultimately show ?thesis unfolding open_fragments_def by simp
qed

definition open_pieces :: "'s io_vcpu \<Rightarrow> (u64 \<times> nat \<times> nat) list" where
  "open_pieces v = concat (map pieces (open_fragments v))"

text \<open>Storing the answers: one piece, and the pieces in order.\<close>

definition store_answer :: "(u64 \<Rightarrow> nat \<Rightarrow> u8 list) \<Rightarrow> u64 \<times> nat \<times> nat \<Rightarrow> u8 list \<Rightarrow> u8 list" where
  "store_answer answer = (\<lambda>(a, off, n) b. put_at off (answer a n) b)"

lemma length_put_at: "off + length d \<le> length b \<Longrightarrow> length (put_at off d b) = length b"
  by (simp add: put_at_def)

lemma take_put_at: "length d \<le> length b \<Longrightarrow> take (length d) (put_at 0 d b) = d"
  by (simp add: put_at_def)

lemma length_get_at: "off + n \<le> length b \<Longrightarrow> length (get_at off n b) = n"
  by (simp add: get_at_def)

lemma finish_piece_props:
  assumes o: "mmio_open v"
  defines "f \<equiv> mmio_fragments v ! mmio_cur_fragment v"
  defines "n \<equiv> unat (min 8 (frag_len f))"
  defines "v1 \<equiv> finish_piece v"
  shows "open_pieces v = (frag_gpa f, frag_data f, n) # open_pieces v1"
    and "mmio_nr_fragments v1 = mmio_nr_fragments v" "mmio_is_write v1 = mmio_is_write v"
    and "mmio_needed v1 = mmio_needed v"
    and "emul_buf v1 = (if mmio_is_write v then emul_buf v
      else put_at (frag_data f) (take n (run_mmio_data v)) (emul_buf v))"
    and "mmio_cur_fragment v1 < mmio_nr_fragments v1 \<longrightarrow> mmio_open v1"
    and "mmio_nr_fragments v1 \<le> mmio_cur_fragment v1 \<longleftrightarrow> open_pieces v1 = []"
    and "frag_data f + n \<le> length (emul_buf v)" "n \<le> 8"
proof -
  let ?cur = "mmio_cur_fragment v"
  define rest where "rest = take (mmio_nr_fragments v - Suc ?cur) (drop (Suc ?cur) (mmio_fragments v))"
  have of: "open_fragments v = f # rest" unfolding f_def rest_def by (rule open_Cons [OF o])
  have c: "?cur < mmio_nr_fragments v" "mmio_nr_fragments v \<le> length (mmio_fragments v)" "length (run_mmio_data v) = 8"
    and fb: "frag_data f + unat (frag_len f) \<le> length (emul_buf v)" and rb: "\<forall>g \<in> set rest. frag_in_buf v g"
    using o of by (auto simp: mmio_open_def frag_in_buf_def)
  have n8: "n \<le> 8" "n \<le> unat (frag_len f)" by (auto simp: n_def min_def word_le_nat_alt)
  show "n \<le> 8" by (rule n8)
  show fn: "frag_data f + n \<le> length (emul_buf v)" using fb n8 by simp
  show "mmio_nr_fragments v1 = mmio_nr_fragments v" "mmio_is_write v1 = mmio_is_write v"
    "mmio_needed v1 = mmio_needed v"
    by (simp_all add: v1_def finish_piece_def Let_def)
  show buf: "emul_buf v1 = (if mmio_is_write v then emul_buf v
      else put_at (frag_data f) (take n (run_mmio_data v)) (emul_buf v))"
    by (simp add: v1_def finish_piece_def Let_def f_def n_def)
  have len: "length (emul_buf v1) = length (emul_buf v)"
    unfolding buf using fn n8 c(3) by (simp add: length_put_at)
  have data: "length (run_mmio_data v1) = 8" "mmio_nr_fragments v1 = mmio_nr_fragments v"
    using c(3) by (simp_all add: v1_def finish_piece_def Let_def)
  have rb1: "\<forall>g \<in> set rest. frag_in_buf v1 g" using rb len by (simp add: frag_in_buf_def)
  have main: "open_pieces v = (frag_gpa f, frag_data f, n) # open_pieces v1 \<and>
    (mmio_cur_fragment v1 < mmio_nr_fragments v1 \<longrightarrow> mmio_open v1) \<and>
    (mmio_nr_fragments v1 \<le> mmio_cur_fragment v1 \<longleftrightarrow> open_pieces v1 = [])"
  proof (cases "frag_len f \<le> 8")
    case True
    then have v1: "mmio_cur_fragment v1 = Suc ?cur" "mmio_fragments v1 = mmio_fragments v"
      by (simp_all add: v1_def finish_piece_def Let_def f_def)
    then have of1: "open_fragments v1 = rest" by (simp add: open_fragments_def rest_def data)
    have "mmio_nr_fragments v1 \<le> mmio_cur_fragment v1 \<longleftrightarrow> rest = []"
      using c by (auto simp: v1 data rest_def)
    moreover have "concat (map pieces rest) = [] \<longleftrightarrow> rest = []" by (auto simp: pieces_ne)
    ultimately show ?thesis using True of of1 rb1 c v1 data
      by (simp add: open_pieces_def mmio_open_def pieces.simps [of f] n_def min_def)
  next
    case False
    define f' where "f' = \<lparr>frag_gpa = frag_gpa f + 8, frag_data = frag_data f + 8, frag_len = frag_len f - 8\<rparr>"
    have m8: "min 8 (frag_len f) = 8" using False by (simp add: min.absorb1 not_le less_imp_le)
    have v1: "mmio_cur_fragment v1 = ?cur" "mmio_fragments v1 = (mmio_fragments v)[?cur := f']"
      unfolding v1_def finish_piece_def Let_def f_def [symmetric] m8 using False by (simp_all add: f'_def)
    then have of1: "open_fragments v1 = f' # rest"
      using c data by (simp add: open_fragments_def rest_def drop_update_swap Cons_nth_drop_Suc [symmetric]
          Suc_diff_Suc [symmetric])
    have "unat (frag_len f') = unat (frag_len f) - 8" "8 \<le> unat (frag_len f)"
      using False by (simp_all add: f'_def not_le word_less_nat_alt unat_sub_if')
    then have "frag_in_buf v1 f'" using fb by (simp add: frag_in_buf_def len f'_def)
    moreover have "pieces f = (frag_gpa f, frag_data f, n) # pieces f'"
      using False by (simp add: pieces.simps [of f] n_def m8 f'_def)
    ultimately show ?thesis using of of1 rb1 c v1 data
      by (simp add: open_pieces_def mmio_open_def pieces_ne)
  qed
  show "open_pieces v = (frag_gpa f, frag_data f, n) # open_pieces v1" using main by blast
  show "mmio_cur_fragment v1 < mmio_nr_fragments v1 \<longrightarrow> mmio_open v1" using main by blast
  show "mmio_nr_fragments v1 \<le> mmio_cur_fragment v1 \<longleftrightarrow> open_pieces v1 = []" using main by blast
qed

text \<open>One exit.\<close>

lemma serve_one:
  assumes a: "mmio_asked v" and ans: "\<And>x n. length (answer x n) = n"
  defines "p \<equiv> hd (open_pieces v)"
  shows "seen (user_serves answer v) = (fst p, if mmio_is_write v then get_at (fst (snd p)) (snd (snd p)) (emul_buf v)
      else answer (fst p) (snd (snd p)))"
    and "\<exists>v1. v1 = finish_piece (user_serves answer v) \<and> open_pieces v = p # open_pieces v1 \<and>
      emul_buf v1 = (if mmio_is_write v then emul_buf v else store_answer answer p (emul_buf v)) \<and>
      mmio_is_write v1 = mmio_is_write v \<and> mmio_needed v1 \<and>
      (open_pieces v1 \<noteq> [] \<longrightarrow> mmio_open v1) \<and>
      (mmio_nr_fragments v1 \<le> mmio_cur_fragment v1 \<longleftrightarrow> open_pieces v1 = [])"
proof -
  let ?u = "user_serves answer v" and ?f = "mmio_fragments v ! mmio_cur_fragment v"
  let ?n = "unat (min 8 (frag_len ?f))"
  have o: "mmio_open v" and need: "mmio_needed v" and ad: "run_mmio_addr v = frag_gpa ?f"
    and ln: "run_mmio_len v = min 8 (frag_len ?f)" and wr: "run_mmio_write v = mmio_is_write v"
    and dt: "mmio_is_write v \<Longrightarrow> take ?n (run_mmio_data v) = get_at (frag_data ?f) ?n (emul_buf v)"
    using a by (auto simp: mmio_asked_def Let_def)
  have n8: "?n \<le> 8" by (auto simp: min_def word_le_nat_alt)
  have l8: "length (run_mmio_data v) = 8" using o by (simp add: mmio_open_def)
  have us: "mmio_fragments ?u = mmio_fragments v" "mmio_cur_fragment ?u = mmio_cur_fragment v"
    "mmio_nr_fragments ?u = mmio_nr_fragments v" "emul_buf ?u = emul_buf v" "mmio_is_write ?u = mmio_is_write v"
    "mmio_needed ?u = mmio_needed v" "run_mmio_addr ?u = run_mmio_addr v" "run_mmio_len ?u = run_mmio_len v"
    by (simp_all add: user_serves_def)
  have ud: "run_mmio_data ?u = (if mmio_is_write v then run_mmio_data v
      else put_at 0 (answer (frag_gpa ?f) ?n) (run_mmio_data v))"
    using wr by (simp add: user_serves_def ad ln)
  have ut: "take ?n (run_mmio_data ?u) = (if mmio_is_write v then get_at (frag_data ?f) ?n (emul_buf v)
      else answer (frag_gpa ?f) ?n)"
    using dt take_put_at [of "answer (frag_gpa ?f) ?n" "run_mmio_data v"] ans n8 l8 by (simp add: ud)
  have op: "open_fragments ?u = open_fragments v" by (simp add: open_fragments_def us)
  have uo: "mmio_open ?u"
    using o l8 n8 ans by (simp add: mmio_open_def us op frag_in_buf_def ud length_put_at)
  note fp = finish_piece_props [OF uo, unfolded us]
  have p: "p = (frag_gpa ?f, frag_data ?f, ?n)"
    using fp(1) by (simp add: p_def open_pieces_def op)
  show "seen ?u = (fst p, if mmio_is_write v then get_at (fst (snd p)) (snd (snd p)) (emul_buf v)
      else answer (fst p) (snd (snd p)))"
    by (simp add: seen_def us ad ln ut p)
  have "open_pieces v = p # open_pieces (finish_piece ?u)"
    using fp(1) by (simp add: p open_pieces_def op)
  then show "\<exists>v1. v1 = finish_piece ?u \<and> open_pieces v = p # open_pieces v1 \<and>
      emul_buf v1 = (if mmio_is_write v then emul_buf v else store_answer answer p (emul_buf v)) \<and>
      mmio_is_write v1 = mmio_is_write v \<and> mmio_needed v1 \<and>
      (open_pieces v1 \<noteq> [] \<longrightarrow> mmio_open v1) \<and>
      (mmio_nr_fragments v1 \<le> mmio_cur_fragment v1 \<longleftrightarrow> open_pieces v1 = [])"
    using fp need by (simp add: p store_answer_def ut not_le [symmetric])
qed

text \<open>Asking for the next piece.\<close>

definition ask_next :: "'s io_vcpu \<Rightarrow> 's io_vcpu" where
  "ask_next v1 =
     (let frag = mmio_fragments v1 ! mmio_cur_fragment v1;
          len = min 8 (frag_len frag);
          v2 = v1\<lparr>run_exit_reason := KVM_EXIT_MMIO, run_mmio_addr := frag_gpa frag\<rparr>;
          v3 = (if mmio_is_write v2
                then v2\<lparr>run_mmio_data := put_at 0 (get_at (frag_data frag) (unat len) (emul_buf v2)) (run_mmio_data v2)\<rparr>
                else v2)
      in v3\<lparr>run_mmio_len := len, run_mmio_write := mmio_is_write v3, completion_fn := Some Complete_mmio\<rparr>)"

lemma ask_next_asked:
  assumes o: "mmio_open v" and n: "mmio_needed v"
  shows "mmio_asked (ask_next v)" "open_pieces (ask_next v) = open_pieces v" "emul_buf (ask_next v) = emul_buf v"
    "mmio_is_write (ask_next v) = mmio_is_write v"
proof -
  let ?f = "mmio_fragments v ! mmio_cur_fragment v"
  let ?n = "unat (min 8 (frag_len ?f))"
  have same: "mmio_fragments (ask_next v) = mmio_fragments v" "mmio_cur_fragment (ask_next v) = mmio_cur_fragment v"
    "mmio_nr_fragments (ask_next v) = mmio_nr_fragments v" "mmio_needed (ask_next v) = mmio_needed v"
    by (simp_all add: ask_next_def Let_def)
  show buf: "emul_buf (ask_next v) = emul_buf v" and w: "mmio_is_write (ask_next v) = mmio_is_write v"
    by (simp_all add: ask_next_def Let_def)
  have op: "open_fragments (ask_next v) = open_fragments v" by (simp add: open_fragments_def same)
  then show "open_pieces (ask_next v) = open_pieces v" by (simp add: open_pieces_def)
  have n8: "?n \<le> 8" "?n \<le> unat (frag_len ?f)" by (auto simp: min_def word_le_nat_alt)
  have fb: "frag_data ?f + unat (frag_len ?f) \<le> length (emul_buf v)" and l8: "length (run_mmio_data v) = 8"
    using o open_Cons [OF o] by (auto simp: mmio_open_def frag_in_buf_def)
  have gl: "length (get_at (frag_data ?f) ?n (emul_buf v)) = ?n" by (rule length_get_at) (use fb n8 in simp)
  have data: "run_mmio_data (ask_next v) = (if mmio_is_write v
      then put_at 0 (get_at (frag_data ?f) ?n (emul_buf v)) (run_mmio_data v) else run_mmio_data v)"
    by (simp add: ask_next_def Let_def)
  have o': "mmio_open (ask_next v)"
    using o gl n8 l8 unfolding mmio_open_def op same buf data frag_in_buf_def by (simp add: length_put_at)
  have "take ?n (put_at 0 (get_at (frag_data ?f) ?n (emul_buf v)) (run_mmio_data v)) =
      get_at (frag_data ?f) ?n (emul_buf v)"
    using take_put_at [of "get_at (frag_data ?f) ?n (emul_buf v)" "run_mmio_data v"] gl n8 l8 by simp
  then have "mmio_is_write v \<longrightarrow> take ?n (run_mmio_data (ask_next v)) = get_at (frag_data ?f) ?n (emul_buf v)"
    by (simp add: data)
  moreover have "run_mmio_addr (ask_next v) = frag_gpa ?f" "run_mmio_len (ask_next v) = min 8 (frag_len ?f)"
    "run_mmio_write (ask_next v) = mmio_is_write v"
    by (simp_all add: ask_next_def Let_def)
  ultimately show "mmio_asked (ask_next v)"
    using o' n by (simp add: mmio_asked_def same buf w Let_def)
qed

lemma complete_mmio_cases:
  assumes "mmio_needed v" and "v1 = finish_piece v"
  shows "complete_emulated_mmio emul v =
    (if mmio_nr_fragments v1 \<le> mmio_cur_fragment v1 then
       Some (if mmio_is_write v1 then (1, v1\<lparr>mmio_needed := False\<rparr>)
             else complete_emulated_io emul (v1\<lparr>mmio_needed := False, mmio_read_completed := True\<rparr>))
     else Some (0, ask_next v1))"
  using assms by (simp add: complete_emulated_mmio_def ask_next_def Let_def)

text \<open>What user space sees of a piece, and the last state.\<close>

definition exit_of :: "bool \<Rightarrow> (u64 \<Rightarrow> nat \<Rightarrow> u8 list) \<Rightarrow> u8 list \<Rightarrow> u64 \<times> nat \<times> nat \<Rightarrow> u64 \<times> u8 list" where
  "exit_of w answer buf = (\<lambda>(a, off, n). (a, if w then get_at off n buf else answer a n))"

lemma serve_all:
  assumes ans: "\<And>x n. length (answer x n) = n"
  shows "mmio_asked v \<Longrightarrow> length (open_pieces v) = Suc n \<Longrightarrow>
    \<exists>v' r v''. serve_exits emul answer (Suc n) v =
        Some (map (exit_of (mmio_is_write v) answer (emul_buf v)) (open_pieces v), r, v'') \<and>
      (r, v'') = (if mmio_is_write v then (1, v') else complete_emulated_io emul v') \<and>
      \<not> mmio_needed v' \<and> (\<not> mmio_is_write v \<longrightarrow> mmio_read_completed v') \<and>
      emul_buf v' = (if mmio_is_write v then emul_buf v else fold (store_answer answer) (open_pieces v) (emul_buf v))"
proof (induction n arbitrary: v)
  case 0
  then obtain p where p: "open_pieces v = [p]" by (auto simp: length_Suc_conv)
  obtain v1 where v1: "v1 = finish_piece (user_serves answer v)" "open_pieces v = p # open_pieces v1"
    "emul_buf v1 = (if mmio_is_write v then emul_buf v else store_answer answer p (emul_buf v))"
    "mmio_is_write v1 = mmio_is_write v" "mmio_nr_fragments v1 \<le> mmio_cur_fragment v1 \<longleftrightarrow> open_pieces v1 = []"
    using serve_one(2) [OF 0(1) ans] p by auto
  have n: "mmio_needed (user_serves answer v)" using 0 by (simp add: mmio_asked_def user_serves_def)
  have "seen (user_serves answer v) = exit_of (mmio_is_write v) answer (emul_buf v) p"
    using serve_one(1) [OF 0(1) ans] p by (simp add: exit_of_def split: prod.split)
  moreover define v' where "v' = (if mmio_is_write v then v1\<lparr>mmio_needed := False\<rparr>
      else v1\<lparr>mmio_needed := False, mmio_read_completed := True\<rparr>)"
  moreover obtain r v'' where r: "(r, v'') = (if mmio_is_write v then (1, v') else complete_emulated_io emul v')"
    by (metis surj_pair)
  moreover have "complete_emulated_mmio emul (user_serves answer v) = Some (r, v'')"
    using v1 p complete_mmio_cases [OF n v1(1), of emul] r by (simp add: v'_def)
  ultimately have "serve_exits emul answer (Suc 0) v =
      Some (map (exit_of (mmio_is_write v) answer (emul_buf v)) (open_pieces v), r, v'')"
    by (simp add: p)
  with r v1 p show ?case by (intro exI [of _ v'] exI [of _ r] exI [of _ v'']) (simp add: v'_def)
next
  case (Suc n)
  then obtain p ps where p: "open_pieces v = p # ps" "length ps = Suc n" by (auto simp: length_Suc_conv)
  obtain v1 where v1: "v1 = finish_piece (user_serves answer v)" "open_pieces v = p # open_pieces v1"
    "emul_buf v1 = (if mmio_is_write v then emul_buf v else store_answer answer p (emul_buf v))"
    "mmio_is_write v1 = mmio_is_write v" "mmio_needed v1" "open_pieces v1 \<noteq> [] \<longrightarrow> mmio_open v1"
    "mmio_nr_fragments v1 \<le> mmio_cur_fragment v1 \<longleftrightarrow> open_pieces v1 = []"
    using serve_one(2) [OF Suc.prems(1) ans] p by auto
  have n: "mmio_needed (user_serves answer v)" using Suc.prems by (simp add: mmio_asked_def user_serves_def)
  have seen: "seen (user_serves answer v) = exit_of (mmio_is_write v) answer (emul_buf v) p"
    using serve_one(1) [OF Suc.prems(1) ans] p by (simp add: exit_of_def split: prod.split)
  have ps: "open_pieces v1 = ps" using v1 p by simp
  then have o: "mmio_open v1" using v1 p by auto
  note next1 = ask_next_asked [OF o v1(5)]
  have c: "complete_emulated_mmio emul (user_serves answer v) = Some (0, ask_next v1)"
    using complete_mmio_cases [OF n v1(1), of emul] v1 ps p by auto
  have "length (open_pieces (ask_next v1)) = Suc n" using next1 ps p by simp
  from Suc.IH [OF next1(1) this] obtain v' r v'' where ih:
    "serve_exits emul answer (Suc n) (ask_next v1) = Some (map (exit_of (mmio_is_write v) answer (emul_buf v1)) ps, r, v'')"
    "(r, v'') = (if mmio_is_write v then (1, v') else complete_emulated_io emul v')"
    "\<not> mmio_needed v'" "\<not> mmio_is_write v \<longrightarrow> mmio_read_completed v'"
    "emul_buf v' = (if mmio_is_write v then emul_buf v1 else fold (store_answer answer) ps (emul_buf v1))"
    unfolding next1(2-4) ps v1(4) by auto
  have ex: "map (exit_of (mmio_is_write v) answer (emul_buf v1)) ps =
      map (exit_of (mmio_is_write v) answer (emul_buf v)) ps"
    by (cases "mmio_is_write v") (auto simp: v1(3) exit_of_def)
  have "serve_exits emul answer (Suc (Suc n)) v =
      Some (map (exit_of (mmio_is_write v) answer (emul_buf v)) (open_pieces v), r, v'')"
    using ih(1) by (subst serve_exits.simps(2)) (simp add: Let_def c seen p ex del: serve_exits.simps(2))
  with ih v1 p show ?case by (intro exI [of _ v'] exI [of _ r] exI [of _ v'']) simp
qed

end
