(* ===== verification/Mmio_Access.thy ===== *)
theory Mmio_Access
  imports Mmio_Props Guest_Memory_Props
begin

text \<open>
  An emulated access as a whole: the interface of the table of callbacks
  (\<^verbatim>\<open>struct read_write_emulator_ops\<close>), what an access that needs user space leaves behind, and that
  the tables of reads and of writes keep the interface.
\<close>

subsection \<open>Crossing a page\<close>

lemma and_minus_mod: "uint (- a AND 0xFFF :: u64) = (- uint a) mod 4096"
proof -
  have m: "(- a AND 0xFFF) = take_bit 12 (- a)" by (simp add: take_bit_eq_mask mask_eq_exp_minus_1)
  have "uint (- a AND 0xFFF :: u64) = uint (- a) mod 2 ^ 12"
    unfolding m unsigned_take_bit_eq by (rule take_bit_eq_mod)
  also have "\<dots> = (- uint a) mod 2 ^ 64 mod 2 ^ 12" by (simp add: uint_word_ariths)
  also have "\<dots> = (- uint a) mod 2 ^ 12" by (rule mod_mod_cancel) simp
  finally show ?thesis by simp
qed

lemma now_eq: "unat (- a AND 0xFFF :: u64) = (if unat a mod 4096 = 0 then 0 else 4096 - unat a mod 4096)"
proof -
  have "int (unat (- a AND 0xFFF :: u64)) = (- int (unat a)) mod 4096"
    using and_minus_mod [of a] by (simp only: uint_nat [symmetric])
  also have "\<dots> = (if int (unat a) mod 4096 = 0 then 0 else 4096 - int (unat a) mod 4096)"
    by (rule zmod_zminus1_eq_if)
  also have "\<dots> = int (if unat a mod 4096 = 0 then 0 else 4096 - unat a mod 4096)"
  proof -
    define r where "r = unat a mod 4096"
    have "int (unat a) mod 4096 = int r" "r \<le> 4096" unfolding r_def by (simp_all add: zmod_int less_imp_le)
    then show ?thesis unfolding r_def [symmetric] by (simp add: of_nat_diff)
  qed
  finally show ?thesis by (simp only: of_nat_eq_iff)
qed

definition page_crossed :: "u64 \<Rightarrow> nat \<Rightarrow> bool" where
  "page_crossed addr bytes = (((addr + of_nat bytes - 1) XOR addr) AND NOT 0xFFF \<noteq> 0)"

lemma same_page_xor:
  assumes "drop_bit 12 x = drop_bit 12 (y :: u64)"
  shows "(x XOR y) AND NOT 0xFFF = 0"
proof -
  have "bit x n = bit y n" if "12 \<le> n" for n
    using arg_cong [OF assms, of "\<lambda>z. bit z (n - 12)"] that by (simp add: bit_drop_bit_eq)
  then show ?thesis by (intro bit_word_eqI) (auto simp: bit_simps not_less)
qed

lemma crossed_now:
  assumes "page_crossed addr bytes" "0 < bytes"
  shows "unat (- addr AND 0xFFF) < bytes"
proof (rule ccontr)
  assume n: "\<not> ?thesis"
  define r where "r = unat addr mod 4096"
  have n': "bytes \<le> (if r = 0 then 0 else 4096 - r)" using n unfolding now_eq r_def [symmetric] by simp
  then have r0: "r \<noteq> 0" using assms(2) by (cases "r = 0") simp_all
  then have "bytes - 1 < 0x1000 - unat (addr AND 0xFFF)"
    using n' r0 assms(2) unfolding unat_offset r_def [symmetric] by simp
  from same_page(1) [OF this] have "drop_bit 12 (addr + of_nat bytes - 1) = drop_bit 12 addr"
    using assms(2) by (simp add: of_nat_diff algebra_simps)
  from same_page_xor [OF this] show False using assms(1) by (simp add: page_crossed_def)
qed

subsection \<open>The interface\<close>

text \<open>The fields an access must not disturb before it adds its fragments.\<close>

definition same_mmio :: "'s io_vcpu \<Rightarrow> 's io_vcpu \<Rightarrow> bool" where
  "same_mmio v v' \<longleftrightarrow> mmio_fragments v' = mmio_fragments v \<and> mmio_nr_fragments v' = mmio_nr_fragments v \<and>
     run_mmio_data v' = run_mmio_data v \<and> mmio_needed v' = mmio_needed v"

lemma same_mmio_refl [simp]: "same_mmio v v" by (simp add: same_mmio_def)

lemma same_mmio_trans: "same_mmio u v \<Longrightarrow> same_mmio v w \<Longrightarrow> same_mmio u w" by (simp add: same_mmio_def)

text \<open>The fragments that an access to \<open>n\<close> bytes at offset \<open>off\<close> has added to those of before: none,
  or one with the last bytes; \<open>g\<close> is the guest physical address of the first byte.\<close>

definition tail_fragment :: "nat \<Rightarrow> nat \<Rightarrow> u64 \<Rightarrow> mmio_fragment list \<Rightarrow> bool" where
  "tail_fragment off n g fs \<longleftrightarrow> fs = [] \<or>
     (\<exists>h. h < n \<and> fs = [\<lparr>frag_gpa = g + of_nat h, frag_data = off + h, frag_len = of_nat (n - h)\<rparr>])"

lemma tail_fragment_end:
  assumes "tail_fragment off n g fs" "f \<in> set fs"
  shows "off \<le> frag_data f" "frag_data f + unat (frag_len f) \<le> off + n"
proof -
  obtain h where h: "h < n" "frag_data f = off + h" "frag_len f = of_nat (n - h)"
    using assms by (auto simp: tail_fragment_def)
  have "unat (of_nat (n - h) :: u32) \<le> n - h" by (simp only: unat_of_nat mod_less_eq_dividend)
  with h show "off \<le> frag_data f" "frag_data f + unat (frag_len f) \<le> off + n" by simp_all
qed

text \<open>\<open>sound\<close> collects what the callbacks need of the code outside the repository; \<open>bufs\<close> says how
  they may change the buffer.\<close>

locale emulator_ops =
  fixes ops :: "'s read_write_emulator_ops" and sound :: bool and bufs :: "u8 list \<Rightarrow> u8 list \<Rightarrow> bool"
  assumes bufs_refl: "bufs b b" and bufs_trans: "bufs a b \<Longrightarrow> bufs b c \<Longrightarrow> bufs a c"
    and bufs_length: "bufs a b \<Longrightarrow> length b = length a"
    and prepare_idle: "ops_prepare ops = Some f \<Longrightarrow> f v = (False, v') \<Longrightarrow> v' = v"
    and emulate_keeps: "sound \<Longrightarrow> off + n \<le> length (emul_buf v) \<Longrightarrow> ops_emulate ops gpa off n v = (d, v') \<Longrightarrow>
      same_mmio v v' \<and> bufs (emul_buf v) (emul_buf v')"
    and mmio_keeps: "sound \<Longrightarrow> off + n \<le> length (emul_buf v) \<Longrightarrow> ops_mmio ops gpa n off v = Some (h, v') \<Longrightarrow>
      h \<le> n \<and> same_mmio v v' \<and> bufs (emul_buf v) (emul_buf v')"
    and exit_asks: "mmio_open v \<Longrightarrow> mmio_needed v \<Longrightarrow> run_mmio_write v = ops_write ops \<Longrightarrow>
      mmio_is_write v = ops_write ops \<Longrightarrow> mmio_cur_fragment v = 0 \<Longrightarrow>
      run_mmio_addr v = frag_gpa (mmio_fragments v ! 0) \<Longrightarrow> run_mmio_len v = min 8 (frag_len (mmio_fragments v ! 0)) \<Longrightarrow>
      ops_exit_mmio ops v = (r, v') \<Longrightarrow>
      mmio_asked v' \<and> open_fragments v' = open_fragments v \<and> emul_buf v' = emul_buf v \<and>
      mmio_is_write v' = ops_write ops"
begin

lemma onepage:
  assumes sd: sound and b: "off + n \<le> length (emul_buf v)" and nr: "mmio_nr_fragments v \<le> length (mmio_fragments v)"
    and r: "emulator_read_write_onepage M ops addr off n v = Some (X86EMUL_CONTINUE, v')"
  shows "mmio_nr_fragments v' \<le> length (mmio_fragments v') \<and> length (mmio_fragments v') = length (mmio_fragments v) \<and>
    run_mmio_data v' = run_mmio_data v \<and> bufs (emul_buf v) (emul_buf v') \<and>
    mmio_needed v' = mmio_needed v \<and>
    (\<exists>fs. tail_fragment off n (snd (vcpu_mmio_gva_to_gpa M (io_mem v) addr (ops_write ops))) fs \<and>
      take (mmio_nr_fragments v') (mmio_fragments v') = take (mmio_nr_fragments v) (mmio_fragments v) @ fs)"
proof -
  obtain ret gpa where t: "vcpu_mmio_gva_to_gpa M (io_mem v) addr (ops_write ops) = (ret, gpa)" by (metis surj_pair)
  obtain ok v1 where e: "(if ret \<noteq> 0 then (False, v) else ops_emulate ops gpa off n v) = (ok, v1)" by (metis surj_pair)
  have nf: "\<not> ret < 0" using r t by (auto simp: emulator_read_write_onepage_def)
  have s1: "same_mmio v v1" "bufs (emul_buf v) (emul_buf v1)"
    using e emulate_keeps [OF sd b, of gpa ok v1] bufs_refl by (auto split: if_splits)
  show ?thesis
  proof (cases ok)
    case True
    then have "v' = v1" using r t e nf by (simp add: emulator_read_write_onepage_def)
    then show ?thesis using s1 nr by (intro conjI exI [of _ "[]"]) (auto simp: same_mmio_def tail_fragment_def)
  next
    case False
    obtain h v2 where m: "ops_mmio ops gpa n off v1 = Some (h, v2)"
      using r t e nf False by (auto simp: emulator_read_write_onepage_def bind_eq_Some_conv)
    have b1: "off + n \<le> length (emul_buf v1)" using b bufs_length [OF s1(2)] by simp
    have s2: "h \<le> n" "same_mmio v v2" "bufs (emul_buf v) (emul_buf v2)"
      using mmio_keeps [OF sd b1 m] same_mmio_trans [OF s1(1)] bufs_trans [OF s1(2)] by auto
    show ?thesis
    proof (cases "h = n")
      case True
      then have "v' = v2" using r t e nf False m by (simp add: emulator_read_write_onepage_def)
      then show ?thesis using s2 nr by (intro conjI exI [of _ "[]"]) (auto simp: same_mmio_def tail_fragment_def)
    next
      case ne: False
      let ?f = "\<lparr>frag_gpa = gpa + of_nat h, frag_data = off + h, frag_len = of_nat (n - h)\<rparr>"
      have a: "add_fragment ?f v2 = Some v'"
        using r t e nf False m ne by (auto simp: emulator_read_write_onepage_def bind_eq_Some_conv)
      have "take (Suc (mmio_nr_fragments v)) ((mmio_fragments v)[mmio_nr_fragments v := ?f]) =
          take (mmio_nr_fragments v) (mmio_fragments v) @ [?f]" if "mmio_nr_fragments v < length (mmio_fragments v)"
        using that by (simp add: take_Suc_conv_app_nth)
      moreover have "tail_fragment off n gpa [?f]"
        unfolding tail_fragment_def using s2 ne by (intro disjI2 exI [of _ h]) auto
      ultimately show ?thesis using a s2 t
        by (intro conjI exI [of _ "[?f]"]) (auto simp: add_fragment_def same_mmio_def split: if_splits)
    qed
  qed
qed

text \<open>The fragments an access may leave: at most one for each of its two parts.\<close>

lemma access:
  assumes sd: sound and b: "0 < n" "off + n \<le> length (emul_buf v)" and l: "length (run_mmio_data v) = 8"
    and fresh: "case ops_prepare ops of None \<Rightarrow> True | Some f \<Rightarrow> \<not> fst (f v)"
    and r: "emulator_read_write M ops addr off n v = Some (rc, v')" "rc \<noteq> X86EMUL_PROPAGATE_FAULT"
  shows "bufs (emul_buf v) (emul_buf v') \<and>
    (mmio_nr_fragments v' = 0 \<and> rc = X86EMUL_CONTINUE \<and> mmio_needed v' = mmio_needed v \<or>
     mmio_asked v' \<and> mmio_is_write v' = ops_write ops \<and>
     (\<exists>k m fs1 fs2. k \<le> n \<and>
        tail_fragment off k (snd (vcpu_mmio_gva_to_gpa M (io_mem v) addr (ops_write ops))) fs1 \<and>
        tail_fragment (off + k) (n - k) (snd (vcpu_mmio_gva_to_gpa M m (addr + of_nat k) (ops_write ops))) fs2 \<and>
        open_fragments v' = fs1 @ fs2))"
proof -
  define now where "now = unat (- addr AND 0xFFF)"
  define cross where "cross = page_crossed addr n"
  have cn: "cross \<Longrightarrow> now < n" using crossed_now [of addr n] b by (simp add: cross_def now_def)
  obtain b0 v1 where p: "(case ops_prepare ops of None \<Rightarrow> (False, v) | Some f \<Rightarrow> f v) = (b0, v1)" by (metis surj_pair)
  have b0: "\<not> b0" and sv1: "v1 = v"
    using fresh p by (auto split: option.splits dest: prepare_idle)
  define v2 where "v2 = v1\<lparr>mmio_nr_fragments := 0\<rparr>"
  have v2: "emul_buf v2 = emul_buf v" "run_mmio_data v2 = run_mmio_data v"
    "mmio_nr_fragments v2 = 0" "mmio_needed v2 = mmio_needed v" "io_mem v2 = io_mem v"
    using sv1 by (auto simp: v2_def)
  define k where "k = (if cross then now else 0)"
  define first where "first = (if cross then emulator_read_write_onepage M ops addr off now v2
    else Some (X86EMUL_CONTINUE, v2))"
  define second where "second = (\<lambda>v3. if cross
    then emulator_read_write_onepage M ops (addr + of_nat now) (off + now) (n - now) v3
    else emulator_read_write_onepage M ops addr off n v3)"
  define finish where "finish = (\<lambda>v4. let f = mmio_fragments v4 ! 0
    in ops_exit_mmio ops (v4\<lparr>mmio_needed := True, mmio_cur_fragment := 0, run_mmio_len := min 8 (frag_len f),
       run_mmio_write := ops_write ops, mmio_is_write := ops_write ops,
       run_exit_reason := KVM_EXIT_MMIO, run_mmio_addr := frag_gpa f\<rparr>))"
  have body: "emulator_read_write M ops addr off n v = do {
      (rc, v3) \<leftarrow> first;
      if rc \<noteq> X86EMUL_CONTINUE then Some (rc, v3)
      else do {
        (rc1, v4) \<leftarrow> second v3;
        if rc1 \<noteq> X86EMUL_CONTINUE \<or> mmio_nr_fragments v4 = 0 then Some (rc1, v4) else Some (finish v4) } }"
    unfolding emulator_read_write_def p Let_def prod.case v2_def [symmetric] now_def [symmetric]
      page_crossed_def [symmetric] cross_def [symmetric]
    using b0 by (simp only: if_False first_def second_def finish_def Let_def)
  have rc1: "rc1 = X86EMUL_CONTINUE \<or> rc1 = X86EMUL_PROPAGATE_FAULT"
    if "emulator_read_write_onepage M ops a o1 m u = Some (rc1, u')" for a o1 m u rc1 u'
    using that by (auto simp: emulator_read_write_onepage_def bind_eq_Some_conv Let_def split: prod.splits if_splits)
  obtain v3 where v3: "first = Some (X86EMUL_CONTINUE, v3)"
    using r unfolding body first_def by (auto simp: bind_eq_Some_conv split: if_splits dest: rc1)
  obtain rc4 v4 where s4: "second v3 = Some (rc4, v4)"
    using r(1) unfolding body v3 by (auto simp: bind_eq_Some_conv)
  have "rc4 = X86EMUL_CONTINUE \<or> rc4 = X86EMUL_PROPAGATE_FAULT"
    using s4 unfolding second_def by (auto split: if_splits dest: rc1)
  then have rc4: "rc4 = X86EMUL_CONTINUE" using r s4 unfolding body v3 by auto
  note v4 = s4 [unfolded rc4]
  have v': "if mmio_nr_fragments v4 = 0 then rc = X86EMUL_CONTINUE \<and> v' = v4 else finish v4 = (rc, v')"
    using r(1) unfolding body v3 by (simp add: v4 split: if_splits)
  have p1: "mmio_nr_fragments v3 \<le> length (mmio_fragments v3) \<and> run_mmio_data v3 = run_mmio_data v \<and>
      bufs (emul_buf v) (emul_buf v3) \<and> mmio_needed v3 = mmio_needed v \<and>
      (\<exists>fs1. tail_fragment off k (snd (vcpu_mmio_gva_to_gpa M (io_mem v) addr (ops_write ops))) fs1 \<and> take (mmio_nr_fragments v3) (mmio_fragments v3) = fs1)"
  proof (cases cross)
    case True
    with v3 have o: "emulator_read_write_onepage M ops addr off now v2 = Some (X86EMUL_CONTINUE, v3)"
      by (simp add: first_def)
    have "off + now \<le> length (emul_buf v2)" "mmio_nr_fragments v2 \<le> length (mmio_fragments v2)"
      using b cn [OF True] v2 by auto
    from onepage [OF sd this o] show ?thesis using v2 True by (auto simp: k_def)
  qed (use v3 v2 bufs_refl in \<open>auto simp: first_def k_def tail_fragment_def\<close>)
  then obtain fs1 where fs1: "tail_fragment off k (snd (vcpu_mmio_gva_to_gpa M (io_mem v) addr (ops_write ops))) fs1" "take (mmio_nr_fragments v3) (mmio_fragments v3) = fs1" by blast
  have kn: "k \<le> n" using cn by (auto simp: k_def)
  have "second v3 = emulator_read_write_onepage M ops (addr + of_nat k) (off + k) (n - k) v3"
    by (simp add: second_def k_def)
  with v4 have o2: "emulator_read_write_onepage M ops (addr + of_nat k) (off + k) (n - k) v3 =
      Some (X86EMUL_CONTINUE, v4)" by simp
  have "off + k + (n - k) \<le> length (emul_buf v3)" using p1 bufs_length [of "emul_buf v" "emul_buf v3"] b kn by simp
  from onepage [OF sd this _ o2] p1 obtain fs2 where p2: "mmio_nr_fragments v4 \<le> length (mmio_fragments v4)"
    "run_mmio_data v4 = run_mmio_data v" "bufs (emul_buf v) (emul_buf v4)" "mmio_needed v4 = mmio_needed v"
    "tail_fragment (off + k) (n - k) (snd (vcpu_mmio_gva_to_gpa M (io_mem v3) (addr + of_nat k) (ops_write ops))) fs2" "take (mmio_nr_fragments v4) (mmio_fragments v4) = fs1 @ fs2"
    using fs1 bufs_trans by auto
  have lb: "length (emul_buf v4) = length (emul_buf v)" using bufs_length p2(3) by simp
  show ?thesis
  proof (cases "mmio_nr_fragments v4 = 0")
    case True
    with v' p2 show ?thesis by auto
  next
    case False
    let ?f = "mmio_fragments v4 ! 0"
    define v5 where "v5 = v4\<lparr>mmio_needed := True, mmio_cur_fragment := 0, run_mmio_len := min 8 (frag_len ?f),
       run_mmio_write := ops_write ops, mmio_is_write := ops_write ops,
       run_exit_reason := KVM_EXIT_MMIO, run_mmio_addr := frag_gpa ?f\<rparr>"
    have fin: "ops_exit_mmio ops v5 = (rc, v')" using v' False by (simp add: finish_def v5_def Let_def)
    have of: "open_fragments v5 = fs1 @ fs2" using p2 by (simp add: open_fragments_def v5_def)
    have "frag_data f + unat (frag_len f) \<le> length (emul_buf v)" if f: "f \<in> set (fs1 @ fs2)" for f
      using f tail_fragment_end [OF fs1(1), of f] tail_fragment_end [OF p2(5), of f] kn b by auto
    then have "mmio_open v5"
      unfolding mmio_open_def frag_in_buf_def of using False p2 l lb by (simp add: v5_def)
    from exit_asks [OF this _ _ _ _ _ _ fin] have "mmio_asked v' \<and> open_fragments v' = open_fragments v5 \<and>
        emul_buf v' = emul_buf v5 \<and> mmio_is_write v' = ops_write ops"
      by (simp add: v5_def)
    then show ?thesis using of p2 fs1 kn by (auto simp: v5_def)
  qed
qed

end

subsection \<open>Reads and writes keep the interface\<close>

text \<open>A device fills the buffer it is given and does not resize it.\<close>

definition reads_in_place :: "'s bus_lib \<Rightarrow> bool" where
  "reads_in_place L \<longleftrightarrow> (\<forall>d a n val s. length (fst (snd (iodev_read L d a n val s))) = length val)"

lemma read_devs_length:
  "reads_in_place L \<Longrightarrow> length (fst (snd (read_devs L bus rng val idx s))) = length val"
proof (induction L bus rng val idx s rule: read_devs.induct [case_names step])
  case (step L bus rng val idx s)
  show ?case
  proof (cases "idx < dev_count bus \<and> hits rng (bus_range bus ! idx)")
    case True
    obtain r val1 s1 where d: "iodev_read L (range_dev (bus_range bus ! idx)) (range_addr rng) (range_len rng) val s = (r, val1, s1)"
      by (metis surj_pair)
    have "length val1 = length val" using step.prems d unfolding reads_in_place_def by (metis fst_conv snd_conv)
    with step.IH [OF True d [symmetric] refl refl] step.prems True d show ?thesis
      by (subst read_devs.simps) auto
  qed (subst read_devs.simps, auto)
qed

lemma kvm_io_bus_read_length:
  assumes "reads_in_place L" "kvm_io_bus_read L k i addr len val s = Some (r, val1, s1)"
  shows "length val1 = length val"
proof -
  have "length (fst (snd (kvm_io_bus_read_range L bus rng val s))) = length val" for bus rng
    using assms(1) by (simp add: kvm_io_bus_read_range_def Let_def read_devs_length)
  note l = this
  obtain bus where "deref_bus k i = Some bus" using assms(2) by (auto simp: kvm_io_bus_read_def bind_eq_Some_conv)
  moreover obtain r' v' s' where
    c: "kvm_io_bus_read_range L bus \<lparr>range_addr = addr, range_len = len, range_dev = 0\<rparr> val s = (r', v', s')"
    by (metis surj_pair)
  ultimately have "val1 = v'" using assms(2) by (simp add: kvm_io_bus_read_def)
  with l [of bus "\<lparr>range_addr = addr, range_len = len, range_dev = 0\<rparr>"] c show ?thesis by simp
qed

lemma mmio_read_piece_length:
  assumes "reads_in_place L" "mmio_read_piece L k apic addr val s = Some (d, val1, s1)"
  shows "length val1 = length val"
proof -
  obtain r v1 s0 where p: "(case apic of None \<Rightarrow> (1, val, s) | Some d \<Rightarrow> iodev_read L d addr (of_nat (length val)) val s) = (r, v1, s0)"
    by (metis surj_pair)
  have v1: "length v1 = length val"
  proof (cases apic)
    case (Some d)
    with p have "length v1 = length (fst (snd (iodev_read L d addr (of_nat (length val)) val s)))" by simp
    with assms(1) show ?thesis by (simp add: reads_in_place_def)
  qed (use p in simp)
  show ?thesis
  proof (cases "r = 0")
    case True
    with assms(2) p v1 show ?thesis by (simp add: mmio_read_piece_def)
  next
    case False
    with assms(2) p v1 show ?thesis
      by (auto simp: mmio_read_piece_def bind_eq_Some_conv dest: kvm_io_bus_read_length [OF assms(1)])
  qed
qed

lemma vcpu_mmio_read_bound:
  "reads_in_place L \<Longrightarrow> vcpu_mmio_read L k apic addr val s = Some (h, val1, s1) \<Longrightarrow>
    h \<le> length val \<and> length val1 = length val"
proof (induction L k apic addr val s arbitrary: h val1 s1 rule: vcpu_mmio_read.induct [case_names step])
  case (step L k apic addr val s)
  let ?n = "min (length val) 8"
  have e: "(do { (d, v1, s1) \<leftarrow> mmio_read_piece L k apic addr (take ?n val) s;
              if \<not> d then Some (0, v1 @ drop ?n val, s1)
              else if length val - ?n = 0 then Some (?n, v1, s1)
              else do { (h, v2, s2) \<leftarrow> vcpu_mmio_read L k apic (addr + of_nat ?n) (drop ?n val) s1;
                        Some (?n + h, v1 @ v2, s2) } }) = Some (h, val1, s1)"
    using step.prems(2) unfolding vcpu_mmio_read.simps [of L k apic addr val s] Let_def .
  then obtain d v1 s2 where p: "mmio_read_piece L k apic addr (take ?n val) s = Some (d, v1, s2)"
    by (auto simp: bind_eq_Some_conv)
  have l1: "length v1 = ?n" using mmio_read_piece_length [OF step.prems(1) p] by simp
  consider "\<not> d" | "d" "length val - ?n = 0" | "d" "length val - ?n \<noteq> 0" by blast
  then show ?case
  proof cases
    case 1
    with e p l1 show ?thesis by auto
  next
    case 2
    with e p l1 show ?thesis by auto
  next
    case 3
    then obtain h2 v2 where r: "vcpu_mmio_read L k apic (addr + of_nat ?n) (drop ?n val) s2 = Some (h2, v2, s1)"
      "h = ?n + h2" "val1 = v1 @ v2"
      using e p by (auto simp: bind_eq_Some_conv)
    have "h2 \<le> length (drop ?n val) \<and> length v2 = length (drop ?n val)"
      by (rule step.IH [OF refl p refl refl]) (use 3 step.prems(1) r in auto)
    with r l1 show ?thesis by auto
  qed
qed

lemma vcpu_mmio_write_bound:
  "vcpu_mmio_write L k apic addr val s = Some (h, s1) \<Longrightarrow> h \<le> length val"
proof (induction L k apic addr val s arbitrary: h s1 rule: vcpu_mmio_write.induct [case_names step])
  case (step L k apic addr val s)
  let ?n = "min (length val) 8"
  have e: "(do { (d, s1) \<leftarrow> mmio_write_piece L k apic addr (take ?n val) s;
              if \<not> d then Some (0, s1)
              else if length val - ?n = 0 then Some (?n, s1)
              else do { (h, s2) \<leftarrow> vcpu_mmio_write L k apic (addr + of_nat ?n) (drop ?n val) s1;
                        Some (?n + h, s2) } }) = Some (h, s1)"
    using step.prems unfolding vcpu_mmio_write.simps [of L k apic addr val s] Let_def .
  then obtain d s2 where p: "mmio_write_piece L k apic addr (take ?n val) s = Some (d, s2)"
    by (auto simp: bind_eq_Some_conv)
  consider "\<not> d" | "d" "length val - ?n = 0" | "d" "length val - ?n \<noteq> 0" by blast
  then show ?case
  proof cases
    case 1
    with e p show ?thesis by auto
  next
    case 2
    with e p show ?thesis by auto
  next
    case 3
    then obtain h2 where r: "vcpu_mmio_write L k apic (addr + of_nat ?n) (drop ?n val) s2 = Some (h2, s1)"
      "h = ?n + h2"
      using e p by (auto simp: bind_eq_Some_conv)
    have "h2 \<le> length (drop ?n val)"
      by (rule step.IH [OF refl p refl]) (use 3 r in auto)
    with r show ?thesis by auto
  qed
qed

lemma read_guest_page_length:
  assumes "user_lib_ok lib" "kvm_read_guest_page lib m g off n = Inr d"
  shows "length d = n"
proof -
  let ?a = "fst (gfn_to_hva_prot lib m g)"
  obtain r d' where c: "copy_from_user lib (user_mem m) (?a + of_nat off) n = (r, d')"
    "r = 0 \<longrightarrow> d' = map (\<lambda>i. user_mem m (?a + of_nat off + of_nat i)) [0..<n]"
    by (rule copy_from_user_law [OF assms(1), of "user_mem m" "?a + of_nat off" n]) (rule that)
  have "r = 0 \<and> d = d'" using assms(2) c(1) by (simp add: kvm_read_guest_page_def Let_def split: if_splits)
  with c(2) show ?thesis by simp
qed

lemma read_guest_loop_length:
  "user_lib_ok lib \<Longrightarrow> off < 0x1000 \<Longrightarrow> read_guest_loop lib m g off n = Inr d \<Longrightarrow> length d = n"
proof (induction lib m g off n arbitrary: d rule: read_guest_loop.induct [case_names step])
  case (step lib m g off n)
  define seg where "seg = next_segment n off"
  have le: "seg \<le> n" using next_segment_le by (simp add: seg_def)
  have e: "(if seg = 0 then Inr []
      else case kvm_read_guest_page lib m g off seg of
             Inl e \<Rightarrow> Inl e
           | Inr d \<Rightarrow> (case read_guest_loop lib m (g + 1) 0 (n - seg) of
                         Inl e \<Rightarrow> Inl e | Inr d' \<Rightarrow> Inr (d @ d'))) = Inr d"
    using step.prems(3) unfolding read_guest_loop.simps [of lib m g off n] Let_def seg_def .
  show ?case
  proof (cases "seg = 0")
    case True
    with e step.prems(2) show ?thesis by (auto simp: seg_def next_segment_def split: if_splits)
  next
    case False
    then obtain d1 d2 where d: "kvm_read_guest_page lib m g off seg = Inr d1"
      "read_guest_loop lib m (g + 1) 0 (n - seg) = Inr d2" "d = d1 @ d2"
      using e by (auto split: sum.splits)
    have "length d1 = seg" by (rule read_guest_page_length [OF step.prems(1) d(1)])
    moreover have "length d2 = n - seg"
      by (rule step.IH [OF seg_def False d(1) step.prems(1) _ d(2)]) simp
    ultimately show ?thesis using d le by simp
  qed
qed

lemma read_guest_length: "user_lib_ok lib \<Longrightarrow> kvm_read_guest lib m gpa n = Inr d \<Longrightarrow> length d = n"
  unfolding kvm_read_guest_def by (rule read_guest_loop_length) (use offset_less in auto)

definition sound_libs :: "mem_lib \<Rightarrow> 's bus_lib \<Rightarrow> bool" where
  "sound_libs lib L \<longleftrightarrow> user_lib_ok lib \<and> reads_in_place L"

interpretation rd: emulator_ops "read_emultor lib L" "sound_libs lib L" "\<lambda>a b. length b = length a" for lib and L :: "'s bus_lib"
proof unfold_locales
  fix f and v v' :: "'s io_vcpu"
  assume "ops_prepare (read_emultor lib L) = Some f" "f v = (False, v')"
  then show "v' = v" by (auto simp: read_emultor_def read_prepare_def split: if_splits)
next
  fix off n gpa b and v v' :: "'s io_vcpu"
  assume s: "sound_libs lib L" "off + n \<le> length (emul_buf v)"
    and e: "ops_emulate (read_emultor lib L) gpa off n v = (b, v')"
  from e show "same_mmio v v' \<and> length (emul_buf v') = length (emul_buf v)"
  proof (cases "kvm_read_guest lib (io_mem v) gpa n")
    case (Inr d)
    have "length d = n" by (rule read_guest_length [OF _ Inr]) (use s in \<open>simp add: sound_libs_def\<close>)
    with e Inr s show ?thesis
      by (auto simp: read_emultor_def read_emulate_def same_mmio_def length_put_at)
  qed (simp add: read_emultor_def read_emulate_def)
next
  fix off n gpa h and v v' :: "'s io_vcpu"
  assume s: "sound_libs lib L" "off + n \<le> length (emul_buf v)"
    and e: "ops_mmio (read_emultor lib L) gpa n off v = Some (h, v')"
  then obtain d ds where r: "vcpu_mmio_read L (io_buses v) (apic_dev v) gpa (get_at off n (emul_buf v)) (io_devs v) = Some (h, d, ds)"
    "v' = v\<lparr>emul_buf := put_at off d (emul_buf v), io_devs := ds\<rparr>"
    by (auto simp: read_emultor_def read_mmio_def bind_eq_Some_conv)
  have "h \<le> n \<and> length d = n"
    using vcpu_mmio_read_bound [OF _ r(1)] s length_get_at [OF s(2)] by (simp add: sound_libs_def)
  with r s show "h \<le> n \<and> same_mmio v v' \<and> length (emul_buf v') = length (emul_buf v)"
    by (simp add: same_mmio_def length_put_at)
next
  fix v v' :: "'s io_vcpu" and r
  assume "mmio_open v" "mmio_needed v" "run_mmio_write v = ops_write (read_emultor lib L)"
    "mmio_is_write v = ops_write (read_emultor lib L)" "mmio_cur_fragment v = 0"
    "run_mmio_addr v = frag_gpa (mmio_fragments v ! 0)" "run_mmio_len v = min 8 (frag_len (mmio_fragments v ! 0))"
    "ops_exit_mmio (read_emultor lib L) v = (r, v')"
  then show "mmio_asked v' \<and> open_fragments v' = open_fragments v \<and> emul_buf v' = emul_buf v \<and>
      mmio_is_write v' = ops_write (read_emultor lib L)"
    by (auto simp: read_emultor_def read_exit_mmio_def mmio_asked_def Let_def)
qed simp_all

interpretation wr: emulator_ops "write_emultor lib L" True "(=)" for lib and L :: "'s bus_lib"
proof unfold_locales
  fix f and v v' :: "'s io_vcpu"
  assume "ops_prepare (write_emultor lib L) = Some f" "f v = (False, v')"
  then show "v' = v" by (auto simp: write_emultor_def read_prepare_def split: if_splits)
next
  fix off n gpa b and v v' :: "'s io_vcpu"
  assume "ops_emulate (write_emultor lib L) gpa off n v = (b, v')"
  then show "same_mmio v v' \<and> emul_buf v = emul_buf v'"
    by (auto simp: write_emultor_def write_emulate_def emulator_write_phys_def same_mmio_def split: prod.splits if_splits)
next
  fix off n gpa h and v v' :: "'s io_vcpu"
  assume s: "off + n \<le> length (emul_buf v)" and e: "ops_mmio (write_emultor lib L) gpa n off v = Some (h, v')"
  then obtain ds where r: "vcpu_mmio_write L (io_buses v) (apic_dev v) gpa (get_at off n (emul_buf v)) (io_devs v) = Some (h, ds)"
    "v' = v\<lparr>io_devs := ds\<rparr>"
    by (auto simp: write_emultor_def write_mmio_def bind_eq_Some_conv)
  with vcpu_mmio_write_bound [OF r(1)] s show "h \<le> n \<and> same_mmio v v' \<and> emul_buf v = emul_buf v'"
    by (simp add: same_mmio_def length_get_at)
next
  fix v v' :: "'s io_vcpu" and r
  let ?f = "mmio_fragments v ! 0"
  assume a: "mmio_open v" "mmio_needed v" "run_mmio_write v = ops_write (write_emultor lib L)"
    "mmio_is_write v = ops_write (write_emultor lib L)" "mmio_cur_fragment v = 0"
    "run_mmio_addr v = frag_gpa ?f" "run_mmio_len v = min 8 (frag_len ?f)"
    "ops_exit_mmio (write_emultor lib L) v = (r, v')"
  have v': "v' = v\<lparr>run_mmio_data := put_at 0 (get_at (frag_data ?f) (unat (min 8 (frag_len ?f))) (emul_buf v)) (run_mmio_data v)\<rparr>"
    using a(8) by (simp add: write_emultor_def write_exit_mmio_def Let_def)
  have w: "ops_write (write_emultor lib L)" by (simp add: write_emultor_def)
  have "v' = v\<lparr>run_mmio_data := run_mmio_data (ask_next v)\<rparr>"
    unfolding v' using a(4,5) w by (simp add: ask_next_def Let_def)
  note n = ask_next_asked [OF a(1,2)]
  have "mmio_asked v'"
    using n(1) a w unfolding v' by (simp add: mmio_asked_def mmio_open_def ask_next_def Let_def open_fragments_def frag_in_buf_def)
  then show "mmio_asked v' \<and> open_fragments v' = open_fragments v \<and> emul_buf v' = emul_buf v \<and>
      mmio_is_write v' = ops_write (write_emultor lib L)"
    using a(4) by (simp add: v' open_fragments_def)
qed simp_all

end
