(* ===== verification/Mmio_Theorems.thy ===== *)
theory Mmio_Theorems
  imports Mmio_Access Bus_Theorems Memory_Theorems
begin

text \<open>
  The properties of emulated memory accesses: every byte of a write is taken by the kernel or seen by user
  space exactly once, and a read finds what user space answered.
\<close>

subsection \<open>Bytes and offsets\<close>







subsection \<open>Writes\<close>




subsection \<open>Reads\<close>

text \<open>Storing the bytes of a device \<open>dev\<close> at their offsets.\<close>

definition store_bytes :: "(u64 \<Rightarrow> u8) \<Rightarrow> (u64 \<times> nat) list \<Rightarrow> u8 list \<Rightarrow> u8 list" where
  "store_bytes dev ps b = fold (\<lambda>(a, i) b. b[i := dev a]) ps b"


lemma length_store_bytes [simp]: "length (store_bytes dev ps b) = length b"
  by (induction ps arbitrary: b) (auto simp: store_bytes_def)






subsection \<open>An access across a page to a device in user space\<close>










end
