(* ===== verification/Paging_Theorems.thy ===== *)
theory Paging_Theorems
  imports Example_State
begin

text \<open>
  Properties of the paging code: the pool of frames, mapping a page, the EPT of one context and of all
  contexts, and moving the code page.
\<close>

subsection \<open>The pool\<close>

text \<open>The pool hands out \<open>n < 4096\<close> pages, each a different page frame of one of the four blocks the kernel
  gave, in order.\<close>

theorem pool_pages_distinct:
  assumes "pool_at gf c 0 s" "chunks_disjoint gf c" "n < 4096"
  shows "distinct (fst (alloc_pages gf n s)) \<and> length (fst (alloc_pages gf n s)) = n \<and>
    fst (alloc_pages gf n s) = map (frame gf c) [1..<Suc n]"
proof -
  have nz: "\<forall>k<4. gf (c + k) \<noteq> 0" using assms(2) by (simp add: chunks_disjoint_def)
  have e: "fst (alloc_pages gf n s) = map (frame gf c) [1..<Suc n]"
    using alloc_pages_from [OF assms(1) _ nz, of n] assms(3) by simp
  have "inj_on (frame gf c) (set [1..<Suc n])"
    by (rule inj_onI) (use frame_inj [OF assms(2)] assms(3) in auto)
  then show ?thesis unfolding e by (simp add: distinct_map del: upt_Suc)
qed

definition four_blocks :: "nat \<Rightarrow> u64" where
  "four_blocks k = 0x40000000 + of_nat k * 0x400000"

lemma less_4: "k < 4 \<longleftrightarrow> k = 0 \<or> k = 1 \<or> k = 2 \<or> k = (3 :: nat)" by auto

lemma less_2: "k < 2 \<longleftrightarrow> k = 0 \<or> k = (1 :: nat)" by auto

lemma four_blocks_disjoint: "chunks_disjoint four_blocks 0"
  by (auto simp: chunks_disjoint_def four_blocks_def less_4 less_2 less_3)

theorem pool_pages_distinct_witness:
  "fst (alloc_pages four_blocks 3 (init_ept_frames four_blocks example_host)) =
     [0x40001000, 0x40002000, 0x40003000]"
proof -
  have p: "pool_at four_blocks 0 0 (init_ept_frames four_blocks example_host)"
    using init_pool_at [of example_host four_blocks] by (simp add: examples)
  have "fst (alloc_pages four_blocks 3 (init_ept_frames four_blocks example_host)) =
      map (frame four_blocks 0) [1..<Suc 3]"
    using pool_pages_distinct [OF p four_blocks_disjoint, of 3] by simp
  also have "\<dots> = [0x40001000, 0x40002000, 0x40003000]"
    by (simp add: frame_def four_blocks_def upt_rec)
  finally show ?thesis .
qed

text \<open>Once 4095 pages are out, \<^verbatim>\<open>get_ept_page\<close> returns NULL and leaves the block index at 4: releasing the
  pool then runs over the end of \<^verbatim>\<open>p_bases\<close>.\<close>

theorem exhausted_pool_overruns:
  assumes "pool_at gf c 4095 s" "p_base s \<noteq> 0"
  shows "fst (get_ept_page gf s) = 0 \<and> release_ept_frames (snd (get_ept_page gf s)) = None"
  using get_ept_page_exhausted [OF assms] release_ept_frames_defined [of "s\<lparr>p_idx := 1024, p_base_idx := 4\<rparr>"]
  by (simp add: NBASE_def)

theorem exhausted_pool_overruns_witness:
  "release_ept_frames (snd (get_ept_page four_blocks
     (example_host\<lparr>p_base := four_blocks 3, p_base_idx := 3, p_idx := 1023, gfpages_calls := 4\<rparr>))) = None"
proof -
  let ?s = "example_host\<lparr>p_base := four_blocks 3, p_base_idx := 3, p_idx := 1023, gfpages_calls := 4\<rparr>"
  have "pool_at four_blocks 0 4095 ?s" "p_base ?s \<noteq> 0"
    by (simp_all add: pool_at_def four_blocks_def)
  from exhausted_pool_overruns [OF this] show ?thesis by simp
qed

text \<open>Nothing is ever given back to the kernel: \<^verbatim>\<open>do_alloc_ept_frames\<close> does not store the block's
  address where the release looks for it, so every address passed to \<^verbatim>\<open>free_pages\<close> is 0, in every
  sequence of the pool's operations from module load.\<close>

theorem pool_never_freed:
  assumes "pool_reach gf s"
  shows "set (freed s) \<subseteq> {0} \<and> p_bases s = replicate NBASE 0"
  using pool_reach_nothing_freed [OF assms] by simp

theorem pool_never_freed_witness:
  "\<exists>s. release_ept_frames (init_ept_frames four_blocks example_host) = Some s \<and>
     p_base (init_ept_frames four_blocks example_host) = 0x40000000 \<and> set (freed s) \<subseteq> {0}"
proof -
  let ?i = "init_ept_frames four_blocks example_host"
  have b: "pool_reach four_blocks example_host"
    by (rule pool_reach.boot) (simp add: boot_pool_def examples NBASE_def eval_nat_numeral)
  have i: "pool_reach four_blocks ?i" by (rule pool_reach.step [OF b pool_step.init])
  have p: "p_base ?i = 0x40000000" "p_base_idx ?i = 0"
    by (simp_all add: init_ept_frames_def do_alloc_ept_frames_def examples four_blocks_def Let_def)
  obtain s where s: "release_ept_frames ?i = Some s"
    using release_ept_frames_defined [of ?i] p(2) by (auto simp: NBASE_def)
  from pool_never_freed [OF pool_reach.step [OF i pool_step.release [OF s]]] s p(1) show ?thesis by simp
qed

subsection \<open>Mapping a page\<close>

text \<open>\<^verbatim>\<open>map_epte\<close> on a well-formed context with three frames in the pool always succeeds, allocates at
  most three tables, and changes the translation of the one page: its entry gets the new frame and rights, and
  the memory type bits only if it was empty. The pointer it returns is the entry \<^verbatim>\<open>get_epte\<close> finds from
  then on, and no memory outside the context's tables and the pool is written.\<close>

theorem map_epte_changes_one_page:
  assumes "ctx_ok ctx h" "3 \<le> avail_frames h" "gpa < 2 ^ 48"
  shows "\<exists>t c h'. map_epte gf gpa hpa perm ctx h = Some (Some (t, pt_idx gpa), c, h') \<and> ctx_ok c h' \<and>
    get_epte c gpa = Some (t, pt_idx gpa) \<and> avail_frames h \<le> avail_frames h' + 3 \<and>
    (\<forall>x. ept_view (c, h') x =
      (if gpage x = gpage gpa then new_entry (ept_view (ctx, h) gpa) hpa perm else ept_view (ctx, h) x)) \<and>
    (\<forall>u. u \<notin> tables_of h ctx \<union> future_frames h \<longrightarrow> ept_mem h' u = ept_mem h u)"
proof (rule map_epte_ctx_ok [OF assms, of gf hpa perm])
  fix t c h'
  assume m: "map_epte gf gpa hpa perm ctx h = Some (Some (t, pt_idx gpa), c, h')" "ctx_ok c h'"
    "eptptr c = eptptr ctx" "avail_frames h \<le> avail_frames h' + 3"
    "follow (ept_mem h') (eptptr ctx) (path3 gpa) = Some t"
    and v: "\<And>x. xlate (ept_mem h') (eptptr ctx) x =
      (if gpage x = gpage gpa then new_entry (xlate (ept_mem h) (eptptr ctx) gpa) hpa perm
       else xlate (ept_mem h) (eptptr ctx) x)"
    and fr: "\<And>u. u \<notin> tables (ept_mem h) (eptptr ctx) \<Longrightarrow> u \<notin> future_frames h \<Longrightarrow> ept_mem h' u = ept_mem h u"
  have "get_epte c gpa = Some (t, pt_idx gpa)" using m(2,3,5) assms(3) by (simp add: ctx_ok_def)
  with m v fr show ?thesis
    by (intro exI [of _ t] exI [of _ c] exI [of _ h']) (simp add: ept_view_def tables_of_def)
qed

theorem map_epte_changes_one_page_witness:
  "\<exists>(s :: imee) ctx c h' p. map_epte (gfpages example_kenv) 0x12345000 0xABC000 7 ctx (hst s) = Some (Some p, c, h') \<and>
     ctx \<in> set (contexts s) \<and> ept_view (c, h') 0x12345000 = new_entry (ept_view (ctx, hst s) 0x12345000) 0xABC000 7"
proof (rule example_setup)
  fix w0 c org
  assume c: "c \<in> set (contexts (im w0))" "visited c = 0" and ok: "sys_ok org (Stopped, w0)"
  have g: "(0x12345000 :: u64) < 2 ^ 48" by simp
  from map_epte_changes_one_page [OF example_room [OF ok c] g, of "gfpages example_kenv" "0xABC000" 7]
  obtain t c' h' where "map_epte (gfpages example_kenv) 0x12345000 0xABC000 7 c (hst (im w0)) =
      Some (Some (t, pt_idx 0x12345000), c', h')"
    "ept_view (c', h') 0x12345000 = new_entry (ept_view (c, hst (im w0)) 0x12345000) 0xABC000 7" by auto
  with c(1) show ?thesis
    by (intro exI [of _ "im w0"] exI [of _ c] exI [of _ c'] exI [of _ h'] exI [of _ "(t, pt_idx 0x12345000)"]) simp
qed

subsection \<open>The EPT of a context\<close>

text \<open>C5: The context \<^verbatim>\<open>create_introspection_context\<close> builds for a VM: its EPT maps the module's five
  pages with their rights, and every other page as the VM's own EPT does, without write and execute permission;
  lookups through \<^verbatim>\<open>get_epte\<close> and the processor's walk agree (\<open>ctx_ok\<close>); the VM's own EPT, like all
  memory outside the pool, is not written; and \<open>3 n + 16\<close> frames are enough for \<open>n\<close> last-level pages.\<close>

theorem context_view:
  assumes "vm_owner target \<noteq> pid" "kvm_to_ctx (vm_id target) (contexts s) = None" "vm_ok target (hst s)"
    and "3 * n_leaves target + 16 \<le> avail_frames (hst s)"
  shows "\<exists>ctx h'. create_introspection_context gf pid target s =
      Some (s\<lparr>hst := h', contexts := ctx # contexts s\<rparr>) \<and>
    ctx_kvm ctx = vm_id target \<and> ctx_task ctx = vm_owner target \<and> Some (target_vcpu ctx) = pick_cpu target \<and>
    visited ctx = 0 \<and> ctx_ok ctx h' \<and>
    (\<forall>x < 2 ^ 48. ept_view (ctx, h') x = imee_view s (ept_mem (hst s)) target x) \<and>
    (\<forall>u. u \<notin> future_frames (hst s) \<longrightarrow> ept_mem h' u = ept_mem (hst s) u)"
proof (rule create_context_views [OF assms, of gf])
  fix ctx h'
  assume a: "create_introspection_context gf pid target s = Some (s\<lparr>hst := h', contexts := ctx # contexts s\<rparr>)"
    "ctx_in (future_frames (hst s)) ctx h'" "ctx_kvm ctx = vm_id target" "visited ctx = 0"
    "ctx_task ctx = vm_owner target" "Some (target_vcpu ctx) = pick_cpu target"
    "views s (ept_mem (hst s)) target ctx h'"
    and fr: "\<And>u. u \<notin> future_frames (hst s) \<Longrightarrow> ept_mem h' u = ept_mem (hst s) u"
  then show ?thesis
    by (intro exI [of _ ctx] exI [of _ h']) (simp add: ctx_in_def views_def)
qed

text \<open>The loop over all VMs: when the pool has room for them, a context is made for every VM of another process
  and none for the module's own VM, every context keeps its view while later ones are built, and no two share a
  table.\<close>

theorem all_contexts_made:
  assumes "ctxs_ok s" "contexts s = []" "\<forall>v \<in> set (introspected pid vms). vm_ok v (hst s)"
    and "frames_needed pid vms \<le> avail_frames (hst s)" "distinct (map vm_id vms)"
  shows "\<exists>s'. create_contexts gf pid vms s = Some s' \<and>
    ctx_kvm ` set (contexts s') = vm_id ` set (introspected pid vms) \<and>
    pairwise (\<lambda>c d. tables_of (hst s') c \<inter> tables_of (hst s') d = {}) (set (contexts s')) \<and>
    (\<forall>v \<in> set (introspected pid vms). \<exists>c. kvm_to_ctx (vm_id v) (contexts s') = Some c \<and>
      (\<forall>x < 2 ^ 48. ept_view (c, hst s') x = imee_view s (ept_mem (hst s)) v x))"
proof -
  obtain s' where c: "create_contexts gf pid vms s = Some s'"
    and m: "contexts_made (introspected pid vms) (frames_needed pid vms) s s'"
    using create_contexts_post [OF assms(1,3-5), of gf] by blast
  note a = m [unfolded contexts_made_def]
  have "\<exists>c. kvm_to_ctx (vm_id v) (contexts s') = Some c \<and>
      (\<forall>x < 2 ^ 48. ept_view (c, hst s') x = imee_view s (ept_mem (hst s)) v x)"
    if "v \<in> set (introspected pid vms)" for v
  proof -
    have "vm_id v \<notin> ctx_kvm ` set (contexts s)" by (simp add: assms(2))
    with a that obtain c where "kvm_to_ctx (vm_id v) (contexts s') = Some c" "views s (ept_mem (hst s)) v c (hst s')"
      by blast
    then show ?thesis by (auto simp: views_def)
  qed
  with a c assms(2) show ?thesis by (auto simp: ctxs_ok_def)
qed

text \<open>The state the two are evaluated at: the pool just initialised, one VM.\<close>

definition booted :: imee where
  "booted = (im guest_world)\<lparr>hst := setup_host example_kenv guest_world\<rparr>"

lemma booted_facts:
  "ctxs_ok booted" "contexts booted = []" "vm_ok example_vm (hst booted)" "avail_frames (hst booted) = 1023"
  "introspected 50 [example_vm] = [example_vm]" "n_leaves example_vm = 1"
proof -
  show c: "contexts booted = []" by (simp add: booted_def guest_world_def examples)
  then show "ctxs_ok booted" by (simp add: ctxs_ok_def)
  show i: "introspected 50 [example_vm] = [example_vm]" by (simp add: introspected_def example_vm_def)
  show "vm_ok example_vm (hst booted)" using example_fit i by (simp add: vms_fit_def booted_def)
  show "avail_frames (hst booted) = 1023"
    unfolding booted_def setup_host_def
    by (simp, rule init_frames_avail) (simp_all add: guest_world_def examples example_chunk)
  show "n_leaves example_vm = 1" by (simp add: n_leaves_def example_vm_def is_leaf_def)
qed

theorem context_view_witness:
  "\<exists>ctx h'. create_introspection_context (gfpages example_kenv) 50 example_vm booted =
     Some (booted\<lparr>hst := h', contexts := [ctx]\<rparr>) \<and> ctx_kvm ctx = 1 \<and> target_vcpu ctx = 1 \<and>
     ept_view (ctx, h') 0x3000 = imee_view booted (ept_mem (hst booted)) example_vm 0x3000"
proof -
  note b = booted_facts
  have o: "vm_owner example_vm \<noteq> 50" "kvm_to_ctx (vm_id example_vm) (contexts booted) = None"
    "3 * n_leaves example_vm + 16 \<le> avail_frames (hst booted)"
    using b by (simp_all add: kvm_to_ctx_def) (simp add: example_vm_def)
  have p: "vm_id example_vm = 1" "pick_cpu example_vm = Some 1" "(0x3000 :: u64) < 2 ^ 48"
    by (simp_all add: example_vm_def pick_cpu_def)
  from context_view [OF o(1,2) b(3) o(3), of "gfpages example_kenv"] obtain ctx h'
    where "create_introspection_context (gfpages example_kenv) 50 example_vm booted =
        Some (booted\<lparr>hst := h', contexts := [ctx]\<rparr>)" "ctx_kvm ctx = 1" "target_vcpu ctx = 1"
      and v: "\<forall>x < 2 ^ 48. ept_view (ctx, h') x = imee_view booted (ept_mem (hst booted)) example_vm x"
    unfolding p b(2) by blast
  moreover have "ept_view (ctx, h') 0x3000 = imee_view booted (ept_mem (hst booted)) example_vm 0x3000"
    using v p(3) by blast
  ultimately show ?thesis by blast
qed

theorem all_contexts_made_witness:
  "\<exists>s' c. create_contexts (gfpages example_kenv) 50 [example_vm] booted = Some s' \<and>
     kvm_to_ctx 1 (contexts s') = Some c \<and>
     ept_view (c, hst s') 0x3000 = imee_view booted (ept_mem (hst booted)) example_vm 0x3000"
proof -
  note b = booted_facts
  have o: "\<forall>v \<in> set (introspected 50 [example_vm]). vm_ok v (hst booted)"
    "frames_needed 50 [example_vm] \<le> avail_frames (hst booted)" "distinct (map vm_id [example_vm])"
    by (simp_all add: b frames_needed_def)
  have v: "vm_id example_vm = 1" "(0x3000 :: u64) < 2 ^ 48" by (simp_all add: example_vm_def)
  obtain s' where s: "create_contexts (gfpages example_kenv) 50 [example_vm] booted = Some s'"
    and c: "\<forall>v \<in> set [example_vm]. \<exists>c. kvm_to_ctx (vm_id v) (contexts s') = Some c \<and>
      (\<forall>x < 2 ^ 48. ept_view (c, hst s') x = imee_view booted (ept_mem (hst booted)) v x)"
    using all_contexts_made [OF b(1,2) o, of "gfpages example_kenv"] unfolding b(5) by auto
  from c v s show ?thesis by auto
qed

subsection \<open>Moving the code page\<close>

text \<open>\<^verbatim>\<open>remap_gpa_code\<close> puts back the guest's entry for the page the code was under and replaces the
  one of the new page: afterwards exactly that page differs from the original, its frame is the code frame, and
  it is executable. Any number of moves one after the other is covered, since the relation \<open>remapped\<close> holds
  before and after.\<close>

theorem remap_moves_code_page:
  assumes "remapped orig ctx h" "3 \<le> avail_frames h" "gpa < 2 ^ 48" "page_addr code"
  shows "\<exists>ctx' h'. remap_gpa_code gf code gpa ctx h = Some (0, ctx', h') \<and> remapped orig ctx' h' \<and>
    eptptr ctx' = eptptr ctx \<and>
    (\<forall>x < 2 ^ 48. gpage x \<noteq> gpage gpa \<longrightarrow> ept_view (ctx', h') x = orig (gpage x)) \<and>
    ept_view (ctx', h') gpa AND NOT EPT_MASK = code \<and> ept_view (ctx', h') gpa AND 4 \<noteq> 0"
proof (rule remap_post [OF assms(1-3), of gf code])
  fix ctx' h'
  assume a: "remap_gpa_code gf code gpa ctx h = Some (0, ctx', h')" "remapped orig ctx' h'"
    "eptptr ctx' = eptptr ctx"
    and v: "\<And>x. x < 2 ^ 48 \<Longrightarrow> ept_view (ctx', h') x =
      (if gpage x = gpage gpa then remapped_entry ctx orig code gpa else orig (gpage x))"
  have "page_addr (code_hpa (example_imee\<lparr>code_hpa := code\<rparr>))" using assms(4) by simp
  note e = own_rights_remapped(2,3) [OF this, of ctx orig gpa]
  show ?thesis
    by (intro exI [of _ ctx'] exI [of _ h']) (use a v [OF assms(3)] v e in simp)
qed

theorem remap_moves_code_page_witness:
  "\<exists>(s :: imee) ctx ctx' h'. ctx \<in> set (contexts s) \<and>
     remap_gpa_code (gfpages example_kenv) 0xABC000 0x12345678 ctx (hst s) = Some (0, ctx', h') \<and>
     ept_view (ctx', h') 0x12345678 AND NOT EPT_MASK = 0xABC000"
proof (rule example_setup)
  fix w0 c org
  assume c: "c \<in> set (contexts (im w0))" "visited c = 0" and ok: "sys_ok org (Stopped, w0)"
  have r: "remapped (org (ctx_kvm c)) c (hst (im w0))"
    using ok c(1) by (simp add: sys_ok_def ctx_inv_def Let_def)
  have g: "(0x12345678 :: u64) < 2 ^ 48" "page_addr 0xABC000" by (simp_all add: page_addr_def EPT_MASK_val)
  from remap_moves_code_page [OF r example_room(2) [OF ok c] g, of "gfpages example_kenv"] c(1) show ?thesis by blast
qed

end
