(* ===== verification/Scan_Theorems.thy ===== *)
theory Scan_Theorems
  imports Example_State
begin

text \<open>
  Properties of the scan protocol: the wait for the sampling interrupt, the order of the scans, the
  CR3 interception that is never armed, and what stopping leaves behind.
\<close>

subsection \<open>The wait\<close>

text \<open>C7: \<^verbatim>\<open>start_guest_intercept\<close> succeeds when the flag is found changed at one of the first
  10,000,001 tests, whatever the other processors do in between: it returns 0 with the module's vCPU given the
  sampled TR, IDT and GDT, and the EPT violation that starts the scan is expected.\<close>

theorem intercept_served:
  assumes "start_prepare K n w = Inr w1" "k \<le> WAIT_LIMIT"
    and "\<forall>i < k. spinning (run_from others 0 i w1)" "run_from others 0 k w1 = Some y" "exit_flg y \<noteq> 1"
  shows "\<exists>w'. start_guest_intercept K others n w = Some (0, w') \<and> w' = start_finish K n y \<and>
    trial_run w' = 1 \<and> imee_up w' = 1 \<and> im w' = im y"
proof -
  have "wait_exit others 0 w1 = Some (0, y)" by (rule wait_exit_served) (use assms in simp_all)
  then show ?thesis using assms(1) by (simp add: start_guest_intercept_def start_finish_def Let_def)
qed

text \<open>When the flag stays up for all of them, it returns -1 after exactly \<open>WAIT_LIMIT + 1\<close> tests, with the
  state as the other processors left it: the next scan does not start.\<close>

theorem intercept_times_out:
  assumes "start_prepare K n w = Inr w1" "\<forall>i \<le> WAIT_LIMIT. spinning (run_from others 0 i w1)"
  shows "start_guest_intercept K others n w = map_option (Pair (-1)) (run_from others 0 WAIT_LIMIT w1) \<and>
    start_guest_intercept K others n w \<noteq> None"
proof -
  have e: "wait_exit others 0 w1 = map_option (Pair (-1)) (run_from others 0 WAIT_LIMIT w1)"
    by (rule wait_exit_timeout) (use assms(2) in simp_all)
  have "spinning (run_from others 0 WAIT_LIMIT w1)" using assms(2) by blast
  then obtain y where "run_from others 0 WAIT_LIMIT w1 = Some y" by (auto simp: spinning_def)
  with e assms(1) show ?thesis by (simp add: start_guest_intercept_def)
qed

text \<open>A world with one context to visit.\<close>

definition ready_world :: world where
  "ready_world = example_world\<lparr>im := example_imee\<lparr>contexts :=
     [\<lparr>ctx_kvm = 1, target_vcpu = 1, ctx_task = 100, eptptr = 0x40001000, ctx_cr3 = 0, visited = 0,
       leaf_page = [], non_leaf_page = [], code_ept_pte_p = None, code_ept_pte = 0,
       data_ept_pte_p = None, data_ept_pte = 0\<rparr>]\<rparr>\<rparr>"

lemma ready_prepare:
  obtains w1 where "start_prepare example_kenv 0 ready_world = Inr w1" "exit_flg w1 = 1"
proof -
  have u: "unvisited (contexts (im ready_world)) \<noteq> []" by (simp add: ready_world_def unvisited_def)
  then show ?thesis
    using start_prepare_globals [of example_kenv 0 ready_world] that
    by (cases "start_prepare example_kenv 0 ready_world") auto
qed

theorem intercept_served_witness:
  "\<exists>w'. start_guest_intercept example_kenv (\<lambda>j x. Some (x\<lparr>exit_flg := 2\<rparr>)) 0 ready_world = Some (0, w') \<and>
     trial_run w' = 1"
proof (rule ready_prepare)
  fix w1
  assume p: "start_prepare example_kenv 0 ready_world = Inr w1"
  have z: "0 \<le> WAIT_LIMIT" by simp
  from intercept_served [OF p z, of "\<lambda>j x. Some (x\<lparr>exit_flg := 2\<rparr>)" "w1\<lparr>exit_flg := 2\<rparr>"]
  show ?thesis by auto
qed

lemma run_from_idle: "run_from (\<lambda>j x. Some x) j i w = Some w"
  by (induction i arbitrary: j) simp_all

theorem intercept_times_out_witness:
  "\<exists>w'. start_guest_intercept example_kenv (\<lambda>j x. Some x) 0 ready_world = Some (-1, w')"
proof (rule ready_prepare)
  fix w1
  assume p: "start_prepare example_kenv 0 ready_world = Inr w1" and e: "exit_flg w1 = 1"
  have "\<forall>i \<le> WAIT_LIMIT. spinning (run_from (\<lambda>j x. Some x) 0 i w1)"
    by (simp add: run_from_idle spinning_def e)
  from intercept_times_out [OF p this] show ?thesis by (simp add: run_from_idle)
qed



subsection \<open>The order of the scans\<close>

text \<open>C9: Calling \<^verbatim>\<open>get_next_ctx\<close> again and again picks every context that was not visited exactly
  once, in list order, and then returns -1 for ever; \<open>visited\<close> is never reset.\<close>

theorem every_vm_once:
  "visits (length (unvisited (contexts s)) + m) s =
     map (\<lambda>c. (0, Some (ctx_kvm c))) (unvisited (contexts s)) @ replicate m (-1, None)"
  by (rule visits_all)

text \<open>A second \<^verbatim>\<open>KVM_IMEE_RUN\<close> after all VMs were scanned fails with -1 without entering the
  vCPU and without sending an interrupt; only \<open>last_cr3\<close> and \<open>go_flg\<close> are reset.\<close>

theorem rerun_fails:
  assumes "unvisited (contexts (im w)) = []"
  shows "kvm_vcpu_ioctl K others run pid vms n KVM_IMEE_RUN w =
    Some (-1, reset_go_flg (w\<lparr>last_cr3 := 0\<rparr>))"
  by (simp add: kvm_vcpu_ioctl_def second_run [OF assms])

theorem rerun_fails_witness:
  "kvm_vcpu_ioctl example_kenv (\<lambda>j x. Some x) (\<lambda>n x. Some (0, x)) 50 [] 0 KVM_IMEE_RUN
     (example_world\<lparr>go_flg := 3\<rparr>) = Some (-1, example_world\<lparr>go_flg := 2\<rparr>)"
proof -
  have "unvisited (contexts (im (example_world\<lparr>go_flg := 3\<rparr>))) = []" by (simp add: examples unvisited_def)
  from rerun_fails [OF this, of example_kenv "\<lambda>j x. Some x" "\<lambda>n x. Some (0, x)" 50 "[]" 0] show ?thesis
    by (simp add: reset_go_flg_def examples)
qed

subsection \<open>Interception of CR3\<close>

text \<open>The interception of CR3 writes, the counterpart of the scan on the guest's processor, is dead code: from
  an unarmed start no step ever sets \<open>go_flg\<close> or \<open>do_switch\<close>, and no interrupt \<^verbatim>\<open>0x55\<close> is
  ever sent.\<close>

theorem interception_never_armed:
  assumes "reachable K n w0 (p, w')" "unarmed (Stopped, w0)"
  shows "go_flg w' = 0 \<and> do_switch w' = 0 \<and> (\<forall>cpu. (cpu, 0x55) \<notin> set (ipis w'))"
  using reachable_unarmed [OF assms] by (simp add: unarmed_def)

theorem interception_never_armed_witness:
  "reachable example_kenv 0 example_world (Stopped, example_world) \<and> go_flg example_world = 0"
proof -
  have r: "reachable example_kenv 0 example_world (Stopped, example_world)" by (simp add: reachable_def)
  have "unarmed (Stopped, example_world)" by (simp add: unarmed_def examples)
  with interception_never_armed [OF r] r show ?thesis by simp
qed

subsection \<open>Sampling\<close>

text \<open>The first sample of a scan: when the handler finds a target, \<open>last_cr3\<close> is the target's CR3, and
  the flag goes up by one exactly if that is not 0; the instruction pointer and the IDT and GDT are those of
  the VMCS loaded on the processor, which need not be the target's.\<close>

theorem first_sample:
  assumes "target_ctx w = Some c" "last_cr3 w = 0"
  shows "\<exists>w'. imee_write_eoi cpu w = Some w' \<and>
    last_cr3 w' = vmcs_read32 GUEST_CR3 (vcpus w (target_vcpu c)) \<and>
    exit_flg w' = (if last_cr3 w' = 0 then exit_flg w else exit_flg w + 1) \<and>
    last_rip w' = vmcs_read32 GUEST_RIP (vcpus w (loaded_on w cpu)) \<and>
    imee_idt w' = vmx_get_idt (vcpus w (loaded_on w cpu)) \<and>
    imee_gdt w' = vmx_get_gdt (vcpus w (loaded_on w cpu)) \<and> im w' = im w \<and> vcpus w' = vcpus w"
  by (rule sample_first [OF assms, of cpu]) blast

definition sampled_world :: world where
  "sampled_world = ready_world\<lparr>im := (im ready_world)\<lparr>current_target := Some 1\<rparr>,
     vcpus := (\<lambda>_. example_vcpu)(1 := example_vcpu\<lparr>vmcs := (\<lambda>_. 0)(GUEST_CR3 := 0x5000)\<rparr>,
       2 := example_vcpu\<lparr>vmcs := (\<lambda>_. 0)(GUEST_RIP := 0x777)\<rparr>), loaded_on := (\<lambda>_. 2)\<rparr>"

theorem first_sample_witness:
  "\<exists>w'. imee_write_eoi 0 sampled_world = Some w' \<and> last_cr3 w' = 0x5000 \<and> last_rip w' = 0x777 \<and>
     exit_flg w' = 1"
proof -
  let ?c = "hd (contexts (im ready_world))"
  have "target_ctx sampled_world = Some ?c" "last_cr3 sampled_world = 0"
    by (simp_all add: target_ctx_def sampled_world_def ready_world_def kvm_to_ctx_def examples)
  from first_sample [OF this, of 0] obtain w' where "imee_write_eoi 0 sampled_world = Some w'"
    "last_cr3 w' = vmcs_read32 GUEST_CR3 (vcpus sampled_world (target_vcpu ?c))"
    "exit_flg w' = (if last_cr3 w' = 0 then exit_flg sampled_world else exit_flg sampled_world + 1)"
    "last_rip w' = vmcs_read32 GUEST_RIP (vcpus sampled_world (loaded_on sampled_world 0))" by blast
  then show ?thesis
    by (intro exI [of _ w']) (simp add: sampled_world_def ready_world_def examples vmcs_ops)
qed

subsection \<open>Stopping\<close>

text \<open>After the stop request the module has no context, no target and no frame of its own left, but the handler
  of the sampling interrupt stays installed: an interrupt that arrives then dereferences the NULL target.\<close>

theorem late_interrupt_faults:
  assumes "kvm_imee_stop n w = Some (r, w')"
  shows "contexts (im w') = [] \<and> current_target (im w') = None \<and> code_hpa (im w') = 0 \<and> imee_pid w' = 0 \<and>
    idt_vectors w' = idt_vectors w \<and> imee_write_eoi cpu w' = None"
  using stop_globals [OF assms] late_sample [OF assms] by simp

lemma stop_defined:
  assumes "p_base_idx (hst (im w)) < NBASE"
  obtains w' where "kvm_imee_stop m w = Some (0, w')"
proof -
  obtain h where h: "release_ept_frames (hst (im w)) = Some h"
    using assms release_ept_frames_defined by blast
  then have "\<exists>r w'. kvm_imee_stop m w = Some (r, w')"
    by (simp add: kvm_imee_stop_def free_contexts_def Let_def)
  then obtain r w' where s: "kvm_imee_stop m w = Some (r, w')" by blast
  with stop_globals(1) [OF s] show ?thesis using that by simp
qed

theorem late_interrupt_faults_witness:
  "\<exists>w'. kvm_imee_stop 0 (example_world\<lparr>idt_vectors := {0x55, 0x56}\<rparr>) = Some (0, w') \<and>
     0x56 \<in> idt_vectors w' \<and> imee_write_eoi 0 w' = None"
proof (rule stop_defined [of "example_world\<lparr>idt_vectors := {0x55, 0x56}\<rparr>" 0])
  show "p_base_idx (hst (im (example_world\<lparr>idt_vectors := {0x55, 0x56}\<rparr>))) < NBASE"
    by (simp add: examples NBASE_def)
  fix w'
  assume s: "kvm_imee_stop 0 (example_world\<lparr>idt_vectors := {0x55, 0x56}\<rparr>) = Some (0, w')"
  from late_interrupt_faults [OF s, of 0] s show ?thesis by simp
qed

text \<open>Closing the vCPU of any process whose number is less than 5 above the module's, so of every older
  process, stops the module: the test subtracts without an absolute value.\<close>

theorem closing_stops_module:
  assumes "pid < imee_pid w + 5" "p_base_idx (hst (im w)) < NBASE"
  shows "\<exists>w'. kvm_vcpu_release pid m w = Some w' \<and> contexts (im w') = [] \<and> imee_pid w' = 0 \<and>
    current_target (im w') = None"
proof -
  obtain w' where s: "kvm_imee_stop m w = Some (0, w')" by (rule stop_defined [OF assms(2)])
  have "pid - imee_pid w < 5" using assms(1) by simp
  with s have "kvm_vcpu_release pid m w = Some w'" by (simp add: kvm_vcpu_release_def)
  with stop_globals [OF s] show ?thesis by blast
qed

theorem closing_stops_module_witness:
  "\<exists>w'. kvm_vcpu_release 7 3 (ready_world\<lparr>imee_pid := 5000\<rparr>) = Some w' \<and>
     contexts (im (ready_world\<lparr>imee_pid := 5000\<rparr>)) \<noteq> [] \<and> contexts (im w') = []"
proof -
  let ?w = "ready_world\<lparr>imee_pid := 5000\<rparr>"
  have "7 < imee_pid ?w + 5" "p_base_idx (hst (im ?w)) < NBASE"
    by (simp_all add: ready_world_def examples NBASE_def)
  from closing_stops_module [OF this, of 3] show ?thesis by (auto simp: ready_world_def)
qed

subsection \<open>The start of the module's code\<close>

text \<open>The registers \<^verbatim>\<open>adjust_imee_vcpu\<close> sets reach the VMCS on the next entry only in part: RIP is marked
  dirty and is written, RSP is set in the register array but not marked, so the module starts with the old
  GUEST_RSP.\<close>

theorem start_rip_not_rsp:
  assumes "Gpr RSP \<notin> regs_dirty v"
  shows "vmcs (sync_regs (adjust_imee_vcpu rip d v)) GUEST_RIP = rip \<and>
    regs (sync_regs (adjust_imee_vcpu rip d v)) RSP = d + 0xFF0 \<and>
    vmcs (sync_regs (adjust_imee_vcpu rip d v)) GUEST_RSP = vmcs v GUEST_RSP"
  using sync_adjusted [OF assms] by simp

theorem start_rip_not_rsp_witness:
  "vmcs (sync_regs (adjust_imee_vcpu 0x8048123 0 example_vcpu)) GUEST_RIP = 0x8048123 \<and>
   vmcs (sync_regs (adjust_imee_vcpu 0x8048123 0 example_vcpu)) GUEST_RSP = 0"
proof -
  have "Gpr RSP \<notin> regs_dirty example_vcpu" by (simp add: example_vcpu_def)
  from start_rip_not_rsp [OF this, of "0x8048123" 0] show ?thesis by (simp add: example_vcpu_def)
qed

end
