(* ===== verification/Segments_Props.thy ===== *)
theory Segments_Props
  imports Segments
begin

text \<open>
  Facts about the segment operations: the cache agrees with the VMCS and filling it changes nothing
  else, a segment written is read back, and the checks decide on the segments the VMCS holds.
\<close>

subsection \<open>Operations that only fill caches\<close>

definition forget :: "vcpu \<Rightarrow> vcpu" where
  "forget v = v\<lparr>regs_avail := {}, cache_mask := {}, seg_cache := (\<lambda>_. \<lparr>sv_selector = 0, sv_base = 0,
     sv_limit = 0, sv_ar = 0\<rparr>), rflags_cache := 0, cpl := 0\<rparr>"

fun cached :: "vcpu \<Rightarrow> sreg \<times> seg_field \<Rightarrow> bool" where
  "cached v (seg, SEG_FIELD_SEL) \<longleftrightarrow> sv_selector (seg_cache v seg) = vmcs_read16 (GUEST_SELECTOR seg) v"
| "cached v (seg, SEG_FIELD_BASE) \<longleftrightarrow> sv_base (seg_cache v seg) = vmcs_readl (GUEST_BASE seg) v"
| "cached v (seg, SEG_FIELD_LIMIT) \<longleftrightarrow> sv_limit (seg_cache v seg) = vmcs_read32 (GUEST_LIMIT seg) v"
| "cached v (seg, SEG_FIELD_AR) \<longleftrightarrow> sv_ar (seg_cache v seg) = vmcs_read32 (GUEST_AR_BYTES seg) v"

text \<open>The segment cache holds what the VMCS holds, and so does the cached \<^verbatim>\<open>RFLAGS\<close>.\<close>

definition flags_of :: "vcpu \<Rightarrow> u64" where
  "flags_of v =
     (if vm86_active v
      then (vmcs_readl GUEST_RFLAGS v AND RMODE_GUEST_OWNED_EFLAGS_BITS) OR
           (save_rflags v AND NOT RMODE_GUEST_OWNED_EFLAGS_BITS)
      else vmcs_readl GUEST_RFLAGS v)"

definition cache_ok :: "vcpu \<Rightarrow> bool" where
  "cache_ok v \<longleftrightarrow>
     (EXREG_SEGMENTS \<in> regs_avail v \<longrightarrow> (\<forall>sf \<in> cache_mask v. cached v sf)) \<and>
     (EXREG_RFLAGS \<in> regs_avail v \<longrightarrow> rflags_cache v = flags_of v)"

definition quiet :: "vcpu \<Rightarrow> vcpu \<Rightarrow> bool" where
  "quiet v v' \<longleftrightarrow> forget v' = forget v \<and> (cache_ok v \<longrightarrow> cache_ok v')"

lemma quiet_refl [simp]: "quiet v v" by (simp add: quiet_def)

lemma quiet_trans: "quiet v v1 \<Longrightarrow> quiet v1 v2 \<Longrightarrow> quiet v v2" by (auto simp: quiet_def)

lemma forgetD:
  assumes "forget v' = forget v"
  shows "vmcs v' = vmcs v" "vm86_active v' = vm86_active v" "rmode_segs v' = rmode_segs v"
    "save_rflags v' = save_rflags v" "arch_cr0 v' = arch_cr0 v" "regs v' = regs v" "root_hpa v' = root_hpa v"
    "arch_cr4 v' = arch_cr4 v" "arch_efer v' = arch_efer v" "arch_cr3 v' = arch_cr3 v"
    "regs_dirty v' = regs_dirty v" "emulation_req v' = emulation_req v"
  using arg_cong [OF assms, of emulation_req] arg_cong [OF assms, of vmcs] arg_cong [OF assms, of vm86_active] arg_cong [OF assms, of rmode_segs]
    arg_cong [OF assms, of save_rflags] arg_cong [OF assms, of arch_cr0] arg_cong [OF assms, of regs]
    arg_cong [OF assms, of root_hpa] arg_cong [OF assms, of arch_cr4] arg_cong [OF assms, of arch_efer]
    arg_cong [OF assms, of arch_cr3] arg_cong [OF assms, of regs_dirty]
  by (simp_all add: forget_def)

lemma quietD:
  assumes "quiet v v'"
  shows "vmcs v' = vmcs v" "vm86_active v' = vm86_active v" "rmode_segs v' = rmode_segs v"
    "save_rflags v' = save_rflags v" "arch_cr0 v' = arch_cr0 v" "regs v' = regs v" "root_hpa v' = root_hpa v"
    "arch_cr4 v' = arch_cr4 v" "arch_efer v' = arch_efer v" "arch_cr3 v' = arch_cr3 v"
    "regs_dirty v' = regs_dirty v" "flags_of v' = flags_of v" "cache_ok v \<Longrightarrow> cache_ok v'"
    "emulation_req v' = emulation_req v"
  using assms forgetD [of v' v] by (simp_all add: quiet_def flags_of_def vmcs_readl_def)

lemma segment_fields [simp]:
  "sf_selector (kvm_vmx_segment_fields seg) = GUEST_SELECTOR seg"
  "sf_base (kvm_vmx_segment_fields seg) = GUEST_BASE seg"
  "sf_limit (kvm_vmx_segment_fields seg) = GUEST_LIMIT seg"
  "sf_ar_bytes (kvm_vmx_segment_fields seg) = GUEST_AR_BYTES seg"
  by (simp_all add: kvm_vmx_segment_fields_def)

text \<open>One read through the cache.\<close>

lemma cached_vmcs:
  "vmcs v' = vmcs v \<Longrightarrow> seg_cache v' = seg_cache v \<Longrightarrow> cached v' sf = cached v sf"
  by (cases "(v, sf)" rule: cached.cases) (simp_all add: vmcs_ops)

lemma test_set_post:
  assumes "vmx_segment_cache_test_set seg field v = (hit, v1)"
  shows "EXREG_SEGMENTS \<in> regs_avail v1" "forget v1 = forget v" "flags_of v1 = flags_of v"
    "cache_mask v1 = insert (seg, field)
       (if EXREG_SEGMENTS \<in> regs_avail v then cache_mask v else {})"
    "hit \<longleftrightarrow> EXREG_SEGMENTS \<in> regs_avail v \<and> (seg, field) \<in> cache_mask v"
    "seg_cache v1 = seg_cache v" "vmcs v1 = vmcs v" "rflags_cache v1 = rflags_cache v"
    "EXREG_RFLAGS \<in> regs_avail v1 \<longleftrightarrow> EXREG_RFLAGS \<in> regs_avail v"
  using assms by (auto simp: vmx_segment_cache_test_set_def Let_def forget_def flags_of_def vmcs_ops split: if_splits)

text \<open>What the four readers have in common: on a miss the field is filled from the VMCS.\<close>

lemma read_post:
  assumes t: "vmx_segment_cache_test_set seg field v = (hit, v1)"
    and v2: "v2 = (if hit then v1 else v1\<lparr>seg_cache := (seg_cache v1)(seg := c)\<rparr>)"
    and c: "cached (v1\<lparr>seg_cache := (seg_cache v1)(seg := c)\<rparr>) (seg, field)"
    and other: "\<And>g. g \<noteq> field \<Longrightarrow>
      cached (v1\<lparr>seg_cache := (seg_cache v1)(seg := c)\<rparr>) (seg, g) = cached v1 (seg, g)"
  shows "quiet v v2" "cache_ok v \<Longrightarrow> cached v2 (seg, field)"
proof -
  note p = test_set_post [OF t]
  have f2: "forget v2 = forget v" using p(2) by (simp add: v2 forget_def)
  have fl: "flags_of v2 = flags_of v" "rflags_cache v2 = rflags_cache v"
    "EXREG_RFLAGS \<in> regs_avail v2 \<longleftrightarrow> EXREG_RFLAGS \<in> regs_avail v" "cache_mask v2 = cache_mask v1"
    using p(7,8,9) forgetD(2,4) [OF p(2)] by (simp_all add: v2 flags_of_def vmcs_ops)
  have same: "cached v1 x = cached v x" for x by (rule cached_vmcs [OF p(7) p(6)])
  have hitc: "cached v2 (seg, field)" if "cache_ok v"
    using that c p(5) same by (auto simp: v2 cache_ok_def)
  then show "cache_ok v \<Longrightarrow> cached v2 (seg, field)" .
  have oth: "cached v2 (s, g) = cached v (s, g)" if "(s, g) \<noteq> (seg, field)" for s g
  proof (cases "s = seg")
    case True
    with that other [of g] same show ?thesis by (auto simp: v2)
  next
    case False
    then have "cached (v1\<lparr>seg_cache := (seg_cache v1)(seg := c)\<rparr>) (s, g) = cached v1 (s, g)"
      by (cases g) (simp_all add: vmcs_ops)
    with same show ?thesis by (simp add: v2)
  qed
  have "cache_ok v2" if ok: "cache_ok v"
    unfolding cache_ok_def
  proof (intro conjI impI ballI)
    show "rflags_cache v2 = flags_of v2" if "EXREG_RFLAGS \<in> regs_avail v2"
      using that ok fl by (simp add: cache_ok_def)
    fix x
    assume "x \<in> cache_mask v2"
    then have "x = (seg, field) \<or> EXREG_SEGMENTS \<in> regs_avail v \<and> x \<in> cache_mask v"
      using p(4) fl(4) by (auto split: if_splits)
    with hitc [OF ok] oth ok show "cached v2 x"
      by (cases "x = (seg, field)"; cases x) (auto simp: cache_ok_def)
  qed
  with f2 show "quiet v v2" by (simp add: quiet_def)
qed

lemma read_selector:
  assumes "vmx_read_guest_seg_selector seg v = (x, v')"
  shows "quiet v v'" "cache_ok v \<Longrightarrow> x = vmcs_read16 (GUEST_SELECTOR seg) v"
proof -
  obtain hit v1 where t: "vmx_segment_cache_test_set seg SEG_FIELD_SEL v = (hit, v1)" by fastforce
  let ?c = "(seg_cache v1 seg)\<lparr>sv_selector := vmcs_read16 (GUEST_SELECTOR seg) v1\<rparr>"
  have v': "v' = (if hit then v1 else v1\<lparr>seg_cache := (seg_cache v1)(seg := ?c)\<rparr>)"
    and x: "x = sv_selector (seg_cache v' seg)"
    using assms by (auto simp: vmx_read_guest_seg_selector_def t Let_def)
  have o: "g \<noteq> SEG_FIELD_SEL \<Longrightarrow>
      cached (v1\<lparr>seg_cache := (seg_cache v1)(seg := ?c)\<rparr>) (seg, g) = cached v1 (seg, g)" for g
    by (cases g) (simp_all add: vmcs_ops)
  note r = read_post [OF t v' _ o]
  show q: "quiet v v'" by (rule r(1)) (simp_all add: vmcs_ops)
  have "cache_ok v \<Longrightarrow> cached v' (seg, SEG_FIELD_SEL)" by (rule r(2)) (simp_all add: vmcs_ops)
  then show "cache_ok v \<Longrightarrow> x = vmcs_read16 (GUEST_SELECTOR seg) v"
    using quietD(1) [OF q] by (simp add: x vmcs_ops)
qed

lemma read_base:
  assumes "vmx_read_guest_seg_base seg v = (x, v')"
  shows "quiet v v'" "cache_ok v \<Longrightarrow> x = vmcs_readl (GUEST_BASE seg) v"
proof -
  obtain hit v1 where t: "vmx_segment_cache_test_set seg SEG_FIELD_BASE v = (hit, v1)" by fastforce
  let ?c = "(seg_cache v1 seg)\<lparr>sv_base := vmcs_readl (GUEST_BASE seg) v1\<rparr>"
  have v': "v' = (if hit then v1 else v1\<lparr>seg_cache := (seg_cache v1)(seg := ?c)\<rparr>)"
    and x: "x = sv_base (seg_cache v' seg)"
    using assms by (auto simp: vmx_read_guest_seg_base_def t Let_def)
  have o: "g \<noteq> SEG_FIELD_BASE \<Longrightarrow>
      cached (v1\<lparr>seg_cache := (seg_cache v1)(seg := ?c)\<rparr>) (seg, g) = cached v1 (seg, g)" for g
    by (cases g) (simp_all add: vmcs_ops)
  note r = read_post [OF t v' _ o]
  show q: "quiet v v'" by (rule r(1)) (simp_all add: vmcs_ops)
  have "cache_ok v \<Longrightarrow> cached v' (seg, SEG_FIELD_BASE)" by (rule r(2)) (simp_all add: vmcs_ops)
  then show "cache_ok v \<Longrightarrow> x = vmcs_readl (GUEST_BASE seg) v"
    using quietD(1) [OF q] by (simp add: x vmcs_ops)
qed

lemma read_limit:
  assumes "vmx_read_guest_seg_limit seg v = (x, v')"
  shows "quiet v v'" "cache_ok v \<Longrightarrow> x = vmcs_read32 (GUEST_LIMIT seg) v"
proof -
  obtain hit v1 where t: "vmx_segment_cache_test_set seg SEG_FIELD_LIMIT v = (hit, v1)" by fastforce
  let ?c = "(seg_cache v1 seg)\<lparr>sv_limit := vmcs_read32 (GUEST_LIMIT seg) v1\<rparr>"
  have v': "v' = (if hit then v1 else v1\<lparr>seg_cache := (seg_cache v1)(seg := ?c)\<rparr>)"
    and x: "x = sv_limit (seg_cache v' seg)"
    using assms by (auto simp: vmx_read_guest_seg_limit_def t Let_def)
  have o: "g \<noteq> SEG_FIELD_LIMIT \<Longrightarrow>
      cached (v1\<lparr>seg_cache := (seg_cache v1)(seg := ?c)\<rparr>) (seg, g) = cached v1 (seg, g)" for g
    by (cases g) (simp_all add: vmcs_ops)
  note r = read_post [OF t v' _ o]
  show q: "quiet v v'" by (rule r(1)) (simp_all add: vmcs_ops)
  have "cache_ok v \<Longrightarrow> cached v' (seg, SEG_FIELD_LIMIT)" by (rule r(2)) (simp_all add: vmcs_ops)
  then show "cache_ok v \<Longrightarrow> x = vmcs_read32 (GUEST_LIMIT seg) v"
    using quietD(1) [OF q] by (simp add: x vmcs_ops)
qed

lemma read_ar:
  assumes "vmx_read_guest_seg_ar seg v = (x, v')"
  shows "quiet v v'" "cache_ok v \<Longrightarrow> x = vmcs_read32 (GUEST_AR_BYTES seg) v"
proof -
  obtain hit v1 where t: "vmx_segment_cache_test_set seg SEG_FIELD_AR v = (hit, v1)" by fastforce
  let ?c = "(seg_cache v1 seg)\<lparr>sv_ar := vmcs_read32 (GUEST_AR_BYTES seg) v1\<rparr>"
  have v': "v' = (if hit then v1 else v1\<lparr>seg_cache := (seg_cache v1)(seg := ?c)\<rparr>)"
    and x: "x = sv_ar (seg_cache v' seg)"
    using assms by (auto simp: vmx_read_guest_seg_ar_def t Let_def)
  have o: "g \<noteq> SEG_FIELD_AR \<Longrightarrow>
      cached (v1\<lparr>seg_cache := (seg_cache v1)(seg := ?c)\<rparr>) (seg, g) = cached v1 (seg, g)" for g
    by (cases g) (simp_all add: vmcs_ops)
  note r = read_post [OF t v' _ o]
  show q: "quiet v v'" by (rule r(1)) (simp_all add: vmcs_ops)
  have "cache_ok v \<Longrightarrow> cached v' (seg, SEG_FIELD_AR)" by (rule r(2)) (simp_all add: vmcs_ops)
  then show "cache_ok v \<Longrightarrow> x = vmcs_read32 (GUEST_AR_BYTES seg) v"
    using quietD(1) [OF q] by (simp add: x vmcs_ops)
qed

subsection \<open>Reading a segment\<close>

text \<open>The segment the VMCS holds.\<close>

definition seg_at :: "vcpu \<Rightarrow> sreg \<Rightarrow> kvm_segment" where
  "seg_at v seg =
     seg_of_ar (vmcs v (GUEST_BASE seg)) (ucast (vmcs v (GUEST_LIMIT seg)))
       (ucast (vmcs v (GUEST_SELECTOR seg))) (ucast (vmcs v (GUEST_AR_BYTES seg)))"

text \<open>In virtual-8086 mode the saved segments stand for the VMCS ones, except where the guest
  reloaded the selector.\<close>

definition seg_view :: "vcpu \<Rightarrow> sreg \<Rightarrow> kvm_segment" where
  "seg_view v seg =
     (if vm86_active v \<and> seg \<noteq> LDTR then
        (let var = rmode_segs v seg; sel = ucast (vmcs v (GUEST_SELECTOR seg))
         in if seg = TR \<or> selector var = sel then var
            else var\<lparr>base := vmcs v (GUEST_BASE seg), selector := sel\<rparr>)
      else seg_at v seg)"

lemma get_segment:
  assumes g: "vmx_get_segment seg v = (var, v')"
  shows "quiet v v'" "cache_ok v \<Longrightarrow> var = seg_view v seg"
proof -
  have "quiet v v' \<and> (cache_ok v \<longrightarrow> var = seg_view v seg)"
  proof (cases "vm86_active v \<and> seg \<noteq> LDTR")
    case False
    obtain b v1 l v2 sel v3 ar v4
      where r: "vmx_read_guest_seg_base seg v = (b, v1)" "vmx_read_guest_seg_limit seg v1 = (l, v2)"
        "vmx_read_guest_seg_selector seg v2 = (sel, v3)" "vmx_read_guest_seg_ar seg v3 = (ar, v4)"
      by (metis surj_pair)
    have e: "var = seg_of_ar b l sel ar" "v' = v4"
      using g unfolding vmx_get_segment_def by (simp_all only: if_not_P [OF False] r Let_def case_prod_conv prod.inject)
    note q = read_base(1) [OF r(1)] read_limit(1) [OF r(2)] read_selector(1) [OF r(3)] read_ar(1) [OF r(4)]
    have "quiet v v4" using q by (blast intro: quiet_trans)
    moreover have "var = seg_view v seg" if "cache_ok v"
    proof -
      have c: "cache_ok v1" "cache_ok v2" "cache_ok v3" using that q quietD(13) by blast+
      show ?thesis
        using e(1) False read_base(2) [OF r(1) that] read_limit(2) [OF r(2) c(1)]
          read_selector(2) [OF r(3) c(2)] read_ar(2) [OF r(4) c(3)]
          quietD(1) [OF q(1)] quietD(1) [OF q(2)] quietD(1) [OF q(3)]
        by (auto simp: seg_view_def seg_at_def vmcs_ops)
    qed
    ultimately show ?thesis by (simp add: e)
  next
    case True
    show ?thesis
    proof (cases "seg = TR")
      case True
      with g \<open>vm86_active v \<and> seg \<noteq> LDTR\<close> show ?thesis
        by (auto simp: vmx_get_segment_def seg_view_def Let_def)
    next
      case False
      obtain sel v1 b v2 sel' v3 where r: "vmx_read_guest_seg_selector seg v = (sel, v1)"
          "vmx_read_guest_seg_base seg v1 = (b, v2)" "vmx_read_guest_seg_selector seg v2 = (sel', v3)"
        by (metis surj_pair)
      note q = read_selector(1) [OF r(1)] read_base(1) [OF r(2)] read_selector(1) [OF r(3)]
      have e: "(var, v') = (if selector (rmode_segs v seg) = sel then (rmode_segs v seg, v1)
          else (rmode_segs v seg\<lparr>base := b, selector := sel'\<rparr>, v3))"
        using g True False r by (simp add: vmx_get_segment_def Let_def split: if_splits)
      have "quiet v v'" using e q by (auto split: if_splits intro: quiet_trans)
      moreover have "var = seg_view v seg" if "cache_ok v"
      proof -
        have c: "cache_ok v1" "cache_ok v2" using that q quietD(13) by blast+
        show ?thesis
          using e True False read_selector(2) [OF r(1) that] read_base(2) [OF r(2) c(1)]
            read_selector(2) [OF r(3) c(2)] quietD(1) [OF q(1)] quietD(1) [OF q(2)]
          by (auto simp: seg_view_def Let_def vmcs_ops split: if_splits)
      qed
      ultimately show ?thesis by blast
    qed
  qed
  then show "quiet v v'" "cache_ok v \<Longrightarrow> var = seg_view v seg" by auto
qed

lemma quiet_seg_view: "quiet v v' \<Longrightarrow> seg_view v' seg = seg_view v seg"
  unfolding seg_view_def seg_at_def by (simp only: quietD(1-3))

lemma get_rflags:
  assumes "vmx_get_rflags v = (r, v')"
  shows "quiet v v'" "cache_ok v \<Longrightarrow> r = flags_of v"
proof -
  have "quiet v v' \<and> (cache_ok v \<longrightarrow> r = flags_of v)"
  proof (cases "EXREG_RFLAGS \<in> regs_avail v")
    case True
    with assms show ?thesis by (auto simp: vmx_get_rflags_def cache_ok_def)
  next
    case False
    have v': "v' = v\<lparr>regs_avail := insert EXREG_RFLAGS (regs_avail v), rflags_cache := flags_of v\<rparr>"
      and r: "r = flags_of v"
      using assms False by (auto simp: vmx_get_rflags_def Let_def flags_of_def vmcs_ops)
    have "forget v' = forget v" by (simp add: v' forget_def)
    moreover have "cache_ok v'" if "cache_ok v"
    proof -
      have "cached v' sf = cached v sf" for sf by (rule cached_vmcs) (simp_all add: v')
      moreover have "flags_of v' = flags_of v" by (simp add: v' flags_of_def vmcs_ops)
      ultimately show ?thesis using that by (simp add: cache_ok_def v')
    qed
    ultimately show ?thesis using r by (simp add: quiet_def)
  qed
  then show "quiet v v'" "cache_ok v \<Longrightarrow> r = flags_of v" by auto
qed

subsection \<open>The checks\<close>

text \<open>A reader computes a function of the VMCS and fills caches only.\<close>

definition reader :: "(vcpu \<Rightarrow> 'a \<times> vcpu) \<Rightarrow> (vcpu \<Rightarrow> 'a) \<Rightarrow> bool" where
  "reader c P \<longleftrightarrow>
     (\<forall>v b v'. c v = (b, v') \<longrightarrow> quiet v v' \<and> (cache_ok v \<longrightarrow> b = P v)) \<and>
     (\<forall>v v'. quiet v v' \<longrightarrow> P v' = P v)"

lemma readerD:
  "reader c P \<Longrightarrow> c v = (b, v') \<Longrightarrow> quiet v v'"
  "reader c P \<Longrightarrow> c v = (b, v') \<Longrightarrow> cache_ok v \<Longrightarrow> b = P v"
  "reader c P \<Longrightarrow> quiet v v' \<Longrightarrow> P v' = P v"
  by (auto simp: reader_def)

lemma reader_segment:
  "reader (\<lambda>v. case vmx_get_segment seg v of (var, v1) \<Rightarrow> (f var, v1)) (\<lambda>v. f (seg_view v seg))"
  using get_segment quiet_seg_view by (auto simp: reader_def split: prod.splits)

lemma readers:
  "reader (rmode_segment_valid seg) (\<lambda>v. rmode_seg_check seg (seg_view v seg))"
  "reader code_segment_valid (\<lambda>v. code_seg_check (seg_view v CS))"
  "reader stack_segment_valid (\<lambda>v. stack_seg_check (seg_view v SS))"
  "reader (data_segment_valid seg) (\<lambda>v. data_seg_check (seg_view v seg))"
  "reader tr_valid (\<lambda>v. tr_check (seg_view v TR))"
  "reader ldtr_valid (\<lambda>v. ldtr_check (seg_view v LDTR))"
  using reader_segment
  by (simp_all add: rmode_segment_valid_def [abs_def] code_segment_valid_def [abs_def]
      stack_segment_valid_def [abs_def] data_segment_valid_def [abs_def] tr_valid_def [abs_def]
      ldtr_valid_def [abs_def])

lemma reader_rpl:
  "reader cs_ss_rpl_check
     (\<lambda>v. selector (seg_view v CS) AND SELECTOR_RPL_MASK = selector (seg_view v SS) AND SELECTOR_RPL_MASK)"
  unfolding reader_def
proof (intro conjI allI impI)
  fix v b v'
  assume c: "cs_ss_rpl_check v = (b, v')"
  obtain cs v1 where g1: "vmx_get_segment CS v = (cs, v1)" by fastforce
  obtain ss v2 where g2: "vmx_get_segment SS v1 = (ss, v2)" by fastforce
  have e: "b = (selector cs AND SELECTOR_RPL_MASK = selector ss AND SELECTOR_RPL_MASK)" "v' = v2"
    using c g1 g2 by (auto simp: cs_ss_rpl_check_def)
  note q1 = get_segment(1) [OF g1] and q2 = get_segment(1) [OF g2]
  show "quiet v v'" using e(2) q1 q2 quiet_trans by blast
  show "b = (selector (seg_view v CS) AND SELECTOR_RPL_MASK = selector (seg_view v SS) AND SELECTOR_RPL_MASK)"
    if "cache_ok v"
    using e(1) get_segment(2) [OF g1 that] get_segment(2) [OF g2 quietD(13) [OF q1 that]]
      quiet_seg_view [OF q1] by simp
qed (simp add: quiet_seg_view)

lemma reader_all_valid:
  "list_all2 reader cs Ps \<Longrightarrow> reader (all_valid cs) (\<lambda>v. \<forall>P \<in> set Ps. P v)"
proof (induction cs Ps rule: list_all2_induct)
  case Nil
  then show ?case by (simp add: reader_def)
next
  case (Cons c cs P Ps)
  show ?case
    unfolding reader_def
  proof (intro conjI allI impI)
    fix v b v'
    assume a: "all_valid (c # cs) v = (b, v')"
    obtain ok v1 where c: "c v = (ok, v1)" by fastforce
    note q = readerD(1) [OF Cons(1) c]
    have r: "if ok then all_valid cs v1 = (b, v') else b = False \<and> v' = v1"
      using a c by (auto split: if_splits)
    show "quiet v v'"
      using r q readerD(1) [OF Cons(3)] by (auto split: if_splits intro: quiet_trans)
    show "b = (\<forall>P \<in> set (P # Ps). P v)" if ok: "cache_ok v"
    proof -
      have e: "ok = P v" by (rule readerD(2) [OF Cons(1) c ok])
      have inv: "(\<forall>P \<in> set Ps. P v1) = (\<forall>P \<in> set Ps. P v)" by (rule readerD(3) [OF Cons(3) q])
      show ?thesis
      proof (cases ok)
        case True
        then have "all_valid cs v1 = (b, v')" using r by simp
        from readerD(2) [OF Cons(3) this quietD(13) [OF q ok]] inv e True show ?thesis by simp
      next
        case False
        with r e show ?thesis by simp
      qed
    qed
  next
    fix v v'
    assume q: "quiet v v'"
    then show "(\<forall>P \<in> set (P # Ps). P v') = (\<forall>P \<in> set (P # Ps). P v)"
      using readerD(3) [OF Cons(1) q] readerD(3) [OF Cons(3) q] by simp
  qed
qed

definition real_mode :: "env \<Rightarrow> vcpu \<Rightarrow> bool" where
  "real_mode E v \<longleftrightarrow> \<not> is_protmode E v \<or> flags_of v AND X86_EFLAGS_VM \<noteq> 0"

definition prot_segs_ok :: "vcpu \<Rightarrow> bool" where
  "prot_segs_ok v \<longleftrightarrow>
     selector (seg_view v CS) AND SELECTOR_RPL_MASK = selector (seg_view v SS) AND SELECTOR_RPL_MASK \<and>
     code_seg_check (seg_view v CS) \<and> stack_seg_check (seg_view v SS) \<and>
     (\<forall>seg \<in> {DS, ES, FS, GS}. data_seg_check (seg_view v seg)) \<and>
     tr_check (seg_view v TR) \<and> ldtr_check (seg_view v LDTR)"

definition state_ok :: "env \<Rightarrow> vcpu \<Rightarrow> bool" where
  "state_ok E v \<longleftrightarrow>
     enable_unrestricted_guest E \<or>
     (if real_mode E v then (\<forall>seg \<in> {CS, SS, DS, ES, FS, GS}. rmode_seg_check seg (seg_view v seg))
      else prot_segs_ok v)"

lemma quiet_prot_segs_ok: "quiet v v' \<Longrightarrow> prot_segs_ok v' = prot_segs_ok v"
  by (simp add: prot_segs_ok_def quiet_seg_view)

lemma guest_state_valid_post:
  assumes g: "guest_state_valid E v = (b, v')"
  shows "quiet v v'" "cache_ok v \<Longrightarrow> b = state_ok E v"
proof -
  let ?rm = "[rmode_segment_valid CS, rmode_segment_valid SS, rmode_segment_valid DS,
     rmode_segment_valid ES, rmode_segment_valid FS, rmode_segment_valid GS]"
  let ?pm = "[cs_ss_rpl_check, code_segment_valid, stack_segment_valid, data_segment_valid DS,
     data_segment_valid ES, data_segment_valid FS, data_segment_valid GS, tr_valid, ldtr_valid]"
  have rm: "reader (all_valid ?rm) (\<lambda>v. \<forall>seg \<in> {CS, SS, DS, ES, FS, GS}. rmode_seg_check seg (seg_view v seg))"
  proof -
    have "list_all2 reader ?rm (map (\<lambda>seg v. rmode_seg_check seg (seg_view v seg)) [CS, SS, DS, ES, FS, GS])"
      by (simp add: readers)
    from reader_all_valid [OF this] show ?thesis by simp
  qed
  have pm: "reader (all_valid ?pm) prot_segs_ok"
  proof -
    let ?Ps = "[\<lambda>v. selector (seg_view v CS) AND SELECTOR_RPL_MASK = selector (seg_view v SS) AND SELECTOR_RPL_MASK,
      \<lambda>v. code_seg_check (seg_view v CS), \<lambda>v. stack_seg_check (seg_view v SS),
      \<lambda>v. data_seg_check (seg_view v DS), \<lambda>v. data_seg_check (seg_view v ES),
      \<lambda>v. data_seg_check (seg_view v FS), \<lambda>v. data_seg_check (seg_view v GS),
      \<lambda>v. tr_check (seg_view v TR), \<lambda>v. ldtr_check (seg_view v LDTR)]"
    have l: "list_all2 reader ?pm ?Ps" by (simp add: readers reader_rpl)
    have "(\<lambda>v. \<forall>P \<in> set ?Ps. P v) = prot_segs_ok" by (auto simp: prot_segs_ok_def fun_eq_iff)
    with reader_all_valid [OF l] show ?thesis by simp
  qed
  have "quiet v v' \<and> (cache_ok v \<longrightarrow> b = state_ok E v)"
  proof (cases "enable_unrestricted_guest E")
    case True
    with g show ?thesis by (auto simp: guest_state_valid_def state_ok_def)
  next
    case False
    obtain m v1 where m: "(if \<not> is_protmode E v then (True, v)
        else (case vmx_get_rflags v of (r, v') \<Rightarrow> (r AND X86_EFLAGS_VM \<noteq> 0, v'))) = (m, v1)"
      by fastforce
    have q: "quiet v v1" and mm: "cache_ok v \<Longrightarrow> m = real_mode E v"
      using m get_rflags by (auto simp: real_mode_def split: if_splits prod.splits)
    have a: "all_valid (if m then ?rm else ?pm) v1 = (b, v')"
      using g m False by (simp add: guest_state_valid_def split: if_splits)
    show ?thesis
    proof (cases m)
      case True
      with a have a': "all_valid ?rm v1 = (b, v')" by simp
      have "quiet v v'" using q readerD(1) [OF rm a'] quiet_trans by blast
      moreover have "b = state_ok E v" if "cache_ok v"
        using readerD(2) [OF rm a' quietD(13) [OF q that]] mm [OF that] True False
        by (simp add: state_ok_def quiet_seg_view [OF q])
      ultimately show ?thesis by blast
    next
      case m: False
      with a have a': "all_valid ?pm v1 = (b, v')" by simp
      have "quiet v v'" using q readerD(1) [OF pm a'] quiet_trans by blast
      moreover have "b = state_ok E v" if "cache_ok v"
        using readerD(2) [OF pm a' quietD(13) [OF q that]] mm [OF that] m False
        by (simp add: state_ok_def quiet_prot_segs_ok [OF q])
      ultimately show ?thesis by blast
    qed
  qed
  then show "quiet v v'" "cache_ok v \<Longrightarrow> b = state_ok E v" by auto
qed

lemma note_emulation_post:
  obtains v1 b where "note_emulation E v = v1\<lparr>emulation_req := emulation_req v \<or> b\<rparr>" and "quiet v v1"
    and "cache_ok v \<Longrightarrow> b \<longleftrightarrow> emulate_invalid_guest_state E \<and> \<not> state_ok E v"
proof -
  obtain b v1 where e: "emulation_required E v = (b, v1)" by fastforce
  have q: "quiet v v1" and b: "cache_ok v \<Longrightarrow> b = (emulate_invalid_guest_state E \<and> \<not> state_ok E v)"
    using e guest_state_valid_post by (auto simp: emulation_required_def split: if_splits prod.splits)
  have "note_emulation E v = v1\<lparr>emulation_req := emulation_req v \<or> b\<rparr>"
    by (simp add: note_emulation_def e quietD(14) [OF q])
  then show ?thesis using q b that by blast
qed

lemma emulation_req_same [simp]:
  "cached (v\<lparr>emulation_req := x\<rparr>) sf = cached v sf" "flags_of (v\<lparr>emulation_req := x\<rparr>) = flags_of v"
  "cache_ok (v\<lparr>emulation_req := x\<rparr>) = cache_ok v" "seg_view (v\<lparr>emulation_req := x\<rparr>) seg = seg_view v seg"
proof -
  show c: "cached (v\<lparr>emulation_req := x\<rparr>) sf = cached v sf" for sf by (rule cached_vmcs) simp_all
  show f: "flags_of (v\<lparr>emulation_req := x\<rparr>) = flags_of v" by (simp add: flags_of_def vmcs_ops)
  show "cache_ok (v\<lparr>emulation_req := x\<rparr>) = cache_ok v" by (simp add: cache_ok_def c f)
  show "seg_view (v\<lparr>emulation_req := x\<rparr>) seg = seg_view v seg"
    by (simp add: seg_view_def seg_at_def Let_def)
qed

subsection \<open>Access rights are read back\<close>

text \<open>A segment as the processor can hold it: one-bit fields are 0 or 1, and it is present and
  usable.\<close>

definition wf_seg :: "kvm_segment \<Rightarrow> bool" where
  "wf_seg var \<longleftrightarrow>
     seg_type var < 16 \<and> dpl var < 4 \<and> seg_s var < 2 \<and> avl var < 2 \<and> seg_l var < 2 \<and> db var < 2 \<and>
     seg_g var < 2 \<and> present var = 1 \<and> unusable var = 0"

lemma small_bits:
  "(x :: u8) < 2 \<Longrightarrow> bit x n \<Longrightarrow> n < 1" "(x :: u8) < 4 \<Longrightarrow> bit x n \<Longrightarrow> n < 2"
  "(x :: u8) < 16 \<Longrightarrow> bit x n \<Longrightarrow> n < 4"
proof -
  have b: "n < k" if "bit (uint (x :: u8)) n" "uint x < 2 ^ k" for k
  proof -
    have "take_bit k (uint x) = uint x" using that(2) by (simp add: take_bit_int_eq_self)
    with that(1) show ?thesis by (metis bit_take_bit_iff)
  qed
  show "x < 2 \<Longrightarrow> bit x n \<Longrightarrow> n < 1" using b [of 1] bit_imp_le_length [of x n] by (auto simp: word_less_def bit_uint_iff)
  show "x < 4 \<Longrightarrow> bit x n \<Longrightarrow> n < 2" using b [of 2] bit_imp_le_length [of x n] by (auto simp: word_less_def bit_uint_iff)
  show "x < 16 \<Longrightarrow> bit x n \<Longrightarrow> n < 4" using b [of 4] bit_imp_le_length [of x n] by (auto simp: word_less_def bit_uint_iff)
qed

lemma bit_15_int [simp]: "bit (15 :: int) n \<longleftrightarrow> n < 4"
  by (rule bit_mask_val) (simp add: mask_eq_exp_minus_1)

lemma bit_shifted: "bit (push_bit k (ucast (x :: u8) AND m) :: u32) n \<longleftrightarrow>
    k \<le> n \<and> n < 32 \<and> bit x (n - k) \<and> bit m (n - k)"
  using bit_imp_le_length [of x "n - k"] by (auto simp: bit_simps)

lemma access_rights_bits:
  assumes "unusable var = 0" "present var \<noteq> 0"
  shows "bit (vmx_segment_access_rights var) n \<longleftrightarrow>
     n < 4 \<and> bit (seg_type var) n \<or> n = 4 \<and> bit (seg_s var) 0 \<or>
     (5 \<le> n \<and> n < 7) \<and> bit (dpl var) (n - 5) \<or> n = 7 \<and> bit (present var) 0 \<or>
     n = 12 \<and> bit (avl var) 0 \<or> n = 13 \<and> bit (seg_l var) 0 \<or> n = 14 \<and> bit (db var) 0 \<or>
     n = 15 \<and> bit (seg_g var) 0"
proof -
  have t: "bit (ucast (seg_type var) AND 15 :: u32) n \<longleftrightarrow> n < 4 \<and> bit (seg_type var) n"
    using bit_imp_le_length [of "seg_type var" n] by (auto simp: bit_simps)
  have one: "bit (1 :: u32) k \<longleftrightarrow> k = 0" and three: "bit (3 :: u32) k \<longleftrightarrow> k < 2" for k
    by (auto simp: bit_simps)
  have e: "vmx_segment_access_rights var =
      (ucast (seg_type var) AND 15) OR push_bit 4 (ucast (seg_s var) AND 1) OR
           push_bit 5 (ucast (dpl var) AND 3) OR push_bit 7 (ucast (present var) AND 1) OR
           push_bit 12 (ucast (avl var) AND 1) OR push_bit 13 (ucast (seg_l var) AND 1) OR
           push_bit 14 (ucast (db var) AND 1) OR push_bit 15 (ucast (seg_g var) AND 1)"
    using assms by (simp add: vmx_segment_access_rights_def)
  show ?thesis
    unfolding e bit_or_iff t bit_shifted one three
    by (rule iffI; elim disjE conjE; simp; linarith?) 
qed

lemma ar_bits_bit: "bit (ar_bits ar k m) n \<longleftrightarrow> n < 8 \<and> bit ar (k + n) \<and> bit m n"
  using bit_imp_le_length [of m n] by (auto simp: ar_bits_def bit_simps)

lemma access_rights_roundtrip:
  assumes w: "wf_seg var"
  shows "seg_of_ar (base var) (limit var) (selector var) (vmx_segment_access_rights var) = var"
proof -
  note ar = access_rights_bits [of var]
  have u: "unusable var = 0" "present var \<noteq> 0" and p: "present var = 1" using w by (simp_all add: wf_seg_def)
  have one: "bit (1 :: u32) k \<longleftrightarrow> k = 0" and three: "bit (3 :: u32) k \<longleftrightarrow> k < 2" and
    fifteen: "bit (15 :: u32) k \<longleftrightarrow> k < 4" for k
    by (auto simp: bit_simps)
  let ?ar = "vmx_segment_access_rights var"
  have f: "ar_bits ?ar 0 15 = seg_type var" "ar_bits ?ar 4 1 = seg_s var" "ar_bits ?ar 5 3 = dpl var"
    "ar_bits ?ar 12 1 = avl var" "ar_bits ?ar 13 1 = seg_l var" "ar_bits ?ar 14 1 = db var"
    "ar_bits ?ar 15 1 = seg_g var" "ar_bits ?ar 16 1 = 0"
    using w small_bits
    by (intro bit_word_eqI; auto simp: ar_bits_bit ar [OF u] one three fifteen wf_seg_def; fastforce)+
  show ?thesis
    by (simp add: seg_of_ar_def f u p)
qed

lemma access_rights_unusable:
  assumes "unusable var \<noteq> 0 \<or> present var = 0"
  shows "unusable (seg_of_ar b l sel (vmx_segment_access_rights var)) = 1"
    "present (seg_of_ar b l sel (vmx_segment_access_rights var)) = 0"
  using assms by (simp_all add: vmx_segment_access_rights_def seg_of_ar_def ar_bits_def)

end
