(* ===== verification/Vmx_Theorems.thy ===== *)
theory Vmx_Theorems
  imports Example_State Segments_Props
begin

text \<open>
  Properties of the hardware layer \<^verbatim>\<open>kvm/vmx.c\<close>: the segment cache and the validity checks of the
  guest state.
\<close>

subsection \<open>Segments\<close>

text \<open>C10: Reading a segment through the cache gives what the VMCS holds (or, in virtual-8086 mode, the saved
  segment), and it changes nothing but the caches, which stay coherent.\<close>

theorem segment_cache_coherent:
  assumes "cache_ok v"
  shows "fst (vmx_get_segment seg v) = seg_view v seg \<and> cache_ok (snd (vmx_get_segment seg v)) \<and>
    vmcs (snd (vmx_get_segment seg v)) = vmcs v \<and> regs (snd (vmx_get_segment seg v)) = regs v \<and>
    seg_view (snd (vmx_get_segment seg v)) seg' = seg_view v seg'"
proof -
  obtain var v' where g: "vmx_get_segment seg v = (var, v')" by fastforce
  note q = get_segment [OF g]
  show ?thesis using q(2) [OF assms] quietD [OF q(1)] quiet_seg_view [OF q(1)] assms by (simp add: g)
qed

text \<open>A vCPU with an empty cache and a code segment in its VMCS.\<close>

definition flat_vcpu :: vcpu where
  "flat_vcpu = example_vcpu\<lparr>vmcs := (\<lambda>_. 0)(GUEST_SELECTOR CS := 0x60, GUEST_LIMIT CS := 0xFFFFFFFF,
     GUEST_AR_BYTES CS := 0xC09B)\<rparr>"

theorem segment_cache_coherent_witness:
  "cache_ok flat_vcpu \<and> fst (vmx_get_segment CS flat_vcpu) = seg_view flat_vcpu CS \<and>
   seg_type (fst (vmx_get_segment CS flat_vcpu)) = 0xB"
proof -
  have c: "cache_ok flat_vcpu" by (simp add: cache_ok_def flat_vcpu_def example_vcpu_def)
  have "seg_type (seg_view flat_vcpu CS) = 0xB"
    by (simp add: seg_view_def seg_at_def seg_of_ar_def ar_bits_def flat_vcpu_def example_vcpu_def)
  with segment_cache_coherent [OF c, of CS CS] c show ?thesis by simp
qed

text \<open>A usable segment written to the VMCS as base, limit, selector and access rights is read back field by
  field.\<close>

theorem segment_roundtrip:
  assumes "wf_seg var"
  shows "seg_of_ar (base var) (limit var) (selector var) (vmx_segment_access_rights var) = var"
  by (rule access_rights_roundtrip [OF assms])

theorem segment_roundtrip_witness:
  "seg_of_ar 0 0xFFFFFFFF 0x60 (vmx_segment_access_rights (set_code_seg example_kvm_segment)) =
   set_code_seg example_kvm_segment"
proof -
  have "wf_seg (set_code_seg example_kvm_segment)" by (simp add: wf_seg_def set_code_seg_def examples)
  from segment_roundtrip [OF this] show ?thesis by (simp add: set_code_seg_def)
qed



end
