(* ===== verification/Spec2Isabelle.thy ===== *)
theory Spec2Isabelle
  imports Access_Theorems Async_Pf Bus_Theorems Example_Msrs Example_Nested Mmio_Theorems Paging_Theorems Scan_Theorems Vmx_Theorems
begin

text \<open>
  IMEE runs a small analysis program, the module, inside the address space of running virtual machines. It
  is a modified KVM: the module is a vCPU of its own VM whose guest physical memory is the memory of the
  VM it looks at, seen without write and execute rights. The source is in \<^verbatim>\<open>src/kvm\<close>; this
  development models its logic as functions on explicit state and proves what makes it correct.

  The parts and how they interact.

  \<^item> \<^verbatim>\<open>kvm/imee.c\<close>, the module manager. A request \<^verbatim>\<open>KVM_IMEE_SETUP\<close> takes page frames for
    extended page tables (theory \<^verbatim>\<open>Frames\<close>), builds one EPT for every other VM (\<^verbatim>\<open>Page_Tree\<close>
    is the abstract tree, \<^verbatim>\<open>Ept\<close> the code, \<^verbatim>\<open>Contexts\<close> and \<^verbatim>\<open>Context_Set\<close> the list
    of contexts) and 32-bit page tables for the module (\<^verbatim>\<open>Local_Paging\<close>, \<^verbatim>\<open>Guest_View\<close>).
    \<^verbatim>\<open>KVM_IMEE_RUN\<close> waits for a sampling interrupt on the processor that runs the target, copies
    what it recorded into the module's vCPU (\<^verbatim>\<open>Vcpu_Setup\<close>) and enters it; the first EPT violation
    moves the code page under the guest's instruction pointer (\<^verbatim>\<open>Remap\<close>); the module's
    \<^verbatim>\<open>VMCALL\<close> ends the scan. \<^verbatim>\<open>Scan_Protocol\<close> has the handlers on the state \<open>world\<close>
    (the globals of \<^verbatim>\<open>imee.c\<close>, the vCPUs, the VMCS loaded on every processor), \<^verbatim>\<open>Scan_Steps\<close>
    their interleaving as the step relation \<open>wstep\<close>, \<^verbatim>\<open>Scan_Runs\<close> its runs, \<^verbatim>\<open>Isolation\<close>
    the invariant of every reachable state and \<^verbatim>\<open>Setup\<close> that the setup establishes it.
  \<^item> \<^verbatim>\<open>kvm/vmx.c\<close>, the hardware layer. \<^verbatim>\<open>Vmcs\<close> has the record \<open>vcpu\<close> (\<^verbatim>\<open>struct
    vcpu_vmx\<close> with the embedded \<^verbatim>\<open>struct kvm_vcpu\<close> and its VMCS as a function from fields) and
    \<open>env\<close> (module parameters and functions outside the repository); \<^verbatim>\<open>Segments\<close> the segment
    cache and the validity checks, \<^verbatim>\<open>Control_Regs\<close> control registers and switched MSRs,
    \<^verbatim>\<open>Events\<close> exceptions, interrupts and NMIs.
  \<^item> \<^verbatim>\<open>kvm/x86.c\<close>, the architectural layer above it: \<^verbatim>\<open>X86_Regs\<close> (queueing exceptions,
    checks of control registers) and \<^verbatim>\<open>Async_Pf\<close> (the table of pending asynchronous faults).
  \<^item> \<^verbatim>\<open>kvm/kvm_main.c\<close>, the generic layer: memory slots (\<^verbatim>\<open>Memslots\<close>, with the invariant in
    \<^verbatim>\<open>Memslots_Props\<close>, the ownership of kernel blocks in \<^verbatim>\<open>Memslots_Heap\<close> and the request
    as a whole in \<^verbatim>\<open>Memslots_Region\<close>) and access to guest memory with the dirty log
    (\<^verbatim>\<open>Guest_Memory\<close>, \<^verbatim>\<open>Guest_Memory_Props\<close>, \<^verbatim>\<open>Dirty_Log\<close>).
    Device buses are \<^verbatim>\<open>Io_Bus\<close> (ordering, search, dispatch, registration), \<^verbatim>\<open>Io_Bus_Props\<close> and
    \<^verbatim>\<open>Bus_Theorems\<close>.
  \<^item> Emulated accesses of \<^verbatim>\<open>kvm/x86.c\<close>: \<^verbatim>\<open>Mmio\<close> has guest memory by virtual address, the
    fragments that go to user space and back, and ports; \<^verbatim>\<open>Mmio_Props\<close>, \<^verbatim>\<open>Mmio_Access\<close> and
    \<^verbatim>\<open>Mmio_Theorems\<close> show that user space sees every byte once and the instruction gets the bytes it answers.
  \<^item> Time and registers of \<^verbatim>\<open>kvm/x86.c\<close> and \<^verbatim>\<open>kvm/vmx.c\<close>: \<^verbatim>\<open>Clock\<close> (rate
    scaling, TSC offsets, clock pages, stolen time) with \<^verbatim>\<open>Clock_Theorems\<close>, \<^verbatim>\<open>Msrs\<close> (every branch
    of reading and writing model-specific registers, Hyper-V among them; the record \<open>msr_vcpu\<close> extends that of the
    clock) with \<^verbatim>\<open>Msr_Theorems\<close>.
  \<^item> Set-up of the hardware layer: \<^verbatim>\<open>Vmx_Controls\<close> (\<^verbatim>\<open>setup_vmcs_config\<close>,
    \<^verbatim>\<open>hardware_setup\<close>, the controls of a vCPU, the capabilities shown to a nested hypervisor) with
    \<^verbatim>\<open>Control_Theorems\<close>; \<^verbatim>\<open>Vmx_Bitmaps\<close> (identifiers of virtual processors, the MSR, port and
    field bitmaps, \<^verbatim>\<open>vmx_init\<close> and \<^verbatim>\<open>vmx_exit\<close>) with \<^verbatim>\<open>Vmx_Bitmap_Theorems\<close>.
  \<^item> Nested VMX: \<^verbatim>\<open>Vmcs_Fields\<close> has the layout of the nested VMCS in guest memory, its field table and
    the copies to and from the shadow VMCS, \<^verbatim>\<open>Vmcs_Field_Props\<close> and \<^verbatim>\<open>Vmcs_Field_Theorems\<close> that fields
    do not overlap, are read back and survive the copies. \<^verbatim>\<open>Nested_Vmx\<close> has the VMX instructions on the state
    \<open>nested_vcpu\<close> (\<^verbatim>\<open>struct nested_vmx\<close>) and the checks of an entry; \<^verbatim>\<open>Nested_Props\<close> carries
    an invariant through the handlers and \<^verbatim>\<open>Nested_Runs\<close> through every run of a nested hypervisor.
    \<^verbatim>\<open>Nested_Exits\<close> decides who handles an exit, \<^verbatim>\<open>Nested_Exit_Theorems\<close> compares that with the rules
    of the architecture.
  A function of the code is a function of the same name on the state it changes; \<open>None\<close> is a fault of the
  host kernel (a NULL dereference, an access out of bounds) and an \<open>int\<close> result the C return value, with
  \<^verbatim>\<open>-EINVAL\<close> written -22 and so on. Integers have the width of their C type. Loops with a bound
  are recursive functions with a measure; \<^verbatim>\<open>kvm_add_async_pf_gfn\<close>, which may not end, is a
  \<^theory_text>\<open>partial_function\<close>, and that it ends is a property. The wait for the
  sampling interrupt is the counting loop of the source with its limit of 10,000,000.

  The properties. \<^verbatim>\<open>Spec2Isabelle\<close> holds those that span components: isolation (the module can write
  only its own frames and execute only its code), the address space it sees, and that a scan gets under way.
  \<^verbatim>\<open>Paging_Theorems\<close>, \<^verbatim>\<open>Scan_Theorems\<close>, \<^verbatim>\<open>Vmx_Theorems\<close>,
  \<^verbatim>\<open>Memory_Theorems\<close>, \<^verbatim>\<open>Access_Theorems\<close> and the theories named above hold those of one component.
  \<^verbatim>\<open>Example_State\<close>, \<^verbatim>\<open>Example_Msrs\<close> and \<^verbatim>\<open>Example_Nested\<close> have the concrete states at which
  they are evaluated. Interfaces are locales:
  a pool of distinct frames, a mapping operation with room for tables, a bounded
  multiset, a search through a table whose entries are in blocks, an emulator of reads and
  writes; each is interpreted on the model's definitions.

  Parameters. Code outside the repository is an argument: the page allocators (which return aligned, disjoint
  blocks), the kernel's paging macros, the memory allocator, MMU and IOMMU of the slots (\<open>mem_lib_ok\<close>),
  copies to and from user space (\<open>user_lib_ok\<close>), the emulator, the local APIC and the CPUID tables
  (\<open>env\<close>, \<open>xenv\<close>). The pool has 4095 usable frames, so the setup theorems ask that the contexts
  fit into it (\<open>vms_fit\<close>).

  Not modelled: locking and RCU (every handler is one step), printing and time measurement, file descriptors
  and reference counts of VMs, page pinning and MMU notifiers, the master clock (\<^verbatim>\<open>pvclock_update_vm_gtod_copy\<close>),
  the glue to the instruction emulator, filling the VMCS of a nested guest and saving its state at an exit
  (\<^verbatim>\<open>prepare_vmcs02\<close>, \<^verbatim>\<open>prepare_vmcs12\<close>: the model of the VMCS has only the fields that the
  rest of the code reads or writes), the loading of a VMCS on a processor, the handlers of most exits, the assembly of the VM entry, the code of
  \<^verbatim>\<open>imee.c\<close> that nothing calls (\<^verbatim>\<open>fix_lib_funcs\<close>, \<^verbatim>\<open>walk_gpt\<close> and the like), the
  user space drivers, and the inline assembly of the scan agents.
\<close>

subsection \<open>Isolation of the guests\<close>

text \<open>C1: After a successful \<^verbatim>\<open>KVM_IMEE_SETUP\<close>, and whatever the processors do afterwards
  (scans, sampling interrupts, EPT violations, guest exits, stop requests), the EPT of every context lets
  the module write only to its own five frames and execute only its own code frame; memory of the guests is
  never writable or executable for it.\<close>

theorem scans_isolated:
  assumes "fresh_world K argp w" "vms_fit K pid vms w"
    and "kvm_imee_get_guest_context K pid argp vms n w = Some (0, w0)"
    and "reachable K n w0 (p, w')" "c \<in> set (contexts (im w'))" "x < 2 ^ 48"
  shows "(ept_view (c, hst (im w')) x AND 2 \<noteq> 0 \<longrightarrow>
      ept_view (c, hst (im w')) x AND NOT EPT_MASK \<in> module_frames (im w')) \<and>
    (ept_view (c, hst (im w')) x AND 4 \<noteq> 0 \<longrightarrow>
      ept_view (c, hst (im w')) x AND NOT EPT_MASK = code_hpa (im w'))"
proof (rule setup_sys_ok [OF assms(1,2), of n])
  fix w1 org
  assume "kvm_imee_get_guest_context K pid argp vms n w = Some (0, w1)" "sys_ok org (Stopped, w1)"
    "unarmed (Stopped, w1)"
  then have "sys_ok org (p, w')" using reachable_sys_ok [of K n w0 "(p, w')" org] assms(3,4) by simp
  from sys_ok_isolated [OF this assms(5,6)] show ?thesis by (simp add: own_rights_def)
qed

text \<open>The property at the example: one VM, right after the setup.\<close>

theorem scans_isolated_witness:
  "\<exists>w0 c. reachable example_kenv 0 w0 (Stopped, w0) \<and> c \<in> set (contexts (im w0)) \<and>
     (ept_view (c, hst (im w0)) 0 AND 2 \<noteq> 0 \<longrightarrow>
       ept_view (c, hst (im w0)) 0 AND NOT EPT_MASK \<in> module_frames (im w0)) \<and>
     (ept_view (c, hst (im w0)) 0 AND 4 \<noteq> 0 \<longrightarrow>
       ept_view (c, hst (im w0)) 0 AND NOT EPT_MASK = code_hpa (im w0))"
proof (rule example_setup)
  fix w0 c
  assume s: "kvm_imee_get_guest_context example_kenv 50 example_arg_blk [example_vm] 0 guest_world = Some (0, w0)"
    and c: "c \<in> set (contexts (im w0))"
  have r: "reachable example_kenv 0 w0 (Stopped, w0)" by (simp add: reachable_def)
  show ?thesis
    using scans_isolated [OF example_fresh example_fit s r c, of 0] r c by auto
qed

subsection \<open>The address space of the module\<close>

text \<open>C3: \<^verbatim>\<open>KVM_IMEE_SETUP\<close> gives every VM of another process exactly one context, and in each of them
  the module's address space is the same: page 0 is its data page, readable and writable, and every other page
  of the 4 GB is its code page, executable only.\<close>

theorem setup_address_space:
  assumes "fresh_world K argp w" "vms_fit K pid vms w"
  shows "\<exists>w'. kvm_imee_get_guest_context K pid argp vms n w = Some (0, w') \<and>
    ctx_kvm ` set (contexts (im w')) = vm_id ` set (introspected pid vms) \<and>
    distinct (map ctx_kvm (contexts (im w'))) \<and>
    (\<forall>c \<in> set (contexts (im w')). \<forall>va.
      translate (\<lambda>x. ept_view (c, hst (im w')) x) (mem32 (im w')) (ucast PD_GPA) va =
        Some (if drop_bit 12 va = 0 then (data_hpa (im w'), 3) else (code_hpa (im w'), 4)))"
proof (rule setup_sys_ok [OF assms, of n])
  fix w' org
  assume a: "kvm_imee_get_guest_context K pid argp vms n w = Some (0, w')" "sys_ok org (Stopped, w')"
    "ctx_kvm ` set (contexts (im w')) = vm_id ` set (introspected pid vms)"
    "\<forall>c \<in> set (contexts (im w')). \<forall>va.
      translate (\<lambda>x. ept_view (c, hst (im w')) x) (mem32 (im w')) (ucast PD_GPA) va =
        Some (if drop_bit 12 va = 0 then (data_hpa (im w'), 3) else (code_hpa (im w'), 4))"
  have "distinct (map ctx_kvm (contexts (im w')))"
    using a(2) by (simp add: sys_ok_def ctxs_ok_def Let_def)
  with a show ?thesis by blast
qed

theorem setup_address_space_witness:
  "\<exists>w'. kvm_imee_get_guest_context example_kenv 50 example_arg_blk [example_vm] 0 guest_world = Some (0, w') \<and>
     ctx_kvm ` set (contexts (im w')) = {1}"
proof -
  have "vm_id ` set (introspected 50 [example_vm]) = {1}"
    by (simp add: introspected_def example_vm_def)
  then show ?thesis using setup_address_space [OF example_fresh example_fit, of 0] by fastforce
qed

subsection \<open>A scan\<close>

text \<open>C4: In every reachable state, the EPT of a context differs from the one the setup built (the
  module's pages, and the guest's entries without write and execute rights) at one page at most: the page the
  code was moved under.\<close>

theorem scans_keep_view:
  assumes "fresh_world K argp w" "vms_fit K pid vms w"
    and "kvm_imee_get_guest_context K pid argp vms n w = Some (0, w0)"
    and "reachable K n w0 (p, w')" "c \<in> set (contexts (im w'))"
    and "v \<in> set (introspected pid vms)" "ctx_kvm c = vm_id v"
  shows "\<exists>pg. \<forall>x. x < 2 ^ 48 \<and> gpage x \<noteq> pg \<longrightarrow>
    ept_view (c, hst (im w')) x = imee_view (im w0) (ept_mem (setup_host K w)) v x"
proof (rule setup_sys_ok [OF assms(1,2), of n])
  fix w1 org
  assume a: "kvm_imee_get_guest_context K pid argp vms n w = Some (0, w1)" "sys_ok org (Stopped, w1)"
    "unarmed (Stopped, w1)"
    and o: "org = org_of (im w1) (ept_mem (setup_host K w)) (introspected pid vms)"
  have w1: "w1 = w0" using a(1) assms(3) by simp
  have d: "distinct (map vm_id (introspected pid vms))"
    using assms(2) by (simp add: vms_fit_def introspected_def distinct_map_filter)
  have org: "org (ctx_kvm c) (gpage x) = imee_view (im w0) (ept_mem (setup_host K w)) v x" if "x < 2 ^ 48" for x
    unfolding o w1 using find_id [OF d assms(6)] imee_view_page [OF that] assms(7) by (simp add: org_of_def)
  have "sys_ok org (p, w')" using reachable_sys_ok [of K n w0 "(p, w')" org] assms(4) a w1 by simp
  then have "remapped (org (ctx_kvm c)) c (hst (im w'))"
    using assms(5) by (simp add: sys_ok_def Let_def ctx_inv_def)
  then obtain pg where "\<forall>x < 2 ^ 48. gpage x \<noteq> pg \<longrightarrow> ept_view (c, hst (im w')) x = org (ctx_kvm c) (gpage x)"
    unfolding remapped_def by (cases "code_ept_pte_p c") auto
  with org show ?thesis by auto
qed

theorem scans_keep_view_witness:
  "\<exists>w0 c pg. reachable example_kenv 0 w0 (Stopped, w0) \<and> c \<in> set (contexts (im w0)) \<and>
     (\<forall>x. x < 2 ^ 48 \<and> gpage x \<noteq> pg \<longrightarrow> ept_view (c, hst (im w0)) x =
       imee_view (im w0) (ept_mem (setup_host example_kenv guest_world)) example_vm x)"
proof (rule example_setup)
  fix w0 c
  assume s: "kvm_imee_get_guest_context example_kenv 50 example_arg_blk [example_vm] 0 guest_world = Some (0, w0)"
    and c: "c \<in> set (contexts (im w0))" "ctx_kvm c = 1"
  have r: "reachable example_kenv 0 w0 (Stopped, w0)" by (simp add: reachable_def)
  have v: "example_vm \<in> set (introspected 50 [example_vm])" "ctx_kvm c = vm_id example_vm"
    using c(2) by (simp_all add: introspected_def example_vm_def)
  show ?thesis
    using scans_keep_view [OF example_fresh example_fit s r c(1) v] r c(1) by blast
qed





end
